(* ===== verification/Prelude.thy ===== *)
theory Prelude imports Main "HOL-Library.Word" begin

text \<open>
  The vocabulary shared by every component: the outcome of a Rust computation (a value, an error
  or a panic), programs over a mutable state that may fail, the machine integers the code uses
  with their big-endian byte forms, and the decimal text of an unsigned integer as
  \<^verbatim>\<open>core::fmt\<close> prints it and \<^verbatim>\<open>FromStr\<close> reads it.

  A Rust \<^verbatim>\<open>String\<close> is modelled as the list of its UTF-8 bytes (an Isabelle \<open>string\<close>), so
  \<open>length\<close> is \<^verbatim>\<open>str::len\<close>.
\<close>

section \<open>Collections of facts\<close>

named_theorems prog_simps \<open>one-step equations of the program combinators\<close>
named_theorems prog_ok \<open>inversions of a program that returned a value\<close>

section \<open>Outcomes and state-passing programs\<close>

type_synonym u8 = "8 word"
type_synonym u64 = "64 word"
type_synonym bytes = "u8 list"

text \<open>
  \<open>Panic\<close> is an unwind: an \<^verbatim>\<open>unwrap\<close> of nothing, an index out of range, a failed
  \<^verbatim>\<open>assert!\<close>. \<open>Err\<close> is a \<^verbatim>\<open>Result::Err\<close> passed to the caller.
\<close>

datatype ('e, 'a) outcome = Ok 'a | Err 'e | Panic

text \<open>
  A method with a \<^verbatim>\<open>&mut self\<close> receiver of type \<open>'s\<close>: the state it leaves is given on every
  outcome, because the mutations made before an early return stay.
\<close>

type_synonym ('s, 'e, 'a) prog = "'s \<Rightarrow> ('e, 'a) outcome \<times> 's"

definition ret :: "'a \<Rightarrow> ('s, 'e, 'a) prog" where
  "ret x = (\<lambda>s. (Ok x, s))"

definition raise :: "'e \<Rightarrow> ('s, 'e, 'a) prog" where
  "raise e = (\<lambda>s. (Err e, s))"

definition panic :: "('s, 'e, 'a) prog" where
  "panic = (\<lambda>s. (Panic, s))"

definition seqp :: "('s, 'e, 'a) prog \<Rightarrow> ('a \<Rightarrow> ('s, 'e, 'b) prog) \<Rightarrow> ('s, 'e, 'b) prog" where
  \<comment> \<open>sequencing: the \<^verbatim>\<open>?\<close> operator and the statement order\<close>
  "seqp m f = (\<lambda>s. case m s of
      (Ok x, s') \<Rightarrow> f x s'
    | (Err e, s') \<Rightarrow> (Err e, s')
    | (Panic, s') \<Rightarrow> (Panic, s'))"

definition asks :: "('s \<Rightarrow> 'a) \<Rightarrow> ('s, 'e, 'a) prog" where
  "asks f = (\<lambda>s. (Ok (f s), s))"

definition modify :: "('s \<Rightarrow> 's) \<Rightarrow> ('s, 'e, unit) prog" where
  "modify f = (\<lambda>s. (Ok (), f s))"

definition ok_or :: "'e \<Rightarrow> 'a option \<Rightarrow> ('s, 'e, 'a) prog" where
  "ok_or e x = (case x of None \<Rightarrow> raise e | Some y \<Rightarrow> ret y)"

definition unwrap :: "'a option \<Rightarrow> ('s, 'e, 'a) prog" where
  \<comment> \<open>\<^verbatim>\<open>Option::unwrap\<close>\<close>
  "unwrap x = (case x of None \<Rightarrow> panic | Some y \<Rightarrow> ret y)"

definition unwrap_result :: "'f + 'a \<Rightarrow> ('s, 'e, 'a) prog" where
  \<comment> \<open>\<^verbatim>\<open>Result::unwrap\<close>\<close>
  "unwrap_result x = (case x of Inl _ \<Rightarrow> panic | Inr y \<Rightarrow> ret y)"

definition lift_result :: "('f \<Rightarrow> 'e) \<Rightarrow> 'f + 'a \<Rightarrow> ('s, 'e, 'a) prog" where
  \<comment> \<open>a pure \<^verbatim>\<open>Result\<close> under \<^verbatim>\<open>?\<close>, its error converted by \<^verbatim>\<open>From\<close>\<close>
  "lift_result f x = (case x of Inl e \<Rightarrow> raise (f e) | Inr y \<Rightarrow> ret y)"

definition index :: "'a list \<Rightarrow> nat \<Rightarrow> ('s, 'e, 'a) prog" where
  \<comment> \<open>\<^verbatim>\<open>xs[i]\<close>, which panics out of range\<close>
  "index xs i = (if i < length xs then ret (xs ! i) else panic)"

fun mapp :: "('a \<Rightarrow> ('s, 'e, 'b) prog) \<Rightarrow> 'a list \<Rightarrow> ('s, 'e, 'b list) prog" where
  \<comment> \<open>\<^verbatim>\<open>iter().map(f).collect::<Result<Vec<_>, _>>()\<close>: stops at the first error\<close>
  "mapp f [] = ret []"
| "mapp f (x # xs) = seqp (f x) (\<lambda>y. seqp (mapp f xs) (\<lambda>ys. ret (y # ys)))"

lemma prog_eval [simp, prog_simps]:
  "ret x s = (Ok x, s)"
  "raise e s = (Err e, s)"
  "panic s = (Panic, s)"
  "asks f s = (Ok (f s), s)"
  "modify g s = (Ok (), g s)"
  by (simp_all add: ret_def raise_def panic_def asks_def modify_def)

lemma seqp_eval [simp, prog_simps]:
  "m s = (Ok x, s') \<Longrightarrow> seqp m f s = f x s'"
  "m s = (Err e, s') \<Longrightarrow> seqp m f s = (Err e, s')"
  "m s = (Panic, s') \<Longrightarrow> seqp m f s = (Panic, s')"
  by (simp_all add: seqp_def)

lemma seqp_assoc: "seqp (seqp m f) g = seqp m (\<lambda>x. seqp (f x) g)"
  by (rule ext) (simp add: seqp_def split: outcome.splits prod.splits)

lemma seqp_ret [simp]: "seqp (ret x) f = f x"
  by (rule ext) (simp add: seqp_def)

lemma seqp_raise [simp]: "seqp (raise e) f = raise e"
  by (rule ext) (simp add: seqp_def)

lemma seqp_panic [simp]: "seqp panic f = panic"
  by (rule ext) (simp add: seqp_def)

lemma option_prog [simp, prog_simps]:
  "ok_or e None = raise e" "ok_or e (Some x) = ret x"
  "unwrap None = panic" "unwrap (Some x) = ret x"
  by (simp_all add: ok_or_def unwrap_def)

lemma result_prog [simp, prog_simps]:
  "unwrap_result (Inl e) = panic" "unwrap_result (Inr x) = ret x"
  "lift_result f (Inl e) = raise (f e)" "lift_result f (Inr x) = ret x"
  by (simp_all add: unwrap_result_def lift_result_def)

lemma index_cons [simp]: "index (x # xs) 0 = ret x" "index [] i = panic"
  by (simp_all add: index_def)

lemma seqp_Ok [prog_ok]:
  "seqp m f s = (Ok y, s'') \<longleftrightarrow> (\<exists>x s'. m s = (Ok x, s') \<and> f x s' = (Ok y, s''))"
  by (auto simp: seqp_def split: prod.splits outcome.splits)

lemma prims_Ok [prog_ok]:
  "ret x s = (Ok y, s') \<longleftrightarrow> y = x \<and> s' = s"
  "raise e s = (Ok z, s') \<longleftrightarrow> False"
  "panic s = (Ok w, s') \<longleftrightarrow> False"
  "asks g s = (Ok v, s') \<longleftrightarrow> v = g s \<and> s' = s"
  "modify h s = (Ok u, s') \<longleftrightarrow> s' = h s"
  by auto

lemma option_Ok [prog_ok]:
  "ok_or e x s = (Ok y, s') \<longleftrightarrow> x = Some y \<and> s' = s"
  "unwrap x s = (Ok y, s') \<longleftrightarrow> x = Some y \<and> s' = s"
  by (cases x; auto)+

lemma result_Ok [prog_ok]:
  "unwrap_result r s = (Ok y, s') \<longleftrightarrow> r = Inr y \<and> s' = s"
  "lift_result f r s = (Ok y, s') \<longleftrightarrow> r = Inr y \<and> s' = s"
  by (cases r; auto)+

lemma index_Ok [prog_ok]:
  "index xs i s = (Ok y, s') \<longleftrightarrow> i < length xs \<and> y = xs ! i \<and> s' = s"
  by (auto simp: index_def)

section \<open>Pure results\<close>

fun traverse :: "('a \<Rightarrow> 'e + 'b) \<Rightarrow> 'a list \<Rightarrow> 'e + 'b list" where
  \<comment> \<open>\<^verbatim>\<open>into_iter().map(f).collect::<Result<_, _>>()\<close>: the first error wins\<close>
  "traverse f [] = Inr []"
| "traverse f (x # xs) =
     (case f x of Inl e \<Rightarrow> Inl e | Inr y \<Rightarrow> map_sum id (Cons y) (traverse f xs))"

lemma traverse_map:
  "\<forall>x \<in> set xs. f (g x) = Inr (h x) \<Longrightarrow> traverse f (map g xs) = Inr (map h xs)"
  by (induction xs) auto

lemma find_SomeD: "find P xs = Some x \<Longrightarrow> P x \<and> x \<in> set xs"
  by (auto simp: find_Some_iff)

section \<open>Big-endian bytes\<close>

fun be_bytes :: "nat \<Rightarrow> nat \<Rightarrow> bytes" where
  \<comment> \<open>the low \<open>8 * k\<close> bits of \<open>n\<close>, most significant byte first\<close>
  "be_bytes 0 n = []"
| "be_bytes (Suc k) n = be_bytes k (n div 256) @ [of_nat n]"

definition be_value :: "bytes \<Rightarrow> nat" where
  "be_value bs = foldl (\<lambda>acc b. 256 * acc + unat b) 0 bs"

lemma length_be_bytes [simp]: "length (be_bytes k n) = k"
  by (induction k arbitrary: n) auto

lemma be_value_snoc [simp]: "be_value (bs @ [b]) = 256 * be_value bs + unat b"
  by (simp add: be_value_def)

lemma be_value_Nil [simp]: "be_value [] = 0"
  by (simp add: be_value_def)

lemma unat_u8_bound: "unat (b :: u8) < 256"
  using unsigned_less [where 'a = nat and w = b] by simp

lemma unat_u64_bound: "unat (w :: u64) < 2 ^ 64"
  using unsigned_less [where 'a = nat and w = w] by simp

lemma unat_of_nat_u8: "unat (of_nat n :: u8) = n mod 256"
  by (simp add: unat_of_nat)

lemma be_value_be_bytes: "n < 256 ^ k \<Longrightarrow> be_value (be_bytes k n) = n"
proof (induction k arbitrary: n)
  case 0
  then show ?case by simp
next
  case (Suc k)
  then have "n div 256 < 256 ^ k"
    by (simp add: less_mult_imp_div_less mult.commute)
  then show ?case
    by (simp add: Suc.IH unat_of_nat_u8)
qed

lemma be_bytes_be_value: "be_bytes (length bs) (be_value bs) = bs"
proof (induction bs rule: rev_induct)
  case Nil
  then show ?case by simp
next
  case (snoc b bs)
  have "unat b < 256" using unat_u8_bound [of b] by simp
  moreover have "(of_nat (256 * be_value bs + unat b) :: u8) = b"
    by (simp only: word_unat_eq_iff unat_of_nat_u8) (use calculation in simp)
  ultimately show ?case
    using snoc.IH by simp
qed

lemma be_value_bound: "be_value bs < 256 ^ length bs"
proof (induction bs rule: rev_induct)
  case Nil
  then show ?case by simp
next
  case (snoc b bs)
  then show ?case using unat_u8_bound [of b] by simp
qed

definition u64_to_be_bytes :: "u64 \<Rightarrow> bytes" where
  "u64_to_be_bytes w = be_bytes 8 (unat w)"

definition u64_from_be_bytes :: "bytes \<Rightarrow> u64 option" where
  \<comment> \<open>\<^verbatim>\<open>bytes.try_into::<[u8; 8]>()\<close> and then \<^verbatim>\<open>u64::from_be_bytes\<close>\<close>
  "u64_from_be_bytes bs = (if length bs = 8 then Some (of_nat (be_value bs)) else None)"

lemma length_u64_to_be_bytes [simp]: "length (u64_to_be_bytes w) = 8"
  by (simp add: u64_to_be_bytes_def)

lemma u64_from_to_be_bytes [simp]: "u64_from_be_bytes (u64_to_be_bytes w) = Some w"
proof -
  have "unat w < 256 ^ 8" using unat_u64_bound [of w] by simp
  then show ?thesis
    by (simp add: u64_from_be_bytes_def u64_to_be_bytes_def be_value_be_bytes)
qed

lemma u64_to_from_be_bytes: "u64_from_be_bytes bs = Some w \<Longrightarrow> u64_to_be_bytes w = bs"
proof -
  assume a: "u64_from_be_bytes bs = Some w"
  then have l: "length bs = 8" and w: "w = of_nat (be_value bs)"
    by (auto simp: u64_from_be_bytes_def split: if_splits)
  have "be_value bs < 2 ^ 64" using be_value_bound [of bs] l by simp
  then have "unat w = be_value bs" using w by (simp add: unat_of_nat)
  then show ?thesis
    using l be_bytes_be_value [of bs] by (simp add: u64_to_be_bytes_def)
qed

lemma u64_to_be_bytes_inject [simp]: "u64_to_be_bytes v = u64_to_be_bytes w \<longleftrightarrow> v = w"
  by (metis u64_from_to_be_bytes option.inject)

definition checked_add_u64 :: "u64 \<Rightarrow> u64 \<Rightarrow> u64 option" where
  "checked_add_u64 a b = (if unat a + unat b < 2 ^ 64 then Some (a + b) else None)"

lemma checked_add_u64_unat:
  "checked_add_u64 a b = Some c \<Longrightarrow> unat c = unat a + unat b"
  by (auto simp: checked_add_u64_def unat_word_ariths split: if_splits)

end
