(* ===== verification/Text_Format.thy ===== *)
theory Text_Format imports Prelude begin

text \<open>
  Text as the code prints and reads it: the decimal form of an unsigned integer
  (\<^verbatim>\<open>Display\<close> and \<^verbatim>\<open>FromStr\<close> of \<^verbatim>\<open>u64\<close> and \<^verbatim>\<open>NonZeroU64\<close>, with the error kinds of
  \<^verbatim>\<open>core::num::IntErrorKind\<close>), \<^verbatim>\<open>str::split\<close> and \<^verbatim>\<open>str::split_once\<close> on one character, and the
  facts that printing and reading back, or joining and splitting, are inverse.
\<close>

section \<open>Decimal digits\<close>

definition digit_char :: "nat \<Rightarrow> char" where
  "digit_char d = char_of (48 + d)"

definition is_digit :: "char \<Rightarrow> bool" where
  "is_digit c \<longleftrightarrow> 48 \<le> (of_char c :: nat) \<and> (of_char c :: nat) \<le> 57"

definition digit_value :: "char \<Rightarrow> nat" where
  "digit_value c = of_char c - 48"

lemma digit_char_simps [simp]:
  assumes "d < 10"
  shows "is_digit (digit_char d)" and "digit_value (digit_char d) = d"
  using assms by (simp_all add: digit_char_def is_digit_def digit_value_def)

fun show_nat :: "nat \<Rightarrow> string" where
  "show_nat n = (if n < 10 then [digit_char n] else show_nat (n div 10) @ [digit_char (n mod 10)])"

declare show_nat.simps [simp del]

lemma show_nat_not_Nil [simp]: "show_nat n \<noteq> []"
  by (subst show_nat.simps) simp

lemma show_nat_digits: "c \<in> set (show_nat n) \<Longrightarrow> is_digit c"
proof (induction n rule: show_nat.induct)
  case (1 n)
  then show ?case
    by (subst (asm) (2) show_nat.simps) (auto split: if_splits)
qed

lemma length_show_nat: "n < 10 ^ k \<Longrightarrow> 0 < k \<Longrightarrow> length (show_nat n) \<le> k"
proof (induction n arbitrary: k rule: show_nat.induct)
  case (1 n)
  show ?case
  proof (cases "n < 10")
    case True
    with 1 show ?thesis by (subst show_nat.simps) simp
  next
    case False
    with 1 obtain j where j: "k = Suc j" "0 < j"
      by (cases k; cases "k - 1") auto
    with 1 have "n div 10 < 10 ^ j"
      by (simp add: less_mult_imp_div_less mult.commute)
    with False 1 j show ?thesis by (subst show_nat.simps) simp
  qed
qed

section \<open>Reading an unsigned integer\<close>

datatype int_error = IntEmpty | InvalidDigit | PosOverflow | IntZero

fun parse_digits :: "nat \<Rightarrow> nat \<Rightarrow> string \<Rightarrow> int_error + nat" where
  "parse_digits lim acc [] = Inr acc"
| "parse_digits lim acc (c # cs) =
     (if \<not> is_digit c then Inl InvalidDigit
      else if lim \<le> acc * 10 + digit_value c then Inl PosOverflow
      else parse_digits lim (acc * 10 + digit_value c) cs)"

definition parse_uint :: "nat \<Rightarrow> string \<Rightarrow> int_error + nat" where
  \<comment> \<open>\<^verbatim>\<open>from_str_radix(s, 10)\<close> of the unsigned type with \<open>lim\<close> values: a leading plus sign is
      read over, a lone sign is an invalid digit\<close>
  "parse_uint lim s =
     (if s = [] then Inl IntEmpty
      else if s = ''+'' \<or> s = ''-'' then Inl InvalidDigit
      else parse_digits lim 0 (if hd s = CHR ''+'' then tl s else s))"

definition show_u64 :: "u64 \<Rightarrow> string" where
  "show_u64 w = show_nat (unat w)"

definition parse_u64 :: "string \<Rightarrow> int_error + u64" where
  "parse_u64 s = map_sum id of_nat (parse_uint (2 ^ 64) s)"

definition parse_nonzero_u64 :: "string \<Rightarrow> int_error + u64" where
  "parse_nonzero_u64 s =
     (case parse_u64 s of
        Inl e \<Rightarrow> Inl e
      | Inr n \<Rightarrow> if n = 0 then Inl IntZero else Inr n)"

lemma parse_digits_append:
  "parse_digits lim acc (cs @ [c]) =
     (case parse_digits lim acc cs of
        Inl e \<Rightarrow> Inl e
      | Inr v \<Rightarrow> parse_digits lim v [c])"
  by (induction cs arbitrary: acc) auto

lemma parse_digits_show: "n < lim \<Longrightarrow> parse_digits lim 0 (show_nat n) = Inr n"
proof (induction n rule: show_nat.induct)
  case (1 n)
  show ?case
  proof (cases "n < 10")
    case True
    with 1 show ?thesis by (subst show_nat.simps) simp
  next
    case False
    with 1 have "parse_digits lim 0 (show_nat (n div 10)) = Inr (n div 10)"
      by auto
    with False 1 show ?thesis
      by (subst show_nat.simps) (simp add: parse_digits_append mult.commute)
  qed
qed

lemma parse_uint_digits:
  assumes "s \<noteq> []" and "\<forall>c \<in> set s. is_digit c"
  shows "parse_uint lim s = parse_digits lim 0 s"
proof -
  from assms have "is_digit (hd s)" by simp
  then have "hd s \<noteq> CHR ''+''" and "hd s \<noteq> CHR ''-''"
    by (auto simp: is_digit_def)
  with assms show ?thesis by (auto simp: parse_uint_def)
qed

lemma parse_show_u64 [simp]: "parse_u64 (show_u64 w) = Inr w"
proof -
  have "parse_uint (2 ^ 64) (show_nat (unat w)) = Inr (unat w)"
    using show_nat_digits unat_u64_bound [of w]
    by (subst parse_uint_digits) (auto intro: parse_digits_show)
  then show ?thesis by (simp add: parse_u64_def show_u64_def)
qed

lemma parse_show_nonzero_u64: "w \<noteq> 0 \<Longrightarrow> parse_nonzero_u64 (show_u64 w) = Inr w"
  by (simp add: parse_nonzero_u64_def)

lemma show_u64_inject [simp]: "show_u64 v = show_u64 w \<longleftrightarrow> v = w"
  by (metis parse_show_u64 sum.inject(2))

lemma show_u64_digits: "c \<in> set (show_u64 w) \<Longrightarrow> is_digit c"
  by (auto simp: show_u64_def dest: show_nat_digits)

lemma not_in_show_u64 [simp]:
  "CHR ''/'' \<notin> set (show_u64 w)" "CHR ''-'' \<notin> set (show_u64 w)"
  by (auto dest!: show_u64_digits simp: is_digit_def)

lemma show_u64_not_Nil [simp]: "show_u64 w \<noteq> []"
  by (simp add: show_u64_def)

lemma length_show_u64: "length (show_u64 w) \<le> 20"
  unfolding show_u64_def using unat_u64_bound [of w] by (intro length_show_nat) simp_all

section \<open>Splitting and joining\<close>

fun split_on :: "char \<Rightarrow> string \<Rightarrow> string list" where
  "split_on d [] = [[]]"
| "split_on d (c # cs) =
     (if c = d then [] # split_on d cs
      else (case split_on d cs of [] \<Rightarrow> [[c]] | s # ss \<Rightarrow> (c # s) # ss))"

fun split_once :: "char \<Rightarrow> string \<Rightarrow> (string \<times> string) option" where
  "split_once d [] = None"
| "split_once d (c # cs) =
     (if c = d then Some ([], cs)
      else map_option (\<lambda>(l, r). (c # l, r)) (split_once d cs))"

fun join_with :: "char \<Rightarrow> string list \<Rightarrow> string" where
  "join_with d [] = []"
| "join_with d [s] = s"
| "join_with d (s # ss) = s @ d # join_with d ss"

lemma split_on_not_Nil [simp]: "split_on d s \<noteq> []"
  by (induction s) (auto split: list.splits)

lemma split_on_plain: "d \<notin> set s \<Longrightarrow> split_on d s = [s]"
  by (induction s) auto

lemma split_on_append: "d \<notin> set s \<Longrightarrow> split_on d (s @ d # t) = s # split_on d t"
  by (induction s) auto

lemma split_on_join:
  "ss \<noteq> [] \<Longrightarrow> \<forall>s \<in> set ss. d \<notin> set s \<Longrightarrow> split_on d (join_with d ss) = ss"
  by (induction d ss rule: join_with.induct) (auto simp: split_on_plain split_on_append)

lemma split_once_append: "d \<notin> set l \<Longrightarrow> split_once d (l @ d # r) = Some (l, r)"
  by (induction l) auto

section \<open>Hexadecimal constants\<close>

definition hex_digit :: "char \<Rightarrow> nat" where
  "hex_digit c = (let n = of_char c in if n < 58 then n - 48 else if n < 71 then n - 55 else n - 87)"

fun hex_literal :: "string \<Rightarrow> bytes" where
  \<comment> \<open>the macro \<^verbatim>\<open>hex_literal::hex\<close>, on hexadecimal digits\<close>
  "hex_literal (a # b # r) = of_nat (16 * hex_digit a + hex_digit b) # hex_literal r"
| "hex_literal _ = []"

end
