(* ===== verification/Ids.thy ===== *)
theory Ids imports Text_Format begin

text \<open>
  The validated identifiers of \<^verbatim>\<open>lib/unionlabs/src/validated.rs\<close> and
  \<^verbatim>\<open>lib/unionlabs/src/id.rs\<close>: a validator takes a value and gives it back or refuses it,
  validators compose left to right, and the ICS-024 identifiers are strings within a length range
  that use a fixed set of characters. Also the bounded integers of
  \<^verbatim>\<open>lib/unionlabs/src/bounded.rs\<close>, over unbounded \<open>int\<close> since the constructor only compares.
\<close>

section \<open>Validators\<close>

datatype expected_length =
    Exact nat
  | LessThan nat
  | Between nat nat
  | Gte nat
  | EitherLen nat nat

record invalid_length =
  expected_len :: expected_length
  found_len :: nat

type_synonym ('t, 'e) validator = "'t \<Rightarrow> 'e + 't"

definition validate_both ::
  "('t, 'e) validator \<Rightarrow> ('t, 'f) validator \<Rightarrow> ('t, 'e + 'f) validator" where
  \<comment> \<open>\<^verbatim>\<open>impl Validate<T> for (V1, V2)\<close>\<close>
  "validate_both v1 v2 t =
     (case v1 t of
        Inl e \<Rightarrow> Inl (Inl e)
      | Inr t' \<Rightarrow> (case v2 t' of Inl e \<Rightarrow> Inl (Inr e) | Inr t'' \<Rightarrow> Inr t''))"

definition validate_unit :: "('t, unit) validator" where
  "validate_unit t = Inr t"

definition validated_mutate ::
  "('t, 'e) validator \<Rightarrow> ('t \<Rightarrow> 't) \<Rightarrow> 't \<Rightarrow> 'e + 't" where
  \<comment> \<open>\<^verbatim>\<open>Validated::mutate\<close>: the changed value is validated again\<close>
  "validated_mutate v f t = v (f t)"

section \<open>ICS-024 identifiers\<close>

definition ics024_char :: "char \<Rightarrow> bool" where
  "ics024_char c \<longleftrightarrow>
     (let n = (of_char c :: nat) in
        (97 \<le> n \<and> n \<le> 122) \<or> (65 \<le> n \<and> n \<le> 90) \<or> (48 \<le> n \<and> n \<le> 57)
        \<or> c \<in> set ''._+-#[]<>'')"

definition ics024_validate :: "(string, char) validator" where
  \<comment> \<open>the error carries the first character refused (its first byte, outside ASCII)\<close>
  "ics024_validate s =
     (case dropWhile ics024_char s of
        [] \<Rightarrow> Inr s
      | c # _ \<Rightarrow> Inl c)"

definition bounded_validate :: "nat \<Rightarrow> nat \<Rightarrow> (string, invalid_length) validator" where
  "bounded_validate mn mx s =
     (if mn \<le> length s \<and> length s \<le> mx then Inr s
      else Inl \<lparr>expected_len = Between mn mx, found_len = length s\<rparr>)"

type_synonym id_error = "invalid_length + char"

definition port_id_validate :: "(string, id_error) validator" where
  "port_id_validate = validate_both (bounded_validate 2 128) ics024_validate"

definition client_id_validate :: "(string, id_error) validator" where
  "client_id_validate = validate_both (bounded_validate 9 64) ics024_validate"

definition connection_id_validate :: "(string, id_error) validator" where
  "connection_id_validate = validate_both (bounded_validate 10 64) ics024_validate"

definition channel_id_validate :: "(string, id_error) validator" where
  "channel_id_validate = validate_both (bounded_validate 8 64) ics024_validate"

text \<open>
  A value of type \<^verbatim>\<open>Validated<String, V>\<close> can only be made by its validator: in the model it is a
  string for which the validator gives the string back.
\<close>

definition ics024_id :: "nat \<Rightarrow> nat \<Rightarrow> string \<Rightarrow> bool" where
  "ics024_id mn mx s \<longleftrightarrow> mn \<le> length s \<and> length s \<le> mx \<and> list_all ics024_char s"

abbreviation valid_port_id :: "string \<Rightarrow> bool" where
  "valid_port_id \<equiv> ics024_id 2 128"

abbreviation valid_client_id :: "string \<Rightarrow> bool" where
  "valid_client_id \<equiv> ics024_id 9 64"

abbreviation valid_connection_id :: "string \<Rightarrow> bool" where
  "valid_connection_id \<equiv> ics024_id 10 64"

abbreviation valid_channel_id :: "string \<Rightarrow> bool" where
  "valid_channel_id \<equiv> ics024_id 8 64"

lemma ics024_validate_Inr: "ics024_validate s = Inr t \<longleftrightarrow> t = s \<and> list_all ics024_char s"
proof (cases "dropWhile ics024_char s")
  case Nil
  then have "list_all ics024_char s"
    by (simp add: dropWhile_eq_Nil_conv list_all_iff)
  moreover have "ics024_validate s = Inr s"
    using Nil by (simp only: ics024_validate_def list.case)
  ultimately show ?thesis by auto
next
  case (Cons c cs)
  then have "\<not> list_all ics024_char s"
    by (metis dropWhile_eq_Nil_conv list.distinct(1) list_all_iff)
  with Cons show ?thesis by (simp add: ics024_validate_def)
qed

lemma bounded_validate_Inr:
  "bounded_validate mn mx s = Inr t \<longleftrightarrow> t = s \<and> mn \<le> length s \<and> length s \<le> mx"
  by (auto simp: bounded_validate_def)

lemma validate_both_Inr:
  "validate_both v1 v2 t = Inr u \<longleftrightarrow> (\<exists>t'. v1 t = Inr t' \<and> v2 t' = Inr u)"
  by (auto simp: validate_both_def split: sum.splits)

lemma id_validate_Inr:
  "port_id_validate s = Inr t \<longleftrightarrow> t = s \<and> valid_port_id s"
  "client_id_validate s = Inr t \<longleftrightarrow> t = s \<and> valid_client_id s"
  "connection_id_validate s = Inr t \<longleftrightarrow> t = s \<and> valid_connection_id s"
  "channel_id_validate s = Inr t \<longleftrightarrow> t = s \<and> valid_channel_id s"
  by (auto simp: port_id_validate_def client_id_validate_def connection_id_validate_def
      channel_id_validate_def validate_both_Inr bounded_validate_Inr ics024_validate_Inr
      ics024_id_def)

lemma id_validate_valid [simp]:
  "valid_port_id s \<Longrightarrow> port_id_validate s = Inr s"
  "valid_client_id s \<Longrightarrow> client_id_validate s = Inr s"
  "valid_connection_id s \<Longrightarrow> connection_id_validate s = Inr s"
  "valid_channel_id s \<Longrightarrow> channel_id_validate s = Inr s"
  by (simp_all add: id_validate_Inr)

lemma ics024_id_no_slash: "ics024_id mn mx s \<Longrightarrow> CHR ''/'' \<notin> set s"
  by (auto simp: ics024_id_def list_all_iff ics024_char_def Let_def)

lemma digit_ics024_char: "is_digit c \<Longrightarrow> ics024_char c"
  by (simp add: is_digit_def ics024_char_def Let_def)

lemma show_u64_ics024: "list_all ics024_char (show_u64 w)"
  by (auto simp: list_all_iff intro: digit_ics024_char dest: show_u64_digits)

section \<open>Bounded integers\<close>

record bounded_int_error =
  bie_min :: int
  bie_max :: int
  bie_found :: int

definition bounded_int_new :: "int \<Rightarrow> int \<Rightarrow> int \<Rightarrow> bounded_int_error + int" where
  "bounded_int_new mn mx n =
     (if mn \<le> n \<and> n \<le> mx then Inr n
      else Inl \<lparr>bie_min = mn, bie_max = mx, bie_found = n\<rparr>)"

lemma bounded_int_new_Inr:
  "bounded_int_new mn mx n = Inr m \<longleftrightarrow> m = n \<and> mn \<le> n \<and> n \<le> mx"
  by (auto simp: bounded_int_new_def)

end
