(* ===== verification/Heights.thy ===== *)
theory Heights imports Text_Format begin

text \<open>
  \<^verbatim>\<open>lib/unionlabs/src/ibc/core/client/height.rs\<close>: a height is a revision number and a height in
  that revision, ordered first by revision. It is a datatype with the struct's two fields as
  selectors, so that it can be an instance of \<open>linorder\<close> with the order the code defines.
\<close>

section \<open>The height\<close>

datatype height = Height (revision_number: u64) (revision_height: u64)

definition default_height :: height where
  \<comment> \<open>\<^verbatim>\<open>Height::default()\<close>\<close>
  "default_height = Height 0 0"

datatype ordering = Less | Equal | Greater

definition u64_cmp :: "u64 \<Rightarrow> u64 \<Rightarrow> ordering" where
  "u64_cmp a b = (if a < b then Less else if a = b then Equal else Greater)"

definition height_partial_cmp :: "height \<Rightarrow> height \<Rightarrow> ordering" where
  "height_partial_cmp a b =
     (case u64_cmp (revision_number a) (revision_number b) of
        Less \<Rightarrow> Less
      | Equal \<Rightarrow> u64_cmp (revision_height a) (revision_height b)
      | Greater \<Rightarrow> Greater)"

text \<open>The comparison operators Rust derives from \<^verbatim>\<open>partial_cmp\<close>.\<close>

instantiation height :: linorder
begin

definition less_eq_height :: "height \<Rightarrow> height \<Rightarrow> bool" where
  "a \<le> b \<longleftrightarrow> height_partial_cmp a b \<noteq> Greater"

definition less_height :: "height \<Rightarrow> height \<Rightarrow> bool" where
  "a < b \<longleftrightarrow> height_partial_cmp a b = Less"

instance
proof
  fix a b c :: height
  show "(a < b) = (a \<le> b \<and> \<not> b \<le> a)"
    by (auto simp: less_height_def less_eq_height_def height_partial_cmp_def u64_cmp_def)
  show "a \<le> a"
    by (simp add: less_eq_height_def height_partial_cmp_def u64_cmp_def)
  show "a \<le> b \<Longrightarrow> b \<le> c \<Longrightarrow> a \<le> c"
    by (auto simp: less_eq_height_def height_partial_cmp_def u64_cmp_def split: if_splits)
  show "a \<le> b \<Longrightarrow> b \<le> a \<Longrightarrow> a = b"
    by (cases a; cases b)
      (auto simp: less_eq_height_def height_partial_cmp_def u64_cmp_def split: if_splits)
  show "a \<le> b \<or> b \<le> a"
    by (auto simp: less_eq_height_def height_partial_cmp_def u64_cmp_def)
qed

end

lemma height_le_iff:
  "Height n h \<le> Height n' h' \<longleftrightarrow> n < n' \<or> n = n' \<and> h \<le> h'"
  by (auto simp: less_eq_height_def height_partial_cmp_def u64_cmp_def)

lemma height_less_iff:
  "Height n h < Height n' h' \<longleftrightarrow> n < n' \<or> n = n' \<and> h < h'"
  by (auto simp: less_height_def height_partial_cmp_def u64_cmp_def)

lemma default_height_least: "default_height \<le> h"
  by (cases h) (auto simp: default_height_def height_le_iff word_neq_0_conv)

section \<open>Text form\<close>

datatype height_from_str_error = HeightParseInt int_error | HeightInvalid

definition show_height :: "height \<Rightarrow> string" where
  "show_height h = show_u64 (revision_number h) @ ''-'' @ show_u64 (revision_height h)"

definition height_from_str :: "string \<Rightarrow> height_from_str_error + height" where
  "height_from_str s =
     (case split_once (CHR ''-'') s of
        None \<Rightarrow> Inl HeightInvalid
      | Some (n, h) \<Rightarrow>
          (case parse_u64 n of
             Inl e \<Rightarrow> Inl (HeightParseInt e)
           | Inr rn \<Rightarrow>
               (case parse_u64 h of
                  Inl e \<Rightarrow> Inl (HeightParseInt e)
                | Inr rh \<Rightarrow> Inr (Height rn rh))))"

lemma height_from_str_show [simp]: "height_from_str (show_height h) = Inr h"
  by (cases h) (simp add: height_from_str_def show_height_def split_once_append)

lemma show_height_inject [simp]: "show_height g = show_height h \<longleftrightarrow> g = h"
  by (metis height_from_str_show sum.inject(2))

lemma show_height_no_slash [simp]: "CHR ''/'' \<notin> set (show_height h)"
  by (simp add: show_height_def)

section \<open>Stepping\<close>

definition height_increment :: "height \<Rightarrow> height" where
  \<comment> \<open>the release profile has no overflow checks: the addition wraps\<close>
  "height_increment h = Height (revision_number h) (revision_height h + 1)"

definition height_decrement :: "height \<Rightarrow> height" where
  "height_decrement h = Height (revision_number h) (revision_height h - 1)"

lemma height_decrement_increment: "height_decrement (height_increment h) = h"
  by (cases h) (simp add: height_decrement_def height_increment_def)

lemma unat_plus_one: "w \<noteq> -1 \<Longrightarrow> unat (w + 1 :: u64) = unat w + 1"
  by (metis add.commute add_eq_0_iff unatSuc Suc_eq_plus1)

lemma height_increment_greater:
  "revision_height h \<noteq> -1 \<Longrightarrow> h < height_increment h"
  by (cases h) (auto simp: height_increment_def height_less_iff word_less_nat_alt unat_plus_one)

end
