(* ===== verification/Ics24.thy ===== *)
theory Ics24 imports Ids Heights begin

text \<open>
  The ICS-024 store paths of \<^verbatim>\<open>lib/unionlabs/src/ics24.rs\<close>, with the code that the attribute macro
  \<^verbatim>\<open>ibc_path\<close> of \<^verbatim>\<open>lib/macros/src/lib.rs\<close> generates for each of them: a template is cut into static
  and variable segments, \<^verbatim>\<open>Display\<close> writes the template with the variables filled in, and
  \<^verbatim>\<open>FromStr\<close> walks over the segments of the text. \<^verbatim>\<open>Path\<close> tries its variants in turn.

  The main facts are that a path made of validated identifiers reads back as itself and that two
  such paths with the same text are equal; a store keyed by the text is then a store keyed by the
  path.
\<close>

section \<open>Paths\<close>

datatype path =
    ClientStatePath string
  | ClientConsensusStatePath string height
  | ConnectionPath string
  | ChannelEndPath string string
  | CommitmentPath string string u64
  | AcknowledgementPath string string u64
  | ReceiptPath string string u64
  | NextSequenceSendPath string string
  | NextSequenceRecvPath string string
  | NextSequenceAckPath string string
  | NextConnectionSequencePath
  | NextClientSequencePath

fun wf_path :: "path \<Rightarrow> bool" where
  \<comment> \<open>what the field types \<^verbatim>\<open>ClientId\<close>, \<^verbatim>\<open>PortId\<close>, \<^verbatim>\<open>ChannelId\<close>, \<^verbatim>\<open>ConnectionId\<close> and \<^verbatim>\<open>NonZeroU64\<close> admit\<close>
  "wf_path (ClientStatePath c) = valid_client_id c"
| "wf_path (ClientConsensusStatePath c h) = valid_client_id c"
| "wf_path (ConnectionPath c) = valid_connection_id c"
| "wf_path (ChannelEndPath p c) = (valid_port_id p \<and> valid_channel_id c)"
| "wf_path (CommitmentPath p c n) = (valid_port_id p \<and> valid_channel_id c \<and> n \<noteq> 0)"
| "wf_path (AcknowledgementPath p c n) = (valid_port_id p \<and> valid_channel_id c \<and> n \<noteq> 0)"
| "wf_path (ReceiptPath p c n) = (valid_port_id p \<and> valid_channel_id c \<and> n \<noteq> 0)"
| "wf_path (NextSequenceSendPath p c) = (valid_port_id p \<and> valid_channel_id c)"
| "wf_path (NextSequenceRecvPath p c) = (valid_port_id p \<and> valid_channel_id c)"
| "wf_path (NextSequenceAckPath p c) = (valid_port_id p \<and> valid_channel_id c)"
| "wf_path NextConnectionSequencePath = True"
| "wf_path NextClientSequencePath = True"

section \<open>The macro\<close>

datatype segment = Static string | Variable string

fun parse_segment :: "string \<Rightarrow> segment" where
  \<comment> \<open>an unclosed brace fails when the macro is expanded, so no template has one\<close>
  "parse_segment [] = Static []"
| "parse_segment (c # cs) = (if c = CHR ''{'' then Variable (butlast cs) else Static (c # cs))"

definition parse_ibc_path :: "string \<Rightarrow> segment list" where
  "parse_ibc_path template = map parse_segment (split_on (CHR ''/'') template)"

text \<open>A field value of a path struct, and how its type reads and prints it.\<close>

datatype path_value = StrVal string | HeightVal height | SeqVal u64

datatype segment_error =
    IdError id_error
  | HeightError height_from_str_error
  | SeqError int_error

definition variable_parse :: "string \<Rightarrow> string \<Rightarrow> segment_error + path_value" where
  "variable_parse v s =
     (if v = ''client_id'' then map_sum IdError StrVal (client_id_validate s)
      else if v = ''connection_id'' then map_sum IdError StrVal (connection_id_validate s)
      else if v = ''port_id'' then map_sum IdError StrVal (port_id_validate s)
      else if v = ''channel_id'' then map_sum IdError StrVal (channel_id_validate s)
      else if v = ''height'' then map_sum HeightError HeightVal (height_from_str s)
      else map_sum SeqError SeqVal (parse_nonzero_u64 s))"

fun show_value :: "path_value \<Rightarrow> string" where
  "show_value (StrVal s) = s"
| "show_value (HeightVal h) = show_height h"
| "show_value (SeqVal n) = show_u64 n"

datatype path_parse_error =
    InvalidStaticSegment string string
  | MissingStaticSegment string
  | MissingSegment
  | TooManySegments
  | ParseError segment_error

fun match_segments ::
  "segment list \<Rightarrow> string list \<Rightarrow> path_parse_error + path_value list" where
  "match_segments [] it = (if it = [] then Inr [] else Inl TooManySegments)"
| "match_segments (Static st # segs) [] = Inl (MissingStaticSegment st)"
| "match_segments (Static st # segs) (s # it) =
     (if s \<noteq> st then Inl (InvalidStaticSegment st s) else match_segments segs it)"
| "match_segments (Variable v # segs) [] = Inl MissingSegment"
| "match_segments (Variable v # segs) (s # it) =
     (case variable_parse v s of
        Inl e \<Rightarrow> Inl (ParseError e)
      | Inr x \<Rightarrow> map_sum id (Cons x) (match_segments segs it))"

fun display_segments :: "segment list \<Rightarrow> path_value list \<Rightarrow> string list" where
  "display_segments [] xs = []"
| "display_segments (Static st # segs) xs = st # display_segments segs xs"
| "display_segments (Variable v # segs) (x # xs) = show_value x # display_segments segs xs"
| "display_segments (Variable v # segs) [] = []"

definition ibc_path_from_str :: "string \<Rightarrow> string \<Rightarrow> path_parse_error + path_value list" where
  "ibc_path_from_str template s = match_segments (parse_ibc_path template) (split_on (CHR ''/'') s)"

definition ibc_path_display :: "string \<Rightarrow> path_value list \<Rightarrow> string" where
  "ibc_path_display template xs =
     join_with (CHR ''/'') (display_segments (parse_ibc_path template) xs)"

section \<open>The path structs and the \<^verbatim>\<open>Path\<close> enum\<close>

fun path_template :: "path \<Rightarrow> string" where
  "path_template (ClientStatePath _) = ''clients/{client_id}/clientState''"
| "path_template (ClientConsensusStatePath _ _) =
     ''clients/{client_id}/consensusStates/{height}''"
| "path_template (ConnectionPath _) = ''connections/{connection_id}''"
| "path_template (ChannelEndPath _ _) = ''channelEnds/ports/{port_id}/channels/{channel_id}''"
| "path_template (CommitmentPath _ _ _) =
     ''commitments/ports/{port_id}/channels/{channel_id}/sequences/{sequence}''"
| "path_template (AcknowledgementPath _ _ _) =
     ''acks/ports/{port_id}/channels/{channel_id}/sequences/{sequence}''"
| "path_template (ReceiptPath _ _ _) =
     ''receipts/ports/{port_id}/channels/{channel_id}/sequences/{sequence}''"
| "path_template (NextSequenceSendPath _ _) =
     ''nextSequenceSend/ports/{port_id}/channels/{channel_id}''"
| "path_template (NextSequenceRecvPath _ _) =
     ''nextSequenceRecv/ports/{port_id}/channels/{channel_id}''"
| "path_template (NextSequenceAckPath _ _) =
     ''nextSequenceAck/ports/{port_id}/channels/{channel_id}''"
| "path_template NextConnectionSequencePath = ''nextConnectionSequence''"
| "path_template NextClientSequencePath = ''nextClientSequence''"

fun path_values :: "path \<Rightarrow> path_value list" where
  "path_values (ClientStatePath c) = [StrVal c]"
| "path_values (ClientConsensusStatePath c h) = [StrVal c, HeightVal h]"
| "path_values (ConnectionPath c) = [StrVal c]"
| "path_values (ChannelEndPath p c) = [StrVal p, StrVal c]"
| "path_values (CommitmentPath p c n) = [StrVal p, StrVal c, SeqVal n]"
| "path_values (AcknowledgementPath p c n) = [StrVal p, StrVal c, SeqVal n]"
| "path_values (ReceiptPath p c n) = [StrVal p, StrVal c, SeqVal n]"
| "path_values (NextSequenceSendPath p c) = [StrVal p, StrVal c]"
| "path_values (NextSequenceRecvPath p c) = [StrVal p, StrVal c]"
| "path_values (NextSequenceAckPath p c) = [StrVal p, StrVal c]"
| "path_values NextConnectionSequencePath = []"
| "path_values NextClientSequencePath = []"

definition path_to_string :: "path \<Rightarrow> string" where
  "path_to_string p = ibc_path_display (path_template p) (path_values p)"

text \<open>
  \<^verbatim>\<open>FromStr\<close> of one path struct: the template's segments are matched and the values put in the
  struct's fields.
\<close>

definition try_path ::
  "string \<Rightarrow> (path_value list \<Rightarrow> path option) \<Rightarrow> string \<Rightarrow> path_parse_error + path" where
  "try_path template build s =
     (case ibc_path_from_str template s of
        Inl e \<Rightarrow> Inl e
      | Inr xs \<Rightarrow> (case build xs of Some p \<Rightarrow> Inr p | None \<Rightarrow> Inl MissingSegment))"

fun build1 :: "(string \<Rightarrow> path) \<Rightarrow> path_value list \<Rightarrow> path option" where
  "build1 k [StrVal a] = Some (k a)"
| "build1 k _ = None"

fun build2 :: "(string \<Rightarrow> string \<Rightarrow> path) \<Rightarrow> path_value list \<Rightarrow> path option" where
  "build2 k [StrVal a, StrVal b] = Some (k a b)"
| "build2 k _ = None"

fun build_height :: "(string \<Rightarrow> height \<Rightarrow> path) \<Rightarrow> path_value list \<Rightarrow> path option" where
  "build_height k [StrVal a, HeightVal h] = Some (k a h)"
| "build_height k _ = None"

fun build_seq :: "(string \<Rightarrow> string \<Rightarrow> u64 \<Rightarrow> path) \<Rightarrow> path_value list \<Rightarrow> path option" where
  "build_seq k [StrVal a, StrVal b, SeqVal n] = Some (k a b n)"
| "build_seq k _ = None"

definition or_else :: "'e + 'a \<Rightarrow> 'e + 'a \<Rightarrow> 'e + 'a" where
  "or_else x y = (case x of Inr v \<Rightarrow> Inr v | Inl _ \<Rightarrow> y)"

definition path_from_str :: "string \<Rightarrow> path_parse_error + path" where
  "path_from_str s =
     foldl or_else
       (try_path ''clients/{client_id}/clientState'' (build1 ClientStatePath) s)
       [try_path ''clients/{client_id}/consensusStates/{height}''
          (build_height ClientConsensusStatePath) s,
        try_path ''connections/{connection_id}'' (build1 ConnectionPath) s,
        try_path ''channelEnds/ports/{port_id}/channels/{channel_id}''
          (build2 ChannelEndPath) s,
        try_path ''commitments/ports/{port_id}/channels/{channel_id}/sequences/{sequence}''
          (build_seq CommitmentPath) s,
        try_path ''acks/ports/{port_id}/channels/{channel_id}/sequences/{sequence}''
          (build_seq AcknowledgementPath) s,
        try_path ''receipts/ports/{port_id}/channels/{channel_id}/sequences/{sequence}''
          (build_seq ReceiptPath) s,
        try_path ''nextSequenceSend/ports/{port_id}/channels/{channel_id}''
          (build2 NextSequenceSendPath) s,
        try_path ''nextSequenceRecv/ports/{port_id}/channels/{channel_id}''
          (build2 NextSequenceRecvPath) s,
        try_path ''nextSequenceAck/ports/{port_id}/channels/{channel_id}''
          (build2 NextSequenceAckPath) s,
        try_path ''nextConnectionSequence'' (\<lambda>xs. Some NextConnectionSequencePath) s]"

section \<open>Templates, evaluated\<close>

lemma parse_templates [simp]:
  "parse_ibc_path ''clients/{client_id}/clientState'' =
     [Static ''clients'', Variable ''client_id'', Static ''clientState'']"
  "parse_ibc_path ''clients/{client_id}/consensusStates/{height}'' =
     [Static ''clients'', Variable ''client_id'', Static ''consensusStates'', Variable ''height'']"
  "parse_ibc_path ''connections/{connection_id}'' =
     [Static ''connections'', Variable ''connection_id'']"
  "parse_ibc_path ''nextConnectionSequence'' = [Static ''nextConnectionSequence'']"
  "parse_ibc_path ''nextClientSequence'' = [Static ''nextClientSequence'']"
  by (simp_all add: parse_ibc_path_def)

lemma parse_channel_templates [simp]:
  "parse_ibc_path ''channelEnds/ports/{port_id}/channels/{channel_id}'' =
     [Static ''channelEnds'', Static ''ports'', Variable ''port_id'', Static ''channels'',
      Variable ''channel_id'']"
  "parse_ibc_path ''nextSequenceSend/ports/{port_id}/channels/{channel_id}'' =
     [Static ''nextSequenceSend'', Static ''ports'', Variable ''port_id'', Static ''channels'',
      Variable ''channel_id'']"
  "parse_ibc_path ''nextSequenceRecv/ports/{port_id}/channels/{channel_id}'' =
     [Static ''nextSequenceRecv'', Static ''ports'', Variable ''port_id'', Static ''channels'',
      Variable ''channel_id'']"
  "parse_ibc_path ''nextSequenceAck/ports/{port_id}/channels/{channel_id}'' =
     [Static ''nextSequenceAck'', Static ''ports'', Variable ''port_id'', Static ''channels'',
      Variable ''channel_id'']"
  by (simp_all add: parse_ibc_path_def)

lemma parse_sequence_templates [simp]:
  "parse_ibc_path ''commitments/ports/{port_id}/channels/{channel_id}/sequences/{sequence}'' =
     [Static ''commitments'', Static ''ports'', Variable ''port_id'', Static ''channels'',
      Variable ''channel_id'', Static ''sequences'', Variable ''sequence'']"
  "parse_ibc_path ''acks/ports/{port_id}/channels/{channel_id}/sequences/{sequence}'' =
     [Static ''acks'', Static ''ports'', Variable ''port_id'', Static ''channels'',
      Variable ''channel_id'', Static ''sequences'', Variable ''sequence'']"
  "parse_ibc_path ''receipts/ports/{port_id}/channels/{channel_id}/sequences/{sequence}'' =
     [Static ''receipts'', Static ''ports'', Variable ''port_id'', Static ''channels'',
      Variable ''channel_id'', Static ''sequences'', Variable ''sequence'']"
  by (simp_all add: parse_ibc_path_def)

section \<open>Splitting the text of a path\<close>

definition path_segments :: "path \<Rightarrow> string list" where
  "path_segments p = display_segments (parse_ibc_path (path_template p)) (path_values p)"

lemma path_segments_no_slash:
  "wf_path p \<Longrightarrow> s \<in> set (path_segments p) \<Longrightarrow> CHR ''/'' \<notin> set s"
  by (cases p) (auto simp: path_segments_def dest: ics024_id_no_slash)

lemma path_segments_not_Nil: "path_segments p \<noteq> []"
  by (cases p) (simp_all add: path_segments_def)

lemma split_path_to_string:
  "wf_path p \<Longrightarrow> split_on (CHR ''/'') (path_to_string p) = path_segments p"
  unfolding path_to_string_def ibc_path_display_def path_segments_def [symmetric]
  by (rule split_on_join) (auto simp: path_segments_not_Nil dest: path_segments_no_slash)

lemma path_segments_inject: "path_segments p = path_segments q \<Longrightarrow> p = q"
  by (cases p; cases q) (simp_all add: path_segments_def)

lemma path_to_string_inject:
  assumes "wf_path p" and "wf_path q" and "path_to_string p = path_to_string q"
  shows "p = q"
  using assms by (metis split_path_to_string path_segments_inject)

lemma variable_parse_show:
  "valid_client_id s \<Longrightarrow> variable_parse ''client_id'' s = Inr (StrVal s)"
  "valid_connection_id s \<Longrightarrow> variable_parse ''connection_id'' s = Inr (StrVal s)"
  "valid_port_id s \<Longrightarrow> variable_parse ''port_id'' s = Inr (StrVal s)"
  "valid_channel_id s \<Longrightarrow> variable_parse ''channel_id'' s = Inr (StrVal s)"
  "variable_parse ''height'' (show_height h) = Inr (HeightVal h)"
  "n \<noteq> 0 \<Longrightarrow> variable_parse ''sequence'' (show_u64 n) = Inr (SeqVal n)"
  by (simp_all add: variable_parse_def parse_show_nonzero_u64)

lemma path_from_str_to_string:
  assumes "wf_path p" and "p \<noteq> NextClientSequencePath"
  shows "path_from_str (path_to_string p) = Inr p"
  using assms
  by (cases p)
    (simp_all add: path_from_str_def try_path_def ibc_path_from_str_def split_path_to_string
      path_segments_def variable_parse_show or_else_def)

end
