(* ===== verification/Ibc_Types.thy ===== *)
theory Ibc_Types imports Ics24 begin

text \<open>
  The IBC data of \<^verbatim>\<open>lib/unionlabs/src/ibc/core/\<close>: channel ends, connection ends, versions and
  packets, with their conversions to and from the protobuf messages. The messages themselves
  (\<open>proto_\<dots>\<close>) have the fields of the generated structs; turning a message into bytes is the
  work of the \<^verbatim>\<open>prost\<close> crate, which is a parameter of the model (\<open>prost\<close>).
\<close>

section \<open>Enumerations (\<^verbatim>\<open>wrapper_enum!\<close>)\<close>

datatype order = NoneUnspecified | Unordered | Ordered

datatype channel_state =
  ChanUninitialized | ChanInit | ChanTryopen | ChanOpen | ChanClosed

datatype connection_state = ConnUninitialized | ConnInit | ConnTryopen | ConnOpen

fun order_str :: "order \<Rightarrow> string" where
  "order_str NoneUnspecified = ''ORDER_NONE_UNSPECIFIED''"
| "order_str Unordered = ''ORDER_UNORDERED''"
| "order_str Ordered = ''ORDER_ORDERED''"

fun channel_state_str :: "channel_state \<Rightarrow> string" where
  "channel_state_str ChanUninitialized = ''STATE_UNINITIALIZED_UNSPECIFIED''"
| "channel_state_str ChanInit = ''STATE_INIT''"
| "channel_state_str ChanTryopen = ''STATE_TRYOPEN''"
| "channel_state_str ChanOpen = ''STATE_OPEN''"
| "channel_state_str ChanClosed = ''STATE_CLOSED''"

fun connection_state_str :: "connection_state \<Rightarrow> string" where
  "connection_state_str ConnUninitialized = ''STATE_UNINITIALIZED_UNSPECIFIED''"
| "connection_state_str ConnInit = ''STATE_INIT''"
| "connection_state_str ConnTryopen = ''STATE_TRYOPEN''"
| "connection_state_str ConnOpen = ''STATE_OPEN''"

text \<open>
  \<^verbatim>\<open>FromStr\<close> compares with each variant's name in turn; an integer is matched with the
  discriminants. The error carries what was not recognised.
\<close>

definition enum_from :: "('a \<Rightarrow> 'b) \<Rightarrow> 'a list \<Rightarrow> 'b \<Rightarrow> 'b + 'a" where
  "enum_from name variants s =
     (case find (\<lambda>v. s = name v) variants of None \<Rightarrow> Inl s | Some v \<Rightarrow> Inr v)"

abbreviation orders :: "order list" where
  "orders \<equiv> [NoneUnspecified, Unordered, Ordered]"

abbreviation channel_states :: "channel_state list" where
  "channel_states \<equiv> [ChanUninitialized, ChanInit, ChanTryopen, ChanOpen, ChanClosed]"

abbreviation connection_states :: "connection_state list" where
  "connection_states \<equiv> [ConnUninitialized, ConnInit, ConnTryopen, ConnOpen]"

type_synonym i32 = "32 word"

fun order_i32 :: "order \<Rightarrow> i32" where
  "order_i32 NoneUnspecified = 0"
| "order_i32 Unordered = 1"
| "order_i32 Ordered = 2"

fun channel_state_i32 :: "channel_state \<Rightarrow> i32" where
  "channel_state_i32 ChanUninitialized = 0"
| "channel_state_i32 ChanInit = 1"
| "channel_state_i32 ChanTryopen = 2"
| "channel_state_i32 ChanOpen = 3"
| "channel_state_i32 ChanClosed = 4"

fun connection_state_i32 :: "connection_state \<Rightarrow> i32" where
  "connection_state_i32 ConnUninitialized = 0"
| "connection_state_i32 ConnInit = 1"
| "connection_state_i32 ConnTryopen = 2"
| "connection_state_i32 ConnOpen = 3"

definition order_from_str :: "string \<Rightarrow> string + order" where
  "order_from_str = enum_from order_str orders"

definition order_from_i32 :: "i32 \<Rightarrow> i32 + order" where
  "order_from_i32 = enum_from order_i32 orders"

definition channel_state_from_i32 :: "i32 \<Rightarrow> i32 + channel_state" where
  "channel_state_from_i32 = enum_from channel_state_i32 channel_states"

definition connection_state_from_i32 :: "i32 \<Rightarrow> i32 + connection_state" where
  "connection_state_from_i32 = enum_from connection_state_i32 connection_states"

lemma order_roundtrips [simp]:
  "order_from_str (order_str ord) = Inr ord"
  "order_from_i32 (order_i32 ord) = Inr ord"
  by (cases ord; simp add: order_from_str_def order_from_i32_def enum_from_def)+

lemma channel_state_roundtrip [simp]: "channel_state_from_i32 (channel_state_i32 st) = Inr st"
  by (cases st) (simp_all add: channel_state_from_i32_def enum_from_def)

lemma connection_state_roundtrip [simp]:
  "connection_state_from_i32 (connection_state_i32 st) = Inr st"
  by (cases st) (simp_all add: connection_state_from_i32_def enum_from_def)

section \<open>Versions, prefixes and connection ends\<close>

record version =
  ver_identifier :: string
  ver_features :: "order list"

record proto_version =
  p_identifier :: string
  p_features :: "string list"

definition version_into_proto :: "version \<Rightarrow> proto_version" where
  "version_into_proto v = \<lparr>p_identifier = ver_identifier v, p_features = map order_str (ver_features v)\<rparr>"

definition version_from_proto :: "proto_version \<Rightarrow> string + version" where
  "version_from_proto p =
     (case traverse order_from_str (p_features p) of
        Inl e \<Rightarrow> Inl e
      | Inr fs \<Rightarrow> Inr \<lparr>ver_identifier = p_identifier p, ver_features = fs\<rparr>)"

text \<open>\<^verbatim>\<open>MerklePrefix\<close> and \<^verbatim>\<open>MerklePath\<close> each wrap one field.\<close>

type_synonym merkle_prefix = bytes
type_synonym merkle_path = "string list"

record connection_counterparty =
  cc_client_id :: string
  cc_connection_id :: string
  cc_prefix :: merkle_prefix

record connection_end =
  ce_client_id :: string
  ce_versions :: "version list"
  ce_state :: connection_state
  ce_counterparty :: connection_counterparty
  ce_delay_period :: u64

record proto_connection_counterparty =
  pcc_client_id :: string
  pcc_connection_id :: string
  pcc_prefix :: "bytes option"

record proto_connection_end =
  pce_client_id :: string
  pce_versions :: "proto_version list"
  pce_state :: i32
  pce_counterparty :: "proto_connection_counterparty option"
  pce_delay_period :: u64

definition connection_counterparty_into_proto ::
  "connection_counterparty \<Rightarrow> proto_connection_counterparty" where
  "connection_counterparty_into_proto c =
     \<lparr>pcc_client_id = cc_client_id c, pcc_connection_id = cc_connection_id c,
      pcc_prefix = Some (cc_prefix c)\<rparr>"

datatype connection_counterparty_error =
    CCMissingField string
  | CCClientId id_error

definition connection_counterparty_from_proto ::
  "proto_connection_counterparty \<Rightarrow> connection_counterparty_error + connection_counterparty" where
  \<comment> \<open>the connection id is a plain \<^verbatim>\<open>String\<close> here, whose parse does not fail\<close>
  "connection_counterparty_from_proto p =
     (case client_id_validate (pcc_client_id p) of
        Inl e \<Rightarrow> Inl (CCClientId e)
      | Inr cid \<Rightarrow>
          (case pcc_prefix p of
             None \<Rightarrow> Inl (CCMissingField ''prefix'')
           | Some pre \<Rightarrow>
               Inr \<lparr>cc_client_id = cid, cc_connection_id = pcc_connection_id p, cc_prefix = pre\<rparr>))"

definition connection_end_into_proto :: "connection_end \<Rightarrow> proto_connection_end" where
  "connection_end_into_proto e =
     \<lparr>pce_client_id = ce_client_id e,
      pce_versions = map version_into_proto (ce_versions e),
      pce_state = connection_state_i32 (ce_state e),
      pce_counterparty = Some (connection_counterparty_into_proto (ce_counterparty e)),
      pce_delay_period = ce_delay_period e\<rparr>"

datatype connection_end_error =
    CEClientId id_error
  | CEVersion string
  | CEState i32
  | CECounterparty connection_counterparty_error
  | CEMissingField string

definition connection_end_from_proto ::
  "proto_connection_end \<Rightarrow> connection_end_error + connection_end" where
  "connection_end_from_proto p =
     (case client_id_validate (pce_client_id p) of
        Inl e \<Rightarrow> Inl (CEClientId e)
      | Inr cid \<Rightarrow>
     (case traverse version_from_proto (pce_versions p) of
        Inl e \<Rightarrow> Inl (CEVersion e)
      | Inr vs \<Rightarrow>
     (case connection_state_from_i32 (pce_state p) of
        Inl e \<Rightarrow> Inl (CEState e)
      | Inr st \<Rightarrow>
     (case pce_counterparty p of
        None \<Rightarrow> Inl (CEMissingField ''counterparty'')
      | Some pc \<Rightarrow>
     (case connection_counterparty_from_proto pc of
        Inl e \<Rightarrow> Inl (CECounterparty e)
      | Inr cp \<Rightarrow>
          Inr \<lparr>ce_client_id = cid, ce_versions = vs, ce_state = st, ce_counterparty = cp,
               ce_delay_period = pce_delay_period p\<rparr>)))))"

definition wf_connection_end :: "connection_end \<Rightarrow> bool" where
  "wf_connection_end e \<longleftrightarrow>
     valid_client_id (ce_client_id e) \<and> valid_client_id (cc_client_id (ce_counterparty e))"

lemma version_proto_roundtrip [simp]: "version_from_proto (version_into_proto v) = Inr v"
  by (simp add: version_from_proto_def version_into_proto_def traverse_map [where h = id, simplified])

lemma connection_end_proto_roundtrip:
  "wf_connection_end e \<Longrightarrow> connection_end_from_proto (connection_end_into_proto e) = Inr e"
  by (simp add: wf_connection_end_def connection_end_from_proto_def connection_end_into_proto_def
      connection_counterparty_into_proto_def connection_counterparty_from_proto_def
      traverse_map [where h = id, simplified])

lemma connection_end_from_proto_wf:
  "connection_end_from_proto p = Inr e \<Longrightarrow> wf_connection_end e"
  by (auto simp: connection_end_from_proto_def connection_counterparty_from_proto_def
      wf_connection_end_def id_validate_Inr split: sum.splits option.splits)

section \<open>Channel ends\<close>

record channel_counterparty =
  ccp_port_id :: string
  ccp_channel_id :: string

record channel =
  ch_state :: channel_state
  ch_ordering :: order
  ch_counterparty :: channel_counterparty
  ch_connection_hops :: "string list"
  ch_version :: string

record proto_channel_counterparty =
  pccp_port_id :: string
  pccp_channel_id :: string

record proto_channel =
  pch_state :: i32
  pch_ordering :: i32
  pch_counterparty :: "proto_channel_counterparty option"
  pch_connection_hops :: "string list"
  pch_version :: string

definition channel_counterparty_into_proto ::
  "channel_counterparty \<Rightarrow> proto_channel_counterparty" where
  "channel_counterparty_into_proto c =
     \<lparr>pccp_port_id = ccp_port_id c, pccp_channel_id = ccp_channel_id c\<rparr>"

definition channel_counterparty_from_proto ::
  "proto_channel_counterparty \<Rightarrow> id_error + channel_counterparty" where
  "channel_counterparty_from_proto p =
     (case port_id_validate (pccp_port_id p) of
        Inl e \<Rightarrow> Inl e
      | Inr pid \<Rightarrow> Inr \<lparr>ccp_port_id = pid, ccp_channel_id = pccp_channel_id p\<rparr>)"

definition channel_into_proto :: "channel \<Rightarrow> proto_channel" where
  "channel_into_proto c =
     \<lparr>pch_state = channel_state_i32 (ch_state c),
      pch_ordering = order_i32 (ch_ordering c),
      pch_counterparty = Some (channel_counterparty_into_proto (ch_counterparty c)),
      pch_connection_hops = ch_connection_hops c,
      pch_version = ch_version c\<rparr>"

datatype channel_error =
    ChMissingField string
  | ChState i32
  | ChCounterparty id_error
  | ChOrdering i32
  | ChConnectionHops id_error

definition channel_from_proto :: "proto_channel \<Rightarrow> channel_error + channel" where
  \<comment> \<open>an unknown ordering is reported with the \<^verbatim>\<open>State\<close> variant of the error, as the source has it\<close>
  "channel_from_proto p =
     (case channel_state_from_i32 (pch_state p) of
        Inl e \<Rightarrow> Inl (ChState e)
      | Inr st \<Rightarrow>
     (case order_from_i32 (pch_ordering p) of
        Inl e \<Rightarrow> Inl (ChState e)
      | Inr ord \<Rightarrow>
     (case pch_counterparty p of
        None \<Rightarrow> Inl (ChMissingField ''counterparty'')
      | Some pc \<Rightarrow>
     (case channel_counterparty_from_proto pc of
        Inl e \<Rightarrow> Inl (ChCounterparty e)
      | Inr cp \<Rightarrow>
     (case traverse connection_id_validate (pch_connection_hops p) of
        Inl e \<Rightarrow> Inl (ChConnectionHops e)
      | Inr hops \<Rightarrow>
          Inr \<lparr>ch_state = st, ch_ordering = ord, ch_counterparty = cp,
               ch_connection_hops = hops, ch_version = pch_version p\<rparr>)))))"

definition wf_channel :: "channel \<Rightarrow> bool" where
  "wf_channel c \<longleftrightarrow>
     valid_port_id (ccp_port_id (ch_counterparty c)) \<and>
     list_all valid_connection_id (ch_connection_hops c)"

lemma traverse_connection_ids:
  "traverse connection_id_validate hops = Inr hops' \<longleftrightarrow>
     hops' = hops \<and> list_all valid_connection_id hops"
proof (induction hops arbitrary: hops')
  case Nil
  then show ?case by auto
next
  case (Cons x xs)
  show ?case
  proof (cases "connection_id_validate x")
    case (Inl e)
    then have "\<not> valid_connection_id x" by auto
    with Inl show ?thesis by simp
  next
    case (Inr y)
    then have "y = x" "valid_connection_id x" by (auto simp: id_validate_Inr)
    with Inr Cons.IH show ?thesis
      by (cases "traverse connection_id_validate xs") auto
  qed
qed

lemma channel_proto_roundtrip:
  assumes "wf_channel c"
  shows "channel_from_proto (channel_into_proto c) = Inr c"
proof -
  have "traverse connection_id_validate (ch_connection_hops c) = Inr (ch_connection_hops c)"
    using assms by (simp add: traverse_connection_ids wf_channel_def)
  with assms show ?thesis
    by (simp add: wf_channel_def channel_from_proto_def channel_into_proto_def
        channel_counterparty_into_proto_def channel_counterparty_from_proto_def)
qed

lemma channel_from_proto_wf: "channel_from_proto p = Inr c \<Longrightarrow> wf_channel c"
  by (auto simp: channel_from_proto_def channel_counterparty_from_proto_def wf_channel_def
      id_validate_Inr traverse_connection_ids 
      split: sum.splits option.splits)

section \<open>Packets\<close>

record packet =
  sequence :: u64
  source_port :: string
  source_channel :: string
  destination_port :: string
  destination_channel :: string
  packet_data :: bytes
  timeout_height :: height
  timeout_timestamp :: u64

record proto_packet =
  pp_sequence :: u64
  pp_source_port :: string
  pp_source_channel :: string
  pp_destination_port :: string
  pp_destination_channel :: string
  pp_data :: bytes
  pp_timeout_height :: "height option"
  pp_timeout_timestamp :: u64

definition packet_into_proto :: "packet \<Rightarrow> proto_packet" where
  "packet_into_proto p =
     \<lparr>pp_sequence = sequence p,
      pp_source_port = source_port p, pp_source_channel = source_channel p,
      pp_destination_port = destination_port p, pp_destination_channel = destination_channel p,
      pp_data = packet_data p,
      pp_timeout_height = Some (timeout_height p),
      pp_timeout_timestamp = timeout_timestamp p\<rparr>"

datatype packet_error =
    PktMissingField string
  | PktSequence
  | PktSourceChannel id_error
  | PktDestinationChannel id_error
  | PktSourcePort id_error
  | PktDestinationPort id_error

definition packet_from_proto :: "proto_packet \<Rightarrow> packet_error + packet" where
  "packet_from_proto p =
     (if pp_sequence p = 0 then Inl PktSequence
      else
     (case port_id_validate (pp_source_port p) of
        Inl e \<Rightarrow> Inl (PktSourcePort e)
      | Inr sp \<Rightarrow>
     (case channel_id_validate (pp_source_channel p) of
        Inl e \<Rightarrow> Inl (PktSourceChannel e)
      | Inr sc \<Rightarrow>
     (case port_id_validate (pp_destination_port p) of
        Inl e \<Rightarrow> Inl (PktDestinationPort e)
      | Inr dp \<Rightarrow>
     (case channel_id_validate (pp_destination_channel p) of
        Inl e \<Rightarrow> Inl (PktDestinationChannel e)
      | Inr dc \<Rightarrow>
     (case pp_timeout_height p of
        None \<Rightarrow> Inl (PktMissingField ''timeout_height'')
      | Some th \<Rightarrow>
          Inr \<lparr>sequence = pp_sequence p, source_port = sp, source_channel = sc,
               destination_port = dp, destination_channel = dc, packet_data = pp_data p,
               timeout_height = th, timeout_timestamp = pp_timeout_timestamp p\<rparr>))))))"

definition wf_packet :: "packet \<Rightarrow> bool" where
  "wf_packet p \<longleftrightarrow>
     sequence p \<noteq> 0 \<and> valid_port_id (source_port p) \<and> valid_channel_id (source_channel p) \<and>
     valid_port_id (destination_port p) \<and> valid_channel_id (destination_channel p)"

lemma packet_proto_roundtrip:
  "wf_packet p \<Longrightarrow> packet_from_proto (packet_into_proto p) = Inr p"
  by (simp add: wf_packet_def packet_from_proto_def packet_into_proto_def)

lemma packet_from_proto_wf: "packet_from_proto q = Inr p \<Longrightarrow> wf_packet p"
  by (auto simp: packet_from_proto_def wf_packet_def id_validate_Inr
      split: if_splits sum.splits option.splits)

section \<open>Protobuf bytes\<close>

text \<open>
  The \<^verbatim>\<open>prost\<close> crate turns a message into bytes and reads it back; reading may fail. What the code
  relies on is that a message reads back as itself (\<open>prost_ok\<close>).
\<close>

record prost =
  prost_encode_connection :: "proto_connection_end \<Rightarrow> bytes"
  prost_decode_connection :: "bytes \<Rightarrow> proto_connection_end option"
  prost_encode_channel :: "proto_channel \<Rightarrow> bytes"
  prost_decode_channel :: "bytes \<Rightarrow> proto_channel option"

definition prost_ok :: "prost \<Rightarrow> bool" where
  "prost_ok P \<longleftrightarrow>
     (\<forall>m. prost_decode_connection P (prost_encode_connection P m) = Some m) \<and>
     (\<forall>m. prost_decode_channel P (prost_encode_channel P m) = Some m)"

text \<open>\<^verbatim>\<open>Encode<Proto>\<close> and \<^verbatim>\<open>Decode<Proto>\<close>, as the \<^verbatim>\<open>model\<close> macro derives them.\<close>

definition encode_connection :: "prost \<Rightarrow> connection_end \<Rightarrow> bytes" where
  "encode_connection P e = prost_encode_connection P (connection_end_into_proto e)"

definition decode_connection :: "prost \<Rightarrow> bytes \<Rightarrow> connection_end option" where
  "decode_connection P bs =
     (case prost_decode_connection P bs of
        None \<Rightarrow> None
      | Some m \<Rightarrow> (case connection_end_from_proto m of Inl _ \<Rightarrow> None | Inr e \<Rightarrow> Some e))"

definition encode_channel :: "prost \<Rightarrow> channel \<Rightarrow> bytes" where
  "encode_channel P c = prost_encode_channel P (channel_into_proto c)"

definition decode_channel :: "prost \<Rightarrow> bytes \<Rightarrow> channel option" where
  "decode_channel P bs =
     (case prost_decode_channel P bs of
        None \<Rightarrow> None
      | Some m \<Rightarrow> (case channel_from_proto m of Inl _ \<Rightarrow> None | Inr c \<Rightarrow> Some c))"

lemma decode_encode_connection:
  "prost_ok P \<Longrightarrow> wf_connection_end e \<Longrightarrow> decode_connection P (encode_connection P e) = Some e"
  by (simp add: prost_ok_def decode_connection_def encode_connection_def
      connection_end_proto_roundtrip)

lemma decode_encode_channel:
  "prost_ok P \<Longrightarrow> wf_channel c \<Longrightarrow> decode_channel P (encode_channel P c) = Some c"
  by (simp add: prost_ok_def decode_channel_def encode_channel_def channel_proto_roundtrip)

lemma decode_connection_wf: "decode_connection P bs = Some e \<Longrightarrow> wf_connection_end e"
  by (auto simp: decode_connection_def dest: connection_end_from_proto_wf
      split: option.splits sum.splits)

lemma decode_channel_wf: "decode_channel P bs = Some c \<Longrightarrow> wf_channel c"
  by (auto simp: decode_channel_def dest: channel_from_proto_wf split: option.splits sum.splits)

end
