(* ===== verification/Vm_Types.thy ===== *)
theory Vm_Types imports Ibc_Types begin

text \<open>
  The vocabulary of the IBC virtual machine, \<^verbatim>\<open>lib/ibc-vm-rs/src/lib.rs\<close>: its errors, the queries
  and messages it asks the host to send to light clients and applications, the responses it is fed
  with, the events it emits (\<^verbatim>\<open>lib/unionlabs/src/events.rs\<close>), and the interface it expects of a
  host chain, the trait \<^verbatim>\<open>IbcHost\<close>.
\<close>

section \<open>Constants\<close>

definition DEFAULT_IBC_VERSION :: "version list" where
  "DEFAULT_IBC_VERSION = [\<lparr>ver_identifier = ''1'', ver_features = [Unordered]\<rparr>]"

definition str_bytes :: "string \<Rightarrow> bytes" where
  \<comment> \<open>the bytes of a string\<close>
  "str_bytes s = map of_char s"

definition DEFAULT_MERKLE_PREFIX :: merkle_prefix where
  "DEFAULT_MERKLE_PREFIX = str_bytes ''ibc''"

section \<open>Errors\<close>

datatype status = Active | Frozen | Expired

datatype ibc_error =
    NotActive string status
  | UnexpectedAction
  | ClientMessageVerificationFailed
  | ConnectionNotFound string
  | IncorrectConnectionState connection_state connection_state
  | IbcAppCallbackFailed string
  | AcknowledgementExists u64
  | EmptyAcknowledgement
  | MembershipVerificationFailure
  | NoSupportedVersionFound
  | EmptyVersionFeatures
  | VersionIdentifiedMismatch string string
  | UnsupportedFeatureInVersion order
  | ClientStateNotFound string
  | ChannelNotFound string string
  | IncorrectChannelState channel_state channel_state
  | SourcePortMismatch string string
  | DestinationPortMismatch string string
  | SourceChannelMismatch string string
  | DestinationChannelMismatch string string
  | TimedOutPacket
  | ZeroTimeout
  | PacketCommitmentMismatch bytes bytes

section \<open>Queries, messages, responses\<close>

datatype ibc_query =
    QStatus
  | QLatestHeight
  | QVerifyMembership (vm_height: height) (vm_delay_time: u64) (vm_delay_block: u64)
      (vm_proof: bytes) (vm_path: merkle_path) (vm_value: bytes)
  | QVerifyClientMessage bytes
  | QCheckForMisbehaviour bytes
  | QTimestampAtHeight height

datatype ibc_msg =
    MsgInitialize string string bytes bytes
      \<comment> \<open>client id, client type, client state, consensus state\<close>
  | MsgUpdateStateOnMisbehaviour string bytes
  | MsgUpdateState string bytes
  | MsgOnChannelOpenInit order "string list" string string channel_counterparty string
      \<comment> \<open>order, connection hops, port id, channel id, counterparty, version\<close>
  | MsgOnChannelOpenTry order "string list" string string channel_counterparty string
  | MsgOnChannelOpenAck string string string string
      \<comment> \<open>port id, channel id, counterparty channel id, counterparty version\<close>
  | MsgOnChannelOpenConfirm string string
  | MsgOnRecvPacket packet
  | MsgOnAcknowledgePacket packet bytes

datatype ibc_action =
    Query string "ibc_query list"
  | Write ibc_msg

datatype ibc_vm_response =
    VmSendPacket u64
  | VmEmpty

type_synonym callback_error = "string option"

datatype ibc_response =
    RespEmpty
  | RespInitialize
  | RespStatus status
  | RespLatestHeight height
  | RespTimestampAtHeight u64
  | RespVerifyMembership bool
  | RespVerifyClientMessage bool
  | RespCheckForMisbehaviour bool
  | RespUpdateStateOnMisbehaviour
  | RespUpdateState "(height \<times> bytes) list" bytes
      \<comment> \<open>consensus states, client state\<close>
  | RespOnChannelOpenInit callback_error
  | RespOnChannelOpenTry callback_error
  | RespOnChannelOpenAck callback_error
  | RespOnChannelOpenConfirm callback_error
  | RespOnRecvPacket bytes
  | RespOnAcknowledgePacket callback_error

section \<open>Events\<close>

text \<open>The fields of the four packet events that carry the packet's data or not.\<close>

record packet_event =
  ev_data :: bytes
  ev_timeout_height :: height
  ev_timeout_timestamp :: u64
  ev_sequence :: u64
  ev_src_port :: string
  ev_src_channel :: string
  ev_dst_port :: string
  ev_dst_channel :: string
  ev_connection_id :: string

datatype ibc_event =
    EvCreateClient string string height
      \<comment> \<open>client id, client type, consensus height\<close>
  | EvUpdateClient string string "height list"
  | EvClientMisbehaviour string string height
  | EvSubmitEvidence string
  | EvConnectionOpenInit string string string
      \<comment> \<open>connection id, client id, counterparty client id\<close>
  | EvConnectionOpenTry string string string string
      \<comment> \<open>connection id, client id, counterparty client id, counterparty connection id\<close>
  | EvConnectionOpenAck string string string string
  | EvConnectionOpenConfirm string string string string
  | EvChannelOpenInit string string string string string
      \<comment> \<open>port id, channel id, counterparty port id, connection id, version\<close>
  | EvChannelOpenTry string string string string string string
      \<comment> \<open>port id, channel id, counterparty port id, counterparty channel id, connection id, version\<close>
  | EvChannelOpenAck string string string string string
      \<comment> \<open>port id, channel id, counterparty port id, counterparty channel id, connection id\<close>
  | EvChannelOpenConfirm string string string string string
  | EvWriteAcknowledgement packet_event bytes
  | EvRecvPacket packet_event order
  | EvSendPacket packet_event order
  | EvAcknowledgePacket packet_event order
      \<comment> \<open>without the data, which is left empty\<close>
  | EvTimeoutPacket packet_event order

fun event_name :: "ibc_event \<Rightarrow> string" where
  "event_name (EvCreateClient _ _ _) = ''create_client''"
| "event_name (EvUpdateClient _ _ _) = ''update_client''"
| "event_name (EvClientMisbehaviour _ _ _) = ''client_misbehaviour''"
| "event_name (EvSubmitEvidence _) = ''submit_evidence''"
| "event_name (EvConnectionOpenInit _ _ _) = ''connection_open_init''"
| "event_name (EvConnectionOpenTry _ _ _ _) = ''connection_open_try''"
| "event_name (EvConnectionOpenAck _ _ _ _) = ''connection_open_ack''"
| "event_name (EvConnectionOpenConfirm _ _ _ _) = ''connection_open_confirm''"
| "event_name (EvChannelOpenInit _ _ _ _ _) = ''channel_open_init''"
| "event_name (EvChannelOpenTry _ _ _ _ _ _) = ''channel_open_try''"
| "event_name (EvChannelOpenAck _ _ _ _ _) = ''channel_open_ack''"
| "event_name (EvChannelOpenConfirm _ _ _ _ _) = ''channel_open_confirm''"
| "event_name (EvWriteAcknowledgement _ _) = ''write_acknowledgement''"
| "event_name (EvRecvPacket _ _) = ''recv_packet''"
| "event_name (EvSendPacket _ _) = ''send_packet''"
| "event_name (EvAcknowledgePacket _ _) = ''acknowledge_packet''"
| "event_name (EvTimeoutPacket _ _) = ''timeout_packet''"

section \<open>The host interface\<close>

text \<open>
  A value of this record is one implementation of the trait \<^verbatim>\<open>IbcHost\<close> for a host of type \<open>'h\<close>
  with errors \<open>'e\<close>. \<^verbatim>\<open>read\<close> and \<^verbatim>\<open>commit\<close> are generic in the value; the machine uses them for
  connection ends and channels, so each is there twice. The last three fields are functions of other
  crates the machine calls itself: \<open>host_encode_\<dots>\<close> is \<^verbatim>\<open>encode_as::<Proto>()\<close>, the bytes under which
  a counterparty is expected to have committed a value, and \<open>host_hex_encode\<close> is \<^verbatim>\<open>hex::encode\<close>.
\<close>

record ('h, 'e) ibc_host =
  from_ibc_error :: "ibc_error \<Rightarrow> 'e"
  next_client_identifier :: "string \<Rightarrow> ('h, 'e, string) prog"
  next_connection_identifier :: "('h, 'e, string) prog"
  next_channel_identifier :: "('h, 'e, string) prog"
  host_client_state :: "'h \<Rightarrow> string \<Rightarrow> bytes option"
  read_connection :: "path \<Rightarrow> ('h, 'e, connection_end option) prog"
  read_channel :: "path \<Rightarrow> ('h, 'e, channel option) prog"
  read_raw :: "'h \<Rightarrow> path \<Rightarrow> bytes option"
  commit_raw :: "path \<Rightarrow> bytes \<Rightarrow> ('h, 'e, unit) prog"
  commit_connection :: "path \<Rightarrow> connection_end \<Rightarrow> ('h, 'e, unit) prog"
  commit_channel :: "path \<Rightarrow> channel \<Rightarrow> ('h, 'e, unit) prog"
  delete_path :: "path \<Rightarrow> ('h, 'e, unit) prog"
  current_height :: "'h \<Rightarrow> height"
  current_timestamp :: "'h \<Rightarrow> u64"
  host_sha256 :: "'h \<Rightarrow> bytes \<Rightarrow> bytes"
  host_encode_connection :: "connection_end \<Rightarrow> bytes"
  host_encode_channel :: "channel \<Rightarrow> bytes"
  host_hex_encode :: "bytes \<Rightarrow> bytes"

text \<open>
  One step of a machine with states \<open>'m\<close> (\<^verbatim>\<open>Runnable::process\<close>): \<^verbatim>\<open>Either::Left\<close> is the next
  state with the action to perform, \<^verbatim>\<open>Either::Right\<close> the events and the final response.
\<close>

type_synonym 'm vm_result = "('m \<times> ibc_action) + (ibc_event list \<times> ibc_vm_response)"

abbreviation (input) fail :: "('h, 'e) ibc_host \<Rightarrow> ibc_error \<Rightarrow> ('h, 'e, 'a) prog" where
  "fail H e \<equiv> raise (from_ibc_error H e)"

abbreviation (input) unexpected_action :: "('h, 'e) ibc_host \<Rightarrow> ('h, 'e, 'a) prog" where
  "unexpected_action H \<equiv> raise (from_ibc_error H UnexpectedAction)"

definition ensure :: "('h, 'e) ibc_host \<Rightarrow> bool \<Rightarrow> ibc_error \<Rightarrow> ('h, 'e, unit) prog" where
  \<comment> \<open>\<^verbatim>\<open>if !b { return Err(e.into()); }\<close>\<close>
  "ensure H b e = (if b then ret () else fail H e)"

lemma ensure_simps [simp, prog_simps]:
  "ensure H True e = ret ()" "ensure H False e = fail H e"
  by (simp_all add: ensure_def)

lemma ensure_Ok [prog_ok]: "ensure H b e s = (Ok u, s') \<longleftrightarrow> b \<and> s' = s"
  by (cases b) (auto simp: ensure_def)

end
