(* ===== verification/Vm_Client.thy ===== *)
theory Vm_Client imports Vm_Types begin

text \<open>
  The client machines: \<^verbatim>\<open>CreateClient\<close> (\<^verbatim>\<open>lib/ibc-vm-rs/src/states.rs\<close>) and \<^verbatim>\<open>UpdateClient\<close>
  (\<^verbatim>\<open>states/client_state.rs\<close>). A response list that is not the one a state waits for is
  \<open>UnexpectedAction\<close>.
\<close>

section \<open>Creating a client\<close>

datatype create_client =
    CreateClient_Init string bytes bytes
      \<comment> \<open>client type, client state, consensus state\<close>
  | CreateClient_Initialize string string bytes bytes
      \<comment> \<open>client id, client type, client state, consensus state\<close>
  | CreateClient_FetchLcData string string bytes bytes

fun create_client_process ::
  "('h, 'e) ibc_host \<Rightarrow> create_client \<Rightarrow> ibc_response list \<Rightarrow> ('h, 'e, create_client vm_result) prog"
where
  "create_client_process H (CreateClient_Init client_type client_state consensus_state) resp =
     (case resp of
        [RespEmpty] \<Rightarrow>
          seqp (next_client_identifier H client_type) (\<lambda>client_id.
          ret (Inl (CreateClient_Initialize client_id client_type client_state consensus_state,
                    Write (MsgInitialize client_id client_type client_state consensus_state))))
      | _ \<Rightarrow> unexpected_action H)"
| "create_client_process H (CreateClient_Initialize client_id client_type client_state consensus_state) resp =
     (case resp of
        [RespInitialize] \<Rightarrow>
          ret (Inl (CreateClient_FetchLcData client_id client_type client_state consensus_state,
                    Query client_id [QStatus, QLatestHeight]))
      | _ \<Rightarrow> unexpected_action H)"
| "create_client_process H (CreateClient_FetchLcData client_id client_type client_state consensus_state) resp =
     (case resp of
        [RespStatus status, RespLatestHeight height] \<Rightarrow>
          seqp (ensure H (status = Active) (NotActive client_id status)) (\<lambda>_.
          seqp (commit_raw H (ClientStatePath client_id) client_state) (\<lambda>_.
          seqp (commit_raw H (ClientConsensusStatePath client_id height) consensus_state) (\<lambda>_.
          ret (Inr ([EvCreateClient client_id client_type height], VmEmpty)))))
      | _ \<Rightarrow> unexpected_action H)"

section \<open>Updating a client\<close>

datatype update_client =
    UpdateClient_Init string bytes
      \<comment> \<open>client id, client message\<close>
  | UpdateClient_LcQueriesMade string bytes
  | UpdateClient_UpdatedStateOnMisbehaviour string
  | UpdateClient_UpdatedState string

definition commit_consensus_states ::
  "('h, 'e) ibc_host \<Rightarrow> string \<Rightarrow> (height \<times> bytes) list \<Rightarrow> ('h, 'e, height list) prog" where
  "commit_consensus_states H client_id consensus_states =
     mapp (\<lambda>(height, state).
         seqp (commit_raw H (ClientConsensusStatePath client_id height) state) (\<lambda>_. ret height))
       consensus_states"

fun update_client_process ::
  "('h, 'e) ibc_host \<Rightarrow> update_client \<Rightarrow> ibc_response list \<Rightarrow> ('h, 'e, update_client vm_result) prog"
where
  "update_client_process H (UpdateClient_Init client_id client_msg) resp =
     (case resp of
        [RespEmpty] \<Rightarrow>
          ret (Inl (UpdateClient_LcQueriesMade client_id client_msg,
                    Query client_id
                      [QStatus, QVerifyClientMessage client_msg, QCheckForMisbehaviour client_msg]))
      | _ \<Rightarrow> unexpected_action H)"
| "update_client_process H (UpdateClient_LcQueriesMade client_id client_msg) resp =
     (case resp of
        [RespStatus status, RespVerifyClientMessage valid, RespCheckForMisbehaviour misbehaviour_found] \<Rightarrow>
          seqp (ensure H (status = Active) (NotActive client_id status)) (\<lambda>_.
          seqp (ensure H valid ClientMessageVerificationFailed) (\<lambda>_.
          ret (if misbehaviour_found
               then Inl (UpdateClient_UpdatedStateOnMisbehaviour client_id,
                         Write (MsgUpdateStateOnMisbehaviour client_id client_msg))
               else Inl (UpdateClient_UpdatedState client_id,
                         Write (MsgUpdateState client_id client_msg)))))
      | _ \<Rightarrow> unexpected_action H)"
| "update_client_process H (UpdateClient_UpdatedStateOnMisbehaviour client_id) resp =
     (case resp of
        [RespUpdateStateOnMisbehaviour] \<Rightarrow>
          ret (Inr ([EvClientMisbehaviour client_id
                       ''TODO(aeryz) why in the hell do we have this here'' default_height], VmEmpty))
      | _ \<Rightarrow> unexpected_action H)"
| "update_client_process H (UpdateClient_UpdatedState client_id) resp =
     (case resp of
        [RespUpdateState consensus_states client_state] \<Rightarrow>
          seqp (commit_raw H (ClientStatePath client_id) client_state) (\<lambda>_.
          seqp (commit_consensus_states H client_id consensus_states) (\<lambda>consensus_heights.
          ret (Inr ([EvUpdateClient client_id ''TODO(aeryz): I hate this'' consensus_heights], VmEmpty))))
      | _ \<Rightarrow> unexpected_action H)"

section \<open>What a step that succeeds was\<close>

text \<open>
  Each state accepts exactly one shape of responses: the inversions below list, for a step that
  returned a value, the state and the responses it was fed.
\<close>

lemmas response_splits = list.splits ibc_response.splits if_splits

lemma create_client_process_Ok:
  assumes "create_client_process H m resp s = (Ok r, s')"
  obtains
    (init) ty cs cons cid where "m = CreateClient_Init ty cs cons" "resp = [RespEmpty]"
      "next_client_identifier H ty s = (Ok cid, s')"
      "r = Inl (CreateClient_Initialize cid ty cs cons, Write (MsgInitialize cid ty cs cons))"
  | (initialize) cid ty cs cons where "m = CreateClient_Initialize cid ty cs cons"
      "resp = [RespInitialize]" "s' = s"
      "r = Inl (CreateClient_FetchLcData cid ty cs cons, Query cid [QStatus, QLatestHeight])"
  | (fetched) cid ty cs cons h s1 where "m = CreateClient_FetchLcData cid ty cs cons"
      "resp = [RespStatus Active, RespLatestHeight h]"
      "commit_raw H (ClientStatePath cid) cs s = (Ok (), s1)"
      "commit_raw H (ClientConsensusStatePath cid h) cons s1 = (Ok (), s')"
      "r = Inr ([EvCreateClient cid ty h], VmEmpty)"
  using assms by (cases m) (auto simp: prog_ok split: response_splits)

lemma update_client_process_Ok:
  assumes "update_client_process H m resp s = (Ok r, s')"
  obtains
    (init) cid msg where "m = UpdateClient_Init cid msg" "resp = [RespEmpty]" "s' = s"
      "r = Inl (UpdateClient_LcQueriesMade cid msg,
                Query cid [QStatus, QVerifyClientMessage msg, QCheckForMisbehaviour msg])"
  | (misbehaviour) cid msg where "m = UpdateClient_LcQueriesMade cid msg" "s' = s"
      "resp = [RespStatus Active, RespVerifyClientMessage True, RespCheckForMisbehaviour True]"
      "r = Inl (UpdateClient_UpdatedStateOnMisbehaviour cid,
                Write (MsgUpdateStateOnMisbehaviour cid msg))"
  | (update) cid msg where "m = UpdateClient_LcQueriesMade cid msg" "s' = s"
      "resp = [RespStatus Active, RespVerifyClientMessage True, RespCheckForMisbehaviour False]"
      "r = Inl (UpdateClient_UpdatedState cid, Write (MsgUpdateState cid msg))"
  | (frozen) cid evs where "m = UpdateClient_UpdatedStateOnMisbehaviour cid" "s' = s"
      "resp = [RespUpdateStateOnMisbehaviour]" "r = Inr (evs, VmEmpty)"
  | (updated) cid css cs s1 hs ty where "m = UpdateClient_UpdatedState cid"
      "resp = [RespUpdateState css cs]"
      "commit_raw H (ClientStatePath cid) cs s = (Ok (), s1)"
      "commit_consensus_states H cid css s1 = (Ok hs, s')"
      "r = Inr ([EvUpdateClient cid ty hs], VmEmpty)"
  using assms by (cases m) (auto simp: prog_ok split: response_splits)

end
