(* ===== verification/Vm_Connection.thy ===== *)
theory Vm_Connection imports Vm_Types begin

text \<open>
  The connection handshake of \<^verbatim>\<open>lib/ibc-vm-rs/src/states/connection_handshake.rs\<close>: version
  negotiation and the machines of the four handshake messages.
\<close>

section \<open>Versions\<close>

definition find_supported_version :: "version \<Rightarrow> version list \<Rightarrow> version option" where
  "find_supported_version v supported = find (\<lambda>u. ver_identifier u = ver_identifier v) supported"

definition verify_proposed_version :: "version \<Rightarrow> version \<Rightarrow> ibc_error + unit" where
  "verify_proposed_version v proposed =
     (if ver_identifier v \<noteq> ver_identifier proposed
      then Inl (VersionIdentifiedMismatch (ver_identifier v) (ver_identifier proposed))
      else if ver_features proposed = [] then Inl EmptyVersionFeatures
      else (case find (\<lambda>feat. feat \<notin> set (ver_features v)) (ver_features proposed) of
              Some feat \<Rightarrow> Inl (UnsupportedFeatureInVersion feat)
            | None \<Rightarrow> Inr ()))"

definition verify_version_supported :: "version list \<Rightarrow> version \<Rightarrow> ibc_error + unit" where
  "verify_version_supported supported proposed =
     (case find_supported_version proposed supported of
        None \<Rightarrow> Inl NoSupportedVersionFound
      | Some v \<Rightarrow> verify_proposed_version v proposed)"

lemma verify_proposed_version_Inr:
  "verify_proposed_version v p = Inr () \<longleftrightarrow>
     ver_identifier v = ver_identifier p \<and> ver_features p \<noteq> [] \<and>
     set (ver_features p) \<subseteq> set (ver_features v)"
  by (auto simp: verify_proposed_version_def find_None_iff split: option.splits dest!: find_SomeD)

lemma verify_version_supported_Inr:
  "verify_version_supported vs p = Inr () \<longleftrightarrow>
     (\<exists>v. find_supported_version p vs = Some v \<and> ver_features p \<noteq> [] \<and>
          set (ver_features p) \<subseteq> set (ver_features v))"
  by (auto simp: verify_version_supported_def verify_proposed_version_Inr find_supported_version_def
      split: option.splits dest: find_SomeD)

lemma default_version_supported:
  "verify_version_supported DEFAULT_IBC_VERSION v = Inr () \<longleftrightarrow>
     ver_identifier v = ''1'' \<and> ver_features v \<noteq> [] \<and> set (ver_features v) = {Unordered}"
  by (auto simp: verify_version_supported_Inr DEFAULT_IBC_VERSION_def find_supported_version_def
      split: if_splits) (metis list.set_sel(1) singletonD subsetD)+

section \<open>The query for a connection of the counterparty\<close>

definition connection_proof_query ::
  "('h, 'e) ibc_host \<Rightarrow> height \<Rightarrow> bytes \<Rightarrow> string \<Rightarrow> connection_end \<Rightarrow> ibc_query" where
  "connection_proof_query H proof_height proof counterparty_connection_id expected =
     QVerifyMembership proof_height 0 0 proof
       [''ibc'', ''connections/'' @ counterparty_connection_id]
       (host_encode_connection H expected)"

section \<open>\<^verbatim>\<open>ConnectionOpenInit\<close>\<close>

datatype connection_open_init =
    ConnectionOpenInit_Init string connection_counterparty version u64
      \<comment> \<open>client id, counterparty, version, delay period\<close>
  | ConnectionOpenInit_CheckStatus string connection_counterparty "version list" u64

fun connection_open_init_process ::
  "('h, 'e) ibc_host \<Rightarrow> connection_open_init \<Rightarrow> ibc_response list
     \<Rightarrow> ('h, 'e, connection_open_init vm_result) prog" where
  "connection_open_init_process H (ConnectionOpenInit_Init client_id counterparty version delay_period) resp =
     (case resp of
        [RespEmpty] \<Rightarrow>
          seqp (lift_result (from_ibc_error H) (verify_version_supported DEFAULT_IBC_VERSION version)) (\<lambda>_.
          ret (Inl (ConnectionOpenInit_CheckStatus client_id counterparty DEFAULT_IBC_VERSION delay_period,
                    Query client_id [QStatus])))
      | _ \<Rightarrow> unexpected_action H)"
| "connection_open_init_process H (ConnectionOpenInit_CheckStatus client_id counterparty versions delay_period) resp =
     (case resp of
        [RespStatus status] \<Rightarrow>
          seqp (ensure H (status = Active) (NotActive client_id status)) (\<lambda>_.
          seqp (next_connection_identifier H) (\<lambda>connection_id.
          seqp (asks (\<lambda>h. host_client_state H h client_id)) (\<lambda>client_state.
          seqp (ok_or (from_ibc_error H (ClientStateNotFound client_id)) client_state) (\<lambda>_.
          seqp (commit_connection H (ConnectionPath connection_id)
                 \<lparr>ce_client_id = client_id, ce_versions = versions, ce_state = ConnInit,
                  ce_counterparty = counterparty, ce_delay_period = delay_period\<rparr>) (\<lambda>_.
          ret (Inr ([EvConnectionOpenInit connection_id client_id (cc_client_id counterparty)],
                    VmEmpty)))))))
      | _ \<Rightarrow> unexpected_action H)"

section \<open>\<^verbatim>\<open>ConnectionOpenTry\<close>\<close>

datatype connection_open_try =
    ConnectionOpenTry_Init string connection_counterparty "version list" bytes height u64
      \<comment> \<open>client id, counterparty, counterparty versions, proof, proof height, delay period\<close>
  | ConnectionOpenTry_ConnectionStateVerified string connection_counterparty u64

fun connection_open_try_process ::
  "('h, 'e) ibc_host \<Rightarrow> connection_open_try \<Rightarrow> ibc_response list
     \<Rightarrow> ('h, 'e, connection_open_try vm_result) prog" where
  "connection_open_try_process H
     (ConnectionOpenTry_Init client_id counterparty counterparty_versions connection_end_proof
        proof_height delay_period) resp =
     (case resp of
        [RespEmpty] \<Rightarrow>
          (let expected_counterparty =
                 \<lparr>ce_client_id = cc_client_id counterparty, ce_versions = counterparty_versions,
                  ce_state = ConnInit,
                  ce_counterparty = \<lparr>cc_client_id = client_id, cc_connection_id = [],
                                     cc_prefix = DEFAULT_MERKLE_PREFIX\<rparr>,
                  ce_delay_period = delay_period\<rparr> in
           ret (Inl (ConnectionOpenTry_ConnectionStateVerified client_id counterparty delay_period,
                     Query client_id
                       [connection_proof_query H proof_height connection_end_proof
                          (cc_connection_id counterparty) expected_counterparty])))
      | _ \<Rightarrow> unexpected_action H)"
| "connection_open_try_process H
     (ConnectionOpenTry_ConnectionStateVerified client_id counterparty delay_period) resp =
     (case resp of
        [RespVerifyMembership valid] \<Rightarrow>
          seqp (ensure H valid MembershipVerificationFailure) (\<lambda>_.
          seqp (next_connection_identifier H) (\<lambda>connection_id.
          seqp (commit_connection H (ConnectionPath connection_id)
                 \<lparr>ce_client_id = client_id, ce_versions = DEFAULT_IBC_VERSION, ce_state = ConnTryopen,
                  ce_counterparty = counterparty, ce_delay_period = delay_period\<rparr>) (\<lambda>_.
          seqp (unwrap_result (connection_id_validate (cc_connection_id counterparty)))
            (\<lambda>counterparty_connection_id.
          ret (Inr ([EvConnectionOpenTry connection_id client_id (cc_client_id counterparty)
                       counterparty_connection_id], VmEmpty))))))
      | _ \<Rightarrow> unexpected_action H)"

section \<open>\<^verbatim>\<open>ConnectionOpenAck\<close>\<close>

datatype connection_open_ack =
    ConnectionOpenAck_Init string version string bytes height
      \<comment> \<open>connection id, version, counterparty connection id, proof, proof height\<close>
  | ConnectionOpenAck_ConnectionStateVerified string string string connection_end
      \<comment> \<open>client id, connection id, counterparty connection id, connection\<close>

fun connection_open_ack_process ::
  "('h, 'e) ibc_host \<Rightarrow> connection_open_ack \<Rightarrow> ibc_response list
     \<Rightarrow> ('h, 'e, connection_open_ack vm_result) prog" where
  "connection_open_ack_process H
     (ConnectionOpenAck_Init connection_id version counterparty_connection_id connection_end_proof
        proof_height) resp =
     (case resp of
        [RespEmpty] \<Rightarrow>
          seqp (unwrap_result (connection_id_validate connection_id)) (\<lambda>cid.
          seqp (read_connection H (ConnectionPath cid)) (\<lambda>found.
          seqp (ok_or (from_ibc_error H (ConnectionNotFound connection_id)) found) (\<lambda>connection.
          seqp (ensure H (ce_state connection = ConnInit)
                 (IncorrectConnectionState (ce_state connection) ConnInit)) (\<lambda>_.
          seqp (lift_result (from_ibc_error H)
                 (verify_version_supported (ce_versions connection) version)) (\<lambda>_.
          (let client_id = ce_client_id connection;
               expected_counterparty =
                 \<lparr>ce_client_id = cc_client_id (ce_counterparty connection),
                  ce_versions = DEFAULT_IBC_VERSION, ce_state = ConnTryopen,
                  ce_counterparty = \<lparr>cc_client_id = client_id, cc_connection_id = connection_id,
                                     cc_prefix = DEFAULT_MERKLE_PREFIX\<rparr>,
                  ce_delay_period = ce_delay_period connection\<rparr> in
           ret (Inl (ConnectionOpenAck_ConnectionStateVerified client_id connection_id
                       counterparty_connection_id connection,
                     Query client_id
                       [connection_proof_query H proof_height connection_end_proof
                          counterparty_connection_id expected_counterparty]))))))))
      | _ \<Rightarrow> unexpected_action H)"
| "connection_open_ack_process H
     (ConnectionOpenAck_ConnectionStateVerified client_id connection_id counterparty_connection_id
        connection) resp =
     (case resp of
        [RespVerifyMembership valid] \<Rightarrow>
          seqp (ensure H valid MembershipVerificationFailure) (\<lambda>_.
          (let connection' = connection
                 \<lparr>ce_state := ConnOpen,
                  ce_counterparty := (ce_counterparty connection)
                    \<lparr>cc_connection_id := counterparty_connection_id\<rparr>\<rparr> in
          seqp (unwrap_result (connection_id_validate connection_id)) (\<lambda>cid.
          seqp (commit_connection H (ConnectionPath cid) connection') (\<lambda>_.
          seqp (unwrap_result (connection_id_validate counterparty_connection_id)) (\<lambda>ccid.
          ret (Inr ([EvConnectionOpenAck cid client_id
                       (cc_client_id (ce_counterparty connection)) ccid], VmEmpty)))))))
      | _ \<Rightarrow> unexpected_action H)"

section \<open>\<^verbatim>\<open>ConnectionOpenConfirm\<close>\<close>

datatype connection_open_confirm =
    ConnectionOpenConfirm_Init string bytes height
      \<comment> \<open>connection id, proof, proof height\<close>
  | ConnectionOpenConfirm_ConnectionStateVerified string string connection_end
      \<comment> \<open>client id, connection id, connection\<close>

fun connection_open_confirm_process ::
  "('h, 'e) ibc_host \<Rightarrow> connection_open_confirm \<Rightarrow> ibc_response list
     \<Rightarrow> ('h, 'e, connection_open_confirm vm_result) prog" where
  "connection_open_confirm_process H
     (ConnectionOpenConfirm_Init connection_id connection_end_proof proof_height) resp =
     (case resp of
        [RespEmpty] \<Rightarrow>
          seqp (unwrap_result (connection_id_validate connection_id)) (\<lambda>cid.
          seqp (read_connection H (ConnectionPath cid)) (\<lambda>found.
          seqp (ok_or (from_ibc_error H (ConnectionNotFound connection_id)) found) (\<lambda>connection.
          seqp (ensure H (ce_state connection = ConnTryopen)
                 (IncorrectConnectionState (ce_state connection) ConnTryopen)) (\<lambda>_.
          (let client_id = ce_client_id connection;
               expected_counterparty =
                 \<lparr>ce_client_id = cc_client_id (ce_counterparty connection),
                  ce_versions = DEFAULT_IBC_VERSION, ce_state = ConnOpen,
                  ce_counterparty = \<lparr>cc_client_id = client_id, cc_connection_id = connection_id,
                                     cc_prefix = DEFAULT_MERKLE_PREFIX\<rparr>,
                  ce_delay_period = ce_delay_period connection\<rparr> in
           ret (Inl (ConnectionOpenConfirm_ConnectionStateVerified client_id connection_id connection,
                     Query client_id
                       [connection_proof_query H proof_height connection_end_proof
                          (cc_connection_id (ce_counterparty connection)) expected_counterparty])))))))
      | _ \<Rightarrow> unexpected_action H)"
| "connection_open_confirm_process H
     (ConnectionOpenConfirm_ConnectionStateVerified client_id connection_id connection) resp =
     (case resp of
        [RespVerifyMembership valid] \<Rightarrow>
          seqp (ensure H valid MembershipVerificationFailure) (\<lambda>_.
          seqp (unwrap_result (connection_id_validate connection_id)) (\<lambda>cid.
          seqp (commit_connection H (ConnectionPath cid) (connection\<lparr>ce_state := ConnOpen\<rparr>)) (\<lambda>_.
          seqp (unwrap_result (connection_id_validate (cc_connection_id (ce_counterparty connection))))
            (\<lambda>ccid.
          ret (Inr ([EvConnectionOpenConfirm cid client_id
                       (cc_client_id (ce_counterparty connection)) ccid], VmEmpty))))))
      | _ \<Rightarrow> unexpected_action H)"

end
