(* ===== verification/Vm_Channel.thy ===== *)
theory Vm_Channel imports Vm_Types begin

text \<open>
  The channel handshake of \<^verbatim>\<open>lib/ibc-vm-rs/src/states/channel_handshake.rs\<close>: four machines, each
  of which reads the channel or the connection, asks the light client, calls the application back
  and only then commits the channel end.
\<close>

section \<open>Shared steps\<close>

text \<open>
  \<^verbatim>\<open>host.read(ConnectionPath { connection_id: hops[0] })\<close>, refused unless there is such a connection
  and it is open: the same lines open every handshake message of a channel and every packet.
\<close>

definition read_open_connection ::
  "('h, 'e) ibc_host \<Rightarrow> string list \<Rightarrow> ('h, 'e, connection_end) prog" where
  "read_open_connection H hops =
     seqp (index hops 0) (\<lambda>connection_id.
     seqp (read_connection H (ConnectionPath connection_id)) (\<lambda>found.
     seqp (ok_or (from_ibc_error H (ConnectionNotFound connection_id)) found) (\<lambda>connection.
     seqp (ensure H (ce_state connection = ConnOpen)
            (IncorrectConnectionState (ce_state connection) ConnOpen)) (\<lambda>_.
     ret connection))))"

definition read_channel_or ::
  "('h, 'e) ibc_host \<Rightarrow> string \<Rightarrow> string \<Rightarrow> ('h, 'e, channel) prog" where
  \<comment> \<open>\<^verbatim>\<open>host.read(ChannelEndPath { port_id, channel_id }).ok_or(ChannelNotFound(..))\<close>\<close>
  "read_channel_or H port_id channel_id =
     seqp (read_channel H (ChannelEndPath port_id channel_id)) (\<lambda>found.
     ok_or (from_ibc_error H (ChannelNotFound port_id channel_id)) found)"

definition channel_proof_query ::
  "('h, 'e) ibc_host \<Rightarrow> height \<Rightarrow> bytes \<Rightarrow> string \<Rightarrow> string \<Rightarrow> channel \<Rightarrow> ibc_query" where
  "channel_proof_query H proof_height proof port_id channel_id expected =
     QVerifyMembership proof_height 0 0 proof
       [''ibc'', ''channelEnds/ports/'' @ port_id @ ''/channels/'' @ channel_id]
       (host_encode_channel H expected)"

definition commit_new_channel ::
  "('h, 'e) ibc_host \<Rightarrow> string \<Rightarrow> string \<Rightarrow> channel \<Rightarrow> ('h, 'e, unit) prog" where
  \<comment> \<open>the channel end and its three sequence counters, which start at one\<close>
  "commit_new_channel H port_id channel_id ch =
     (let one = u64_to_be_bytes 1 in
      seqp (commit_channel H (ChannelEndPath port_id channel_id) ch) (\<lambda>_.
      seqp (commit_raw H (NextSequenceSendPath port_id channel_id) one) (\<lambda>_.
      seqp (commit_raw H (NextSequenceRecvPath port_id channel_id) one) (\<lambda>_.
      commit_raw H (NextSequenceAckPath port_id channel_id) one))))"

definition callback_ok :: "('h, 'e) ibc_host \<Rightarrow> callback_error \<Rightarrow> ('h, 'e, unit) prog" where
  \<comment> \<open>\<^verbatim>\<open>if let Some(err) = err { return Err(IbcAppCallbackFailed(err)) }\<close>\<close>
  "callback_ok H err = (case err of None \<Rightarrow> ret () | Some e \<Rightarrow> fail H (IbcAppCallbackFailed e))"

lemma callback_ok_Ok [prog_ok]: "callback_ok H err s = (Ok u, s') \<longleftrightarrow> err = None \<and> s' = s"
  by (cases err) (auto simp: callback_ok_def)

section \<open>\<^verbatim>\<open>ChannelOpenInit\<close>\<close>

datatype channel_open_init =
    ChannelOpenInit_Init "string list" string channel_counterparty string
      \<comment> \<open>connection hops, port id, counterparty, version\<close>
  | ChannelOpenInit_StatusFetched string "string list" string channel_counterparty string
      \<comment> \<open>client id, connection hops, port id, counterparty, version\<close>
  | ChannelOpenInit_CallbackCalled string "string list" string channel_counterparty string
      \<comment> \<open>channel id, connection hops, port id, counterparty, version\<close>

fun channel_open_init_process ::
  "('h, 'e) ibc_host \<Rightarrow> channel_open_init \<Rightarrow> ibc_response list
     \<Rightarrow> ('h, 'e, channel_open_init vm_result) prog" where
  "channel_open_init_process H (ChannelOpenInit_Init connection_hops port_id counterparty version) resp =
     (case resp of
        [RespEmpty] \<Rightarrow>
          seqp (read_open_connection H connection_hops) (\<lambda>connection.
          ret (Inl (ChannelOpenInit_StatusFetched (ce_client_id connection) connection_hops port_id
                      counterparty version,
                    Query (ce_client_id connection) [QStatus])))
      | _ \<Rightarrow> unexpected_action H)"
| "channel_open_init_process H
     (ChannelOpenInit_StatusFetched client_id connection_hops port_id counterparty version) resp =
     (case resp of
        [RespStatus status] \<Rightarrow>
          seqp (ensure H (status = Active) (NotActive client_id status)) (\<lambda>_.
          seqp (next_channel_identifier H) (\<lambda>channel_id.
          ret (Inl (ChannelOpenInit_CallbackCalled channel_id connection_hops port_id counterparty version,
                    Write (MsgOnChannelOpenInit Unordered connection_hops port_id channel_id
                             counterparty version)))))
      | _ \<Rightarrow> unexpected_action H)"
| "channel_open_init_process H
     (ChannelOpenInit_CallbackCalled channel_id connection_hops port_id counterparty version) resp =
     (case resp of
        [RespOnChannelOpenInit err] \<Rightarrow>
          seqp (callback_ok H err) (\<lambda>_.
          seqp (commit_new_channel H port_id channel_id
                 \<lparr>ch_state = ChanInit, ch_ordering = Unordered, ch_counterparty = counterparty,
                  ch_connection_hops = connection_hops, ch_version = version\<rparr>) (\<lambda>_.
          seqp (index connection_hops 0) (\<lambda>connection_id.
          ret (Inr ([EvChannelOpenInit port_id channel_id (ccp_port_id counterparty) connection_id
                       version], VmEmpty)))))
      | _ \<Rightarrow> unexpected_action H)"

section \<open>\<^verbatim>\<open>ChannelOpenTry\<close>\<close>

datatype channel_open_try =
    ChannelOpenTry_Init "string list" string channel_counterparty string string bytes height
      \<comment> \<open>connection hops, port id, counterparty, counterparty version, version, proof, proof height\<close>
  | ChannelOpenTry_LcQueriesMade string "string list" string channel_counterparty string string
      \<comment> \<open>client id, connection hops, port id, counterparty, counterparty version, version\<close>
  | ChannelOpenTry_CallbackCalled string "string list" string channel_counterparty string
      \<comment> \<open>channel id, connection hops, port id, counterparty, version\<close>

fun channel_open_try_process ::
  "('h, 'e) ibc_host \<Rightarrow> channel_open_try \<Rightarrow> ibc_response list
     \<Rightarrow> ('h, 'e, channel_open_try vm_result) prog" where
  "channel_open_try_process H
     (ChannelOpenTry_Init connection_hops port_id counterparty counterparty_version version proof_init
        proof_height) resp =
     (case resp of
        [RespEmpty] \<Rightarrow>
          seqp (read_open_connection H connection_hops) (\<lambda>connection.
          seqp (unwrap_result (connection_id_validate (cc_connection_id (ce_counterparty connection))))
            (\<lambda>counterparty_connection_id.
          (let expected_channel =
                 \<lparr>ch_state = ChanInit, ch_ordering = Unordered,
                  ch_counterparty = \<lparr>ccp_port_id = port_id, ccp_channel_id = []\<rparr>,
                  ch_connection_hops = [counterparty_connection_id],
                  ch_version = counterparty_version\<rparr> in
           ret (Inl (ChannelOpenTry_LcQueriesMade (ce_client_id connection) connection_hops port_id
                       counterparty counterparty_version version,
                     Query (ce_client_id connection)
                       [QStatus,
                        channel_proof_query H proof_height proof_init (ccp_port_id counterparty)
                          (ccp_channel_id counterparty) expected_channel])))))
      | _ \<Rightarrow> unexpected_action H)"
| "channel_open_try_process H
     (ChannelOpenTry_LcQueriesMade client_id connection_hops port_id counterparty counterparty_version
        version) resp =
     (case resp of
        [RespStatus status, RespVerifyMembership valid] \<Rightarrow>
          seqp (ensure H (status = Active) (NotActive client_id status)) (\<lambda>_.
          seqp (ensure H valid MembershipVerificationFailure) (\<lambda>_.
          seqp (next_channel_identifier H) (\<lambda>channel_id.
          ret (Inl (ChannelOpenTry_CallbackCalled channel_id connection_hops port_id counterparty version,
                    Write (MsgOnChannelOpenTry Unordered connection_hops port_id channel_id
                             counterparty counterparty_version))))))
      | _ \<Rightarrow> unexpected_action H)"
| "channel_open_try_process H
     (ChannelOpenTry_CallbackCalled channel_id connection_hops port_id counterparty version) resp =
     (case resp of
        [RespOnChannelOpenTry err] \<Rightarrow>
          seqp (callback_ok H err) (\<lambda>_.
          seqp (commit_new_channel H port_id channel_id
                 \<lparr>ch_state = ChanTryopen, ch_ordering = Unordered, ch_counterparty = counterparty,
                  ch_connection_hops = connection_hops, ch_version = version\<rparr>) (\<lambda>_.
          seqp (unwrap_result (channel_id_validate (ccp_channel_id counterparty)))
            (\<lambda>counterparty_channel_id.
          seqp (index connection_hops 0) (\<lambda>connection_id.
          ret (Inr ([EvChannelOpenTry port_id channel_id (ccp_port_id counterparty)
                       counterparty_channel_id connection_id version], VmEmpty))))))
      | _ \<Rightarrow> unexpected_action H)"

section \<open>\<^verbatim>\<open>ChannelOpenAck\<close>\<close>

datatype channel_open_ack =
    ChannelOpenAck_Init string string string string bytes height
      \<comment> \<open>channel id, port id, counterparty channel id, counterparty version, proof, proof height\<close>
  | ChannelOpenAck_LcQueriesMade string string string string string
      \<comment> \<open>client id, channel id, port id, counterparty channel id, counterparty version\<close>
  | ChannelOpenAck_CallbackCalled string string string string
      \<comment> \<open>channel id, port id, counterparty channel id, counterparty version\<close>

fun channel_open_ack_process ::
  "('h, 'e) ibc_host \<Rightarrow> channel_open_ack \<Rightarrow> ibc_response list
     \<Rightarrow> ('h, 'e, channel_open_ack vm_result) prog" where
  "channel_open_ack_process H
     (ChannelOpenAck_Init channel_id port_id counterparty_channel_id counterparty_version proof_try
        proof_height) resp =
     (case resp of
        [RespEmpty] \<Rightarrow>
          seqp (read_channel_or H port_id channel_id) (\<lambda>ch.
          seqp (ensure H (ch_state ch = ChanInit) (IncorrectChannelState (ch_state ch) ChanInit)) (\<lambda>_.
          seqp (read_open_connection H (ch_connection_hops ch)) (\<lambda>connection.
          seqp (unwrap_result (connection_id_validate (cc_connection_id (ce_counterparty connection))))
            (\<lambda>counterparty_connection_id.
          (let expected_channel =
                 \<lparr>ch_state = ChanTryopen, ch_ordering = Unordered,
                  ch_counterparty = \<lparr>ccp_port_id = port_id, ccp_channel_id = channel_id\<rparr>,
                  ch_connection_hops = [counterparty_connection_id],
                  ch_version = counterparty_version\<rparr> in
           ret (Inl (ChannelOpenAck_LcQueriesMade (ce_client_id connection) channel_id port_id
                       counterparty_channel_id counterparty_version,
                     Query (ce_client_id connection)
                       [QStatus,
                        channel_proof_query H proof_height proof_try
                          (ccp_port_id (ch_counterparty ch)) counterparty_channel_id
                          expected_channel])))))))
      | _ \<Rightarrow> unexpected_action H)"
| "channel_open_ack_process H
     (ChannelOpenAck_LcQueriesMade client_id channel_id port_id counterparty_channel_id
        counterparty_version) resp =
     (case resp of
        [RespStatus status, RespVerifyMembership valid] \<Rightarrow>
          seqp (ensure H (status = Active) (NotActive client_id status)) (\<lambda>_.
          seqp (ensure H valid MembershipVerificationFailure) (\<lambda>_.
          ret (Inl (ChannelOpenAck_CallbackCalled channel_id port_id counterparty_channel_id
                      counterparty_version,
                    Write (MsgOnChannelOpenAck port_id channel_id counterparty_channel_id
                             counterparty_version)))))
      | _ \<Rightarrow> unexpected_action H)"
| "channel_open_ack_process H
     (ChannelOpenAck_CallbackCalled channel_id port_id counterparty_channel_id counterparty_version) resp =
     (case resp of
        [RespOnChannelOpenAck err] \<Rightarrow>
          seqp (callback_ok H err) (\<lambda>_.
          seqp (read_channel_or H port_id channel_id) (\<lambda>ch.
          (let ch' = ch\<lparr>ch_state := ChanOpen, ch_version := counterparty_version,
                       ch_counterparty := (ch_counterparty ch)
                         \<lparr>ccp_channel_id := counterparty_channel_id\<rparr>\<rparr> in
          seqp (index (ch_connection_hops ch) 0) (\<lambda>connection_id.
          seqp (commit_channel H (ChannelEndPath port_id channel_id) ch') (\<lambda>_.
          seqp (unwrap_result (channel_id_validate counterparty_channel_id)) (\<lambda>ccid.
          ret (Inr ([EvChannelOpenAck port_id channel_id (ccp_port_id (ch_counterparty ch)) ccid
                       connection_id], VmEmpty))))))))
      | _ \<Rightarrow> unexpected_action H)"

section \<open>\<^verbatim>\<open>ChannelOpenConfirm\<close>\<close>

datatype channel_open_confirm =
    ChannelOpenConfirm_Init string string bytes height
      \<comment> \<open>channel id, port id, proof, proof height\<close>
  | ChannelOpenConfirm_LcQueriesMade string channel_counterparty string string
      \<comment> \<open>client id, counterparty, channel id, port id\<close>
  | ChannelOpenConfirm_CallbackCalled string string channel_counterparty
      \<comment> \<open>channel id, port id, counterparty\<close>

fun channel_open_confirm_process ::
  "('h, 'e) ibc_host \<Rightarrow> channel_open_confirm \<Rightarrow> ibc_response list
     \<Rightarrow> ('h, 'e, channel_open_confirm vm_result) prog" where
  "channel_open_confirm_process H (ChannelOpenConfirm_Init channel_id port_id proof_ack proof_height) resp =
     (case resp of
        [RespEmpty] \<Rightarrow>
          seqp (read_channel_or H port_id channel_id) (\<lambda>ch.
          seqp (ensure H (ch_state ch = ChanTryopen)
                 (IncorrectChannelState (ch_state ch) ChanTryopen)) (\<lambda>_.
          seqp (read_open_connection H (ch_connection_hops ch)) (\<lambda>connection.
          seqp (unwrap_result (connection_id_validate (cc_connection_id (ce_counterparty connection))))
            (\<lambda>counterparty_connection_id.
          (let expected_channel =
                 \<lparr>ch_state = ChanOpen, ch_ordering = Unordered,
                  ch_counterparty = \<lparr>ccp_port_id = port_id, ccp_channel_id = channel_id\<rparr>,
                  ch_connection_hops = [counterparty_connection_id],
                  ch_version = ch_version ch\<rparr> in
           ret (Inl (ChannelOpenConfirm_LcQueriesMade (ce_client_id connection) (ch_counterparty ch)
                       channel_id port_id,
                     Query (ce_client_id connection)
                       [QStatus,
                        channel_proof_query H proof_height proof_ack
                          (ccp_port_id (ch_counterparty ch)) (ccp_channel_id (ch_counterparty ch))
                          expected_channel])))))))
      | _ \<Rightarrow> unexpected_action H)"
| "channel_open_confirm_process H
     (ChannelOpenConfirm_LcQueriesMade client_id counterparty channel_id port_id) resp =
     (case resp of
        [RespStatus status, RespVerifyMembership valid] \<Rightarrow>
          seqp (ensure H (status = Active) (NotActive client_id status)) (\<lambda>_.
          seqp (ensure H valid MembershipVerificationFailure) (\<lambda>_.
          ret (Inl (ChannelOpenConfirm_CallbackCalled channel_id port_id counterparty,
                    Write (MsgOnChannelOpenConfirm port_id channel_id)))))
      | _ \<Rightarrow> unexpected_action H)"
| "channel_open_confirm_process H (ChannelOpenConfirm_CallbackCalled channel_id port_id counterparty) resp =
     (case resp of
        [RespOnChannelOpenConfirm err] \<Rightarrow>
          seqp (callback_ok H err) (\<lambda>_.
          seqp (read_channel_or H port_id channel_id) (\<lambda>ch.
          seqp (index (ch_connection_hops ch) 0) (\<lambda>connection_id.
          seqp (commit_channel H (ChannelEndPath port_id channel_id) (ch\<lparr>ch_state := ChanOpen\<rparr>)) (\<lambda>_.
          seqp (unwrap_result (channel_id_validate (ccp_channel_id counterparty))) (\<lambda>ccid.
          ret (Inr ([EvChannelOpenConfirm port_id channel_id (ccp_port_id counterparty) ccid
                       connection_id], VmEmpty)))))))
      | _ \<Rightarrow> unexpected_action H)"

end
