(* ===== verification/Vm_Packet.thy ===== *)
theory Vm_Packet imports Vm_Channel begin

text \<open>
  Packets, \<^verbatim>\<open>lib/ibc-vm-rs/src/states/packet.rs\<close>: sending, receiving and acknowledging.
\<close>

section \<open>Commitments\<close>

definition packet_commitment :: "('h, 'e) ibc_host \<Rightarrow> 'h \<Rightarrow> packet \<Rightarrow> bytes" where
  "packet_commitment H h p =
     u64_to_be_bytes (timeout_timestamp p)
     @ u64_to_be_bytes (revision_number (timeout_height p))
     @ u64_to_be_bytes (revision_height (timeout_height p))
     @ host_sha256 H h (packet_data p)"

definition packet_event :: "packet \<Rightarrow> bytes \<Rightarrow> string \<Rightarrow> packet_event" where
  "packet_event p dat connection_id =
     \<lparr>ev_data = dat, ev_timeout_height = timeout_height p,
      ev_timeout_timestamp = timeout_timestamp p, ev_sequence = sequence p,
      ev_src_port = source_port p, ev_src_channel = source_channel p,
      ev_dst_port = destination_port p, ev_dst_channel = destination_channel p,
      ev_connection_id = connection_id\<rparr>"

section \<open>Receiving\<close>

datatype recv_packet =
    RecvPacket_Init packet bytes height
      \<comment> \<open>packet, proof of the commitment, proof height\<close>
  | RecvPacket_MembershipVerified packet channel
  | RecvPacket_CallbackCalled packet channel

definition write_acknowledgement ::
  "('h, 'e) ibc_host \<Rightarrow> channel \<Rightarrow> packet \<Rightarrow> bytes \<Rightarrow> ('h, 'e, ibc_event) prog" where
  "write_acknowledgement H ch packet ack =
     (let ack_key = AcknowledgementPath (destination_port packet) (destination_channel packet)
                      (sequence packet) in
      seqp (asks (\<lambda>h. read_raw H h ack_key)) (\<lambda>existing.
      seqp (ensure H (existing = None) (AcknowledgementExists (sequence packet))) (\<lambda>_.
      seqp (ensure H (ack \<noteq> []) EmptyAcknowledgement) (\<lambda>_.
      seqp (asks (\<lambda>h. host_sha256 H h ack)) (\<lambda>commitment.
      seqp (commit_raw H ack_key commitment) (\<lambda>_.
      seqp (index (ch_connection_hops ch) 0) (\<lambda>connection_id.
      ret (EvWriteAcknowledgement (packet_event packet (packet_data packet) connection_id)
             (host_hex_encode H ack)))))))))"

definition check_not_timed_out ::
  "('h, 'e) ibc_host \<Rightarrow> packet \<Rightarrow> ('h, 'e, unit) prog" where
  \<comment> \<open>a packet must have a timeout, and neither of its timeouts may have passed on this chain\<close>
  "check_not_timed_out H p =
     seqp (ensure H (\<not> (timeout_height p = default_height \<and> timeout_timestamp p = 0)) ZeroTimeout) (\<lambda>_.
     seqp (asks (current_height H)) (\<lambda>height.
     seqp (ensure H (\<not> (timeout_height p \<noteq> default_height \<and> height \<ge> timeout_height p))
            TimedOutPacket) (\<lambda>_.
     seqp (asks (current_timestamp H)) (\<lambda>timestamp.
     ensure H (\<not> (timeout_timestamp p \<noteq> 0 \<and> timestamp \<ge> timeout_timestamp p)) TimedOutPacket))))"

definition recv_packet_checks ::
  "('h, 'e) ibc_host \<Rightarrow> packet \<Rightarrow> ('h, 'e, channel \<times> connection_end) prog" where
  \<comment> \<open>the guards of \<^verbatim>\<open>RecvPacket::Init\<close>, up to the look at the receipt\<close>
  "recv_packet_checks H packet =
     seqp (read_channel_or H (destination_port packet) (destination_channel packet)) (\<lambda>ch.
     seqp (ensure H (ch_state ch = ChanOpen) (IncorrectChannelState (ch_state ch) ChanOpen)) (\<lambda>_.
     seqp (ensure H (source_port packet = ccp_port_id (ch_counterparty ch))
            (SourcePortMismatch (source_port packet) (ccp_port_id (ch_counterparty ch)))) (\<lambda>_.
     seqp (if source_channel packet \<noteq> ccp_channel_id (ch_counterparty ch)
           then seqp (unwrap_result (channel_id_validate (ccp_channel_id (ch_counterparty ch))))
                  (\<lambda>cid. fail H (SourceChannelMismatch (source_channel packet) cid))
           else ret ()) (\<lambda>_.
     seqp (read_open_connection H (ch_connection_hops ch)) (\<lambda>connection.
     seqp (check_not_timed_out H packet) (\<lambda>_.
     ret (ch, connection)))))))"

fun recv_packet_process ::
  "('h, 'e) ibc_host \<Rightarrow> recv_packet \<Rightarrow> ibc_response list \<Rightarrow> ('h, 'e, recv_packet vm_result) prog"
where
  "recv_packet_process H (RecvPacket_Init packet proof_commitment proof_height) resp =
     (case resp of
        [RespEmpty] \<Rightarrow>
          seqp (recv_packet_checks H packet) (\<lambda>(ch, connection).
          seqp (asks (\<lambda>h. read_raw H h (ReceiptPath (destination_port packet)
                            (destination_channel packet) (sequence packet)))) (\<lambda>receipt.
          seqp (index (ch_connection_hops ch) 0) (\<lambda>connection_id.
          case receipt of
            Some _ \<Rightarrow>
              ret (Inr ([EvRecvPacket (packet_event packet (packet_data packet) connection_id)
                           (ch_ordering ch)], VmEmpty))
          | None \<Rightarrow>
              seqp (asks (\<lambda>h. host_sha256 H h (packet_commitment H h packet))) (\<lambda>commitment.
              ret (Inl (RecvPacket_MembershipVerified packet ch,
                        Query (ce_client_id connection)
                          [QVerifyMembership proof_height 0 0 proof_commitment
                             [''ibc'', path_to_string (CommitmentPath (source_port packet)
                                         (source_channel packet) (sequence packet))]
                             commitment]))))))
      | _ \<Rightarrow> unexpected_action H)"
| "recv_packet_process H (RecvPacket_MembershipVerified packet ch) resp =
     (case resp of
        [RespVerifyMembership valid] \<Rightarrow>
          seqp (ensure H valid MembershipVerificationFailure) (\<lambda>_.
          ret (Inl (RecvPacket_CallbackCalled packet ch, Write (MsgOnRecvPacket packet))))
      | _ \<Rightarrow> unexpected_action H)"
| "recv_packet_process H (RecvPacket_CallbackCalled packet ch) resp =
     (case resp of
        [RespOnRecvPacket ack] \<Rightarrow>
          seqp (commit_raw H (ReceiptPath (destination_port packet) (destination_channel packet)
                               (sequence packet)) [1]) (\<lambda>_.
          seqp (index (ch_connection_hops ch) 0) (\<lambda>connection_id.
          (let events = [EvRecvPacket (packet_event packet (packet_data packet) connection_id)
                           (ch_ordering ch)] in
           if ack \<noteq> []
           then seqp (write_acknowledgement H ch packet ack) (\<lambda>ev.
                ret (Inr (events @ [ev], VmEmpty)))
           else ret (Inr (events, VmEmpty)))))
      | _ \<Rightarrow> unexpected_action H)"

section \<open>Sending\<close>

datatype send_packet =
    SendPacket_Init string string height u64 bytes
      \<comment> \<open>source port, source channel, timeout height, timeout timestamp, data\<close>
  | SendPacket_LatestHeightFetched string string string string string string height u64 bytes
      \<comment> \<open>client id, connection id, source port, source channel, destination port, destination
          channel, timeout height, timeout timestamp, data\<close>
  | SendPacket_TimestampFetched height string string string string string height u64 bytes
      \<comment> \<open>height, connection id, source port, source channel, destination port, destination
          channel, timeout height, timeout timestamp, data\<close>

fun send_packet_process ::
  "('h, 'e) ibc_host \<Rightarrow> send_packet \<Rightarrow> ibc_response list \<Rightarrow> ('h, 'e, send_packet vm_result) prog"
where
  "send_packet_process H (SendPacket_Init src_port src_channel t_height t_timestamp dat) resp =
     (case resp of
        [RespEmpty] \<Rightarrow>
          seqp (ensure H (\<not> (t_height = default_height \<and> t_timestamp = 0)) ZeroTimeout) (\<lambda>_.
          seqp (read_channel_or H src_port src_channel) (\<lambda>ch.
          seqp (ensure H (ch_state ch = ChanOpen) (IncorrectChannelState (ch_state ch) ChanOpen)) (\<lambda>_.
          seqp (read_open_connection H (ch_connection_hops ch)) (\<lambda>connection.
          seqp (unwrap_result (channel_id_validate (ccp_channel_id (ch_counterparty ch))))
            (\<lambda>dst_channel.
          seqp (index (ch_connection_hops ch) 0) (\<lambda>connection_id.
          ret (Inl (SendPacket_LatestHeightFetched (ce_client_id connection) connection_id src_port
                      src_channel (ccp_port_id (ch_counterparty ch)) dst_channel t_height t_timestamp
                      dat,
                    Query (ce_client_id connection) [QStatus, QLatestHeight])))))))) 
      | _ \<Rightarrow> unexpected_action H)"
| "send_packet_process H
     (SendPacket_LatestHeightFetched client_id connection_id src_port src_channel dst_port dst_channel
        t_height t_timestamp dat) resp =
     (case resp of
        [RespStatus status, RespLatestHeight height] \<Rightarrow>
          seqp (ensure H (status = Active) (NotActive client_id status)) (\<lambda>_.
          ret (Inl (SendPacket_TimestampFetched height connection_id src_port src_channel dst_port
                      dst_channel t_height t_timestamp dat,
                    Query client_id [QTimestampAtHeight height])))
      | _ \<Rightarrow> unexpected_action H)"
| "send_packet_process H
     (SendPacket_TimestampFetched height connection_id src_port src_channel dst_port dst_channel
        t_height t_timestamp dat) resp =
     (case resp of
        [RespTimestampAtHeight timestamp] \<Rightarrow>
          seqp (ensure H (\<not> (t_height \<noteq> default_height \<and> height \<ge> t_height)) TimedOutPacket) (\<lambda>_.
          seqp (ensure H (\<not> (t_timestamp \<noteq> 0 \<and> timestamp \<ge> t_timestamp)) TimedOutPacket) (\<lambda>_.
          seqp (asks (\<lambda>h. read_raw H h (NextSequenceSendPath src_port src_channel))) (\<lambda>stored.
          seqp (unwrap stored) (\<lambda>raw.
          seqp (unwrap (u64_from_be_bytes raw)) (\<lambda>seq.
          seqp (if seq = 0 then panic else ret ()) (\<lambda>_.
          (let packet =
                 \<lparr>sequence = seq, source_port = src_port, source_channel = src_channel,
                  destination_port = dst_port, destination_channel = dst_channel, packet_data = dat,
                  timeout_height = t_height, timeout_timestamp = t_timestamp\<rparr> in
          seqp (unwrap (checked_add_u64 seq 1)) (\<lambda>next.
          seqp (commit_raw H (NextSequenceSendPath src_port src_channel) (u64_to_be_bytes next)) (\<lambda>_.
          seqp (asks (\<lambda>h. host_sha256 H h (packet_commitment H h packet))) (\<lambda>commitment.
          seqp (commit_raw H (CommitmentPath src_port src_channel seq) commitment) (\<lambda>_.
          ret (Inr ([EvSendPacket (packet_event packet dat connection_id) Unordered],
                    VmSendPacket seq)))))))))))))
      | _ \<Rightarrow> unexpected_action H)"

section \<open>Acknowledging\<close>

datatype acknowledgement =
    Acknowledgement_Init packet bytes bytes height
      \<comment> \<open>packet, acknowledgement, proof, proof height\<close>
  | Acknowledgement_MembershipVerified packet bytes string
      \<comment> \<open>packet, acknowledgement, connection id\<close>
  | Acknowledgement_CallbackCalled packet string

definition acknowledgement_checks ::
  "('h, 'e) ibc_host \<Rightarrow> packet \<Rightarrow> ('h, 'e, channel \<times> connection_end) prog" where
  \<comment> \<open>the guards of \<^verbatim>\<open>Acknowledgement::Init\<close>, up to the look at the commitment\<close>
  "acknowledgement_checks H packet =
     seqp (read_channel_or H (source_port packet) (source_channel packet)) (\<lambda>ch.
     seqp (ensure H (ch_state ch = ChanOpen) (IncorrectChannelState (ch_state ch) ChanOpen)) (\<lambda>_.
     seqp (ensure H (destination_port packet = ccp_port_id (ch_counterparty ch))
            (DestinationPortMismatch (destination_port packet) (ccp_port_id (ch_counterparty ch)))) (\<lambda>_.
     seqp (if destination_channel packet \<noteq> ccp_channel_id (ch_counterparty ch)
           then seqp (unwrap_result (channel_id_validate (ccp_channel_id (ch_counterparty ch))))
                  (\<lambda>cid. fail H (DestinationChannelMismatch (destination_channel packet) cid))
           else ret ()) (\<lambda>_.
     seqp (read_open_connection H (ch_connection_hops ch)) (\<lambda>connection.
     ret (ch, connection))))))"

fun acknowledgement_process ::
  "('h, 'e) ibc_host \<Rightarrow> acknowledgement \<Rightarrow> ibc_response list
     \<Rightarrow> ('h, 'e, acknowledgement vm_result) prog" where
  "acknowledgement_process H (Acknowledgement_Init packet ack proof_ack proof_height) resp =
     (case resp of
        [RespEmpty] \<Rightarrow>
          seqp (acknowledgement_checks H packet) (\<lambda>(ch, connection).
          seqp (asks (\<lambda>h. read_raw H h (CommitmentPath (source_port packet) (source_channel packet)
                            (sequence packet)))) (\<lambda>stored.
          seqp (index (ch_connection_hops ch) 0) (\<lambda>connection_id.
          case stored of
            None \<Rightarrow>
              ret (Inr ([EvAcknowledgePacket (packet_event packet [] connection_id) Unordered], VmEmpty))
          | Some commitment \<Rightarrow>
              seqp (asks (\<lambda>h. host_sha256 H h (packet_commitment H h packet))) (\<lambda>expected.
              seqp (ensure H (commitment = expected) (PacketCommitmentMismatch commitment expected)) (\<lambda>_.
              seqp (asks (\<lambda>h. host_sha256 H h ack)) (\<lambda>ack_commitment.
              ret (Inl (Acknowledgement_MembershipVerified packet ack connection_id,
                        Query (ce_client_id connection)
                          [QVerifyMembership proof_height 0 0 proof_ack
                             [''ibc'', path_to_string (AcknowledgementPath (destination_port packet)
                                         (destination_channel packet) (sequence packet))]
                             ack_commitment]))))))))
      | _ \<Rightarrow> unexpected_action H)"
| "acknowledgement_process H (Acknowledgement_MembershipVerified packet ack connection_id) resp =
     (case resp of
        [RespVerifyMembership valid] \<Rightarrow>
          seqp (ensure H valid MembershipVerificationFailure) (\<lambda>_.
          ret (Inl (Acknowledgement_CallbackCalled packet connection_id,
                    Write (MsgOnAcknowledgePacket packet ack))))
      | _ \<Rightarrow> unexpected_action H)"
| "acknowledgement_process H (Acknowledgement_CallbackCalled packet connection_id) resp =
     (case resp of
        [RespOnAcknowledgePacket err] \<Rightarrow>
          seqp (callback_ok H err) (\<lambda>_.
          seqp (delete_path H (CommitmentPath (source_port packet) (source_channel packet)
                                (sequence packet))) (\<lambda>_.
          ret (Inr ([EvAcknowledgePacket (packet_event packet [] connection_id) Unordered], VmEmpty))))
      | _ \<Rightarrow> unexpected_action H)"

end
