(* ===== verification/Vm.thy ===== *)
theory Vm imports Vm_Client Vm_Connection Vm_Packet begin

text \<open>
  The whole virtual machine: \<^verbatim>\<open>IbcState\<close> is one of thirteen machines, and its \<^verbatim>\<open>process\<close> (the macro
  \<^verbatim>\<open>cast_either!\<close>) runs the one it holds. Every machine moves through its states in one direction,
  which \<open>vm_rank\<close> measures.
\<close>

section \<open>\<^verbatim>\<open>IbcState\<close>\<close>

datatype ibc_state =
    CreateClient create_client
  | UpdateClient update_client
  | ConnectionOpenInit connection_open_init
  | ConnectionOpenTry connection_open_try
  | ConnectionOpenAck connection_open_ack
  | ConnectionOpenConfirm connection_open_confirm
  | ChannelOpenInit channel_open_init
  | ChannelOpenTry channel_open_try
  | ChannelOpenAck channel_open_ack
  | ChannelOpenConfirm channel_open_confirm
  | SendPacket send_packet
  | RecvPacket recv_packet
  | AcknowledgePacket acknowledgement

definition cast_either :: "('m \<Rightarrow> ibc_state) \<Rightarrow> ('h, 'e, 'm vm_result) prog
    \<Rightarrow> ('h, 'e, ibc_state vm_result) prog" where
  "cast_either arm m =
     seqp m (\<lambda>r. ret (case r of Inl (substate, msg) \<Rightarrow> Inl (arm substate, msg) | Inr done \<Rightarrow> Inr done))"

fun ibc_state_process ::
  "('h, 'e) ibc_host \<Rightarrow> ibc_state \<Rightarrow> ibc_response list \<Rightarrow> ('h, 'e, ibc_state vm_result) prog" where
  "ibc_state_process H (CreateClient m) resp =
     cast_either CreateClient (create_client_process H m resp)"
| "ibc_state_process H (UpdateClient m) resp =
     cast_either UpdateClient (update_client_process H m resp)"
| "ibc_state_process H (ConnectionOpenInit m) resp =
     cast_either ConnectionOpenInit (connection_open_init_process H m resp)"
| "ibc_state_process H (ConnectionOpenTry m) resp =
     cast_either ConnectionOpenTry (connection_open_try_process H m resp)"
| "ibc_state_process H (ConnectionOpenAck m) resp =
     cast_either ConnectionOpenAck (connection_open_ack_process H m resp)"
| "ibc_state_process H (ConnectionOpenConfirm m) resp =
     cast_either ConnectionOpenConfirm (connection_open_confirm_process H m resp)"
| "ibc_state_process H (ChannelOpenInit m) resp =
     cast_either ChannelOpenInit (channel_open_init_process H m resp)"
| "ibc_state_process H (ChannelOpenTry m) resp =
     cast_either ChannelOpenTry (channel_open_try_process H m resp)"
| "ibc_state_process H (ChannelOpenAck m) resp =
     cast_either ChannelOpenAck (channel_open_ack_process H m resp)"
| "ibc_state_process H (ChannelOpenConfirm m) resp =
     cast_either ChannelOpenConfirm (channel_open_confirm_process H m resp)"
| "ibc_state_process H (SendPacket m) resp =
     cast_either SendPacket (send_packet_process H m resp)"
| "ibc_state_process H (RecvPacket m) resp =
     cast_either RecvPacket (recv_packet_process H m resp)"
| "ibc_state_process H (AcknowledgePacket m) resp =
     cast_either AcknowledgePacket (acknowledgement_process H m resp)"

lemma cast_either_Ok:
  "cast_either arm m s = (Ok r, s') \<longleftrightarrow>
     (\<exists>q. m s = (Ok q, s') \<and>
          r = (case q of Inl (sub, a) \<Rightarrow> Inl (arm sub, a) | Inr d \<Rightarrow> Inr d))"
  by (auto simp: cast_either_def prog_ok)

lemma cast_result:
  "(case q of Inl (sub, a) \<Rightarrow> Inl (arm sub, a) | Inr d \<Rightarrow> Inr d) = Inl x \<longleftrightarrow>
     (\<exists>sub a. q = Inl (sub, a) \<and> x = (arm sub, a))"
  "(case q of Inl (sub, a) \<Rightarrow> Inl (arm sub, a) | Inr d \<Rightarrow> Inr d) = Inr y \<longleftrightarrow> q = Inr y"
  by (cases q; auto)+

lemma cast_either_left:
  "cast_either arm m s = (Ok (Inl x), s') \<longleftrightarrow>
     (\<exists>sub a. m s = (Ok (Inl (sub, a)), s') \<and> x = (arm sub, a))"
  by (auto simp: cast_either_Ok cast_result eq_commute [of "Inl x"])

lemma cast_either_right:
  "cast_either arm m s = (Ok (Inr d), s') \<longleftrightarrow> m s = (Ok (Inr d), s')"
  by (auto simp: cast_either_Ok cast_result eq_commute [of "Inr d"])

section \<open>Progress of a machine\<close>

fun vm_rank :: "ibc_state \<Rightarrow> nat" where
  "vm_rank (CreateClient m) =
     (case m of CreateClient_Init _ _ _ \<Rightarrow> 2 | CreateClient_Initialize _ _ _ _ \<Rightarrow> 1
      | CreateClient_FetchLcData _ _ _ _ \<Rightarrow> 0)"
| "vm_rank (UpdateClient m) =
     (case m of UpdateClient_Init _ _ \<Rightarrow> 2 | UpdateClient_LcQueriesMade _ _ \<Rightarrow> 1 | _ \<Rightarrow> 0)"
| "vm_rank (ConnectionOpenInit m) = (case m of ConnectionOpenInit_Init _ _ _ _ \<Rightarrow> 1 | _ \<Rightarrow> 0)"
| "vm_rank (ConnectionOpenTry m) = (case m of ConnectionOpenTry_Init _ _ _ _ _ _ \<Rightarrow> 1 | _ \<Rightarrow> 0)"
| "vm_rank (ConnectionOpenAck m) = (case m of ConnectionOpenAck_Init _ _ _ _ _ \<Rightarrow> 1 | _ \<Rightarrow> 0)"
| "vm_rank (ConnectionOpenConfirm m) = (case m of ConnectionOpenConfirm_Init _ _ _ \<Rightarrow> 1 | _ \<Rightarrow> 0)"
| "vm_rank (ChannelOpenInit m) =
     (case m of ChannelOpenInit_Init _ _ _ _ \<Rightarrow> 2 | ChannelOpenInit_StatusFetched _ _ _ _ _ \<Rightarrow> 1
      | _ \<Rightarrow> 0)"
| "vm_rank (ChannelOpenTry m) =
     (case m of ChannelOpenTry_Init _ _ _ _ _ _ _ \<Rightarrow> 2 | ChannelOpenTry_LcQueriesMade _ _ _ _ _ _ \<Rightarrow> 1
      | _ \<Rightarrow> 0)"
| "vm_rank (ChannelOpenAck m) =
     (case m of ChannelOpenAck_Init _ _ _ _ _ _ \<Rightarrow> 2 | ChannelOpenAck_LcQueriesMade _ _ _ _ _ \<Rightarrow> 1
      | _ \<Rightarrow> 0)"
| "vm_rank (ChannelOpenConfirm m) =
     (case m of ChannelOpenConfirm_Init _ _ _ _ \<Rightarrow> 2 | ChannelOpenConfirm_LcQueriesMade _ _ _ _ \<Rightarrow> 1
      | _ \<Rightarrow> 0)"
| "vm_rank (SendPacket m) =
     (case m of SendPacket_Init _ _ _ _ _ \<Rightarrow> 2
      | SendPacket_LatestHeightFetched _ _ _ _ _ _ _ _ _ \<Rightarrow> 1 | _ \<Rightarrow> 0)"
| "vm_rank (RecvPacket m) =
     (case m of RecvPacket_Init _ _ _ \<Rightarrow> 2 | RecvPacket_MembershipVerified _ _ \<Rightarrow> 1 | _ \<Rightarrow> 0)"
| "vm_rank (AcknowledgePacket m) =
     (case m of Acknowledgement_Init _ _ _ _ \<Rightarrow> 2 | Acknowledgement_MembershipVerified _ _ _ \<Rightarrow> 1
      | _ \<Rightarrow> 0)"

text \<open>
  A machine fed with a list of response lists, one for each action it asked for; it is given up on
  the first error or panic.
\<close>

datatype 'e vm_outcome =
    Finished "ibc_event list" ibc_vm_response
  | Waiting ibc_state
  | Failed 'e
  | Panicked

fun vm_run :: "('h, 'e) ibc_host \<Rightarrow> ibc_state \<Rightarrow> ibc_response list list \<Rightarrow> 'h \<Rightarrow> 'e vm_outcome \<times> 'h" where
  "vm_run H m [] s = (Waiting m, s)"
| "vm_run H m (resp # resps) s =
     (case ibc_state_process H m resp s of
        (Ok (Inl (m', _)), s') \<Rightarrow> vm_run H m' resps s'
      | (Ok (Inr (events, r)), s') \<Rightarrow> (Finished events r, s')
      | (Err e, s') \<Rightarrow> (Failed e, s')
      | (Panic, s') \<Rightarrow> (Panicked, s'))"

text \<open>Every step that goes on lowers the rank by one, so a machine takes at most three steps.\<close>

lemma vm_left_rank:
  assumes "ibc_state_process H m resp s = (Ok (Inl (m', a)), s')"
  shows "vm_rank m = Suc (vm_rank m')"
  using assms
  by (cases m)
    (rename_tac x, case_tac x; auto simp: cast_either_left prog_ok Let_def
       split: response_splits option.splits)+

end
