(* ===== verification/Host_Laws.thy ===== *)
theory Host_Laws imports Vm begin

text \<open>
  What the machine may assume of a host chain, as a locale over an implementation of \<^verbatim>\<open>IbcHost\<close>: a
  store of values by path, identifiers that are valid, and reads that do not change the state. The
  facts proved here hold on every host that keeps these laws; \<^verbatim>\<open>Near_Contract\<close> shows that the NEAR
  contract does.
\<close>

section \<open>Well-formed machine states\<close>

text \<open>
  The identifiers a state carries are of validated types: \<open>wf_ibc_state\<close> says that the strings of
  the model are such identifiers. The connection ids of the connection handshake are plain strings,
  validated where they are used.
\<close>

fun wf_ibc_state :: "ibc_state \<Rightarrow> bool" where
  "wf_ibc_state (CreateClient m) =
     (case m of CreateClient_Init _ _ _ \<Rightarrow> True
      | CreateClient_Initialize cid _ _ _ \<Rightarrow> valid_client_id cid
      | CreateClient_FetchLcData cid _ _ _ \<Rightarrow> valid_client_id cid)"
| "wf_ibc_state (UpdateClient m) =
     (case m of UpdateClient_Init cid _ \<Rightarrow> valid_client_id cid
      | UpdateClient_LcQueriesMade cid _ \<Rightarrow> valid_client_id cid
      | UpdateClient_UpdatedStateOnMisbehaviour cid \<Rightarrow> valid_client_id cid
      | UpdateClient_UpdatedState cid \<Rightarrow> valid_client_id cid)"
| "wf_ibc_state (ConnectionOpenInit m) =
     (case m of
        ConnectionOpenInit_Init cid cp _ _ \<Rightarrow> valid_client_id cid \<and> valid_client_id (cc_client_id cp)
      | ConnectionOpenInit_CheckStatus cid cp _ _ \<Rightarrow>
          valid_client_id cid \<and> valid_client_id (cc_client_id cp))"
| "wf_ibc_state (ConnectionOpenTry m) =
     (case m of
        ConnectionOpenTry_Init cid cp _ _ _ _ \<Rightarrow> valid_client_id cid \<and> valid_client_id (cc_client_id cp)
      | ConnectionOpenTry_ConnectionStateVerified cid cp _ \<Rightarrow>
          valid_client_id cid \<and> valid_client_id (cc_client_id cp))"
| "wf_ibc_state (ConnectionOpenAck m) =
     (case m of ConnectionOpenAck_Init _ _ _ _ _ \<Rightarrow> True
      | ConnectionOpenAck_ConnectionStateVerified cid _ _ e \<Rightarrow>
          valid_client_id cid \<and> wf_connection_end e)"
| "wf_ibc_state (ConnectionOpenConfirm m) =
     (case m of ConnectionOpenConfirm_Init _ _ _ \<Rightarrow> True
      | ConnectionOpenConfirm_ConnectionStateVerified cid _ e \<Rightarrow>
          valid_client_id cid \<and> wf_connection_end e)"
| "wf_ibc_state (ChannelOpenInit m) =
     (case m of
        ChannelOpenInit_Init hops p cp _ \<Rightarrow>
          list_all valid_connection_id hops \<and> valid_port_id p \<and> valid_port_id (ccp_port_id cp)
      | ChannelOpenInit_StatusFetched cid hops p cp _ \<Rightarrow>
          valid_client_id cid \<and> list_all valid_connection_id hops \<and> valid_port_id p \<and>
          valid_port_id (ccp_port_id cp)
      | ChannelOpenInit_CallbackCalled c hops p cp _ \<Rightarrow>
          valid_channel_id c \<and> list_all valid_connection_id hops \<and> valid_port_id p \<and>
          valid_port_id (ccp_port_id cp))"
| "wf_ibc_state (ChannelOpenTry m) =
     (case m of
        ChannelOpenTry_Init hops p cp _ _ _ _ \<Rightarrow>
          list_all valid_connection_id hops \<and> valid_port_id p \<and> valid_port_id (ccp_port_id cp)
      | ChannelOpenTry_LcQueriesMade cid hops p cp _ _ \<Rightarrow>
          valid_client_id cid \<and> list_all valid_connection_id hops \<and> valid_port_id p \<and>
          valid_port_id (ccp_port_id cp)
      | ChannelOpenTry_CallbackCalled c hops p cp _ \<Rightarrow>
          valid_channel_id c \<and> list_all valid_connection_id hops \<and> valid_port_id p \<and>
          valid_port_id (ccp_port_id cp))"
| "wf_ibc_state (ChannelOpenAck m) =
     (case m of
        ChannelOpenAck_Init c p _ _ _ _ \<Rightarrow> valid_channel_id c \<and> valid_port_id p
      | ChannelOpenAck_LcQueriesMade cid c p _ _ \<Rightarrow>
          valid_client_id cid \<and> valid_channel_id c \<and> valid_port_id p
      | ChannelOpenAck_CallbackCalled c p _ _ \<Rightarrow> valid_channel_id c \<and> valid_port_id p)"
| "wf_ibc_state (ChannelOpenConfirm m) =
     (case m of
        ChannelOpenConfirm_Init c p _ _ \<Rightarrow> valid_channel_id c \<and> valid_port_id p
      | ChannelOpenConfirm_LcQueriesMade cid cp c p \<Rightarrow>
          valid_client_id cid \<and> valid_channel_id c \<and> valid_port_id p \<and> valid_port_id (ccp_port_id cp)
      | ChannelOpenConfirm_CallbackCalled c p cp \<Rightarrow>
          valid_channel_id c \<and> valid_port_id p \<and> valid_port_id (ccp_port_id cp))"
| "wf_ibc_state (SendPacket m) =
     (case m of
        SendPacket_Init p c _ _ _ \<Rightarrow> valid_port_id p \<and> valid_channel_id c
      | SendPacket_LatestHeightFetched cid con p c dp dc _ _ _ \<Rightarrow>
          valid_client_id cid \<and> valid_connection_id con \<and> valid_port_id p \<and> valid_channel_id c \<and>
          valid_port_id dp \<and> valid_channel_id dc
      | SendPacket_TimestampFetched _ con p c dp dc _ _ _ \<Rightarrow>
          valid_connection_id con \<and> valid_port_id p \<and> valid_channel_id c \<and>
          valid_port_id dp \<and> valid_channel_id dc)"
| "wf_ibc_state (RecvPacket m) =
     (case m of RecvPacket_Init p _ _ \<Rightarrow> wf_packet p
      | RecvPacket_MembershipVerified p ch \<Rightarrow> wf_packet p \<and> wf_channel ch
      | RecvPacket_CallbackCalled p ch \<Rightarrow> wf_packet p \<and> wf_channel ch)"
| "wf_ibc_state (AcknowledgePacket m) =
     (case m of Acknowledgement_Init p _ _ _ \<Rightarrow> wf_packet p
      | Acknowledgement_MembershipVerified p _ con \<Rightarrow> wf_packet p \<and> valid_connection_id con
      | Acknowledgement_CallbackCalled p con \<Rightarrow> wf_packet p \<and> valid_connection_id con)"

section \<open>What a machine may write\<close>

text \<open>
  The paths that the last step of a machine may change. A machine in any earlier state may change
  none; a new connection is written under an identifier the host picks.
\<close>

fun vm_may_write :: "ibc_state \<Rightarrow> path \<Rightarrow> bool" where
  "vm_may_write (CreateClient m) k =
     (case m of
        CreateClient_FetchLcData cid _ _ _ \<Rightarrow>
          (case k of ClientStatePath c \<Rightarrow> c = cid | ClientConsensusStatePath c _ \<Rightarrow> c = cid
           | _ \<Rightarrow> False)
      | _ \<Rightarrow> False)"
| "vm_may_write (UpdateClient m) k =
     (case m of
        UpdateClient_UpdatedState cid \<Rightarrow>
          (case k of ClientStatePath c \<Rightarrow> c = cid | ClientConsensusStatePath c _ \<Rightarrow> c = cid
           | _ \<Rightarrow> False)
      | _ \<Rightarrow> False)"
| "vm_may_write (ConnectionOpenInit m) k =
     (case m of
        ConnectionOpenInit_CheckStatus _ _ _ _ \<Rightarrow> (case k of ConnectionPath _ \<Rightarrow> True | _ \<Rightarrow> False)
      | _ \<Rightarrow> False)"
| "vm_may_write (ConnectionOpenTry m) k =
     (case m of
        ConnectionOpenTry_ConnectionStateVerified _ _ _ \<Rightarrow>
          (case k of ConnectionPath _ \<Rightarrow> True | _ \<Rightarrow> False)
      | _ \<Rightarrow> False)"
| "vm_may_write (ConnectionOpenAck m) k =
     (case m of
        ConnectionOpenAck_ConnectionStateVerified _ con _ _ \<Rightarrow> k = ConnectionPath con
      | _ \<Rightarrow> False)"
| "vm_may_write (ConnectionOpenConfirm m) k =
     (case m of
        ConnectionOpenConfirm_ConnectionStateVerified _ con _ \<Rightarrow> k = ConnectionPath con
      | _ \<Rightarrow> False)"
| "vm_may_write (ChannelOpenInit m) k =
     (case m of
        ChannelOpenInit_CallbackCalled c _ p _ _ \<Rightarrow>
          k \<in> {ChannelEndPath p c, NextSequenceSendPath p c, NextSequenceRecvPath p c,
               NextSequenceAckPath p c}
      | _ \<Rightarrow> False)"
| "vm_may_write (ChannelOpenTry m) k =
     (case m of
        ChannelOpenTry_CallbackCalled c _ p _ _ \<Rightarrow>
          k \<in> {ChannelEndPath p c, NextSequenceSendPath p c, NextSequenceRecvPath p c,
               NextSequenceAckPath p c}
      | _ \<Rightarrow> False)"
| "vm_may_write (ChannelOpenAck m) k =
     (case m of ChannelOpenAck_CallbackCalled c p _ _ \<Rightarrow> k = ChannelEndPath p c | _ \<Rightarrow> False)"
| "vm_may_write (ChannelOpenConfirm m) k =
     (case m of ChannelOpenConfirm_CallbackCalled c p _ \<Rightarrow> k = ChannelEndPath p c | _ \<Rightarrow> False)"
| "vm_may_write (SendPacket m) k =
     (case m of
        SendPacket_TimestampFetched _ _ p c _ _ _ _ _ \<Rightarrow>
          (case k of NextSequenceSendPath p' c' \<Rightarrow> p' = p \<and> c' = c
           | CommitmentPath p' c' _ \<Rightarrow> p' = p \<and> c' = c
           | _ \<Rightarrow> False)
      | _ \<Rightarrow> False)"
| "vm_may_write (RecvPacket m) k =
     (case m of
        RecvPacket_CallbackCalled p _ \<Rightarrow>
          k \<in> {ReceiptPath (destination_port p) (destination_channel p) (sequence p),
               AcknowledgementPath (destination_port p) (destination_channel p) (sequence p)}
      | _ \<Rightarrow> False)"
| "vm_may_write (AcknowledgePacket m) k =
     (case m of
        Acknowledgement_CallbackCalled p _ \<Rightarrow>
          k = CommitmentPath (source_port p) (source_channel p) (sequence p)
      | _ \<Rightarrow> False)"

text \<open>The values the machine stores: encoded ends, and counters that are never zero.\<close>

fun well_written :: "('h, 'e) ibc_host \<Rightarrow> path \<Rightarrow> bytes option \<Rightarrow> bool" where
  "well_written H (ConnectionPath _) v \<longleftrightarrow>
     (\<exists>e. wf_connection_end e \<and> v = Some (host_encode_connection H e))"
| "well_written H (ChannelEndPath _ _) v \<longleftrightarrow>
     (\<exists>ch. wf_channel ch \<and> v = Some (host_encode_channel H ch))"
| "well_written H (NextSequenceSendPath _ _) v \<longleftrightarrow> (\<exists>n. n \<noteq> 0 \<and> v = Some (u64_to_be_bytes n))"
| "well_written H (NextSequenceRecvPath _ _) v \<longleftrightarrow> (\<exists>n. n \<noteq> 0 \<and> v = Some (u64_to_be_bytes n))"
| "well_written H (NextSequenceAckPath _ _) v \<longleftrightarrow> (\<exists>n. n \<noteq> 0 \<and> v = Some (u64_to_be_bytes n))"
| "well_written H k v \<longleftrightarrow> True"

lemma checked_add_u64_nonzero: "checked_add_u64 n 1 = Some n' \<Longrightarrow> n' \<noteq> 0"
  using checked_add_u64_unat [of n 1 n'] by auto

section \<open>The laws\<close>

locale ibc_store =
  fixes H :: "('h, 'e) ibc_host"
  assumes commit_raw_law:
      "commit_raw H k v s = (Ok u, s') \<Longrightarrow> wf_path k \<Longrightarrow> wf_path k' \<Longrightarrow>
         read_raw H s' k' = (if k' = k then Some v else read_raw H s k')"
    and delete_law:
      "delete_path H k s = (Ok u, s') \<Longrightarrow> wf_path k \<Longrightarrow> wf_path k' \<Longrightarrow>
         read_raw H s' k' = (if k' = k then None else read_raw H s k')"
    and commit_connection_raw:
      "commit_connection H k e = commit_raw H k (host_encode_connection H e)"
    and commit_channel_raw:
      "commit_channel H k ch = commit_raw H k (host_encode_channel H ch)"
    and read_connection_law:
      "read_connection H k s = (Ok r, s') \<Longrightarrow>
         s' = s \<and> (r = None \<longleftrightarrow> read_raw H s k = None) \<and> (\<forall>e. r = Some e \<longrightarrow> wf_connection_end e)"
    and read_channel_law:
      "read_channel H k s = (Ok rc, s') \<Longrightarrow>
         s' = s \<and> (rc = None \<longleftrightarrow> read_raw H s k = None) \<and> (\<forall>c. rc = Some c \<longrightarrow> wf_channel c)"
    and next_client_law:
      "next_client_identifier H ty s = (Ok cid, s') \<Longrightarrow>
         valid_client_id cid \<and> read_raw H s' = read_raw H s"
    and next_connection_law:
      "next_connection_identifier H s = (Ok con, s') \<Longrightarrow>
         valid_connection_id con \<and> read_raw H s' = read_raw H s"
    and next_channel_law:
      "next_channel_identifier H s = (Ok c, s') \<Longrightarrow>
         valid_channel_id c \<and> read_raw H s' = read_raw H s"
begin

lemma read_open_connection_Ok:
  assumes "read_open_connection H hops s = (Ok con, s')"
  shows "s' = s \<and> hops \<noteq> [] \<and> wf_connection_end con \<and> ce_state con = ConnOpen"
  using assms by (auto simp: read_open_connection_def prog_ok dest!: read_connection_law)

lemma read_channel_or_Ok:
  assumes "read_channel_or H p c s = (Ok ch, s')"
  shows "s' = s \<and> wf_channel ch"
  using assms by (auto simp: read_channel_or_def prog_ok dest!: read_channel_law)

lemma recv_packet_checks_Ok:
  assumes "recv_packet_checks H p s = (Ok (ch, con), s')"
  shows "s' = s \<and> wf_channel ch \<and> ch_state ch = ChanOpen \<and> wf_connection_end con \<and>
         source_port p = ccp_port_id (ch_counterparty ch) \<and>
         source_channel p = ccp_channel_id (ch_counterparty ch) \<and> ch_connection_hops ch \<noteq> []"
  using assms
  by (auto simp: recv_packet_checks_def check_not_timed_out_def prog_ok split: if_splits
      dest!: read_channel_or_Ok read_open_connection_Ok)

lemma acknowledgement_checks_Ok:
  assumes "acknowledgement_checks H p s = (Ok (ch, con), s')"
  shows "s' = s \<and> wf_channel ch \<and> ch_state ch = ChanOpen \<and> wf_connection_end con \<and>
         ch_connection_hops ch \<noteq> []"
  using assms
  by (auto simp: acknowledgement_checks_def prog_ok split: if_splits
      dest!: read_channel_or_Ok read_open_connection_Ok)

lemmas step_facts =
  read_open_connection_Ok read_channel_or_Ok recv_packet_checks_Ok acknowledgement_checks_Ok
  read_connection_law read_channel_law next_client_law next_connection_law next_channel_law

text \<open>No step but the last of a machine changes the store.\<close>

lemma left_step_store:
  assumes "ibc_state_process H m resp s = (Ok (Inl x), s')"
  shows "read_raw H s' = read_raw H s"
  using assms
  by (cases m)
    (rename_tac y, case_tac y; auto simp: cast_either_left prog_ok Let_def
       split: response_splits option.splits prod.splits dest!: step_facts)+

text \<open>The identifiers a machine carries stay valid.\<close>

lemma left_step_wf:
  assumes "ibc_state_process H m resp s = (Ok (Inl (m', a)), s')" and "wf_ibc_state m"
  shows "wf_ibc_state m'"
  using assms
  by (cases m)
    (rename_tac y, case_tac y; auto simp: cast_either_left prog_ok Let_def wf_connection_end_def
       wf_channel_def id_validate_Inr list_all_length
       split: response_splits option.splits prod.splits dest!: step_facts)+

text \<open>The last step writes only where \<open>vm_may_write\<close> allows.\<close>

lemma commit_frame:
  assumes "commit_raw H k v s = (Ok u, s')" and "wf_path k" and "wf_path k'" and "k' \<noteq> k"
  shows "read_raw H s' k' = read_raw H s k'"
  using commit_raw_law [OF assms(1-3)] assms(4) by simp

lemma delete_frame:
  assumes "delete_path H k s = (Ok u, s')" and "wf_path k" and "wf_path k'" and "k' \<noteq> k"
  shows "read_raw H s' k' = read_raw H s k'"
  using delete_law [OF assms(1-3)] assms(4) by simp

lemma commit_consensus_states_frame:
  assumes "commit_consensus_states H cid css s = (Ok hs, s')"
    and "valid_client_id cid" and "wf_path k" and "\<forall>h. k \<noteq> ClientConsensusStatePath cid h"
  shows "read_raw H s' k = read_raw H s k"
  using assms(1)
proof (induction css arbitrary: s hs)
  case Nil
  then show ?case by (simp add: commit_consensus_states_def prog_ok)
next
  case (Cons c css)
  obtain h st where c: "c = (h, st)" by (cases c)
  with Cons.prems obtain s1 hs1
    where one: "commit_raw H (ClientConsensusStatePath cid h) st s = (Ok (), s1)"
      and rest: "commit_consensus_states H cid css s1 = (Ok hs1, s')"
    by (auto simp: commit_consensus_states_def prog_ok)
  have "read_raw H s1 k = read_raw H s k"
    using commit_frame [OF one] assms(2-4) by simp
  with Cons.IH [OF rest] show ?case by simp
qed

lemma commit_new_channel_frame:
  assumes "commit_new_channel H p c ch s = (Ok u, s')"
    and "valid_port_id p" and "valid_channel_id c" and "wf_path k"
    and "k \<notin> {ChannelEndPath p c, NextSequenceSendPath p c, NextSequenceRecvPath p c,
               NextSequenceAckPath p c}"
  shows "read_raw H s' k = read_raw H s k"
  using assms
  by (auto simp: commit_new_channel_def prog_ok Let_def commit_channel_raw commit_frame)

lemma write_acknowledgement_frame:
  assumes "write_acknowledgement H ch p ack s = (Ok ev, s')" and "wf_packet p" and "wf_path k"
    and "k \<noteq> AcknowledgementPath (destination_port p) (destination_channel p) (sequence p)"
  shows "read_raw H s' k = read_raw H s k"
  using assms
  by (auto simp: write_acknowledgement_def prog_ok Let_def wf_packet_def commit_frame)

lemma client_right_frame:
  assumes "create_client_process H m resp s = (Ok (Inr d), s')" and "wf_ibc_state (CreateClient m)"
    and "wf_path k" and "\<not> vm_may_write (CreateClient m) k"
  shows "read_raw H s' k = read_raw H s k"
  using assms(1)
  by (rule create_client_process_Ok)
    (use assms(2-) in \<open>auto simp: commit_frame split: path.splits\<close>)

lemma update_client_right_frame:
  assumes "update_client_process H m resp s = (Ok (Inr d), s')" and "wf_ibc_state (UpdateClient m)"
    and "wf_path k" and "\<not> vm_may_write (UpdateClient m) k"
  shows "read_raw H s' k = read_raw H s k"
  using assms(1)
proof (rule update_client_process_Ok)
  fix cid css cs s1 hs ty
  assume m: "m = UpdateClient_UpdatedState cid"
    and one: "commit_raw H (ClientStatePath cid) cs s = (Ok (), s1)"
    and rest: "commit_consensus_states H cid css s1 = (Ok hs, s')"
  have cid: "valid_client_id cid" and k: "k \<noteq> ClientStatePath cid"
    "\<forall>h. k \<noteq> ClientConsensusStatePath cid h"
    using assms(2,4) m by (auto split: path.splits)
  then show ?thesis
    using commit_frame [OF one] commit_consensus_states_frame [OF rest cid assms(3) k(2)] assms(3)
    by simp
qed (use assms in auto)

lemma right_step_frame:
  assumes "ibc_state_process H m resp s = (Ok (Inr d), s')" and "wf_ibc_state m"
    and "wf_path k" and "\<not> vm_may_write m k"
  shows "read_raw H s' k = read_raw H s k"
proof (cases m)
  case (CreateClient x)
  with assms show ?thesis
    using client_right_frame by (simp add: cast_either_right)
next
  case (UpdateClient x)
  with assms show ?thesis
    using update_client_right_frame by (simp add: cast_either_right)
next
  case (ConnectionOpenInit x)
  with assms show ?thesis
    by (cases x) (auto simp: cast_either_right prog_ok commit_connection_raw commit_frame
        split: response_splits path.splits dest!: next_connection_law)
next
  case (ConnectionOpenTry x)
  with assms show ?thesis
    by (cases x) (auto simp: cast_either_right prog_ok Let_def commit_connection_raw commit_frame
        split: response_splits path.splits dest!: next_connection_law)
next
  case (ConnectionOpenAck x)
  with assms show ?thesis
    by (cases x) (auto simp: cast_either_right prog_ok Let_def commit_connection_raw commit_frame
        id_validate_Inr split: response_splits)
next
  case (ConnectionOpenConfirm x)
  with assms show ?thesis
    by (cases x) (auto simp: cast_either_right prog_ok Let_def commit_connection_raw commit_frame
        id_validate_Inr split: response_splits)
next
  case (ChannelOpenInit x)
  with assms show ?thesis
    by (cases x) (auto simp: cast_either_right prog_ok commit_new_channel_frame
        split: response_splits)
next
  case (ChannelOpenTry x)
  with assms show ?thesis
    by (cases x) (auto simp: cast_either_right prog_ok Let_def commit_new_channel_frame
        split: response_splits)
next
  case (ChannelOpenAck x)
  with assms show ?thesis
    by (cases x) (auto simp: cast_either_right prog_ok Let_def commit_channel_raw commit_frame
        split: response_splits dest!: read_channel_or_Ok)
next
  case (ChannelOpenConfirm x)
  with assms show ?thesis
    by (cases x) (auto simp: cast_either_right prog_ok Let_def commit_channel_raw commit_frame
        split: response_splits dest!: read_channel_or_Ok)
next
  case (SendPacket x)
  with assms show ?thesis
    by (cases x) (auto simp: cast_either_right prog_ok Let_def commit_frame
        split: response_splits path.splits)
next
  case (RecvPacket x)
  with assms show ?thesis
    by (cases x) (auto simp: cast_either_right prog_ok Let_def commit_frame wf_packet_def
        write_acknowledgement_frame split: response_splits option.splits
        dest!: recv_packet_checks_Ok)
next
  case (AcknowledgePacket x)
  with assms show ?thesis
    by (cases x) (auto simp: cast_either_right prog_ok Let_def delete_frame wf_packet_def
        split: response_splits option.splits dest!: acknowledgement_checks_Ok)
qed

text \<open>What the last step leaves at a path that held something else before.\<close>

lemma commit_connection_writes:
  assumes "commit_connection H (ConnectionPath con) e s = (Ok u, s')"
    and "valid_connection_id con" and "wf_connection_end e" and "wf_path k"
  shows "read_raw H s' k = read_raw H s k \<or> well_written H k (read_raw H s' k)"
  using assms commit_raw_law [of "ConnectionPath con" _ s u s' k]
  by (cases "k = ConnectionPath con") (auto simp: commit_connection_raw)

lemma commit_channel_writes:
  assumes "commit_channel H (ChannelEndPath p c) ch s = (Ok u, s')"
    and "valid_port_id p" and "valid_channel_id c" and "wf_channel ch" and "wf_path k"
  shows "read_raw H s' k = read_raw H s k \<or> well_written H k (read_raw H s' k)"
  using assms commit_raw_law [of "ChannelEndPath p c" _ s u s' k]
  by (cases "k = ChannelEndPath p c") (auto simp: commit_channel_raw)

lemma commit_new_channel_writes:
  assumes "commit_new_channel H p c ch s = (Ok u, s')"
    and "valid_port_id p" and "valid_channel_id c" and "wf_channel ch" and "wf_path k"
  shows "read_raw H s' k = read_raw H s k \<or> well_written H k (read_raw H s' k)"
proof -
  obtain s1 where one: "commit_channel H (ChannelEndPath p c) ch s = (Ok (), s1)"
    and rest: "read_raw H s' k = read_raw H s1 k \<or> well_written H k (read_raw H s' k)"
    using assms by (auto simp: commit_new_channel_def prog_ok Let_def commit_raw_law)
  from commit_channel_writes [OF one assms(2-5)] rest show ?thesis by auto
qed

lemma right_step_writes:
  assumes "ibc_state_process H m resp s = (Ok (Inr d), s')" and "wf_ibc_state m" and "wf_path k"
  shows "read_raw H s' k = read_raw H s k \<or> well_written H k (read_raw H s' k)"
proof (cases "vm_may_write m k")
  case False
  with right_step_frame [OF assms] show ?thesis by simp
next
  case True
  show ?thesis
  proof (cases m)
    case (ConnectionOpenInit x)
    with assms show ?thesis
      by (cases x) (auto simp: cast_either_right prog_ok wf_connection_end_def split: response_splits
          dest!: next_connection_law commit_connection_writes [where k = k])
  next
    case (ConnectionOpenTry x)
    with assms show ?thesis
      by (cases x) (auto simp: cast_either_right prog_ok Let_def wf_connection_end_def split: response_splits
          dest!: next_connection_law commit_connection_writes [where k = k])
  next
    case (ConnectionOpenAck x)
    with assms show ?thesis
      by (cases x) (auto simp: cast_either_right prog_ok Let_def wf_connection_end_def id_validate_Inr
          split: response_splits dest!: commit_connection_writes [where k = k])
  next
    case (ConnectionOpenConfirm x)
    with assms show ?thesis
      by (cases x) (auto simp: cast_either_right prog_ok Let_def wf_connection_end_def id_validate_Inr
          split: response_splits dest!: commit_connection_writes [where k = k])
  next
    case (ChannelOpenInit x)
    with assms show ?thesis
      by (cases x) (auto simp: cast_either_right prog_ok wf_channel_def split: response_splits
          dest!: commit_new_channel_writes [where k = k])
  next
    case (ChannelOpenTry x)
    with assms show ?thesis
      by (cases x) (auto simp: cast_either_right prog_ok Let_def wf_channel_def
          split: response_splits dest!: commit_new_channel_writes [where k = k])
  next
    case (ChannelOpenAck x)
    with assms show ?thesis
      by (cases x) (auto simp: cast_either_right prog_ok Let_def wf_channel_def split: response_splits
          dest!: read_channel_or_Ok commit_channel_writes [where k = k])
  next
    case (ChannelOpenConfirm x)
    with assms show ?thesis
      by (cases x) (auto simp: cast_either_right prog_ok Let_def wf_channel_def split: response_splits
          dest!: read_channel_or_Ok commit_channel_writes [where k = k])
  next
    case (SendPacket x)
    with assms show ?thesis
      by (cases x) (auto simp: cast_either_right prog_ok Let_def commit_raw_law
          checked_add_u64_nonzero split: response_splits)
  qed (use True in \<open>(cases k; auto split: create_client.splits update_client.splits
         recv_packet.splits acknowledgement.splits)+\<close>)
qed

end

end
