(* ===== verification/Near_Contract.thy ===== *)
theory Near_Contract imports Host_Laws begin

text \<open>
  The NEAR contract of \<^verbatim>\<open>lib/near/near-ibc/src/contract.rs\<close>: its state, the implementation of
  \<^verbatim>\<open>IbcHost\<close> over it, the entry points of the contract, and \<^verbatim>\<open>step\<close>, which runs the virtual machine
  once and turns the action it asks for into a promise. The laws of \<open>ibc_store\<close> are discharged here
  for the contract, so every fact of that locale holds of it (\<open>near.\<dots>\<close>).
\<close>

section \<open>State and environment\<close>

text \<open>A \<^verbatim>\<open>LookupMap\<close> is a map; inserting returns the value that was there before.\<close>

record near_contract =
  commitments :: "string \<Rightarrow> bytes option"
  client_index :: u64
  connection_index :: u64
  channel_index :: u64
  account_ids :: "string \<Rightarrow> string option"
    \<comment> \<open>client type to account id\<close>
  clients :: "string \<Rightarrow> string option"
    \<comment> \<open>client id to account id\<close>

definition near_default :: near_contract where
  "near_default =
     \<lparr>commitments = (\<lambda>_. None), client_index = 0, connection_index = 0, channel_index = 0,
      account_ids = (\<lambda>_. None), clients = (\<lambda>_. None)\<rparr>"

text \<open>
  What a call sees of the chain and of other crates: \<^verbatim>\<open>env::block_height\<close>, \<^verbatim>\<open>env::block_timestamp\<close>,
  \<^verbatim>\<open>env::predecessor_account_id\<close>, \<^verbatim>\<open>env::sha256\<close>, the validity check of \<^verbatim>\<open>AccountId\<close>,
  \<^verbatim>\<open>hex::encode\<close>, and the protobuf codec.
\<close>

record near_env =
  env_block_height :: u64
  env_block_timestamp :: u64
  env_predecessor :: string
  env_sha256 :: "bytes \<Rightarrow> bytes"
  account_id_ok :: "string \<Rightarrow> bool"
  env_hex_encode :: "bytes \<Rightarrow> bytes"
  env_prost :: prost

datatype near_error = Ibc ibc_error

section \<open>\<^verbatim>\<open>impl IbcHost for Contract\<close>\<close>

type_synonym 'a near_prog = "(near_contract, near_error, 'a) prog"

definition near_insert :: "string \<Rightarrow> bytes \<Rightarrow> near_contract \<Rightarrow> near_contract" where
  "near_insert k v c = c\<lparr>commitments := (commitments c)(k \<mapsto> v)\<rparr>"

definition near_next_client_identifier :: "string \<Rightarrow> string near_prog" where
  "near_next_client_identifier client_type =
     seqp (modify (\<lambda>c. c\<lparr>client_index := client_index c + 1\<rparr>)) (\<lambda>_.
     seqp (asks client_index) (\<lambda>n.
     unwrap_result (client_id_validate (client_type @ ''-'' @ show_u64 n))))"

definition near_next_connection_identifier :: "string near_prog" where
  "near_next_connection_identifier =
     seqp (modify (\<lambda>c. c\<lparr>connection_index := connection_index c + 1\<rparr>)) (\<lambda>_.
     seqp (asks connection_index) (\<lambda>n.
     unwrap_result (connection_id_validate (''connection-'' @ show_u64 n))))"

definition near_next_channel_identifier :: "string near_prog" where
  "near_next_channel_identifier =
     seqp (modify (\<lambda>c. c\<lparr>channel_index := channel_index c + 1\<rparr>)) (\<lambda>_.
     seqp (asks channel_index) (\<lambda>n.
     unwrap_result (channel_id_validate (''channel-'' @ show_u64 n))))"

definition near_commit_raw :: "path \<Rightarrow> bytes \<Rightarrow> unit near_prog" where
  "near_commit_raw key v = modify (near_insert (path_to_string key) v)"

definition near_client_state :: "near_contract \<Rightarrow> string \<Rightarrow> bytes option" where
  "near_client_state c client_id = commitments c (''clients/'' @ client_id @ ''/clientState'')"

definition near_read :: "(bytes \<Rightarrow> 'a option) \<Rightarrow> path \<Rightarrow> 'a option near_prog" where
  "near_read decode key =
     seqp (asks (\<lambda>c. commitments c (path_to_string key))) (\<lambda>item.
     case item of
       None \<Rightarrow> ret None
     | Some bs \<Rightarrow> seqp (unwrap (decode bs)) (\<lambda>v. ret (Some v)))"

definition near_commit :: "('a \<Rightarrow> bytes) \<Rightarrow> path \<Rightarrow> 'a \<Rightarrow> unit near_prog" where
  "near_commit encode key v = modify (near_insert (path_to_string key) (encode v))"

definition near_read_raw :: "near_contract \<Rightarrow> path \<Rightarrow> bytes option" where
  "near_read_raw c key = commitments c (path_to_string key)"

definition near_current_height :: "near_env \<Rightarrow> height" where
  "near_current_height env = Height 0 (env_block_height env)"

definition near_delete :: "path \<Rightarrow> unit near_prog" where
  "near_delete key = modify (\<lambda>c. c\<lparr>commitments := (commitments c)(path_to_string key := None)\<rparr>)"

definition near_host :: "near_env \<Rightarrow> (near_contract, near_error) ibc_host" where
  "near_host env =
     \<lparr>from_ibc_error = Ibc,
      next_client_identifier = near_next_client_identifier,
      next_connection_identifier = near_next_connection_identifier,
      next_channel_identifier = near_next_channel_identifier,
      host_client_state = near_client_state,
      read_connection = near_read (decode_connection (env_prost env)),
      read_channel = near_read (decode_channel (env_prost env)),
      read_raw = near_read_raw,
      commit_raw = near_commit_raw,
      commit_connection = near_commit (encode_connection (env_prost env)),
      commit_channel = near_commit (encode_channel (env_prost env)),
      delete_path = near_delete,
      current_height = (\<lambda>_. near_current_height env),
      current_timestamp = (\<lambda>_. env_block_timestamp env),
      host_sha256 = (\<lambda>_. env_sha256 env),
      host_encode_connection = encode_connection (env_prost env),
      host_encode_channel = encode_channel (env_prost env),
      host_hex_encode = env_hex_encode env\<rparr>"

lemma near_host_simps [simp]:
  "from_ibc_error (near_host env) = Ibc"
  "next_client_identifier (near_host env) = near_next_client_identifier"
  "next_connection_identifier (near_host env) = near_next_connection_identifier"
  "next_channel_identifier (near_host env) = near_next_channel_identifier"
  "host_client_state (near_host env) = near_client_state"
  "read_connection (near_host env) = near_read (decode_connection (env_prost env))"
  "read_channel (near_host env) = near_read (decode_channel (env_prost env))"
  "read_raw (near_host env) = near_read_raw"
  "commit_raw (near_host env) = near_commit_raw"
  "commit_connection (near_host env) = near_commit (encode_connection (env_prost env))"
  "commit_channel (near_host env) = near_commit (encode_channel (env_prost env))"
  "delete_path (near_host env) = near_delete"
  "current_height (near_host env) = (\<lambda>_. near_current_height env)"
  "current_timestamp (near_host env) = (\<lambda>_. env_block_timestamp env)"
  "host_sha256 (near_host env) = (\<lambda>_. env_sha256 env)"
  "host_encode_connection (near_host env) = encode_connection (env_prost env)"
  "host_encode_channel (near_host env) = encode_channel (env_prost env)"
  "host_hex_encode (near_host env) = env_hex_encode env"
  by (simp_all add: near_host_def)

section \<open>The host laws\<close>

lemma near_commit_raw_Ok [prog_ok]:
  "near_commit_raw k v c = (Ok u, c') \<longleftrightarrow> c' = near_insert (path_to_string k) v c"
  by (auto simp: near_commit_raw_def prog_ok)

lemma near_commit_Ok [prog_ok]:
  "near_commit enc k v c = (Ok u, c') \<longleftrightarrow> c' = near_insert (path_to_string k) (enc v) c"
  by (auto simp: near_commit_def prog_ok)

lemma near_delete_Ok [prog_ok]:
  "near_delete k c = (Ok u, c') \<longleftrightarrow>
     c' = c\<lparr>commitments := (commitments c)(path_to_string k := None)\<rparr>"
  by (auto simp: near_delete_def prog_ok)

lemma near_read_Ok [prog_ok]:
  "near_read dec k c = (Ok r, c') \<longleftrightarrow>
     c' = c \<and> (case near_read_raw c k of None \<Rightarrow> r = None | Some bs \<Rightarrow> r = dec bs \<and> r \<noteq> None)"
  by (auto simp: near_read_def near_read_raw_def prog_ok split: option.splits)

lemma near_next_Ok [prog_ok]:
  "near_next_client_identifier ty c = (Ok i, c') \<longleftrightarrow>
     c' = c\<lparr>client_index := client_index c + 1\<rparr> \<and>
     i = ty @ ''-'' @ show_u64 (client_index c + 1) \<and> valid_client_id i"
  "near_next_connection_identifier c = (Ok j, c') \<longleftrightarrow>
     c' = c\<lparr>connection_index := connection_index c + 1\<rparr> \<and>
     j = ''connection-'' @ show_u64 (connection_index c + 1) \<and> valid_connection_id j"
  "near_next_channel_identifier c = (Ok k, c') \<longleftrightarrow>
     c' = c\<lparr>channel_index := channel_index c + 1\<rparr> \<and>
     k = ''channel-'' @ show_u64 (channel_index c + 1) \<and> valid_channel_id k"
  by (auto simp: near_next_client_identifier_def near_next_connection_identifier_def
      near_next_channel_identifier_def prog_ok id_validate_Inr)

lemma near_read_raw_insert:
  "wf_path k \<Longrightarrow> wf_path k' \<Longrightarrow>
     near_read_raw (near_insert (path_to_string k) v c) k' =
       (if k' = k then Some v else near_read_raw c k')"
  using path_to_string_inject [of k' k] by (auto simp: near_read_raw_def near_insert_def)

lemma near_read_raw_delete:
  "wf_path k \<Longrightarrow> wf_path k' \<Longrightarrow>
     near_read_raw (c\<lparr>commitments := (commitments c)(path_to_string k := None)\<rparr>) k' =
       (if k' = k then None else near_read_raw c k')"
  using path_to_string_inject [of k' k] by (auto simp: near_read_raw_def)

lemma near_read_raw_index [simp]:
  "near_read_raw (c\<lparr>client_index := n\<rparr>) = near_read_raw c"
  "near_read_raw (c\<lparr>connection_index := n\<rparr>) = near_read_raw c"
  "near_read_raw (c\<lparr>channel_index := n\<rparr>) = near_read_raw c"
  "near_read_raw (c\<lparr>clients := m\<rparr>) = near_read_raw c"
  "near_read_raw (c\<lparr>account_ids := m\<rparr>) = near_read_raw c"
  by (simp_all add: near_read_raw_def fun_eq_iff)

interpretation near: ibc_store "near_host env" for env
proof
  fix k e c and r :: "connection_end option" and c'
  assume "read_connection (near_host env) k c = (Ok r, c')"
  then show "c' = c \<and> (r = None \<longleftrightarrow> read_raw (near_host env) c k = None) \<and>
             (\<forall>e. r = Some e \<longrightarrow> wf_connection_end e)"
    by (auto simp: prog_ok split: option.splits dest: decode_connection_wf)
next
  fix k c and r :: "channel option" and c'
  assume "read_channel (near_host env) k c = (Ok r, c')"
  then show "c' = c \<and> (r = None \<longleftrightarrow> read_raw (near_host env) c k = None) \<and>
             (\<forall>e. r = Some e \<longrightarrow> wf_channel e)"
    by (auto simp: prog_ok split: option.splits dest: decode_channel_wf)
qed (auto simp: prog_ok near_read_raw_insert near_read_raw_delete near_commit_def
  near_commit_raw_def)

end
