(* ===== verification/Near_Step.thy ===== *)
theory Near_Step imports Near_Contract begin

text \<open>
  The methods of the NEAR contract of \<^verbatim>\<open>lib/near/near-ibc/src/contract.rs\<close>: the public entry points,
  \<^verbatim>\<open>step\<close>, which runs the machine once and schedules the cross-contract call it asks for, and the
  private callbacks that resume the machine with the result of that call.

  A method that panics has no effect: the runtime discards the changes of the receipt.
\<close>

section \<open>Promises\<close>

text \<open>
  A promise is a call on another account with the callback of this contract that follows it and the
  state of the machine the callback is given.
\<close>

datatype ext_call =
    LcQuery string "ibc_query list"
  | LcInitialize string string bytes bytes
      \<comment> \<open>account, client id, client state, consensus state\<close>
  | LcUpdateOnMisbehaviour string bytes
  | LcUpdate string bytes
  | AppChannelOpenInit string order "string list" string string channel_counterparty string
      \<comment> \<open>account, order, connection hops, port id, channel id, counterparty, version\<close>
  | AppChannelOpenTry string order "string list" string string channel_counterparty string
  | AppChannelOpenAck string string string string string
      \<comment> \<open>account, port id, channel id, counterparty channel id, counterparty version\<close>
  | AppChannelOpenConfirm string string string
  | AppRecvPacket string packet
  | AppAcknowledgePacket string packet bytes

datatype callback =
    CbQuery
  | CbInitialize
  | CbUpdateClientOnMisbehaviour
  | CbUpdateClient
  | CbChanOpenInit
  | CbChanOpenTry
  | CbChanOpenAck
  | CbChanOpenConfirm
  | CbRecvPacket
  | CbAcknowledgePacket

datatype promise_or_value =
    Value ibc_vm_response
  | Promise ext_call callback ibc_state

text \<open>A method's result with the events it logs.\<close>

type_synonym near_result = "ibc_event list \<times> promise_or_value"

section \<open>\<^verbatim>\<open>step\<close>\<close>

definition unwrap_prog :: "('s, 'e, 'a) prog \<Rightarrow> ('s, 'e, 'a) prog" where
  \<comment> \<open>\<^verbatim>\<open>Result::unwrap\<close> of a method's result\<close>
  "unwrap_prog m = (\<lambda>s. case m s of (Err _, s') \<Rightarrow> (Panic, s') | r \<Rightarrow> r)"

lemma unwrap_prog_Ok [prog_ok]: "unwrap_prog m s = (Ok x, s') \<longleftrightarrow> m s = (Ok x, s')"
  by (auto simp: unwrap_prog_def split: prod.splits outcome.splits)

lemma unwrap_prog_not_Err: "fst (unwrap_prog m s) \<noteq> Err e"
  by (auto simp: unwrap_prog_def split: prod.splits outcome.splits)

definition try_account :: "near_env \<Rightarrow> string \<Rightarrow> string near_prog" where
  \<comment> \<open>\<^verbatim>\<open>AccountId::try_from(port_id.to_string()).unwrap()\<close>\<close>
  "try_account env s = (if account_id_ok env s then ret s else panic)"

lemma try_account_Ok [prog_ok]:
  "try_account env s c = (Ok a, c') \<longleftrightarrow> account_id_ok env s \<and> a = s \<and> c' = c"
  by (auto simp: try_account_def)

definition client_account :: "string \<Rightarrow> string near_prog" where
  \<comment> \<open>\<^verbatim>\<open>self.clients.get(&client_id.to_string()).unwrap()\<close>\<close>
  "client_account client_id = seqp (asks clients) (\<lambda>m. unwrap (m client_id))"

lemma client_account_Ok [prog_ok]:
  "client_account cid c = (Ok a, c') \<longleftrightarrow> clients c cid = Some a \<and> c' = c"
  by (auto simp: client_account_def prog_ok)

fun near_dispatch :: "near_env \<Rightarrow> ibc_state \<Rightarrow> ibc_action \<Rightarrow> promise_or_value near_prog" where
  "near_dispatch env m (Query client_id queries) =
     seqp (client_account client_id) (\<lambda>a. ret (Promise (LcQuery a queries) CbQuery m))"
| "near_dispatch env m (Write (MsgInitialize client_id client_type client_state consensus_state)) =
     seqp (asks account_ids) (\<lambda>ids.
     seqp (unwrap (ids client_type)) (\<lambda>a.
     ret (Promise (LcInitialize a client_id client_state consensus_state) CbInitialize m)))"
| "near_dispatch env m (Write (MsgUpdateStateOnMisbehaviour client_id client_msg)) =
     seqp (client_account client_id) (\<lambda>a.
     ret (Promise (LcUpdateOnMisbehaviour a client_msg) CbUpdateClientOnMisbehaviour m))"
| "near_dispatch env m (Write (MsgUpdateState client_id client_msg)) =
     seqp (client_account client_id) (\<lambda>a.
     ret (Promise (LcUpdate a client_msg) CbUpdateClient m))"
| "near_dispatch env m (Write (MsgOnChannelOpenInit ord hops port_id channel_id cp ver)) =
     seqp (try_account env port_id) (\<lambda>a.
     ret (Promise (AppChannelOpenInit a ord hops port_id channel_id cp ver) CbChanOpenInit m))"
| "near_dispatch env m (Write (MsgOnChannelOpenTry ord hops port_id channel_id cp cp_ver)) =
     seqp (try_account env port_id) (\<lambda>a.
     ret (Promise (AppChannelOpenTry a ord hops port_id channel_id cp cp_ver) CbChanOpenTry m))"
| "near_dispatch env m (Write (MsgOnChannelOpenAck port_id channel_id cp_channel_id cp_ver)) =
     seqp (try_account env port_id) (\<lambda>a.
     ret (Promise (AppChannelOpenAck a port_id channel_id cp_channel_id cp_ver) CbChanOpenAck m))"
| "near_dispatch env m (Write (MsgOnChannelOpenConfirm port_id channel_id)) =
     seqp (try_account env port_id) (\<lambda>a.
     ret (Promise (AppChannelOpenConfirm a port_id channel_id) CbChanOpenConfirm m))"
| "near_dispatch env m (Write (MsgOnRecvPacket p)) =
     seqp (try_account env (destination_port p)) (\<lambda>a.
     ret (Promise (AppRecvPacket a p) CbRecvPacket m))"
| "near_dispatch env m (Write (MsgOnAcknowledgePacket p ack)) =
     seqp (try_account env (source_port p)) (\<lambda>a.
     ret (Promise (AppAcknowledgePacket a p ack) CbAcknowledgePacket m))"

definition near_step :: "near_env \<Rightarrow> ibc_state \<Rightarrow> ibc_response list \<Rightarrow> near_result near_prog" where
  "near_step env runnable response =
     seqp (unwrap_prog (ibc_state_process (near_host env) runnable response)) (\<lambda>r.
     case r of
       Inl (runnable', action) \<Rightarrow>
         seqp (near_dispatch env runnable' action) (\<lambda>p. ret ([], p))
     | Inr (events, val) \<Rightarrow> ret (events, Value val))"

definition near_init :: "near_env \<Rightarrow> ibc_state \<Rightarrow> near_result near_prog" where
  "near_init env runnable = near_step env runnable [RespEmpty]"

section \<open>Entry points\<close>

datatype near_call =
    CallCreateClient string bytes bytes
      \<comment> \<open>client type, client state, consensus state\<close>
  | CallConnectionOpenInit string connection_counterparty version u64
  | CallConnectionOpenTry string connection_counterparty "version list" bytes height u64
  | CallConnectionOpenAck string version string bytes height
  | CallConnectionOpenConfirm string bytes height
  | CallChannelOpenInit "string list" string channel_counterparty string
  | CallChannelOpenTry "string list" string channel_counterparty string string bytes height
  | CallChannelOpenAck string string string string bytes height
      \<comment> \<open>channel id, port id, counterparty channel id, counterparty version, proof, height\<close>
  | CallChannelOpenConfirm string string bytes height
  | CallUpdateClient string bytes
  | CallSendPacket string string height u64 bytes
      \<comment> \<open>source port, source channel, timeout height, timeout timestamp, data\<close>
  | CallRecvPacket packet bytes height
  | CallAcknowledgement packet bytes bytes height

fun near_entry :: "near_env \<Rightarrow> near_call \<Rightarrow> near_result near_prog" where
  "near_entry env (CallCreateClient ty cs cons) =
     near_init env (CreateClient (CreateClient_Init ty cs cons))"
| "near_entry env (CallConnectionOpenInit cid cp v delay) =
     near_init env (ConnectionOpenInit (ConnectionOpenInit_Init cid cp v delay))"
| "near_entry env (CallConnectionOpenTry cid cp vs prf h delay) =
     near_init env (ConnectionOpenTry (ConnectionOpenTry_Init cid cp vs prf h delay))"
| "near_entry env (CallConnectionOpenAck con v ccon prf h) =
     near_init env (ConnectionOpenAck (ConnectionOpenAck_Init con v ccon prf h))"
| "near_entry env (CallConnectionOpenConfirm con prf h) =
     near_init env (ConnectionOpenConfirm (ConnectionOpenConfirm_Init con prf h))"
| "near_entry env (CallChannelOpenInit hops p cp v) =
     near_init env (ChannelOpenInit (ChannelOpenInit_Init hops p cp v))"
| "near_entry env (CallChannelOpenTry hops p cp cpv v prf h) =
     near_init env (ChannelOpenTry (ChannelOpenTry_Init hops p cp cpv v prf h))"
| "near_entry env (CallChannelOpenAck ch p cch cpv prf h) =
     near_init env (ChannelOpenAck (ChannelOpenAck_Init ch p cch cpv prf h))"
| "near_entry env (CallChannelOpenConfirm ch p prf h) =
     near_init env (ChannelOpenConfirm (ChannelOpenConfirm_Init ch p prf h))"
| "near_entry env (CallUpdateClient cid msg) =
     near_init env (UpdateClient (UpdateClient_Init cid msg))"
| "near_entry env (CallSendPacket p ch th tt dat) =
     (if p = env_predecessor env
      then near_init env (SendPacket (SendPacket_Init p ch th tt dat))
      else panic)"
| "near_entry env (CallRecvPacket p prf h) =
     near_init env (RecvPacket (RecvPacket_Init p prf h))"
| "near_entry env (CallAcknowledgement p ack prf h) =
     near_init env (AcknowledgePacket (Acknowledgement_Init p ack prf h))"

definition near_register_client :: "near_env \<Rightarrow> string \<Rightarrow> string \<Rightarrow> unit near_prog" where
  \<comment> \<open>the insertion happens before the assertion on the value it replaced\<close>
  "near_register_client env client_type account =
     seqp (try_account env account) (\<lambda>a.
     seqp (asks (\<lambda>c. account_ids c client_type)) (\<lambda>old.
     seqp (modify (\<lambda>c. c\<lparr>account_ids := (account_ids c)(client_type \<mapsto> a)\<rparr>)) (\<lambda>_.
     if old = None then ret () else panic)))"

text \<open>The entry points take validated identifiers; the request is refused before the call otherwise.\<close>

fun wf_near_call :: "near_call \<Rightarrow> bool" where
  "wf_near_call (CallCreateClient _ _ _) = True"
| "wf_near_call (CallConnectionOpenInit cid cp _ _) =
     (valid_client_id cid \<and> valid_client_id (cc_client_id cp))"
| "wf_near_call (CallConnectionOpenTry cid cp _ _ _ _) =
     (valid_client_id cid \<and> valid_client_id (cc_client_id cp))"
| "wf_near_call (CallConnectionOpenAck _ _ _ _ _) = True"
| "wf_near_call (CallConnectionOpenConfirm _ _ _) = True"
| "wf_near_call (CallChannelOpenInit hops p cp _) =
     (list_all valid_connection_id hops \<and> valid_port_id p \<and> valid_port_id (ccp_port_id cp))"
| "wf_near_call (CallChannelOpenTry hops p cp _ _ _ _) =
     (list_all valid_connection_id hops \<and> valid_port_id p \<and> valid_port_id (ccp_port_id cp))"
| "wf_near_call (CallChannelOpenAck ch p _ _ _ _) = (valid_channel_id ch \<and> valid_port_id p)"
| "wf_near_call (CallChannelOpenConfirm ch p _ _) = (valid_channel_id ch \<and> valid_port_id p)"
| "wf_near_call (CallUpdateClient cid _) = valid_client_id cid"
| "wf_near_call (CallSendPacket p ch _ _ _) = (valid_port_id p \<and> valid_channel_id ch)"
| "wf_near_call (CallRecvPacket p _ _) = wf_packet p"
| "wf_near_call (CallAcknowledgement p _ _ _) = wf_packet p"

section \<open>Callbacks\<close>

text \<open>
  What the call before a callback left: nothing because it failed, or a value of the type the callee
  declares. A callback with a \<^verbatim>\<open>#[callback_unwrap]\<close> argument panics unless the value is of the type it
  expects; the two callbacks without such an argument do not look at the result.
\<close>

datatype promise_result =
    PromiseFailed
  | ResUnit
  | ResQuery "ibc_response list"
  | ResClientUpdated bytes "(height \<times> bytes) list"
  | ResCallbackError callback_error
  | ResAck bytes

definition near_insert_client :: "string \<Rightarrow> string \<Rightarrow> unit near_prog" where
  "near_insert_client cid a = modify (\<lambda>c. c\<lparr>clients := (clients c)(cid \<mapsto> a)\<rparr>)"

definition callback_initialize :: "near_env \<Rightarrow> ibc_state \<Rightarrow> near_result near_prog" where
  "callback_initialize env m =
     seqp (case m of
         CreateClient (CreateClient_Initialize client_id client_type _ _) \<Rightarrow>
           seqp (asks account_ids) (\<lambda>ids.
           seqp (unwrap (ids client_type)) (\<lambda>a.
           near_insert_client client_id a))
       | _ \<Rightarrow> panic) (\<lambda>_.
     near_step env m [RespInitialize])"

fun expect_err :: "promise_result \<Rightarrow> callback_error near_prog" where
  "expect_err (ResCallbackError err) = ret err"
| "expect_err _ = panic"

fun near_callback ::
  "near_env \<Rightarrow> callback \<Rightarrow> ibc_state \<Rightarrow> promise_result \<Rightarrow> near_result near_prog" where
  "near_callback env CbQuery m res =
     (case res of ResQuery responses \<Rightarrow> near_step env m responses | _ \<Rightarrow> panic)"
| "near_callback env CbInitialize m res = callback_initialize env m"
| "near_callback env CbUpdateClientOnMisbehaviour m res =
     near_step env m [RespUpdateStateOnMisbehaviour]"
| "near_callback env CbUpdateClient m res =
     (case res of
        ResClientUpdated client_state consensus_states \<Rightarrow>
          near_step env m [RespUpdateState consensus_states client_state]
      | _ \<Rightarrow> panic)"
| "near_callback env CbChanOpenInit m res =
     seqp (expect_err res) (\<lambda>err. near_step env m [RespOnChannelOpenInit err])"
| "near_callback env CbChanOpenTry m res =
     seqp (expect_err res) (\<lambda>err. near_step env m [RespOnChannelOpenTry err])"
| "near_callback env CbChanOpenAck m res =
     seqp (expect_err res) (\<lambda>err. near_step env m [RespOnChannelOpenAck err])"
| "near_callback env CbChanOpenConfirm m res =
     seqp (expect_err res) (\<lambda>err. near_step env m [RespOnChannelOpenConfirm err])"
| "near_callback env CbRecvPacket m res =
     (case res of ResAck ack \<Rightarrow> near_step env m [RespOnRecvPacket ack] | _ \<Rightarrow> panic)"
| "near_callback env CbAcknowledgePacket m res =
     seqp (expect_err res) (\<lambda>err. near_step env m [RespOnAcknowledgePacket err])"

section \<open>What a call that succeeded was\<close>

lemma expect_err_Ok [prog_ok]:
  "expect_err res c = (Ok err, c') \<longleftrightarrow> res = ResCallbackError err \<and> c' = c"
  by (cases res) (auto simp: prog_ok)

lemma near_dispatch_Ok:
  "near_dispatch env m a c = (Ok p, c') \<Longrightarrow> c' = c \<and> (\<exists>x cb. p = Promise x cb m)"
  by (cases "(env, m, a)" rule: near_dispatch.cases) (auto simp: prog_ok)

lemma near_step_Ok:
  assumes "near_step env m resp c = (Ok (evs, pov), c')"
  obtains
    (goes_on) m' a x cb where "pov = Promise x cb m'" "evs = []"
      "ibc_state_process (near_host env) m resp c = (Ok (Inl (m', a)), c')"
      "near_dispatch env m' a c' = (Ok pov, c')"
  | (finished) val where "pov = Value val"
      "ibc_state_process (near_host env) m resp c = (Ok (Inr (evs, val)), c')"
proof -
  from assms obtain r c1
    where r: "ibc_state_process (near_host env) m resp c = (Ok r, c1)"
      and k: "(case r of
          Inl (m', a) \<Rightarrow> seqp (near_dispatch env m' a) (\<lambda>p. ret ([], p))
        | Inr (evs, val) \<Rightarrow> ret (evs, Value val)) c1 = (Ok (evs, pov), c')"
    by (auto simp: near_step_def prog_ok)
  show thesis
  proof (cases r)
    case (Inl q)
    obtain m' a where q: "q = (m', a)" by (cases q)
    with k Inl have d: "near_dispatch env m' a c1 = (Ok pov, c')" and e: "evs = []"
      by (auto simp: prog_ok)
    from near_dispatch_Ok [OF d] obtain x cb where "c' = c1" "pov = Promise x cb m'" by auto
    with goes_on r d e q Inl show thesis by blast
  next
    case (Inr q)
    with k r finished show thesis by (cases q) (auto simp: prog_ok)
  qed
qed

text \<open>A callback runs one step of the machine it was given, after registering a new client.\<close>

lemma near_callback_Ok:
  assumes "near_callback env cb m res c = (Ok r, c')"
  obtains
    (plain) resp where "near_step env m resp c = (Ok r, c')"
  | (new_client) cid ty cs cons a where "cb = CbInitialize"
      "m = CreateClient (CreateClient_Initialize cid ty cs cons)" "account_ids c ty = Some a"
      "near_step env m [RespInitialize] (c\<lparr>clients := (clients c)(cid \<mapsto> a)\<rparr>) = (Ok r, c')"
  using assms
  by (cases cb)
    (auto simp: prog_ok callback_initialize_def near_insert_client_def
      split: promise_result.splits ibc_state.splits create_client.splits)

text \<open>An entry point runs the first step of a machine in its first state.\<close>

fun call_state :: "near_call \<Rightarrow> ibc_state" where
  "call_state (CallCreateClient ty cs cons) = CreateClient (CreateClient_Init ty cs cons)"
| "call_state (CallConnectionOpenInit cid cp v delay) =
     ConnectionOpenInit (ConnectionOpenInit_Init cid cp v delay)"
| "call_state (CallConnectionOpenTry cid cp vs prf h delay) =
     ConnectionOpenTry (ConnectionOpenTry_Init cid cp vs prf h delay)"
| "call_state (CallConnectionOpenAck con v ccon prf h) =
     ConnectionOpenAck (ConnectionOpenAck_Init con v ccon prf h)"
| "call_state (CallConnectionOpenConfirm con prf h) =
     ConnectionOpenConfirm (ConnectionOpenConfirm_Init con prf h)"
| "call_state (CallChannelOpenInit hops p cp v) = ChannelOpenInit (ChannelOpenInit_Init hops p cp v)"
| "call_state (CallChannelOpenTry hops p cp cpv v prf h) =
     ChannelOpenTry (ChannelOpenTry_Init hops p cp cpv v prf h)"
| "call_state (CallChannelOpenAck ch p cch cpv prf h) =
     ChannelOpenAck (ChannelOpenAck_Init ch p cch cpv prf h)"
| "call_state (CallChannelOpenConfirm ch p prf h) =
     ChannelOpenConfirm (ChannelOpenConfirm_Init ch p prf h)"
| "call_state (CallUpdateClient cid msg) = UpdateClient (UpdateClient_Init cid msg)"
| "call_state (CallSendPacket p ch th tt dat) = SendPacket (SendPacket_Init p ch th tt dat)"
| "call_state (CallRecvPacket p prf h) = RecvPacket (RecvPacket_Init p prf h)"
| "call_state (CallAcknowledgement p ack prf h) =
     AcknowledgePacket (Acknowledgement_Init p ack prf h)"

lemma near_entry_Ok:
  "near_entry env call c = (Ok r, c') \<Longrightarrow> near_step env (call_state call) [RespEmpty] c = (Ok r, c')"
  by (cases call) (auto simp: near_init_def prog_ok split: if_splits)

lemma wf_call_state: "wf_near_call call \<Longrightarrow> wf_ibc_state (call_state call)"
  by (cases call) simp_all

end
