(* ===== verification/Near_System.thy ===== *)
theory Near_System imports Near_Step begin

text \<open>
  The NEAR contract as a system: its state and the callbacks the runtime still owes it. Calls come
  from anyone, and a callback runs with whatever the called contract answered, at any later time and
  in any order. The invariants say what holds in every state the contract can reach: the store can be
  read back, identifiers are never given out twice, and no outstanding packet commitment is at or
  above the next sequence of its channel.
\<close>

section \<open>Identifiers with a counter\<close>

text \<open>An identifier the host makes ends in a dash and the counter, which can be read back from it.\<close>

definition has_index :: "string \<Rightarrow> nat \<Rightarrow> bool" where
  "has_index s i \<longleftrightarrow> (\<exists>pre. s = pre @ ''-'' @ show_nat i)"

definition issued :: "nat \<Rightarrow> string \<Rightarrow> bool" where
  "issued n s \<longleftrightarrow> (\<exists>i. 1 \<le> i \<and> i \<le> n \<and> has_index s i)"

lemma show_nat_no_dash: "CHR ''-'' \<notin> set (show_nat n)"
  by (auto dest!: show_nat_digits simp: is_digit_def)

lemma last_dash_unique:
  assumes "p @ c # xs = q @ c # ys" and "c \<notin> set xs" and "c \<notin> set ys"
  shows "xs = ys"
proof -
  from assms(1) have "rev (p @ c # xs) = rev (q @ c # ys)" by simp
  then have e: "rev xs @ c # rev p = rev ys @ c # rev q" by simp
  have t: "takeWhile (\<lambda>d. d \<noteq> c) (rev zs @ c # r) = rev zs" if "c \<notin> set zs" for zs r
    using that by (subst takeWhile_append2) auto
  from t [OF assms(2)] t [OF assms(3)] e have "rev xs = rev ys" by metis
  then show ?thesis by simp
qed

lemma show_nat_inject:
  assumes "show_nat i = show_nat j"
  shows "i = j"
proof -
  have i: "parse_digits (Suc (max i j)) 0 (show_nat i) = Inr i"
    by (rule parse_digits_show) simp
  have j: "parse_digits (Suc (max i j)) 0 (show_nat j) = Inr j"
    by (rule parse_digits_show) simp
  from i have "parse_digits (Suc (max i j)) 0 (show_nat j) = Inr i"
    by (simp only: assms)
  from trans [OF j [symmetric] this] show ?thesis by (rule sum.inject(2) [THEN iffD1, symmetric])
qed

lemma has_index_unique:
  assumes "has_index s i" and "has_index s j"
  shows "i = j"
proof -
  from assms obtain p q
    where "p @ CHR ''-'' # show_nat i = q @ CHR ''-'' # show_nat j"
    by (auto simp: has_index_def)
  from last_dash_unique [OF this show_nat_no_dash show_nat_no_dash] show ?thesis
    by (rule show_nat_inject)
qed

lemma not_issued_next: "has_index s (Suc n) \<Longrightarrow> \<not> issued n s"
  by (auto simp: issued_def dest: has_index_unique)

lemma issued_mono: "issued n s \<Longrightarrow> n \<le> n' \<Longrightarrow> issued n' s"
  by (auto simp: issued_def)

text \<open>
  A pool of identifiers given out so far: the ones still held by a pending callback are distinct and
  not in use yet.
\<close>

definition pool_ok :: "nat \<Rightarrow> string list \<Rightarrow> string set \<Rightarrow> bool" where
  "pool_ok n held used \<longleftrightarrow>
     distinct held \<and> (\<forall>s \<in> set held \<union> used. issued n s) \<and> set held \<inter> used = {}"

lemma pool_issue:
  assumes "pool_ok n held used" and "has_index s (Suc n)"
  shows "pool_ok (Suc n) (held @ [s]) used"
proof -
  have "issued (Suc n) s" using assms(2) by (auto simp: issued_def)
  moreover have "\<not> issued n s" using assms(2) by (rule not_issued_next)
  ultimately show ?thesis
    using assms(1) issued_mono [of n _ "Suc n"] by (auto simp: pool_ok_def)
qed

lemma pool_use:
  "pool_ok n (xs @ s # ys) used \<Longrightarrow> pool_ok n (xs @ ys) (insert s used)"
  by (auto simp: pool_ok_def)

lemma pool_drop: "pool_ok n (xs @ zs @ ys) used \<Longrightarrow> pool_ok n (xs @ ys) used"
  by (auto simp: pool_ok_def)

lemma pool_mono: "pool_ok n held used \<Longrightarrow> used' \<subseteq> used \<Longrightarrow> pool_ok n held used'"
  by (auto simp: pool_ok_def)

section \<open>The system\<close>

type_synonym pending_call = "ext_call \<times> callback \<times> ibc_state"

record near_system =
  sys_contract :: near_contract
  sys_pending :: "pending_call list"

text \<open>What does not change from one block to the next: the code of the host and of the crates.\<close>

definition same_chain :: "near_env \<Rightarrow> near_env \<Rightarrow> bool" where
  "same_chain E env \<longleftrightarrow>
     env_prost env = env_prost E \<and> env_sha256 env = env_sha256 E \<and>
     account_id_ok env = account_id_ok E \<and> env_hex_encode env = env_hex_encode E"

fun schedule :: "promise_or_value \<Rightarrow> pending_call list" where
  "schedule (Value _) = []"
| "schedule (Promise x cb m) = [(x, cb, m)]"

inductive near_sys_step :: "near_env \<Rightarrow> near_system \<Rightarrow> near_system \<Rightarrow> bool" for E where
  register:
    "near_register_client env ty acct c = (Ok (), c') \<Longrightarrow> same_chain E env \<Longrightarrow>
     near_sys_step E \<lparr>sys_contract = c, sys_pending = ps\<rparr> \<lparr>sys_contract = c', sys_pending = ps\<rparr>"
| call:
    "near_entry env call c = (Ok (evs, pov), c') \<Longrightarrow> same_chain E env \<Longrightarrow> wf_near_call call \<Longrightarrow>
     near_sys_step E \<lparr>sys_contract = c, sys_pending = ps\<rparr>
       \<lparr>sys_contract = c', sys_pending = ps @ schedule pov\<rparr>"
| callback:
    "near_callback env cb m res c = (Ok (evs, pov), c') \<Longrightarrow> same_chain E env \<Longrightarrow>
     near_sys_step E \<lparr>sys_contract = c, sys_pending = ps @ (x, cb, m) # qs\<rparr>
       \<lparr>sys_contract = c', sys_pending = ps @ qs @ schedule pov\<rparr>"
| callback_failed:
    "near_callback env cb m res c = (Panic, c') \<Longrightarrow> same_chain E env \<Longrightarrow>
     near_sys_step E \<lparr>sys_contract = c, sys_pending = ps @ (x, cb, m) # qs\<rparr>
       \<lparr>sys_contract = c, sys_pending = ps @ qs\<rparr>"

inductive_cases near_sys_stepE: "near_sys_step E S S'"

definition near_start :: near_system where
  "near_start = \<lparr>sys_contract = near_default, sys_pending = []\<rparr>"

text \<open>Reachable with a number of steps, which bounds the counters.\<close>

inductive near_reach :: "near_env \<Rightarrow> nat \<Rightarrow> near_system \<Rightarrow> bool" for E where
  near_reach_start: "near_reach E 0 near_start"
| near_reach_step: "near_reach E n S \<Longrightarrow> near_sys_step E S S' \<Longrightarrow> near_reach E (Suc n) S'"

section \<open>What a step of the machine does to the contract\<close>

fun new_channels :: "ibc_state \<Rightarrow> string list" where
  "new_channels (ChannelOpenInit (ChannelOpenInit_CallbackCalled c _ _ _ _)) = [c]"
| "new_channels (ChannelOpenTry (ChannelOpenTry_CallbackCalled c _ _ _ _)) = [c]"
| "new_channels _ = []"

fun new_clients :: "ibc_state \<Rightarrow> string list" where
  "new_clients (CreateClient (CreateClient_Initialize cid _ _ _)) = [cid]"
| "new_clients _ = []"

definition used_channels :: "near_contract \<Rightarrow> string set" where
  \<comment> \<open>the channels that have a counter of sent packets\<close>
  "used_channels c =
     {ch. valid_channel_id ch \<and>
          (\<exists>p. valid_port_id p \<and> near_read_raw c (NextSequenceSendPath p ch) \<noteq> None)}"

lemma has_index_u64: "has_index (pre @ CHR ''-'' # show_u64 n) (unat n)"
  by (auto simp: has_index_def show_u64_def)

lemma near_insert_fields [simp]:
  "client_index (near_insert k v c) = client_index c"
  "connection_index (near_insert k v c) = connection_index c"
  "channel_index (near_insert k v c) = channel_index c"
  "clients (near_insert k v c) = clients c"
  "account_ids (near_insert k v c) = account_ids c"
  by (simp_all add: near_insert_def)

text \<open>A step that goes on may take one identifier from a counter, and gives it to the next state.\<close>

lemma left_step_counters:
  assumes "ibc_state_process (near_host env) m resp c = (Ok (Inl (m', a)), c')"
  shows "clients c' = clients c \<and> account_ids c' = account_ids c \<and>
    (new_channels m' = [] \<and> channel_index c' = channel_index c \<or>
     (\<exists>ch. new_channels m' = [ch] \<and> channel_index c' = channel_index c + 1 \<and>
           has_index ch (unat (channel_index c + 1)) \<and> valid_channel_id ch)) \<and>
    (new_clients m' = [] \<and> client_index c' = client_index c \<or>
     (\<exists>cid. new_clients m' = [cid] \<and> client_index c' = client_index c + 1 \<and>
            has_index cid (unat (client_index c + 1))))"
proof (cases m)
  case (CreateClient x)
  with assms show ?thesis
    by (cases x) (auto simp: cast_either_left prog_ok has_index_u64 split: response_splits)
qed (use assms in \<open>(rename_tac x, case_tac x; auto simp: cast_either_left prog_ok Let_def
       has_index_u64 [of "''channel''", simplified]
       split: response_splits option.splits prod.splits dest!: near.step_facts)+\<close>)

text \<open>The last step of a machine takes no identifier.\<close>

lemma commit_consensus_states_fields:
  "commit_consensus_states (near_host env) cid css c = (Ok hs, c') \<Longrightarrow>
     clients c' = clients c \<and> account_ids c' = account_ids c \<and>
     channel_index c' = channel_index c \<and> client_index c' = client_index c"
proof (induction css arbitrary: c hs)
  case Nil
  then show ?case by (simp add: commit_consensus_states_def prog_ok)
next
  case (Cons hc css)
  obtain h st where "hc = (h, st)" by (cases hc)
  with Cons.prems obtain hs'
    where rest: "commit_consensus_states (near_host env) cid css
        (near_insert (path_to_string (ClientConsensusStatePath cid h)) st c) = (Ok hs', c')"
    by (auto simp: commit_consensus_states_def prog_ok)
  from Cons.IH [OF rest] show ?case by simp
qed

lemma right_step_counters:
  assumes "ibc_state_process (near_host env) m resp c = (Ok (Inr d), c')"
  shows "clients c' = clients c \<and> account_ids c' = account_ids c \<and>
     channel_index c' = channel_index c \<and> client_index c' = client_index c"
proof (cases m)
  case (UpdateClient x)
  with assms show ?thesis
    by (cases x) (auto simp: cast_either_right prog_ok split: response_splits
        dest!: commit_consensus_states_fields)
qed (use assms in \<open>(rename_tac x, case_tac x; auto simp: cast_either_right prog_ok Let_def
       commit_new_channel_def write_acknowledgement_def
       split: response_splits option.splits prod.splits if_splits dest!: near.step_facts)+\<close>)

text \<open>
  The counter of sent packets and the packet commitments: only the last steps of \<^verbatim>\<open>ChannelOpenInit\<close>,
  \<^verbatim>\<open>ChannelOpenTry\<close> and \<^verbatim>\<open>SendPacket\<close> write them, and an acknowledgement removes a commitment.
\<close>

abbreviation next_send :: "near_contract \<Rightarrow> string \<Rightarrow> string \<Rightarrow> bytes option" where
  "next_send c p ch \<equiv> near_read_raw c (NextSequenceSendPath p ch)"

abbreviation commitment_of :: "near_contract \<Rightarrow> string \<Rightarrow> string \<Rightarrow> u64 \<Rightarrow> bytes option" where
  "commitment_of c p ch n \<equiv> near_read_raw c (CommitmentPath p ch n)"

lemma new_channel_sequences:
  assumes "ibc_state_process (near_host env) m resp c = (Ok (Inr d), c')" and "wf_ibc_state m"
    and "new_channels m = [ch]" and "valid_port_id p'" and "valid_channel_id ch'"
  shows "(next_send c' p' ch' = next_send c p' ch' \<or>
          ch' = ch \<and> next_send c' p' ch' = Some (u64_to_be_bytes 1)) \<and>
         (n \<noteq> 0 \<longrightarrow> commitment_of c' p' ch' n = commitment_of c p' ch' n)"
  using assms
  by (cases m rule: new_channels.cases)
    (auto simp: cast_either_right prog_ok Let_def commit_new_channel_def near_read_raw_insert
      split: response_splits)

lemma other_sequences:
  assumes "ibc_state_process (near_host env) m resp c = (Ok (Inr d), c')" and "wf_ibc_state m"
    and "new_channels m = []" and "\<forall>x. m \<noteq> SendPacket x"
    and "valid_port_id p" and "valid_channel_id ch"
  shows "next_send c' p ch = next_send c p ch \<and>
         (n \<noteq> 0 \<longrightarrow> commitment_of c' p ch n = commitment_of c p ch n \<or>
            commitment_of c' p ch n = None)"
proof (cases "\<exists>x. m = AcknowledgePacket x")
  case True
  then obtain x where "m = AcknowledgePacket x" ..
  with assms show ?thesis
    by (cases x) (auto simp: cast_either_right prog_ok Let_def near_read_raw_delete wf_packet_def
        split: response_splits option.splits prod.splits dest!: near.acknowledgement_checks_Ok)
next
  case False
  with assms(3,4) have "\<not> vm_may_write m (NextSequenceSendPath p ch)"
    "\<not> vm_may_write m (CommitmentPath p ch n)"
    by (cases m; auto split: create_client.splits update_client.splits connection_open_init.splits
        connection_open_try.splits connection_open_ack.splits connection_open_confirm.splits
        channel_open_init.splits channel_open_try.splits channel_open_ack.splits
        channel_open_confirm.splits recv_packet.splits)+
  with near.right_step_frame [OF assms(1,2)] assms(5,6) show ?thesis by simp
qed

lemma send_sequences:
  assumes "ibc_state_process (near_host env) (SendPacket x) resp c = (Ok (Inr d), c')"
    and "wf_ibc_state (SendPacket x)"
  obtains p ch raw seq nxt com
  where "valid_port_id p" "valid_channel_id ch" "next_send c p ch = Some raw"
    "u64_from_be_bytes raw = Some seq" "seq \<noteq> 0" "checked_add_u64 seq 1 = Some nxt"
    "\<forall>p' ch'. valid_port_id p' \<and> valid_channel_id ch' \<longrightarrow>
       next_send c' p' ch' =
         (if p' = p \<and> ch' = ch then Some (u64_to_be_bytes nxt) else next_send c p' ch')"
    "\<forall>p' ch' n. valid_port_id p' \<and> valid_channel_id ch' \<and> n \<noteq> 0 \<longrightarrow>
       commitment_of c' p' ch' n =
         (if p' = p \<and> ch' = ch \<and> n = seq then Some com else commitment_of c p' ch' n)"
proof -
  from assms obtain p ch raw seq nxt com
    where s: "valid_port_id p" "valid_channel_id ch" "next_send c p ch = Some raw"
        "u64_from_be_bytes raw = Some seq" "seq \<noteq> 0" "checked_add_u64 seq 1 = Some nxt"
      and c': "c' = near_insert (path_to_string (CommitmentPath p ch seq)) com
          (near_insert (path_to_string (NextSequenceSendPath p ch)) (u64_to_be_bytes nxt) c)"
    by (cases x) (auto simp: cast_either_right prog_ok Let_def split: response_splits if_splits)
  show thesis
    by (rule that [OF s, where com = com]) (use s in \<open>simp_all add: c' near_read_raw_insert\<close>)
qed

section \<open>The invariant of the store and of the channels\<close>

fun readable :: "prost \<Rightarrow> path \<Rightarrow> bytes \<Rightarrow> bool" where
  "readable P (ConnectionPath _) bs \<longleftrightarrow> decode_connection P bs \<noteq> None"
| "readable P (ChannelEndPath _ _) bs \<longleftrightarrow> decode_channel P bs \<noteq> None"
| "readable P (NextSequenceSendPath _ _) bs \<longleftrightarrow> (\<exists>n. u64_from_be_bytes bs = Some n \<and> n \<noteq> 0)"
| "readable P (NextSequenceRecvPath _ _) bs \<longleftrightarrow> (\<exists>n. u64_from_be_bytes bs = Some n \<and> n \<noteq> 0)"
| "readable P (NextSequenceAckPath _ _) bs \<longleftrightarrow> (\<exists>n. u64_from_be_bytes bs = Some n \<and> n \<noteq> 0)"
| "readable P k bs \<longleftrightarrow> True"

definition store_readable :: "prost \<Rightarrow> near_contract \<Rightarrow> bool" where
  "store_readable P c \<longleftrightarrow>
     (\<forall>k bs. wf_path k \<longrightarrow> near_read_raw c k = Some bs \<longrightarrow> readable P k bs)"

definition commitments_below :: "near_contract \<Rightarrow> bool" where
  \<comment> \<open>every outstanding packet was sent: its sequence is below the next one of its channel\<close>
  "commitments_below c \<longleftrightarrow>
     (\<forall>p ch n. valid_port_id p \<and> valid_channel_id ch \<and> n \<noteq> 0 \<and> commitment_of c p ch n \<noteq> None \<longrightarrow>
        (\<exists>raw s. next_send c p ch = Some raw \<and> u64_from_be_bytes raw = Some s \<and> unat n < unat s))"

definition held :: "(ibc_state \<Rightarrow> string list) \<Rightarrow> pending_call list \<Rightarrow> string list" where
  "held f ps = concat (map (\<lambda>(x, cb, m). f m) ps)"

lemma held_simps [simp]:
  "held f [] = []" "held f ((x, cb, m) # ps) = f m @ held f ps"
  "held f (ps @ qs) = held f ps @ held f qs"
  by (simp_all add: held_def)

definition pending_wf :: "pending_call list \<Rightarrow> bool" where
  "pending_wf ps \<longleftrightarrow> (\<forall>(x, cb, m) \<in> set ps. wf_ibc_state m)"

definition channel_inv :: "near_env \<Rightarrow> nat \<Rightarrow> near_contract \<Rightarrow> pending_call list \<Rightarrow> bool" where
  "channel_inv E n c ps \<longleftrightarrow>
     pending_wf ps \<and> store_readable (env_prost E) c \<and> commitments_below c \<and>
     unat (channel_index c) \<le> n \<and>
     pool_ok (unat (channel_index c)) (held new_channels ps) (used_channels c)"

lemma well_written_readable:
  assumes "well_written (near_host env) k (Some bs)" and "prost_ok (env_prost env)"
  shows "readable (env_prost env) k bs"
  using assms
  by (cases k) (auto simp: decode_encode_connection decode_encode_channel)

lemma store_readable_step:
  assumes "ibc_state_process (near_host env) m resp c = (Ok (Inr d), c')" and "wf_ibc_state m"
    and "store_readable (env_prost env) c" and "prost_ok (env_prost env)"
  shows "store_readable (env_prost env) c'"
  unfolding store_readable_def
proof (intro allI impI)
  fix k bs
  assume k: "wf_path k" and bs: "near_read_raw c' k = Some bs"
  from near.right_step_writes [OF assms(1,2) k] bs assms(3) k
  show "readable (env_prost env) k bs"
    by (auto simp: store_readable_def intro: well_written_readable [OF _ assms(4)])
qed

lemma new_channel_below:
  assumes "ibc_state_process (near_host env) m resp c = (Ok (Inr d), c')" and "wf_ibc_state m"
    and "new_channels m = [ch]" and "ch \<notin> used_channels c" and "commitments_below c"
  shows "commitments_below c' \<and> used_channels c' \<subseteq> insert ch (used_channels c)"
proof
  note new = new_channel_sequences [OF assms(1-3)]
  show "used_channels c' \<subseteq> insert ch (used_channels c)"
    using new unfolding used_channels_def by fastforce
  show "commitments_below c'"
    unfolding commitments_below_def
  proof (intro allI impI, elim conjE)
    fix p ch' n
    assume v: "valid_port_id p" "valid_channel_id ch'" and n: "n \<noteq> (0 :: u64)"
      and com: "commitment_of c' p ch' n \<noteq> None"
    have "commitment_of c p ch' n \<noteq> None" using new [OF v, of n] n com by simp
    then obtain raw s where s: "next_send c p ch' = Some raw" "u64_from_be_bytes raw = Some s"
        "unat n < unat s"
      using assms(5) v n unfolding commitments_below_def by blast
    with v have "ch' \<in> used_channels c" by (auto simp: used_channels_def)
    with assms(4) have "ch' \<noteq> ch" by auto
    with new [OF v, of n] s
    show "\<exists>raw s. next_send c' p ch' = Some raw \<and> u64_from_be_bytes raw = Some s \<and> unat n < unat s"
      by auto
  qed
qed

lemma send_below:
  assumes "ibc_state_process (near_host env) (SendPacket x) resp c = (Ok (Inr d), c')"
    and "wf_ibc_state (SendPacket x)" and "commitments_below c"
  shows "commitments_below c' \<and> used_channels c' \<subseteq> used_channels c"
proof -
  obtain p ch raw seq nxt com
    where v: "valid_port_id p" "valid_channel_id ch" and raw: "next_send c p ch = Some raw"
      and seq: "u64_from_be_bytes raw = Some seq" and nz: "seq \<noteq> 0"
      and nxt: "checked_add_u64 seq 1 = Some nxt"
      and ns: "\<forall>p' ch'. valid_port_id p' \<and> valid_channel_id ch' \<longrightarrow> next_send c' p' ch' =
         (if p' = p \<and> ch' = ch then Some (u64_to_be_bytes nxt) else next_send c p' ch')"
      and cm: "\<forall>p' ch' n. valid_port_id p' \<and> valid_channel_id ch' \<and> n \<noteq> 0 \<longrightarrow>
         commitment_of c' p' ch' n =
           (if p' = p \<and> ch' = ch \<and> n = seq then Some com else commitment_of c p' ch' n)"
    by (rule send_sequences [OF assms(1,2)])
  have lt: "unat nxt = unat seq + 1" using checked_add_u64_unat [OF nxt] by simp
  have "commitments_below c'"
    unfolding commitments_below_def
  proof (intro allI impI, elim conjE)
    fix p' ch' n
    assume v': "valid_port_id p'" "valid_channel_id ch'" and n: "n \<noteq> (0 :: u64)"
      and com: "commitment_of c' p' ch' n \<noteq> None"
    show "\<exists>raw s. next_send c' p' ch' = Some raw \<and> u64_from_be_bytes raw = Some s \<and> unat n < unat s"
    proof (cases "p' = p \<and> ch' = ch")
      case True
      have "unat n < unat nxt"
      proof (cases "n = seq")
        case False
        with True com v' n cm have "commitment_of c p ch n \<noteq> None" by auto
        with assms(3) v n raw seq have "unat n < unat seq" unfolding commitments_below_def by force
        with lt show ?thesis by simp
      qed (simp add: lt)
      with True ns v' show ?thesis by simp
    next
      case False
      with com cm v' n have "commitment_of c p' ch' n \<noteq> None" by auto
      then obtain raw' s' where "next_send c p' ch' = Some raw'" "u64_from_be_bytes raw' = Some s'"
          "unat n < unat s'"
        using assms(3) v' n unfolding commitments_below_def by blast
      moreover have "next_send c' p' ch' = next_send c p' ch'" using False ns v' by auto
      ultimately show ?thesis by simp
    qed
  qed
  moreover have "used_channels c' \<subseteq> used_channels c"
  proof
    fix ch'
    assume "ch' \<in> used_channels c'"
    then obtain p' where p': "valid_channel_id ch'" "valid_port_id p'" "next_send c' p' ch' \<noteq> None"
      by (auto simp: used_channels_def)
    with ns raw have "next_send c p' ch' \<noteq> None" by (cases "p' = p \<and> ch' = ch") auto
    with p' show "ch' \<in> used_channels c" by (auto simp: used_channels_def)
  qed
  ultimately show ?thesis by simp
qed

lemma other_below:
  assumes "ibc_state_process (near_host env) m resp c = (Ok (Inr d), c')" and "wf_ibc_state m"
    and "new_channels m = []" and "\<forall>x. m \<noteq> SendPacket x" and "commitments_below c"
  shows "commitments_below c' \<and> used_channels c' \<subseteq> used_channels c"
proof -
  note other = other_sequences [OF assms(1-4)]
  have "commitments_below c'"
    unfolding commitments_below_def
  proof (intro allI impI, elim conjE)
    fix p ch n
    assume v: "valid_port_id p" "valid_channel_id ch" and n: "n \<noteq> (0 :: u64)"
      and com: "commitment_of c' p ch n \<noteq> None"
    with other [OF v, of n] have "commitment_of c p ch n \<noteq> None" by auto
    with assms(5) v n other [OF v, of n]
    show "\<exists>raw s. next_send c' p ch = Some raw \<and> u64_from_be_bytes raw = Some s \<and> unat n < unat s"
      unfolding commitments_below_def by fastforce
  qed
  moreover have "used_channels c' \<subseteq> used_channels c"
    using other unfolding used_channels_def by fastforce
  ultimately show ?thesis by simp
qed

lemma new_channels_cases: "new_channels m = [] \<or> (\<exists>ch. new_channels m = [ch])"
  by (cases m rule: new_channels.cases) auto

lemma right_step_channels:
  assumes step: "ibc_state_process (near_host env) m resp c = (Ok (Inr d), c')"
    and wf: "wf_ibc_state m" and below: "commitments_below c"
    and pool: "pool_ok n (xs @ new_channels m @ ys) (used_channels c)"
  shows "commitments_below c' \<and> pool_ok n (xs @ ys) (used_channels c')"
proof (cases "\<exists>ch. new_channels m = [ch]")
  case True
  then obtain ch where ch: "new_channels m = [ch]" ..
  with pool have "ch \<notin> used_channels c" by (auto simp: pool_ok_def)
  from new_channel_below [OF step wf ch this below] pool_use [of n xs ch ys] pool ch
  show ?thesis by (auto intro: pool_mono)
next
  case False
  then have none: "new_channels m = []" using new_channels_cases by blast
  have "commitments_below c' \<and> used_channels c' \<subseteq> used_channels c"
  proof (cases "\<exists>x. m = SendPacket x")
    case True
    then obtain x where "m = SendPacket x" ..
    with send_below step wf below show ?thesis by blast
  next
    case False
    with other_below [OF step wf none _ below] show ?thesis by blast
  qed
  with pool none show ?thesis by (auto intro: pool_mono)
qed

lemma left_step_channels:
  assumes step: "ibc_state_process (near_host env) m resp c = (Ok (Inl (m', a)), c')"
    and below: "commitments_below c" and bound: "unat (channel_index c) < 2 ^ 64 - 1"
    and pool: "pool_ok (unat (channel_index c)) (xs @ zs @ ys) (used_channels c)"
  shows "commitments_below c' \<and> unat (channel_index c') \<le> Suc (unat (channel_index c)) \<and>
     pool_ok (unat (channel_index c')) (xs @ ys @ new_channels m') (used_channels c')"
proof -
  have store: "near_read_raw c' = near_read_raw c" using near.left_step_store [OF step] by simp
  have suc: "unat (channel_index c + 1) = Suc (unat (channel_index c))"
    using bound by (simp add: unat_word_ariths)
  note counters = left_step_counters [OF step]
  have "pool_ok (unat (channel_index c')) ((xs @ ys) @ new_channels m') (used_channels c)"
    using counters pool_drop [OF pool] pool_issue [OF pool_drop [OF pool]] suc by auto
  moreover have "unat (channel_index c') \<le> Suc (unat (channel_index c))"
    using counters suc by auto
  ultimately show ?thesis
    using below store by (simp add: commitments_below_def used_channels_def)
qed

text \<open>One execution of \<^verbatim>\<open>step\<close>, for a machine taken from the pending callbacks.\<close>

lemma near_step_channel_inv:
  assumes step: "near_step env m resp c = (Ok (evs, pov), c')" and P: "prost_ok (env_prost E)"
    and chain: "same_chain E env" and n: "n < 2 ^ 64 - 1"
    and inv: "channel_inv E n c (ps @ (x, cb, m) # qs)"
  shows "channel_inv E (Suc n) c' (ps @ qs @ schedule pov)"
proof -
  from inv have wf: "wf_ibc_state m" and rest: "pending_wf (ps @ qs)"
    and rd: "store_readable (env_prost env) c" and below: "commitments_below c"
    and idx: "unat (channel_index c) \<le> n"
    and pool: "pool_ok (unat (channel_index c))
        (held new_channels ps @ new_channels m @ held new_channels qs) (used_channels c)"
    using chain by (auto simp: channel_inv_def pending_wf_def same_chain_def)
  from step show ?thesis
  proof (cases rule: near_step_Ok)
    case (goes_on m' a x cb)
    from left_step_channels [OF goes_on(3) below _ pool] idx n
    have l: "commitments_below c'" "unat (channel_index c') \<le> Suc (unat (channel_index c))"
      "pool_ok (unat (channel_index c')) (held new_channels (ps @ qs @ schedule pov))
         (used_channels c')"
      by (auto simp: goes_on(1))
    moreover have "near_read_raw c' = near_read_raw c"
      using near.left_step_store [OF goes_on(3)] by simp
    then have "store_readable (env_prost E) c'"
      using rd chain by (simp add: store_readable_def same_chain_def)
    moreover have "wf_ibc_state m'" using near.left_step_wf [OF goes_on(3) wf] .
    then have "pending_wf (ps @ qs @ schedule pov)"
      using rest by (auto simp: pending_wf_def goes_on(1))
    ultimately show ?thesis using idx by (simp add: channel_inv_def)
  next
    case (finished val)
    have "store_readable (env_prost E) c'"
      using store_readable_step [OF finished(2) wf rd] P chain by (simp add: same_chain_def)
    with right_step_channels [OF finished(2) wf below pool] right_step_counters [OF finished(2)]
      rest idx
    show ?thesis by (simp add: channel_inv_def finished(1))
  qed
qed

lemma channel_inv_cong:
  assumes "near_read_raw c' = near_read_raw c" and "channel_index c' = channel_index c"
  shows "channel_inv E n c' ps = channel_inv E n c ps"
  using assms
  by (simp add: channel_inv_def store_readable_def commitments_below_def used_channels_def)

lemma channel_inv_more: "channel_inv E n c ps \<Longrightarrow> channel_inv E (Suc n) c ps"
  by (simp add: channel_inv_def)

lemma channel_inv_drop:
  "channel_inv E n c (ps @ p # qs) \<Longrightarrow> channel_inv E n c (ps @ qs)"
  by (cases p) (auto simp: channel_inv_def pending_wf_def intro: pool_drop)

lemma call_state_holds: "new_channels (call_state call) = []" "new_clients (call_state call) = []"
  by (cases call; simp)+

lemma channel_inv_call:
  assumes "channel_inv E n c ps" and "wf_near_call call"
  shows "channel_inv E n c (ps @ [(x, cb, call_state call)])"
proof -
  have "pending_wf (ps @ [(x, cb, call_state call)])"
    using assms(1) wf_call_state [OF assms(2)] by (auto simp: channel_inv_def pending_wf_def)
  moreover have "held new_channels (ps @ [(x, cb, call_state call)]) = held new_channels ps"
    by (simp add: call_state_holds)
  ultimately show ?thesis using assms(1) unfolding channel_inv_def by metis
qed

lemma near_register_Ok:
  "near_register_client env ty acct c = (Ok u, c') \<Longrightarrow>
     c' = c\<lparr>account_ids := (account_ids c)(ty \<mapsto> acct)\<rparr> \<and> account_ids c ty = None"
  by (auto simp: near_register_client_def prog_ok split: if_splits)

theorem near_reach_channel_inv:
  assumes "near_reach E n S" and "prost_ok (env_prost E)" and "n < 2 ^ 64"
  shows "channel_inv E n (sys_contract S) (sys_pending S)"
  using assms(1,3)
proof induction
  case near_reach_start
  show ?case
    by (simp add: near_start_def near_default_def channel_inv_def pending_wf_def
        store_readable_def commitments_below_def pool_ok_def used_channels_def near_read_raw_def
        held_def)
next
  case (near_reach_step n S S')
  have n: "n < 2 ^ 64 - 1" using near_reach_step.prems by linarith
  have inv: "channel_inv E n (sys_contract S) (sys_pending S)"
    by (rule near_reach_step.IH) (rule Suc_lessD [OF near_reach_step.prems])
  from near_reach_step.hyps(2) show ?case
  proof cases
    case (register env ty acct c c' ps)
    have "channel_inv E (Suc n) c' ps = channel_inv E (Suc n) c ps"
      using near_register_Ok [OF register(3)] by (intro channel_inv_cong) auto
    with inv register channel_inv_more show ?thesis by simp
  next
    case (call env call c evs pov c' ps)
    have "channel_inv E n c (ps @ [(undefined, undefined, call_state call)])"
      using inv call channel_inv_call by simp
    from near_step_channel_inv [OF near_entry_Ok [OF call(3)] assms(2) call(4) n this]
    show ?thesis by (simp add: call(2))
  next
    case (callback env cb m res c evs pov c' ps x qs)
    then have inv': "channel_inv E n c (ps @ (x, cb, m) # qs)" using inv by simp
    from callback(3) show ?thesis
    proof (cases rule: near_callback_Ok)
      case (plain resp)
      from near_step_channel_inv [OF plain assms(2) callback(4) n inv']
      show ?thesis by (simp add: callback(2))
    next
      case (new_client cid ty cs cons a)
      have "channel_inv E n (c\<lparr>clients := (clients c)(cid \<mapsto> a)\<rparr>) (ps @ (x, cb, m) # qs)"
        by (subst channel_inv_cong [where c = c]) (simp_all add: inv')
      from near_step_channel_inv [OF new_client(4) assms(2) callback(4) n this]
      show ?thesis by (simp add: callback(2))
    qed
  next
    case (callback_failed env cb m res c c' ps x qs)
    from inv have "channel_inv E n c (ps @ (x, cb, m) # qs)" by (simp add: callback_failed(1))
    from channel_inv_more [OF channel_inv_drop [OF this]] show ?thesis
      by (simp add: callback_failed(2))
  qed
qed

section \<open>The invariant of the clients\<close>

definition client_inv :: "near_contract \<Rightarrow> pending_call list \<Rightarrow> bool" where
  "client_inv c ps \<longleftrightarrow>
     pool_ok (unat (client_index c)) (held new_clients ps) (dom (clients c))"

lemma near_step_client_inv:
  assumes step: "near_step env m resp c = (Ok (evs, pov), c')"
    and n: "unat (client_index c) < 2 ^ 64 - 1"
    and inv: "pool_ok (unat (client_index c)) (held new_clients (ps @ qs)) (dom (clients c))"
  shows "client_inv c' (ps @ qs @ schedule pov) \<and>
     unat (client_index c') \<le> Suc (unat (client_index c))"
  using step
proof (cases rule: near_step_Ok)
  case (goes_on m' a x cb)
  have suc: "unat (client_index c + 1) = Suc (unat (client_index c))"
    using n by (simp add: unat_word_ariths)
  have "pool_ok (unat (client_index c')) (held new_clients (ps @ qs) @ new_clients m') (dom (clients c))"
    using left_step_counters [OF goes_on(3)] inv pool_issue [OF inv] suc by auto
  with left_step_counters [OF goes_on(3)] suc show ?thesis
    by (auto simp: client_inv_def goes_on(1))
next
  case (finished val)
  with inv right_step_counters [OF finished(2)] show ?thesis by (simp add: client_inv_def)
qed

theorem near_reach_client_inv:
  assumes "near_reach E n S" and "n < 2 ^ 64"
  shows "client_inv (sys_contract S) (sys_pending S) \<and>
     unat (client_index (sys_contract S)) \<le> n"
  using assms
proof induction
  case near_reach_start
  show ?case
    by (simp add: near_start_def near_default_def client_inv_def pool_ok_def)
next
  case (near_reach_step n S S')
  have lt: "n < 2 ^ 64 - 1" using near_reach_step.prems by linarith
  have inv: "client_inv (sys_contract S) (sys_pending S)"
    and le: "unat (client_index (sys_contract S)) \<le> n"
    using near_reach_step.IH Suc_lessD [OF near_reach_step.prems] by blast+
  note bound = le_less_trans [OF le lt]
  from near_reach_step.hyps(2) show ?case
  proof cases
    case (register env ty acct c c' ps)
    with inv le near_register_Ok [OF register(3)] show ?thesis by (simp add: client_inv_def)
  next
    case (call env call c evs pov c' ps)
    have "pool_ok (unat (client_index c)) (held new_clients (ps @ [])) (dom (clients c))"
      using inv by (simp add: call(1) client_inv_def)
    from near_step_client_inv [OF near_entry_Ok [OF call(3)] _ this] bound le
    show ?thesis by (simp add: call(1,2))
  next
    case (callback env cb m res c evs pov c' ps x qs)
    then have inv': "pool_ok (unat (client_index c))
        (held new_clients ps @ new_clients m @ held new_clients qs) (dom (clients c))"
      using inv by (simp add: client_inv_def)
    from callback(3) show ?thesis
    proof (cases rule: near_callback_Ok)
      case (plain resp)
      have "pool_ok (unat (client_index c)) (held new_clients (ps @ qs)) (dom (clients c))"
        using pool_drop [OF inv'] by simp
      from near_step_client_inv [OF plain _ this] bound le show ?thesis by (simp add: callback(1,2))
    next
      case (new_client cid ty cs cons a)
      let ?c = "c\<lparr>clients := (clients c)(cid \<mapsto> a)\<rparr>"
      have "pool_ok (unat (client_index ?c)) (held new_clients (ps @ qs)) (dom (clients ?c))"
        using pool_use [of _ "held new_clients ps" cid "held new_clients qs"] inv' new_client(2)
        by simp
      from near_step_client_inv [OF new_client(4) _ this] bound le
      show ?thesis by (simp add: callback(1,2))
    qed
  next
    case (callback_failed env cb m res c c' ps x qs)
    then have "pool_ok (unat (client_index c))
        (held new_clients ps @ new_clients m @ held new_clients qs) (dom (clients c))"
      using inv by (simp add: client_inv_def)
    from pool_drop [OF this] le show ?thesis
      by (simp add: client_inv_def callback_failed(1,2))
  qed
qed

end
