(* ===== verification/Peer.thy ===== *)
theory Peer imports Near_System begin

text \<open>
  The other side of the machine: a light client that answers membership queries truthfully about the
  store of a counterparty, and an application that accepts what it is called with. Soundness theorems
  only use \<open>query_true\<close>; the theorems that a handshake or a packet goes through run the machine
  against such a peer.
\<close>

section \<open>Membership\<close>

text \<open>
  What a light client is meant to answer a membership query with: whether the counterparty's store
  holds the value at the path.
\<close>

fun query_true :: "near_contract \<Rightarrow> ibc_query \<Rightarrow> bool" where
  "query_true c (QVerifyMembership h dt db prf path v) \<longleftrightarrow>
     (case path of [pre, k] \<Rightarrow> pre = ''ibc'' \<and> commitments c k = Some v | _ \<Rightarrow> False)"
| "query_true c q \<longleftrightarrow> True"

section \<open>A peer that answers\<close>

record peer =
  peer_store :: near_contract
  peer_height :: height
  peer_timestamp :: u64
  peer_ack :: bytes
    \<comment> \<open>the acknowledgement of the application\<close>

fun peer_query :: "peer \<Rightarrow> ibc_query \<Rightarrow> ibc_response" where
  "peer_query P QStatus = RespStatus Active"
| "peer_query P QLatestHeight = RespLatestHeight (peer_height P)"
| "peer_query P (QVerifyMembership h dt db prf path v) =
     RespVerifyMembership (query_true (peer_store P) (QVerifyMembership h dt db prf path v))"
| "peer_query P (QVerifyClientMessage msg) = RespVerifyClientMessage True"
| "peer_query P (QCheckForMisbehaviour msg) = RespCheckForMisbehaviour False"
| "peer_query P (QTimestampAtHeight h) = RespTimestampAtHeight (peer_timestamp P)"

fun peer_answer :: "peer \<Rightarrow> ibc_action \<Rightarrow> ibc_response list" where
  "peer_answer P (Query cid qs) = map (peer_query P) qs"
| "peer_answer P (Write (MsgInitialize _ _ _ _)) = [RespInitialize]"
| "peer_answer P (Write (MsgUpdateStateOnMisbehaviour _ _)) = [RespUpdateStateOnMisbehaviour]"
| "peer_answer P (Write (MsgUpdateState _ _)) = [RespUpdateState [] []]"
| "peer_answer P (Write (MsgOnChannelOpenInit _ _ _ _ _ _)) = [RespOnChannelOpenInit None]"
| "peer_answer P (Write (MsgOnChannelOpenTry _ _ _ _ _ _)) = [RespOnChannelOpenTry None]"
| "peer_answer P (Write (MsgOnChannelOpenAck _ _ _ _)) = [RespOnChannelOpenAck None]"
| "peer_answer P (Write (MsgOnChannelOpenConfirm _ _)) = [RespOnChannelOpenConfirm None]"
| "peer_answer P (Write (MsgOnRecvPacket _)) = [RespOnRecvPacket (peer_ack P)]"
| "peer_answer P (Write (MsgOnAcknowledgePacket _ _)) = [RespOnAcknowledgePacket None]"

text \<open>
  The machine run to its end against a peer, with the fuel of its three steps (\<open>vm_left_rank\<close>); no
  result means that it failed.
\<close>

fun peer_run ::
  "nat \<Rightarrow> near_env \<Rightarrow> peer \<Rightarrow> ibc_state \<Rightarrow> ibc_response list \<Rightarrow> near_contract
     \<Rightarrow> (ibc_event list \<times> ibc_vm_response \<times> near_contract) option" where
  "peer_run 0 env P m resp c = None"
| "peer_run (Suc k) env P m resp c =
     (case ibc_state_process (near_host env) m resp c of
        (Ok (Inl (m', a)), c') \<Rightarrow> peer_run k env P m' (peer_answer P a) c'
      | (Ok (Inr (evs, r)), c') \<Rightarrow> Some (evs, r, c')
      | _ \<Rightarrow> None)"

definition run_message ::
  "near_env \<Rightarrow> peer \<Rightarrow> ibc_state \<Rightarrow> near_contract
     \<Rightarrow> (ibc_event list \<times> ibc_vm_response \<times> near_contract) option" where
  "run_message env P m c = peer_run 3 env P m [RespEmpty] c"

lemma run_message_1:
  assumes "ibc_state_process (near_host env) m [RespEmpty] c = (Ok (Inr (evs, r)), c')"
  shows "run_message env P m c = Some (evs, r, c')"
  using assms by (simp add: run_message_def numeral_3_eq_3)

lemma run_message_2:
  assumes "ibc_state_process (near_host env) m [RespEmpty] c = (Ok (Inl (m1, a)), c1)"
    and "ibc_state_process (near_host env) m1 (peer_answer P a) c1 = (Ok (Inr (evs, r)), c')"
  shows "run_message env P m c = Some (evs, r, c')"
  using assms by (simp add: run_message_def numeral_3_eq_3)

lemma run_message_3:
  assumes "ibc_state_process (near_host env) m [RespEmpty] c = (Ok (Inl (m1, a)), c1)"
    and "ibc_state_process (near_host env) m1 (peer_answer P a) c1 = (Ok (Inl (m2, a')), c2)"
    and "ibc_state_process (near_host env) m2 (peer_answer P a') c2 = (Ok (Inr (evs, r)), c')"
  shows "run_message env P m c = Some (evs, r, c')"
  using assms by (simp add: run_message_def numeral_3_eq_3)

section \<open>Identifiers the contract makes\<close>

lemma made_ids_valid [simp]:
  "valid_connection_id (''connection-'' @ show_u64 n)"
  "valid_channel_id (''channel-'' @ show_u64 n)"
  using length_show_u64 [of n] show_u64_ics024 [of n] show_u64_not_Nil [of n]
  by (auto simp: ics024_id_def ics024_char_def Suc_le_eq)

end
