(* ===== verification/Example_Codec.thy ===== *)
theory Example_Codec imports Near_Contract begin

text \<open>
  A concrete message codec and a concrete environment of the contract, to evaluate the development
  on inputs: the theorems that assume of the protobuf codec that a message reads back as itself are
  applied to it. Fields are escaped byte by byte and closed by a zero, so any list of fields reads
  back.
\<close>

section \<open>Lists of fields\<close>

definition pack_field :: "bytes \<Rightarrow> bytes" where
  "pack_field bs = concat (map (\<lambda>b. [1, b]) bs) @ [0]"

definition pack :: "bytes list \<Rightarrow> bytes" where
  "pack fs = concat (map pack_field fs)"

fun unpack_from :: "bytes \<Rightarrow> bytes \<Rightarrow> bytes list option" where
  "unpack_from cur [] = (if cur = [] then Some [] else None)"
| "unpack_from cur (x # r) =
     (if x = 0 then map_option (Cons cur) (unpack_from [] r)
      else (case r of [] \<Rightarrow> None | b # r' \<Rightarrow> unpack_from (cur @ [b]) r'))"

definition unpack :: "bytes \<Rightarrow> bytes list option" where
  "unpack = unpack_from []"

lemma unpack_field: "unpack_from cur (pack_field bs @ r) = map_option (Cons (cur @ bs)) (unpack_from [] r)"
  by (induction bs arbitrary: cur) (simp_all add: pack_field_def)

lemma unpack_pack [simp]: "unpack (pack fs) = Some fs"
proof -
  have "unpack_from [] (concat (map pack_field fs)) = Some fs"
    by (induction fs) (simp_all add: unpack_field)
  then show ?thesis by (simp add: unpack_def pack_def)
qed

fun options :: "'a option list \<Rightarrow> 'a list option" where
  "options [] = Some []"
| "options (None # xs) = None"
| "options (Some x # xs) = map_option (Cons x) (options xs)"

lemma options_map [simp]: "options (map (\<lambda>x. Some (f x)) xs) = Some (map f xs)"
  by (induction xs) simp_all

section \<open>Scalars\<close>

definition text_bytes :: "string \<Rightarrow> bytes" where
  "text_bytes s = map (\<lambda>c. of_nat (of_char c)) s"

definition bytes_text :: "bytes \<Rightarrow> string" where
  "bytes_text bs = map (\<lambda>b. char_of (unat b)) bs"

lemma bytes_text_inverse [simp]: "bytes_text (text_bytes s) = s"
proof -
  have "char_of (unat (of_nat (of_char c) :: u8)) = c" for c :: char
  proof -
    have "(of_char c :: nat) < 256" by simp
    then show ?thesis by (simp add: unat_of_nat)
  qed
  then show ?thesis by (simp add: text_bytes_def bytes_text_def comp_def)
qed

definition i32_bytes :: "i32 \<Rightarrow> bytes" where
  "i32_bytes w = be_bytes 4 (unat w)"

definition bytes_i32 :: "bytes \<Rightarrow> i32" where
  "bytes_i32 bs = of_nat (be_value bs)"

lemma bytes_i32_inverse [simp]: "bytes_i32 (i32_bytes w) = w"
proof -
  have "unat w < 256 ^ 4" using unsigned_less [where 'a = nat and w = w] by simp
  then show ?thesis by (simp add: bytes_i32_def i32_bytes_def be_value_be_bytes)
qed

definition pack_option :: "bytes option \<Rightarrow> bytes" where
  "pack_option x = (case x of None \<Rightarrow> pack [] | Some bs \<Rightarrow> pack [bs])"

definition unpack_option :: "bytes \<Rightarrow> bytes option option" where
  "unpack_option bs =
     (case unpack bs of Some [] \<Rightarrow> Some None | Some [x] \<Rightarrow> Some (Some x) | _ \<Rightarrow> None)"

lemma unpack_option_inverse [simp]: "unpack_option (pack_option x) = Some x"
  by (cases x) (simp_all add: pack_option_def unpack_option_def)

section \<open>Messages\<close>

definition pack_version :: "proto_version \<Rightarrow> bytes" where
  "pack_version v = pack [text_bytes (p_identifier v), pack (map text_bytes (p_features v))]"

definition unpack_version :: "bytes \<Rightarrow> proto_version option" where
  "unpack_version bs =
     (case unpack bs of
        Some [i, fs] \<Rightarrow>
          map_option (\<lambda>l. \<lparr>p_identifier = bytes_text i, p_features = map bytes_text l\<rparr>) (unpack fs)
      | _ \<Rightarrow> None)"

definition pack_connection_counterparty :: "proto_connection_counterparty \<Rightarrow> bytes" where
  "pack_connection_counterparty c =
     pack [text_bytes (pcc_client_id c), text_bytes (pcc_connection_id c),
           pack_option (pcc_prefix c)]"

definition unpack_connection_counterparty :: "bytes \<Rightarrow> proto_connection_counterparty option" where
  "unpack_connection_counterparty bs =
     (case unpack bs of
        Some [a, b, p] \<Rightarrow>
          map_option (\<lambda>q. \<lparr>pcc_client_id = bytes_text a, pcc_connection_id = bytes_text b,
                          pcc_prefix = q\<rparr>) (unpack_option p)
      | _ \<Rightarrow> None)"

definition pack_connection :: "proto_connection_end \<Rightarrow> bytes" where
  "pack_connection e =
     pack [text_bytes (pce_client_id e), pack (map pack_version (pce_versions e)),
           i32_bytes (pce_state e),
           pack_option (map_option pack_connection_counterparty (pce_counterparty e)),
           u64_to_be_bytes (pce_delay_period e)]"

definition unpack_connection :: "bytes \<Rightarrow> proto_connection_end option" where
  "unpack_connection bs =
     (case unpack bs of
        Some [a, vs, st, cp, d] \<Rightarrow>
          (case (Option.bind (unpack vs) (\<lambda>l. options (map unpack_version l)), unpack_option cp,
                 u64_from_be_bytes d) of
             (Some versions, Some c, Some delay) \<Rightarrow>
               (case c of
                  None \<Rightarrow> Some \<lparr>pce_client_id = bytes_text a, pce_versions = versions,
                    pce_state = bytes_i32 st, pce_counterparty = None, pce_delay_period = delay\<rparr>
                | Some x \<Rightarrow> map_option (\<lambda>y. \<lparr>pce_client_id = bytes_text a,
                    pce_versions = versions, pce_state = bytes_i32 st, pce_counterparty = Some y,
                    pce_delay_period = delay\<rparr>) (unpack_connection_counterparty x))
           | _ \<Rightarrow> None)
      | _ \<Rightarrow> None)"

definition pack_channel :: "proto_channel \<Rightarrow> bytes" where
  "pack_channel c =
     pack [i32_bytes (pch_state c), i32_bytes (pch_ordering c),
           pack_option (map_option
             (\<lambda>p. pack [text_bytes (pccp_port_id p), text_bytes (pccp_channel_id p)])
             (pch_counterparty c)),
           pack (map text_bytes (pch_connection_hops c)), text_bytes (pch_version c)]"

definition unpack_channel :: "bytes \<Rightarrow> proto_channel option" where
  "unpack_channel bs =
     (case unpack bs of
        Some [st, ord, cp, hops, v] \<Rightarrow>
          (case (unpack_option cp, unpack hops) of
             (Some None, Some hs) \<Rightarrow>
               Some \<lparr>pch_state = bytes_i32 st, pch_ordering = bytes_i32 ord,
                 pch_counterparty = None, pch_connection_hops = map bytes_text hs,
                 pch_version = bytes_text v\<rparr>
           | (Some (Some x), Some hs) \<Rightarrow>
               (case unpack x of
                  Some [p, c] \<Rightarrow>
                    Some \<lparr>pch_state = bytes_i32 st, pch_ordering = bytes_i32 ord,
                      pch_counterparty = Some \<lparr>pccp_port_id = bytes_text p,
                                               pccp_channel_id = bytes_text c\<rparr>,
                      pch_connection_hops = map bytes_text hs, pch_version = bytes_text v\<rparr>
                | _ \<Rightarrow> None)
           | _ \<Rightarrow> None)
      | _ \<Rightarrow> None)"

lemma unpack_version_inverse [simp]: "unpack_version (pack_version v) = Some v"
  by (simp add: unpack_version_def pack_version_def comp_def)

lemma unpack_connection_counterparty_inverse [simp]:
  "unpack_connection_counterparty (pack_connection_counterparty c) = Some c"
  by (simp add: unpack_connection_counterparty_def pack_connection_counterparty_def)

lemma unpack_connection_inverse [simp]: "unpack_connection (pack_connection e) = Some e"
  using options_map [of "\<lambda>v. v" "pce_versions e"]
  by (cases "pce_counterparty e")
    (simp_all add: unpack_connection_def pack_connection_def comp_def)

lemma unpack_channel_inverse [simp]: "unpack_channel (pack_channel c) = Some c"
  by (cases "pch_counterparty c") (simp_all add: unpack_channel_def pack_channel_def comp_def)

section \<open>An environment\<close>

definition example_prost :: prost where
  "example_prost =
     \<lparr>prost_encode_connection = pack_connection, prost_decode_connection = unpack_connection,
      prost_encode_channel = pack_channel, prost_decode_channel = unpack_channel\<rparr>"

lemma example_prost_ok: "prost_ok example_prost"
  by (simp add: prost_ok_def example_prost_def)

text \<open>An environment in which a digest is the text itself, so that no two texts share one.\<close>

definition example_env :: near_env where
  "example_env =
     \<lparr>env_block_height = 7, env_block_timestamp = 1000, env_predecessor = ''app.near'',
      env_sha256 = (\<lambda>bs. bs), account_id_ok = (\<lambda>_. True), env_hex_encode = (\<lambda>bs. bs),
      env_prost = example_prost\<rparr>"

lemma example_env_simps [simp]:
  "env_block_height example_env = 7" "env_block_timestamp example_env = 1000"
  "env_predecessor example_env = ''app.near''" "env_sha256 example_env = (\<lambda>bs. bs)"
  "account_id_ok example_env = (\<lambda>_. True)" "env_prost example_env = example_prost"
  by (simp_all add: example_env_def)

lemma example_prost_env_ok [simp]: "prost_ok (env_prost example_env)"
  by (simp add: example_prost_ok)

text \<open>The identifiers used in the examples.\<close>

lemma example_ids_valid [simp]:
  "valid_client_id ''cometbls-1''" "valid_client_id ''cometbls-2''"
  "valid_connection_id ''connection-1''" "valid_connection_id ''connection-2''"
  "valid_channel_id ''channel-1''" "valid_channel_id ''channel-2''"
  "valid_port_id ''app.near''" "valid_port_id ''app2.near''"
  by (simp_all add: ics024_id_def ics024_char_def)

lemma example_version:
  "verify_version_supported DEFAULT_IBC_VERSION \<lparr>ver_identifier = ''1'', ver_features = [Unordered]\<rparr> =
     Inr ()"
  by (simp add: default_version_supported)

end
