(* ===== verification/Connection_Handshake.thy ===== *)
theory Connection_Handshake imports Peer Example_Codec begin

text \<open>
  The connection handshake between two chains that run the contract: what a successful step on one
  chain says of the store of the other. The light client's answer to a membership query is taken at its
  word: it says that the counterparty's store holds the value at the path (\<open>query_true\<close>).
\<close>

section \<open>Stored connections\<close>

definition stored_connection :: "near_env \<Rightarrow> near_contract \<Rightarrow> string \<Rightarrow> connection_end \<Rightarrow> bool" where
  \<comment> \<open>what \<^verbatim>\<open>host.read(ConnectionPath { connection_id })\<close> gives\<close>
  "stored_connection env c con e \<longleftrightarrow>
     near_read (decode_connection (env_prost env)) (ConnectionPath con) c = (Ok (Some e), c)"

lemma connection_path_string: "path_to_string (ConnectionPath con) = ''connections/'' @ con"
  by (simp add: path_to_string_def ibc_path_display_def)

lemma connection_query_stored:
  assumes "query_true c (connection_proof_query (near_host env) h prf con e)"
    and "prost_ok (env_prost env)" and "wf_connection_end e"
  shows "stored_connection env c con e"
  using assms
  by (simp add: connection_proof_query_def stored_connection_def near_read_def
      connection_path_string decode_encode_connection)

lemma stored_after_commit:
  assumes "near_commit (encode_connection (env_prost env)) (ConnectionPath con) e c = (Ok u, c')"
    and "prost_ok (env_prost env)" and "wf_connection_end e"
  shows "stored_connection env c' con e"
  using assms
  by (simp add: stored_connection_def prog_ok near_insert_def near_read_raw_def
      decode_encode_connection)

lemma stored_connection_wf: "stored_connection env c con e \<Longrightarrow> wf_connection_end e"
  by (auto simp: stored_connection_def prog_ok split: option.splits dest: decode_connection_wf [OF sym])

lemma stored_connection_unique:
  "stored_connection env c con e \<Longrightarrow> stored_connection env c con e' \<Longrightarrow> e = e'"
  by (simp add: stored_connection_def)

section \<open>One side after the other\<close>

text \<open>The query of \<^verbatim>\<open>ConnectionOpenTry\<close> holds only if the counterparty started the same handshake.\<close>

definition init_end_for :: "string \<Rightarrow> connection_counterparty \<Rightarrow> version list \<Rightarrow> u64 \<Rightarrow> connection_end" where
  "init_end_for client_id counterparty versions delay =
     \<lparr>ce_client_id = cc_client_id counterparty, ce_versions = versions, ce_state = ConnInit,
      ce_counterparty = \<lparr>cc_client_id = client_id, cc_connection_id = [],
                         cc_prefix = DEFAULT_MERKLE_PREFIX\<rparr>,
      ce_delay_period = delay\<rparr>"

definition mirror_end :: "connection_state \<Rightarrow> string \<Rightarrow> connection_end \<Rightarrow> connection_end" where
  \<comment> \<open>the end the counterparty holds for connection \<open>con\<close> with end \<open>e\<close>\<close>
  "mirror_end st con e =
     \<lparr>ce_client_id = cc_client_id (ce_counterparty e), ce_versions = DEFAULT_IBC_VERSION,
      ce_state = st,
      ce_counterparty = \<lparr>cc_client_id = ce_client_id e, cc_connection_id = con,
                         cc_prefix = DEFAULT_MERKLE_PREFIX\<rparr>,
      ce_delay_period = ce_delay_period e\<rparr>"

lemma connection_read_Ok:
  "near_read (decode_connection (env_prost env)) (ConnectionPath con) c = (Ok (Some e), c') \<longleftrightarrow>
     c' = c \<and> stored_connection env c con e"
  by (auto simp: stored_connection_def prog_ok)

lemma open_try_init_step:
  "ibc_state_process (near_host env)
     (ConnectionOpenTry (ConnectionOpenTry_Init cid cp vs prf h delay)) [RespEmpty] c =
   (Ok (Inl (ConnectionOpenTry (ConnectionOpenTry_ConnectionStateVerified cid cp delay),
        Query cid [connection_proof_query (near_host env) h prf (cc_connection_id cp)
                     (init_end_for cid cp vs delay)])), c)"
  by (simp add: cast_either_def init_end_for_def Let_def)

lemma open_ack_init_step:
  assumes "ibc_state_process (near_host env)
     (ConnectionOpenAck (ConnectionOpenAck_Init con v ccon prf h)) [RespEmpty] c = (Ok r, c')"
  obtains e where "stored_connection env c con e" "ce_state e = ConnInit" "valid_connection_id con"
    "verify_version_supported (ce_versions e) v = Inr ()" "c' = c"
    "r = Inl (ConnectionOpenAck (ConnectionOpenAck_ConnectionStateVerified (ce_client_id e) con ccon e),
         Query (ce_client_id e)
           [connection_proof_query (near_host env) h prf ccon (mirror_end ConnTryopen con e)])"
  using assms
  by (auto simp: cast_either_Ok prog_ok Let_def mirror_end_def connection_read_Ok id_validate_Inr
      simp del: near_read_Ok)

lemma open_confirm_init_step:
  assumes "ibc_state_process (near_host env)
     (ConnectionOpenConfirm (ConnectionOpenConfirm_Init con prf h)) [RespEmpty] c = (Ok r, c')"
  obtains e where "stored_connection env c con e" "ce_state e = ConnTryopen" "valid_connection_id con"
    "c' = c"
    "r = Inl (ConnectionOpenConfirm (ConnectionOpenConfirm_ConnectionStateVerified (ce_client_id e) con e),
         Query (ce_client_id e)
           [connection_proof_query (near_host env) h prf (cc_connection_id (ce_counterparty e))
              (mirror_end ConnOpen con e)])"
  using assms
  by (auto simp: cast_either_Ok prog_ok Let_def mirror_end_def connection_read_Ok id_validate_Inr
      simp del: near_read_Ok)

lemma wf_mirror_end: "wf_connection_end e \<Longrightarrow> wf_connection_end (mirror_end st con e)"
  by (simp add: wf_connection_end_def mirror_end_def)

lemma open_try_last_step:
  assumes "ibc_state_process (near_host env)
     (ConnectionOpenTry (ConnectionOpenTry_ConnectionStateVerified cid cp delay))
     [RespVerifyMembership True] c = (Ok (Inr (evs, r)), c')"
    and "prost_ok (env_prost env)" and "valid_client_id cid" and "valid_client_id (cc_client_id cp)"
  obtains con where "valid_connection_id con"
    "evs = [EvConnectionOpenTry con cid (cc_client_id cp) (cc_connection_id cp)]"
    "stored_connection env c' con
       \<lparr>ce_client_id = cid, ce_versions = DEFAULT_IBC_VERSION, ce_state = ConnTryopen,
        ce_counterparty = cp, ce_delay_period = delay\<rparr>"
  using assms
  by (auto simp: cast_either_right prog_ok id_validate_Inr stored_connection_def near_insert_def
      near_read_raw_def decode_encode_connection wf_connection_end_def)

lemma open_ack_last_step:
  assumes "ibc_state_process (near_host env)
     (ConnectionOpenAck (ConnectionOpenAck_ConnectionStateVerified cl con ccon e))
     [RespVerifyMembership True] c = (Ok (Inr (evs, r)), c')"
    and "prost_ok (env_prost env)" and "wf_connection_end e"
  shows "stored_connection env c' con
    (e\<lparr>ce_state := ConnOpen,
       ce_counterparty := (ce_counterparty e)\<lparr>cc_connection_id := ccon\<rparr>\<rparr>)"
  using assms
  by (auto simp: cast_either_right prog_ok Let_def id_validate_Inr stored_connection_def
      near_insert_def near_read_raw_def decode_encode_connection wf_connection_end_def)

lemma open_confirm_last_step:
  assumes "ibc_state_process (near_host env)
     (ConnectionOpenConfirm (ConnectionOpenConfirm_ConnectionStateVerified cl con e))
     [RespVerifyMembership True] c = (Ok (Inr (evs, r)), c')"
    and "prost_ok (env_prost env)" and "wf_connection_end e"
  shows "stored_connection env c' con (e\<lparr>ce_state := ConnOpen\<rparr>)"
  using assms
  by (auto simp: cast_either_right prog_ok Let_def id_validate_Inr stored_connection_def
      near_insert_def near_read_raw_def decode_encode_connection wf_connection_end_def)

lemma same_chain_stored:
  "same_chain env env' \<Longrightarrow> stored_connection env' c con e \<longleftrightarrow> stored_connection env c con e"
  by (simp add: stored_connection_def same_chain_def)

text \<open>C12. A chain that answers a connection with \<^verbatim>\<open>ConnectionOpenTry\<close> stores an end in TRYOPEN
  for the counterparty it was given, and the proof it asked for, when true, says that the
  counterparty's store held the matching end: in INIT, for the client and the versions proposed, and
  naming the client of this chain as its own counterparty.\<close>

theorem connection_try_agreement:
  assumes "prost_ok (env_prost env)" and "same_chain env env'"
    and "valid_client_id cid" and "valid_client_id (cc_client_id cp)"
    and "ibc_state_process (near_host env)
           (ConnectionOpenTry (ConnectionOpenTry_Init cid cp vs prf h delay)) [RespEmpty] c1 =
         (Ok (Inl (m, Query cl [q])), c2)"
    and "query_true other q"
    and "ibc_state_process (near_host env') m [RespVerifyMembership True] c3 =
         (Ok (Inr (evs, r)), c4)"
  shows "stored_connection env other (cc_connection_id cp) (init_end_for cid cp vs delay) \<and>
         (\<exists>con. evs = [EvConnectionOpenTry con cid (cc_client_id cp) (cc_connection_id cp)] \<and>
            stored_connection env c4 con
              \<lparr>ce_client_id = cid, ce_versions = DEFAULT_IBC_VERSION, ce_state = ConnTryopen,
               ce_counterparty = cp, ce_delay_period = delay\<rparr>)"
proof
  have m: "m = ConnectionOpenTry (ConnectionOpenTry_ConnectionStateVerified cid cp delay)"
    and q: "q = connection_proof_query (near_host env) h prf (cc_connection_id cp)
                  (init_end_for cid cp vs delay)"
    using assms(5) [unfolded open_try_init_step] by auto
  show "stored_connection env other (cc_connection_id cp) (init_end_for cid cp vs delay)"
    using connection_query_stored [OF _ assms(1)] assms(3,4,6)
    by (simp add: q wf_connection_end_def init_end_for_def)
  have P': "prost_ok (env_prost env')" using assms(1,2) by (simp add: same_chain_def)
  show "\<exists>con. evs = [EvConnectionOpenTry con cid (cc_client_id cp) (cc_connection_id cp)] \<and>
          stored_connection env c4 con
            \<lparr>ce_client_id = cid, ce_versions = DEFAULT_IBC_VERSION, ce_state = ConnTryopen,
             ce_counterparty = cp, ce_delay_period = delay\<rparr>"
    using open_try_last_step [OF assms(7) [unfolded m] P' assms(3,4)] same_chain_stored [OF assms(2)]
    by metis
qed



section \<open>The whole handshake\<close>

lemma wf_init_end_for:
  "valid_client_id (cc_client_id cp) \<Longrightarrow> valid_client_id cid \<Longrightarrow>
     wf_connection_end (init_end_for cid cp vs delay)"
  by (simp add: wf_connection_end_def init_end_for_def)

lemma stored_connection_query:
  assumes "stored_connection env c con e" and "prost_ok (env_prost env)"
    and "commitments c (''connections/'' @ con) = Some (encode_connection (env_prost env) e)"
  shows "query_true c (connection_proof_query (near_host env) h prf con e)"
  using assms by (simp add: connection_proof_query_def)

text \<open>
  The committed ends, by the text of their path: what the four messages read and prove.
\<close>

definition holds_connection :: "near_env \<Rightarrow> near_contract \<Rightarrow> string \<Rightarrow> connection_end \<Rightarrow> bool" where
  "holds_connection env c con e \<longleftrightarrow>
     wf_connection_end e \<and>
     commitments c (''connections/'' @ con) = Some (encode_connection (env_prost env) e)"

lemma holds_stored: "holds_connection env c con e \<Longrightarrow> prost_ok (env_prost env) \<Longrightarrow>
    stored_connection env c con e"
  by (simp add: holds_connection_def stored_connection_def near_read_def connection_path_string
      decode_encode_connection)

lemma holds_query: "holds_connection env c con e \<Longrightarrow>
    query_true c (connection_proof_query (near_host env) h prf con e)"
  by (simp add: holds_connection_def connection_proof_query_def)

lemma near_read_holds:
  "holds_connection env c con e \<Longrightarrow> prost_ok (env_prost env) \<Longrightarrow>
     near_read (decode_connection (env_prost env)) (ConnectionPath con) c = (Ok (Some e), c)"
  using holds_stored by (simp add: stored_connection_def)

lemma query_answer: "query_true c (connection_proof_query H h prf con e) \<Longrightarrow>
    peer_store P = c \<Longrightarrow> peer_query P (connection_proof_query H h prf con e) = RespVerifyMembership True"
  by (simp add: connection_proof_query_def)

definition put_connection :: "near_env \<Rightarrow> string \<Rightarrow> connection_end \<Rightarrow> near_contract \<Rightarrow> near_contract" where
  "put_connection env con e c =
     near_insert (path_to_string (ConnectionPath con)) (encode_connection (env_prost env) e) c"

definition new_connection_id :: "near_contract \<Rightarrow> string" where
  "new_connection_id c = ''connection-'' @ show_u64 (connection_index c + 1)"

definition bump_connection :: "near_contract \<Rightarrow> near_contract" where
  "bump_connection c = c\<lparr>connection_index := connection_index c + 1\<rparr>"

lemma holds_after_put [simp]:
  "wf_connection_end e \<Longrightarrow> holds_connection env (put_connection env con e c) con e"
  by (simp add: holds_connection_def near_insert_def connection_path_string put_connection_def)

lemma near_commit_connection_eval:
  "near_commit (encode_connection (env_prost env)) (ConnectionPath con) e c =
     (Ok (), put_connection env con e c)"
  by (simp add: near_commit_def put_connection_def)

lemma near_next_connection_eval:
  "near_next_connection_identifier c = (Ok (new_connection_id c), bump_connection c)"
  using made_ids_valid(1) [of "connection_index c + 1"]
  by (simp add: near_next_connection_identifier_def new_connection_id_def bump_connection_def)

lemma new_connection_id_valid [simp]: "valid_connection_id (new_connection_id c)"
  unfolding new_connection_id_def by (rule made_ids_valid)

lemma bump_connection_client_state [simp]:
  "near_client_state (bump_connection c) = near_client_state c"
  by (simp add: near_client_state_def bump_connection_def fun_eq_iff)

lemma run_init:
  assumes "near_client_state c cid = Some cs"
    and "verify_version_supported DEFAULT_IBC_VERSION v = Inr ()"
  shows "run_message env P (ConnectionOpenInit (ConnectionOpenInit_Init cid cp v delay)) c =
      Some ([EvConnectionOpenInit (new_connection_id c) cid (cc_client_id cp)], VmEmpty,
        put_connection env (new_connection_id c)
          \<lparr>ce_client_id = cid, ce_versions = DEFAULT_IBC_VERSION, ce_state = ConnInit,
           ce_counterparty = cp, ce_delay_period = delay\<rparr> (bump_connection c))"
  by (rule run_message_2)
    (simp add: cast_either_def assms near_next_connection_eval near_commit_connection_eval)+

lemma run_try:
  assumes "valid_connection_id (cc_connection_id cp)"
    and "holds_connection env (peer_store P) (cc_connection_id cp) (init_end_for cid cp vs delay)"
  shows "run_message env P (ConnectionOpenTry (ConnectionOpenTry_Init cid cp vs prf h delay)) c =
      Some ([EvConnectionOpenTry (new_connection_id c) cid (cc_client_id cp) (cc_connection_id cp)],
        VmEmpty,
        put_connection env (new_connection_id c)
          \<lparr>ce_client_id = cid, ce_versions = DEFAULT_IBC_VERSION, ce_state = ConnTryopen,
           ce_counterparty = cp, ce_delay_period = delay\<rparr> (bump_connection c))"
  by (rule run_message_2 [OF open_try_init_step])
    (simp add: cast_either_def assms near_next_connection_eval near_commit_connection_eval
      query_answer [OF holds_query [OF assms(2)] refl])

lemma ack_first_eval:
  assumes "prost_ok (env_prost env)" and "holds_connection env c con e" and "ce_state e = ConnInit"
    and "verify_version_supported (ce_versions e) v = Inr ()" and "valid_connection_id con"
  shows "ibc_state_process (near_host env)
     (ConnectionOpenAck (ConnectionOpenAck_Init con v ccon prf h)) [RespEmpty] c =
   (Ok (Inl (ConnectionOpenAck (ConnectionOpenAck_ConnectionStateVerified (ce_client_id e) con ccon e),
             Query (ce_client_id e)
               [connection_proof_query (near_host env) h prf ccon (mirror_end ConnTryopen con e)])), c)"
  by (simp add: cast_either_def assms near_read_holds [OF assms(2,1)] Let_def mirror_end_def)

lemma ack_last_eval:
  assumes "valid_connection_id con" and "valid_connection_id ccon"
  shows "ibc_state_process (near_host env)
     (ConnectionOpenAck (ConnectionOpenAck_ConnectionStateVerified cl con ccon e))
     [RespVerifyMembership True] c =
   (Ok (Inr ([EvConnectionOpenAck con cl (cc_client_id (ce_counterparty e)) ccon], VmEmpty)),
    put_connection env con
      (e\<lparr>ce_state := ConnOpen,
         ce_counterparty := (ce_counterparty e)\<lparr>cc_connection_id := ccon\<rparr>\<rparr>) c)"
  by (simp add: cast_either_def assms Let_def near_commit_connection_eval)

lemma confirm_first_eval:
  assumes "prost_ok (env_prost env)" and "holds_connection env c con e" and "ce_state e = ConnTryopen"
    and "valid_connection_id con"
  shows "ibc_state_process (near_host env)
     (ConnectionOpenConfirm (ConnectionOpenConfirm_Init con prf h)) [RespEmpty] c =
   (Ok (Inl (ConnectionOpenConfirm (ConnectionOpenConfirm_ConnectionStateVerified (ce_client_id e) con e),
             Query (ce_client_id e)
               [connection_proof_query (near_host env) h prf (cc_connection_id (ce_counterparty e))
                  (mirror_end ConnOpen con e)])), c)"
  by (simp add: cast_either_def assms near_read_holds [OF assms(2,1)] Let_def mirror_end_def)

lemma confirm_last_eval:
  assumes "valid_connection_id con" and "valid_connection_id (cc_connection_id (ce_counterparty e))"
  shows "ibc_state_process (near_host env)
     (ConnectionOpenConfirm (ConnectionOpenConfirm_ConnectionStateVerified cl con e))
     [RespVerifyMembership True] c =
   (Ok (Inr ([EvConnectionOpenConfirm con cl (cc_client_id (ce_counterparty e))
                (cc_connection_id (ce_counterparty e))], VmEmpty)),
    put_connection env con (e\<lparr>ce_state := ConnOpen\<rparr>) c)"
  by (simp add: cast_either_def assms near_commit_connection_eval)

lemma run_ack:
  assumes "prost_ok (env_prost env)" and "holds_connection env c con e" and "ce_state e = ConnInit"
    and "verify_version_supported (ce_versions e) v = Inr ()"
    and "valid_connection_id con" and "valid_connection_id ccon"
    and "holds_connection env (peer_store P) ccon (mirror_end ConnTryopen con e)"
  shows "run_message env P (ConnectionOpenAck (ConnectionOpenAck_Init con v ccon prf h)) c =
      Some ([EvConnectionOpenAck con (ce_client_id e) (cc_client_id (ce_counterparty e)) ccon],
        VmEmpty,
        put_connection env con
          (e\<lparr>ce_state := ConnOpen,
             ce_counterparty := (ce_counterparty e)\<lparr>cc_connection_id := ccon\<rparr>\<rparr>) c)"
  by (rule run_message_2 [OF ack_first_eval [OF assms(1-5)]])
    (simp only: peer_answer.simps list.map query_answer [OF holds_query [OF assms(7)] refl]
      ack_last_eval [OF assms(5,6)])

lemma run_confirm:
  assumes "prost_ok (env_prost env)" and "holds_connection env c con e" and "ce_state e = ConnTryopen"
    and "valid_connection_id con" and "valid_connection_id (cc_connection_id (ce_counterparty e))"
    and "holds_connection env (peer_store P) (cc_connection_id (ce_counterparty e))
           (mirror_end ConnOpen con e)"
  shows "run_message env P (ConnectionOpenConfirm (ConnectionOpenConfirm_Init con prf h)) c =
      Some ([EvConnectionOpenConfirm con (ce_client_id e) (cc_client_id (ce_counterparty e))
               (cc_connection_id (ce_counterparty e))], VmEmpty,
        put_connection env con (e\<lparr>ce_state := ConnOpen\<rparr>) c)"
  by (rule run_message_2 [OF confirm_first_eval [OF assms(1-4)]])
    (simp only: peer_answer.simps list.map query_answer [OF holds_query [OF assms(6)] refl]
      confirm_last_eval [OF assms(4,5)])

text \<open>C27. The connection handshake goes through: a chain starts it and each side in turn is told of
  the other's step with a true proof. All four messages finish, and at the end both stores hold an
  open connection, each naming the client and the connection of the other.\<close>

theorem connection_handshake_completes:
  assumes P: "prost_ok (env_prost env)"
    and A: "valid_client_id clA" and B: "valid_client_id clB"
    and cs: "near_client_state a clA = Some cs"
    and v: "verify_version_supported DEFAULT_IBC_VERSION v = Inr ()"
    and ids: "conA = new_connection_id a" "conB = new_connection_id b"
  shows "\<exists>a1 b1 a2 b2 e1 e2 e3 e4.
     run_message env (peerA\<lparr>peer_store := b\<rparr>)
       (ConnectionOpenInit (ConnectionOpenInit_Init clA
          \<lparr>cc_client_id = clB, cc_connection_id = [], cc_prefix = DEFAULT_MERKLE_PREFIX\<rparr> v delay)) a =
       Some (e1, VmEmpty, a1) \<and>
     run_message env (peerB\<lparr>peer_store := a1\<rparr>)
       (ConnectionOpenTry (ConnectionOpenTry_Init clB
          \<lparr>cc_client_id = clA, cc_connection_id = conA, cc_prefix = DEFAULT_MERKLE_PREFIX\<rparr>
          DEFAULT_IBC_VERSION prf1 h1 delay)) b = Some (e2, VmEmpty, b1) \<and>
     run_message env (peerA\<lparr>peer_store := b1\<rparr>)
       (ConnectionOpenAck (ConnectionOpenAck_Init conA v conB prf2 h2)) a1 = Some (e3, VmEmpty, a2) \<and>
     run_message env (peerB\<lparr>peer_store := a2\<rparr>)
       (ConnectionOpenConfirm (ConnectionOpenConfirm_Init conB prf3 h3)) b1 = Some (e4, VmEmpty, b2) \<and>
     stored_connection env a2 conA
       \<lparr>ce_client_id = clA, ce_versions = DEFAULT_IBC_VERSION, ce_state = ConnOpen,
        ce_counterparty = \<lparr>cc_client_id = clB, cc_connection_id = conB,
                           cc_prefix = DEFAULT_MERKLE_PREFIX\<rparr>,
        ce_delay_period = delay\<rparr> \<and>
     stored_connection env b2 conB
       \<lparr>ce_client_id = clB, ce_versions = DEFAULT_IBC_VERSION, ce_state = ConnOpen,
        ce_counterparty = \<lparr>cc_client_id = clA, cc_connection_id = conA,
                           cc_prefix = DEFAULT_MERKLE_PREFIX\<rparr>,
        ce_delay_period = delay\<rparr>"
proof -
  let ?side = "\<lambda>st cl cl' con. \<lparr>ce_client_id = cl, ce_versions = DEFAULT_IBC_VERSION, ce_state = st,
    ce_counterparty = \<lparr>cc_client_id = cl', cc_connection_id = con, cc_prefix = DEFAULT_MERKLE_PREFIX\<rparr>,
    ce_delay_period = delay\<rparr>"
  define a1 where "a1 = put_connection env conA (?side ConnInit clA clB []) (bump_connection a)"
  define b1 where "b1 = put_connection env conB (?side ConnTryopen clB clA conA) (bump_connection b)"
  define a2 where "a2 = put_connection env conA (?side ConnOpen clA clB conB) a1"
  define b2 where "b2 = put_connection env conB (?side ConnOpen clB clA conA) b1"
  have wf: "wf_connection_end (?side st clA clB con)" "wf_connection_end (?side st clB clA con)" for st con
    using A B by (simp_all add: wf_connection_end_def)
  have a1: "holds_connection env a1 conA (?side ConnInit clA clB [])"
    and b1: "holds_connection env b1 conB (?side ConnTryopen clB clA conA)"
    and a2: "holds_connection env a2 conA (?side ConnOpen clA clB conB)"
    and b2: "holds_connection env b2 conB (?side ConnOpen clB clA conA)"
    by (simp_all add: a1_def b1_def a2_def b2_def wf)
  have valid: "valid_connection_id conA" "valid_connection_id conB" by (simp_all add: ids)
  note initd = run_init [OF cs v, of env "peerA\<lparr>peer_store := b\<rparr>"
    "\<lparr>cc_client_id = clB, cc_connection_id = [], cc_prefix = DEFAULT_MERKLE_PREFIX\<rparr>" delay]
  note tryd = run_try [of "\<lparr>cc_client_id = clA, cc_connection_id = conA, cc_prefix = DEFAULT_MERKLE_PREFIX\<rparr>"
    env "peerB\<lparr>peer_store := a1\<rparr>" clB DEFAULT_IBC_VERSION delay prf1 h1 b]
  note ackd = run_ack [OF P a1, of v conB "peerA\<lparr>peer_store := b1\<rparr>" prf2 h2]
  note confd = run_confirm [OF P b1, of "peerB\<lparr>peer_store := a2\<rparr>" prf3 h3]
  show ?thesis
    using initd tryd ackd confd a1 b1 a2 b2 v valid holds_stored [OF a2 P] holds_stored [OF b2 P]
    by (simp add: init_end_for_def mirror_end_def a1_def [symmetric] b1_def [symmetric]
        a2_def [symmetric] b2_def [symmetric] ids [symmetric])
qed

section \<open>Examples\<close>

definition example_counterparty :: "string \<Rightarrow> connection_counterparty" where
  "example_counterparty con =
     \<lparr>cc_client_id = ''cometbls-2'', cc_connection_id = con, cc_prefix = DEFAULT_MERKLE_PREFIX\<rparr>"

definition example_end :: "connection_state \<Rightarrow> string \<Rightarrow> connection_end" where
  "example_end st con =
     \<lparr>ce_client_id = ''cometbls-1'', ce_versions = DEFAULT_IBC_VERSION, ce_state = st,
      ce_counterparty = example_counterparty con, ce_delay_period = 0\<rparr>"

lemma example_counterparty_simps [simp]:
  "cc_client_id (example_counterparty con) = ''cometbls-2''"
  "cc_connection_id (example_counterparty con) = con"
  by (simp_all add: example_counterparty_def)

lemma example_end_wf [simp]: "wf_connection_end (example_end st con)"
  by (simp add: example_end_def wf_connection_end_def)

lemma same_chain_refl [simp]: "same_chain env env"
  by (simp add: same_chain_def)

lemma put_query_true:
  "wf_connection_end e \<Longrightarrow> query_true (put_connection env con e c)
     (connection_proof_query (near_host env) h prf con e)"
  by (simp add: holds_query)

lemma put_read:
  "wf_connection_end e \<Longrightarrow> prost_ok (env_prost env) \<Longrightarrow>
     near_read (decode_connection (env_prost env)) (ConnectionPath con) (put_connection env con e c) =
     (Ok (Some e), put_connection env con e c)"
  by (simp add: near_read_holds)

text \<open>The example's second steps.\<close>

lemma example_try_step:
  "ibc_state_process (near_host example_env)
     (ConnectionOpenTry (ConnectionOpenTry_ConnectionStateVerified ''cometbls-1''
        (example_counterparty ''connection-2'') 0)) [RespVerifyMembership True] near_default =
   (Ok (Inr ([EvConnectionOpenTry (new_connection_id near_default) ''cometbls-1'' ''cometbls-2''
                ''connection-2''], VmEmpty)),
    put_connection example_env (new_connection_id near_default)
      (example_end ConnTryopen ''connection-2'') (bump_connection near_default))"
  using near_commit_connection_eval [of example_env]
  by (simp add: cast_either_def near_next_connection_eval example_end_def)

theorem connection_try_agreement_witness:
  "stored_connection example_env
     (put_connection example_env ''connection-2''
        (init_end_for ''cometbls-1'' (example_counterparty ''connection-2'') DEFAULT_IBC_VERSION 0)
        near_default) ''connection-2''
     (init_end_for ''cometbls-1'' (example_counterparty ''connection-2'') DEFAULT_IBC_VERSION 0)"
proof -
  let ?e = "init_end_for ''cometbls-1'' (example_counterparty ''connection-2'') DEFAULT_IBC_VERSION 0"
  let ?o = "put_connection example_env ''connection-2'' ?e near_default"
  have "query_true ?o (connection_proof_query (near_host example_env) default_height [1]
      (cc_connection_id (example_counterparty ''connection-2'')) ?e)"
    by (simp add: put_query_true wf_init_end_for)
  then show ?thesis
    using connection_try_agreement [OF example_prost_env_ok same_chain_refl _ _ open_try_init_step _
        example_try_step] by simp
qed

lemma example_end_simps [simp]:
  "ce_client_id (example_end st con) = ''cometbls-1''" "ce_state (example_end st con) = st"
  "ce_versions (example_end st con) = DEFAULT_IBC_VERSION"
  "ce_counterparty (example_end st con) = example_counterparty con"
  "(example_end st con)\<lparr>ce_state := st'\<rparr> = example_end st' con"
  "(example_end st con)\<lparr>ce_counterparty := example_counterparty con'\<rparr> = example_end st con'"
  "(example_counterparty con)\<lparr>cc_connection_id := con'\<rparr> = example_counterparty con'"
  by (simp_all add: example_end_def example_counterparty_def)

lemma example_ack_steps:
  "ibc_state_process (near_host example_env)
     (ConnectionOpenAck (ConnectionOpenAck_Init ''connection-1''
        \<lparr>ver_identifier = ''1'', ver_features = [Unordered]\<rparr> ''connection-2'' [1] default_height))
     [RespEmpty] (put_connection example_env ''connection-1'' (example_end ConnInit []) near_default) =
   (Ok (Inl (ConnectionOpenAck (ConnectionOpenAck_ConnectionStateVerified ''cometbls-1''
               ''connection-1'' ''connection-2'' (example_end ConnInit [])),
             Query ''cometbls-1''
               [connection_proof_query (near_host example_env) default_height [1] ''connection-2''
                  (mirror_end ConnTryopen ''connection-1'' (example_end ConnInit []))])),
    put_connection example_env ''connection-1'' (example_end ConnInit []) near_default)"
  "ibc_state_process (near_host example_env)
     (ConnectionOpenAck (ConnectionOpenAck_ConnectionStateVerified ''cometbls-1''
        ''connection-1'' ''connection-2'' (example_end ConnInit []))) [RespVerifyMembership True] c =
   (Ok (Inr ([EvConnectionOpenAck ''connection-1'' ''cometbls-1'' ''cometbls-2'' ''connection-2''],
        VmEmpty)),
    put_connection example_env ''connection-1'' (example_end ConnOpen ''connection-2'') c)"
  by (simp_all add: example_version ack_last_eval
      ack_first_eval [OF example_prost_env_ok holds_after_put [OF example_end_wf]]
      del: ibc_state_process.simps)


lemma example_confirm_steps:
  "ibc_state_process (near_host example_env)
     (ConnectionOpenConfirm (ConnectionOpenConfirm_Init ''connection-1'' [1] default_height))
     [RespEmpty]
     (put_connection example_env ''connection-1'' (example_end ConnTryopen ''connection-2'') near_default) =
   (Ok (Inl (ConnectionOpenConfirm (ConnectionOpenConfirm_ConnectionStateVerified ''cometbls-1''
               ''connection-1'' (example_end ConnTryopen ''connection-2'')),
             Query ''cometbls-1''
               [connection_proof_query (near_host example_env) default_height [1] ''connection-2''
                  (mirror_end ConnOpen ''connection-1'' (example_end ConnTryopen ''connection-2''))])),
    put_connection example_env ''connection-1'' (example_end ConnTryopen ''connection-2'') near_default)"
  "ibc_state_process (near_host example_env)
     (ConnectionOpenConfirm (ConnectionOpenConfirm_ConnectionStateVerified ''cometbls-1''
        ''connection-1'' (example_end ConnTryopen ''connection-2''))) [RespVerifyMembership True] c =
   (Ok (Inr ([EvConnectionOpenConfirm ''connection-1'' ''cometbls-1'' ''cometbls-2'' ''connection-2''],
        VmEmpty)),
    put_connection example_env ''connection-1'' (example_end ConnOpen ''connection-2'') c)"
  by (simp_all add: confirm_last_eval
      confirm_first_eval [OF example_prost_env_ok holds_after_put [OF example_end_wf]]
      del: ibc_state_process.simps)


definition example_chain :: near_contract where
  \<comment> \<open>a chain that has a client\<close>
  "example_chain = near_insert ''clients/cometbls-1/clientState'' [1] near_default"

theorem connection_handshake_completes_witness:
  "\<exists>a1 b1 a2 b2 e1 e2 e3 e4.
     run_message example_env
       \<lparr>peer_store = near_default, peer_height = default_height, peer_timestamp = 0, peer_ack = []\<rparr>
       (ConnectionOpenInit (ConnectionOpenInit_Init ''cometbls-1'' (example_counterparty [])
          \<lparr>ver_identifier = ''1'', ver_features = [Unordered]\<rparr> 0)) example_chain =
       Some (e1, VmEmpty, a1) \<and>
     run_message example_env
       \<lparr>peer_store = a1, peer_height = default_height, peer_timestamp = 0, peer_ack = []\<rparr>
       (ConnectionOpenTry (ConnectionOpenTry_Init ''cometbls-2''
          \<lparr>cc_client_id = ''cometbls-1'', cc_connection_id = ''connection-1'',
           cc_prefix = DEFAULT_MERKLE_PREFIX\<rparr>
          DEFAULT_IBC_VERSION [] default_height 0)) near_default = Some (e2, VmEmpty, b1) \<and>
     stored_connection example_env a2 ''connection-1'' (example_end ConnOpen ''connection-1'') \<and>
     run_message example_env
       \<lparr>peer_store = b1, peer_height = default_height, peer_timestamp = 0, peer_ack = []\<rparr>
       (ConnectionOpenAck (ConnectionOpenAck_Init ''connection-1''
          \<lparr>ver_identifier = ''1'', ver_features = [Unordered]\<rparr> ''connection-1'' [] default_height)) a1 =
       Some (e3, VmEmpty, a2)"
proof -
  have cs: "near_client_state example_chain ''cometbls-1'' = Some [1]"
    by (simp add: near_client_state_def example_chain_def near_insert_def)
  have ids: "''connection-1'' = new_connection_id example_chain"
    "''connection-1'' = new_connection_id near_default"
    by (simp_all add: new_connection_id_def near_default_def example_chain_def show_u64_def
        show_nat.simps digit_char_def char_of_def bit_0)
  show ?thesis
    using connection_handshake_completes [OF example_prost_env_ok _ _ cs example_version ids,
        of "''cometbls-2''"
        "\<lparr>peer_store = near_default, peer_height = default_height, peer_timestamp = 0, peer_ack = []\<rparr>"
        0 "\<lparr>peer_store = near_default, peer_height = default_height, peer_timestamp = 0, peer_ack = []\<rparr>"
        "[]" default_height "[]" default_height "[]" default_height]
    by (simp add: example_counterparty_def example_end_def) blast
qed

end
