(* ===== verification/Channel_Handshake.thy ===== *)
theory Channel_Handshake imports Connection_Handshake begin

text \<open>
  The channel handshake between two chains that run the contract. As for connections, a message says
  what the counterparty's store held when its proof is true; the end itself is written in a later
  call, after the application was asked.
\<close>

section \<open>Stored channels\<close>

definition stored_channel :: "near_env \<Rightarrow> near_contract \<Rightarrow> string \<Rightarrow> string \<Rightarrow> channel \<Rightarrow> bool" where
  "stored_channel env c p ch e \<longleftrightarrow>
     near_read (decode_channel (env_prost env)) (ChannelEndPath p ch) c = (Ok (Some e), c)"

lemma channel_path_string:
  "path_to_string (ChannelEndPath p ch) = ''channelEnds/ports/'' @ p @ ''/channels/'' @ ch"
  by (simp add: path_to_string_def ibc_path_display_def)

definition holds_channel :: "near_env \<Rightarrow> near_contract \<Rightarrow> string \<Rightarrow> string \<Rightarrow> channel \<Rightarrow> bool" where
  "holds_channel env c p ch e \<longleftrightarrow>
     wf_channel e \<and>
     commitments c (path_to_string (ChannelEndPath p ch)) = Some (encode_channel (env_prost env) e)"

definition put_channel ::
  "near_env \<Rightarrow> string \<Rightarrow> string \<Rightarrow> channel \<Rightarrow> near_contract \<Rightarrow> near_contract" where
  "put_channel env p ch e c =
     near_insert (path_to_string (ChannelEndPath p ch)) (encode_channel (env_prost env) e) c"

lemma holds_channel_stored:
  "holds_channel env c p ch e \<Longrightarrow> prost_ok (env_prost env) \<Longrightarrow> stored_channel env c p ch e"
  by (simp add: holds_channel_def stored_channel_def near_read_def decode_encode_channel)

lemma holds_after_put_channel [simp]:
  "wf_channel e \<Longrightarrow> holds_channel env (put_channel env p ch e c) p ch e"
  by (simp add: holds_channel_def near_insert_def put_channel_def)

lemma holds_channel_query:
  "holds_channel env c p ch e \<Longrightarrow> query_true c (channel_proof_query (near_host env) h prf p ch e)"
  by (simp add: holds_channel_def channel_proof_query_def channel_path_string)

lemma channel_query_stored:
  assumes "query_true c (channel_proof_query (near_host env) h prf p ch e)"
    and "prost_ok (env_prost env)" and "wf_channel e"
  shows "stored_channel env c p ch e"
  using assms
  by (simp add: channel_proof_query_def stored_channel_def near_read_def channel_path_string
      decode_encode_channel)

lemma stored_channel_wf: "stored_channel env c p ch e \<Longrightarrow> wf_channel e"
  by (auto simp: stored_channel_def prog_ok split: option.splits dest: decode_channel_wf [OF sym])

lemma same_chain_stored_channel:
  "same_chain env env' \<Longrightarrow> stored_channel env' c p ch e \<longleftrightarrow> stored_channel env c p ch e"
  by (simp add: stored_channel_def same_chain_def)

lemma near_commit_channel_eval:
  "near_commit (encode_channel (env_prost env)) (ChannelEndPath p ch) e c =
     (Ok (), put_channel env p ch e c)"
  by (simp add: near_commit_def put_channel_def)

text \<open>What the machine reads, on this host.\<close>

lemma read_channel_or_near [prog_ok]:
  "read_channel_or (near_host env) p ch c = (Ok e, c') \<longleftrightarrow> stored_channel env c p ch e \<and> c' = c"
  by (auto simp: read_channel_or_def stored_channel_def prog_ok)

lemma read_open_connection_near [prog_ok]:
  "read_open_connection (near_host env) hops c = (Ok e, c') \<longleftrightarrow>
     hops \<noteq> [] \<and> stored_connection env c (hops ! 0) e \<and> ce_state e = ConnOpen \<and> c' = c"
  by (auto simp: read_open_connection_def stored_connection_def prog_ok)

definition remote_connection :: "connection_end \<Rightarrow> string" where
  \<comment> \<open>the counterparty's name of a connection\<close>
  "remote_connection e = cc_connection_id (ce_counterparty e)"

definition expected_channel ::
  "channel_state \<Rightarrow> string \<Rightarrow> string \<Rightarrow> connection_end \<Rightarrow> string \<Rightarrow> channel" where
  \<comment> \<open>the end the counterparty of channel \<open>ch\<close> of port \<open>p\<close> over connection \<open>e\<close> is expected to hold\<close>
  "expected_channel st p ch e version =
     \<lparr>ch_state = st, ch_ordering = Unordered,
      ch_counterparty = \<lparr>ccp_port_id = p, ccp_channel_id = ch\<rparr>,
      ch_connection_hops = [remote_connection e], ch_version = version\<rparr>"

lemma expected_channel_wf:
  "valid_port_id p \<Longrightarrow> valid_connection_id (remote_connection e) \<Longrightarrow>
     wf_channel (expected_channel st p ch e version)"
  by (simp add: wf_channel_def expected_channel_def)

section \<open>First steps\<close>

lemma channel_try_first:
  assumes "ibc_state_process (near_host env)
     (ChannelOpenTry (ChannelOpenTry_Init hops p cp cpv v prf h)) [RespEmpty] c = (Ok r, c')"
  obtains e where "hops \<noteq> []" "stored_connection env c (hops ! 0) e" "ce_state e = ConnOpen"
    "valid_connection_id (remote_connection e)" "c' = c"
    "r = Inl (ChannelOpenTry (ChannelOpenTry_LcQueriesMade (ce_client_id e) hops p cp cpv v),
         Query (ce_client_id e)
           [QStatus, channel_proof_query (near_host env) h prf (ccp_port_id cp) (ccp_channel_id cp)
                       (expected_channel ChanInit p [] e cpv)])"
  using assms
  by (auto simp: cast_either_Ok prog_ok Let_def expected_channel_def remote_connection_def
      id_validate_Inr)

lemma channel_ack_first:
  assumes "ibc_state_process (near_host env)
     (ChannelOpenAck (ChannelOpenAck_Init ch p cch cpv prf h)) [RespEmpty] c = (Ok r, c')"
  obtains x e where "stored_channel env c p ch x" "ch_state x = ChanInit"
    "ch_connection_hops x \<noteq> []" "stored_connection env c (ch_connection_hops x ! 0) e"
    "ce_state e = ConnOpen" "valid_connection_id (remote_connection e)" "c' = c"
    "r = Inl (ChannelOpenAck (ChannelOpenAck_LcQueriesMade (ce_client_id e) ch p cch cpv),
         Query (ce_client_id e)
           [QStatus, channel_proof_query (near_host env) h prf
                       (ccp_port_id (ch_counterparty x)) cch
                       (expected_channel ChanTryopen p ch e cpv)])"
  using assms
  by (auto simp: cast_either_Ok prog_ok Let_def expected_channel_def remote_connection_def
      id_validate_Inr)

lemma channel_confirm_first:
  assumes "ibc_state_process (near_host env)
     (ChannelOpenConfirm (ChannelOpenConfirm_Init ch p prf h)) [RespEmpty] c = (Ok r, c')"
  obtains x e where "stored_channel env c p ch x" "ch_state x = ChanTryopen"
    "ch_connection_hops x \<noteq> []" "stored_connection env c (ch_connection_hops x ! 0) e"
    "ce_state e = ConnOpen" "valid_connection_id (remote_connection e)" "c' = c"
    "r = Inl (ChannelOpenConfirm (ChannelOpenConfirm_LcQueriesMade (ce_client_id e)
                (ch_counterparty x) ch p),
         Query (ce_client_id e)
           [QStatus, channel_proof_query (near_host env) h prf
                       (ccp_port_id (ch_counterparty x)) (ccp_channel_id (ch_counterparty x))
                       (expected_channel ChanOpen p ch e (ch_version x))])"
  using assms
  by (auto simp: cast_either_Ok prog_ok Let_def expected_channel_def remote_connection_def
      id_validate_Inr)

section \<open>Last steps\<close>

lemma channel_string_neq [simp]:
  "path_to_string (NextSequenceSendPath p ch) \<noteq> path_to_string (ChannelEndPath p' ch')"
  "path_to_string (NextSequenceRecvPath p ch) \<noteq> path_to_string (ChannelEndPath p' ch')"
  "path_to_string (NextSequenceAckPath p ch) \<noteq> path_to_string (ChannelEndPath p' ch')"
  by (simp_all add: path_to_string_def ibc_path_display_def)

lemma commit_new_channel_near:
  assumes "commit_new_channel (near_host env) p ch e c = (Ok u, c')" and "wf_channel e"
  shows "holds_channel env c' p ch e"
  using assms channel_string_neq [symmetric]
  by (auto simp: commit_new_channel_def prog_ok Let_def holds_channel_def near_insert_def)

lemma channel_try_last:
  assumes "ibc_state_process (near_host env)
     (ChannelOpenTry (ChannelOpenTry_CallbackCalled ch hops p cp v)) resp c = (Ok (Inr d), c')"
    and "list_all valid_connection_id hops" and "valid_port_id (ccp_port_id cp)"
  shows "resp = [RespOnChannelOpenTry None] \<and>
    holds_channel env c' p ch
      \<lparr>ch_state = ChanTryopen, ch_ordering = Unordered, ch_counterparty = cp,
       ch_connection_hops = hops, ch_version = v\<rparr>"
  using assms
  by (auto simp: cast_either_right prog_ok wf_channel_def split: response_splits
      dest: commit_new_channel_near)

lemma channel_ack_last:
  assumes "ibc_state_process (near_host env)
     (ChannelOpenAck (ChannelOpenAck_CallbackCalled ch p cch cpv)) resp c = (Ok (Inr d), c')"
  shows "resp = [RespOnChannelOpenAck None] \<and> valid_channel_id cch \<and>
    (\<exists>x. stored_channel env c p ch x \<and>
      holds_channel env c' p ch
        (x\<lparr>ch_state := ChanOpen, ch_version := cpv,
           ch_counterparty := (ch_counterparty x)\<lparr>ccp_channel_id := cch\<rparr>\<rparr>))"
  using assms stored_channel_wf
  by (fastforce simp: cast_either_right prog_ok Let_def wf_channel_def holds_channel_def
      near_insert_def id_validate_Inr split: response_splits)

lemma channel_confirm_last:
  assumes "ibc_state_process (near_host env)
     (ChannelOpenConfirm (ChannelOpenConfirm_CallbackCalled ch p cp)) resp c = (Ok (Inr d), c')"
  shows "resp = [RespOnChannelOpenConfirm None] \<and>
    (\<exists>x. stored_channel env c p ch x \<and> holds_channel env c' p ch (x\<lparr>ch_state := ChanOpen\<rparr>))"
  using assms stored_channel_wf
  by (fastforce simp: cast_either_right prog_ok Let_def wf_channel_def holds_channel_def
      near_insert_def split: response_splits)

section \<open>Middle steps\<close>

lemma channel_try_middle:
  assumes "ibc_state_process (near_host env)
     (ChannelOpenTry (ChannelOpenTry_LcQueriesMade cl hops p cp cpv v)) resp c = (Ok (Inl (m, a)), c')"
  shows "resp = [RespStatus Active, RespVerifyMembership True] \<and>
    (\<exists>ch. m = ChannelOpenTry (ChannelOpenTry_CallbackCalled ch hops p cp v))"
  using assms by (auto simp: cast_either_left prog_ok split: response_splits)

lemma channel_ack_middle:
  assumes "ibc_state_process (near_host env)
     (ChannelOpenAck (ChannelOpenAck_LcQueriesMade cl ch p cch cpv)) resp c = (Ok (Inl (m, a)), c')"
  shows "resp = [RespStatus Active, RespVerifyMembership True] \<and> c' = c \<and>
    m = ChannelOpenAck (ChannelOpenAck_CallbackCalled ch p cch cpv)"
  using assms by (auto simp: cast_either_left prog_ok split: response_splits)

lemma channel_confirm_middle:
  assumes "ibc_state_process (near_host env)
     (ChannelOpenConfirm (ChannelOpenConfirm_LcQueriesMade cl cp ch p)) resp c = (Ok (Inl (m, a)), c')"
  shows "resp = [RespStatus Active, RespVerifyMembership True] \<and> c' = c \<and>
    m = ChannelOpenConfirm (ChannelOpenConfirm_CallbackCalled ch p cp)"
  using assms by (auto simp: cast_either_left prog_ok split: response_splits)

section \<open>Agreement\<close>

text \<open>C17. A channel that \<^verbatim>\<open>ChannelOpenTry\<close> stores lies over an open connection, its application
  accepted it, the client was active, and the proof it asked for, when true, says that the
  counterparty's store held the other end in INIT over the counterparty's name of that connection,
  for this port and with no channel id yet.\<close>

theorem channel_try_agreement:
  assumes "prost_ok (env_prost env)" and "same_chain env env'" and "same_chain env env''"
    and "valid_port_id p" and "valid_port_id (ccp_port_id cp)" and "list_all valid_connection_id hops"
    and first: "ibc_state_process (near_host env)
           (ChannelOpenTry (ChannelOpenTry_Init hops p cp cpv v prf h)) [RespEmpty] c1 =
         (Ok (Inl (m, Query cl [q0, q])), c2)"
    and "query_true other q"
    and middle: "ibc_state_process (near_host env') m resp c3 = (Ok (Inl (m', act)), c4)"
    and last: "ibc_state_process (near_host env'') m' resp' c5 = (Ok (Inr d), c6)"
  shows "resp = [RespStatus Active, RespVerifyMembership True] \<and>
     resp' = [RespOnChannelOpenTry None] \<and>
     (\<exists>e ch. stored_connection env c1 (hops ! 0) e \<and> ce_state e = ConnOpen \<and>
        stored_channel env other (ccp_port_id cp) (ccp_channel_id cp)
          (expected_channel ChanInit p [] e cpv) \<and>
        stored_channel env c6 p ch
          \<lparr>ch_state = ChanTryopen, ch_ordering = Unordered, ch_counterparty = cp,
           ch_connection_hops = hops, ch_version = v\<rparr>)"
  using first
proof (rule channel_try_first)
  fix e
  assume e: "stored_connection env c1 (hops ! 0) e" "ce_state e = ConnOpen"
      "valid_connection_id (remote_connection e)"
    and r: "Inl (m, Query cl [q0, q]) =
      Inl (ChannelOpenTry (ChannelOpenTry_LcQueriesMade (ce_client_id e) hops p cp cpv v),
         Query (ce_client_id e)
           [QStatus, channel_proof_query (near_host env) h prf (ccp_port_id cp) (ccp_channel_id cp)
                       (expected_channel ChanInit p [] e cpv)])"
  have other: "stored_channel env other (ccp_port_id cp) (ccp_channel_id cp)
      (expected_channel ChanInit p [] e cpv)"
    using channel_query_stored [OF _ assms(1) expected_channel_wf [OF assms(4) e(3)]] assms(8) r
    by simp
  obtain ch where m': "m' = ChannelOpenTry (ChannelOpenTry_CallbackCalled ch hops p cp v)"
    and resp: "resp = [RespStatus Active, RespVerifyMembership True]"
    using channel_try_middle [of env' "ce_client_id e" hops p cp cpv v resp c3 m' act c4] middle r
    by auto
  note fin = channel_try_last [OF last [unfolded m'] assms(6,5)]
  have "prost_ok (env_prost env'')" using assms(1,3) by (simp add: same_chain_def)
  with fin have "stored_channel env'' c6 p ch
      \<lparr>ch_state = ChanTryopen, ch_ordering = Unordered, ch_counterparty = cp,
       ch_connection_hops = hops, ch_version = v\<rparr>"
    by (blast intro: holds_channel_stored)
  with fin resp e other same_chain_stored_channel [OF assms(3)] show ?thesis by blast
qed

text \<open>C16. \<^verbatim>\<open>ChannelOpenAck\<close> starts from a channel in INIT over an open connection and, when its proof
  is true, the counterparty held the other end in TRYOPEN with this very channel as its counterparty.
  The end it leaves is the one stored when the application answered, opened, with the version and the
  channel id of the counterparty.\<close>

theorem channel_ack_agreement:
  assumes "prost_ok (env_prost env)" and "same_chain env env'" and "same_chain env env''"
    and "valid_port_id p"
    and first: "ibc_state_process (near_host env)
           (ChannelOpenAck (ChannelOpenAck_Init ch p cch cpv prf h)) [RespEmpty] c1 =
         (Ok (Inl (m, Query cl [q0, q])), c2)"
    and "query_true other q"
    and middle: "ibc_state_process (near_host env') m resp c3 = (Ok (Inl (m', act)), c4)"
    and last: "ibc_state_process (near_host env'') m' resp' c5 = (Ok (Inr d), c6)"
  shows "resp = [RespStatus Active, RespVerifyMembership True] \<and>
     resp' = [RespOnChannelOpenAck None] \<and>
     (\<exists>x e y. stored_channel env c1 p ch x \<and> ch_state x = ChanInit \<and>
        stored_connection env c1 (ch_connection_hops x ! 0) e \<and> ce_state e = ConnOpen \<and>
        stored_channel env other (ccp_port_id (ch_counterparty x)) cch
          (expected_channel ChanTryopen p ch e cpv) \<and>
        stored_channel env c5 p ch y \<and>
        stored_channel env c6 p ch
          (y\<lparr>ch_state := ChanOpen, ch_version := cpv,
             ch_counterparty := (ch_counterparty y)\<lparr>ccp_channel_id := cch\<rparr>\<rparr>))"
  using first
proof (rule channel_ack_first)
  fix x e
  assume x: "stored_channel env c1 p ch x" "ch_state x = ChanInit"
      "stored_connection env c1 (ch_connection_hops x ! 0) e" "ce_state e = ConnOpen"
      "valid_connection_id (remote_connection e)"
    and r: "Inl (m, Query cl [q0, q]) =
      Inl (ChannelOpenAck (ChannelOpenAck_LcQueriesMade (ce_client_id e) ch p cch cpv),
         Query (ce_client_id e)
           [QStatus, channel_proof_query (near_host env) h prf
                       (ccp_port_id (ch_counterparty x)) cch
                       (expected_channel ChanTryopen p ch e cpv)])"
  have other: "stored_channel env other (ccp_port_id (ch_counterparty x)) cch
      (expected_channel ChanTryopen p ch e cpv)"
    using channel_query_stored [OF _ assms(1) expected_channel_wf [OF assms(4) x(5)]] assms(6) r
    by simp
  have m': "m' = ChannelOpenAck (ChannelOpenAck_CallbackCalled ch p cch cpv)"
    and resp: "resp = [RespStatus Active, RespVerifyMembership True]"
    using channel_ack_middle [of env' "ce_client_id e" ch p cch cpv resp c3 m' act c4] middle r
    by auto
  note fin = channel_ack_last [OF last [unfolded m']]
  have "prost_ok (env_prost env'')" using assms(1,3) by (simp add: same_chain_def)
  with fin obtain y where "stored_channel env'' c5 p ch y" "stored_channel env'' c6 p ch
      (y\<lparr>ch_state := ChanOpen, ch_version := cpv,
         ch_counterparty := (ch_counterparty y)\<lparr>ccp_channel_id := cch\<rparr>\<rparr>)"
    by (blast intro: holds_channel_stored)
  with fin resp x other same_chain_stored_channel [OF assms(3)] show ?thesis by blast
qed

text \<open>C15. \<^verbatim>\<open>ChannelOpenConfirm\<close> starts from a channel in TRYOPEN over an open connection and, when
  its proof is true, the counterparty's end was open, of the same version, and named this channel.\<close>

theorem channel_confirm_agreement:
  assumes "prost_ok (env_prost env)" and "same_chain env env'" and "same_chain env env''"
    and "valid_port_id p"
    and first: "ibc_state_process (near_host env)
           (ChannelOpenConfirm (ChannelOpenConfirm_Init ch p prf h)) [RespEmpty] c1 =
         (Ok (Inl (m, Query cl [q0, q])), c2)"
    and "query_true other q"
    and middle: "ibc_state_process (near_host env') m resp c3 = (Ok (Inl (m', act)), c4)"
    and last: "ibc_state_process (near_host env'') m' resp' c5 = (Ok (Inr d), c6)"
  shows "resp = [RespStatus Active, RespVerifyMembership True] \<and>
     resp' = [RespOnChannelOpenConfirm None] \<and>
     (\<exists>x e y. stored_channel env c1 p ch x \<and> ch_state x = ChanTryopen \<and>
        stored_connection env c1 (ch_connection_hops x ! 0) e \<and> ce_state e = ConnOpen \<and>
        stored_channel env other (ccp_port_id (ch_counterparty x)) (ccp_channel_id (ch_counterparty x))
          (expected_channel ChanOpen p ch e (ch_version x)) \<and>
        stored_channel env c5 p ch y \<and>
        stored_channel env c6 p ch (y\<lparr>ch_state := ChanOpen\<rparr>))"
  using first
proof (rule channel_confirm_first)
  fix x e
  assume x: "stored_channel env c1 p ch x" "ch_state x = ChanTryopen"
      "stored_connection env c1 (ch_connection_hops x ! 0) e" "ce_state e = ConnOpen"
      "valid_connection_id (remote_connection e)"
    and r: "Inl (m, Query cl [q0, q]) =
      Inl (ChannelOpenConfirm (ChannelOpenConfirm_LcQueriesMade (ce_client_id e)
             (ch_counterparty x) ch p),
         Query (ce_client_id e)
           [QStatus, channel_proof_query (near_host env) h prf
                       (ccp_port_id (ch_counterparty x)) (ccp_channel_id (ch_counterparty x))
                       (expected_channel ChanOpen p ch e (ch_version x))])"
  have other: "stored_channel env other (ccp_port_id (ch_counterparty x))
      (ccp_channel_id (ch_counterparty x)) (expected_channel ChanOpen p ch e (ch_version x))"
    using channel_query_stored [OF _ assms(1) expected_channel_wf [OF assms(4) x(5)]] assms(6) r
    by simp
  have m': "m' = ChannelOpenConfirm (ChannelOpenConfirm_CallbackCalled ch p (ch_counterparty x))"
    and resp: "resp = [RespStatus Active, RespVerifyMembership True]"
    using channel_confirm_middle [of env' "ce_client_id e" "ch_counterparty x" ch p resp c3 m' act c4]
      middle r by auto
  note fin = channel_confirm_last [OF last [unfolded m']]
  have "prost_ok (env_prost env'')" using assms(1,3) by (simp add: same_chain_def)
  with fin obtain y where "stored_channel env'' c5 p ch y"
      "stored_channel env'' c6 p ch (y\<lparr>ch_state := ChanOpen\<rparr>)"
    by (blast intro: holds_channel_stored)
  with fin resp x other same_chain_stored_channel [OF assms(3)] show ?thesis by blast
qed

section \<open>The whole handshake\<close>

definition new_channel_id :: "near_contract \<Rightarrow> string" where
  "new_channel_id c = ''channel-'' @ show_u64 (channel_index c + 1)"

definition bump_channel :: "near_contract \<Rightarrow> near_contract" where
  "bump_channel c = c\<lparr>channel_index := channel_index c + 1\<rparr>"

definition put_new_channel ::
  "near_env \<Rightarrow> string \<Rightarrow> string \<Rightarrow> channel \<Rightarrow> near_contract \<Rightarrow> near_contract" where
  "put_new_channel env p ch e c =
     (let one = u64_to_be_bytes 1 in
      near_insert (path_to_string (NextSequenceAckPath p ch)) one
        (near_insert (path_to_string (NextSequenceRecvPath p ch)) one
          (near_insert (path_to_string (NextSequenceSendPath p ch)) one
            (put_channel env p ch e c))))"

lemma near_next_channel_eval:
  "near_next_channel_identifier c = (Ok (new_channel_id c), bump_channel c)"
  using made_ids_valid(2) [of "channel_index c + 1"]
  by (simp add: near_next_channel_identifier_def new_channel_id_def bump_channel_def)

lemma new_channel_id_valid [simp]: "valid_channel_id (new_channel_id c)"
  unfolding new_channel_id_def by (rule made_ids_valid)

lemma commit_new_channel_eval:
  "commit_new_channel (near_host env) p ch e c = (Ok (), put_new_channel env p ch e c)"
  by (simp add: commit_new_channel_def put_new_channel_def near_commit_channel_eval Let_def
      near_commit_raw_def)

lemma holds_after_new_channel [simp]:
  "wf_channel e \<Longrightarrow> holds_channel env (put_new_channel env p ch e c) p ch e"
  using channel_string_neq [symmetric]
  by (simp add: holds_channel_def put_new_channel_def near_insert_def put_channel_def Let_def)

lemma connection_string_neq [simp]:
  "path_to_string (ChannelEndPath p ch) \<noteq> ''connections/'' @ con"
  "path_to_string (NextSequenceSendPath p ch) \<noteq> ''connections/'' @ con"
  "path_to_string (NextSequenceRecvPath p ch) \<noteq> ''connections/'' @ con"
  "path_to_string (NextSequenceAckPath p ch) \<noteq> ''connections/'' @ con"
  by (simp_all add: path_to_string_def ibc_path_display_def)

text \<open>What writing a channel keeps.\<close>

lemma holds_connection_keep [simp]:
  "holds_connection env (put_new_channel env' p ch e c) con = holds_connection env c con"
  "holds_connection env (put_channel env' p ch e c) con = holds_connection env c con"
  "holds_connection env (bump_channel c) con = holds_connection env c con"
  using connection_string_neq [symmetric]
  by (simp_all add: holds_connection_def put_new_channel_def put_channel_def near_insert_def Let_def
      bump_channel_def fun_eq_iff del: append.simps)

lemma read_open_eval:
  assumes "holds_connection env c con e" and "prost_ok (env_prost env)" and "ce_state e = ConnOpen"
  shows "read_open_connection (near_host env) [con] c = (Ok e, c)"
  using holds_stored [OF assms(1,2)] assms(3)
  by (simp add: read_open_connection_near)

lemma read_channel_eval:
  assumes "holds_channel env c p ch e" and "prost_ok (env_prost env)"
  shows "read_channel_or (near_host env) p ch c = (Ok e, c)"
  using holds_channel_stored [OF assms] by (simp add: read_channel_or_near)

lemma channel_query_answer:
  "holds_channel env (peer_store P) p ch e \<Longrightarrow>
     peer_query P (channel_proof_query (near_host env) h prf p ch e) = RespVerifyMembership True"
  using holds_channel_query [of env "peer_store P" p ch e h] by (simp add: channel_proof_query_def)

lemma run_channel_init:
  assumes "prost_ok (env_prost env)" and "holds_connection env c con e" and "ce_state e = ConnOpen"
  shows "run_message env P (ChannelOpenInit (ChannelOpenInit_Init [con] p cp v)) c =
    Some ([EvChannelOpenInit p (new_channel_id c) (ccp_port_id cp) con v], VmEmpty,
      put_new_channel env p (new_channel_id c)
        \<lparr>ch_state = ChanInit, ch_ordering = Unordered, ch_counterparty = cp,
         ch_connection_hops = [con], ch_version = v\<rparr> (bump_channel c))"
  by (rule run_message_3)
    (simp add: cast_either_def read_open_eval [OF assms(2,1,3)] near_next_channel_eval
      commit_new_channel_eval callback_ok_def)+

lemma run_channel_try:
  assumes "prost_ok (env_prost env)" and "holds_connection env c con e" and "ce_state e = ConnOpen"
    and "valid_connection_id (remote_connection e)" and "valid_channel_id (ccp_channel_id cp)"
    and "holds_channel env (peer_store P) (ccp_port_id cp) (ccp_channel_id cp)
           (expected_channel ChanInit p [] e cpv)"
  shows "run_message env P (ChannelOpenTry (ChannelOpenTry_Init [con] p cp cpv v prf h)) c =
    Some ([EvChannelOpenTry p (new_channel_id c) (ccp_port_id cp) (ccp_channel_id cp) con v], VmEmpty,
      put_new_channel env p (new_channel_id c)
        \<lparr>ch_state = ChanTryopen, ch_ordering = Unordered, ch_counterparty = cp,
         ch_connection_hops = [con], ch_version = v\<rparr> (bump_channel c))"
  by (rule run_message_3)
    (simp add: cast_either_def read_open_eval [OF assms(2,1,3)] near_next_channel_eval
      commit_new_channel_eval callback_ok_def assms(4,5) [unfolded remote_connection_def] Let_def
      channel_query_answer [OF assms(6)[unfolded expected_channel_def remote_connection_def]])+

lemma run_channel_ack:
  assumes "prost_ok (env_prost env)" and "holds_channel env c p ch x" and "ch_state x = ChanInit"
    and "ch_connection_hops x = [con]"
    and "holds_connection env c con e" and "ce_state e = ConnOpen"
    and "valid_connection_id (remote_connection e)" and "valid_channel_id cch"
    and "holds_channel env (peer_store P) (ccp_port_id (ch_counterparty x)) cch
           (expected_channel ChanTryopen p ch e cpv)"
  shows "run_message env P (ChannelOpenAck (ChannelOpenAck_Init ch p cch cpv prf h)) c =
    Some ([EvChannelOpenAck p ch (ccp_port_id (ch_counterparty x)) cch con], VmEmpty,
      put_channel env p ch
        (x\<lparr>ch_state := ChanOpen, ch_version := cpv,
           ch_counterparty := (ch_counterparty x)\<lparr>ccp_channel_id := cch\<rparr>\<rparr>) c)"
  by (rule run_message_3)
    (simp add: cast_either_def read_open_eval [OF assms(5,1,6)] read_channel_eval [OF assms(2,1)]
      assms(3,4,8) callback_ok_def assms(7) [unfolded remote_connection_def] Let_def
      near_commit_channel_eval
      channel_query_answer [OF assms(9)[unfolded expected_channel_def remote_connection_def]])+

lemma run_channel_confirm:
  assumes "prost_ok (env_prost env)" and "holds_channel env c p ch x" and "ch_state x = ChanTryopen"
    and "ch_connection_hops x = [con]"
    and "holds_connection env c con e" and "ce_state e = ConnOpen"
    and "valid_connection_id (remote_connection e)"
    and "valid_channel_id (ccp_channel_id (ch_counterparty x))"
    and "holds_channel env (peer_store P) (ccp_port_id (ch_counterparty x))
           (ccp_channel_id (ch_counterparty x)) (expected_channel ChanOpen p ch e (ch_version x))"
  shows "run_message env P (ChannelOpenConfirm (ChannelOpenConfirm_Init ch p prf h)) c =
    Some ([EvChannelOpenConfirm p ch (ccp_port_id (ch_counterparty x))
             (ccp_channel_id (ch_counterparty x)) con], VmEmpty,
      put_channel env p ch (x\<lparr>ch_state := ChanOpen\<rparr>) c)"
  by (rule run_message_3)
    (simp add: cast_either_def read_open_eval [OF assms(5,1,6)] read_channel_eval [OF assms(2,1)]
      assms(3,4,8) callback_ok_def assms(7) [unfolded remote_connection_def] Let_def
      near_commit_channel_eval
      channel_query_answer [OF assms(9)[unfolded expected_channel_def remote_connection_def]])+

text \<open>C28. The channel handshake goes through over an open connection: when each side is told of
  the other's step with a true proof and the applications accept, all four messages finish, and at
  the end both stores hold an open channel of the version the second side chose, each naming the
  port and the channel of the other.\<close>

theorem channel_handshake_completes:
  assumes P: "prost_ok (env_prost env)"
    and conns: "holds_connection env a conA eA" "holds_connection env b conB eB"
    and opened: "ce_state eA = ConnOpen" "ce_state eB = ConnOpen"
    and mutual: "remote_connection eA = conB" "remote_connection eB = conA"
    and valid: "valid_connection_id conA" "valid_connection_id conB" "valid_port_id pA" "valid_port_id pB"
    and ids: "chA = new_channel_id a" "chB = new_channel_id b"
  shows "\<exists>a1 b1 a2 b2 e1 e2 e3 e4.
     run_message env (peerA\<lparr>peer_store := b\<rparr>)
       (ChannelOpenInit (ChannelOpenInit_Init [conA] pA
          \<lparr>ccp_port_id = pB, ccp_channel_id = []\<rparr> v)) a = Some (e1, VmEmpty, a1) \<and>
     run_message env (peerB\<lparr>peer_store := a1\<rparr>)
       (ChannelOpenTry (ChannelOpenTry_Init [conB] pB
          \<lparr>ccp_port_id = pA, ccp_channel_id = chA\<rparr> v w prf1 h1)) b = Some (e2, VmEmpty, b1) \<and>
     run_message env (peerA\<lparr>peer_store := b1\<rparr>)
       (ChannelOpenAck (ChannelOpenAck_Init chA pA chB w prf2 h2)) a1 = Some (e3, VmEmpty, a2) \<and>
     run_message env (peerB\<lparr>peer_store := a2\<rparr>)
       (ChannelOpenConfirm (ChannelOpenConfirm_Init chB pB prf3 h3)) b1 = Some (e4, VmEmpty, b2) \<and>
     stored_channel env a2 pA chA
       \<lparr>ch_state = ChanOpen, ch_ordering = Unordered,
        ch_counterparty = \<lparr>ccp_port_id = pB, ccp_channel_id = chB\<rparr>,
        ch_connection_hops = [conA], ch_version = w\<rparr> \<and>
     stored_channel env b2 pB chB
       \<lparr>ch_state = ChanOpen, ch_ordering = Unordered,
        ch_counterparty = \<lparr>ccp_port_id = pA, ccp_channel_id = chA\<rparr>,
        ch_connection_hops = [conB], ch_version = w\<rparr>"
proof -
  let ?side = "\<lambda>st p ch con v. \<lparr>ch_state = st, ch_ordering = Unordered,
    ch_counterparty = \<lparr>ccp_port_id = p, ccp_channel_id = ch\<rparr>, ch_connection_hops = [con],
    ch_version = v\<rparr>"
  define a1 where "a1 = put_new_channel env pA chA (?side ChanInit pB [] conA v) (bump_channel a)"
  define b1 where "b1 = put_new_channel env pB chB (?side ChanTryopen pA chA conB w) (bump_channel b)"
  define a2 where "a2 = put_channel env pA chA (?side ChanOpen pB chB conA w) a1"
  define b2 where "b2 = put_channel env pB chB (?side ChanOpen pA chA conB w) b1"
  note defs = a1_def b1_def a2_def b2_def
  have wf: "wf_channel (?side st p ch con w)" if "valid_port_id p" "valid_connection_id con" for st p ch con w
    using that by (simp add: wf_channel_def)
  have chans: "holds_channel env a1 pA chA (?side ChanInit pB [] conA v)"
    "holds_channel env b1 pB chB (?side ChanTryopen pA chA conB w)"
    "holds_channel env a2 pA chA (?side ChanOpen pB chB conA w)"
    "holds_channel env b2 pB chB (?side ChanOpen pA chA conB w)"
    by (simp_all add: defs wf valid)
  have cons1: "holds_connection env a1 conA eA" "holds_connection env b1 conB eB"
    by (simp_all add: defs conns)
  have chv: "valid_channel_id chA" "valid_channel_id chB" by (simp_all add: ids)
  note initd = run_channel_init [OF P conns(1) opened(1), of "peerA\<lparr>peer_store := b\<rparr>" pA
    "\<lparr>ccp_port_id = pB, ccp_channel_id = []\<rparr>" v]
  note tryd = run_channel_try [OF P conns(2) opened(2),
    of "\<lparr>ccp_port_id = pA, ccp_channel_id = chA\<rparr>" "peerB\<lparr>peer_store := a1\<rparr>" pB v w prf1 h1]
  note ackd = run_channel_ack [OF P chans(1) _ _ cons1(1) opened(1), of chB "peerA\<lparr>peer_store := b1\<rparr>" w
    prf2 h2]
  note confd = run_channel_confirm [OF P chans(2) _ _ cons1(2) opened(2), of "peerB\<lparr>peer_store := a2\<rparr>"
    prf3 h3]
  show ?thesis
    using initd tryd ackd confd chans chv valid mutual holds_channel_stored [OF chans(3) P]
      holds_channel_stored [OF chans(4) P]
    by (simp add: expected_channel_def defs [symmetric] ids [symmetric])
qed

section \<open>Steps of the system\<close>

lemma sys_call:
  assumes "near_entry env call c = (Ok (evs, pov), c')" and "wf_near_call call"
  shows "near_sys_step env \<lparr>sys_contract = c, sys_pending = ps\<rparr>
    \<lparr>sys_contract = c', sys_pending = ps @ schedule pov\<rparr>"
  using near_sys_step.call [OF assms(1) same_chain_refl assms(2)] .

lemma sys_callback:
  assumes "near_callback env cb m res c = (Ok (evs, pov), c')"
  shows "near_sys_step env \<lparr>sys_contract = c, sys_pending = (x, cb, m) # qs\<rparr>
    \<lparr>sys_contract = c', sys_pending = qs @ schedule pov\<rparr>"
  using near_sys_step.callback [OF assms same_chain_refl, of "[]" x qs] by simp

section \<open>An acknowledgement that comes late\<close>

text \<open>Two calls with a query each, and then the answers: both go on in the state they started from.\<close>

lemma two_calls_two_answers:
  assumes call: "near_entry env call1 c = (Ok ([], Promise x1 CbQuery m1), c)"
      "near_entry env call2 c = (Ok ([], Promise x2 CbQuery m2), c)"
    and answer: "near_callback env CbQuery m1 res1 c = (Ok ([], Promise y1 cb1 m1'), c)"
      "near_callback env CbQuery m2 res2 c = (Ok ([], Promise y2 cb2 m2'), c)"
    and wf: "wf_near_call call1" "wf_near_call call2"
  shows "(near_sys_step env)\<^sup>*\<^sup>* \<lparr>sys_contract = c, sys_pending = []\<rparr>
    \<lparr>sys_contract = c, sys_pending = [(y1, cb1, m1'), (y2, cb2, m2')]\<rparr>"
proof -
  let ?S = "\<lambda>ps. \<lparr>sys_contract = c, sys_pending = ps\<rparr>"
  let ?q1 = "(x1, CbQuery, m1)" and ?q2 = "(x2, CbQuery, m2)" and ?a1 = "(y1, cb1, m1')" and ?a2 = "(y2, cb2, m2')"
  have s1: "near_sys_step env (?S []) (?S [?q1])"
    using sys_call [OF call(1) wf(1), of "[]"] by simp
  have s2: "near_sys_step env (?S [?q1]) (?S [?q1, ?q2])"
    using sys_call [OF call(2) wf(2), of "[?q1]"] by simp
  have s3: "near_sys_step env (?S [?q1, ?q2]) (?S [?q2, ?a1])"
    using sys_callback [OF answer(1), where qs = "[?q2]"] by simp
  have s4: "near_sys_step env (?S [?q2, ?a1]) (?S [?a1, ?a2])"
    using sys_callback [OF answer(2), where qs = "[?a1]"] by simp
  show ?thesis
    by (rule converse_rtranclp_into_rtranclp, rule s1, rule converse_rtranclp_into_rtranclp, rule s2,
        rule converse_rtranclp_into_rtranclp, rule s3, rule r_into_rtranclp, rule s4)
qed

lemma ack_entry_eval:
  assumes "prost_ok (env_prost env)" and "holds_channel env c p ch x" and "ch_state x = ChanInit"
    and "ch_connection_hops x = [con]"
    and "holds_connection env c con e" and "ce_state e = ConnOpen"
    and "valid_connection_id (remote_connection e)" and "clients c (ce_client_id e) = Some acct"
  shows "\<exists>qs. near_entry env (CallChannelOpenAck ch p cch w pr h) c =
    (Ok ([], Promise (LcQuery acct qs) CbQuery
       (ChannelOpenAck (ChannelOpenAck_LcQueriesMade (ce_client_id e) ch p cch w))), c)"
  by (simp add: near_init_def near_step_def unwrap_prog_def cast_either_def
      read_open_eval [OF assms(5,1,6)] read_channel_eval [OF assms(2,1)] assms(3,4,8)
      assms(7) [unfolded remote_connection_def] Let_def client_account_def)

lemma ack_query_eval:
  assumes "account_id_ok env p"
  shows "near_callback env CbQuery
     (ChannelOpenAck (ChannelOpenAck_LcQueriesMade cl ch p cch w))
     (ResQuery [RespStatus Active, RespVerifyMembership True]) c =
   (Ok ([], Promise (AppChannelOpenAck p p ch cch w) CbChanOpenAck
      (ChannelOpenAck (ChannelOpenAck_CallbackCalled ch p cch w))), c)"
  by (simp add: near_step_def unwrap_prog_def cast_either_def try_account_def assms)

lemma ack_callback_eval:
  assumes "prost_ok (env_prost env)" and "holds_channel env c p ch x"
    and "ch_connection_hops x = [con]" and "valid_channel_id cch"
  shows "\<exists>evs. near_callback env CbChanOpenAck
     (ChannelOpenAck (ChannelOpenAck_CallbackCalled ch p cch w)) (ResCallbackError None) c =
   (Ok (evs, Value VmEmpty),
    put_channel env p ch
      (x\<lparr>ch_state := ChanOpen, ch_version := w,
         ch_counterparty := (ch_counterparty x)\<lparr>ccp_channel_id := cch\<rparr>\<rparr>) c)"
  by (simp add: near_step_def unwrap_prog_def cast_either_def callback_ok_def
      read_channel_eval [OF assms(2,1)] assms(3,4) near_commit_channel_eval)

text \<open>C34. The state of the channel is checked only when \<^verbatim>\<open>ChannelOpenAck\<close> starts, and the end is
  written when the application has answered. Two acknowledgements that start while the channel is in
  INIT both go through: the first opens the channel, and the second, completed while the channel is
  open, points it at another counterparty channel and version.\<close>

theorem late_channel_ack_repoints:
  assumes P: "prost_ok (env_prost env)" and x: "holds_channel env c p ch x" "ch_state x = ChanInit"
    "ch_connection_hops x = [con]"
    and e: "holds_connection env c con e" "ce_state e = ConnOpen"
      "valid_connection_id (remote_connection e)" "clients c (ce_client_id e) = Some acct"
    and p: "valid_port_id p" "account_id_ok env p" and ch: "valid_channel_id ch"
    and cch: "valid_channel_id cch1" "valid_channel_id cch2"
  shows "\<exists>c1 ps c2.
     (near_sys_step env)\<^sup>*\<^sup>* \<lparr>sys_contract = c, sys_pending = []\<rparr> \<lparr>sys_contract = c1, sys_pending = ps\<rparr> \<and>
     stored_channel env c1 p ch
       (x\<lparr>ch_state := ChanOpen, ch_version := w1,
          ch_counterparty := (ch_counterparty x)\<lparr>ccp_channel_id := cch1\<rparr>\<rparr>) \<and>
     near_sys_step env \<lparr>sys_contract = c1, sys_pending = ps\<rparr> \<lparr>sys_contract = c2, sys_pending = []\<rparr> \<and>
     stored_channel env c2 p ch
       (x\<lparr>ch_state := ChanOpen, ch_version := w2,
          ch_counterparty := (ch_counterparty x)\<lparr>ccp_channel_id := cch2\<rparr>\<rparr>)"
proof -
  let ?opened = "\<lambda>w cch. x\<lparr>ch_state := ChanOpen, ch_version := w,
    ch_counterparty := (ch_counterparty x)\<lparr>ccp_channel_id := cch\<rparr>\<rparr>"
  let ?S = "\<lambda>c ps. \<lparr>sys_contract = c, sys_pending = ps\<rparr>"
  let ?a = "\<lambda>cch w. (AppChannelOpenAck p p ch cch w, CbChanOpenAck,
    ChannelOpenAck (ChannelOpenAck_CallbackCalled ch p cch w))"
  define c1 where "c1 = put_channel env p ch (?opened w1 cch1) c"
  have wf: "wf_channel (?opened w cch)" for w cch
    using x(1) by (simp add: holds_channel_def wf_channel_def)
  have h1: "holds_channel env c1 p ch (?opened w1 cch1)" by (simp add: c1_def wf)
  have wfc: "wf_near_call (CallChannelOpenAck ch p cch w [] default_height)" for cch w
    using p ch by simp
  have call: "\<exists>qs. near_entry env (CallChannelOpenAck ch p cch w [] default_height) c =
      (Ok ([], Promise (LcQuery acct qs) CbQuery
         (ChannelOpenAck (ChannelOpenAck_LcQueriesMade (ce_client_id e) ch p cch w))), c)" for cch w
    by (rule ack_entry_eval [OF P x e])
  obtain qs1 qs2 where calls: "near_entry env (CallChannelOpenAck ch p cch1 w1 [] default_height) c =
      (Ok ([], Promise (LcQuery acct qs1) CbQuery
         (ChannelOpenAck (ChannelOpenAck_LcQueriesMade (ce_client_id e) ch p cch1 w1))), c)"
    "near_entry env (CallChannelOpenAck ch p cch2 w2 [] default_height) c =
      (Ok ([], Promise (LcQuery acct qs2) CbQuery
         (ChannelOpenAck (ChannelOpenAck_LcQueriesMade (ce_client_id e) ch p cch2 w2))), c)"
    using call by blast
  have "(near_sys_step env)\<^sup>*\<^sup>* (?S c []) (?S c [?a cch1 w1, ?a cch2 w2])"
    by (rule two_calls_two_answers [OF calls ack_query_eval [OF p(2)] ack_query_eval [OF p(2)] wfc wfc])
  moreover obtain ev1 where cb1: "near_callback env CbChanOpenAck
      (ChannelOpenAck (ChannelOpenAck_CallbackCalled ch p cch1 w1)) (ResCallbackError None) c =
      (Ok (ev1, Value VmEmpty), c1)"
    using ack_callback_eval [OF P x(1,3) cch(1)] unfolding c1_def by blast
  have "near_sys_step env (?S c [?a cch1 w1, ?a cch2 w2]) (?S c1 [?a cch2 w2])"
    using sys_callback [OF cb1, where qs = "[?a cch2 w2]"] by simp
  ultimately have run: "(near_sys_step env)\<^sup>*\<^sup>* (?S c []) (?S c1 [?a cch2 w2])"
    by (rule rtranclp.rtrancl_into_rtrancl)
  obtain ev2 where cb2: "near_callback env CbChanOpenAck
      (ChannelOpenAck (ChannelOpenAck_CallbackCalled ch p cch2 w2)) (ResCallbackError None) c1 =
      (Ok (ev2, Value VmEmpty), put_channel env p ch (?opened w2 cch2) c1)"
    using ack_callback_eval [OF P h1 _ cch(2), of con w2] x(3) by auto
  have "near_sys_step env (?S c1 [?a cch2 w2]) (?S (put_channel env p ch (?opened w2 cch2) c1) [])"
    using sys_callback [OF cb2, where qs = "[]"] by simp
  with run show ?thesis
    using holds_channel_stored [OF h1 P] holds_channel_stored [OF holds_after_put_channel [OF wf] P]
    by blast
qed

section \<open>Examples\<close>

definition example_chain_A :: near_contract where
  \<comment> \<open>\<open>connection-1\<close> is open towards \<open>connection-2\<close> of the other chain\<close>
  "example_chain_A =
     put_connection example_env ''connection-1'' (example_end ConnOpen ''connection-2'')
       (near_default\<lparr>clients := [''cometbls-1'' \<mapsto> ''lc.near'']\<rparr>)"

definition example_chain_B :: near_contract where
  "example_chain_B =
     put_connection example_env ''connection-2'' (example_end ConnOpen ''connection-1'') near_default"

definition example_channel :: "channel_state \<Rightarrow> string \<Rightarrow> channel" where
  "example_channel st ch =
     \<lparr>ch_state = st, ch_ordering = Unordered,
      ch_counterparty = \<lparr>ccp_port_id = ''app2.near'', ccp_channel_id = ch\<rparr>,
      ch_connection_hops = [''connection-1''], ch_version = ''v''\<rparr>"

lemma example_channel_simps [simp]:
  "wf_channel (example_channel st ch)" "ch_state (example_channel st ch) = st"
  "ch_connection_hops (example_channel st ch) = [''connection-1'']"
  "ccp_port_id (ch_counterparty (example_channel st ch)) = ''app2.near''"
  "ccp_channel_id (ch_counterparty (example_channel st ch)) = ch"
  "ch_version (example_channel st ch) = ''v''"
  by (simp_all add: example_channel_def wf_channel_def)

lemma example_chains [simp]:
  "holds_connection example_env example_chain_A ''connection-1'' (example_end ConnOpen ''connection-2'')"
  "holds_connection example_env example_chain_B ''connection-2'' (example_end ConnOpen ''connection-1'')"
  "remote_connection (example_end st con) = con"
  by (simp_all add: example_chain_A_def example_chain_B_def remote_connection_def)

lemma example_chain_A_clients [simp]:
  "clients (put_channel env p ch e example_chain_A) ''cometbls-1'' = Some ''lc.near''"
  by (simp add: put_channel_def example_chain_A_def put_connection_def)

text \<open>The three steps of a message, on the examples.\<close>

lemma channel_try_evals:
  assumes "prost_ok (env_prost env)" and "holds_connection env c con e" and "ce_state e = ConnOpen"
    and "valid_connection_id (remote_connection e)" and "valid_channel_id (ccp_channel_id cp)"
  shows "ibc_state_process (near_host env)
      (ChannelOpenTry (ChannelOpenTry_Init [con] p cp cpv v pr h)) [RespEmpty] c =
    (Ok (Inl (ChannelOpenTry (ChannelOpenTry_LcQueriesMade (ce_client_id e) [con] p cp cpv v),
      Query (ce_client_id e)
        [QStatus, channel_proof_query (near_host env) h pr (ccp_port_id cp) (ccp_channel_id cp)
                    (expected_channel ChanInit p [] e cpv)])), c)"
    and "ibc_state_process (near_host env)
      (ChannelOpenTry (ChannelOpenTry_LcQueriesMade cl [con] p cp cpv v))
      [RespStatus Active, RespVerifyMembership True] c' =
    (Ok (Inl (ChannelOpenTry (ChannelOpenTry_CallbackCalled (new_channel_id c') [con] p cp v),
       Write (MsgOnChannelOpenTry Unordered [con] p (new_channel_id c') cp cpv))), bump_channel c')"
    and "\<exists>d. ibc_state_process (near_host env)
      (ChannelOpenTry (ChannelOpenTry_CallbackCalled ch [con] p cp v)) [RespOnChannelOpenTry None] c' =
    (Ok (Inr d), put_new_channel env p ch \<lparr>ch_state = ChanTryopen, ch_ordering = Unordered,
         ch_counterparty = cp, ch_connection_hops = [con], ch_version = v\<rparr> c')"
  by (simp_all add: cast_either_def read_open_eval [OF assms(2,1,3)] near_next_channel_eval
      commit_new_channel_eval callback_ok_def assms(4,5) [unfolded remote_connection_def] Let_def
      expected_channel_def remote_connection_def)

theorem channel_try_agreement_witness:
  "\<exists>e ch c6. stored_connection example_env example_chain_A ''connection-1'' e \<and> ce_state e = ConnOpen \<and>
     stored_channel example_env
       (put_channel example_env ''app2.near'' ''channel-2''
          (expected_channel ChanInit ''app.near'' [] (example_end ConnOpen ''connection-2'') ''v'')
          near_default) ''app2.near'' ''channel-2'' (expected_channel ChanInit ''app.near'' [] e ''v'') \<and>
     stored_channel example_env c6 ''app.near'' ch (example_channel ChanTryopen ''channel-2'')"
proof -
  let ?e = "example_end ConnOpen ''connection-2''"
  let ?cp = "\<lparr>ccp_port_id = ''app2.near'', ccp_channel_id = ''channel-2''\<rparr>"
  let ?x = "expected_channel ChanInit ''app.near'' [] ?e ''v''"
  let ?other = "put_channel example_env ''app2.near'' ''channel-2'' ?x near_default"
  note evals = channel_try_evals [OF example_prost_env_ok example_chains(1), of ?cp]
  have "wf_channel ?x" by (simp add: expected_channel_wf)
  then have q: "query_true ?other (channel_proof_query (near_host example_env) default_height []
      (ccp_port_id ?cp) (ccp_channel_id ?cp) ?x)"
    by (simp add: holds_channel_query)
  have v: "ce_state ?e = ConnOpen" "valid_connection_id (remote_connection ?e)"
    "valid_channel_id (ccp_channel_id ?cp)" "valid_port_id (ccp_port_id ?cp)"
    "list_all valid_connection_id [''connection-1'']" "valid_port_id ''app.near''"
    by simp_all
  obtain d where last: "ibc_state_process (near_host example_env) (ChannelOpenTry
      (ChannelOpenTry_CallbackCalled (new_channel_id near_default) [''connection-1''] ''app.near'' ?cp ''v''))
      [RespOnChannelOpenTry None] near_default =
    (Ok (Inr d), put_new_channel example_env ''app.near'' (new_channel_id near_default)
       \<lparr>ch_state = ChanTryopen, ch_ordering = Unordered, ch_counterparty = ?cp,
        ch_connection_hops = [''connection-1''], ch_version = ''v''\<rparr> near_default)"
    using evals(3) [OF v(1-3)] by blast
  from channel_try_agreement [OF example_prost_env_ok same_chain_refl same_chain_refl v(6,4,5)
      evals(1) [OF v(1-3)] q evals(2) [OF v(1-3)] last]
  show ?thesis by (simp add: example_channel_def) blast
qed

lemma channel_ack_evals:
  assumes "prost_ok (env_prost env)" and "holds_channel env c p ch x" and "ch_state x = ChanInit"
    and "ch_connection_hops x = [con]"
    and "holds_connection env c con e" and "ce_state e = ConnOpen"
    and "valid_connection_id (remote_connection e)" and "valid_channel_id cch"
  shows "ibc_state_process (near_host env)
      (ChannelOpenAck (ChannelOpenAck_Init ch p cch cpv pr h)) [RespEmpty] c =
    (Ok (Inl (ChannelOpenAck (ChannelOpenAck_LcQueriesMade (ce_client_id e) ch p cch cpv),
      Query (ce_client_id e)
        [QStatus, channel_proof_query (near_host env) h pr (ccp_port_id (ch_counterparty x)) cch
                    (expected_channel ChanTryopen p ch e cpv)])), c)"
    and "\<exists>d. ibc_state_process (near_host env)
      (ChannelOpenAck (ChannelOpenAck_CallbackCalled ch p cch cpv)) [RespOnChannelOpenAck None] c =
    (Ok (Inr d), put_channel env p ch
        (x\<lparr>ch_state := ChanOpen, ch_version := cpv,
           ch_counterparty := (ch_counterparty x)\<lparr>ccp_channel_id := cch\<rparr>\<rparr>) c)"
  by (simp_all add: cast_either_def read_open_eval [OF assms(5,1,6)] read_channel_eval [OF assms(2,1)]
      assms(3,4,8) callback_ok_def assms(7) [unfolded remote_connection_def] Let_def
      near_commit_channel_eval expected_channel_def remote_connection_def)

lemma channel_middle_evals:
  "ibc_state_process (near_host env) (ChannelOpenAck (ChannelOpenAck_LcQueriesMade cl ch p cch cpv))
      [RespStatus Active, RespVerifyMembership True] c =
    (Ok (Inl (ChannelOpenAck (ChannelOpenAck_CallbackCalled ch p cch cpv),
       Write (MsgOnChannelOpenAck p ch cch cpv))), c)"
  "ibc_state_process (near_host env) (ChannelOpenConfirm (ChannelOpenConfirm_LcQueriesMade cl cp ch p))
      [RespStatus Active, RespVerifyMembership True] c =
    (Ok (Inl (ChannelOpenConfirm (ChannelOpenConfirm_CallbackCalled ch p cp),
       Write (MsgOnChannelOpenConfirm p ch))), c)"
  by (simp_all add: cast_either_def)

theorem channel_ack_agreement_witness:
  "\<exists>x e y c6.
     stored_channel example_env
       (put_channel example_env ''app.near'' ''channel-1'' (example_channel ChanInit []) example_chain_A)
       ''app.near'' ''channel-1'' x \<and> ch_state x = ChanInit \<and> ce_state e = ConnOpen \<and>
     stored_channel example_env
       (put_channel example_env ''app2.near'' ''channel-2''
          (expected_channel ChanTryopen ''app.near'' ''channel-1'' (example_end ConnOpen ''connection-2'') ''v'')
          near_default) (ccp_port_id (ch_counterparty x)) ''channel-2''
       (expected_channel ChanTryopen ''app.near'' ''channel-1'' e ''v'') \<and>
     stored_channel example_env c6 ''app.near'' ''channel-1''
       (y\<lparr>ch_state := ChanOpen, ch_version := ''v'',
          ch_counterparty := (ch_counterparty y)\<lparr>ccp_channel_id := ''channel-2''\<rparr>\<rparr>)"
proof -
  let ?e = "example_end ConnOpen ''connection-2''"
  let ?x = "example_channel ChanInit []"
  let ?c = "put_channel example_env ''app.near'' ''channel-1'' ?x example_chain_A"
  let ?y = "expected_channel ChanTryopen ''app.near'' ''channel-1'' ?e ''v''"
  let ?other = "put_channel example_env ''app2.near'' ''channel-2'' ?y near_default"
  have c: "holds_channel example_env ?c ''app.near'' ''channel-1'' ?x"
    "holds_connection example_env ?c ''connection-1'' ?e"
    by simp_all
  have v: "ch_state ?x = ChanInit" "ch_connection_hops ?x = [''connection-1'']" "ce_state ?e = ConnOpen"
    "valid_connection_id (remote_connection ?e)" "valid_channel_id ''channel-2''"
    "valid_port_id ''app.near''" by simp_all
  note evals = channel_ack_evals [OF example_prost_env_ok c(1) v(1,2) c(2) v(3-5)]
  have "wf_channel ?y" by (simp add: expected_channel_wf)
  then have q: "query_true ?other (channel_proof_query (near_host example_env) default_height []
      (ccp_port_id (ch_counterparty ?x)) ''channel-2'' ?y)"
    by (simp add: holds_channel_query)
  obtain d c6 where last: "ibc_state_process (near_host example_env) (ChannelOpenAck
      (ChannelOpenAck_CallbackCalled ''channel-1'' ''app.near'' ''channel-2'' ''v''))
      [RespOnChannelOpenAck None] ?c = (Ok (Inr d), c6)"
    using evals(2) by blast
  from channel_ack_agreement [OF example_prost_env_ok same_chain_refl same_chain_refl v(6)
      evals(1) q channel_middle_evals(1) last]
  show ?thesis by blast
qed

lemma channel_confirm_evals:
  assumes "prost_ok (env_prost env)" and "holds_channel env c p ch x" and "ch_state x = ChanTryopen"
    and "ch_connection_hops x = [con]"
    and "holds_connection env c con e" and "ce_state e = ConnOpen"
    and "valid_connection_id (remote_connection e)"
    and "valid_channel_id (ccp_channel_id (ch_counterparty x))"
  shows "ibc_state_process (near_host env)
      (ChannelOpenConfirm (ChannelOpenConfirm_Init ch p pr h)) [RespEmpty] c =
    (Ok (Inl (ChannelOpenConfirm (ChannelOpenConfirm_LcQueriesMade (ce_client_id e)
                (ch_counterparty x) ch p),
      Query (ce_client_id e)
        [QStatus, channel_proof_query (near_host env) h pr (ccp_port_id (ch_counterparty x))
                    (ccp_channel_id (ch_counterparty x))
                    (expected_channel ChanOpen p ch e (ch_version x))])), c)"
    and "\<exists>d. ibc_state_process (near_host env)
      (ChannelOpenConfirm (ChannelOpenConfirm_CallbackCalled ch p (ch_counterparty x)))
      [RespOnChannelOpenConfirm None] c =
    (Ok (Inr d), put_channel env p ch (x\<lparr>ch_state := ChanOpen\<rparr>) c)"
  by (simp_all add: cast_either_def read_open_eval [OF assms(5,1,6)] read_channel_eval [OF assms(2,1)]
      assms(3,4,8) callback_ok_def assms(7) [unfolded remote_connection_def] Let_def
      near_commit_channel_eval expected_channel_def remote_connection_def)

theorem channel_confirm_agreement_witness:
  "\<exists>x e y c6.
     stored_channel example_env
       (put_channel example_env ''app.near'' ''channel-1'' (example_channel ChanTryopen ''channel-2'')
          example_chain_A) ''app.near'' ''channel-1'' x \<and> ch_state x = ChanTryopen \<and>
     ce_state e = ConnOpen \<and>
     stored_channel example_env
       (put_channel example_env ''app2.near'' ''channel-2''
          (expected_channel ChanOpen ''app.near'' ''channel-1'' (example_end ConnOpen ''connection-2'') ''v'')
          near_default) (ccp_port_id (ch_counterparty x)) (ccp_channel_id (ch_counterparty x))
       (expected_channel ChanOpen ''app.near'' ''channel-1'' e (ch_version x)) \<and>
     stored_channel example_env c6 ''app.near'' ''channel-1'' (y\<lparr>ch_state := ChanOpen\<rparr>)"
proof -
  let ?e = "example_end ConnOpen ''connection-2''"
  let ?x = "example_channel ChanTryopen ''channel-2''"
  let ?c = "put_channel example_env ''app.near'' ''channel-1'' ?x example_chain_A"
  let ?y = "expected_channel ChanOpen ''app.near'' ''channel-1'' ?e (ch_version ?x)"
  let ?other = "put_channel example_env ''app2.near'' ''channel-2'' ?y near_default"
  have c: "holds_channel example_env ?c ''app.near'' ''channel-1'' ?x"
    "holds_connection example_env ?c ''connection-1'' ?e"
    by simp_all
  have v: "ch_state ?x = ChanTryopen" "ch_connection_hops ?x = [''connection-1'']" "ce_state ?e = ConnOpen"
    "valid_connection_id (remote_connection ?e)" "valid_channel_id (ccp_channel_id (ch_counterparty ?x))"
    "valid_port_id ''app.near''" by simp_all
  note evals = channel_confirm_evals [OF example_prost_env_ok c(1) v(1,2) c(2) v(3-5)]
  have "wf_channel ?y" by (simp add: expected_channel_wf)
  then have q: "query_true ?other (channel_proof_query (near_host example_env) default_height []
      (ccp_port_id (ch_counterparty ?x)) (ccp_channel_id (ch_counterparty ?x)) ?y)"
    by (simp add: holds_channel_query)
  obtain d c6 where last: "ibc_state_process (near_host example_env) (ChannelOpenConfirm
      (ChannelOpenConfirm_CallbackCalled ''channel-1'' ''app.near'' (ch_counterparty ?x)))
      [RespOnChannelOpenConfirm None] ?c = (Ok (Inr d), c6)"
    using evals(2) by blast
  from channel_confirm_agreement [OF example_prost_env_ok same_chain_refl same_chain_refl v(6)
      evals(1) q channel_middle_evals(2) last]
  show ?thesis by (metis (no_types, lifting) example_channel_simps(4-6))
qed

theorem channel_handshake_completes_witness:
  "\<exists>a2 b2 e3 e4 a1 b1.
     run_message example_env
       \<lparr>peer_store = b1, peer_height = default_height, peer_timestamp = 0, peer_ack = []\<rparr>
       (ChannelOpenAck (ChannelOpenAck_Init (new_channel_id example_chain_A) ''app.near''
          (new_channel_id example_chain_B) ''w'' [] default_height)) a1 = Some (e3, VmEmpty, a2) \<and>
     run_message example_env
       \<lparr>peer_store = a2, peer_height = default_height, peer_timestamp = 0, peer_ack = []\<rparr>
       (ChannelOpenConfirm (ChannelOpenConfirm_Init (new_channel_id example_chain_B) ''app2.near'' []
          default_height)) b1 = Some (e4, VmEmpty, b2) \<and>
     stored_channel example_env a2 ''app.near'' (new_channel_id example_chain_A)
       \<lparr>ch_state = ChanOpen, ch_ordering = Unordered,
        ch_counterparty = \<lparr>ccp_port_id = ''app2.near'', ccp_channel_id = new_channel_id example_chain_B\<rparr>,
        ch_connection_hops = [''connection-1''], ch_version = ''w''\<rparr>"
proof -
  let ?P = "\<lparr>peer_store = near_default, peer_height = default_height, peer_timestamp = 0, peer_ack = []\<rparr>"
  let ?c = "example_end ConnOpen"
  have v: "ce_state (?c con) = ConnOpen" "remote_connection (?c con) = con" for con by simp_all
  have ids: "valid_connection_id ''connection-1''" "valid_connection_id ''connection-2''"
    "valid_port_id ''app.near''" "valid_port_id ''app2.near''" by simp_all
  from channel_handshake_completes [OF example_prost_env_ok example_chains(1,2) v(1) v(1) v(2) v(2) ids
      refl refl, of ?P "''v''" ?P "''w''" "[]" default_height "[]" default_height "[]" default_height]
  show ?thesis by simp blast
qed

theorem late_channel_ack_repoints_witness:
  "\<exists>c1 ps c2.
     (near_sys_step example_env)\<^sup>*\<^sup>*
       \<lparr>sys_contract = put_channel example_env ''app.near'' ''channel-1'' (example_channel ChanInit [])
          example_chain_A, sys_pending = []\<rparr> \<lparr>sys_contract = c1, sys_pending = ps\<rparr> \<and>
     stored_channel example_env c1 ''app.near'' ''channel-1'' (example_channel ChanOpen ''channel-1'') \<and>
     near_sys_step example_env \<lparr>sys_contract = c1, sys_pending = ps\<rparr>
       \<lparr>sys_contract = c2, sys_pending = []\<rparr> \<and>
     stored_channel example_env c2 ''app.near'' ''channel-1'' (example_channel ChanOpen ''channel-2'')"
proof -
  let ?x = "example_channel ChanInit []"
  let ?c = "put_channel example_env ''app.near'' ''channel-1'' ?x example_chain_A"
  let ?e = "example_end ConnOpen ''connection-2''"
  have c: "holds_channel example_env ?c ''app.near'' ''channel-1'' ?x" "ch_state ?x = ChanInit"
    "ch_connection_hops ?x = [''connection-1'']"
    "holds_connection example_env ?c ''connection-1'' ?e" "ce_state ?e = ConnOpen"
    "valid_connection_id (remote_connection ?e)" "clients ?c (ce_client_id ?e) = Some ''lc.near''"
    by simp_all
  have v: "valid_port_id ''app.near''" "account_id_ok example_env ''app.near''"
    "valid_channel_id ''channel-1''" "valid_channel_id ''channel-2''" by simp_all
  from late_channel_ack_repoints [OF example_prost_env_ok c v(1-3) v(3,4), of "''v''" "''v''"]
  show ?thesis by (simp add: example_channel_def)
qed

end
