(* ===== verification/Packet_Flow.thy ===== *)
theory Packet_Flow imports Channel_Handshake begin

text \<open>
  Packets between two chains that run the contract: what a chain stores when it sends a packet, what
  it has proved when it receives one or takes an acknowledgement, and how often an application is
  called for the same packet.
\<close>

section \<open>Commitments\<close>

definition packet_preimage :: "near_env \<Rightarrow> packet \<Rightarrow> bytes" where
  "packet_preimage env p =
     u64_to_be_bytes (timeout_timestamp p)
     @ u64_to_be_bytes (revision_number (timeout_height p))
     @ u64_to_be_bytes (revision_height (timeout_height p))
     @ env_sha256 env (packet_data p)"

definition packet_digest :: "near_env \<Rightarrow> packet \<Rightarrow> bytes" where
  "packet_digest env p = env_sha256 env (packet_preimage env p)"

lemma packet_commitment_near [simp]:
  "packet_commitment (near_host env) c p = packet_preimage env p"
  by (simp add: packet_commitment_def packet_preimage_def)

definition no_collision :: "near_env \<Rightarrow> bytes set \<Rightarrow> bool" where
  \<comment> \<open>what is assumed of the hash function, on the texts at hand\<close>
  "no_collision env xs \<longleftrightarrow> inj_on (env_sha256 env) xs"

text \<open>The commitment binds the data and the timeouts of a packet.\<close>

lemma packet_preimage_inject:
  assumes "packet_preimage env p = packet_preimage env q"
    and "no_collision env {packet_data p, packet_data q}"
  shows "packet_data p = packet_data q \<and> timeout_height p = timeout_height q \<and>
         timeout_timestamp p = timeout_timestamp q"
proof -
  have "env_sha256 env (packet_data p) = env_sha256 env (packet_data q)"
    and "revision_number (timeout_height p) = revision_number (timeout_height q)"
    and "revision_height (timeout_height p) = revision_height (timeout_height q)"
    and "timeout_timestamp p = timeout_timestamp q"
    using assms(1) by (simp_all add: packet_preimage_def)
  moreover have "packet_data p = packet_data q"
    using assms(2) calculation(1) unfolding no_collision_def by (rule inj_onD) simp_all
  moreover have "timeout_height p = timeout_height q"
    using calculation(2,3) by (intro height.expand) simp
  ultimately show ?thesis by simp
qed

lemma packet_digest_inject:
  assumes "packet_digest env p = packet_digest env q"
    and "no_collision env {packet_preimage env p, packet_preimage env q}"
    and "no_collision env {packet_data p, packet_data q}"
  shows "packet_data p = packet_data q \<and> timeout_height p = timeout_height q \<and>
         timeout_timestamp p = timeout_timestamp q"
proof -
  have "packet_preimage env p = packet_preimage env q"
    using assms(2) assms(1) [unfolded packet_digest_def] unfolding no_collision_def
    by (rule inj_onD) simp_all
  then show ?thesis using assms(3) by (rule packet_preimage_inject)
qed

abbreviation commitment_path :: "packet \<Rightarrow> path" where
  "commitment_path p \<equiv> CommitmentPath (source_port p) (source_channel p) (sequence p)"

abbreviation receipt_path :: "packet \<Rightarrow> path" where
  "receipt_path p \<equiv> ReceiptPath (destination_port p) (destination_channel p) (sequence p)"

abbreviation ack_path :: "packet \<Rightarrow> path" where
  "ack_path p \<equiv> AcknowledgementPath (destination_port p) (destination_channel p) (sequence p)"

definition timed_out :: "near_env \<Rightarrow> packet \<Rightarrow> bool" where
  "timed_out env p \<longleftrightarrow>
     timeout_height p \<noteq> default_height \<and> timeout_height p \<le> near_current_height env \<or>
     timeout_timestamp p \<noteq> 0 \<and> timeout_timestamp p \<le> env_block_timestamp env"

definition no_timeout :: "packet \<Rightarrow> bool" where
  "no_timeout p \<longleftrightarrow> timeout_height p = default_height \<and> timeout_timestamp p = 0"

lemma check_not_timed_out_near [prog_ok]:
  "check_not_timed_out (near_host env) p c = (Ok u, c') \<longleftrightarrow>
     \<not> no_timeout p \<and> \<not> timed_out env p \<and> c' = c"
  by (auto simp: check_not_timed_out_def prog_ok no_timeout_def timed_out_def)

section \<open>First steps\<close>

definition recv_channel_ok :: "near_env \<Rightarrow> near_contract \<Rightarrow> packet \<Rightarrow> channel \<Rightarrow> connection_end \<Rightarrow> bool" where
  \<comment> \<open>the packet may be received: its channel is open over an open connection, and comes from the
      channel's counterparty\<close>
  "recv_channel_ok env c p ch e \<longleftrightarrow>
     stored_channel env c (destination_port p) (destination_channel p) ch \<and> ch_state ch = ChanOpen \<and>
     ccp_port_id (ch_counterparty ch) = source_port p \<and>
     ccp_channel_id (ch_counterparty ch) = source_channel p \<and>
     ch_connection_hops ch \<noteq> [] \<and> stored_connection env c (ch_connection_hops ch ! 0) e \<and>
     ce_state e = ConnOpen"

lemma recv_packet_checks_near [prog_ok]:
  "recv_packet_checks (near_host env) p c = (Ok (ch, e), c') \<longleftrightarrow>
     recv_channel_ok env c p ch e \<and> \<not> no_timeout p \<and> \<not> timed_out env p \<and> c' = c"
  by (auto simp: recv_packet_checks_def prog_ok recv_channel_ok_def split: if_splits)

definition commitment_query :: "near_env \<Rightarrow> packet \<Rightarrow> bytes \<Rightarrow> height \<Rightarrow> ibc_query" where
  "commitment_query env p pr h =
     QVerifyMembership h 0 0 pr [''ibc'', path_to_string (commitment_path p)] (packet_digest env p)"

lemma recv_first:
  assumes "ibc_state_process (near_host env) (RecvPacket (RecvPacket_Init p pr h)) [RespEmpty] c =
      (Ok r, c')"
  obtains ch e where "recv_channel_ok env c p ch e" "\<not> no_timeout p" "\<not> timed_out env p" "c' = c"
    "r = (case near_read_raw c (receipt_path p) of
            Some _ \<Rightarrow> Inr ([EvRecvPacket (packet_event p (packet_data p) (ch_connection_hops ch ! 0))
                             (ch_ordering ch)], VmEmpty)
          | None \<Rightarrow> Inl (RecvPacket (RecvPacket_MembershipVerified p ch),
                        Query (ce_client_id e) [commitment_query env p pr h]))"
  using assms
  by (auto simp: cast_either_Ok prog_ok commitment_query_def packet_digest_def split: option.splits)

definition ack_channel_ok :: "near_env \<Rightarrow> near_contract \<Rightarrow> packet \<Rightarrow> channel \<Rightarrow> connection_end \<Rightarrow> bool" where
  "ack_channel_ok env c p ch e \<longleftrightarrow>
     stored_channel env c (source_port p) (source_channel p) ch \<and> ch_state ch = ChanOpen \<and>
     ccp_port_id (ch_counterparty ch) = destination_port p \<and>
     ccp_channel_id (ch_counterparty ch) = destination_channel p \<and>
     ch_connection_hops ch \<noteq> [] \<and> stored_connection env c (ch_connection_hops ch ! 0) e \<and>
     ce_state e = ConnOpen"

lemma acknowledgement_checks_near [prog_ok]:
  "acknowledgement_checks (near_host env) p c = (Ok (ch, e), c') \<longleftrightarrow>
     ack_channel_ok env c p ch e \<and> c' = c"
  by (auto simp: acknowledgement_checks_def prog_ok ack_channel_ok_def split: if_splits)

definition ack_query :: "near_env \<Rightarrow> packet \<Rightarrow> bytes \<Rightarrow> bytes \<Rightarrow> height \<Rightarrow> ibc_query" where
  "ack_query env p ack pr h =
     QVerifyMembership h 0 0 pr [''ibc'', path_to_string (ack_path p)] (env_sha256 env ack)"

lemma ack_first:
  assumes "ibc_state_process (near_host env) (AcknowledgePacket (Acknowledgement_Init p ack pr h))
      [RespEmpty] c = (Ok r, c')"
  obtains ch e where "ack_channel_ok env c p ch e" "c' = c"
    "near_read_raw c (commitment_path p) = None \<or>
     near_read_raw c (commitment_path p) = Some (packet_digest env p)"
    "r = (case near_read_raw c (commitment_path p) of
            None \<Rightarrow> Inr ([EvAcknowledgePacket (packet_event p [] (ch_connection_hops ch ! 0)) Unordered],
                         VmEmpty)
          | Some _ \<Rightarrow> Inl (AcknowledgePacket (Acknowledgement_MembershipVerified p ack
                            (ch_connection_hops ch ! 0)),
                          Query (ce_client_id e) [ack_query env p ack pr h]))"
  using assms
  by (auto simp: cast_either_Ok prog_ok ack_query_def packet_digest_def split: option.splits)

section \<open>Later steps\<close>

lemma recv_middle:
  assumes "ibc_state_process (near_host env) (RecvPacket (RecvPacket_MembershipVerified p ch)) resp c =
      (Ok r, c')"
  shows "resp = [RespVerifyMembership True] \<and> c' = c \<and>
     r = Inl (RecvPacket (RecvPacket_CallbackCalled p ch), Write (MsgOnRecvPacket p))"
  using assms by (auto simp: cast_either_Ok prog_ok split: response_splits)

lemma ack_middle:
  assumes "ibc_state_process (near_host env)
      (AcknowledgePacket (Acknowledgement_MembershipVerified p ack con)) resp c = (Ok r, c')"
  shows "resp = [RespVerifyMembership True] \<and> c' = c \<and>
     r = Inl (AcknowledgePacket (Acknowledgement_CallbackCalled p con),
              Write (MsgOnAcknowledgePacket p ack))"
  using assms by (auto simp: cast_either_Ok prog_ok split: response_splits)

lemma packet_string_neq [simp]:
  "path_to_string (ReceiptPath p ch n) \<noteq> path_to_string (AcknowledgementPath p' ch' n')"
  "path_to_string (ReceiptPath p ch n) \<noteq> path_to_string (CommitmentPath p' ch' n')"
  "path_to_string (AcknowledgementPath p ch n) \<noteq> path_to_string (CommitmentPath p' ch' n')"
  "path_to_string (NextSequenceSendPath p ch) \<noteq> path_to_string (CommitmentPath p' ch' n')"
  by (simp_all add: path_to_string_def ibc_path_display_def)

lemma near_read_raw_put [simp]:
  "near_read_raw (near_insert k v c) path = (if path_to_string path = k then Some v else near_read_raw c path)"
  by (simp add: near_read_raw_def near_insert_def)

lemma write_acknowledgement_near [prog_ok]:
  "write_acknowledgement (near_host env) ch p ack c = (Ok ev, c') \<longleftrightarrow>
     near_read_raw c (ack_path p) = None \<and> ack \<noteq> [] \<and> ch_connection_hops ch \<noteq> [] \<and>
     c' = near_insert (path_to_string (ack_path p)) (env_sha256 env ack) c \<and>
     ev = EvWriteAcknowledgement (packet_event p (packet_data p) (ch_connection_hops ch ! 0))
            (env_hex_encode env ack)"
  by (auto simp: write_acknowledgement_def prog_ok Let_def)

text \<open>Receiving leaves a receipt and, unless the application gave none, an acknowledgement.\<close>

lemma recv_last:
  assumes "ibc_state_process (near_host env) (RecvPacket (RecvPacket_CallbackCalled p ch)) resp c =
      (Ok r, c')"
  obtains ack where "resp = [RespOnRecvPacket ack]" "ack \<noteq> [] \<longrightarrow> near_read_raw c (ack_path p) = None"
    "near_read_raw c' (receipt_path p) = Some [1]"
    "near_read_raw c' (ack_path p) =
       (if ack = [] then near_read_raw c (ack_path p) else Some (env_sha256 env ack))"
    "\<exists>evs. r = Inr (evs, VmEmpty)"
  using assms packet_string_neq(1) [symmetric]
  by (auto simp: cast_either_Ok prog_ok Let_def split: response_splits if_splits)

lemma ack_last:
  assumes "ibc_state_process (near_host env)
      (AcknowledgePacket (Acknowledgement_CallbackCalled p con)) resp c = (Ok r, c')"
  shows "resp = [RespOnAcknowledgePacket None] \<and> near_read_raw c' (commitment_path p) = None"
  using assms
  by (auto simp: cast_either_Ok prog_ok near_read_raw_def split: response_splits)

section \<open>What is proved when a packet arrives\<close>


text \<open>A packet that has a receipt is answered at once, with the event alone: the store stays as
  it is and neither the client nor the application is called.\<close>

theorem recv_packet_with_receipt:
  assumes "near_read_raw c (receipt_path p) = Some v"
    and "near_entry env (CallRecvPacket p pr h) c = (Ok (evs, pov), c')"
  shows "pov = Value VmEmpty \<and> c' = c \<and> (\<exists>ch e. recv_channel_ok env c p ch e)"
proof -
  from near_entry_Ok [OF assms(2)]
  have "near_step env (RecvPacket (RecvPacket_Init p pr h)) [RespEmpty] c = (Ok (evs, pov), c')" by simp
  then show ?thesis
  proof (cases rule: near_step_Ok)
    case (goes_on m' a x cb)
    from goes_on(3) show ?thesis by (rule recv_first) (use assms(1) in simp)
  next
    case (finished val)
    from finished(2) show ?thesis by (rule recv_first) (use assms(1) finished(1) in auto)
  qed
qed


text \<open>Once the commitment of a packet is gone, an acknowledgement of it is answered at once and
  the application is not called.\<close>

theorem acknowledgement_without_commitment:
  assumes "near_read_raw c (commitment_path p) = None"
    and "near_entry env (CallAcknowledgement p ack pr h) c = (Ok (evs, pov), c')"
  shows "pov = Value VmEmpty \<and> c' = c"
proof -
  from near_entry_Ok [OF assms(2)]
  have "near_step env (AcknowledgePacket (Acknowledgement_Init p ack pr h)) [RespEmpty] c =
      (Ok (evs, pov), c')" by simp
  then show ?thesis
  proof (cases rule: near_step_Ok)
    case (goes_on m' a x cb)
    from goes_on(3) show ?thesis by (rule ack_first) (use assms(1) in simp)
  next
    case (finished val)
    from finished(2) show ?thesis by (rule ack_first) (use assms(1) finished(1) in auto)
  qed
qed

section \<open>Twice\<close>

lemma recv_entry_eval:
  assumes "recv_channel_ok env c p ch e" and "\<not> no_timeout p" and "\<not> timed_out env p"
    and "near_read_raw c (receipt_path p) = None" and "clients c (ce_client_id e) = Some acct"
  shows "near_entry env (CallRecvPacket p pr h) c =
    (Ok ([], Promise (LcQuery acct [commitment_query env p pr h]) CbQuery
       (RecvPacket (RecvPacket_MembershipVerified p ch))), c)"
proof -
  have "recv_packet_checks (near_host env) p c = (Ok (ch, e), c)"
    using assms(1-3) by (simp add: recv_packet_checks_near)
  moreover have "ch_connection_hops ch \<noteq> []" using assms(1) by (simp add: recv_channel_ok_def)
  ultimately show ?thesis
    using assms(4,5)
    by (simp add: near_init_def near_step_def unwrap_prog_def cast_either_def index_def
        client_account_def commitment_query_def packet_digest_def)
qed

lemma recv_query_eval:
  assumes "account_id_ok env (destination_port p)"
  shows "near_callback env CbQuery (RecvPacket (RecvPacket_MembershipVerified p ch))
     (ResQuery [RespVerifyMembership True]) c =
   (Ok ([], Promise (AppRecvPacket (destination_port p) p) CbRecvPacket
      (RecvPacket (RecvPacket_CallbackCalled p ch))), c)"
  by (simp add: near_step_def unwrap_prog_def cast_either_def try_account_def assms)

lemma acknowledgement_entry_eval:
  assumes "ack_channel_ok env c p ch e"
    and "near_read_raw c (commitment_path p) = Some (packet_digest env p)"
    and "clients c (ce_client_id e) = Some acct"
  shows "near_entry env (CallAcknowledgement p ack pr h) c =
    (Ok ([], Promise (LcQuery acct [ack_query env p ack pr h]) CbQuery
       (AcknowledgePacket (Acknowledgement_MembershipVerified p ack (ch_connection_hops ch ! 0)))), c)"
proof -
  have "acknowledgement_checks (near_host env) p c = (Ok (ch, e), c)"
    using assms(1) by (simp add: acknowledgement_checks_near)
  moreover have "ch_connection_hops ch \<noteq> []" using assms(1) by (simp add: ack_channel_ok_def)
  ultimately show ?thesis
    using assms(2,3)
    by (simp add: near_init_def near_step_def unwrap_prog_def cast_either_def index_def
        client_account_def ack_query_def packet_digest_def)
qed

lemma acknowledge_query_eval:
  assumes "account_id_ok env (source_port p)"
  shows "near_callback env CbQuery
     (AcknowledgePacket (Acknowledgement_MembershipVerified p ack con))
     (ResQuery [RespVerifyMembership True]) c =
   (Ok ([], Promise (AppAcknowledgePacket (source_port p) p ack) CbAcknowledgePacket
      (AcknowledgePacket (Acknowledgement_CallbackCalled p con))), c)"
  by (simp add: near_step_def unwrap_prog_def cast_either_def try_account_def assms)

text \<open>C33. The receipt is looked at when \<^verbatim>\<open>RecvPacket\<close> starts and written after the application has
  answered. Two relays of one packet that start before the first is finished both pass: the contract
  reaches a state in which it has called the application twice for the same packet.\<close>

theorem packet_delivered_twice:
  assumes "recv_channel_ok env c p ch e" and "\<not> no_timeout p" and "\<not> timed_out env p"
    and "near_read_raw c (receipt_path p) = None" and "clients c (ce_client_id e) = Some acct"
    and "account_id_ok env (destination_port p)" and "wf_packet p"
  shows "(near_sys_step env)\<^sup>*\<^sup>* \<lparr>sys_contract = c, sys_pending = []\<rparr>
    \<lparr>sys_contract = c, sys_pending =
       [(AppRecvPacket (destination_port p) p, CbRecvPacket, RecvPacket (RecvPacket_CallbackCalled p ch)),
        (AppRecvPacket (destination_port p) p, CbRecvPacket, RecvPacket (RecvPacket_CallbackCalled p ch))]\<rparr>"
  by (rule two_calls_two_answers [OF recv_entry_eval [OF assms(1-5)] recv_entry_eval [OF assms(1-5)]
        recv_query_eval [OF assms(6)] recv_query_eval [OF assms(6)]])
    (use assms(7) in simp_all)

text \<open>The same holds of acknowledgements: the commitment is deleted only after the application
  has answered, so two acknowledgements of one packet that start before that both call the
  application of the sender.\<close>

theorem packet_acknowledged_twice:
  assumes "ack_channel_ok env c p ch e"
    and "near_read_raw c (commitment_path p) = Some (packet_digest env p)"
    and "clients c (ce_client_id e) = Some acct"
    and "account_id_ok env (source_port p)" and "wf_packet p"
  shows "(near_sys_step env)\<^sup>*\<^sup>* \<lparr>sys_contract = c, sys_pending = []\<rparr>
    \<lparr>sys_contract = c, sys_pending =
       [(AppAcknowledgePacket (source_port p) p ack, CbAcknowledgePacket,
         AcknowledgePacket (Acknowledgement_CallbackCalled p (ch_connection_hops ch ! 0))),
        (AppAcknowledgePacket (source_port p) p ack, CbAcknowledgePacket,
         AcknowledgePacket (Acknowledgement_CallbackCalled p (ch_connection_hops ch ! 0)))]\<rparr>"
  by (rule two_calls_two_answers [OF acknowledgement_entry_eval [OF assms(1-3)]
        acknowledgement_entry_eval [OF assms(1-3)]
        acknowledge_query_eval [OF assms(4)] acknowledge_query_eval [OF assms(4)]])
    (use assms(5) in simp_all)

section \<open>Replay protection is permanent\<close>

fun receipt_or_ack :: "path \<Rightarrow> bool" where
  "receipt_or_ack (ReceiptPath _ _ _) = True"
| "receipt_or_ack (AcknowledgementPath _ _ _) = True"
| "receipt_or_ack _ = False"

lemma only_recv_writes_receipts:
  "receipt_or_ack k \<Longrightarrow> vm_may_write m k \<Longrightarrow> \<exists>p ch. m = RecvPacket (RecvPacket_CallbackCalled p ch)"
  by (cases m; cases k)
    (auto split: create_client.splits update_client.splits connection_open_init.splits
      connection_open_try.splits connection_open_ack.splits connection_open_confirm.splits
      channel_open_init.splits channel_open_try.splits channel_open_ack.splits
      channel_open_confirm.splits send_packet.splits recv_packet.splits acknowledgement.splits)

definition protected_kept :: "near_contract \<Rightarrow> near_contract \<Rightarrow> bool" where
  \<comment> \<open>receipts stay and acknowledgements keep their value\<close>
  "protected_kept c c' \<longleftrightarrow>
     (\<forall>p ch n. valid_port_id p \<and> valid_channel_id ch \<and> n \<noteq> 0 \<longrightarrow>
        (near_read_raw c (ReceiptPath p ch n) \<noteq> None \<longrightarrow> near_read_raw c' (ReceiptPath p ch n) \<noteq> None) \<and>
        (\<forall>v. near_read_raw c (AcknowledgementPath p ch n) = Some v \<longrightarrow>
             near_read_raw c' (AcknowledgementPath p ch n) = Some v))"

lemma protected_kept_refl: "near_read_raw c' = near_read_raw c \<Longrightarrow> protected_kept c c'"
  by (simp add: protected_kept_def)

lemma recv_last_state:
  assumes "ibc_state_process (near_host env) (RecvPacket (RecvPacket_CallbackCalled p ch)) resp c =
      (Ok r, c')"
  obtains ack where
    "c' = near_insert (path_to_string (receipt_path p)) [1] c \<or>
     near_read_raw c (ack_path p) = None \<and>
     c' = near_insert (path_to_string (ack_path p)) (env_sha256 env ack)
            (near_insert (path_to_string (receipt_path p)) [1] c)"
  using assms by (auto simp: cast_either_Ok prog_ok Let_def split: response_splits if_splits)

lemma recv_last_kept:
  assumes "ibc_state_process (near_host env) (RecvPacket (RecvPacket_CallbackCalled p ch)) resp c =
      (Ok r, c')" and "wf_packet p"
  shows "protected_kept c c'"
proof -
  obtain ack where c': "c' = near_insert (path_to_string (receipt_path p)) [1] c \<or>
     near_read_raw c (ack_path p) = None \<and>
     c' = near_insert (path_to_string (ack_path p)) (env_sha256 env ack)
            (near_insert (path_to_string (receipt_path p)) [1] c)"
    using assms(1) by (rule recv_last_state)
  have inj: "path_to_string (AcknowledgementPath q ch' n) = path_to_string (ack_path p) \<longrightarrow>
      AcknowledgementPath q ch' n = ack_path p"
    if "valid_port_id q" "valid_channel_id ch'" "n \<noteq> 0" for q ch' n
    using that assms(2) path_to_string_inject [of "AcknowledgementPath q ch' n" "ack_path p"]
    by (simp add: wf_packet_def)
  show ?thesis
    unfolding protected_kept_def
  proof (intro allI impI conjI, elim conjE)
    fix q ch' n
    assume "near_read_raw c (ReceiptPath q ch' n) \<noteq> None"
    then show "near_read_raw c' (ReceiptPath q ch' n) \<noteq> None"
      using c' by auto
  next
    fix q ch' n v
    assume v: "valid_port_id q \<and> valid_channel_id ch' \<and> n \<noteq> 0"
      and a: "near_read_raw c (AcknowledgementPath q ch' n) = Some v"
    show "near_read_raw c' (AcknowledgementPath q ch' n) = Some v"
      using c' a inj [of q ch' n] v packet_string_neq(1) [symmetric] by auto
  qed
qed

lemma process_kept:
  assumes step: "ibc_state_process (near_host env) m resp c = (Ok r, c')" and wf: "wf_ibc_state m"
  shows "protected_kept c c'"
proof (cases r)
  case (Inl q)
  with near.left_step_store [of env m resp c _ c'] step show ?thesis
    by (auto intro: protected_kept_refl)
next
  case (Inr d)
  show ?thesis
  proof (cases "\<exists>p ch. m = RecvPacket (RecvPacket_CallbackCalled p ch)")
    case True
    then obtain p ch where m: "m = RecvPacket (RecvPacket_CallbackCalled p ch)" by blast
    with step wf show ?thesis by (auto intro: recv_last_kept)
  next
    case False
    then have "\<not> vm_may_write m k" if "receipt_or_ack k" for k
      using only_recv_writes_receipts that by blast
    then have "near_read_raw c' k = near_read_raw c k" if "receipt_or_ack k" "wf_path k" for k
      using near.right_step_frame [OF step [unfolded Inr] wf] that by simp
    then show ?thesis by (simp add: protected_kept_def)
  qed
qed

lemma near_step_kept:
  assumes "near_step env m resp c = (Ok r, c')" and "wf_ibc_state m"
  shows "protected_kept c c'"
proof -
  obtain evs pov where "r = (evs, pov)" by (cases r)
  with assms(1) have "near_step env m resp c = (Ok (evs, pov), c')" by simp
  then show ?thesis by (cases rule: near_step_Ok) (use assms(2) process_kept in blast)+
qed

lemma sys_step_kept:
  assumes "near_sys_step E S S'" and "pending_wf (sys_pending S)"
  shows "protected_kept (sys_contract S) (sys_contract S')"
  using assms(1)
proof cases
  case (register env ty acct c c' ps)
  with near_register_Ok [OF register(3)] show ?thesis by (auto intro: protected_kept_refl)
next
  case (call env call c evs pov c' ps)
  from near_step_kept [OF near_entry_Ok [OF call(3)] wf_call_state [OF call(5)]] call(1,2)
  show ?thesis by simp
next
  case (callback env cb m res c evs pov c' ps x qs)
  have wf: "wf_ibc_state m" using assms(2) callback(1) by (auto simp: pending_wf_def)
  from callback(3) show ?thesis
  proof (cases rule: near_callback_Ok)
    case (plain resp)
    from near_step_kept [OF plain wf] callback(1,2) show ?thesis by simp
  next
    case (new_client cid ty cs cons a)
    from near_step_kept [OF new_client(4) wf] callback(1,2) show ?thesis
      by (simp add: protected_kept_def)
  qed
next
  case (callback_failed env cb m res c c' ps x qs)
  then show ?thesis by (auto intro: protected_kept_refl)
qed


section \<open>Sending\<close>


section \<open>A packet's whole way\<close>

lemma stored_channel_commitments:
  "stored_channel env c p ch e \<longleftrightarrow>
     (\<exists>bs. commitments c (path_to_string (ChannelEndPath p ch)) = Some bs \<and>
           decode_channel (env_prost env) bs = Some e)"
  by (auto simp: stored_channel_def prog_ok near_read_raw_def split: option.splits)

lemma stored_connection_commitments:
  "stored_connection env c con e \<longleftrightarrow>
     (\<exists>bs. commitments c (path_to_string (ConnectionPath con)) = Some bs \<and>
           decode_connection (env_prost env) bs = Some e)"
  by (auto simp: stored_connection_def prog_ok near_read_raw_def split: option.splits)

lemma end_string_neq [simp]:
  "path_to_string (ChannelEndPath p ch) \<noteq> path_to_string (CommitmentPath p' ch' n)"
  "path_to_string (ChannelEndPath p ch) \<noteq> path_to_string (NextSequenceSendPath p' ch')"
  "path_to_string (ConnectionPath con) \<noteq> path_to_string (CommitmentPath p' ch' n)"
  "path_to_string (ConnectionPath con) \<noteq> path_to_string (NextSequenceSendPath p' ch')"
  by (simp_all add: path_to_string_def ibc_path_display_def)

definition put_sent :: "near_env \<Rightarrow> packet \<Rightarrow> near_contract \<Rightarrow> near_contract" where
  "put_sent env p c =
     near_insert (path_to_string (commitment_path p)) (packet_digest env p)
       (near_insert (path_to_string (NextSequenceSendPath (source_port p) (source_channel p)))
          (u64_to_be_bytes (sequence p + 1)) c)"

definition put_received :: "near_env \<Rightarrow> packet \<Rightarrow> bytes \<Rightarrow> near_contract \<Rightarrow> near_contract" where
  "put_received env p ack c =
     near_insert (path_to_string (ack_path p)) (env_sha256 env ack)
       (near_insert (path_to_string (receipt_path p)) [1] c)"

definition drop_commitment :: "packet \<Rightarrow> near_contract \<Rightarrow> near_contract" where
  "drop_commitment p c = c\<lparr>commitments := (commitments c)(path_to_string (commitment_path p) := None)\<rparr>"

lemma ack_channel_ok_sent [simp]: "ack_channel_ok env (put_sent env p c) q ch e = ack_channel_ok env c q ch e"
  by (simp add: ack_channel_ok_def stored_channel_commitments stored_connection_commitments
      put_sent_def near_insert_def)

lemma send_first_eval:
  assumes "ack_channel_ok env c p ch e" and "\<not> no_timeout p"
    and "valid_channel_id (destination_channel p)"
  shows "ibc_state_process (near_host env) (SendPacket (SendPacket_Init (source_port p)
      (source_channel p) (timeout_height p) (timeout_timestamp p) (packet_data p))) [RespEmpty] c =
    (Ok (Inl (SendPacket (SendPacket_LatestHeightFetched (ce_client_id e) (ch_connection_hops ch ! 0)
       (source_port p) (source_channel p) (destination_port p) (destination_channel p)
       (timeout_height p) (timeout_timestamp p) (packet_data p)),
       Query (ce_client_id e) [QStatus, QLatestHeight])), c)"
proof -
  have "read_channel_or (near_host env) (source_port p) (source_channel p) c = (Ok ch, c)"
    "read_open_connection (near_host env) (ch_connection_hops ch) c = (Ok e, c)"
    using assms(1) by (simp_all add: read_channel_or_near read_open_connection_near ack_channel_ok_def)
  then show ?thesis
    using assms by (simp add: cast_either_def ack_channel_ok_def no_timeout_def index_def)
qed

lemma send_last_eval:
  assumes "next_send c (source_port p) (source_channel p) = Some (u64_to_be_bytes (sequence p))"
    and "sequence p \<noteq> 0" and "sequence p \<noteq> -1"
    and "timeout_height p = default_height \<or> hh < timeout_height p"
    and "timeout_timestamp p = 0 \<or> ts < timeout_timestamp p"
  shows "\<exists>evs. ibc_state_process (near_host env) (SendPacket (SendPacket_TimestampFetched hh con
      (source_port p) (source_channel p) (destination_port p) (destination_channel p)
      (timeout_height p) (timeout_timestamp p) (packet_data p))) [RespTimestampAtHeight ts] c =
    (Ok (Inr (evs, VmSendPacket (sequence p))), put_sent env p c)"
proof -
  have "unat (sequence p) + 1 < 2 ^ 64"
    using assms(3) unat_plus_one [of "sequence p"] unat_u64_bound [of "sequence p + 1"] by simp
  then have "checked_add_u64 (sequence p) 1 = Some (sequence p + 1)"
    by (simp add: checked_add_u64_def)
  then show ?thesis
    using assms
    by (auto simp: cast_either_right prog_ok Let_def put_sent_def packet_digest_def
        packet_preimage_def not_le)
qed

lemma run_send:
  assumes "ack_channel_ok env c p ch e" and "\<not> no_timeout p"
    and "valid_channel_id (destination_channel p)"
    and "next_send c (source_port p) (source_channel p) = Some (u64_to_be_bytes (sequence p))"
    and "sequence p \<noteq> 0" and "sequence p \<noteq> -1"
    and "timeout_height p = default_height \<or> peer_height P < timeout_height p"
    and "timeout_timestamp p = 0 \<or> peer_timestamp P < timeout_timestamp p"
  shows "\<exists>evs. run_message env P (SendPacket (SendPacket_Init (source_port p) (source_channel p)
      (timeout_height p) (timeout_timestamp p) (packet_data p))) c =
    Some (evs, VmSendPacket (sequence p), put_sent env p c)"
proof -
  obtain evs where last: "ibc_state_process (near_host env) (SendPacket (SendPacket_TimestampFetched
      (peer_height P) (ch_connection_hops ch ! 0) (source_port p) (source_channel p)
      (destination_port p) (destination_channel p) (timeout_height p) (timeout_timestamp p)
      (packet_data p))) [RespTimestampAtHeight (peer_timestamp P)] c =
    (Ok (Inr (evs, VmSendPacket (sequence p))), put_sent env p c)"
    using send_last_eval [OF assms(4-8)] by blast
  have middle: "ibc_state_process (near_host env) (SendPacket (SendPacket_LatestHeightFetched
      (ce_client_id e) (ch_connection_hops ch ! 0) (source_port p) (source_channel p)
      (destination_port p) (destination_channel p) (timeout_height p) (timeout_timestamp p)
      (packet_data p))) (peer_answer P (Query (ce_client_id e) [QStatus, QLatestHeight])) c =
    (Ok (Inl (SendPacket (SendPacket_TimestampFetched (peer_height P) (ch_connection_hops ch ! 0)
       (source_port p) (source_channel p) (destination_port p) (destination_channel p)
       (timeout_height p) (timeout_timestamp p) (packet_data p)),
       Query (ce_client_id e) [QTimestampAtHeight (peer_height P)])), c)"
    by (simp add: cast_either_def)
  have answer: "peer_answer P (Query (ce_client_id e) [QTimestampAtHeight (peer_height P)]) =
      [RespTimestampAtHeight (peer_timestamp P)]"
    by simp
  from run_message_3 [OF send_first_eval [OF assms(1-3)] middle, unfolded answer, OF last]
  show ?thesis by blast
qed

lemma recv_last_eval:
  assumes "ch_connection_hops ch \<noteq> []" and "near_read_raw c (ack_path p) = None" and "ack \<noteq> []"
  shows "\<exists>evs. ibc_state_process (near_host env) (RecvPacket (RecvPacket_CallbackCalled p ch))
      [RespOnRecvPacket ack] c = (Ok (Inr (evs, VmEmpty)), put_received env p ack c)"
proof -
  have "write_acknowledgement (near_host env) ch p ack (near_insert (path_to_string (receipt_path p)) [1] c) =
    (Ok (EvWriteAcknowledgement (packet_event p (packet_data p) (ch_connection_hops ch ! 0))
            (env_hex_encode env ack)), put_received env p ack c)"
    using assms packet_string_neq(1) [symmetric] by (simp add: write_acknowledgement_near put_received_def)
  then show ?thesis
    using assms by (simp add: cast_either_def near_commit_raw_def index_def Let_def)
qed

lemma recv_callback_eval:
  assumes "ch_connection_hops ch \<noteq> []" and "near_read_raw c (ack_path p) = None" and "ack \<noteq> []"
  shows "\<exists>evs. near_callback env CbRecvPacket (RecvPacket (RecvPacket_CallbackCalled p ch)) (ResAck ack) c =
    (Ok (evs, Value VmEmpty), put_received env p ack c)"
  using recv_last_eval [OF assms, of env]
  by (auto simp: near_step_def unwrap_prog_def simp del: ibc_state_process.simps)

lemma run_recv:
  assumes "recv_channel_ok env c p ch e" and "\<not> no_timeout p" and "\<not> timed_out env p"
    and "near_read_raw c (receipt_path p) = None" and "near_read_raw c (ack_path p) = None"
    and "query_true (peer_store P) (commitment_query env p pr h)" and "peer_ack P \<noteq> []"
  shows "\<exists>evs. run_message env P (RecvPacket (RecvPacket_Init p pr h)) c =
    Some (evs, VmEmpty, put_received env p (peer_ack P) c)"
proof -
  have hops: "ch_connection_hops ch \<noteq> []" using assms(1) by (simp add: recv_channel_ok_def)
  have checks: "recv_packet_checks (near_host env) p c = (Ok (ch, e), c)"
    using assms(1-3) by (simp add: recv_packet_checks_near)
  have first: "ibc_state_process (near_host env) (RecvPacket (RecvPacket_Init p pr h)) [RespEmpty] c =
      (Ok (Inl (RecvPacket (RecvPacket_MembershipVerified p ch),
                Query (ce_client_id e) [commitment_query env p pr h])), c)"
    using checks assms(4) hops
    by (simp add: cast_either_def index_def commitment_query_def packet_digest_def)
  have answer: "peer_query P (commitment_query env p pr h) = RespVerifyMembership True"
    using assms(6) by (simp add: commitment_query_def)
  have middle: "ibc_state_process (near_host env) (RecvPacket (RecvPacket_MembershipVerified p ch))
      (peer_answer P (Query (ce_client_id e) [commitment_query env p pr h])) c =
    (Ok (Inl (RecvPacket (RecvPacket_CallbackCalled p ch), Write (MsgOnRecvPacket p))), c)"
    by (simp add: cast_either_def answer)
  have "\<exists>evs. ibc_state_process (near_host env) (RecvPacket (RecvPacket_CallbackCalled p ch))
      (peer_answer P (Write (MsgOnRecvPacket p))) c =
    (Ok (Inr (evs, VmEmpty)), put_received env p (peer_ack P) c)"
    using recv_last_eval [OF hops assms(5,7)] by simp
  then show ?thesis using run_message_3 [OF first middle] by blast
qed

lemma run_acknowledge:
  assumes "ack_channel_ok env c p ch e"
    and "near_read_raw c (commitment_path p) = Some (packet_digest env p)"
    and "query_true (peer_store P) (ack_query env p ack pr h)"
  shows "\<exists>evs. run_message env P (AcknowledgePacket (Acknowledgement_Init p ack pr h)) c =
    Some (evs, VmEmpty, drop_commitment p c)"
proof -
  have hops: "ch_connection_hops ch \<noteq> []" using assms(1) by (simp add: ack_channel_ok_def)
  have checks: "acknowledgement_checks (near_host env) p c = (Ok (ch, e), c)"
    using assms(1) by (simp add: acknowledgement_checks_near)
  have first: "ibc_state_process (near_host env) (AcknowledgePacket (Acknowledgement_Init p ack pr h))
      [RespEmpty] c =
    (Ok (Inl (AcknowledgePacket (Acknowledgement_MembershipVerified p ack (ch_connection_hops ch ! 0)),
              Query (ce_client_id e) [ack_query env p ack pr h])), c)"
    using checks assms(2) hops
    by (simp add: cast_either_def index_def ack_query_def packet_digest_def)
  have answer: "peer_query P (ack_query env p ack pr h) = RespVerifyMembership True"
    using assms(3) by (simp add: ack_query_def)
  have middle: "ibc_state_process (near_host env)
      (AcknowledgePacket (Acknowledgement_MembershipVerified p ack (ch_connection_hops ch ! 0)))
      (peer_answer P (Query (ce_client_id e) [ack_query env p ack pr h])) c =
    (Ok (Inl (AcknowledgePacket (Acknowledgement_CallbackCalled p (ch_connection_hops ch ! 0)),
              Write (MsgOnAcknowledgePacket p ack))), c)"
    by (simp add: cast_either_def answer)
  have "\<exists>evs. ibc_state_process (near_host env)
      (AcknowledgePacket (Acknowledgement_CallbackCalled p (ch_connection_hops ch ! 0)))
      (peer_answer P (Write (MsgOnAcknowledgePacket p ack))) c =
    (Ok (Inr (evs, VmEmpty)), drop_commitment p c)"
    by (simp add: cast_either_def callback_ok_def near_delete_def drop_commitment_def)
  then show ?thesis using run_message_3 [OF first middle] by blast
qed

text \<open>C26. A packet's way over an open channel: sent by one chain, it gets the next sequence of the
  channel; received by the other with a true proof of its commitment before it times out, it leaves
  the application's acknowledgement; and acknowledged at home with a true proof of that, its
  commitment is removed. All three messages finish.\<close>

theorem packet_way_completes:
  assumes chans: "ack_channel_ok env a p chA eA" "recv_channel_ok env b p chB eB"
    and p: "wf_packet p" "\<not> no_timeout p" "\<not> timed_out env p" "sequence p \<noteq> -1"
    and seq: "next_send a (source_port p) (source_channel p) = Some (u64_to_be_bytes (sequence p))"
    and fresh: "near_read_raw b (receipt_path p) = None" "near_read_raw b (ack_path p) = None"
    and peer: "timeout_height p = default_height \<or> peer_height peerA < timeout_height p"
      "timeout_timestamp p = 0 \<or> peer_timestamp peerA < timeout_timestamp p"
    and ack: "peer_ack peerB = ack" "ack \<noteq> []"
  shows "\<exists>a1 b1 a2 e1 e2 e3.
     run_message env (peerA\<lparr>peer_store := b\<rparr>)
       (SendPacket (SendPacket_Init (source_port p) (source_channel p) (timeout_height p)
          (timeout_timestamp p) (packet_data p))) a = Some (e1, VmSendPacket (sequence p), a1) \<and>
     run_message env (peerB\<lparr>peer_store := a1\<rparr>) (RecvPacket (RecvPacket_Init p pr1 h1)) b =
       Some (e2, VmEmpty, b1) \<and>
     run_message env (peerA\<lparr>peer_store := b1\<rparr>)
       (AcknowledgePacket (Acknowledgement_Init p ack pr2 h2)) a1 = Some (e3, VmEmpty, a2) \<and>
     near_read_raw a1 (commitment_path p) = Some (packet_digest env p) \<and>
     near_read_raw b1 (receipt_path p) = Some [1] \<and>
     near_read_raw b1 (ack_path p) = Some (env_sha256 env ack) \<and>
     near_read_raw a2 (commitment_path p) = None"
proof -
  define a1 where "a1 = put_sent env p a"
  define b1 where "b1 = put_received env p ack b"
  have com: "near_read_raw a1 (commitment_path p) = Some (packet_digest env p)"
    by (simp add: a1_def put_sent_def)
  have got: "near_read_raw b1 (receipt_path p) = Some [1]"
    "near_read_raw b1 (ack_path p) = Some (env_sha256 env ack)"
    by (simp_all add: b1_def put_received_def)
  have q1: "query_true a1 (commitment_query env p pr1 h1)"
    using com by (simp add: commitment_query_def near_read_raw_def)
  have q2: "query_true b1 (ack_query env p ack pr2 h2)"
    using got(2) by (simp add: ack_query_def near_read_raw_def)
  have gone: "near_read_raw (drop_commitment p a1) (commitment_path p) = None"
    by (simp add: drop_commitment_def near_read_raw_def)
  from p(1) have valid: "valid_channel_id (destination_channel p)" "sequence p \<noteq> 0"
    by (simp_all add: wf_packet_def)
  note sent = run_send [OF chans(1) p(2) valid(1) seq valid(2) p(4), of "peerA\<lparr>peer_store := b\<rparr>"]
  note received = run_recv [OF chans(2) p(2,3) fresh, of "peerB\<lparr>peer_store := a1\<rparr>" pr1 h1]
  have home: "ack_channel_ok env a1 p chA eA" using chans(1) by (simp add: a1_def)
  note acked = run_acknowledge [OF home com, of "peerA\<lparr>peer_store := b1\<rparr>" ack pr2 h2]
  show ?thesis
    using sent received acked q1 q2 peer ack com got gone
    by (simp add: a1_def [symmetric] b1_def [symmetric]) blast
qed

end
