(* ===== verification/Packet_Examples.thy ===== *)
theory Packet_Examples imports Packet_Flow begin

text \<open>
  A run of the contract from its initial state to a channel over an open connection, and the theorems
  on packets applied to it and to two chains with an open channel between them.
\<close>

section \<open>A run of the contract\<close>

lemma near_step_query:
  assumes "ibc_state_process (near_host env) m resp c = (Ok (Inl (m', Query cl qs)), c')"
    and "clients c' cl = Some acct"
  shows "near_step env m resp c = (Ok ([], Promise (LcQuery acct qs) CbQuery m'), c')"
  using assms by (simp add: near_step_def unwrap_prog_def client_account_def)

lemma near_step_done:
  assumes "ibc_state_process (near_host env) m resp c = (Ok (Inr (evs, v)), c')"
  shows "near_step env m resp c = (Ok (evs, Value v), c')"
  using assms by (simp add: near_step_def unwrap_prog_def)

lemma reach_entry:
  assumes "near_reach env n \<lparr>sys_contract = c, sys_pending = ps\<rparr>"
    and "near_entry env call c = (Ok (evs, pov), c')" and "wf_near_call call"
  shows "near_reach env (Suc n) \<lparr>sys_contract = c', sys_pending = ps @ schedule pov\<rparr>"
  using near_reach_step [OF assms(1) sys_call [OF assms(2,3)]] .

lemma reach_callback:
  assumes "near_reach env n \<lparr>sys_contract = c, sys_pending = ps @ [(x, cb, m)]\<rparr>"
    and "near_callback env cb m res c = (Ok (evs, pov), c')"
  shows "near_reach env (Suc n) \<lparr>sys_contract = c', sys_pending = ps @ schedule pov\<rparr>"
  using near_reach_step [OF assms(1)] near_sys_step.callback [OF assms(2) same_chain_refl, of ps x "[]"]
  by simp

definition run_registered :: near_contract where
  "run_registered = near_default\<lparr>account_ids := [''cometbls'' \<mapsto> ''lc.near'']\<rparr>"

definition run_client :: near_contract where
  "run_client = run_registered\<lparr>client_index := 1, clients := [''cometbls-1'' \<mapsto> ''lc.near'']\<rparr>"

definition run_tryopen :: near_contract where
  "run_tryopen = put_connection example_env ''connection-1'' (example_end ConnTryopen ''connection-2'')
     (bump_connection run_client)"

definition run_open :: near_contract where
  "run_open = put_connection example_env ''connection-1'' (example_end ConnOpen ''connection-2'') run_tryopen"

definition run_channel :: near_contract where
  "run_channel = put_new_channel example_env ''app.near'' ''channel-1'' (example_channel ChanInit [])
     (bump_channel run_open)"

lemma show_u64_1 [simp]: "show_u64 1 = ''1''"
  by (simp add: show_u64_def show_nat.simps digit_char_def char_of_def bit_0)

lemma run_ids [simp]:
  "new_connection_id run_client = ''connection-1''" "new_channel_id run_open = ''channel-1''"
  by (simp_all add: new_connection_id_def new_channel_id_def run_client_def run_registered_def
      near_default_def run_open_def run_tryopen_def put_connection_def bump_connection_def)

lemma run_clients [simp]:
  "clients run_client = [''cometbls-1'' \<mapsto> ''lc.near'']"
  "clients run_tryopen = [''cometbls-1'' \<mapsto> ''lc.near'']"
  "clients run_open = [''cometbls-1'' \<mapsto> ''lc.near'']"
  by (simp_all add: run_client_def run_tryopen_def run_open_def put_connection_def bump_connection_def)

lemma reach_registered: "near_reach example_env 1 \<lparr>sys_contract = run_registered, sys_pending = []\<rparr>"
proof -
  have "near_register_client example_env ''cometbls'' ''lc.near'' near_default = (Ok (), run_registered)"
    by (simp add: near_register_client_def try_account_def run_registered_def near_default_def)
  from near_sys_step.register [OF this same_chain_refl, of "[]"]
  have "near_sys_step example_env near_start \<lparr>sys_contract = run_registered, sys_pending = []\<rparr>"
    by (simp add: near_start_def)
  from near_reach_step [OF near_reach_start this] show ?thesis by simp
qed

lemma run_create_first:
  "near_entry example_env (CallCreateClient ''cometbls'' [1] [2]) run_registered =
     (Ok ([], Promise (LcInitialize ''lc.near'' ''cometbls-1'' [1] [2]) CbInitialize
        (CreateClient (CreateClient_Initialize ''cometbls-1'' ''cometbls'' [1] [2]))),
      run_registered\<lparr>client_index := 1\<rparr>)"
  using example_ids_valid(1)
  by (simp add: near_init_def near_step_def unwrap_prog_def cast_either_def
      near_next_client_identifier_def run_registered_def near_default_def)

lemma run_create_second:
  "near_callback example_env CbInitialize
     (CreateClient (CreateClient_Initialize ''cometbls-1'' ''cometbls'' [1] [2])) ResUnit
     (run_registered\<lparr>client_index := 1\<rparr>) =
   (Ok ([], Promise (LcQuery ''lc.near'' [QStatus, QLatestHeight]) CbQuery
      (CreateClient (CreateClient_FetchLcData ''cometbls-1'' ''cometbls'' [1] [2]))), run_client)"
  by (simp add: callback_initialize_def near_insert_client_def near_step_def unwrap_prog_def
      cast_either_def client_account_def run_client_def run_registered_def near_default_def)

abbreviation run_pending :: "pending_call list" where
  "run_pending \<equiv> [(LcQuery ''lc.near'' [QStatus, QLatestHeight], CbQuery,
     CreateClient (CreateClient_FetchLcData ''cometbls-1'' ''cometbls'' [1] [2]))]"

lemma reach_client: "near_reach example_env 3 \<lparr>sys_contract = run_client, sys_pending = run_pending\<rparr>"
proof -
  from reach_entry [OF reach_registered run_create_first]
  have "near_reach example_env 2 \<lparr>sys_contract = run_registered\<lparr>client_index := 1\<rparr>,
      sys_pending = [] @ [(LcInitialize ''lc.near'' ''cometbls-1'' [1] [2], CbInitialize,
        CreateClient (CreateClient_Initialize ''cometbls-1'' ''cometbls'' [1] [2]))]\<rparr>"
    by (simp add: numeral_2_eq_2)
  from reach_callback [OF this run_create_second] show ?thesis by simp
qed

lemma run_try_steps:
  "\<exists>qs. near_entry example_env (CallConnectionOpenTry ''cometbls-1'' (example_counterparty ''connection-2'')
      DEFAULT_IBC_VERSION [] default_height 0) run_client =
    (Ok ([], Promise (LcQuery ''lc.near'' qs) CbQuery (ConnectionOpenTry
       (ConnectionOpenTry_ConnectionStateVerified ''cometbls-1'' (example_counterparty ''connection-2'') 0))),
     run_client)"
  "\<exists>evs. near_callback example_env CbQuery (ConnectionOpenTry (ConnectionOpenTry_ConnectionStateVerified
      ''cometbls-1'' (example_counterparty ''connection-2'') 0)) (ResQuery [RespVerifyMembership True])
      run_client = (Ok (evs, Value VmEmpty), run_tryopen)"
proof -
  show "\<exists>qs. near_entry example_env (CallConnectionOpenTry ''cometbls-1''
      (example_counterparty ''connection-2'') DEFAULT_IBC_VERSION [] default_height 0) run_client =
    (Ok ([], Promise (LcQuery ''lc.near'' qs) CbQuery (ConnectionOpenTry
       (ConnectionOpenTry_ConnectionStateVerified ''cometbls-1'' (example_counterparty ''connection-2'') 0))),
     run_client)"
    using near_step_query [OF open_try_init_step, of run_client "''cometbls-1''"]
    by (simp add: near_init_def del: ibc_state_process.simps)
  have "ibc_state_process (near_host example_env)
     (ConnectionOpenTry (ConnectionOpenTry_ConnectionStateVerified ''cometbls-1''
        (example_counterparty ''connection-2'') 0)) [RespVerifyMembership True] run_client =
   (Ok (Inr ([EvConnectionOpenTry (new_connection_id run_client) ''cometbls-1'' ''cometbls-2''
                ''connection-2''], VmEmpty)),
    put_connection example_env (new_connection_id run_client)
      (example_end ConnTryopen ''connection-2'') (bump_connection run_client))"
    using near_commit_connection_eval [of example_env]
    by (simp add: cast_either_def near_next_connection_eval example_end_def)
  from near_step_done [OF this]
  show "\<exists>evs. near_callback example_env CbQuery (ConnectionOpenTry
      (ConnectionOpenTry_ConnectionStateVerified ''cometbls-1'' (example_counterparty ''connection-2'') 0))
      (ResQuery [RespVerifyMembership True]) run_client = (Ok (evs, Value VmEmpty), run_tryopen)"
    by (simp add: run_tryopen_def)
qed

lemma reach_tryopen: "near_reach example_env 5 \<lparr>sys_contract = run_tryopen, sys_pending = run_pending\<rparr>"
proof -
  obtain qs where e: "near_entry example_env (CallConnectionOpenTry ''cometbls-1''
      (example_counterparty ''connection-2'') DEFAULT_IBC_VERSION [] default_height 0) run_client =
    (Ok ([], Promise (LcQuery ''lc.near'' qs) CbQuery (ConnectionOpenTry
       (ConnectionOpenTry_ConnectionStateVerified ''cometbls-1'' (example_counterparty ''connection-2'') 0))),
     run_client)" using run_try_steps(1) by blast
  obtain evs where c: "near_callback example_env CbQuery (ConnectionOpenTry
      (ConnectionOpenTry_ConnectionStateVerified ''cometbls-1'' (example_counterparty ''connection-2'') 0))
      (ResQuery [RespVerifyMembership True]) run_client = (Ok (evs, Value VmEmpty), run_tryopen)"
    using run_try_steps(2) by blast
  from reach_entry [OF reach_client e]
  have "near_reach example_env 4 \<lparr>sys_contract = run_client, sys_pending = run_pending @
      [(LcQuery ''lc.near'' qs, CbQuery, ConnectionOpenTry (ConnectionOpenTry_ConnectionStateVerified
          ''cometbls-1'' (example_counterparty ''connection-2'') 0))]\<rparr>"
    by simp
  from reach_callback [OF this c] show ?thesis by simp
qed

lemma reach_open: "near_reach example_env 7 \<lparr>sys_contract = run_open, sys_pending = run_pending\<rparr>"
proof -
  let ?e = "example_end ConnTryopen ''connection-2''"
  have h: "holds_connection example_env run_tryopen ''connection-1'' ?e"
    unfolding run_tryopen_def by simp
  have st: "ce_state ?e = ConnTryopen" by simp
  obtain qs where e: "near_entry example_env (CallConnectionOpenConfirm ''connection-1'' [] default_height)
      run_tryopen = (Ok ([], Promise (LcQuery ''lc.near'' qs) CbQuery (ConnectionOpenConfirm
       (ConnectionOpenConfirm_ConnectionStateVerified ''cometbls-1'' ''connection-1'' ?e))), run_tryopen)"
    using near_step_query [OF confirm_first_eval [OF example_prost_env_ok h st example_ids_valid(3)]]
    by (simp add: near_init_def del: ibc_state_process.simps)
  have last: "ibc_state_process (near_host example_env)
      (ConnectionOpenConfirm (ConnectionOpenConfirm_ConnectionStateVerified ''cometbls-1'' ''connection-1'' ?e))
      [RespVerifyMembership True] run_tryopen =
    (Ok (Inr ([EvConnectionOpenConfirm ''connection-1'' ''cometbls-1'' ''cometbls-2'' ''connection-2''],
        VmEmpty)), run_open)"
    by (simp add: confirm_last_eval run_open_def del: ibc_state_process.simps)
  obtain evs where c: "near_callback example_env CbQuery (ConnectionOpenConfirm
      (ConnectionOpenConfirm_ConnectionStateVerified ''cometbls-1'' ''connection-1'' ?e))
      (ResQuery [RespVerifyMembership True]) run_tryopen = (Ok (evs, Value VmEmpty), run_open)"
    using near_step_done [OF last] by simp
  from reach_entry [OF reach_tryopen e]
  have "near_reach example_env 6 \<lparr>sys_contract = run_tryopen, sys_pending = run_pending @
      [(LcQuery ''lc.near'' qs, CbQuery, ConnectionOpenConfirm
         (ConnectionOpenConfirm_ConnectionStateVerified ''cometbls-1'' ''connection-1'' ?e))]\<rparr>"
    by simp
  from reach_callback [OF this c] show ?thesis by simp
qed

abbreviation run_cp :: channel_counterparty where
  "run_cp \<equiv> \<lparr>ccp_port_id = ''app2.near'', ccp_channel_id = []\<rparr>"

lemma run_open_holds:
  "holds_connection example_env run_open ''connection-1'' (example_end ConnOpen ''connection-2'')"
  unfolding run_open_def by simp

lemma run_channel_steps:
  "near_entry example_env (CallChannelOpenInit [''connection-1''] ''app.near'' run_cp ''v'') run_open =
     (Ok ([], Promise (LcQuery ''lc.near'' [QStatus]) CbQuery (ChannelOpenInit
        (ChannelOpenInit_StatusFetched ''cometbls-1'' [''connection-1''] ''app.near'' run_cp ''v''))),
      run_open)"
  "near_callback example_env CbQuery (ChannelOpenInit
        (ChannelOpenInit_StatusFetched ''cometbls-1'' [''connection-1''] ''app.near'' run_cp ''v''))
      (ResQuery [RespStatus Active]) run_open =
     (Ok ([], Promise (AppChannelOpenInit ''app.near'' Unordered [''connection-1''] ''app.near''
        ''channel-1'' run_cp ''v'') CbChanOpenInit (ChannelOpenInit
          (ChannelOpenInit_CallbackCalled ''channel-1'' [''connection-1''] ''app.near'' run_cp ''v''))),
      bump_channel run_open)"
  "\<exists>evs. near_callback example_env CbChanOpenInit (ChannelOpenInit
        (ChannelOpenInit_CallbackCalled ''channel-1'' [''connection-1''] ''app.near'' run_cp ''v''))
      (ResCallbackError None) (bump_channel run_open) = (Ok (evs, Value VmEmpty), run_channel)"
  using read_open_eval [OF run_open_holds example_prost_env_ok]
  by (simp_all add: near_init_def near_step_def unwrap_prog_def cast_either_def client_account_def
      near_next_channel_eval try_account_def callback_ok_def commit_new_channel_eval run_channel_def
      example_channel_def)

lemma reach_channel: "near_reach example_env 10 \<lparr>sys_contract = run_channel, sys_pending = run_pending\<rparr>"
proof -
  from reach_entry [OF reach_open run_channel_steps(1)]
  have 1: "near_reach example_env 8 \<lparr>sys_contract = run_open, sys_pending = run_pending @
      [(LcQuery ''lc.near'' [QStatus], CbQuery, ChannelOpenInit
        (ChannelOpenInit_StatusFetched ''cometbls-1'' [''connection-1''] ''app.near'' run_cp ''v''))]\<rparr>"
    by simp
  from reach_callback [OF 1 run_channel_steps(2)]
  have 2: "near_reach example_env 9 \<lparr>sys_contract = bump_channel run_open, sys_pending = run_pending @
      [(AppChannelOpenInit ''app.near'' Unordered [''connection-1''] ''app.near'' ''channel-1'' run_cp ''v'',
        CbChanOpenInit, ChannelOpenInit
          (ChannelOpenInit_CallbackCalled ''channel-1'' [''connection-1''] ''app.near'' run_cp ''v''))]\<rparr>"
    by simp
  obtain evs where "near_callback example_env CbChanOpenInit (ChannelOpenInit
        (ChannelOpenInit_CallbackCalled ''channel-1'' [''connection-1''] ''app.near'' run_cp ''v''))
      (ResCallbackError None) (bump_channel run_open) = (Ok (evs, Value VmEmpty), run_channel)"
    using run_channel_steps(3) by blast
  from reach_callback [OF 2 this] show ?thesis by simp
qed

section \<open>Sending\<close>

definition example_packet :: packet where
  "example_packet =
     \<lparr>sequence = 1, source_port = ''app.near'', source_channel = ''channel-1'',
      destination_port = ''app2.near'', destination_channel = ''channel-2'', packet_data = [7],
      timeout_height = default_height, timeout_timestamp = 5000\<rparr>"

lemma example_packet_simps [simp]:
  "sequence example_packet = 1" "source_port example_packet = ''app.near''"
  "source_channel example_packet = ''channel-1''" "destination_port example_packet = ''app2.near''"
  "destination_channel example_packet = ''channel-2''" "packet_data example_packet = [7]"
  "timeout_height example_packet = default_height" "timeout_timestamp example_packet = 5000"
  "wf_packet example_packet" "\<not> no_timeout example_packet" "\<not> timed_out example_env example_packet"
  by (simp_all add: example_packet_def wf_packet_def no_timeout_def timed_out_def)

lemma run_channel_next:
  "next_send run_channel ''app.near'' ''channel-1'' = Some (u64_to_be_bytes 1)"
  by (simp add: run_channel_def put_new_channel_def Let_def path_to_string_def
      ibc_path_display_def)


section \<open>An open channel\<close>

definition packet_chain_A :: near_contract where
  "packet_chain_A = near_insert (path_to_string (NextSequenceSendPath ''app.near'' ''channel-1''))
     (u64_to_be_bytes 1)
     (put_channel example_env ''app.near'' ''channel-1'' (example_channel ChanOpen ''channel-2'')
        example_chain_A)"

definition packet_channel_B :: channel where
  "packet_channel_B =
     \<lparr>ch_state = ChanOpen, ch_ordering = Unordered,
      ch_counterparty = \<lparr>ccp_port_id = ''app.near'', ccp_channel_id = ''channel-1''\<rparr>,
      ch_connection_hops = [''connection-2''], ch_version = ''v''\<rparr>"

definition packet_chain_B :: near_contract where
  "packet_chain_B = put_channel example_env ''app2.near'' ''channel-2'' packet_channel_B
     (example_chain_B\<lparr>clients := [''cometbls-1'' \<mapsto> ''lc.near'']\<rparr>)"

lemma stored_channel_sequence [simp]:
  "stored_channel env (near_insert (path_to_string (NextSequenceSendPath p ch)) v c) q ch' e =
     stored_channel env c q ch' e"
  "stored_connection env (near_insert (path_to_string (NextSequenceSendPath p ch)) v c) con e' =
     stored_connection env c con e'"
  by (simp_all add: stored_channel_commitments stored_connection_commitments near_insert_def)

lemma packet_channels_ok:
  "ack_channel_ok example_env packet_chain_A example_packet (example_channel ChanOpen ''channel-2'')
     (example_end ConnOpen ''connection-2'')"
  "recv_channel_ok example_env packet_chain_B example_packet packet_channel_B
     (example_end ConnOpen ''connection-1'')"
proof -
  have "holds_connection example_env (put_channel example_env ''app.near'' ''channel-1''
      (example_channel ChanOpen ''channel-2'') example_chain_A) ''connection-1''
      (example_end ConnOpen ''connection-2'')" by simp
  note conA = holds_stored [OF this example_prost_env_ok]
  show "ack_channel_ok example_env packet_chain_A example_packet (example_channel ChanOpen ''channel-2'')
     (example_end ConnOpen ''connection-2'')"
    using holds_channel_stored [OF holds_after_put_channel example_prost_env_ok] conA
    by (simp add: ack_channel_ok_def packet_chain_A_def)
  have wf: "wf_channel packet_channel_B" by (simp add: wf_channel_def packet_channel_B_def)
  have "holds_connection example_env packet_chain_B ''connection-2'' (example_end ConnOpen ''connection-1'')"
    using example_chains(2) by (simp add: packet_chain_B_def holds_connection_def)
  note conB = holds_stored [OF this example_prost_env_ok]
  have "stored_channel example_env packet_chain_B ''app2.near'' ''channel-2'' packet_channel_B"
    unfolding packet_chain_B_def
    by (rule holds_channel_stored [OF holds_after_put_channel [OF wf] example_prost_env_ok])
  with conB show "recv_channel_ok example_env packet_chain_B example_packet packet_channel_B
     (example_end ConnOpen ''connection-1'')"
    by (simp add: recv_channel_ok_def packet_channel_B_def)
qed

lemma packet_chain_B_empty:
  "near_read_raw packet_chain_B (receipt_path example_packet) = None"
  "near_read_raw packet_chain_B (ack_path example_packet) = None"
  "clients packet_chain_B ''cometbls-1'' = Some ''lc.near''"
  by (simp_all add: packet_chain_B_def put_channel_def example_chain_B_def put_connection_def
      near_default_def near_read_raw_def near_insert_def path_to_string_def ibc_path_display_def)

lemma no_collision_example [simp]: "no_collision example_env xs"
  by (simp add: no_collision_def)


theorem recv_packet_with_receipt_witness:
  "\<exists>evs pov c'. near_entry example_env (CallRecvPacket example_packet [] default_height)
      (put_received example_env example_packet [9] packet_chain_B) = (Ok (evs, pov), c') \<and>
     pov = Value VmEmpty \<and> c' = put_received example_env example_packet [9] packet_chain_B"
proof -
  let ?c = "put_received example_env example_packet [9] packet_chain_B"
  have got: "near_read_raw ?c (receipt_path example_packet) = Some [1]"
    by (simp add: put_received_def)
  have ok: "recv_channel_ok example_env ?c example_packet packet_channel_B (example_end ConnOpen ''connection-1'')"
    using packet_channels_ok(2)
    by (simp add: recv_channel_ok_def stored_channel_commitments stored_connection_commitments
        put_received_def near_insert_def path_to_string_def ibc_path_display_def)
  have "recv_packet_checks (near_host example_env) example_packet ?c =
      (Ok (packet_channel_B, example_end ConnOpen ''connection-1''), ?c)"
    using ok by (simp add: recv_packet_checks_near)
  then have "\<exists>evs. near_entry example_env (CallRecvPacket example_packet [] default_height) ?c =
      (Ok (evs, Value VmEmpty), ?c)"
    using got by (simp add: near_init_def near_step_def unwrap_prog_def cast_either_def index_def
        packet_channel_B_def)
  then obtain evs where e: "near_entry example_env (CallRecvPacket example_packet [] default_height) ?c =
      (Ok (evs, Value VmEmpty), ?c)" by blast
  from recv_packet_with_receipt [OF got e] e show ?thesis by blast
qed

theorem packet_delivered_twice_witness:
  "(near_sys_step example_env)\<^sup>*\<^sup>* \<lparr>sys_contract = packet_chain_B, sys_pending = []\<rparr>
    \<lparr>sys_contract = packet_chain_B, sys_pending =
       [(AppRecvPacket ''app2.near'' example_packet, CbRecvPacket,
         RecvPacket (RecvPacket_CallbackCalled example_packet packet_channel_B)),
        (AppRecvPacket ''app2.near'' example_packet, CbRecvPacket,
         RecvPacket (RecvPacket_CallbackCalled example_packet packet_channel_B))]\<rparr>"
  using packet_delivered_twice [OF packet_channels_ok(2) _ _ packet_chain_B_empty(1), of "''lc.near''"]
    packet_chain_B_empty(3) by simp

definition packet_sent_A :: near_contract where
  "packet_sent_A = put_sent example_env example_packet
     (packet_chain_A\<lparr>clients := [''cometbls-1'' \<mapsto> ''lc.near'']\<rparr>)"

lemma packet_sent_A_ok:
  "ack_channel_ok example_env packet_sent_A example_packet (example_channel ChanOpen ''channel-2'')
     (example_end ConnOpen ''connection-2'')"
  "near_read_raw packet_sent_A (commitment_path example_packet) =
     Some (packet_digest example_env example_packet)"
  "clients packet_sent_A ''cometbls-1'' = Some ''lc.near''"
proof -
  show "ack_channel_ok example_env packet_sent_A example_packet (example_channel ChanOpen ''channel-2'')
     (example_end ConnOpen ''connection-2'')"
    using packet_channels_ok(1)
    by (simp add: packet_sent_A_def ack_channel_ok_def stored_channel_commitments
        stored_connection_commitments put_sent_def near_insert_def)
qed (simp_all add: packet_sent_A_def put_sent_def)


theorem acknowledgement_without_commitment_witness:
  "\<exists>evs pov c'. near_entry example_env (CallAcknowledgement example_packet [9] [] default_height)
      packet_chain_A = (Ok (evs, pov), c') \<and> pov = Value VmEmpty \<and> c' = packet_chain_A"
proof -
  have none: "near_read_raw packet_chain_A (commitment_path example_packet) = None"
    by (simp add: packet_chain_A_def put_channel_def example_chain_A_def put_connection_def
        near_default_def near_read_raw_def near_insert_def path_to_string_def ibc_path_display_def)
  have "acknowledgement_checks (near_host example_env) example_packet packet_chain_A =
      (Ok (example_channel ChanOpen ''channel-2'', example_end ConnOpen ''connection-2''), packet_chain_A)"
    using packet_channels_ok(1) by (simp add: acknowledgement_checks_near)
  then have "\<exists>evs. near_entry example_env (CallAcknowledgement example_packet [9] [] default_height)
      packet_chain_A = (Ok (evs, Value VmEmpty), packet_chain_A)"
    using none by (simp add: near_init_def near_step_def unwrap_prog_def cast_either_def index_def)
  then obtain evs where "near_entry example_env (CallAcknowledgement example_packet [9] [] default_height)
      packet_chain_A = (Ok (evs, Value VmEmpty), packet_chain_A)" by blast
  with acknowledgement_without_commitment [OF none this] show ?thesis by blast
qed

theorem packet_acknowledged_twice_witness:
  "(near_sys_step example_env)\<^sup>*\<^sup>* \<lparr>sys_contract = packet_sent_A, sys_pending = []\<rparr>
    \<lparr>sys_contract = packet_sent_A, sys_pending =
       [(AppAcknowledgePacket ''app.near'' example_packet [9], CbAcknowledgePacket,
         AcknowledgePacket (Acknowledgement_CallbackCalled example_packet ''connection-1'')),
        (AppAcknowledgePacket ''app.near'' example_packet [9], CbAcknowledgePacket,
         AcknowledgePacket (Acknowledgement_CallbackCalled example_packet ''connection-1''))]\<rparr>"
  using packet_acknowledged_twice [OF packet_sent_A_ok(1,2), of "''lc.near''" "[9]"] packet_sent_A_ok(3)
  by simp

lemma packet_chain_A_next: "next_send packet_chain_A ''app.near'' ''channel-1'' = Some (u64_to_be_bytes 1)"
  by (simp add: packet_chain_A_def)

theorem packet_way_completes_witness:
  "\<exists>a1 b1 e1 e2.
     run_message example_env
       \<lparr>peer_store = packet_chain_B, peer_height = default_height, peer_timestamp = 1, peer_ack = [9]\<rparr>
       (SendPacket (SendPacket_Init ''app.near'' ''channel-1'' default_height 5000 [7])) packet_chain_A =
       Some (e1, VmSendPacket 1, a1) \<and>
     run_message example_env
       \<lparr>peer_store = a1, peer_height = default_height, peer_timestamp = 1, peer_ack = [9]\<rparr>
       (RecvPacket (RecvPacket_Init example_packet [] default_height)) packet_chain_B =
       Some (e2, VmEmpty, b1) \<and>
     near_read_raw b1 (ack_path example_packet) = Some [9]"
proof -
  let ?P = "\<lparr>peer_store = near_default, peer_height = default_height, peer_timestamp = 1, peer_ack = [9]\<rparr>"
  have c: "wf_packet example_packet" "\<not> no_timeout example_packet" "\<not> timed_out example_env example_packet"
    "sequence example_packet \<noteq> -1"
    "next_send packet_chain_A (source_port example_packet) (source_channel example_packet) =
       Some (u64_to_be_bytes (sequence example_packet))"
    using packet_chain_A_next by simp_all
  from packet_way_completes [OF packet_channels_ok c packet_chain_B_empty(1,2), of ?P ?P "[9]" "[]"
      default_height "[]" default_height]
  show ?thesis by simp blast
qed

section \<open>A reachable state with a receipt\<close>

definition run_channel_open :: near_contract where
  "run_channel_open = put_channel example_env ''app.near'' ''channel-1'' (example_channel ChanOpen ''channel-2'')
     run_channel"

definition run_packet :: packet where
  "run_packet =
     \<lparr>sequence = 1, source_port = ''app2.near'', source_channel = ''channel-2'',
      destination_port = ''app.near'', destination_channel = ''channel-1'', packet_data = [7],
      timeout_height = default_height, timeout_timestamp = 5000\<rparr>"

lemma run_packet_simps [simp]:
  "destination_port run_packet = ''app.near''" "destination_channel run_packet = ''channel-1''"
  "source_port run_packet = ''app2.near''" "source_channel run_packet = ''channel-2''"
  "sequence run_packet = 1" "wf_packet run_packet"
  "\<not> no_timeout run_packet" "\<not> timed_out example_env run_packet"
  by (simp_all add: run_packet_def wf_packet_def no_timeout_def timed_out_def)

definition run_received :: near_contract where
  "run_received = put_received example_env run_packet [9] run_channel_open"

lemma run_channel_holds:
  "holds_channel example_env run_channel ''app.near'' ''channel-1'' (example_channel ChanInit [])"
  "holds_connection example_env run_channel ''connection-1'' (example_end ConnOpen ''connection-2'')"
  "clients run_channel ''cometbls-1'' = Some ''lc.near''"
proof -
  have "holds_connection example_env (bump_channel run_open) ''connection-1''
      (example_end ConnOpen ''connection-2'')"
    using run_open_holds by (simp add: holds_connection_def bump_channel_def)
  then show "holds_connection example_env run_channel ''connection-1'' (example_end ConnOpen ''connection-2'')"
    unfolding run_channel_def by simp
  show "holds_channel example_env run_channel ''app.near'' ''channel-1'' (example_channel ChanInit [])"
    unfolding run_channel_def by simp
  show "clients run_channel ''cometbls-1'' = Some ''lc.near''"
    by (simp add: run_channel_def put_new_channel_def Let_def put_channel_def near_insert_def
        bump_channel_def)
qed

lemma reach_channel_open:
  "near_reach example_env 13 \<lparr>sys_contract = run_channel_open, sys_pending = run_pending\<rparr>"
proof -
  let ?x = "example_channel ChanInit []" and ?e = "example_end ConnOpen ''connection-2''"
  have x: "ch_state ?x = ChanInit" "ch_connection_hops ?x = [''connection-1'']" by simp_all
  have e: "ce_state ?e = ConnOpen" "valid_connection_id (remote_connection ?e)"
    "clients run_channel (ce_client_id ?e) = Some ''lc.near''"
    using run_channel_holds(3) by simp_all
  obtain qs where entry: "near_entry example_env
      (CallChannelOpenAck ''channel-1'' ''app.near'' ''channel-2'' ''v'' [] default_height) run_channel =
    (Ok ([], Promise (LcQuery ''lc.near'' qs) CbQuery (ChannelOpenAck
       (ChannelOpenAck_LcQueriesMade ''cometbls-1'' ''channel-1'' ''app.near'' ''channel-2'' ''v''))),
     run_channel)"
    using ack_entry_eval [OF example_prost_env_ok run_channel_holds(1) x run_channel_holds(2) e,
        where cch = "''channel-2''" and w = "''v''" and pr = "[]" and h = default_height]
    by (auto simp del: near_entry.simps)
  from reach_entry [OF reach_channel entry]
  have 1: "near_reach example_env 11 \<lparr>sys_contract = run_channel, sys_pending = run_pending @
      [(LcQuery ''lc.near'' qs, CbQuery, ChannelOpenAck
         (ChannelOpenAck_LcQueriesMade ''cometbls-1'' ''channel-1'' ''app.near'' ''channel-2'' ''v''))]\<rparr>"
    by simp
  have "account_id_ok example_env ''app.near''" by simp
  from reach_callback [OF 1 ack_query_eval [OF this]]
  have 2: "near_reach example_env 12 \<lparr>sys_contract = run_channel, sys_pending = run_pending @
      [(AppChannelOpenAck ''app.near'' ''app.near'' ''channel-1'' ''channel-2'' ''v'', CbChanOpenAck,
        ChannelOpenAck (ChannelOpenAck_CallbackCalled ''channel-1'' ''app.near'' ''channel-2'' ''v''))]\<rparr>"
    by simp
  have "valid_channel_id ''channel-2''" by simp
  from ack_callback_eval [OF example_prost_env_ok run_channel_holds(1) x(2) this, of "''v''"]
  obtain evs where "near_callback example_env CbChanOpenAck
      (ChannelOpenAck (ChannelOpenAck_CallbackCalled ''channel-1'' ''app.near'' ''channel-2'' ''v''))
      (ResCallbackError None) run_channel = (Ok (evs, Value VmEmpty), run_channel_open)"
    by (auto simp: run_channel_open_def example_channel_def)
  from reach_callback [OF 2 this] show ?thesis by simp
qed

lemma run_channel_open_ok:
  "recv_channel_ok example_env run_channel_open run_packet (example_channel ChanOpen ''channel-2'')
     (example_end ConnOpen ''connection-2'')"
  "clients run_channel_open ''cometbls-1'' = Some ''lc.near''"
  "near_read_raw run_channel_open (receipt_path run_packet) = None"
  "near_read_raw run_channel_open (ack_path run_packet) = None"
proof -
  have "holds_connection example_env run_channel_open ''connection-1'' (example_end ConnOpen ''connection-2'')"
    using run_channel_holds(2) by (simp add: run_channel_open_def)
  note con = holds_stored [OF this example_prost_env_ok]
  have "stored_channel example_env run_channel_open ''app.near'' ''channel-1''
      (example_channel ChanOpen ''channel-2'')"
    unfolding run_channel_open_def by (rule holds_channel_stored [OF _ example_prost_env_ok]) simp
  with con show "recv_channel_ok example_env run_channel_open run_packet
      (example_channel ChanOpen ''channel-2'') (example_end ConnOpen ''connection-2'')"
    by (simp add: recv_channel_ok_def example_channel_def)
  show "clients run_channel_open ''cometbls-1'' = Some ''lc.near''"
    using run_channel_holds(3) by (simp add: run_channel_open_def put_channel_def near_insert_def)
  show "near_read_raw run_channel_open (receipt_path run_packet) = None"
    "near_read_raw run_channel_open (ack_path run_packet) = None"
    by (simp_all add: run_channel_open_def put_channel_def run_channel_def put_new_channel_def Let_def
        bump_channel_def run_open_def run_tryopen_def put_connection_def bump_connection_def
        run_client_def run_registered_def near_default_def near_read_raw_def near_insert_def
        path_to_string_def ibc_path_display_def)
qed

lemma reach_received:
  "near_reach example_env 16 \<lparr>sys_contract = run_received, sys_pending = run_pending\<rparr>"
proof -
  let ?ch = "example_channel ChanOpen ''channel-2''"
  have "near_entry example_env (CallRecvPacket run_packet [] default_height) run_channel_open =
    (Ok ([], Promise (LcQuery ''lc.near'' [commitment_query example_env run_packet [] default_height])
       CbQuery (RecvPacket (RecvPacket_MembershipVerified run_packet ?ch))), run_channel_open)"
    using recv_entry_eval [OF run_channel_open_ok(1) _ _ run_channel_open_ok(3)] run_channel_open_ok(2) by simp
  from reach_entry [OF reach_channel_open this]
  have 1: "near_reach example_env 14 \<lparr>sys_contract = run_channel_open, sys_pending = run_pending @
      [(LcQuery ''lc.near'' [commitment_query example_env run_packet [] default_height], CbQuery,
        RecvPacket (RecvPacket_MembershipVerified run_packet ?ch))]\<rparr>"
    by simp
  have "account_id_ok example_env (destination_port run_packet)" by simp
  from reach_callback [OF 1 recv_query_eval [OF this]]
  have 2: "near_reach example_env 15 \<lparr>sys_contract = run_channel_open, sys_pending = run_pending @
      [(AppRecvPacket ''app.near'' run_packet, CbRecvPacket,
        RecvPacket (RecvPacket_CallbackCalled run_packet ?ch))]\<rparr>"
    by simp
  have "ch_connection_hops ?ch \<noteq> []" by simp
  from recv_callback_eval [OF this run_channel_open_ok(4), of "[9]" example_env]
  obtain evs where "near_callback example_env CbRecvPacket
      (RecvPacket (RecvPacket_CallbackCalled run_packet ?ch)) (ResAck [9]) run_channel_open =
      (Ok (evs, Value VmEmpty), run_received)"
    by (auto simp: run_received_def)
  from reach_callback [OF 2 this] show ?thesis by simp
qed


end
