(* ===== verification/Near_Claims.thy ===== *)
theory Near_Claims imports Packet_Examples begin

text \<open>
  What holds of the contract in every state it can reach, whoever calls it and whatever the light
  clients and the applications answer; and how its entry points and callbacks treat failures.
\<close>

section \<open>Reachable states\<close>

lemma near_read_total:
  assumes "\<And>bs. near_read_raw c k = Some bs \<Longrightarrow> dec bs \<noteq> None"
  shows "\<exists>r. near_read dec k c = (Ok r, c)"
  using assms by (cases "near_read_raw c k") (auto simp: near_read_Ok)

text \<open>In every reachable state, whatever is stored under the path of a connection or of a
  channel decodes: reading an end never panics.\<close>

theorem stored_ends_readable:
  assumes "near_reach E n S" and "prost_ok (env_prost E)" and "n < 2 ^ 64"
    and "valid_connection_id con" and "valid_port_id p" and "valid_channel_id ch"
  shows "(\<exists>r. near_read (decode_connection (env_prost E)) (ConnectionPath con) (sys_contract S) =
            (Ok r, sys_contract S)) \<and>
         (\<exists>r. near_read (decode_channel (env_prost E)) (ChannelEndPath p ch) (sys_contract S) =
            (Ok r, sys_contract S))"
proof -
  have rd: "readable (env_prost E) k bs" if "wf_path k" "near_read_raw (sys_contract S) k = Some bs" for k bs
    using near_reach_channel_inv [OF assms(1-3)] that
    by (simp add: channel_inv_def store_readable_def)
  have "decode_connection (env_prost E) bs \<noteq> None"
    if "near_read_raw (sys_contract S) (ConnectionPath con) = Some bs" for bs
    using rd [OF _ that] assms(4) by simp
  moreover have "decode_channel (env_prost E) bs \<noteq> None"
    if "near_read_raw (sys_contract S) (ChannelEndPath p ch) = Some bs" for bs
    using rd [OF _ that] assms(5,6) by simp
  ultimately show ?thesis by (intro conjI near_read_total)
qed

theorem stored_ends_readable_witness:
  "(\<exists>r. near_read (decode_connection (env_prost example_env)) (ConnectionPath ''connection-1'') run_channel =
      (Ok r, run_channel)) \<and>
   (\<exists>r. near_read (decode_channel (env_prost example_env)) (ChannelEndPath ''app.near'' ''channel-1'')
      run_channel = (Ok r, run_channel))"
  using stored_ends_readable [OF reach_channel example_prost_env_ok _ example_ids_valid(3,7,5)] by simp

lemma near_step_clients:
  assumes "near_step env m resp c = (Ok (evs, pov), c')"
  shows "clients c' = clients c"
  using assms
  by (cases rule: near_step_Ok) (auto dest: left_step_counters right_step_counters)



text \<open>The channel ids given to pending \<^verbatim>\<open>ChannelOpenInit\<close> and \<^verbatim>\<open>ChannelOpenTry\<close> messages are
  distinct, and none of them has a counter of sent packets yet, at any port: opening a channel never
  resets one that exists.\<close>

theorem pending_channels_fresh:
  assumes "near_reach E n S" and "prost_ok (env_prost E)" and "n < 2 ^ 64"
  shows "distinct (held new_channels (sys_pending S)) \<and>
     (\<forall>ch p. ch \<in> set (held new_channels (sys_pending S)) \<and> valid_channel_id ch \<and> valid_port_id p \<longrightarrow>
        next_send (sys_contract S) p ch = None)"
proof -
  have "distinct (held new_channels (sys_pending S))"
    and apart: "set (held new_channels (sys_pending S)) \<inter> used_channels (sys_contract S) = {}"
    using near_reach_channel_inv [OF assms] by (auto simp: channel_inv_def pool_ok_def)
  moreover have "next_send (sys_contract S) p ch = None"
    if "ch \<in> set (held new_channels (sys_pending S))" "valid_channel_id ch" "valid_port_id p" for ch p
  proof (rule ccontr)
    assume "next_send (sys_contract S) p ch \<noteq> None"
    with that have "ch \<in> used_channels (sys_contract S)" by (auto simp: used_channels_def)
    with apart that(1) show False by blast
  qed
  ultimately show ?thesis by blast
qed

theorem pending_channels_fresh_witness:
  "\<exists>ps. near_reach example_env 9 \<lparr>sys_contract = bump_channel run_open, sys_pending = ps\<rparr> \<and>
     held new_channels ps = [''channel-1''] \<and>
     next_send (bump_channel run_open) ''app.near'' ''channel-1'' = None"
proof -
  let ?q = "(LcQuery ''lc.near'' [QStatus], CbQuery, ChannelOpenInit
        (ChannelOpenInit_StatusFetched ''cometbls-1'' [''connection-1''] ''app.near'' run_cp ''v''))"
  let ?a = "(AppChannelOpenInit ''app.near'' Unordered [''connection-1''] ''app.near'' ''channel-1'' run_cp ''v'',
        CbChanOpenInit, ChannelOpenInit
          (ChannelOpenInit_CallbackCalled ''channel-1'' [''connection-1''] ''app.near'' run_cp ''v''))"
  from reach_entry [OF reach_open run_channel_steps(1)]
  have 1: "near_reach example_env 8 \<lparr>sys_contract = run_open, sys_pending = run_pending @ [?q]\<rparr>" by simp
  from reach_callback [OF 1 run_channel_steps(2)]
  have 2: "near_reach example_env 9 \<lparr>sys_contract = bump_channel run_open, sys_pending = run_pending @ [?a]\<rparr>"
    by simp
  have "next_send (bump_channel run_open) ''app.near'' ''channel-1'' = None"
    using pending_channels_fresh [OF 2 example_prost_env_ok] by simp
  with 2 show ?thesis by (intro exI [of _ "run_pending @ [?a]"]) simp
qed

section \<open>Writes\<close>

text \<open>A message writes only where its last step is meant to: the store is the same at every other
  path, and a step that goes on to a query or a callback changes nothing at all.\<close>

theorem message_writes_only_its_paths:
  assumes "ibc_state_process (near_host env) m resp c = (Ok r, c')" and "wf_ibc_state m"
    and "wf_path k" and "(\<exists>x. r = Inl x) \<or> \<not> vm_may_write m k"
  shows "near_read_raw c' k = near_read_raw c k"
proof (cases r)
  case (Inl q)
  with near.left_step_store [of env m resp c _ c'] assms(1) show ?thesis by auto
next
  case (Inr d)
  with near.right_step_frame [of env m resp c d c' k] assms show ?thesis by auto
qed

theorem message_writes_only_its_paths_witness:
  "near_read_raw (put_connection example_env ''connection-1'' (example_end ConnOpen ''connection-2'')
      near_default) (ChannelEndPath ''app.near'' ''channel-1'') =
   near_read_raw near_default (ChannelEndPath ''app.near'' ''channel-1'')"
  by (rule message_writes_only_its_paths [OF example_ack_steps(2)]) simp_all

section \<open>Failures\<close>


text \<open>The callback after a light client's \<^verbatim>\<open>initialize\<close> does not look at its result: also when that
  call has failed, the client id is registered and the creation goes on.\<close>

theorem failed_initialize_still_registers:
  assumes "account_ids c ty = Some a"
  shows "near_callback env CbInitialize (CreateClient (CreateClient_Initialize cid ty cs cons))
      PromiseFailed c =
    (Ok ([], Promise (LcQuery a [QStatus, QLatestHeight]) CbQuery
       (CreateClient (CreateClient_FetchLcData cid ty cs cons))),
     c\<lparr>clients := (clients c)(cid \<mapsto> a)\<rparr>)"
  using assms
  by (simp add: callback_initialize_def near_insert_client_def near_step_def unwrap_prog_def
      cast_either_def client_account_def)

theorem failed_initialize_still_registers_witness:
  "near_callback example_env CbInitialize
      (CreateClient (CreateClient_Initialize ''cometbls-1'' ''cometbls'' [1] [2])) PromiseFailed run_registered =
    (Ok ([], Promise (LcQuery ''lc.near'' [QStatus, QLatestHeight]) CbQuery
       (CreateClient (CreateClient_FetchLcData ''cometbls-1'' ''cometbls'' [1] [2]))),
     run_registered\<lparr>clients := (clients run_registered)(''cometbls-1'' \<mapsto> ''lc.near'')\<rparr>)"
  by (rule failed_initialize_still_registers) (simp add: run_registered_def)

text \<open>Only the account that a port names can send from it.\<close>

theorem only_port_owner_sends:
  assumes "near_entry env (CallSendPacket p ch th tt dat) c = (r, c')" and "r \<noteq> Panic"
  shows "env_predecessor env = p"
  using assms by (auto split: if_splits)

theorem only_port_owner_sends_witness: "env_predecessor example_env = ''app.near''"
proof (rule only_port_owner_sends)
  show "near_entry example_env (CallSendPacket ''app.near'' ''channel-1'' default_height 5000 [7])
      packet_chain_A = (Ok ([], Promise (LcQuery ''lc.near'' [QStatus, QLatestHeight]) CbQuery
        (SendPacket (SendPacket_LatestHeightFetched ''cometbls-1'' ''connection-1'' ''app.near'' ''channel-1''
           ''app2.near'' ''channel-2'' default_height 5000 [7]))), packet_chain_A)"
    using send_first_eval [OF packet_channels_ok(1)]
    by (simp add: near_init_def near_step_def unwrap_prog_def client_account_def packet_chain_A_def
        del: ibc_state_process.simps)
qed simp

text \<open>A client is given the id made of its type and the next counter; when that is not a valid
  identifier, for instance because the type is too short, creating the client panics.\<close>

theorem create_client_id:
  "ibc_state_process (near_host env) (CreateClient (CreateClient_Init ty cs cons)) [RespEmpty] c =
    (let cid = ty @ ''-'' @ show_u64 (client_index c + 1);
         c' = c\<lparr>client_index := client_index c + 1\<rparr> in
     if 9 \<le> length cid \<and> length cid \<le> 64 \<and> list_all ics024_char ty
     then (Ok (Inl (CreateClient (CreateClient_Initialize cid ty cs cons),
                    Write (MsgInitialize cid ty cs cons))), c')
     else (Panic, c'))"
proof -
  let ?cid = "ty @ ''-'' @ show_u64 (client_index c + 1)"
  have iff: "valid_client_id ?cid \<longleftrightarrow> 9 \<le> length ?cid \<and> length ?cid \<le> 64 \<and> list_all ics024_char ty"
    using show_u64_ics024 [of "client_index c + 1"] by (auto simp: ics024_id_def ics024_char_def)
  show ?thesis
  proof (cases "valid_client_id ?cid")
    case True
    with iff show ?thesis
      by (simp add: cast_either_def near_next_client_identifier_def Let_def)
  next
    case False
    then obtain e where "client_id_validate ?cid = Inl e"
      using id_validate_Inr(2) [of ?cid] by (cases "client_id_validate ?cid") auto
    with False iff show ?thesis
      by (auto simp: cast_either_def near_next_client_identifier_def Let_def seqp_def)
  qed
qed

end
