(* ===== verification/Vm_Claims.thy ===== *)
theory Vm_Claims imports Packet_Examples begin

text \<open>
  What every machine does with the answers it is given, on any host: how long it runs, and that it
  refuses a proof that does not hold, a client that is not active and an application that objects.
  Then the effect of the client messages on the contract's store.
\<close>

section \<open>Length of a run\<close>

lemma vm_run_waiting_rank:
  "vm_run H m resps s = (Waiting m', s') \<Longrightarrow> length resps + vm_rank m' = vm_rank m"
proof (induction resps arbitrary: m s)
  case Nil
  then show ?case by simp
next
  case (Cons resp resps)
  then obtain m1 a s1 where step: "ibc_state_process H m resp s = (Ok (Inl (m1, a)), s1)"
    and rest: "vm_run H m1 resps s1 = (Waiting m', s')"
    by (auto split: prod.splits outcome.splits sum.splits)
  from vm_left_rank [OF step] Cons.IH [OF rest] show ?case by simp
qed

lemma vm_rank_bound: "vm_rank m \<le> 2"
  by (cases m; simp split: create_client.splits update_client.splits connection_open_init.splits
      connection_open_try.splits connection_open_ack.splits connection_open_confirm.splits
      channel_open_init.splits channel_open_try.splits channel_open_ack.splits
      channel_open_confirm.splits send_packet.splits recv_packet.splits acknowledgement.splits)

text \<open>C30. Every message ends: whatever the host is and whatever answers are given, after three of
  them the machine has finished, failed or panicked.\<close>

theorem every_message_ends:
  assumes "3 \<le> length resps"
  shows "\<forall>m'. fst (vm_run H m resps s) \<noteq> Waiting m'"
proof (intro allI notI)
  fix m'
  assume "fst (vm_run H m resps s) = Waiting m'"
  then obtain s' where "vm_run H m resps s = (Waiting m', s')"
    by (cases "vm_run H m resps s") auto
  from vm_run_waiting_rank [OF this] vm_rank_bound [of m] assms show False by simp
qed

theorem every_message_ends_witness:
  "\<forall>m'. fst (vm_run (near_host example_env) (UpdateClient (UpdateClient_Init ''cometbls-1'' [1]))
      [[RespEmpty], [RespStatus Active, RespVerifyClientMessage True, RespCheckForMisbehaviour False],
       [RespUpdateState [] [2]]] near_default) \<noteq> Waiting m'"
  by (rule every_message_ends) simp

section \<open>Refusals\<close>

text \<open>The answers a state waits for, as a function of the answer to its membership query.\<close>

fun membership_answers :: "ibc_state \<Rightarrow> bool \<Rightarrow> ibc_response list option" where
  "membership_answers (ConnectionOpenTry (ConnectionOpenTry_ConnectionStateVerified _ _ _)) b =
     Some [RespVerifyMembership b]"
| "membership_answers (ConnectionOpenAck (ConnectionOpenAck_ConnectionStateVerified _ _ _ _)) b =
     Some [RespVerifyMembership b]"
| "membership_answers (ConnectionOpenConfirm (ConnectionOpenConfirm_ConnectionStateVerified _ _ _)) b =
     Some [RespVerifyMembership b]"
| "membership_answers (ChannelOpenTry (ChannelOpenTry_LcQueriesMade _ _ _ _ _ _)) b =
     Some [RespStatus Active, RespVerifyMembership b]"
| "membership_answers (ChannelOpenAck (ChannelOpenAck_LcQueriesMade _ _ _ _ _)) b =
     Some [RespStatus Active, RespVerifyMembership b]"
| "membership_answers (ChannelOpenConfirm (ChannelOpenConfirm_LcQueriesMade _ _ _ _)) b =
     Some [RespStatus Active, RespVerifyMembership b]"
| "membership_answers (RecvPacket (RecvPacket_MembershipVerified _ _)) b = Some [RespVerifyMembership b]"
| "membership_answers (AcknowledgePacket (Acknowledgement_MembershipVerified _ _ _)) b =
     Some [RespVerifyMembership b]"
| "membership_answers _ b = None"

text \<open>Whenever a machine has asked its client whether the counterparty stored something and the
  answer is no, the message fails with \<^verbatim>\<open>MembershipVerificationFailure\<close> and has changed nothing; and
  no such machine goes on with any other answer than yes.\<close>

theorem false_proof_refused:
  assumes "membership_answers m False = Some refused" and "membership_answers m True = Some accepted"
  shows "ibc_state_process H m refused s = (Err (from_ibc_error H MembershipVerificationFailure), s) \<and>
     (\<forall>resp r s'. ibc_state_process H m resp s = (Ok r, s') \<longrightarrow> resp = accepted)"
proof
  show "ibc_state_process H m refused s = (Err (from_ibc_error H MembershipVerificationFailure), s)"
    using assms by (cases "(m, False)" rule: membership_answers.cases;
        clarsimp simp: cast_either_def)
  show "\<forall>resp r s'. ibc_state_process H m resp s = (Ok r, s') \<longrightarrow> resp = accepted"
    using assms
    by (cases "(m, False)" rule: membership_answers.cases;
        clarsimp simp del: ibc_state_process.simps)
      (auto simp: cast_either_Ok prog_ok split: response_splits)
qed

theorem false_proof_refused_witness:
  "ibc_state_process (near_host example_env)
      (RecvPacket (RecvPacket_MembershipVerified example_packet packet_channel_B))
      [RespVerifyMembership False] near_default =
    (Err (from_ibc_error (near_host example_env) MembershipVerificationFailure), near_default) \<and>
   \<not> (\<exists>r s'. ibc_state_process (near_host example_env)
        (RecvPacket (RecvPacket_MembershipVerified example_packet packet_channel_B)) [RespEmpty] near_default =
      (Ok r, s'))"
proof -
  let ?m = "RecvPacket (RecvPacket_MembershipVerified example_packet packet_channel_B)"
  have "membership_answers ?m b = Some [RespVerifyMembership b]" for b by simp
  from false_proof_refused [OF this this, of "near_host example_env" near_default] show ?thesis by blast
qed

text \<open>The client whose status a state waits for, and its answers as a function of the status.\<close>

fun status_answers :: "ibc_state \<Rightarrow> status \<Rightarrow> (string \<times> ibc_response list) option" where
  "status_answers (CreateClient (CreateClient_FetchLcData cid _ _ _)) st =
     Some (cid, [RespStatus st, RespLatestHeight default_height])"
| "status_answers (UpdateClient (UpdateClient_LcQueriesMade cid _)) st =
     Some (cid, [RespStatus st, RespVerifyClientMessage True, RespCheckForMisbehaviour False])"
| "status_answers (ConnectionOpenInit (ConnectionOpenInit_CheckStatus cid _ _ _)) st =
     Some (cid, [RespStatus st])"
| "status_answers (ChannelOpenInit (ChannelOpenInit_StatusFetched cid _ _ _ _)) st =
     Some (cid, [RespStatus st])"
| "status_answers (ChannelOpenTry (ChannelOpenTry_LcQueriesMade cid _ _ _ _ _)) st =
     Some (cid, [RespStatus st, RespVerifyMembership True])"
| "status_answers (ChannelOpenAck (ChannelOpenAck_LcQueriesMade cid _ _ _ _)) st =
     Some (cid, [RespStatus st, RespVerifyMembership True])"
| "status_answers (ChannelOpenConfirm (ChannelOpenConfirm_LcQueriesMade cid _ _ _)) st =
     Some (cid, [RespStatus st, RespVerifyMembership True])"
| "status_answers (SendPacket (SendPacket_LatestHeightFetched cid _ _ _ _ _ _ _ _)) st =
     Some (cid, [RespStatus st, RespLatestHeight default_height])"
| "status_answers _ st = None"

text \<open>Creating and updating a client, starting a connection, every channel message and sending a
  packet fail with \<^verbatim>\<open>NotActive\<close>, and have changed nothing, when the client they asked is frozen or
  expired.\<close>

theorem inactive_client_refused:
  assumes "status_answers m st = Some (cid, resp)" and "st \<noteq> Active"
  shows "ibc_state_process H m resp s = (Err (from_ibc_error H (NotActive cid st)), s)"
  using assms
  by (cases "(m, st)" rule: status_answers.cases) (auto simp: cast_either_def)

theorem inactive_client_refused_witness:
  "ibc_state_process (near_host example_env)
      (ChannelOpenInit (ChannelOpenInit_StatusFetched ''cometbls-1'' [''connection-1''] ''app.near'' run_cp ''v''))
      [RespStatus Frozen] near_default =
    (Err (from_ibc_error (near_host example_env) (NotActive ''cometbls-1'' Frozen)), near_default)"
  by (rule inactive_client_refused) simp_all

text \<open>The answers of an application that objects.\<close>

fun app_objection :: "ibc_state \<Rightarrow> string \<Rightarrow> ibc_response list option" where
  "app_objection (ChannelOpenInit (ChannelOpenInit_CallbackCalled _ _ _ _ _)) e =
     Some [RespOnChannelOpenInit (Some e)]"
| "app_objection (ChannelOpenTry (ChannelOpenTry_CallbackCalled _ _ _ _ _)) e =
     Some [RespOnChannelOpenTry (Some e)]"
| "app_objection (ChannelOpenAck (ChannelOpenAck_CallbackCalled _ _ _ _)) e =
     Some [RespOnChannelOpenAck (Some e)]"
| "app_objection (ChannelOpenConfirm (ChannelOpenConfirm_CallbackCalled _ _ _)) e =
     Some [RespOnChannelOpenConfirm (Some e)]"
| "app_objection (AcknowledgePacket (Acknowledgement_CallbackCalled _ _)) e =
     Some [RespOnAcknowledgePacket (Some e)]"
| "app_objection _ e = None"

text \<open>When the application answers a channel message or an acknowledgement with an error, the
  message fails with that error before anything is written: no channel is stored or opened and no
  commitment is removed.\<close>

theorem app_objection_refused:
  assumes "app_objection m e = Some resp"
  shows "ibc_state_process H m resp s = (Err (from_ibc_error H (IbcAppCallbackFailed e)), s)"
  using assms
  by (cases "(m, e)" rule: app_objection.cases) (auto simp: cast_either_def callback_ok_def)

theorem app_objection_refused_witness:
  "ibc_state_process (near_host example_env)
      (AcknowledgePacket (Acknowledgement_CallbackCalled example_packet ''connection-1''))
      [RespOnAcknowledgePacket (Some ''no'')] near_default =
    (Err (from_ibc_error (near_host example_env) (IbcAppCallbackFailed ''no'')), near_default)"
  by (rule app_objection_refused) simp

text \<open>A packet that could be received but whose timeout has passed, in height or in time, fails
  with \<^verbatim>\<open>TimedOutPacket\<close>, and one without any timeout with \<^verbatim>\<open>ZeroTimeout\<close>; nothing is written.\<close>

theorem late_packet_refused:
  assumes "recv_channel_ok env c p ch e" and "no_timeout p \<or> timed_out env p"
  shows "ibc_state_process (near_host env) (RecvPacket (RecvPacket_Init p pr h)) [RespEmpty] c =
    (Err (Ibc (if no_timeout p then ZeroTimeout else TimedOutPacket)), c)"
proof -
  have "check_not_timed_out (near_host env) p c =
      (Err (Ibc (if no_timeout p then ZeroTimeout else TimedOutPacket)), c)"
    using assms(2)
    by (auto simp: check_not_timed_out_def no_timeout_def timed_out_def ensure_def)
  moreover have "read_channel_or (near_host env) (destination_port p) (destination_channel p) c = (Ok ch, c)"
    and "read_open_connection (near_host env) (ch_connection_hops ch) c = (Ok e, c)"
    using assms(1) by (simp_all add: read_channel_or_near read_open_connection_near recv_channel_ok_def)
  ultimately have "recv_packet_checks (near_host env) p c =
      (Err (Ibc (if no_timeout p then ZeroTimeout else TimedOutPacket)), c)"
    using assms(1) by (simp add: recv_packet_checks_def recv_channel_ok_def)
  then show ?thesis by (simp add: cast_either_def)
qed

theorem late_packet_refused_witness:
  "ibc_state_process (near_host (example_env\<lparr>env_block_timestamp := 5000\<rparr>))
      (RecvPacket (RecvPacket_Init example_packet [] default_height)) [RespEmpty] packet_chain_B =
    (Err (Ibc (if no_timeout example_packet then ZeroTimeout else TimedOutPacket)), packet_chain_B)"
proof (rule late_packet_refused)
  have "same_chain (example_env\<lparr>env_block_timestamp := 5000\<rparr>) example_env"
    by (simp add: same_chain_def)
  then show "recv_channel_ok (example_env\<lparr>env_block_timestamp := 5000\<rparr>) packet_chain_B example_packet
      packet_channel_B (example_end ConnOpen ''connection-1'')"
    using packet_channels_ok(2) same_chain_stored_channel same_chain_stored
    by (simp add: recv_channel_ok_def)
qed (simp add: timed_out_def)

section \<open>Versions\<close>

text \<open>A connection is started only for the one version supported: the identifier 1 with the
  feature of unordered channels and no other. Then nothing is written, the client is asked for its status, and
  the versions kept for the end are the supported ones.\<close>

theorem connection_init_versions:
  "ibc_state_process H (ConnectionOpenInit (ConnectionOpenInit_Init cid cp v delay)) [RespEmpty] s =
     (Ok r, s') \<longleftrightarrow>
   ver_identifier v = ''1'' \<and> ver_features v \<noteq> [] \<and> set (ver_features v) = {Unordered} \<and> s' = s \<and>
   r = Inl (ConnectionOpenInit (ConnectionOpenInit_CheckStatus cid cp DEFAULT_IBC_VERSION delay),
            Query cid [QStatus])"
  by (auto simp: cast_either_Ok prog_ok default_version_supported)

section \<open>Clients\<close>

lemma commit_consensus_near:
  assumes "commit_consensus_states (near_host env) cid css c = (Ok hs, c')" and "valid_client_id cid"
  shows "near_read_raw c' (ClientConsensusStatePath cid h) =
     (case map_of (rev css) h of Some v \<Rightarrow> Some v | None \<Rightarrow> near_read_raw c (ClientConsensusStatePath cid h))"
  using assms(1)
proof (induction css arbitrary: c hs)
  case Nil
  then show ?case by (simp add: commit_consensus_states_def prog_ok)
next
  case (Cons hc css)
  obtain h' st where hc: "hc = (h', st)" by (cases hc)
  with Cons.prems obtain hs' where rest: "commit_consensus_states (near_host env) cid css
      (near_insert (path_to_string (ClientConsensusStatePath cid h')) st c) = (Ok hs', c')"
    by (auto simp: commit_consensus_states_def prog_ok)
  have "path_to_string (ClientConsensusStatePath cid h) = path_to_string (ClientConsensusStatePath cid h') \<longleftrightarrow>
      h = h'"
    using path_to_string_inject [of "ClientConsensusStatePath cid h" "ClientConsensusStatePath cid h'"] assms(2)
    by auto
  with Cons.IH [OF rest] show ?case by (simp add: hc map_add_def split: option.splits)
qed

text \<open>An update stores the client state and every consensus state the light client returned (the
  last one given for a height), leaves all other consensus states as they were, and reports the
  heights in order.\<close>

theorem update_client_stores:
  assumes "ibc_state_process (near_host env) (UpdateClient (UpdateClient_UpdatedState cid))
      [RespUpdateState css cs] c = (Ok r, c')" and "valid_client_id cid"
  shows "near_read_raw c' (ClientStatePath cid) = Some cs \<and>
     (\<forall>h. near_read_raw c' (ClientConsensusStatePath cid h) =
        (case map_of (rev css) h of Some v \<Rightarrow> Some v
         | None \<Rightarrow> near_read_raw c (ClientConsensusStatePath cid h))) \<and>
     (\<exists>ty. r = Inr ([EvUpdateClient cid ty (map fst css)], VmEmpty))"
proof -
  obtain hs ty where run: "commit_consensus_states (near_host env) cid css
      (near_insert (path_to_string (ClientStatePath cid)) cs c) = (Ok hs, c')"
    and r: "r = Inr ([EvUpdateClient cid ty hs], VmEmpty)"
    using assms(1) by (auto simp: cast_either_Ok prog_ok)
  have hs: "hs = map fst css" if "commit_consensus_states (near_host env) cid css c = (Ok hs, c')" for css c hs c'
    using that
    by (induction css arbitrary: c hs) (auto simp: commit_consensus_states_def prog_ok)
  have "near_read_raw c' (ClientStatePath cid) = Some cs"
    using near.commit_consensus_states_frame [OF run assms(2), of "ClientStatePath cid"] assms(2) by simp
  moreover have "path_to_string (ClientConsensusStatePath cid h) \<noteq> path_to_string (ClientStatePath cid)" for h
    using path_to_string_inject [of "ClientConsensusStatePath cid h" "ClientStatePath cid"] assms(2) by auto
  ultimately show ?thesis
    using commit_consensus_near [OF run assms(2)] r hs [OF run] by (simp split: option.split)
qed

theorem update_client_stores_witness:
  "near_read_raw (near_insert (path_to_string (ClientConsensusStatePath ''cometbls-1'' default_height)) [3]
      (near_insert (path_to_string (ClientStatePath ''cometbls-1'')) [2] near_default))
      (ClientStatePath ''cometbls-1'') = Some [2]"
proof -
  have "ibc_state_process (near_host example_env) (UpdateClient (UpdateClient_UpdatedState ''cometbls-1''))
      [RespUpdateState [(default_height, [3])] [2]] near_default =
    (Ok (Inr ([EvUpdateClient ''cometbls-1'' ''TODO(aeryz): I hate this'' [default_height]], VmEmpty)),
     near_insert (path_to_string (ClientConsensusStatePath ''cometbls-1'' default_height)) [3]
      (near_insert (path_to_string (ClientStatePath ''cometbls-1'')) [2] near_default))"
    by (simp add: cast_either_def commit_consensus_states_def near_commit_raw_def)
  from update_client_stores [OF this example_ids_valid(1)] show ?thesis by blast
qed

end
