(* ===== verification/Data_Claims.thy ===== *)
theory Data_Claims imports Example_Codec begin

text \<open>
  The data the chains exchange and store: identifiers, heights, store paths and the protobuf forms of
  connection and channel ends. What is written reads back as itself, distinct values have distinct
  texts, and only valid values are read.
\<close>

section \<open>Identifiers\<close>

text \<open>The validators of the four identifier types accept a string exactly if its length is in the
  range of ICS-024 for the type and all its characters are in the permitted set, and they give the
  string back unchanged.\<close>

theorem identifiers_exact:
  "(port_id_validate s = Inr t \<longleftrightarrow> t = s \<and> 2 \<le> length s \<and> length s \<le> 128 \<and> list_all ics024_char s) \<and>
   (client_id_validate s = Inr t \<longleftrightarrow> t = s \<and> 9 \<le> length s \<and> length s \<le> 64 \<and> list_all ics024_char s) \<and>
   (connection_id_validate s = Inr t \<longleftrightarrow>
      t = s \<and> 10 \<le> length s \<and> length s \<le> 64 \<and> list_all ics024_char s) \<and>
   (channel_id_validate s = Inr t \<longleftrightarrow> t = s \<and> 8 \<le> length s \<and> length s \<le> 64 \<and> list_all ics024_char s)"
  by (simp add: id_validate_Inr ics024_id_def)

section \<open>Heights\<close>

text \<open>Heights are ordered by revision and then by height in the revision, whatever their sizes;
  the text of a height reads back as the height; and the default height, which stands for no timeout,
  is the least.\<close>

theorem height_order_and_text:
  "(g \<le> h \<longleftrightarrow> revision_number g < revision_number h \<or>
      revision_number g = revision_number h \<and> revision_height g \<le> revision_height h) \<and>
   (g < h \<longleftrightarrow> revision_number g < revision_number h \<or>
      revision_number g = revision_number h \<and> revision_height g < revision_height h) \<and>
   height_from_str (show_height h) = Inr h \<and> default_height \<le> h"
  by (cases g; cases h) (simp add: height_le_iff height_less_iff default_height_least)

section \<open>Paths\<close>

text \<open>The text of a store path made of valid identifiers reads back as the path, for every kind of
  path but one.\<close>

theorem path_text_roundtrip:
  assumes "wf_path p" and "p \<noteq> NextClientSequencePath"
  shows "path_from_str (path_to_string p) = Inr p"
  by (rule path_from_str_to_string [OF assms])

theorem path_text_roundtrip_witness:
  "path_from_str (path_to_string (CommitmentPath ''app.near'' ''channel-1'' 7)) =
     Inr (CommitmentPath ''app.near'' ''channel-1'' 7)"
  by (rule path_text_roundtrip) simp_all

text \<open>C32. Two store paths made of valid identifiers that have the same text are the same path: the
  key-value store, which is keyed by the text, never confuses a connection, a channel, a commitment or
  a receipt with another.\<close>

theorem path_text_injective:
  assumes "wf_path p" and "wf_path q" and "path_to_string p = path_to_string q"
  shows "p = q"
  by (rule path_to_string_inject [OF assms])

theorem path_text_injective_witness:
  "ReceiptPath ''app.near'' ''channel-1'' 7 = ReceiptPath ''app.near'' ''channel-1'' (3 + 4)"
  by (rule path_text_injective) simp_all

text \<open>The path of the client counter is the exception: \<^verbatim>\<open>Path::from_str\<close> does not try it, so its
  own text is refused.\<close>

theorem next_client_sequence_not_read:
  "\<exists>e. path_from_str (path_to_string NextClientSequencePath) = Inl e"
  by (simp add: path_to_string_def ibc_path_display_def path_from_str_def try_path_def
      ibc_path_from_str_def or_else_def)

section \<open>Protobuf forms\<close>

text \<open>A connection end with valid client ids reads back from its protobuf message as itself, and
  whatever is read from any message has valid client ids.\<close>

theorem connection_end_proto:
  "(wf_connection_end e \<longrightarrow> connection_end_from_proto (connection_end_into_proto e) = Inr e) \<and>
   (connection_end_from_proto m = Inr e \<longrightarrow> wf_connection_end e)"
  using connection_end_proto_roundtrip connection_end_from_proto_wf by blast

theorem connection_end_proto_witness:
  "connection_end_from_proto (connection_end_into_proto
     \<lparr>ce_client_id = ''cometbls-1'', ce_versions = [\<lparr>ver_identifier = ''1'', ver_features = [Unordered]\<rparr>],
      ce_state = ConnOpen,
      ce_counterparty = \<lparr>cc_client_id = ''cometbls-2'', cc_connection_id = ''connection-2'', cc_prefix = [1]\<rparr>,
      ce_delay_period = 3\<rparr>) = Inr
     \<lparr>ce_client_id = ''cometbls-1'', ce_versions = [\<lparr>ver_identifier = ''1'', ver_features = [Unordered]\<rparr>],
      ce_state = ConnOpen,
      ce_counterparty = \<lparr>cc_client_id = ''cometbls-2'', cc_connection_id = ''connection-2'', cc_prefix = [1]\<rparr>,
      ce_delay_period = 3\<rparr>"
  using connection_end_proto by (simp add: wf_connection_end_def)

text \<open>A channel end with a valid counterparty port and valid connection ids reads back from its
  protobuf message as itself, and whatever is read from any message has them.\<close>

theorem channel_proto:
  "(wf_channel c \<longrightarrow> channel_from_proto (channel_into_proto c) = Inr c) \<and>
   (channel_from_proto m = Inr c \<longrightarrow> wf_channel c)"
  using channel_proto_roundtrip channel_from_proto_wf by blast

theorem channel_proto_witness:
  "channel_from_proto (channel_into_proto
     \<lparr>ch_state = ChanTryopen, ch_ordering = Ordered,
      ch_counterparty = \<lparr>ccp_port_id = ''app2.near'', ccp_channel_id = []\<rparr>,
      ch_connection_hops = [''connection-1''], ch_version = ''v''\<rparr>) = Inr
     \<lparr>ch_state = ChanTryopen, ch_ordering = Ordered,
      ch_counterparty = \<lparr>ccp_port_id = ''app2.near'', ccp_channel_id = []\<rparr>,
      ch_connection_hops = [''connection-1''], ch_version = ''v''\<rparr>"
  using channel_proto by (simp add: wf_channel_def)

text \<open>A channel message whose state is known and whose ordering is not is refused, but the error
  says that it is the state that is unknown.\<close>

theorem unknown_ordering_reported_as_state:
  assumes "channel_state_from_i32 (pch_state m) = Inr st" and "order_from_i32 (pch_ordering m) = Inl n"
  shows "channel_from_proto m = Inl (ChState (pch_ordering m))"
proof -
  have "n = pch_ordering m"
    using assms(2) by (auto simp: order_from_i32_def enum_from_def split: option.splits)
  with assms show ?thesis by (simp add: channel_from_proto_def)
qed

theorem unknown_ordering_reported_as_state_witness:
  "channel_from_proto
     \<lparr>pch_state = 3, pch_ordering = 9, pch_counterparty = None, pch_connection_hops = [],
      pch_version = []\<rparr> = Inl (ChState 9)"
  using unknown_ordering_reported_as_state [of "\<lparr>pch_state = 3, pch_ordering = 9,
      pch_counterparty = None, pch_connection_hops = [], pch_version = []\<rparr>" ChanOpen 9]
  by (simp add: channel_state_from_i32_def order_from_i32_def enum_from_def)

end
