(* ===== verification/Outcomes.thy ===== *)
theory Outcomes imports Prelude begin

text \<open>
  Functions that return a \<^verbatim>\<open>Result\<close> and change no state: the \<^verbatim>\<open>?\<close> operator, \<^verbatim>\<open>map_err\<close>,
  \<^verbatim>\<open>ok_or\<close>, \<^verbatim>\<open>try_fold\<close> and the collection of an iterator of results, over the outcomes of
  the prelude. A failing sub-result or a panic ends the function. The collection \<open>outcome_ok\<close>
  inverts a computation that returned a value.
\<close>

named_theorems outcome_ok \<open>inversions of a pure result that is a value\<close>

section \<open>Combinators\<close>

definition andthen :: "('e, 'a) outcome \<Rightarrow> ('a \<Rightarrow> ('e, 'b) outcome) \<Rightarrow> ('e, 'b) outcome" where
  "andthen r f = (case r of Ok x \<Rightarrow> f x | Err e \<Rightarrow> Err e | Panic \<Rightarrow> Panic)"

definition map_err :: "('d \<Rightarrow> 'e) \<Rightarrow> ('d, 'a) outcome \<Rightarrow> ('e, 'a) outcome" where
  "map_err f r = (case r of Ok x \<Rightarrow> Ok x | Err e \<Rightarrow> Err (f e) | Panic \<Rightarrow> Panic)"

definition require :: "bool \<Rightarrow> 'e \<Rightarrow> ('e, unit) outcome" where
  \<comment> \<open>\<^verbatim>\<open>if !b { return Err(e) }\<close>\<close>
  "require b e = (if b then Ok () else Err e)"

definition some_or :: "'a option \<Rightarrow> 'e \<Rightarrow> ('e, 'a) outcome" where
  \<comment> \<open>\<^verbatim>\<open>ok_or\<close>\<close>
  "some_or x e = (case x of None \<Rightarrow> Err e | Some y \<Rightarrow> Ok y)"

definition expects :: "'a option \<Rightarrow> ('e, 'a) outcome" where
  \<comment> \<open>\<^verbatim>\<open>expect\<close>, \<^verbatim>\<open>unwrap\<close>, a checked subtraction or an index: nothing is a panic\<close>
  "expects x = (case x of None \<Rightarrow> Panic | Some y \<Rightarrow> Ok y)"

definition result_or :: "('d \<Rightarrow> 'e) \<Rightarrow> 'd + 'a \<Rightarrow> ('e, 'a) outcome" where
  "result_or f r = (case r of Inl e \<Rightarrow> Err (f e) | Inr x \<Rightarrow> Ok x)"

fun try_fold :: "('b \<Rightarrow> 'a \<Rightarrow> ('e, 'b) outcome) \<Rightarrow> 'b \<Rightarrow> 'a list \<Rightarrow> ('e, 'b) outcome" where
  "try_fold f acc [] = Ok acc"
| "try_fold f acc (x # xs) = andthen (f acc x) (\<lambda>acc'. try_fold f acc' xs)"

fun try_map :: "('a \<Rightarrow> ('e, 'b) outcome) \<Rightarrow> 'a list \<Rightarrow> ('e, 'b list) outcome" where
  \<comment> \<open>\<^verbatim>\<open>map(f).collect::<Result<Vec<_>, _>>()\<close>\<close>
  "try_map f [] = Ok []"
| "try_map f (x # xs) = andthen (f x) (\<lambda>y. andthen (try_map f xs) (\<lambda>ys. Ok (y # ys)))"

fun try_each :: "('a \<Rightarrow> ('e, unit) outcome) \<Rightarrow> 'a list \<Rightarrow> ('e, unit) outcome" where
  \<comment> \<open>a \<^verbatim>\<open>for\<close> loop whose body may return an error\<close>
  "try_each f [] = Ok ()"
| "try_each f (x # xs) = andthen (f x) (\<lambda>_. try_each f xs)"

definition try_option :: "('a \<Rightarrow> ('e, 'b) outcome) \<Rightarrow> 'a option \<Rightarrow> ('e, 'b option) outcome" where
  \<comment> \<open>\<^verbatim>\<open>map(f).transpose()\<close>\<close>
  "try_option f x = (case x of None \<Rightarrow> Ok None | Some y \<Rightarrow> andthen (f y) (\<lambda>z. Ok (Some z)))"

fun try_all :: "('a \<Rightarrow> ('e, bool) outcome) \<Rightarrow> 'a list \<Rightarrow> ('e, bool) outcome" where
  \<comment> \<open>a loop that returns false at the first element the fallible test refuses\<close>
  "try_all f [] = Ok True"
| "try_all f (x # xs) = andthen (f x) (\<lambda>b. if b then try_all f xs else Ok False)"

definition and_try :: "('e, bool) outcome \<Rightarrow> ('e, bool) outcome \<Rightarrow> ('e, bool) outcome" where
  \<comment> \<open>\<^verbatim>\<open>a? && b?\<close>, the right side not evaluated when the left is false\<close>
  "and_try a b = andthen a (\<lambda>x. if x then b else Ok False)"

definition or_try :: "('e, bool) outcome \<Rightarrow> ('e, bool) outcome \<Rightarrow> ('e, bool) outcome" where
  "or_try a b = andthen a (\<lambda>x. if x then Ok True else b)"

definition slice_get :: "'a list \<Rightarrow> nat \<Rightarrow> 'a option" where
  \<comment> \<open>\<^verbatim>\<open>xs.get(i)\<close>; under \<open>expects\<close> it is \<^verbatim>\<open>xs[i]\<close>\<close>
  "slice_get xs i = (if i < length xs then Some (xs ! i) else None)"

definition slice_set :: "'a list \<Rightarrow> nat \<Rightarrow> 'a \<Rightarrow> ('e, 'a list) outcome" where
  \<comment> \<open>\<^verbatim>\<open>xs[i] = x\<close>\<close>
  "slice_set xs i x = (if i < length xs then Ok (xs[i := x]) else Panic)"

definition slice_swap :: "'a list \<Rightarrow> nat \<Rightarrow> nat \<Rightarrow> ('e, 'a list) outcome" where
  \<comment> \<open>\<^verbatim>\<open>xs.swap(i, j)\<close>\<close>
  "slice_swap xs i j =
     (if i < length xs \<and> j < length xs then Ok (xs[i := xs ! j, j := xs ! i]) else Panic)"

section \<open>Their equations\<close>

lemma andthen_simps [simp]:
  "andthen (Ok x) f = f x" "andthen (Err e) f = Err e" "andthen Panic f = Panic"
  by (simp_all add: andthen_def)

lemma map_err_simps [simp]:
  "map_err g (Ok x) = Ok x" "map_err g (Err e) = Err (g e)" "map_err g Panic = Panic"
  by (simp_all add: map_err_def)

lemma require_simps [simp]: "require True e = Ok ()" "require False e = Err e"
  by (simp_all add: require_def)

lemma some_or_simps [simp]: "some_or None e = Err e" "some_or (Some x) e = Ok x"
  by (simp_all add: some_or_def)

lemma expects_simps [simp]: "expects None = Panic" "expects (Some x) = Ok x"
  by (simp_all add: expects_def)

lemma result_or_simps [simp]: "result_or g (Inl e) = Err (g e)" "result_or g (Inr x) = Ok x"
  by (simp_all add: result_or_def)

lemma try_option_simps [simp]:
  "try_option f None = Ok None" "try_option f (Some x) = andthen (f x) (\<lambda>z. Ok (Some z))"
  by (simp_all add: try_option_def)

lemma andthen_cong [fundef_cong]:
  "r = r' \<Longrightarrow> (\<And>x. r' = Ok x \<Longrightarrow> f x = g x) \<Longrightarrow> andthen r f = andthen r' g"
  by (cases r') simp_all

lemma andthen_assoc: "andthen (andthen r f) g = andthen r (\<lambda>x. andthen (f x) g)"
  by (cases r) simp_all

lemma andthen_Ok [outcome_ok]: "andthen r f = Ok y \<longleftrightarrow> (\<exists>x. r = Ok x \<and> f x = Ok y)"
  by (cases r) simp_all

lemma map_err_Ok [outcome_ok]: "map_err g r = Ok y \<longleftrightarrow> r = Ok y"
  by (cases r) simp_all

lemma require_Ok [outcome_ok]: "require b e = Ok u \<longleftrightarrow> b"
  by (simp add: require_def)

lemma some_or_Ok [outcome_ok]: "some_or x e = Ok y \<longleftrightarrow> x = Some y"
  by (cases x) simp_all

lemma expects_Ok [outcome_ok]: "expects x = Ok y \<longleftrightarrow> x = Some y"
  by (cases x) simp_all

lemma result_or_Ok [outcome_ok]: "result_or g r = Ok y \<longleftrightarrow> r = Inr y"
  by (cases r) simp_all

lemma if_Ok [outcome_ok]:
  "(if b then r else Err e) = Ok y \<longleftrightarrow> b \<and> r = Ok y"
  "(if b then Err e else r) = Ok y \<longleftrightarrow> \<not> b \<and> r = Ok y"
  "(if b then Panic else r) = Ok y \<longleftrightarrow> \<not> b \<and> r = Ok y"
  by simp_all

lemma try_all_Ok_True [outcome_ok]: "try_all f xs = Ok True \<longleftrightarrow> (\<forall>x \<in> set xs. f x = Ok True)"
  by (induction xs) (auto simp: andthen_Ok)

lemma and_try_simps [simp]:
  "and_try (Ok True) b = b" "and_try (Ok False) b = Ok False" "and_try (Err e) b = Err e"
  by (simp_all add: and_try_def)

lemma or_try_simps [simp]:
  "or_try (Ok True) b = Ok True" "or_try (Ok False) b = b" "or_try (Err e) b = Err e"
  by (simp_all add: or_try_def)

lemma and_try_True [outcome_ok]: "and_try a b = Ok True \<longleftrightarrow> a = Ok True \<and> b = Ok True"
  by (auto simp: and_try_def andthen_Ok)

lemma or_try_True [outcome_ok]:
  "or_try a b = Ok True \<longleftrightarrow> a = Ok True \<or> (a = Ok False \<and> b = Ok True)"
  by (auto simp: or_try_def andthen_Ok)

lemma try_each_Ok [outcome_ok]: "try_each f xs = Ok u \<longleftrightarrow> (\<forall>x \<in> set xs. f x = Ok ())"
  by (induction xs) (auto simp: andthen_Ok)

lemma try_map_Ok:
  "try_map f xs = Ok ys \<longleftrightarrow> list_all2 (\<lambda>x y. f x = Ok y) xs ys"
  by (induction xs arbitrary: ys) (auto simp: andthen_Ok list_all2_Cons1)

lemma try_map_map:
  "\<forall>x \<in> set xs. f (g x) = Ok (h x) \<Longrightarrow> try_map f (map g xs) = Ok (map h xs)"
  by (induction xs) auto

lemma try_fold_append:
  "try_fold f acc (xs @ ys) = andthen (try_fold f acc xs) (\<lambda>acc'. try_fold f acc' ys)"
  by (induction xs arbitrary: acc) (simp_all add: andthen_assoc)

section \<open>Absence of panics\<close>

named_theorems no_panic \<open>results that are never a panic\<close>

lemma andthen_Panic [no_panic]:
  "andthen r f = Panic \<longleftrightarrow> r = Panic \<or> (\<exists>x. r = Ok x \<and> f x = Panic)"
  by (cases r) simp_all

lemma no_panic_basic [no_panic]:
  "require b e \<noteq> Panic" "some_or x d \<noteq> Panic" "result_or g s \<noteq> Panic"
  by (simp_all add: require_def some_or_def result_or_def split: option.splits sum.splits)

lemma map_err_Panic [simp]: "map_err g r = Panic \<longleftrightarrow> r = Panic"
  by (cases r) simp_all

lemma try_fold_no_panic:
  "(\<And>acc x. x \<in> set xs \<Longrightarrow> f acc x \<noteq> Panic) \<Longrightarrow> try_fold f acc xs \<noteq> Panic"
  by (induction xs arbitrary: acc) (fastforce simp: andthen_Panic)+

lemma try_each_no_panic: "(\<And>x. x \<in> set xs \<Longrightarrow> f x \<noteq> Panic) \<Longrightarrow> try_each f xs \<noteq> Panic"
  by (induction xs) (auto simp: andthen_Panic)

lemma try_map_no_panic: "(\<And>x. x \<in> set xs \<Longrightarrow> f x \<noteq> Panic) \<Longrightarrow> try_map f xs \<noteq> Panic"
  by (induction xs) (auto simp: andthen_Panic)

end
