(* ===== verification/Ics23_Types.thy ===== *)
theory Ics23_Types imports Outcomes Ibc_Types begin

text \<open>
  The data of an ICS-23 proof (\<^verbatim>\<open>lib/unionlabs/src/cosmos/ics23/\<close> and the \<^verbatim>\<open>MerkleProof\<close> and
  \<^verbatim>\<open>MerkleRoot\<close> of \<^verbatim>\<open>ibc/core/commitment/\<close>) with the conversions to and from the
  protobuf messages. A bounded \<^verbatim>\<open>usize\<close> is a natural number, its bounds are part of
  \<open>wf_proof_spec\<close> and of the other well-formedness predicates; a conversion whose
  \<^verbatim>\<open>expect\<close> relies on the bounds panics outside them.
\<close>

section \<open>Hash and length operations\<close>

datatype hash_op = NoHash | Sha256 | Sha512 | Keccak256 | Ripemd160 | Bitcoin | Sha512256
  | Blake2b512 | Blake2s256 | Blake3

datatype length_op = NoPrefix | VarProto | VarRlp | Fixed32Big | Fixed32Little | Fixed64Big
  | Fixed64Little | Require32Bytes | Require64Bytes

fun hash_op_i32 :: "hash_op \<Rightarrow> i32" where
  "hash_op_i32 NoHash = 0"
| "hash_op_i32 Sha256 = 1"
| "hash_op_i32 Sha512 = 2"
| "hash_op_i32 Keccak256 = 3"
| "hash_op_i32 Ripemd160 = 4"
| "hash_op_i32 Bitcoin = 5"
| "hash_op_i32 Sha512256 = 6"
| "hash_op_i32 Blake2b512 = 7"
| "hash_op_i32 Blake2s256 = 8"
| "hash_op_i32 Blake3 = 9"

fun length_op_i32 :: "length_op \<Rightarrow> i32" where
  "length_op_i32 NoPrefix = 0"
| "length_op_i32 VarProto = 1"
| "length_op_i32 VarRlp = 2"
| "length_op_i32 Fixed32Big = 3"
| "length_op_i32 Fixed32Little = 4"
| "length_op_i32 Fixed64Big = 5"
| "length_op_i32 Fixed64Little = 6"
| "length_op_i32 Require32Bytes = 7"
| "length_op_i32 Require64Bytes = 8"

abbreviation hash_ops :: "hash_op list" where
  "hash_ops \<equiv> [NoHash, Sha256, Sha512, Keccak256, Ripemd160, Bitcoin, Sha512256, Blake2b512,
               Blake2s256, Blake3]"

abbreviation length_ops :: "length_op list" where
  "length_ops \<equiv> [NoPrefix, VarProto, VarRlp, Fixed32Big, Fixed32Little, Fixed64Big,
                 Fixed64Little, Require32Bytes, Require64Bytes]"

definition hash_op_from_i32 :: "i32 \<Rightarrow> i32 + hash_op" where
  "hash_op_from_i32 = enum_from hash_op_i32 hash_ops"

definition length_op_from_i32 :: "i32 \<Rightarrow> i32 + length_op" where
  "length_op_from_i32 = enum_from length_op_i32 length_ops"

lemma hash_op_roundtrip [simp]: "hash_op_from_i32 (hash_op_i32 h) = Inr h"
  by (cases h) (simp_all add: hash_op_from_i32_def enum_from_def)

lemma length_op_roundtrip [simp]: "length_op_from_i32 (length_op_i32 l) = Inr l"
  by (cases l) (simp_all add: length_op_from_i32_def enum_from_def)

section \<open>Proof specs\<close>

record leaf_op =
  lo_hash :: hash_op
  lo_prehash_key :: hash_op
  lo_prehash_value :: hash_op
  lo_length :: length_op
  lo_prefix :: bytes

record inner_op =
  io_hash :: hash_op
  io_prefix :: bytes
  io_suffix :: bytes

record inner_spec =
  is_child_order :: "nat list"
  is_child_size :: nat
  is_min_prefix_length :: nat
  is_max_prefix_length :: nat
  is_empty_child :: bytes
  is_hash :: hash_op

record proof_spec =
  ps_leaf_spec :: leaf_op
  ps_inner_spec :: inner_spec
  ps_max_depth :: "nat option"
  ps_min_depth :: "nat option"
  ps_prehash_key_before_comparison :: bool

section \<open>Proofs\<close>

record existence_proof =
  ep_key :: bytes
  ep_value :: bytes
  ep_leaf :: leaf_op
  ep_path :: "inner_op list"

record non_existence_proof =
  np_key :: bytes
  np_left :: "existence_proof option"
  np_right :: "existence_proof option"

datatype batch_entry = BatchExist existence_proof | BatchNonexist non_existence_proof

record batch_proof =
  bp_entries :: "batch_entry list"

record compressed_existence_proof =
  cep_key :: bytes
  cep_value :: bytes
  cep_leaf :: leaf_op
  cep_path :: "i32 list"

record compressed_non_existence_proof =
  cnp_key :: bytes
  cnp_left :: "compressed_existence_proof option"
  cnp_right :: "compressed_existence_proof option"

datatype compressed_batch_entry =
  CompressedExist compressed_existence_proof | CompressedNonexist compressed_non_existence_proof

record compressed_batch_proof =
  cbp_entries :: "compressed_batch_entry list"
  cbp_lookup_inners :: "inner_op list"

datatype commitment_proof =
    Exist existence_proof
  | Nonexist non_existence_proof
  | Batch batch_proof
  | CompressedBatch compressed_batch_proof

record merkle_proof =
  mp_proofs :: "commitment_proof list"

text \<open>\<^verbatim>\<open>MerkleRoot\<close> wraps one \<^verbatim>\<open>H256\<close>.\<close>

record merkle_root =
  mr_hash :: bytes

section \<open>Their protobuf messages\<close>

record proto_leaf_op =
  plo_hash :: i32
  plo_prehash_key :: i32
  plo_prehash_value :: i32
  plo_length :: i32
  plo_prefix :: bytes

record proto_inner_op =
  pio_hash :: i32
  pio_prefix :: bytes
  pio_suffix :: bytes

record proto_inner_spec =
  pis_child_order :: "i32 list"
  pis_child_size :: i32
  pis_min_prefix_length :: i32
  pis_max_prefix_length :: i32
  pis_empty_child :: bytes
  pis_hash :: i32

record proto_proof_spec =
  pps_leaf_spec :: "proto_leaf_op option"
  pps_inner_spec :: "proto_inner_spec option"
  pps_max_depth :: i32
  pps_min_depth :: i32
  pps_prehash_key_before_comparison :: bool

record proto_existence_proof =
  pep_key :: bytes
  pep_value :: bytes
  pep_leaf :: "proto_leaf_op option"
  pep_path :: "proto_inner_op list"

record proto_non_existence_proof =
  pnp_key :: bytes
  pnp_left :: "proto_existence_proof option"
  pnp_right :: "proto_existence_proof option"

datatype proto_batch_entry_proof =
  PBatchExist proto_existence_proof | PBatchNonexist proto_non_existence_proof

record proto_batch_entry =
  pbe_proof :: "proto_batch_entry_proof option"

record proto_batch_proof =
  pbp_entries :: "proto_batch_entry list"

record proto_compressed_existence_proof =
  pcep_key :: bytes
  pcep_value :: bytes
  pcep_leaf :: "proto_leaf_op option"
  pcep_path :: "i32 list"

record proto_compressed_non_existence_proof =
  pcnp_key :: bytes
  pcnp_left :: "proto_compressed_existence_proof option"
  pcnp_right :: "proto_compressed_existence_proof option"

datatype proto_compressed_batch_entry_proof =
    PCompressedExist proto_compressed_existence_proof
  | PCompressedNonexist proto_compressed_non_existence_proof

record proto_compressed_batch_entry =
  pcbe_proof :: "proto_compressed_batch_entry_proof option"

record proto_compressed_batch_proof =
  pcbp_entries :: "proto_compressed_batch_entry list"
  pcbp_lookup_inners :: "proto_inner_op list"

datatype proto_commitment_proof_proof =
    PExist proto_existence_proof
  | PNonexist proto_non_existence_proof
  | PBatch proto_batch_proof
  | PCompressed proto_compressed_batch_proof

record proto_commitment_proof =
  pcp_proof :: "proto_commitment_proof_proof option"

record proto_merkle_proof =
  pmp_proofs :: "proto_commitment_proof list"

record proto_merkle_root =
  pmr_hash :: bytes

end
