(* ===== verification/Ics23_Ops.thy ===== *)
theory Ics23_Ops imports Ics23_Types begin

text \<open>
  The leaf and inner operations of an ICS-23 proof (\<^verbatim>\<open>lib/ics23/src/ops/\<close> and
  \<^verbatim>\<open>proof_specs.rs\<close>): hashing, length prefixes, the validation of IAVL prefixes and the checks
  of an operation against a spec.

  The hash functions (crates \<^verbatim>\<open>sha2\<close>, \<^verbatim>\<open>ripemd\<close>) and the varint codec (\<^verbatim>\<open>prost::encoding\<close>) are
  the fields of a record \<open>crypto\<close>, an argument of the definitions that use them. A \<^verbatim>\<open>usize\<close>
  is a natural number; a subtraction below zero, a remainder by zero and an index out of range are
  panics (the arithmetic of a build with overflow checks).
\<close>

section \<open>Code outside the repository\<close>

record crypto =
  sha256 :: "bytes \<Rightarrow> bytes"
  sha512 :: "bytes \<Rightarrow> bytes"
  sha512_256 :: "bytes \<Rightarrow> bytes"
  ripemd160 :: "bytes \<Rightarrow> bytes"
  encode_varint :: "u64 \<Rightarrow> bytes"
  decode_varint :: "bytes \<Rightarrow> string + (u64 \<times> bytes)" \<comment> \<open>the value and what is left of the buffer\<close>

section \<open>Hashes and lengths\<close>

datatype hash_error = UnsupportedHashOp hash_op

fun do_hash :: "crypto \<Rightarrow> hash_op \<Rightarrow> bytes \<Rightarrow> (hash_error, bytes) outcome" where
  "do_hash c Sha256 preimage = Ok (sha256 c preimage)"
| "do_hash c Sha512 preimage = Ok (sha512 c preimage)"
| "do_hash c Ripemd160 preimage = Ok (ripemd160 c preimage)"
| "do_hash c Bitcoin preimage = Ok (ripemd160 c (sha256 c preimage))"
| "do_hash c Sha512256 preimage = Ok (sha512_256 c preimage)"
| "do_hash c op preimage = Err (UnsupportedHashOp op)"

datatype length_error =
    Required32Bytes nat
  | Required64Bytes nat
  | UnsupportedLengthOp length_op
  | TooManyDataItems nat

fun length_op_apply :: "crypto \<Rightarrow> length_op \<Rightarrow> bytes \<Rightarrow> (length_error, bytes) outcome" where
  "length_op_apply c NoPrefix data = Ok data"
| "length_op_apply c VarProto data = Ok (encode_varint c (of_nat (length data)) @ data)"
| "length_op_apply c Require32Bytes data =
     andthen (require (length data = 32) (Required32Bytes (length data))) (\<lambda>_. Ok data)"
| "length_op_apply c Require64Bytes data =
     andthen (require (length data = 64) (Required64Bytes (length data))) (\<lambda>_. Ok data)"
| "length_op_apply c Fixed32Big data =
     andthen (require (length data < 2 ^ 32) (TooManyDataItems (length data))) (\<lambda>_.
     Ok (be_bytes 4 (length data) @ data))"
| "length_op_apply c Fixed32Little data =
     andthen (require (length data < 2 ^ 32) (TooManyDataItems (length data))) (\<lambda>_.
     Ok (rev (be_bytes 4 (length data)) @ data))"
| "length_op_apply c Fixed64Big data =
     andthen (require (length data < 2 ^ 64) (TooManyDataItems (length data))) (\<lambda>_.
     Ok (be_bytes 8 (length data) @ data))"
| "length_op_apply c Fixed64Little data =
     andthen (require (length data < 2 ^ 64) (TooManyDataItems (length data))) (\<lambda>_.
     Ok (rev (be_bytes 8 (length data)) @ data))"
| "length_op_apply c VarRlp data = Err (UnsupportedLengthOp VarRlp)"

section \<open>IAVL prefixes\<close>

datatype iavl_ops_error =
    HeightTooShort int int
  | MinHeightTooBig nat
  | NegativeSize int
  | NegativeVersion int
  | DecodeVarint string

definition zigzag :: "u64 \<Rightarrow> int" where
  \<comment> \<open>\<^verbatim>\<open>(ux / 2) as i64 * (if ux % 2 == 0 { 1 } else { -1 })\<close>, which fits an \<^verbatim>\<open>i64\<close>\<close>
  "zigzag ux = uint ux div 2 * (if uint ux mod 2 = 0 then 1 else - 1)"

definition read_varint :: "crypto \<Rightarrow> bytes \<Rightarrow> (iavl_ops_error, bytes \<times> int) outcome" where
  "read_varint c buffer =
     andthen (result_or DecodeVarint (decode_varint c buffer)) (\<lambda>(ux, rest).
     Ok (rest, zigzag ux))"

definition validate_iavl_ops :: "crypto \<Rightarrow> bytes \<Rightarrow> nat \<Rightarrow> (iavl_ops_error, nat) outcome" where
  \<comment> \<open>the last error carries the size, as the source has it\<close>
  "validate_iavl_ops c prefix min_height =
     andthen (read_varint c prefix) (\<lambda>(buffer, height).
     andthen (require (min_height < 2 ^ 63) (MinHeightTooBig min_height)) (\<lambda>_.
     andthen (require (int min_height \<le> height) (HeightTooShort height (int min_height))) (\<lambda>_.
     andthen (read_varint c buffer) (\<lambda>(buffer, size).
     andthen (require (0 \<le> size) (NegativeSize size)) (\<lambda>_.
     andthen (read_varint c buffer) (\<lambda>(buffer, version).
     andthen (require (0 \<le> version) (NegativeVersion size)) (\<lambda>_.
     Ok (length buffer))))))))"

section \<open>The two specs\<close>

definition iavl_proof_spec :: proof_spec where
  "iavl_proof_spec =
     \<lparr>ps_leaf_spec =
        \<lparr>lo_hash = Sha256, lo_prehash_key = NoHash, lo_prehash_value = Sha256,
         lo_length = VarProto, lo_prefix = [0]\<rparr>,
      ps_inner_spec =
        \<lparr>is_child_order = [0, 1], is_child_size = 33, is_min_prefix_length = 4,
         is_max_prefix_length = 12, is_empty_child = [], is_hash = Sha256\<rparr>,
      ps_max_depth = None, ps_min_depth = None, ps_prehash_key_before_comparison = False\<rparr>"

definition tendermint_proof_spec :: proof_spec where
  "tendermint_proof_spec =
     \<lparr>ps_leaf_spec =
        \<lparr>lo_hash = Sha256, lo_prehash_key = NoHash, lo_prehash_value = Sha256,
         lo_length = VarProto, lo_prefix = [0]\<rparr>,
      ps_inner_spec =
        \<lparr>is_child_order = [0, 1], is_child_size = 32, is_min_prefix_length = 1,
         is_max_prefix_length = 1, is_empty_child = [], is_hash = Sha256\<rparr>,
      ps_max_depth = None, ps_min_depth = None, ps_prehash_key_before_comparison = False\<rparr>"

definition compatible :: "proof_spec \<Rightarrow> proof_spec \<Rightarrow> bool" where
  "compatible lhs rhs \<longleftrightarrow>
     lo_hash (ps_leaf_spec lhs) = lo_hash (ps_leaf_spec rhs) \<and>
     lo_prehash_key (ps_leaf_spec lhs) = lo_prehash_key (ps_leaf_spec rhs) \<and>
     lo_prehash_value (ps_leaf_spec lhs) = lo_prehash_value (ps_leaf_spec rhs) \<and>
     lo_length (ps_leaf_spec lhs) = lo_length (ps_leaf_spec rhs) \<and>
     is_hash (ps_inner_spec lhs) = is_hash (ps_inner_spec rhs) \<and>
     is_min_prefix_length (ps_inner_spec lhs) = is_min_prefix_length (ps_inner_spec rhs) \<and>
     is_max_prefix_length (ps_inner_spec lhs) = is_max_prefix_length (ps_inner_spec rhs) \<and>
     is_child_size (ps_inner_spec lhs) = is_child_size (ps_inner_spec rhs) \<and>
     length (is_child_order (ps_inner_spec lhs)) = length (is_child_order (ps_inner_spec rhs))"

section \<open>Leaf operations\<close>

datatype leaf_spec_error =
    LUnexpectedHashOp hash_op
  | LUnexpectedPrehashKey hash_op
  | LUnexpectedPrehashValue hash_op
  | LUnexpectedLengthOp length_op
  | LBadPrefix nat
  | LPrefixMismatch bytes bytes \<comment> \<open>full, prefix\<close>
  | LValidateIavlOps iavl_ops_error

datatype leaf_apply_error =
    KeyNeeded
  | ValueNeeded
  | LeafData length_error
  | LeafHashFails hash_error

definition starts_with :: "bytes \<Rightarrow> bytes \<Rightarrow> bool" where
  "starts_with bs pre \<longleftrightarrow> take (length pre) bs = pre"

definition leaf_check_against_spec ::
  "crypto \<Rightarrow> leaf_op \<Rightarrow> proof_spec \<Rightarrow> (leaf_spec_error, unit) outcome" where
  "leaf_check_against_spec c op spec =
     (let leaf_spec = ps_leaf_spec spec in
     andthen
       (if compatible spec iavl_proof_spec
        then andthen (map_err LValidateIavlOps (validate_iavl_ops c (lo_prefix op) 0)) (\<lambda>remaining.
             require (\<not> 0 < remaining) (LBadPrefix remaining))
        else Ok ()) (\<lambda>_.
     andthen (require (lo_hash op = lo_hash leaf_spec) (LUnexpectedHashOp (lo_hash leaf_spec))) (\<lambda>_.
     andthen (require (lo_prehash_key op = lo_prehash_key leaf_spec)
                (LUnexpectedPrehashKey (lo_prehash_key leaf_spec))) (\<lambda>_.
     andthen (require (lo_prehash_value op = lo_prehash_value leaf_spec)
                (LUnexpectedPrehashValue (lo_prehash_value leaf_spec))) (\<lambda>_.
     andthen (require (lo_length op = lo_length leaf_spec)
                (LUnexpectedLengthOp (lo_length leaf_spec))) (\<lambda>_.
     require (starts_with (lo_prefix op) (lo_prefix leaf_spec))
       (LPrefixMismatch (lo_prefix op) (lo_prefix leaf_spec))))))))"

definition prepare_data ::
  "crypto \<Rightarrow> leaf_op \<Rightarrow> hash_op \<Rightarrow> bytes \<Rightarrow> (leaf_apply_error, bytes) outcome" where
  "prepare_data c op h data =
     andthen (if h = NoHash then Ok data else map_err LeafHashFails (do_hash c h data)) (\<lambda>hashed.
     map_err LeafData (length_op_apply c (lo_length op) hashed))"

definition leaf_apply ::
  "crypto \<Rightarrow> leaf_op \<Rightarrow> bytes \<Rightarrow> bytes \<Rightarrow> (leaf_apply_error, bytes) outcome" where
  "leaf_apply c op key value =
     andthen (require (key \<noteq> []) KeyNeeded) (\<lambda>_.
     andthen (require (value \<noteq> []) ValueNeeded) (\<lambda>_.
     andthen (prepare_data c op (lo_prehash_key op) key) (\<lambda>p_key.
     andthen (prepare_data c op (lo_prehash_value op) value) (\<lambda>p_value.
     map_err LeafHashFails (do_hash c (lo_hash op) (lo_prefix op @ p_key @ p_value))))))"

section \<open>Inner operations\<close>

datatype inner_spec_check_error =
    IUnexpectedHashOp hash_op
  | IPrefixMismatch bytes bytes \<comment> \<open>full, prefix\<close>
  | InnerOpPrefixTooShort nat nat
  | InnerOpPrefixTooLong nat nat
  | InnerOpSuffixMalformed nat
  | IValidateIavlOps iavl_ops_error
  | IBadPrefix nat

datatype inner_apply_error =
    InnerOpNeedsChildValue
  | InnerHashFails hash_error

definition sub_usize :: "nat \<Rightarrow> nat \<Rightarrow> ('e, nat) outcome" where
  \<comment> \<open>\<^verbatim>\<open>a - b\<close> on \<^verbatim>\<open>usize\<close>\<close>
  "sub_usize a b = (if b \<le> a then Ok (a - b) else Panic)"

definition rem_usize :: "nat \<Rightarrow> nat \<Rightarrow> ('e, nat) outcome" where
  \<comment> \<open>\<^verbatim>\<open>a % b\<close>\<close>
  "rem_usize a b = (if b = 0 then Panic else Ok (a mod b))"

definition inner_check_against_spec ::
  "crypto \<Rightarrow> inner_op \<Rightarrow> proof_spec \<Rightarrow> nat \<Rightarrow> (inner_spec_check_error, unit) outcome" where
  "inner_check_against_spec c op spec b =
     (let ispec = ps_inner_spec spec; prefix = io_prefix op in
     andthen (require (io_hash op = is_hash ispec) (IUnexpectedHashOp (io_hash op))) (\<lambda>_.
     andthen
       (if compatible spec iavl_proof_spec
        then andthen (map_err IValidateIavlOps (validate_iavl_ops c prefix b)) (\<lambda>remaining.
             if remaining = 1 \<or> remaining = 34
             then require (io_hash op = Sha256) (IUnexpectedHashOp (io_hash op))
             else Err (IBadPrefix remaining))
        else Ok ()) (\<lambda>_.
     andthen (require (\<not> starts_with prefix (lo_prefix (ps_leaf_spec spec)))
                (IPrefixMismatch prefix (lo_prefix (ps_leaf_spec spec)))) (\<lambda>_.
     andthen (require (\<not> length prefix < is_min_prefix_length ispec)
                (InnerOpPrefixTooShort (length prefix) (is_min_prefix_length ispec))) (\<lambda>_.
     andthen (sub_usize (length (is_child_order ispec)) 1) (\<lambda>others.
     andthen (require (\<not> is_max_prefix_length ispec + others * is_child_size ispec < length prefix)
                (InnerOpPrefixTooLong (length prefix) (is_max_prefix_length ispec))) (\<lambda>_.
     andthen (rem_usize (length (io_suffix op)) (is_child_size ispec)) (\<lambda>r.
     require (r = 0) (InnerOpSuffixMalformed (length (io_suffix op)))))))))))"

definition inner_apply :: "crypto \<Rightarrow> inner_op \<Rightarrow> bytes \<Rightarrow> (inner_apply_error, bytes) outcome" where
  "inner_apply c op child =
     andthen (require (child \<noteq> []) InnerOpNeedsChildValue) (\<lambda>_.
     map_err InnerHashFails (do_hash c (io_hash op) (io_prefix op @ child @ io_suffix op)))"

section \<open>What they accept\<close>

lemma sub_usize_Ok [outcome_ok]: "sub_usize a b = Ok r \<longleftrightarrow> b \<le> a \<and> r = a - b"
  by (auto simp: sub_usize_def)

lemma rem_usize_Ok [outcome_ok]: "rem_usize a b = Ok r \<longleftrightarrow> b \<noteq> 0 \<and> r = a mod b"
  by (auto simp: rem_usize_def)

lemma do_hash_Sha256 [simp]: "do_hash c Sha256 = (\<lambda>x. Ok (sha256 c x))"
  by (rule ext) simp

lemma do_hash_no_panic [simp]: "do_hash c h x \<noteq> Panic"
  by (cases h) simp_all

lemma length_op_apply_no_panic [simp]: "length_op_apply c l x \<noteq> Panic"
  by (cases l) (simp_all add: require_def)

lemma leaf_apply_no_panic [simp]: "leaf_apply c op k v \<noteq> Panic"
  by (auto simp: leaf_apply_def prepare_data_def no_panic)

lemma inner_apply_no_panic [simp]: "inner_apply c op x \<noteq> Panic"
  by (auto simp: inner_apply_def no_panic)

lemma read_varint_Ok:
  "read_varint c b = Ok (rest, x) \<longleftrightarrow>
     (\<exists>ux. decode_varint c b = Inr (ux, rest) \<and> x = zigzag ux)"
  by (auto simp: read_varint_def outcome_ok)

lemma read_varint_no_panic [simp]: "read_varint c b \<noteq> Panic"
  by (auto simp: read_varint_def no_panic split: prod.splits)

lemma validate_iavl_ops_no_panic [simp]: "validate_iavl_ops c p h \<noteq> Panic"
  by (auto simp: validate_iavl_ops_def no_panic split: prod.splits)

lemma leaf_check_no_panic [simp]: "leaf_check_against_spec c op spec \<noteq> Panic"
  by (auto simp: leaf_check_against_spec_def Let_def no_panic)

lemma inner_check_no_panic:
  "is_child_order (ps_inner_spec spec) \<noteq> [] \<Longrightarrow> is_child_size (ps_inner_spec spec) \<noteq> 0 \<Longrightarrow>
     inner_check_against_spec c op spec b \<noteq> Panic"
  by (auto simp: inner_check_against_spec_def Let_def no_panic sub_usize_def rem_usize_def Suc_le_eq
      split: if_splits)

lemma validate_iavl_ops_Ok:
  "validate_iavl_ops c p h = Ok n \<longleftrightarrow>
     (\<exists>u1 r1 u2 r2 u3 r3.
        decode_varint c p = Inr (u1, r1) \<and> decode_varint c r1 = Inr (u2, r2) \<and>
        decode_varint c r2 = Inr (u3, r3) \<and> h < 2 ^ 63 \<and> int h \<le> zigzag u1 \<and>
        0 \<le> zigzag u2 \<and> 0 \<le> zigzag u3 \<and> n = length r3)"
  unfolding validate_iavl_ops_def
  by (auto simp: outcome_ok read_varint_Ok split: prod.splits)

lemma prepare_data_NoHash:
  "lo_length op = VarProto \<Longrightarrow>
     prepare_data c op NoHash d = Ok (encode_varint c (of_nat (length d)) @ d)"
  by (simp add: prepare_data_def)

lemma prepare_data_Sha256:
  "lo_length op = VarProto \<Longrightarrow> length (sha256 c d) = 32 \<Longrightarrow>
     prepare_data c op Sha256 d = Ok (encode_varint c 32 @ sha256 c d)"
  by (simp add: prepare_data_def)

end
