(* ===== verification/Ics23_Verify.thy ===== *)
theory Ics23_Verify imports Ics23_Ops "HOL-Library.List_Lexorder" begin

text \<open>
  The verification of existence and non-existence proofs (\<^verbatim>\<open>lib/ics23/src/existence_proof.rs\<close>
  and \<^verbatim>\<open>verify.rs\<close>). Keys are compared as byte slices, in lexicographic order.
\<close>

section \<open>Existence proofs\<close>

datatype spec_mismatch_error =
    LeafSpecMismatch leaf_spec_error
  | InnerOpSpecMismatch inner_spec_check_error
  | InnerDepthTooShort nat nat
  | InnerDepthTooLong nat nat

datatype calculate_root_error =
    LeafOpHash leaf_apply_error
  | InnerOpHash inner_apply_error
  | InnerOpHashAndSpecMismatch

definition ep_check_against_spec ::
  "crypto \<Rightarrow> existence_proof \<Rightarrow> proof_spec \<Rightarrow> (spec_mismatch_error, unit) outcome" where
  \<comment> \<open>both depth bounds are compared with \<open><\<close>, as the source has them\<close>
  "ep_check_against_spec c ep spec =
     andthen (map_err LeafSpecMismatch (leaf_check_against_spec c (ep_leaf ep) spec)) (\<lambda>_.
     andthen (case ps_min_depth spec of
                None \<Rightarrow> Ok ()
              | Some mn \<Rightarrow> require (\<not> length (ep_path ep) < mn)
                             (InnerDepthTooShort (length (ep_path ep)) mn)) (\<lambda>_.
     andthen (case ps_max_depth spec of
                None \<Rightarrow> Ok ()
              | Some mx \<Rightarrow> require (\<not> length (ep_path ep) < mx)
                             (InnerDepthTooLong (length (ep_path ep)) mx)) (\<lambda>_.
     try_each (\<lambda>(index, inner).
         map_err InnerOpSpecMismatch (inner_check_against_spec c inner spec index))
       (List.enumerate 0 (ep_path ep)))))"

definition calculate_step ::
  "crypto \<Rightarrow> proof_spec option \<Rightarrow> bytes \<Rightarrow> inner_op \<Rightarrow> (calculate_root_error, bytes) outcome" where
  "calculate_step c spec res step =
     andthen (map_err InnerOpHash (inner_apply c step res)) (\<lambda>h.
     andthen (case spec of
                None \<Rightarrow> Ok ()
              | Some s \<Rightarrow>
                  require (\<not> (is_child_size (ps_inner_spec s) < length h \<and>
                             32 \<le> is_child_size (ps_inner_spec s)))
                    InnerOpHashAndSpecMismatch) (\<lambda>_.
     Ok h))"

definition calculate ::
  "crypto \<Rightarrow> existence_proof \<Rightarrow> proof_spec option \<Rightarrow> (calculate_root_error, bytes) outcome" where
  "calculate c ep spec =
     andthen (map_err LeafOpHash (leaf_apply c (ep_leaf ep) (ep_key ep) (ep_value ep))) (\<lambda>leaf_hash.
     try_fold (calculate_step c spec) leaf_hash (ep_path ep))"

definition calculate_root :: "crypto \<Rightarrow> existence_proof \<Rightarrow> (calculate_root_error, bytes) outcome" where
  "calculate_root c ep = calculate c ep None"

section \<open>Neighbours\<close>

datatype neighbor_search_error =
    InvalidBranch nat nat
  | BranchNotFoundInOrder nat "nat list"
  | CannotFindValidSpacing
  | InvalidPath

definition get_position :: "nat list \<Rightarrow> nat \<Rightarrow> (neighbor_search_error, nat) outcome" where
  "get_position order branch =
     andthen (require (\<not> length order \<le> branch) (InvalidBranch branch (length order))) (\<lambda>_.
     case find (\<lambda>(_, elem). elem = branch) (List.enumerate 0 order) of
       Some (i, _) \<Rightarrow> Ok i
     | None \<Rightarrow> Err (BranchNotFoundInOrder branch order))"

definition get_padding ::
  "inner_spec \<Rightarrow> nat \<Rightarrow> (neighbor_search_error, nat \<times> nat \<times> nat) outcome" where
  "get_padding spec branch =
     andthen (get_position (is_child_order spec) branch) (\<lambda>idx.
     let prefix = idx * is_child_size spec in
     andthen (sub_usize (length (is_child_order spec)) 1) (\<lambda>l.
     andthen (sub_usize l idx) (\<lambda>others.
     Ok (prefix + is_min_prefix_length spec, prefix + is_max_prefix_length spec,
         others * is_child_size spec))))"

definition has_padding :: "inner_op \<Rightarrow> nat \<times> nat \<times> nat \<Rightarrow> bool" where
  "has_padding op = (\<lambda>(min_prefix, max_prefix, suffix).
     if length (io_prefix op) < min_prefix \<or> max_prefix < length (io_prefix op) then False
     else length (io_suffix op) = suffix)"

fun scan_branches ::
  "inner_spec \<Rightarrow> inner_op \<Rightarrow> nat list \<Rightarrow> (neighbor_search_error, nat) outcome" where
  \<comment> \<open>the loop of \<^verbatim>\<open>order_from_padding\<close>\<close>
  "scan_branches spec op [] = Err CannotFindValidSpacing"
| "scan_branches spec op (branch # bs) =
     andthen (get_padding spec branch) (\<lambda>pad.
     if has_padding op pad then Ok branch else scan_branches spec op bs)"

definition order_from_padding :: "inner_spec \<Rightarrow> inner_op \<Rightarrow> (neighbor_search_error, nat) outcome" where
  "order_from_padding spec op = scan_branches spec op [0..<length (is_child_order spec)]"

definition get_range :: "bytes \<Rightarrow> nat \<Rightarrow> nat \<Rightarrow> bytes option" where
  \<comment> \<open>\<^verbatim>\<open>bs.get(from..from + n)\<close>\<close>
  "get_range bs from n = (if from + n \<le> length bs then Some (take n (drop from bs)) else None)"

definition left_branches_are_empty :: "inner_spec \<Rightarrow> inner_op \<Rightarrow> (neighbor_search_error, bool) outcome" where
  "left_branches_are_empty spec op =
     andthen (order_from_padding spec op) (\<lambda>left_branches.
     if left_branches = 0 then Ok False
     else if length (io_prefix op) < left_branches * is_child_size spec then Ok False
     else
       let actual_prefix = length (io_prefix op) - left_branches * is_child_size spec in
       try_all (\<lambda>i.
           andthen (get_position (is_child_order spec) i) (\<lambda>idx.
           Ok (Some (is_empty_child spec) =
               get_range (io_prefix op) (actual_prefix + idx * is_child_size spec) (is_child_size spec))))
         [0..<left_branches])"

definition right_branches_are_empty :: "inner_spec \<Rightarrow> inner_op \<Rightarrow> (neighbor_search_error, bool) outcome" where
  "right_branches_are_empty spec op =
     andthen (order_from_padding spec op) (\<lambda>idx.
     andthen (sub_usize (length (is_child_order spec)) 1) (\<lambda>l.
     andthen (sub_usize l idx) (\<lambda>right_branches.
     if right_branches = 0 then Ok False
     else if length (io_suffix op) \<noteq> right_branches * is_child_size spec then Ok False
     else
       try_all (\<lambda>i.
           andthen (get_position (is_child_order spec) i) (\<lambda>idx.
           Ok (get_range (io_suffix op) (idx * is_child_size spec) (is_child_size spec) =
               Some (is_empty_child spec))))
         [0..<right_branches])))"

definition is_left_most :: "inner_spec \<Rightarrow> inner_op list \<Rightarrow> (neighbor_search_error, bool) outcome" where
  "is_left_most spec path =
     andthen (get_padding spec 0) (\<lambda>pad.
     try_all (\<lambda>step. or_try (Ok (has_padding step pad)) (left_branches_are_empty spec step)) path)"

definition is_right_most :: "inner_spec \<Rightarrow> inner_op list \<Rightarrow> (neighbor_search_error, bool) outcome" where
  "is_right_most spec path =
     andthen (sub_usize (length (is_child_order spec)) 1) (\<lambda>l.
     andthen (get_padding spec l) (\<lambda>pad.
     try_all (\<lambda>step. or_try (Ok (has_padding step pad)) (right_branches_are_empty spec step)) path))"

definition is_left_step ::
  "inner_spec \<Rightarrow> inner_op \<Rightarrow> inner_op \<Rightarrow> (neighbor_search_error, bool) outcome" where
  "is_left_step spec left right =
     andthen (order_from_padding spec left) (\<lambda>left_idx.
     andthen (order_from_padding spec right) (\<lambda>right_idx.
     Ok (right_idx = left_idx + 1)))"

definition split_last :: "'a list \<Rightarrow> ('a \<times> 'a list) option" where
  "split_last xs = (if xs = [] then None else Some (last xs, butlast xs))"

lemma split_last_length [simp]: "split_last xs = Some (x, ys) \<Longrightarrow> length ys < length xs"
  by (auto simp: split_last_def split: if_splits)

lemma split_last_snoc [simp]: "split_last (xs @ [x]) = Some (x, xs)"
  by (simp add: split_last_def)

function drop_common ::
  "inner_op \<Rightarrow> inner_op list \<Rightarrow> inner_op \<Rightarrow> inner_op list \<Rightarrow>
     (neighbor_search_error, (inner_op \<times> inner_op list) \<times> (inner_op \<times> inner_op list)) outcome" where
  \<comment> \<open>the \<^verbatim>\<open>while\<close> loop that removes the common upper part of the two paths\<close>
  "drop_common top_left left top_right right =
     (if io_prefix top_left = io_prefix top_right \<and> io_suffix top_left = io_suffix top_right then
        andthen (some_or (split_last left) InvalidPath) (\<lambda>l.
        andthen (some_or (split_last right) InvalidPath) (\<lambda>r.
        drop_common (fst l) (snd l) (fst r) (snd r)))
      else Ok ((top_left, left), (top_right, right)))"
  by pat_completeness auto
termination
  by (relation "measure (\<lambda>(_, left, _, _). length left)")
    (auto simp: some_or_Ok dest: split_last_length)

declare drop_common.simps [simp del]

definition is_left_neighbor ::
  "inner_spec \<Rightarrow> inner_op list \<Rightarrow> inner_op list \<Rightarrow> (neighbor_search_error, bool) outcome" where
  "is_left_neighbor spec left right =
     andthen (some_or (split_last left) InvalidPath) (\<lambda>l.
     andthen (some_or (split_last right) InvalidPath) (\<lambda>r.
     andthen (drop_common (fst l) (snd l) (fst r) (snd r)) (\<lambda>((top_left, left), (top_right, right)).
     and_try (is_left_step spec top_left top_right)
       (and_try (is_right_most spec left) (is_left_most spec right)))))"

section \<open>Verification\<close>

datatype verify_error =
    SpecMismatch spec_mismatch_error
  | KeyAndExistenceProofKeyMismatch bytes bytes
  | ValueAndExistenceProofValueMismatch bytes bytes
  | RootCalculation calculate_root_error
  | CalculatedAndGivenRootMismatch bytes bytes
  | KeyIsNotLeftOfRightProof
  | KeyIsNotRightOfLeftProof
  | LeftProofMissing
  | RightProofMissing
  | BothProofsMissing
  | NeighborSearch neighbor_search_error
  | VerifyHash hash_error

datatype verify_membership_error =
    ExistenceProofVerify verify_error
  | ProofDoesNotExist

definition verify_existence_proof ::
  "crypto \<Rightarrow> existence_proof \<Rightarrow> proof_spec \<Rightarrow> bytes \<Rightarrow> bytes \<Rightarrow> bytes \<Rightarrow>
     (verify_error, unit) outcome" where
  "verify_existence_proof c ep spec root key value =
     andthen (map_err SpecMismatch (ep_check_against_spec c ep spec)) (\<lambda>_.
     andthen (require (key = ep_key ep) (KeyAndExistenceProofKeyMismatch key (ep_key ep))) (\<lambda>_.
     andthen (require (value = ep_value ep)
                (ValueAndExistenceProofValueMismatch value (ep_value ep))) (\<lambda>_.
     andthen (map_err RootCalculation (calculate c ep (Some spec))) (\<lambda>calc.
     require (root = calc) (CalculatedAndGivenRootMismatch calc root)))))"

definition key_for_comparison :: "crypto \<Rightarrow> proof_spec \<Rightarrow> bytes \<Rightarrow> (verify_error, bytes) outcome" where
  "key_for_comparison c spec key =
     (if \<not> ps_prehash_key_before_comparison spec then Ok key
      else if lo_prehash_key (ps_leaf_spec spec) = NoHash then Ok key
      else map_err VerifyHash (do_hash c (lo_prehash_key (ps_leaf_spec spec)) key))"

definition left_ops ::
  "crypto \<Rightarrow> proof_spec \<Rightarrow> bytes \<Rightarrow> bytes \<Rightarrow> existence_proof \<Rightarrow> (verify_error, unit) outcome" where
  "left_ops c spec root key left =
     andthen (verify_existence_proof c left spec root (ep_key left) (ep_value left)) (\<lambda>_.
     andthen (key_for_comparison c spec key) (\<lambda>k.
     andthen (key_for_comparison c spec (ep_key left)) (\<lambda>lk.
     andthen (require (\<not> k \<le> lk) KeyIsNotRightOfLeftProof) (\<lambda>_.
     andthen (map_err NeighborSearch (is_right_most (ps_inner_spec spec) (ep_path left))) (\<lambda>b.
     require b RightProofMissing)))))"

definition right_ops ::
  "crypto \<Rightarrow> proof_spec \<Rightarrow> bytes \<Rightarrow> bytes \<Rightarrow> existence_proof \<Rightarrow> (verify_error, unit) outcome" where
  "right_ops c spec root key right =
     andthen (verify_existence_proof c right spec root (ep_key right) (ep_value right)) (\<lambda>_.
     andthen (key_for_comparison c spec key) (\<lambda>k.
     andthen (key_for_comparison c spec (ep_key right)) (\<lambda>rk.
     andthen (require (\<not> rk \<le> k) KeyIsNotLeftOfRightProof) (\<lambda>_.
     andthen (map_err NeighborSearch (is_left_most (ps_inner_spec spec) (ep_path right))) (\<lambda>b.
     require b LeftProofMissing)))))"

definition verify_non_existence ::
  "crypto \<Rightarrow> non_existence_proof \<Rightarrow> proof_spec \<Rightarrow> bytes \<Rightarrow> bytes \<Rightarrow> (verify_error, unit) outcome" where
  "verify_non_existence c proof spec root key =
     (case (np_left proof, np_right proof) of
        (None, Some right) \<Rightarrow> right_ops c spec root key right
      | (Some left, None) \<Rightarrow> left_ops c spec root key left
      | (Some left, Some right) \<Rightarrow>
          andthen (map_err NeighborSearch
                     (is_left_neighbor (ps_inner_spec spec) (ep_path left) (ep_path right))) (\<lambda>b.
          require b RightProofMissing)
      | (None, None) \<Rightarrow> Err BothProofsMissing)"

definition ics23_verify_non_membership ::
  "crypto \<Rightarrow> proof_spec \<Rightarrow> bytes \<Rightarrow> non_existence_proof \<Rightarrow> bytes \<Rightarrow>
     (verify_membership_error, unit) outcome" where
  "ics23_verify_non_membership c spec root proof key =
     map_err ExistenceProofVerify (verify_non_existence c proof spec root key)"

definition ics23_verify_membership ::
  "crypto \<Rightarrow> proof_spec \<Rightarrow> bytes \<Rightarrow> existence_proof \<Rightarrow> bytes \<Rightarrow> bytes \<Rightarrow>
     (verify_membership_error, unit) outcome" where
  "ics23_verify_membership c spec root proof key value =
     map_err ExistenceProofVerify (verify_existence_proof c proof spec root key value)"

end
