(* ===== verification/Ics23_Trees.thy ===== *)
theory Ics23_Trees imports Ics23_Verify begin

text \<open>
  What a proof is about: a binary Merkle tree of key-value pairs, as the Cosmos SDK commits its
  stores to (an IAVL tree per module, a Tendermint tree over the modules), and the relation
  between the trees and the proofs that the verifier accepts. The interface a spec offers to these
  proofs is the locale \<open>committed_tree\<close>; both specs of the code are instances of it.

  Collision resistance is stated for the finitely many inputs that occur: no two different byte
  strings among those hashed by the tree and those hashed by the proof have the same hash.
\<close>

section \<open>Trees and their roots\<close>

datatype store_tree = SLeaf bytes bytes bytes | SNode bytes store_tree store_tree

definition frame :: "crypto \<Rightarrow> bytes \<Rightarrow> bytes" where
  "frame c k = encode_varint c (of_nat (length k)) @ k"

definition leaf_preimage :: "crypto \<Rightarrow> bytes \<Rightarrow> bytes \<Rightarrow> bytes \<Rightarrow> bytes" where
  "leaf_preimage c p k v = p @ frame c k @ encode_varint c 32 @ sha256 c v"

fun tree_preimage :: "crypto \<Rightarrow> bytes \<Rightarrow> store_tree \<Rightarrow> bytes" where
  "tree_preimage c sep (SLeaf p k v) = leaf_preimage c p k v"
| "tree_preimage c sep (SNode p l r) =
     p @ sep @ sha256 c (tree_preimage c sep l) @ sep @ sha256 c (tree_preimage c sep r)"

definition tree_root :: "crypto \<Rightarrow> bytes \<Rightarrow> store_tree \<Rightarrow> bytes" where
  "tree_root c sep t = sha256 c (tree_preimage c sep t)"

fun leaves :: "store_tree \<Rightarrow> (bytes \<times> bytes \<times> bytes) list" where
  "leaves (SLeaf p k v) = [(p, k, v)]"
| "leaves (SNode p l r) = leaves l @ leaves r"

definition bindings :: "store_tree \<Rightarrow> (bytes \<times> bytes) list" where
  "bindings t = map snd (leaves t)"

fun tree_height :: "store_tree \<Rightarrow> nat" where
  "tree_height (SLeaf p k v) = 0"
| "tree_height (SNode p l r) = Suc (max (tree_height l) (tree_height r))"

fun wf_tree :: "(bytes \<Rightarrow> bool) \<Rightarrow> (nat \<Rightarrow> bytes \<Rightarrow> bool) \<Rightarrow> store_tree \<Rightarrow> bool" where
  \<comment> \<open>the prefixes are those the kind of tree uses\<close>
  "wf_tree leaf_ok node_ok (SLeaf p k v) = leaf_ok p"
| "wf_tree leaf_ok node_ok (SNode p l r) =
     (node_ok (tree_height (SNode p l r)) p \<and> wf_tree leaf_ok node_ok l \<and> wf_tree leaf_ok node_ok r)"

text \<open>The way from the root down to a leaf: \<open>True\<close> is right.\<close>

fun leaf_at :: "store_tree \<Rightarrow> bool list \<Rightarrow> (bytes \<times> bytes \<times> bytes) option" where
  "leaf_at (SLeaf p k v) [] = Some (p, k, v)"
| "leaf_at (SNode p l r) (d # ds) = leaf_at (if d then r else l) ds"
| "leaf_at _ _ = None"

lemma leaf_at_leaves: "leaf_at t ds = Some x \<Longrightarrow> x \<in> set (leaves t)"
  by (induction t ds rule: leaf_at.induct) (auto split: if_splits)

lemma leaf_at_ex: "x \<in> set (leaves t) \<Longrightarrow> \<exists>ds. leaf_at t ds = Some x"
proof (induction t)
  case (SNode p l r)
  then consider ds where "leaf_at l ds = Some x" | ds where "leaf_at r ds = Some x" by auto
  then show ?case
  proof cases
    case 1
    then have "leaf_at (SNode p l r) (False # ds) = Some x" by simp
    then show ?thesis by blast
  next
    case 2
    then have "leaf_at (SNode p l r) (True # ds) = Some x" by simp
    then show ?thesis by blast
  qed
qed (auto intro: exI [where x = "[]"])

lemma leaf_at_leftmost:
  "leaf_at t ds = Some x \<Longrightarrow> list_all Not ds \<Longrightarrow> leaves t \<noteq> [] \<and> hd (leaves t) = x"
  by (induction t ds rule: leaf_at.induct) auto

lemma leaf_at_rightmost:
  "leaf_at t ds = Some x \<Longrightarrow> list_all id ds \<Longrightarrow> leaves t \<noteq> [] \<and> last (leaves t) = x"
  by (induction t ds rule: leaf_at.induct) auto

lemma length_leaf_at: "leaf_at t ds = Some x \<Longrightarrow> length ds \<le> tree_height t"
  by (induction t ds rule: leaf_at.induct) (auto split: if_splits)

text \<open>The proof an honest holder of the tree gives for the leaf at the end of a way.\<close>

fun honest_path :: "crypto \<Rightarrow> bytes \<Rightarrow> store_tree \<Rightarrow> bool list \<Rightarrow> inner_op list" where
  "honest_path c sep (SNode p l r) (d # ds) =
     (if d then honest_path c sep r ds @
             [\<lparr>io_hash = Sha256, io_prefix = p @ sep @ tree_root c sep l @ sep, io_suffix = []\<rparr>]
      else honest_path c sep l ds @
             [\<lparr>io_hash = Sha256, io_prefix = p @ sep, io_suffix = sep @ tree_root c sep r\<rparr>])"
| "honest_path c sep _ _ = []"

definition honest_proof :: "crypto \<Rightarrow> bytes \<Rightarrow> store_tree \<Rightarrow> bool list \<Rightarrow> existence_proof option" where
  "honest_proof c sep t ds =
     (case leaf_at t ds of
        None \<Rightarrow> None
      | Some (p, k, v) \<Rightarrow>
          Some \<lparr>ep_key = k, ep_value = v,
                ep_leaf = \<lparr>lo_hash = Sha256, lo_prehash_key = NoHash, lo_prehash_value = Sha256,
                           lo_length = VarProto, lo_prefix = p\<rparr>,
                ep_path = honest_path c sep t ds\<rparr>)"

section \<open>The inputs of the hash function\<close>

fun tree_inputs :: "crypto \<Rightarrow> bytes \<Rightarrow> store_tree \<Rightarrow> bytes list" where
  "tree_inputs c sep (SLeaf p k v) = [v, leaf_preimage c p k v]"
| "tree_inputs c sep (SNode p l r) =
     tree_preimage c sep (SNode p l r) # tree_inputs c sep l @ tree_inputs c sep r"

fun path_inputs :: "crypto \<Rightarrow> bytes \<Rightarrow> inner_op list \<Rightarrow> bytes list" where
  \<comment> \<open>from the hash below the first step\<close>
  "path_inputs c h [] = []"
| "path_inputs c h (s # ss) =
     (let x = io_prefix s @ h @ io_suffix s in x # path_inputs c (sha256 c x) ss)"

definition proof_leaf_preimage :: "crypto \<Rightarrow> existence_proof \<Rightarrow> bytes" where
  "proof_leaf_preimage c ep = leaf_preimage c (lo_prefix (ep_leaf ep)) (ep_key ep) (ep_value ep)"

definition proof_inputs :: "crypto \<Rightarrow> existence_proof \<Rightarrow> bytes list" where
  "proof_inputs c ep =
     ep_value ep # proof_leaf_preimage c ep #
     path_inputs c (sha256 c (proof_leaf_preimage c ep)) (ep_path ep)"

definition no_collision :: "crypto \<Rightarrow> bytes list \<Rightarrow> bytes list \<Rightarrow> bool" where
  "no_collision c xs ys \<longleftrightarrow>
     list_all (\<lambda>x. list_all (\<lambda>y. sha256 c x = sha256 c y \<longrightarrow> x = y) ys) xs"

lemma no_collisionD:
  "no_collision c xs ys \<Longrightarrow> x \<in> set xs \<Longrightarrow> y \<in> set ys \<Longrightarrow> sha256 c x = sha256 c y \<Longrightarrow> x = y"
  by (auto simp: no_collision_def list_all_iff)

lemma no_collision_mono:
  "no_collision c xs ys \<Longrightarrow> set xs' \<subseteq> set xs \<Longrightarrow> set ys' \<subseteq> set ys \<Longrightarrow> no_collision c xs' ys'"
  by (auto simp: no_collision_def list_all_iff)

lemma tree_preimage_in [simp]: "tree_preimage c sep t \<in> set (tree_inputs c sep t)"
  by (cases t) auto

section \<open>The interface of a spec\<close>

definition standard_leaf :: "leaf_op \<Rightarrow> bool" where
  "standard_leaf op \<longleftrightarrow>
     lo_hash op = Sha256 \<and> lo_prehash_key op = NoHash \<and> lo_prehash_value op = Sha256 \<and>
     lo_length op = VarProto"

definition left_padded :: "inner_spec \<Rightarrow> inner_op \<Rightarrow> bool" where
  "left_padded s op \<longleftrightarrow>
     has_padding op (is_min_prefix_length s, is_max_prefix_length s, is_child_size s)"

definition right_padded :: "inner_spec \<Rightarrow> inner_op \<Rightarrow> bool" where
  "right_padded s op \<longleftrightarrow>
     has_padding op (is_child_size s + is_min_prefix_length s,
                     is_child_size s + is_max_prefix_length s, 0)"

definition turn_ok :: "inner_spec \<Rightarrow> inner_op \<Rightarrow> bool \<Rightarrow> bool" where
  \<comment> \<open>the padding of the step does not contradict the turn\<close>
  "turn_ok s op d \<longleftrightarrow> \<not> (if d then left_padded s op else right_padded s op)"

text \<open>
  \<open>sep\<close> stands before each child's hash in a node, \<open>leaf_ok\<close> and \<open>node_ok\<close> say which prefixes
  the tree uses (a node's with the number of levels below it). The laws: an accepted leaf
  operation starts with the byte 0, an accepted step does not, and a step whose input is the
  contents of a node has one of the two children in the place of the child.
\<close>

locale committed_tree =
  fixes c :: crypto and spec :: proof_spec and sep :: bytes
    and leaf_ok :: "bytes \<Rightarrow> bool" and node_ok :: "nat \<Rightarrow> bytes \<Rightarrow> bool"
  assumes digest: "length (sha256 c x) = 32"
    and binary: "is_child_order (ps_inner_spec spec) = [0, 1]"
    and no_empty_child: "is_empty_child (ps_inner_spec spec) = []"
    and child_size: "32 \<le> is_child_size (ps_inner_spec spec)"
    and no_depths: "ps_min_depth spec = None" "ps_max_depth spec = None"
    and plain_keys: "\<not> ps_prehash_key_before_comparison spec"
    and leaf_accepted: "leaf_check_against_spec c op spec = Ok () \<Longrightarrow>
          standard_leaf op \<and> lo_prefix op \<noteq> [] \<and> hd (lo_prefix op) = 0"
    and leaf_honest: "leaf_ok p \<Longrightarrow> p \<noteq> [] \<and> hd p = 0"
    and leaf_complete: "leaf_ok p \<Longrightarrow> standard_leaf op \<Longrightarrow> lo_prefix op = p \<Longrightarrow>
          leaf_check_against_spec c op spec = Ok ()"
    and inner_accepted: "inner_check_against_spec c s spec b = Ok () \<Longrightarrow>
          io_hash s = Sha256 \<and> io_prefix s \<noteq> [] \<and> hd (io_prefix s) \<noteq> 0"
    and node_honest: "node_ok m p \<Longrightarrow> p \<noteq> [] \<and> hd p \<noteq> 0"
    and inner_shape: "inner_check_against_spec c s spec b = Ok () \<Longrightarrow> node_ok m p \<Longrightarrow>
          length h = 32 \<Longrightarrow> length hl = 32 \<Longrightarrow> length hr = 32 \<Longrightarrow>
          io_prefix s @ h @ io_suffix s = p @ sep @ hl @ sep @ hr \<Longrightarrow>
          (h = hl \<and> \<not> right_padded (ps_inner_spec spec) s) \<or>
          (h = hr \<and> \<not> left_padded (ps_inner_spec spec) s)"
    and inner_complete: "node_ok m p \<Longrightarrow> b < m \<Longrightarrow> length h = 32 \<Longrightarrow>
          inner_check_against_spec c
            \<lparr>io_hash = Sha256, io_prefix = p @ sep, io_suffix = sep @ h\<rparr> spec b = Ok () \<and>
          inner_check_against_spec c
            \<lparr>io_hash = Sha256, io_prefix = p @ sep @ h @ sep, io_suffix = []\<rparr> spec b = Ok ()"
begin

abbreviation "wf_t \<equiv> wf_tree leaf_ok node_ok"

abbreviation "root \<equiv> tree_root c sep"

lemma leaf_apply_standard:
  "standard_leaf op \<Longrightarrow>
     leaf_apply c op k v = Ok h \<longleftrightarrow>
       k \<noteq> [] \<and> v \<noteq> [] \<and> h = sha256 c (leaf_preimage c (lo_prefix op) k v)"
  by (auto simp: leaf_apply_def standard_leaf_def outcome_ok prepare_data_NoHash
      prepare_data_Sha256 digest leaf_preimage_def frame_def)

lemma calculate_step_sha:
  "io_hash s = Sha256 \<Longrightarrow>
     calculate_step c (Some spec) h s = Ok h' \<longleftrightarrow>
       h \<noteq> [] \<and> h' = sha256 c (io_prefix s @ h @ io_suffix s)"
  using child_size digest by (auto simp: calculate_step_def inner_apply_def outcome_ok)

lemma climb_end:
  assumes "hd L = 0" "L \<noteq> []" "wf_t t" "no_collision c (tree_inputs c sep t) [L]"
    and "sha256 c L = root t"
  shows "\<exists>p k v. t = SLeaf p k v \<and> leaf_preimage c p k v = L"
proof -
  have eq: "tree_preimage c sep t = L"
    using assms(4,5) by (auto simp: tree_root_def dest: no_collisionD [where x = "tree_preimage c sep t"])
  show ?thesis
  proof (cases t)
    case (SLeaf p k v)
    with eq show ?thesis by simp
  next
    case (SNode p l r)
    with assms(3) have "p \<noteq> []" "hd p \<noteq> 0" by (auto dest: node_honest)
    then have "hd (tree_preimage c sep t) \<noteq> 0" using SNode by (simp add: hd_append2)
    with eq assms(1) show ?thesis by simp
  qed
qed

lemma climb_step:
  assumes ok: "inner_check_against_spec c s spec b = Ok ()" and h: "length h = 32"
    and t: "wf_t t" and nc: "no_collision c (tree_inputs c sep t) [io_prefix s @ h @ io_suffix s]"
    and eq: "sha256 c (io_prefix s @ h @ io_suffix s) = root t"
  shows "\<exists>p l r d. t = SNode p l r \<and> h = root (if d then r else l) \<and>
    turn_ok (ps_inner_spec spec) s d"
proof -
  have pre: "tree_preimage c sep t = io_prefix s @ h @ io_suffix s"
    using nc eq by (auto simp: tree_root_def dest: no_collisionD [where x = "tree_preimage c sep t"])
  note s = inner_accepted [OF ok]
  show ?thesis
  proof (cases t)
    case (SLeaf p k v)
    then have "p \<noteq> []" "hd p = 0" using t leaf_honest by auto
    with pre s SLeaf show ?thesis
      by (simp add: leaf_preimage_def) (metis hd_append2)
  next
    case (SNode p l r)
    then have n: "node_ok (tree_height t) p" using t by simp
    have r32: "length (root x) = 32" for x by (simp add: tree_root_def digest)
    have "io_prefix s @ h @ io_suffix s = p @ sep @ root l @ sep @ root r"
      using pre SNode by (simp add: tree_root_def)
    from inner_shape [OF ok n h r32 r32 this]
    consider "h = root l" "\<not> right_padded (ps_inner_spec spec) s"
      | "h = root r" "\<not> left_padded (ps_inner_spec spec) s"
      by blast
    then show ?thesis
    proof cases
      case 1
      with SNode show ?thesis by (intro exI [of _ p] exI [of _ l] exI [of _ r] exI [of _ False]) (simp add: turn_ok_def)
    next
      case 2
      with SNode show ?thesis by (intro exI [of _ p] exI [of _ l] exI [of _ r] exI [of _ True]) (simp add: turn_ok_def)
    qed
  qed
qed

lemma path_inputs_snoc:
  "list_all (\<lambda>s. io_hash s = Sha256) path \<Longrightarrow> h0 \<noteq> [] \<Longrightarrow>
     try_fold (calculate_step c (Some spec)) h0 path = Ok h \<Longrightarrow>
     path_inputs c h0 (path @ [s]) = path_inputs c h0 path @ [io_prefix s @ h @ io_suffix s]"
proof (induction path arbitrary: h0)
  case (Cons x xs)
  have "sha256 c y \<noteq> []" for y using digest [of y] by auto
  with Cons show ?case by (auto simp: andthen_Ok calculate_step_sha Let_def)
qed simp

text \<open>Up the path from the leaf, down the tree from the root.\<close>

lemma climb:
  assumes "list_all (\<lambda>s. \<exists>b. inner_check_against_spec c s spec b = Ok ()) path"
    and "hd L = 0" "L \<noteq> []" "wf_t t"
    and "no_collision c (tree_inputs c sep t) (L # path_inputs c (sha256 c L) path)"
    and "try_fold (calculate_step c (Some spec)) (sha256 c L) path = Ok (root t)"
  shows "\<exists>ds p k v. leaf_at t ds = Some (p, k, v) \<and> leaf_preimage c p k v = L \<and>
    list_all2 (turn_ok (ps_inner_spec spec)) path (rev ds)"
  using assms
proof (induction path arbitrary: t rule: rev_induct)
  case Nil
  then obtain p k v where "t = SLeaf p k v" "leaf_preimage c p k v = L"
    using climb_end [of L t] by (auto simp: no_collision_def)
  then show ?case by (intro exI [of _ "[]"] exI [of _ p] exI [of _ k] exI [of _ v]) auto
next
  case (snoc s path)
  have sha: "list_all (\<lambda>s. io_hash s = Sha256) path" "io_hash s = Sha256"
    using snoc.prems(1) by (auto simp: list_all_iff dest: inner_accepted)
  have ne: "sha256 c L \<noteq> []" using digest [of L] by auto
  from snoc.prems(6) obtain h where h: "try_fold (calculate_step c (Some spec)) (sha256 c L) path = Ok h"
    and last: "calculate_step c (Some spec) h s = Ok (root t)"
    by (auto simp: try_fold_append andthen_Ok)
  have inputs: "path_inputs c (sha256 c L) (path @ [s]) =
      path_inputs c (sha256 c L) path @ [io_prefix s @ h @ io_suffix s]"
    by (rule path_inputs_snoc [OF sha(1) ne h])
  have h32: "length h = 32"
  proof (cases path rule: rev_cases)
    case Nil
    with h show ?thesis by (simp add: digest [symmetric]) (metis digest)
  next
    case (snoc ys y)
    with h sha(1) show ?thesis by (auto simp: try_fold_append andthen_Ok calculate_step_sha digest)
  qed
  have top: "sha256 c (io_prefix s @ h @ io_suffix s) = root t"
    using last sha(2) by (auto simp: calculate_step_sha)
  from snoc.prems(1) obtain b where b: "inner_check_against_spec c s spec b = Ok ()" by auto
  have "no_collision c (tree_inputs c sep t) [io_prefix s @ h @ io_suffix s]"
    by (rule no_collision_mono [OF snoc.prems(5)]) (auto simp: inputs)
  from climb_step [OF b h32 snoc.prems(4) this top] obtain p l r d
    where t: "t = SNode p l r" and hd: "h = root (if d then r else l)"
      and pad: "turn_ok (ps_inner_spec spec) s d" by blast
  let ?t = "if d then r else l"
  have "no_collision c (tree_inputs c sep ?t) (L # path_inputs c (sha256 c L) path)"
    by (rule no_collision_mono [OF snoc.prems(5)]) (auto simp: inputs t)
  moreover have "wf_t ?t" "try_fold (calculate_step c (Some spec)) (sha256 c L) path = Ok (root ?t)"
    using snoc.prems(4) h hd t by auto
  moreover have "list_all (\<lambda>s. \<exists>b. inner_check_against_spec c s spec b = Ok ()) path"
    using snoc.prems(1) by simp
  ultimately obtain ds p' k v
    where "leaf_at ?t ds = Some (p', k, v)" "leaf_preimage c p' k v = L"
      "list_all2 (turn_ok (ps_inner_spec spec)) path (rev ds)"
    using snoc.IH [of ?t] snoc.prems(2,3) by blast
  with t pad show ?case by (intro exI [of _ "d # ds"]) (auto simp: list_all2_appendI)
qed

lemma leaf_value_input: "leaf_at t ds = Some (p, k, v) \<Longrightarrow> v \<in> set (tree_inputs c sep t)"
  by (induction t ds rule: leaf_at.induct) (auto split: if_splits)

lemma ep_checks:
  assumes "ep_check_against_spec c ep spec = Ok ()"
  shows "leaf_check_against_spec c (ep_leaf ep) spec = Ok ()"
    and "list_all (\<lambda>s. \<exists>b. inner_check_against_spec c s spec b = Ok ()) (ep_path ep)"
proof -
  from assms show "leaf_check_against_spec c (ep_leaf ep) spec = Ok ()"
    by (auto simp: ep_check_against_spec_def outcome_ok)
  from assms have "\<forall>(b, s) \<in> set (List.enumerate 0 (ep_path ep)).
      inner_check_against_spec c s spec b = Ok ()"
    by (auto simp: ep_check_against_spec_def outcome_ok no_depths split: prod.splits)
  then show "list_all (\<lambda>s. \<exists>b. inner_check_against_spec c s spec b = Ok ()) (ep_path ep)"
    by (fastforce simp: list_all_length in_set_enumerate_eq)
qed

text \<open>
  An accepted existence proof leads to a leaf with the proven value whose framed key is the proven
  one behind the two leaf prefixes.
\<close>

lemma existence_sound:
  assumes ok: "verify_existence_proof c ep spec (root t) key value = Ok ()"
    and t: "wf_t t" and nc: "no_collision c (tree_inputs c sep t) (proof_inputs c ep)"
  shows "\<exists>ds p k. leaf_at t ds = Some (p, k, value) \<and>
    lo_prefix (ep_leaf ep) @ frame c key = p @ frame c k \<and>
    list_all2 (turn_ok (ps_inner_spec spec)) (ep_path ep) (rev ds)"
proof -
  let ?L = "proof_leaf_preimage c ep"
  from ok have chk: "ep_check_against_spec c ep spec = Ok ()" and kv: "ep_key ep = key" "ep_value ep = value"
    and calc: "calculate c ep (Some spec) = Ok (root t)"
    by (auto simp: verify_existence_proof_def outcome_ok)
  note op = leaf_accepted [OF ep_checks(1) [OF chk]]
  from op have std: "standard_leaf (ep_leaf ep)" by simp
  from calc have fold: "try_fold (calculate_step c (Some spec)) (sha256 c ?L) (ep_path ep) = Ok (root t)"
    by (auto simp: calculate_def outcome_ok leaf_apply_standard [OF std] proof_leaf_preimage_def)
  have "hd ?L = 0" "?L \<noteq> []" using op by (auto simp: proof_leaf_preimage_def leaf_preimage_def)
  moreover have "no_collision c (tree_inputs c sep t) (?L # path_inputs c (sha256 c ?L) (ep_path ep))"
    by (rule no_collision_mono [OF nc]) (auto simp: proof_inputs_def)
  ultimately obtain ds p k v where leaf: "leaf_at t ds = Some (p, k, v)"
    and pre: "leaf_preimage c p k v = ?L"
    and turns: "list_all2 (turn_ok (ps_inner_spec spec)) (ep_path ep) (rev ds)"
    using climb [OF ep_checks(2) [OF chk] _ _ t _ fold] by blast
  from pre have "p @ frame c k = lo_prefix (ep_leaf ep) @ frame c key" and v: "sha256 c v = sha256 c value"
    using digest by (auto simp: leaf_preimage_def proof_leaf_preimage_def kv simp flip: append_assoc)
  moreover have "v = value"
    by (rule no_collisionD [OF nc leaf_value_input [OF leaf] _ v]) (simp add: proof_inputs_def kv)
  ultimately show ?thesis using leaf turns by metis
qed

section \<open>Completeness\<close>

lemma root_nonempty [simp]: "root t \<noteq> []"
  using digest [of "tree_preimage c sep t"] by (auto simp: tree_root_def)

lemma honest_path_length: "leaf_at t ds = Some x \<Longrightarrow> length (honest_path c sep t ds) = length ds"
  by (induction t ds rule: leaf_at.induct) (auto split: if_splits)

lemma honest_path_accepted:
  "wf_t t \<Longrightarrow> leaf_at t ds = Some x \<Longrightarrow>
     \<forall>(b, s) \<in> set (List.enumerate 0 (honest_path c sep t ds)).
       inner_check_against_spec c s spec b = Ok ()"
proof (induction t ds rule: leaf_at.induct)
  case (2 p l r d ds)
  let ?t = "if d then r else l"
  have len: "length (root y) = 32" for y by (simp add: tree_root_def digest)
  from 2 have leaf: "leaf_at ?t ds = Some x" by (simp split: if_splits)
  then have "length ds < tree_height (SNode p l r)"
    using length_leaf_at [OF leaf] by (auto split: if_splits)
  moreover have "node_ok (tree_height (SNode p l r)) p" using 2 by simp
  ultimately have step: "inner_check_against_spec c
        \<lparr>io_hash = Sha256, io_prefix = p @ sep, io_suffix = sep @ root y\<rparr> spec (length ds) = Ok ()"
      "inner_check_against_spec c
        \<lparr>io_hash = Sha256, io_prefix = p @ sep @ root y @ sep, io_suffix = []\<rparr> spec (length ds) = Ok ()"
    for y
    using inner_complete len by blast+
  from 2(2) have "wf_t ?t" by auto
  from 2(1) [OF this leaf] step leaf show ?case
    by (auto simp: enumerate_append_eq honest_path_length split: if_splits)
qed simp_all

lemma calculate_step_eval:
  "io_hash s = Sha256 \<Longrightarrow> h \<noteq> [] \<Longrightarrow>
     calculate_step c (Some spec) h s = Ok (sha256 c (io_prefix s @ h @ io_suffix s))"
  by (simp add: calculate_step_sha)

lemma honest_path_root:
  "leaf_at t ds = Some (p, k, v) \<Longrightarrow>
     try_fold (calculate_step c (Some spec)) (sha256 c (leaf_preimage c p k v))
       (honest_path c sep t ds) = Ok (root t)"
proof (induction t ds rule: leaf_at.induct)
  case (2 q l r d ds)
  then show ?case
    by (auto simp: try_fold_append calculate_step_eval tree_root_def [of _ _ "SNode _ _ _"]
        simp flip: tree_root_def split: if_splits)
qed (simp_all add: tree_root_def)

lemma existence_complete:
  assumes t: "wf_t t" and leaf: "leaf_at t ds = Some (p, k, v)" and ne: "k \<noteq> []" "v \<noteq> []"
  shows "\<exists>ep. honest_proof c sep t ds = Some ep \<and>
    verify_existence_proof c ep spec (root t) k v = Ok ()"
proof -
  let ?op = "\<lparr>lo_hash = Sha256, lo_prehash_key = NoHash, lo_prehash_value = Sha256,
              lo_length = VarProto, lo_prefix = p\<rparr>"
  have std: "standard_leaf ?op" by (simp add: standard_leaf_def)
  have "leaf_ok p" using t leaf by (induction t ds rule: leaf_at.induct) (auto split: if_splits)
  then have chk: "leaf_check_against_spec c ?op spec = Ok ()"
    using leaf_complete std by auto
  have inner: "try_each (\<lambda>(b, s). map_err InnerOpSpecMismatch (inner_check_against_spec c s spec b))
      (List.enumerate 0 (honest_path c sep t ds)) = Ok ()"
    unfolding try_each_Ok using honest_path_accepted [OF t leaf] by (auto split: prod.splits)
  have "calculate c \<lparr>ep_key = k, ep_value = v, ep_leaf = ?op, ep_path = honest_path c sep t ds\<rparr>
          (Some spec) = Ok (root t)"
    using honest_path_root [OF leaf] ne
    by (simp add: calculate_def andthen_Ok map_err_Ok leaf_apply_standard [OF std])
  with chk inner show ?thesis
    by (simp add: honest_proof_def leaf verify_existence_proof_def ep_check_against_spec_def no_depths)
qed

section \<open>The edges of the tree\<close>

lemma padding_eval:
  "get_padding (ps_inner_spec spec) 0 =
     Ok (is_min_prefix_length (ps_inner_spec spec), is_max_prefix_length (ps_inner_spec spec),
         is_child_size (ps_inner_spec spec))"
  "get_padding (ps_inner_spec spec) 1 =
     Ok (is_child_size (ps_inner_spec spec) + is_min_prefix_length (ps_inner_spec spec),
         is_child_size (ps_inner_spec spec) + is_max_prefix_length (ps_inner_spec spec), 0)"
  by (simp_all add: get_padding_def get_position_def binary sub_usize_def Let_def)

lemma order_eval:
  "order_from_padding (ps_inner_spec spec) s =
     (if left_padded (ps_inner_spec spec) s then Ok 0
      else if right_padded (ps_inner_spec spec) s then Ok 1
      else Err CannotFindValidSpacing)"
  by (simp add: order_from_padding_def binary upt_rec padding_eval [simplified] left_padded_def
      right_padded_def)

lemma no_empty_branches:
  "left_branches_are_empty (ps_inner_spec spec) s \<noteq> Ok True"
  "right_branches_are_empty (ps_inner_spec spec) s \<noteq> Ok True"
  using child_size
  by (auto simp: left_branches_are_empty_def right_branches_are_empty_def andthen_Ok order_eval
      sub_usize_Ok binary no_empty_child get_range_def get_position_def upt_rec Let_def split: if_splits)

lemma is_left_most_padded:
  "is_left_most (ps_inner_spec spec) path = Ok True \<Longrightarrow>
     list_all (left_padded (ps_inner_spec spec)) path"
  by (auto simp: is_left_most_def padding_eval outcome_ok no_empty_branches left_padded_def
      list_all_iff)

lemma is_right_most_padded:
  "is_right_most (ps_inner_spec spec) path = Ok True \<Longrightarrow>
     list_all (right_padded (ps_inner_spec spec)) path"
  by (auto simp: is_right_most_def padding_eval [simplified] outcome_ok no_empty_branches binary
      right_padded_def list_all_iff)

lemma turns_left:
  "list_all (left_padded s) path \<Longrightarrow> list_all2 (turn_ok s) path (rev ds) \<Longrightarrow> list_all Not ds"
  by (auto simp: list_all_iff list_all2_conv_all_nth in_set_conv_nth turn_ok_def)
    (metis in_set_conv_nth length_rev nth_mem set_rev)

lemma turns_right:
  "list_all (right_padded s) path \<Longrightarrow> list_all2 (turn_ok s) path (rev ds) \<Longrightarrow> list_all id ds"
  by (auto simp: list_all_iff list_all2_conv_all_nth in_set_conv_nth turn_ok_def)
    (metis in_set_conv_nth length_rev nth_mem set_rev)

end

end
