(* ===== verification/Ics23_Api.thy ===== *)
theory Ics23_Api imports Ics23_Verify begin

text \<open>
  Chained proofs of an IBC commitment (\<^verbatim>\<open>lib/ics23/src/ibc_api.rs\<close>): a proof in the module's
  store, then the proof of that store's root in the application's multistore, and so on up to the
  root that the consensus state holds.
\<close>

definition sdk_specs :: "proof_spec list" where
  "sdk_specs = [iavl_proof_spec, tendermint_proof_spec]"

datatype api_error =
    ApiRootCalculation calculate_root_error
  | InnerVerification verify_membership_error
  | InvalidRoot bytes bytes \<comment> \<open>found, calculated\<close>
  | InvalidProofsLength nat nat
  | InvalidKeyPathLength nat nat
  | InvalidProofType
  | InvalidIndexing
  | EmptyNonExistenceProof
  | EmptyProof

definition chained_key :: "bytes list \<Rightarrow> nat \<Rightarrow> bytes option" where
  \<comment> \<open>\<^verbatim>\<open>keys.len().checked_sub(1 + i).and_then(|i| keys.get(i))\<close>\<close>
  "chained_key keys i = (if length keys < 1 + i then None else slice_get keys (length keys - (1 + i)))"

definition chained_step ::
  "crypto \<Rightarrow> proof_spec list \<Rightarrow> bytes list \<Rightarrow> bytes \<Rightarrow> nat \<times> commitment_proof \<Rightarrow>
     (api_error, bytes) outcome" where
  "chained_step c specs keys value = (\<lambda>(i, proof).
     case proof of
       Exist ep \<Rightarrow>
         andthen (map_err ApiRootCalculation (calculate_root c ep)) (\<lambda>subroot.
         andthen (some_or (chained_key keys i) InvalidIndexing) (\<lambda>key.
         andthen (expects (slice_get specs i)) (\<lambda>spec.
         andthen (map_err InnerVerification
                    (ics23_verify_membership c spec subroot ep key value)) (\<lambda>_.
         Ok subroot))))
     | _ \<Rightarrow> Err InvalidProofType)"

definition verify_chained_membership_proof ::
  "crypto \<Rightarrow> bytes \<Rightarrow> proof_spec list \<Rightarrow> commitment_proof list \<Rightarrow> bytes list \<Rightarrow> bytes \<Rightarrow> nat \<Rightarrow>
     (api_error, unit) outcome" where
  "verify_chained_membership_proof c root specs proofs keys value start =
     andthen (try_fold (chained_step c specs keys) value (drop start (List.enumerate 0 proofs))) (\<lambda>v.
     require (v = root) (InvalidRoot v root))"

definition verify_membership ::
  "crypto \<Rightarrow> merkle_proof \<Rightarrow> proof_spec list \<Rightarrow> merkle_root \<Rightarrow> bytes list \<Rightarrow> bytes \<Rightarrow>
     (api_error, unit) outcome" where
  "verify_membership c proof specs consensus_root path value =
     andthen (require (length (mp_proofs proof) = length specs)
                (InvalidProofsLength (length specs) (length (mp_proofs proof)))) (\<lambda>_.
     andthen (require (length path = length specs)
                (InvalidKeyPathLength (length specs) (length path))) (\<lambda>_.
     verify_chained_membership_proof c (mr_hash consensus_root) specs (mp_proofs proof) path value 0))"

definition verify_non_membership ::
  "crypto \<Rightarrow> merkle_proof \<Rightarrow> proof_spec list \<Rightarrow> merkle_root \<Rightarrow> bytes list \<Rightarrow>
     (api_error, unit) outcome" where
  "verify_non_membership c proof specs consensus_root key_path =
     andthen (require (mp_proofs proof \<noteq> []) EmptyProof) (\<lambda>_.
     andthen (require (length (mp_proofs proof) = length specs)
                (InvalidProofsLength (length specs) (length (mp_proofs proof)))) (\<lambda>_.
     andthen (require (length key_path = length specs)
                (InvalidKeyPathLength (length specs) (length key_path))) (\<lambda>_.
     andthen (expects (slice_get (mp_proofs proof) 0)) (\<lambda>first.
     case first of
       Nonexist nonexist \<Rightarrow>
         andthen (case (np_left nonexist, np_right nonexist) of
                    (Some ep, _) \<Rightarrow> map_err ApiRootCalculation (calculate_root c ep)
                  | (None, Some ep) \<Rightarrow> map_err ApiRootCalculation (calculate_root c ep)
                  | _ \<Rightarrow> Err EmptyNonExistenceProof) (\<lambda>subroot.
         andthen (expects (if key_path = [] then None else Some (last key_path))) (\<lambda>key.
         andthen (expects (slice_get specs 0)) (\<lambda>spec.
         andthen (map_err InnerVerification
                    (ics23_verify_non_membership c spec subroot nonexist key)) (\<lambda>_.
         verify_chained_membership_proof c (mr_hash consensus_root) specs (mp_proofs proof)
           key_path subroot 1))))
     | _ \<Rightarrow> Err InvalidProofType))))"

section \<open>Two layers\<close>

lemma calculate_step_Some:
  "calculate_step c (Some s) h op = Ok r \<Longrightarrow> calculate_step c None h op = Ok r"
  by (auto simp: calculate_step_def outcome_ok)

lemma try_fold_step_Some:
  "try_fold (calculate_step c (Some s)) h path = Ok r \<Longrightarrow>
     try_fold (calculate_step c None) h path = Ok r"
  by (induction path arbitrary: h) (auto simp: andthen_Ok dest!: calculate_step_Some)

lemma calculate_Some: "calculate c ep (Some s) = Ok r \<Longrightarrow> calculate_root c ep = Ok r"
  by (auto simp: calculate_root_def calculate_def andthen_Ok map_err_Ok dest!: try_fold_step_Some)

lemma chained_step_Ok:
  "chained_step c specs keys value (i, pf) = Ok subroot \<longleftrightarrow>
     (\<exists>ep key spec. pf = Exist ep \<and> calculate_root c ep = Ok subroot \<and>
        chained_key keys i = Some key \<and> slice_get specs i = Some spec \<and>
        verify_existence_proof c ep spec subroot key value = Ok ())"
  by (cases pf) (auto simp: chained_step_def ics23_verify_membership_def outcome_ok)

text \<open>A chain of two proofs: the value is in the first tree, and its root is in the second.\<close>

lemma verify_membership_two:
  "verify_membership c \<lparr>mp_proofs = ps\<rparr> [spec0, spec1] \<lparr>mr_hash = root\<rparr> path value = Ok () \<longleftrightarrow>
     (\<exists>e0 e1 k0 k1 subroot. ps = [Exist e0, Exist e1] \<and> path = [k1, k0] \<and>
        verify_existence_proof c e0 spec0 subroot k0 value = Ok () \<and>
        verify_existence_proof c e1 spec1 root k1 subroot = Ok ())"
  (is "?L \<longleftrightarrow> ?RR")
proof
  assume L: ?L
  then obtain p0 p1 where ps: "ps = [p0, p1]"
    by (auto simp: verify_membership_def outcome_ok numeral_2_eq_2 length_Suc_conv)
  from L obtain k1 k0 where path: "path = [k1, k0]"
    by (auto simp: verify_membership_def outcome_ok numeral_2_eq_2 length_Suc_conv)
  from L show ?RR
    unfolding ps path
    by (auto simp: verify_membership_def verify_chained_membership_proof_def outcome_ok
        chained_step_Ok chained_key_def slice_get_def)
next
  assume ?RR
  then obtain e0 e1 k0 k1 subroot where R: "ps = [Exist e0, Exist e1]" "path = [k1, k0]"
    "verify_existence_proof c e0 spec0 subroot k0 value = Ok ()"
    "verify_existence_proof c e1 spec1 root k1 subroot = Ok ()" by blast
  have "calculate_root c e0 = Ok subroot" "calculate_root c e1 = Ok root"
    using R(3,4) by (auto simp: verify_existence_proof_def outcome_ok intro!: calculate_Some)
  with R show ?L
    by (auto simp: verify_membership_def verify_chained_membership_proof_def outcome_ok
        chained_step_Ok chained_key_def slice_get_def)
qed

end
