(* ===== verification/Ics23_Soundness.thy ===== *)
theory Ics23_Soundness imports Ics23_Trees Ics23_Api begin

text \<open>
  The two specs of the code as instances of the tree interface, and what an accepted proof says of
  an IBC commitment: a value under a key of a store, the store under its name in the multistore.
\<close>

section \<open>Trees whose leaves determine the key\<close>

locale exact_tree = committed_tree +
  assumes varint: "decode_varint c (encode_varint c n @ r) = Inr (n, r)"
    and leaf_unique: "leaf_ok p \<Longrightarrow> leaf_check_against_spec c op spec = Ok () \<Longrightarrow>
          lo_prefix op @ x = p @ y \<Longrightarrow> lo_prefix op = p"
begin

lemma frame_inject: "frame c k @ x = frame c k' @ x \<Longrightarrow> k = k'"
  by (metis append_same_eq frame_def sum.inject(2) prod.inject varint)

lemma wf_leaf: "wf_t t \<Longrightarrow> leaf_at t ds = Some (p, k, v) \<Longrightarrow> leaf_ok p"
  by (induction t ds rule: leaf_at.induct) (auto split: if_splits)

lemma existence_exact:
  assumes "verify_existence_proof c ep spec (root t) key value = Ok ()"
    and "wf_t t" "no_collision c (tree_inputs c sep t) (proof_inputs c ep)"
  shows "\<exists>ds p. leaf_at t ds = Some (p, key, value) \<and>
    list_all2 (turn_ok (ps_inner_spec spec)) (ep_path ep) (rev ds)"
proof -
  from existence_sound [OF assms] obtain ds p k where leaf: "leaf_at t ds = Some (p, k, value)"
    and eq: "lo_prefix (ep_leaf ep) @ frame c key = p @ frame c k"
    and turns: "list_all2 (turn_ok (ps_inner_spec spec)) (ep_path ep) (rev ds)" by blast
  have "leaf_check_against_spec c (ep_leaf ep) spec = Ok ()"
    using assms(1) by (auto simp: verify_existence_proof_def outcome_ok dest: ep_checks(1))
  from leaf_unique [OF wf_leaf [OF assms(2) leaf] this eq] eq have "frame c key = frame c k" by simp
  then have "key = k" using frame_inject [of key "[]" k] by simp
  with leaf turns show ?thesis by blast
qed

lemma existence_binding:
  assumes "verify_existence_proof c ep spec (root t) key value = Ok ()"
    and "wf_t t" "no_collision c (tree_inputs c sep t) (proof_inputs c ep)"
  shows "(key, value) \<in> set (bindings t)"
proof -
  obtain ds p where "leaf_at t ds = Some (p, key, value)"
    using existence_exact [OF assms] by blast
  from leaf_at_leaves [OF this] show ?thesis by (force simp: bindings_def)
qed

text \<open>
  A key below the left-most leaf, or above the right-most one, of a tree with its keys in order is
  not in the tree.
\<close>

lemma right_ops_absent:
  assumes ok: "right_ops c spec (root t) key ep = Ok ()" and t: "wf_t t"
    and nc: "no_collision c (tree_inputs c sep t) (proof_inputs c ep)"
    and sorted: "sorted_wrt (<) (map fst (bindings t))"
  shows "key \<notin> fst ` set (bindings t)"
proof -
  from ok plain_keys have ex: "verify_existence_proof c ep spec (root t) (ep_key ep) (ep_value ep) = Ok ()"
    and less: "key < ep_key ep" and left: "is_left_most (ps_inner_spec spec) (ep_path ep) = Ok True"
    by (auto simp: right_ops_def outcome_ok key_for_comparison_def not_le)
  from existence_exact [OF ex t nc] obtain ds p where leaf: "leaf_at t ds = Some (p, ep_key ep, ep_value ep)"
    and turns: "list_all2 (turn_ok (ps_inner_spec spec)) (ep_path ep) (rev ds)" by blast
  have "list_all Not ds" by (rule turns_left [OF is_left_most_padded [OF left] turns])
  from leaf_at_leftmost [OF leaf this] obtain xs where "leaves t = (p, ep_key ep, ep_value ep) # xs"
    by (cases "leaves t") auto
  with sorted have "\<forall>k \<in> fst ` set (bindings t). ep_key ep \<le> k"
    by (auto simp: bindings_def less_imp_le)
  with less show ?thesis by fastforce
qed

lemma left_ops_absent:
  assumes ok: "left_ops c spec (root t) key ep = Ok ()" and t: "wf_t t"
    and nc: "no_collision c (tree_inputs c sep t) (proof_inputs c ep)"
    and sorted: "sorted_wrt (<) (map fst (bindings t))"
  shows "key \<notin> fst ` set (bindings t)"
proof -
  from ok plain_keys have ex: "verify_existence_proof c ep spec (root t) (ep_key ep) (ep_value ep) = Ok ()"
    and less: "ep_key ep < key" and right: "is_right_most (ps_inner_spec spec) (ep_path ep) = Ok True"
    by (auto simp: left_ops_def outcome_ok key_for_comparison_def not_le)
  from existence_exact [OF ex t nc] obtain ds p where leaf: "leaf_at t ds = Some (p, ep_key ep, ep_value ep)"
    and turns: "list_all2 (turn_ok (ps_inner_spec spec)) (ep_path ep) (rev ds)" by blast
  have "list_all id ds" by (rule turns_right [OF is_right_most_padded [OF right] turns])
  from leaf_at_rightmost [OF leaf this] obtain xs where "leaves t = xs @ [(p, ep_key ep, ep_value ep)]"
    by (cases "leaves t" rule: rev_cases) auto
  with sorted have "\<forall>k \<in> fst ` set (bindings t). k \<le> ep_key ep"
    by (auto simp: bindings_def sorted_wrt_append less_imp_le)
  with less show ?thesis by fastforce
qed

end

section \<open>The codecs and the hash\<close>

text \<open>
  What the code relies on of \<^verbatim>\<open>sha2\<close> and \<^verbatim>\<open>prost\<close>: a SHA-256 digest has 32 bytes; a varint
  decodes to the number it encodes and to the rest of the buffer, reading no further than its last
  byte; a number below 128 is one byte.
\<close>

locale lawful_crypto =
  fixes c :: crypto
  assumes sha256_length: "length (sha256 c x) = 32"
    and varint_roundtrip: "decode_varint c (encode_varint c n @ r) = Inr (n, r)"
    and varint_prefix: "decode_varint c b = Inr (n, r) \<Longrightarrow> decode_varint c (b @ s) = Inr (n, r @ s)"
    and varint_small: "n < 128 \<Longrightarrow> encode_varint c n = [ucast n]"

lemma append_eq_tail: "xs @ us = ys @ vs \<Longrightarrow> length us = length vs \<Longrightarrow> us = vs"
  by simp

lemma starts_with_single: "starts_with xs [b] \<longleftrightarrow> xs \<noteq> [] \<and> hd xs = b"
  by (cases xs) (auto simp: starts_with_def)

lemma spec_fields [simp]:
  "is_child_order (ps_inner_spec iavl_proof_spec) = [0, 1]"
  "is_empty_child (ps_inner_spec iavl_proof_spec) = []"
  "is_child_size (ps_inner_spec iavl_proof_spec) = 33"
  "ps_min_depth iavl_proof_spec = None" "ps_max_depth iavl_proof_spec = None"
  "\<not> ps_prehash_key_before_comparison iavl_proof_spec"
  "is_child_order (ps_inner_spec tendermint_proof_spec) = [0, 1]"
  "is_empty_child (ps_inner_spec tendermint_proof_spec) = []"
  "is_child_size (ps_inner_spec tendermint_proof_spec) = 32"
  "ps_min_depth tendermint_proof_spec = None" "ps_max_depth tendermint_proof_spec = None"
  "\<not> ps_prehash_key_before_comparison tendermint_proof_spec"
  by (simp_all add: iavl_proof_spec_def tendermint_proof_spec_def)

definition iavl_leaf_ok :: "crypto \<Rightarrow> bytes \<Rightarrow> bool" where
  \<comment> \<open>height 0, then the size and the version\<close>
  "iavl_leaf_ok c p \<longleftrightarrow> validate_iavl_ops c p 0 = Ok 0 \<and> p \<noteq> [] \<and> hd p = 0"

definition iavl_node_ok :: "crypto \<Rightarrow> nat \<Rightarrow> bytes \<Rightarrow> bool" where
  \<comment> \<open>the height written in a node is not below the levels under it\<close>
  "iavl_node_ok c m p \<longleftrightarrow>
     validate_iavl_ops c p (m - 1) = Ok 0 \<and> p \<noteq> [] \<and> hd p \<noteq> 0 \<and> 3 \<le> length p \<and> length p \<le> 11"

definition tendermint_leaf_ok :: "bytes \<Rightarrow> bool" where
  "tendermint_leaf_ok p \<longleftrightarrow> p = [0]"

definition tendermint_node_ok :: "nat \<Rightarrow> bytes \<Rightarrow> bool" where
  "tendermint_node_ok m p \<longleftrightarrow> p = [1]"

context lawful_crypto
begin

lemma iavl_prefix_rest:
  assumes "validate_iavl_ops c p h = Ok 0" "validate_iavl_ops c q h' = Ok n" "q @ x = p @ y"
  shows "\<exists>r. q = p @ r \<and> length r = n \<and> r @ x = y"
proof -
  from assms(1) obtain u1 r1 u2 r2 u3 where p: "decode_varint c p = Inr (u1, r1)"
      "decode_varint c r1 = Inr (u2, r2)" "decode_varint c r2 = Inr (u3, [])"
    by (auto simp: validate_iavl_ops_Ok)
  from assms(2) obtain v1 s1 v2 s2 v3 r where q: "decode_varint c q = Inr (v1, s1)"
      "decode_varint c s1 = Inr (v2, s2)" "decode_varint c s2 = Inr (v3, r)" "length r = n"
    by (auto simp: validate_iavl_ops_Ok)
  have "decode_varint c (p @ y) = Inr (u1, r1 @ y)" "decode_varint c (q @ x) = Inr (v1, s1 @ x)"
    using p(1) q(1) by (auto intro: varint_prefix)
  with assms(3) have 1: "r1 @ y = s1 @ x" by simp
  have "decode_varint c (r1 @ y) = Inr (u2, r2 @ y)" "decode_varint c (s1 @ x) = Inr (v2, s2 @ x)"
    using p(2) q(2) by (auto intro: varint_prefix)
  with 1 have 2: "r2 @ y = s2 @ x" by simp
  have "decode_varint c (r2 @ y) = Inr (u3, [] @ y)" "decode_varint c (s2 @ x) = Inr (v3, r @ x)"
    using varint_prefix [OF p(3), of y] varint_prefix [OF q(3), of x] by auto
  with 2 have y: "r @ x = y" by simp
  with assms(3) have "q = p @ r" by (metis append_assoc append_same_eq)
  with y q(4) show ?thesis by blast
qed

lemma iavl_check_prefix:
  assumes "inner_check_against_spec c s iavl_proof_spec b = Ok ()"
  shows "\<exists>n. validate_iavl_ops c (io_prefix s) b = Ok n \<and> (n = 1 \<or> n = 34)"
    and "io_hash s = Sha256" "4 \<le> length (io_prefix s)" "hd (io_prefix s) \<noteq> 0"
    and "length (io_suffix s) mod 33 = 0"
  using assms
  by (auto simp: inner_check_against_spec_def Let_def outcome_ok compatible_def iavl_proof_spec_def
      starts_with_single split: if_splits)

lemma iavl_inner_shape:
  assumes ok: "inner_check_against_spec c s iavl_proof_spec b = Ok ()" and p: "iavl_node_ok c m p"
    and len: "length h = 32" "length hl = 32" "length hr = 32"
    and eq: "io_prefix s @ h @ io_suffix s = p @ [32] @ hl @ [32] @ hr"
  shows "(h = hl \<and> \<not> right_padded (ps_inner_spec iavl_proof_spec) s) \<or>
         (h = hr \<and> \<not> left_padded (ps_inner_spec iavl_proof_spec) s)"
proof -
  from iavl_check_prefix(1) [OF ok] obtain n where n: "validate_iavl_ops c (io_prefix s) b = Ok n"
    "n = 1 \<or> n = 34" by blast
  from p have "validate_iavl_ops c p (m - 1) = Ok 0" by (simp add: iavl_node_ok_def)
  from iavl_prefix_rest [OF this n(1) eq] obtain r where r: "length r = n"
    "r @ h @ io_suffix s = [32] @ hl @ [32] @ hr" by blast
  have total: "n + length (io_suffix s) = 34"
    using arg_cong [OF r(2), of length] len r(1) by simp
  from n(2) show ?thesis
  proof
    assume "n = 1"
    with r total len have "h = hl" "length (io_suffix s) = 33"
      by (auto simp: length_Suc_conv)
    then show ?thesis by (simp add: right_padded_def has_padding_def)
  next
    assume "n = 34"
    with total have suf: "io_suffix s = []" by simp
    have "r @ h = ([32] @ hl @ [32]) @ hr" using r(2) suf by simp
    from append_eq_tail [OF this] len have "h = hr" by simp
    then show ?thesis by (simp add: left_padded_def has_padding_def suf iavl_proof_spec_def)
  qed
qed

lemma iavl_leaf_check:
  "leaf_check_against_spec c op iavl_proof_spec = Ok () \<longleftrightarrow>
     validate_iavl_ops c (lo_prefix op) 0 = Ok 0 \<and> standard_leaf op \<and>
     lo_prefix op \<noteq> [] \<and> hd (lo_prefix op) = 0"
  by (auto simp: leaf_check_against_spec_def Let_def outcome_ok compatible_def iavl_proof_spec_def
      starts_with_single standard_leaf_def split: if_splits)

lemma validate_iavl_ops_mono:
  "validate_iavl_ops c p h = Ok n \<Longrightarrow> h' \<le> h \<Longrightarrow> validate_iavl_ops c p h' = Ok n"
  unfolding validate_iavl_ops_Ok by fastforce

lemma validate_iavl_ops_append:
  "validate_iavl_ops c p h = Ok n \<Longrightarrow> validate_iavl_ops c (p @ x) h = Ok (n + length x)"
  unfolding validate_iavl_ops_Ok by (fastforce dest: varint_prefix [where s = x])

lemma iavl_inner_complete:
  assumes p: "iavl_node_ok c m p" and b: "b < m" and h: "length h = 32"
  shows "inner_check_against_spec c
           \<lparr>io_hash = Sha256, io_prefix = p @ [32], io_suffix = [32] @ h\<rparr> iavl_proof_spec b = Ok ()"
    and "inner_check_against_spec c
           \<lparr>io_hash = Sha256, io_prefix = p @ [32] @ h @ [32], io_suffix = []\<rparr> iavl_proof_spec b = Ok ()"
proof -
  from p b have v: "validate_iavl_ops c p b = Ok 0"
    by (auto simp: iavl_node_ok_def intro: validate_iavl_ops_mono)
  have v1: "validate_iavl_ops c (p @ [32]) b = Ok 1"
    using validate_iavl_ops_append [OF v, of "[32]"] by simp
  have v34: "validate_iavl_ops c (p @ [32] @ h @ [32]) b = Ok 34"
    using validate_iavl_ops_append [OF v, of "[32] @ h @ [32]"] h by simp
  have sw: "\<not> starts_with (p @ x) [0]" for x using p by (simp add: starts_with_single iavl_node_ok_def)
  show "inner_check_against_spec c
           \<lparr>io_hash = Sha256, io_prefix = p @ [32], io_suffix = [32] @ h\<rparr> iavl_proof_spec b = Ok ()"
    using p v1 sw [of "[32]"] h
    by (simp add: inner_check_against_spec_def Let_def compatible_def iavl_proof_spec_def
        iavl_node_ok_def sub_usize_def rem_usize_def)
  show "inner_check_against_spec c
           \<lparr>io_hash = Sha256, io_prefix = p @ [32] @ h @ [32], io_suffix = []\<rparr> iavl_proof_spec b = Ok ()"
    using p v34 sw [of "[32] @ h @ [32]"] h
    by (simp add: inner_check_against_spec_def Let_def compatible_def iavl_proof_spec_def
        iavl_node_ok_def sub_usize_def rem_usize_def)
qed

lemma tm_check:
  "inner_check_against_spec c s tendermint_proof_spec b = Ok () \<longleftrightarrow>
     io_hash s = Sha256 \<and> io_prefix s \<noteq> [] \<and> hd (io_prefix s) \<noteq> 0 \<and> length (io_prefix s) \<le> 33 \<and>
     length (io_suffix s) mod 32 = 0"
  by (cases "io_prefix s")
    (auto simp: inner_check_against_spec_def Let_def outcome_ok compatible_def iavl_proof_spec_def
      tendermint_proof_spec_def starts_with_single)

lemma tm_leaf_check:
  "leaf_check_against_spec c op tendermint_proof_spec = Ok () \<longleftrightarrow>
     standard_leaf op \<and> lo_prefix op \<noteq> [] \<and> hd (lo_prefix op) = 0"
  by (auto simp: leaf_check_against_spec_def Let_def outcome_ok compatible_def iavl_proof_spec_def
      tendermint_proof_spec_def starts_with_single standard_leaf_def split: if_splits)

lemma tm_inner_shape:
  assumes ok: "inner_check_against_spec c s tendermint_proof_spec b = Ok ()"
    and len: "length h = 32" "length hl = 32" "length hr = 32"
    and eq: "io_prefix s @ h @ io_suffix s = [1] @ [] @ hl @ [] @ hr"
  shows "(h = hl \<and> \<not> right_padded (ps_inner_spec tendermint_proof_spec) s) \<or>
         (h = hr \<and> \<not> left_padded (ps_inner_spec tendermint_proof_spec) s)"
proof -
  from ok have pre: "1 \<le> length (io_prefix s)" "length (io_prefix s) \<le> 33"
    and suf: "length (io_suffix s) mod 32 = 0" by (auto simp: tm_check Suc_le_eq)
  have total: "length (io_prefix s) + length (io_suffix s) = 33"
    using arg_cong [OF eq, of length] len by simp
  from suf obtain k where k: "length (io_suffix s) = 32 * k" by blast
  with total pre have "k = 0 \<or> k = 1" by auto
  then show ?thesis
  proof
    assume "k = 0"
    with k have s0: "io_suffix s = []" by simp
    have "io_prefix s @ h = ([1] @ hl) @ hr" using eq s0 by simp
    from append_eq_tail [OF this] len have "h = hr" by simp
    then show ?thesis by (simp add: left_padded_def has_padding_def s0 tendermint_proof_spec_def)
  next
    assume "k = 1"
    with k total have "length (io_prefix s) = 1" and s32: "length (io_suffix s) = 32" by auto
    with eq len have "h = hl" by (auto simp: length_Suc_conv)
    then show ?thesis by (simp add: right_padded_def has_padding_def s32)
  qed
qed

end

sublocale lawful_crypto \<subseteq> iavl:
  exact_tree c iavl_proof_spec "[32]" "iavl_leaf_ok c" "iavl_node_ok c"
proof
  show "length (sha256 c x) = 32" for x by (rule sha256_length)
  show "decode_varint c (encode_varint c n @ r) = Inr (n, r)" for n r by (rule varint_roundtrip)
next
  fix p op x y
  assume "iavl_leaf_ok c p" "leaf_check_against_spec c op iavl_proof_spec = Ok ()"
    "lo_prefix op @ x = p @ y"
  then show "lo_prefix op = p"
    using iavl_prefix_rest [of p 0 "lo_prefix op" 0 0 x y] by (auto simp: iavl_leaf_ok_def iavl_leaf_check)
next
  fix s b m p h hl hr
  assume "inner_check_against_spec c s iavl_proof_spec b = Ok ()" "iavl_node_ok c m p"
    "length h = 32" "length hl = 32" "length hr = 32"
    "io_prefix s @ h @ io_suffix s = p @ [32] @ hl @ [32] @ hr"
  then show "h = hl \<and> \<not> right_padded (ps_inner_spec iavl_proof_spec) s \<or>
         h = hr \<and> \<not> left_padded (ps_inner_spec iavl_proof_spec) s"
    by (rule iavl_inner_shape)
next
  fix m p b and h :: bytes
  assume "iavl_node_ok c m p" "b < m" "length h = 32"
  then show "inner_check_against_spec c
           \<lparr>io_hash = Sha256, io_prefix = p @ [32], io_suffix = [32] @ h\<rparr> iavl_proof_spec b = Ok () \<and>
        inner_check_against_spec c
           \<lparr>io_hash = Sha256, io_prefix = p @ [32] @ h @ [32], io_suffix = []\<rparr> iavl_proof_spec b = Ok ()"
    by (intro conjI iavl_inner_complete)
qed (auto simp: iavl_leaf_ok_def iavl_node_ok_def iavl_leaf_check dest: iavl_check_prefix)

sublocale lawful_crypto \<subseteq> tendermint:
  committed_tree c tendermint_proof_spec "[]" tendermint_leaf_ok tendermint_node_ok
proof
  show "length (sha256 c x) = 32" for x by (rule sha256_length)
next
  fix s b m p and h hl hr :: bytes
  assume ok: "inner_check_against_spec c s tendermint_proof_spec b = Ok ()"
    and p: "tendermint_node_ok m p" and len: "length h = 32" "length hl = 32" "length hr = 32"
    and eq: "io_prefix s @ h @ io_suffix s = p @ [] @ hl @ [] @ hr"
  show "h = hl \<and> \<not> right_padded (ps_inner_spec tendermint_proof_spec) s \<or>
         h = hr \<and> \<not> left_padded (ps_inner_spec tendermint_proof_spec) s"
    using eq p by (intro tm_inner_shape [OF ok len]) (simp add: tendermint_node_ok_def)
qed (simp_all add: tendermint_leaf_ok_def tendermint_node_ok_def tm_leaf_check tm_check)

end
