(* ===== verification/Ics23_Multistore.thy ===== *)
theory Ics23_Multistore imports Ics23_Soundness begin

text \<open>
  A commitment of the Cosmos SDK: a Tendermint tree that binds the name of each store to the root
  of the store's IAVL tree; what \<^verbatim>\<open>verify_membership\<close> and \<^verbatim>\<open>verify_non_membership\<close> say of it.
\<close>

section \<open>The commitment\<close>

abbreviation store_root :: "crypto \<Rightarrow> store_tree \<Rightarrow> bytes" where
  "store_root c \<equiv> tree_root c [32]"

abbreviation multistore_root :: "crypto \<Rightarrow> store_tree \<Rightarrow> bytes" where
  "multistore_root c \<equiv> tree_root c []"

definition printable :: "bytes \<Rightarrow> bool" where
  \<comment> \<open>a store name: at most 31 bytes, no control characters\<close>
  "printable n \<longleftrightarrow> length n < 32 \<and> list_all (\<lambda>b. 32 \<le> b) n"

definition commits :: "crypto \<Rightarrow> store_tree \<Rightarrow> (bytes \<times> store_tree) list \<Rightarrow> bool" where
  "commits c m stores \<longleftrightarrow>
     wf_tree tendermint_leaf_ok tendermint_node_ok m \<and>
     bindings m = map (\<lambda>(name, s). (name, store_root c s)) stores \<and>
     list_all (\<lambda>(name, s). printable name \<and> wf_tree (iavl_leaf_ok c) (iavl_node_ok c) s) stores"

definition commitment_inputs :: "crypto \<Rightarrow> store_tree \<Rightarrow> (bytes \<times> store_tree) list \<Rightarrow> bytes list" where
  "commitment_inputs c m stores =
     tree_inputs c [] m @ concat (map (\<lambda>(name, s). tree_inputs c [32] s) stores)"

fun commitment_proof_inputs :: "crypto \<Rightarrow> commitment_proof \<Rightarrow> bytes list" where
  "commitment_proof_inputs c (Exist e) = proof_inputs c e"
| "commitment_proof_inputs c (Nonexist n) =
     (case np_left n of None \<Rightarrow> [] | Some e \<Rightarrow> proof_inputs c e) @
     (case np_right n of None \<Rightarrow> [] | Some e \<Rightarrow> proof_inputs c e)"
| "commitment_proof_inputs c _ = []"

definition merkle_inputs :: "crypto \<Rightarrow> merkle_proof \<Rightarrow> bytes list" where
  "merkle_inputs c p = concat (map (commitment_proof_inputs c) (mp_proofs p))"

section \<open>Chains of two proofs\<close>

definition first_neighbour :: "non_existence_proof \<Rightarrow> existence_proof option" where
  "first_neighbour n = (case np_left n of Some l \<Rightarrow> Some l | None \<Rightarrow> np_right n)"

lemma non_membership_iff:
  "verify_non_membership c pf sdk_specs \<lparr>mr_hash = r\<rparr> [name, key] = Ok () \<longleftrightarrow>
     (\<exists>n e0 e1 subroot. mp_proofs pf = [Nonexist n, Exist e1] \<and> first_neighbour n = Some e0 \<and>
       calculate_root c e0 = Ok subroot \<and>
       verify_non_existence c n iavl_proof_spec subroot key = Ok () \<and>
       verify_existence_proof c e1 tendermint_proof_spec r name subroot = Ok ())"
  (is "?lhs \<longleftrightarrow> ?rhs")
proof
  assume L: ?lhs
  then obtain p0 p1 where ps: "mp_proofs pf = [p0, p1]"
    by (auto simp: verify_non_membership_def outcome_ok sdk_specs_def numeral_2_eq_2 length_Suc_conv)
  from L obtain n where n: "p0 = Nonexist n"
    by (auto simp: verify_non_membership_def outcome_ok ps slice_get_def split: commitment_proof.splits)
  show ?rhs
    using L unfolding n
    by (auto simp: verify_non_membership_def outcome_ok ps n slice_get_def sdk_specs_def
        ics23_verify_non_membership_def verify_chained_membership_proof_def chained_step_Ok
        chained_key_def first_neighbour_def split: option.splits)
next
  assume ?rhs
  then obtain n e0 e1 subroot where R: "mp_proofs pf = [Nonexist n, Exist e1]"
    "first_neighbour n = Some e0" "calculate_root c e0 = Ok subroot"
    "verify_non_existence c n iavl_proof_spec subroot key = Ok ()"
    "verify_existence_proof c e1 tendermint_proof_spec r name subroot = Ok ()" by blast
  have "calculate_root c e1 = Ok r"
    using R(5) by (auto simp: verify_existence_proof_def outcome_ok intro!: calculate_Some)
  with R show ?lhs
    by (auto simp: verify_non_membership_def outcome_ok slice_get_def sdk_specs_def
        ics23_verify_non_membership_def verify_chained_membership_proof_def chained_step_Ok
        chained_key_def first_neighbour_def split: option.splits)
qed

section \<open>Names\<close>

context lawful_crypto
begin

lemma frame_small: "length k < 128 \<Longrightarrow> frame c k = of_nat (length k) # k"
proof -
  assume "length k < 128"
  then have "(of_nat (length k) :: u64) < 128" "ucast (of_nat (length k) :: u64) = (of_nat (length k) :: u8)"
    by (simp_all add: word_less_nat_alt unsigned_of_nat take_bit_nat_eq_self)
  then show ?thesis by (simp add: frame_def varint_small)
qed

lemma printable_frame:
  assumes eq: "lp @ frame c key = [0] @ frame c k" and lp: "lp \<noteq> []"
    and k: "printable k" and key: "length key < 32"
  shows "key = k"
proof -
  have "frame c key = of_nat (length key) # key" "frame c k = of_nat (length k) # k"
    using k key by (auto simp: frame_small printable_def)
  with eq lp obtain w where w: "w @ of_nat (length key) # key = of_nat (length k) # k"
    by (cases lp) auto
  show ?thesis
  proof (cases w)
    case Nil
    with w show ?thesis by simp
  next
    case (Cons a w')
    with w have "(of_nat (length key) :: u8) \<in> set k" by auto
    with k have "(32 :: u8) \<le> of_nat (length key)" by (auto simp: printable_def list_all_iff)
    with key show ?thesis by (simp add: word_le_nat_alt unat_of_nat_u8)
  qed
qed

text \<open>The upper layer: the name is bound to the root that the lower layer was verified against.\<close>

lemma multistore_binding:
  assumes ok: "verify_existence_proof c ep tendermint_proof_spec (multistore_root c m) name subroot = Ok ()"
    and m: "commits c m stores" and name: "length name < 32"
    and nc: "no_collision c (tree_inputs c [] m) (proof_inputs c ep)"
  shows "\<exists>s. (name, s) \<in> set stores \<and> subroot = store_root c s \<and>
    wf_tree (iavl_leaf_ok c) (iavl_node_ok c) s"
proof -
  from m have wf: "wf_tree tendermint_leaf_ok tendermint_node_ok m" by (simp add: commits_def)
  from tendermint.existence_sound [OF ok wf nc] obtain ds p k where
    leaf: "leaf_at m ds = Some (p, k, subroot)"
    and eq: "lo_prefix (ep_leaf ep) @ frame c name = p @ frame c k" by blast
  have p: "p = [0]" using wf leaf
    by (induction m ds rule: leaf_at.induct) (auto simp: tendermint_leaf_ok_def split: if_splits)
  have "(k, subroot) \<in> set (bindings m)"
    using leaf_at_leaves [OF leaf] by (force simp: bindings_def)
  with m obtain s where s: "(k, s) \<in> set stores" "subroot = store_root c s"
    by (auto simp: commits_def)
  with m have "printable k" "wf_tree (iavl_leaf_ok c) (iavl_node_ok c) s"
    by (auto simp: commits_def list_all_iff)
  moreover have "lo_prefix (ep_leaf ep) \<noteq> []"
    using ok by (auto simp: verify_existence_proof_def outcome_ok
        dest!: tendermint.ep_checks(1) tendermint.leaf_accepted)
  ultimately have "name = k" using printable_frame eq p name by blast
  with s \<open>wf_tree _ _ s\<close> show ?thesis by blast
qed

lemma membership_sound:
  assumes ok: "verify_membership c pf sdk_specs \<lparr>mr_hash = multistore_root c m\<rparr> [name, key] value = Ok ()"
    and m: "commits c m stores" and name: "length name < 32"
    and nc: "no_collision c (commitment_inputs c m stores) (merkle_inputs c pf)"
  shows "\<exists>s. (name, s) \<in> set stores \<and> (key, value) \<in> set (bindings s)"
proof -
  obtain ps where pf: "pf = \<lparr>mp_proofs = ps\<rparr>" by (cases pf) auto
  from ok obtain e0 e1 subroot where ps: "ps = [Exist e0, Exist e1]"
    and low: "verify_existence_proof c e0 iavl_proof_spec subroot key value = Ok ()"
    and up: "verify_existence_proof c e1 tendermint_proof_spec (multistore_root c m) name subroot = Ok ()"
    unfolding pf sdk_specs_def verify_membership_two by auto
  have "no_collision c (tree_inputs c [] m) (proof_inputs c e1)"
    by (rule no_collision_mono [OF nc]) (auto simp: commitment_inputs_def merkle_inputs_def pf ps)
  from multistore_binding [OF up m name this] obtain s where s: "(name, s) \<in> set stores"
    "subroot = store_root c s" "wf_tree (iavl_leaf_ok c) (iavl_node_ok c) s" by blast
  have "no_collision c (tree_inputs c [32] s) (proof_inputs c e0)"
    by (rule no_collision_mono [OF nc])
      (use s(1) in \<open>auto simp: commitment_inputs_def merkle_inputs_def pf ps\<close>)
  from iavl.existence_binding [OF low [unfolded s(2)] s(3) this] s(1) show ?thesis by blast
qed

text \<open>One neighbour given: the key is beyond the edge of the store.\<close>

lemma non_membership_one_sided:
  assumes ok: "verify_non_membership c pf sdk_specs \<lparr>mr_hash = multistore_root c m\<rparr> [name, key] = Ok ()"
    and one: "mp_proofs pf = Nonexist n # rest" "np_left n = None \<or> np_right n = None"
    and m: "commits c m stores" and name: "length name < 32"
    and sorted: "list_all (\<lambda>(_, s). sorted_wrt (<) (map fst (bindings s))) stores"
    and nc: "no_collision c (commitment_inputs c m stores) (merkle_inputs c pf)"
  shows "\<exists>s. (name, s) \<in> set stores \<and> key \<notin> fst ` set (bindings s)"
proof -
  from ok [unfolded non_membership_iff] one(1) obtain e1 subroot where
    ps: "mp_proofs pf = [Nonexist n, Exist e1]"
    and low: "verify_non_existence c n iavl_proof_spec subroot key = Ok ()"
    and up: "verify_existence_proof c e1 tendermint_proof_spec (multistore_root c m) name subroot = Ok ()"
    by auto
  have "no_collision c (tree_inputs c [] m) (proof_inputs c e1)"
    by (rule no_collision_mono [OF nc]) (auto simp: commitment_inputs_def merkle_inputs_def ps)
  from multistore_binding [OF up m name this] obtain s where s: "(name, s) \<in> set stores"
    "subroot = store_root c s" "wf_tree (iavl_leaf_ok c) (iavl_node_ok c) s" by blast
  have in_s: "set (tree_inputs c [32] s) \<subseteq> set (commitment_inputs c m stores)"
    using s(1) by (auto simp: commitment_inputs_def)
  have srt: "sorted_wrt (<) (map fst (bindings s))" using sorted s(1) by (auto simp: list_all_iff)
  from low one(2) consider e where "np_right n = Some e" "right_ops c iavl_proof_spec subroot key e = Ok ()"
    | e where "np_left n = Some e" "left_ops c iavl_proof_spec subroot key e = Ok ()"
    by (auto simp: verify_non_existence_def split: option.splits)
  then have "key \<notin> fst ` set (bindings s)"
  proof cases
    case 1
    then have "no_collision c (tree_inputs c [32] s) (proof_inputs c e)"
      by (intro no_collision_mono [OF nc in_s]) (auto simp: merkle_inputs_def ps)
    from iavl.right_ops_absent [OF 1(2) [unfolded s(2)] s(3) this srt] show ?thesis .
  next
    case 2
    then have "no_collision c (tree_inputs c [32] s) (proof_inputs c e)"
      by (intro no_collision_mono [OF nc in_s]) (auto simp: merkle_inputs_def ps)
    from iavl.left_ops_absent [OF 2(2) [unfolded s(2)] s(3) this srt] show ?thesis .
  qed
  with s(1) show ?thesis by blast
qed

lemma membership_complete:
  assumes m: "commits c m stores" and s: "(name, s) \<in> set stores" "(key, value) \<in> set (bindings s)"
    and ne: "name \<noteq> []" "key \<noteq> []" "value \<noteq> []"
  shows "\<exists>pf. verify_membership c pf sdk_specs \<lparr>mr_hash = multistore_root c m\<rparr> [name, key] value = Ok ()"
proof -
  have "(name, store_root c s) \<in> set (map (\<lambda>(name, s). (name, store_root c s)) stores)"
    using s(1) by force
  with m have in_m: "(name, store_root c s) \<in> set (bindings m)" by (simp add: commits_def)
  from m s(1) have wfm: "wf_tree tendermint_leaf_ok tendermint_node_ok m"
    and wfs: "wf_tree (iavl_leaf_ok c) (iavl_node_ok c) s"
    by (auto simp: commits_def list_all_iff)
  from in_m obtain p ds where d: "leaf_at m ds = Some (p, name, store_root c s)"
    using leaf_at_ex by (fastforce simp: bindings_def)
  obtain q ds' where d': "leaf_at s ds' = Some (q, key, value)"
    using s(2) leaf_at_ex by (fastforce simp: bindings_def)
  from tendermint.existence_complete [OF wfm d ne(1)] obtain e1 where
    e1: "verify_existence_proof c e1 tendermint_proof_spec (multistore_root c m) name (store_root c s) = Ok ()"
    by auto
  from iavl.existence_complete [OF wfs d' ne(2,3)] obtain e0 where
    e0: "verify_existence_proof c e0 iavl_proof_spec (store_root c s) key value = Ok ()" by auto
  have "verify_membership c \<lparr>mp_proofs = [Exist e0, Exist e1]\<rparr> sdk_specs
      \<lparr>mr_hash = multistore_root c m\<rparr> [name, key] value = Ok ()"
    unfolding sdk_specs_def verify_membership_two using e0 e1 by blast
  then show ?thesis by blast
qed

end

section \<open>Two neighbours\<close>

lemma verify_non_existence_two_sided:
  "np_left n = Some l \<Longrightarrow> np_right n = Some r \<Longrightarrow>
     verify_non_existence c n spec root key = verify_non_existence c n spec root' key'"
  by (simp add: verify_non_existence_def)

lemma non_membership_two_sided:
  assumes "mp_proofs pf = Nonexist n # rest" "np_left n = Some l" "np_right n = Some r"
  shows "verify_non_membership c pf sdk_specs root [name, key] =
         verify_non_membership c pf sdk_specs root [name, key']"
proof -
  have two: "verify_non_existence c n spec sub key = verify_non_existence c n spec sub key'" for spec sub
    by (rule verify_non_existence_two_sided [OF assms(2,3)])
  show ?thesis
  proof (cases "\<exists>p. rest = [p]")
    case True
    then show ?thesis
      by (auto simp: verify_non_membership_def assms slice_get_def sdk_specs_def two
          ics23_verify_non_membership_def verify_chained_membership_proof_def chained_step_def
          chained_key_def)
  next
    case False
    then have "length (mp_proofs pf) \<noteq> length sdk_specs"
      by (auto simp: assms(1) sdk_specs_def length_Suc_conv)
    then show ?thesis by (simp add: verify_non_membership_def)
  qed
qed

end
