(* ===== verification/Ics23_Example.thy ===== *)
theory Ics23_Example imports Ics23_Multistore begin

text \<open>
  A concrete instance of the code outside the repository (the length and the first bytes in the place of SHA-256, a
  one-byte form of small varints) that satisfies the laws, and a concrete commitment of two stores,
  on which the theorems are applied.
\<close>

definition toy_hash :: "bytes \<Rightarrow> bytes" where
  "toy_hash x = of_nat (length x) # take 31 (x @ replicate 31 1)"

definition toy_encode :: "u64 \<Rightarrow> bytes" where
  "toy_encode n = (if n < 255 then [ucast n] else 255 # u64_to_be_bytes n)"

fun toy_decode :: "bytes \<Rightarrow> string + (u64 \<times> bytes)" where
  "toy_decode [] = Inl ''invalid varint''"
| "toy_decode (b # bs) =
     (if b < 255 then Inr (ucast b, bs)
      else case u64_from_be_bytes (take 8 bs) of
             None \<Rightarrow> Inl ''invalid varint''
           | Some n \<Rightarrow> Inr (n, drop 8 bs))"

definition toy_crypto :: crypto where
  "toy_crypto =
     \<lparr>sha256 = toy_hash, sha512 = toy_hash, sha512_256 = toy_hash, ripemd160 = toy_hash,
      encode_varint = toy_encode, decode_varint = toy_decode\<rparr>"

lemma toy_decode_encode: "toy_decode (toy_encode n @ r) = Inr (n, r)"
proof (cases "n < 255")
  case True
  then have "unat n < 255" by (simp add: word_less_nat_alt)
  then have "unat (ucast n :: u8) = unat n"
    by (simp add: unsigned_ucast_eq unsigned_take_bit_eq take_bit_nat_eq_self)
  then have "(ucast n :: u8) < 255" "ucast (ucast n :: u8) = n"
    using \<open>unat n < 255\<close>
    by (simp_all add: word_less_nat_alt word_unat_eq_iff unsigned_ucast_eq unsigned_take_bit_eq take_bit_nat_eq_self)
  with True show ?thesis by (simp add: toy_encode_def)
qed (simp add: toy_encode_def)

lemma toy_decode_append: "toy_decode b = Inr (n, r) \<Longrightarrow> toy_decode (b @ s) = Inr (n, r @ s)"
proof (cases b)
  case (Cons x xs)
  assume a: "toy_decode b = Inr (n, r)"
  show ?thesis
  proof (cases "x < 255")
    case False
    with a Cons have "length (take 8 xs) = 8"
      by (auto simp: u64_from_be_bytes_def split: option.splits if_splits)
    with a Cons False show ?thesis by (simp split: option.splits)
  qed (use a Cons in auto)
qed simp

interpretation toy: lawful_crypto toy_crypto
proof
  show "length (sha256 toy_crypto x) = 32" for x by (simp add: toy_crypto_def toy_hash_def)
  show "decode_varint toy_crypto (encode_varint toy_crypto n @ r) = Inr (n, r)" for n r
    by (simp add: toy_crypto_def toy_decode_encode)
  show "decode_varint toy_crypto b = Inr (n, r) \<Longrightarrow> decode_varint toy_crypto (b @ s) = Inr (n, r @ s)"
    for b n r s by (simp add: toy_crypto_def toy_decode_append)
  show "encode_varint toy_crypto n = [ucast n]" if "n < 128" for n
  proof -
    have "n < 255" using that by (rule less_trans) simp
    then show ?thesis by (simp add: toy_crypto_def toy_encode_def)
  qed
qed

section \<open>A commitment\<close>

abbreviation ibc_name :: bytes where "ibc_name \<equiv> [105, 98, 99]"
abbreviation acc_name :: bytes where "acc_name \<equiv> [97, 99, 99]"

definition ibc_store :: store_tree where
  "ibc_store = SNode [2, 4, 2] (SLeaf [0, 2, 2] [97] [1]) (SLeaf [0, 2, 2] [99] [2])"

definition acc_store :: store_tree where
  "acc_store = SLeaf [0, 2, 2] [98] [3]"

definition example_stores :: "(bytes \<times> store_tree) list" where
  "example_stores = [(acc_name, acc_store), (ibc_name, ibc_store)]"

definition example_multistore :: store_tree where
  "example_multistore =
     SNode [1] (SLeaf [0] acc_name (store_root toy_crypto acc_store))
               (SLeaf [0] ibc_name (store_root toy_crypto ibc_store))"

definition name_proof :: commitment_proof where
  "name_proof = Exist (the (honest_proof toy_crypto [] example_multistore [True]))"

definition key_proof :: "bool \<Rightarrow> existence_proof" where
  "key_proof d = the (honest_proof toy_crypto [32] ibc_store [d])"

definition present_proof :: merkle_proof where
  "present_proof = \<lparr>mp_proofs = [Exist (key_proof False), name_proof]\<rparr>"

definition before_proof :: merkle_proof where
  "before_proof =
     \<lparr>mp_proofs = [Nonexist \<lparr>np_key = [65], np_left = None, np_right = Some (key_proof False)\<rparr>,
                   name_proof]\<rparr>"

definition between_proof :: merkle_proof where
  "between_proof =
     \<lparr>mp_proofs = [Nonexist \<lparr>np_key = [97], np_left = Some (key_proof False),
                            np_right = Some (key_proof True)\<rparr>,
                   name_proof]\<rparr>"

definition example_root :: merkle_root where
  "example_root = \<lparr>mr_hash = multistore_root toy_crypto example_multistore\<rparr>"

lemmas example_defs = toy_crypto_def toy_hash_def toy_encode_def ibc_store_def acc_store_def
  example_stores_def example_multistore_def name_proof_def key_proof_def present_proof_def
  before_proof_def between_proof_def example_root_def

lemma toy_eval [simp]:
  "sha256 toy_crypto x = of_nat (length x) # take 31 (x @ replicate 31 1)"
  "decode_varint toy_crypto b = toy_decode b"
  by (simp_all add: toy_crypto_def toy_hash_def)

lemma toy_frame [simp]: "length k < 128 \<Longrightarrow> frame toy_crypto k = of_nat (length k) # k"
  by (rule toy.frame_small)

lemma toy_encode_32 [simp]: "encode_varint toy_crypto 32 = [32]"
  by (simp add: toy_crypto_def toy_encode_def)


lemma toy_roots [simp]:
  "store_root toy_crypto acc_store = [38, 0, 2, 2, 1, 98, 32, 1, 3] @ replicate 23 1"
  "store_root toy_crypto ibc_store = [69, 2, 4, 2, 32, 38, 0, 2, 2, 1, 97, 32, 1, 1] @ replicate 18 1"
  by (simp_all add: tree_root_def acc_store_def ibc_store_def leaf_preimage_def)

section \<open>Its proofs are accepted\<close>

lemma example_wf:
  "wf_tree (iavl_leaf_ok toy_crypto) (iavl_node_ok toy_crypto) ibc_store"
  "wf_tree (iavl_leaf_ok toy_crypto) (iavl_node_ok toy_crypto) acc_store"
  "wf_tree tendermint_leaf_ok tendermint_node_ok example_multistore"
  by (simp_all add: ibc_store_def acc_store_def example_multistore_def iavl_leaf_ok_def
      iavl_node_ok_def validate_iavl_ops_def read_varint_def zigzag_def tendermint_leaf_ok_def
      tendermint_node_ok_def)

lemma example_commits: "commits toy_crypto example_multistore example_stores"
  by (simp add: commits_def example_wf example_stores_def printable_def)
    (simp add: example_multistore_def bindings_def)

lemma key_proof_ok:
  "verify_existence_proof toy_crypto (key_proof False) iavl_proof_spec (store_root toy_crypto ibc_store)
     [97] [1] = Ok ()"
  "verify_existence_proof toy_crypto (key_proof True) iavl_proof_spec (store_root toy_crypto ibc_store)
     [99] [2] = Ok ()"
  using toy.iavl.existence_complete [OF example_wf(1), of "[False]"]
    toy.iavl.existence_complete [OF example_wf(1), of "[True]"]
  by (auto simp: key_proof_def ibc_store_def)

lemma name_proof_ok:
  "\<exists>e. name_proof = Exist e \<and>
     verify_existence_proof toy_crypto e tendermint_proof_spec
       (multistore_root toy_crypto example_multistore) ibc_name (store_root toy_crypto ibc_store) = Ok ()"
  using toy.tendermint.existence_complete [OF example_wf(3), of "[True]"]
  by (auto simp: name_proof_def example_multistore_def)

lemma present_ok:
  "verify_membership toy_crypto present_proof sdk_specs example_root [ibc_name, [97]] [1] = Ok ()"
  using name_proof_ok key_proof_ok(1)
  unfolding present_proof_def sdk_specs_def example_root_def verify_membership_two by blast

lemma key_proof_fields:
  "ep_key (key_proof False) = [97]" "ep_value (key_proof False) = [1]"
  "ep_path (key_proof False) =
     [\<lparr>io_hash = Sha256, io_prefix = [2, 4, 2, 32],
       io_suffix = [32, 38, 0, 2, 2, 1, 99, 32, 1, 2] @ replicate 23 1\<rparr>]"
  "ep_path (key_proof True) =
     [\<lparr>io_hash = Sha256,
       io_prefix = [2, 4, 2, 32, 38, 0, 2, 2, 1, 97, 32, 1, 1] @ replicate 23 1 @ [32],
       io_suffix = []\<rparr>]"
  by (simp_all add: key_proof_def honest_proof_def ibc_store_def tree_root_def leaf_preimage_def)

lemma key_root: "calculate_root toy_crypto (key_proof False) = Ok (store_root toy_crypto ibc_store)"
  using key_proof_ok(1) by (auto simp: verify_existence_proof_def outcome_ok dest: calculate_Some)

lemma edge_ok:
  "is_left_most (ps_inner_spec iavl_proof_spec) (ep_path (key_proof False)) = Ok True"
  "is_left_neighbor (ps_inner_spec iavl_proof_spec) (ep_path (key_proof False))
     (ep_path (key_proof True)) = Ok True"
  by (simp_all add: key_proof_fields is_left_most_def is_right_most_def is_left_neighbor_def
      is_left_step_def drop_common.simps split_last_def order_from_padding_def upt_rec
      get_padding_def get_position_def iavl_proof_spec_def sub_usize_def has_padding_def Let_def)

lemma before_ok:
  "verify_non_membership toy_crypto before_proof sdk_specs example_root [ibc_name, [65]] = Ok ()"
proof -
  have "right_ops toy_crypto iavl_proof_spec (store_root toy_crypto ibc_store) [65] (key_proof False) = Ok ()"
    using key_proof_ok(1) edge_ok(1)
    by (simp add: right_ops_def key_proof_fields(1,2) key_for_comparison_def)
  with name_proof_ok key_root show ?thesis
    unfolding example_root_def non_membership_iff
    by (auto simp: before_proof_def first_neighbour_def verify_non_existence_def)
qed

lemma between_ok:
  "verify_non_membership toy_crypto between_proof sdk_specs example_root [ibc_name, key] = Ok ()"
  using name_proof_ok key_root edge_ok(2)
  unfolding example_root_def non_membership_iff
  by (auto simp: between_proof_def first_neighbour_def verify_non_existence_def)

section \<open>Its hashes do not collide\<close>

lemma name_proof_eq:
  "name_proof = Exist \<lparr>ep_key = ibc_name, ep_value = store_root toy_crypto ibc_store,
     ep_leaf = \<lparr>lo_hash = Sha256, lo_prehash_key = NoHash, lo_prehash_value = Sha256,
                lo_length = VarProto, lo_prefix = [0]\<rparr>,
     ep_path = honest_path toy_crypto [] example_multistore [True]\<rparr>"
  by (simp add: name_proof_def honest_proof_def example_multistore_def)

lemma present_no_collision:
  "no_collision toy_crypto (commitment_inputs toy_crypto example_multistore example_stores)
     (merkle_inputs toy_crypto present_proof)"
  by (simp add: no_collision_def commitment_inputs_def merkle_inputs_def present_proof_def
      name_proof_eq proof_inputs_def proof_leaf_preimage_def key_proof_def honest_proof_def
      example_multistore_def example_stores_def ibc_store_def acc_store_def leaf_preimage_def
      tree_root_def Let_def)

lemma before_no_collision:
  "no_collision toy_crypto (commitment_inputs toy_crypto example_multistore example_stores)
     (merkle_inputs toy_crypto before_proof)"
  by (simp add: no_collision_def commitment_inputs_def merkle_inputs_def before_proof_def
      name_proof_eq proof_inputs_def proof_leaf_preimage_def key_proof_def honest_proof_def
      example_multistore_def example_stores_def ibc_store_def acc_store_def leaf_preimage_def
      tree_root_def Let_def)

end
