(* ===== verification/Ics23_Proto.thy ===== *)
theory Ics23_Proto imports Ics23_Types begin

text \<open>
  The conversions between the ICS-23 types and their protobuf messages, with their round trips.
\<close>

section \<open>Operations\<close>

definition inner_op_into_proto :: "inner_op \<Rightarrow> proto_inner_op" where
  "inner_op_into_proto v =
     \<lparr>pio_hash = hash_op_i32 (io_hash v), pio_prefix = io_prefix v, pio_suffix = io_suffix v\<rparr>"

datatype inner_op_error = InnerOpHash i32

definition inner_op_from_proto :: "proto_inner_op \<Rightarrow> (inner_op_error, inner_op) outcome" where
  "inner_op_from_proto v =
     andthen (result_or InnerOpHash (hash_op_from_i32 (pio_hash v))) (\<lambda>h.
     Ok \<lparr>io_hash = h, io_prefix = pio_prefix v, io_suffix = pio_suffix v\<rparr>)"

definition leaf_op_into_proto :: "leaf_op \<Rightarrow> proto_leaf_op" where
  "leaf_op_into_proto v =
     \<lparr>plo_hash = hash_op_i32 (lo_hash v), plo_prehash_key = hash_op_i32 (lo_prehash_key v),
      plo_prehash_value = hash_op_i32 (lo_prehash_value v),
      plo_length = length_op_i32 (lo_length v), plo_prefix = lo_prefix v\<rparr>"

datatype leaf_op_error = LeafHash i32 | LeafPrehashKey i32 | LeafPrehashValue i32 | LeafLength i32

definition leaf_op_from_proto :: "proto_leaf_op \<Rightarrow> (leaf_op_error, leaf_op) outcome" where
  "leaf_op_from_proto v =
     andthen (result_or LeafHash (hash_op_from_i32 (plo_hash v))) (\<lambda>h.
     andthen (result_or LeafPrehashKey (hash_op_from_i32 (plo_prehash_key v))) (\<lambda>pk.
     andthen (result_or LeafPrehashValue (hash_op_from_i32 (plo_prehash_value v))) (\<lambda>pv.
     andthen (result_or LeafLength (length_op_from_i32 (plo_length v))) (\<lambda>l.
     Ok \<lparr>lo_hash = h, lo_prehash_key = pk, lo_prehash_value = pv, lo_length = l,
         lo_prefix = plo_prefix v\<rparr>))))"

section \<open>Specs\<close>

abbreviation i32_max :: nat where
  "i32_max \<equiv> 2147483647"

definition usize_from_i32 :: "i32 \<Rightarrow> nat option" where
  \<comment> \<open>\<^verbatim>\<open>usize::try_from(x)\<close>, which fails on a negative integer\<close>
  "usize_from_i32 x = (if sint x < 0 then None else Some (nat (sint x)))"

definition i32_from_usize :: "nat \<Rightarrow> i32 option" where
  "i32_from_usize n = (if n \<le> i32_max then Some (of_nat n) else None)"

definition bounded_usize :: "nat \<Rightarrow> nat \<Rightarrow> bounded_int_error + nat" where
  \<comment> \<open>\<^verbatim>\<open>BoundedUsize::<MIN, { i32::MAX as usize }>::new\<close>\<close>
  "bounded_usize mn n = map_sum id nat (bounded_int_new (int mn) (int i32_max) (int n))"

definition inner_spec_into_proto :: "inner_spec \<Rightarrow> ('e, proto_inner_spec) outcome" where
  "inner_spec_into_proto v =
     andthen (try_map (\<lambda>x. expects (i32_from_usize x)) (is_child_order v)) (\<lambda>ord.
     andthen (expects (i32_from_usize (is_child_size v))) (\<lambda>cs.
     andthen (expects (i32_from_usize (is_min_prefix_length v))) (\<lambda>mn.
     andthen (expects (i32_from_usize (is_max_prefix_length v))) (\<lambda>mx.
     Ok \<lparr>pis_child_order = ord, pis_child_size = cs, pis_min_prefix_length = mn,
         pis_max_prefix_length = mx, pis_empty_child = is_empty_child v,
         pis_hash = hash_op_i32 (is_hash v)\<rparr>))))"

datatype inner_spec_error =
    ISHash i32
  | ISChildOrder bounded_int_error
  | ISChildSize bounded_int_error
  | ISMinPrefixLength bounded_int_error
  | ISMaxPrefixLength bounded_int_error
  | ISNegativeChildOrder
  | ISNegativeChildSize
  | ISNegativeMinPrefixLength
  | ISNegativeMaxPrefixLength

definition bounded_field ::
  "'e \<Rightarrow> (bounded_int_error \<Rightarrow> 'e) \<Rightarrow> i32 \<Rightarrow> ('e, nat) outcome" where
  \<comment> \<open>\<^verbatim>\<open>usize::try_from(x).map_err(|_| neg)?.try_into().map_err(bad)\<close>\<close>
  "bounded_field neg bad x =
     andthen (some_or (usize_from_i32 x) neg) (\<lambda>n. result_or bad (bounded_usize 0 n))"

definition inner_spec_from_proto :: "proto_inner_spec \<Rightarrow> (inner_spec_error, inner_spec) outcome" where
  "inner_spec_from_proto v =
     andthen (try_map (bounded_field ISNegativeChildOrder ISChildOrder) (pis_child_order v)) (\<lambda>ord.
     andthen (bounded_field ISNegativeChildSize ISChildSize (pis_child_size v)) (\<lambda>cs.
     andthen (bounded_field ISNegativeMinPrefixLength ISMinPrefixLength
                (pis_min_prefix_length v)) (\<lambda>mn.
     andthen (bounded_field ISNegativeMaxPrefixLength ISMaxPrefixLength
                (pis_max_prefix_length v)) (\<lambda>mx.
     andthen (result_or ISHash (hash_op_from_i32 (pis_hash v))) (\<lambda>h.
     Ok \<lparr>is_child_order = ord, is_child_size = cs, is_min_prefix_length = mn,
         is_max_prefix_length = mx, is_empty_child = pis_empty_child v, is_hash = h\<rparr>)))))"

definition depth_into_i32 :: "nat option \<Rightarrow> ('e, i32) outcome" where
  \<comment> \<open>\<^verbatim>\<open>map_or(0, |md| md.inner().try_into().expect(..))\<close>\<close>
  "depth_into_i32 d = (case d of None \<Rightarrow> Ok 0 | Some n \<Rightarrow> expects (i32_from_usize n))"

definition proof_spec_into_proto :: "proof_spec \<Rightarrow> ('e, proto_proof_spec) outcome" where
  "proof_spec_into_proto v =
     andthen (inner_spec_into_proto (ps_inner_spec v)) (\<lambda>is.
     andthen (depth_into_i32 (ps_max_depth v)) (\<lambda>mx.
     andthen (depth_into_i32 (ps_min_depth v)) (\<lambda>mn.
     Ok \<lparr>pps_leaf_spec = Some (leaf_op_into_proto (ps_leaf_spec v)), pps_inner_spec = Some is,
         pps_max_depth = mx, pps_min_depth = mn,
         pps_prehash_key_before_comparison = ps_prehash_key_before_comparison v\<rparr>)))"

datatype proof_spec_error =
    PSMissingField string
  | PSLeafSpec leaf_op_error
  | PSInnerSpec inner_spec_error
  | PSNegativeMinDepth
  | PSNegativeMaxDepth

definition depth_from_i32 :: "'e \<Rightarrow> i32 \<Rightarrow> ('e, nat option) outcome" where
  \<comment> \<open>a zero is outside the bounds of the depth and becomes \<^verbatim>\<open>None\<close>\<close>
  "depth_from_i32 neg x =
     andthen (some_or (usize_from_i32 x) neg) (\<lambda>n.
     Ok (case bounded_usize 1 n of Inl _ \<Rightarrow> None | Inr d \<Rightarrow> Some d))"

definition proof_spec_from_proto :: "proto_proof_spec \<Rightarrow> (proof_spec_error, proof_spec) outcome" where
  "proof_spec_from_proto v =
     andthen (some_or (pps_leaf_spec v) (PSMissingField ''leaf_spec'')) (\<lambda>pl.
     andthen (map_err PSLeafSpec (leaf_op_from_proto pl)) (\<lambda>ls.
     andthen (some_or (pps_inner_spec v) (PSMissingField ''inner_spec'')) (\<lambda>pi.
     andthen (map_err PSInnerSpec (inner_spec_from_proto pi)) (\<lambda>is.
     andthen (depth_from_i32 PSNegativeMaxDepth (pps_max_depth v)) (\<lambda>mx.
     andthen (depth_from_i32 PSNegativeMinDepth (pps_min_depth v)) (\<lambda>mn.
     Ok \<lparr>ps_leaf_spec = ls, ps_inner_spec = is, ps_max_depth = mx, ps_min_depth = mn,
         ps_prehash_key_before_comparison = pps_prehash_key_before_comparison v\<rparr>))))))"

section \<open>Proofs\<close>

definition existence_proof_into_proto :: "existence_proof \<Rightarrow> proto_existence_proof" where
  "existence_proof_into_proto v =
     \<lparr>pep_key = ep_key v, pep_value = ep_value v, pep_leaf = Some (leaf_op_into_proto (ep_leaf v)),
      pep_path = map inner_op_into_proto (ep_path v)\<rparr>"

datatype existence_proof_error =
    EPMissingField string
  | EPLeaf leaf_op_error
  | EPPath inner_op_error

definition existence_proof_from_proto ::
  "proto_existence_proof \<Rightarrow> (existence_proof_error, existence_proof) outcome" where
  "existence_proof_from_proto v =
     andthen (some_or (pep_leaf v) (EPMissingField ''leaf'')) (\<lambda>pl.
     andthen (map_err EPLeaf (leaf_op_from_proto pl)) (\<lambda>l.
     andthen (map_err EPPath (try_map inner_op_from_proto (pep_path v))) (\<lambda>p.
     Ok \<lparr>ep_key = pep_key v, ep_value = pep_value v, ep_leaf = l, ep_path = p\<rparr>)))"

definition non_existence_proof_into_proto :: "non_existence_proof \<Rightarrow> proto_non_existence_proof" where
  "non_existence_proof_into_proto v =
     \<lparr>pnp_key = np_key v, pnp_left = map_option existence_proof_into_proto (np_left v),
      pnp_right = map_option existence_proof_into_proto (np_right v)\<rparr>"

datatype non_existence_proof_error =
    NPMissingField string
  | NPLeft existence_proof_error
  | NPRight existence_proof_error

definition non_existence_proof_from_proto ::
  "proto_non_existence_proof \<Rightarrow> (non_existence_proof_error, non_existence_proof) outcome" where
  "non_existence_proof_from_proto v =
     andthen (map_err NPLeft (try_option existence_proof_from_proto (pnp_left v))) (\<lambda>l.
     andthen (map_err NPRight (try_option existence_proof_from_proto (pnp_right v))) (\<lambda>r.
     Ok \<lparr>np_key = pnp_key v, np_left = l, np_right = r\<rparr>))"

fun batch_entry_into_proto :: "batch_entry \<Rightarrow> proto_batch_entry" where
  "batch_entry_into_proto (BatchExist e) =
     \<lparr>pbe_proof = Some (PBatchExist (existence_proof_into_proto e))\<rparr>"
| "batch_entry_into_proto (BatchNonexist n) =
     \<lparr>pbe_proof = Some (PBatchNonexist (non_existence_proof_into_proto n))\<rparr>"

datatype batch_entry_error =
    BEMissingField string
  | BEExist existence_proof_error
  | BENonexist non_existence_proof_error

definition batch_entry_from_proto :: "proto_batch_entry \<Rightarrow> (batch_entry_error, batch_entry) outcome" where
  "batch_entry_from_proto v =
     andthen (some_or (pbe_proof v) (BEMissingField ''proof'')) (\<lambda>p.
     case p of
       PBatchExist e \<Rightarrow>
         andthen (map_err BEExist (existence_proof_from_proto e)) (\<lambda>x. Ok (BatchExist x))
     | PBatchNonexist n \<Rightarrow>
         andthen (map_err BENonexist (non_existence_proof_from_proto n)) (\<lambda>x. Ok (BatchNonexist x)))"

definition batch_proof_into_proto :: "batch_proof \<Rightarrow> proto_batch_proof" where
  "batch_proof_into_proto v = \<lparr>pbp_entries = map batch_entry_into_proto (bp_entries v)\<rparr>"

datatype batch_proof_error = BPEntries batch_entry_error

definition batch_proof_from_proto :: "proto_batch_proof \<Rightarrow> (batch_proof_error, batch_proof) outcome" where
  "batch_proof_from_proto v =
     andthen (map_err BPEntries (try_map batch_entry_from_proto (pbp_entries v))) (\<lambda>es.
     Ok \<lparr>bp_entries = es\<rparr>)"

section \<open>Compressed proofs\<close>

definition compressed_existence_proof_into_proto ::
  "compressed_existence_proof \<Rightarrow> proto_compressed_existence_proof" where
  "compressed_existence_proof_into_proto v =
     \<lparr>pcep_key = cep_key v, pcep_value = cep_value v,
      pcep_leaf = Some (leaf_op_into_proto (cep_leaf v)), pcep_path = cep_path v\<rparr>"

datatype compressed_existence_proof_error =
    CEPMissingField string
  | CEPLeaf leaf_op_error
  | CEPPath bounded_int_error

definition bounded_index :: "i32 \<Rightarrow> (bounded_int_error, i32) outcome" where
  \<comment> \<open>\<^verbatim>\<open>BoundedI32::<0, { i32::MAX }>::new\<close>\<close>
  "bounded_index x =
     andthen (result_or id (bounded_int_new 0 (int i32_max) (sint x))) (\<lambda>n. Ok (word_of_int n))"

definition compressed_existence_proof_from_proto ::
  "proto_compressed_existence_proof \<Rightarrow>
     (compressed_existence_proof_error, compressed_existence_proof) outcome" where
  "compressed_existence_proof_from_proto v =
     andthen (some_or (pcep_leaf v) (CEPMissingField ''leaf'')) (\<lambda>pl.
     andthen (map_err CEPLeaf (leaf_op_from_proto pl)) (\<lambda>l.
     andthen (map_err CEPPath (try_map bounded_index (pcep_path v))) (\<lambda>p.
     Ok \<lparr>cep_key = pcep_key v, cep_value = pcep_value v, cep_leaf = l, cep_path = p\<rparr>)))"

definition compressed_non_existence_proof_into_proto ::
  "compressed_non_existence_proof \<Rightarrow> proto_compressed_non_existence_proof" where
  "compressed_non_existence_proof_into_proto v =
     \<lparr>pcnp_key = cnp_key v,
      pcnp_left = map_option compressed_existence_proof_into_proto (cnp_left v),
      pcnp_right = map_option compressed_existence_proof_into_proto (cnp_right v)\<rparr>"

datatype compressed_non_existence_proof_error =
    CNPMissingField string
  | CNPLeft compressed_existence_proof_error
  | CNPRight compressed_existence_proof_error

definition compressed_non_existence_proof_from_proto ::
  "proto_compressed_non_existence_proof \<Rightarrow>
     (compressed_non_existence_proof_error, compressed_non_existence_proof) outcome" where
  "compressed_non_existence_proof_from_proto v =
     andthen (map_err CNPLeft (try_option compressed_existence_proof_from_proto (pcnp_left v))) (\<lambda>l.
     andthen (map_err CNPRight (try_option compressed_existence_proof_from_proto (pcnp_right v))) (\<lambda>r.
     Ok \<lparr>cnp_key = pcnp_key v, cnp_left = l, cnp_right = r\<rparr>))"

fun compressed_batch_entry_into_proto ::
  "compressed_batch_entry \<Rightarrow> proto_compressed_batch_entry" where
  "compressed_batch_entry_into_proto (CompressedExist e) =
     \<lparr>pcbe_proof = Some (PCompressedExist (compressed_existence_proof_into_proto e))\<rparr>"
| "compressed_batch_entry_into_proto (CompressedNonexist n) =
     \<lparr>pcbe_proof = Some (PCompressedNonexist (compressed_non_existence_proof_into_proto n))\<rparr>"

datatype compressed_batch_entry_error =
    CBEMissingField string
  | CBEExist compressed_existence_proof_error
  | CBENonexist compressed_non_existence_proof_error

definition compressed_batch_entry_from_proto ::
  "proto_compressed_batch_entry \<Rightarrow> (compressed_batch_entry_error, compressed_batch_entry) outcome" where
  "compressed_batch_entry_from_proto v =
     andthen (some_or (pcbe_proof v) (CBEMissingField ''proof'')) (\<lambda>p.
     case p of
       PCompressedExist e \<Rightarrow>
         andthen (map_err CBEExist (compressed_existence_proof_from_proto e)) (\<lambda>x.
         Ok (CompressedExist x))
     | PCompressedNonexist n \<Rightarrow>
         andthen (map_err CBENonexist (compressed_non_existence_proof_from_proto n)) (\<lambda>x.
         Ok (CompressedNonexist x)))"

definition compressed_batch_proof_into_proto ::
  "compressed_batch_proof \<Rightarrow> proto_compressed_batch_proof" where
  "compressed_batch_proof_into_proto v =
     \<lparr>pcbp_entries = map compressed_batch_entry_into_proto (cbp_entries v),
      pcbp_lookup_inners = map inner_op_into_proto (cbp_lookup_inners v)\<rparr>"

datatype compressed_batch_proof_error =
    CBPEntries compressed_batch_entry_error
  | CBPLookupInners inner_op_error

definition compressed_batch_proof_from_proto ::
  "proto_compressed_batch_proof \<Rightarrow> (compressed_batch_proof_error, compressed_batch_proof) outcome" where
  "compressed_batch_proof_from_proto v =
     andthen (map_err CBPEntries (try_map compressed_batch_entry_from_proto (pcbp_entries v))) (\<lambda>es.
     andthen (map_err CBPLookupInners (try_map inner_op_from_proto (pcbp_lookup_inners v))) (\<lambda>ls.
     Ok \<lparr>cbp_entries = es, cbp_lookup_inners = ls\<rparr>))"

section \<open>Commitment proofs, Merkle proofs and roots\<close>

fun commitment_proof_into_proto :: "commitment_proof \<Rightarrow> proto_commitment_proof" where
  "commitment_proof_into_proto (Exist e) =
     \<lparr>pcp_proof = Some (PExist (existence_proof_into_proto e))\<rparr>"
| "commitment_proof_into_proto (Nonexist n) =
     \<lparr>pcp_proof = Some (PNonexist (non_existence_proof_into_proto n))\<rparr>"
| "commitment_proof_into_proto (Batch b) =
     \<lparr>pcp_proof = Some (PBatch (batch_proof_into_proto b))\<rparr>"
| "commitment_proof_into_proto (CompressedBatch c) =
     \<lparr>pcp_proof = Some (PCompressed (compressed_batch_proof_into_proto c))\<rparr>"

datatype commitment_proof_error =
    CPMissingField string
  | CPExist existence_proof_error
  | CPNonexist non_existence_proof_error
  | CPBatch batch_proof_error
  | CPCompressedBatch compressed_batch_proof_error

definition commitment_proof_from_proto ::
  "proto_commitment_proof \<Rightarrow> (commitment_proof_error, commitment_proof) outcome" where
  "commitment_proof_from_proto v =
     andthen (some_or (pcp_proof v) (CPMissingField ''proof'')) (\<lambda>p.
     case p of
       PExist e \<Rightarrow> andthen (map_err CPExist (existence_proof_from_proto e)) (\<lambda>x. Ok (Exist x))
     | PNonexist n \<Rightarrow>
         andthen (map_err CPNonexist (non_existence_proof_from_proto n)) (\<lambda>x. Ok (Nonexist x))
     | PBatch b \<Rightarrow> andthen (map_err CPBatch (batch_proof_from_proto b)) (\<lambda>x. Ok (Batch x))
     | PCompressed c \<Rightarrow>
         andthen (map_err CPCompressedBatch (compressed_batch_proof_from_proto c)) (\<lambda>x.
         Ok (CompressedBatch x)))"

definition merkle_proof_into_proto :: "merkle_proof \<Rightarrow> proto_merkle_proof" where
  "merkle_proof_into_proto v = \<lparr>pmp_proofs = map commitment_proof_into_proto (mp_proofs v)\<rparr>"

datatype merkle_proof_error = MPProofs commitment_proof_error

definition merkle_proof_from_proto :: "proto_merkle_proof \<Rightarrow> (merkle_proof_error, merkle_proof) outcome" where
  "merkle_proof_from_proto v =
     andthen (map_err MPProofs (try_map commitment_proof_from_proto (pmp_proofs v))) (\<lambda>ps.
     Ok \<lparr>mp_proofs = ps\<rparr>)"

definition h256_try_from :: "bytes \<Rightarrow> invalid_length + bytes" where
  \<comment> \<open>\<^verbatim>\<open>H256::try_from\<close> of a vector\<close>
  "h256_try_from b =
     (if length b = 32 then Inr b else Inl \<lparr>expected_len = Exact 32, found_len = length b\<rparr>)"

definition merkle_root_into_proto :: "merkle_root \<Rightarrow> proto_merkle_root" where
  "merkle_root_into_proto v = \<lparr>pmr_hash = mr_hash v\<rparr>"

datatype merkle_root_error = MRHash invalid_length

definition merkle_root_from_proto :: "proto_merkle_root \<Rightarrow> (merkle_root_error, merkle_root) outcome" where
  "merkle_root_from_proto v =
     andthen (result_or MRHash (h256_try_from (pmr_hash v))) (\<lambda>h. Ok \<lparr>mr_hash = h\<rparr>)"

section \<open>Round trips\<close>

text \<open>
  Each message decodes to a value exactly when it is the encoding of that value: no value is
  lost and no message has two readings. The conditions are the bounds of the integer types.
\<close>

named_theorems proto_iff \<open>decoding gives a value iff the message is its encoding\<close>

lemma enum_from_Inr: "inj name \<Longrightarrow> enum_from name vs s = Inr v \<longleftrightarrow> v \<in> set vs \<and> s = name v"
  unfolding enum_from_def
  by (auto split: option.splits simp: find_None_iff dest!: find_SomeD dest: injD)

lemma hash_op_i32_inj: "inj hash_op_i32"
  by (rule injI) (metis hash_op_roundtrip sum.inject(2))

lemma length_op_i32_inj: "inj length_op_i32"
  by (rule injI) (metis length_op_roundtrip sum.inject(2))

lemma hash_op_iff [proto_iff]: "hash_op_from_i32 i = Inr h \<longleftrightarrow> i = hash_op_i32 h"
  by (auto simp: hash_op_from_i32_def enum_from_Inr hash_op_i32_inj) (cases h; simp)

lemma length_op_iff [proto_iff]: "length_op_from_i32 i = Inr l \<longleftrightarrow> i = length_op_i32 l"
  by (auto simp: length_op_from_i32_def enum_from_Inr length_op_i32_inj) (cases l; simp)

lemma try_map_iff:
  assumes "\<And>p x. f p = Ok x \<longleftrightarrow> P x \<and> p = g x"
  shows "try_map f ps = Ok xs \<longleftrightarrow> list_all P xs \<and> ps = map g xs"
  by (simp add: try_map_Ok assms list_all2_conv_all_nth list_all_length list_eq_iff_nth_eq) auto

lemma try_map_iff_all:
  "(\<And>p x. f p = Ok x \<longleftrightarrow> p = g x) \<Longrightarrow> try_map f ps = Ok xs \<longleftrightarrow> ps = map g xs"
  using try_map_iff [of f "\<lambda>_. True" g ps xs] by (simp add: list_all_def)

lemma try_option_iff:
  assumes "\<And>p x. f p = Ok x \<longleftrightarrow> P x \<and> p = g x"
  shows "try_option f po = Ok xo \<longleftrightarrow> pred_option P xo \<and> po = map_option g xo"
  by (cases po; cases xo) (simp_all add: andthen_Ok assms)

lemma try_option_iff_all:
  "(\<And>p x. f p = Ok x \<longleftrightarrow> p = g x) \<Longrightarrow> try_option f po = Ok xo \<longleftrightarrow> po = map_option g xo"
  using try_option_iff [of f "\<lambda>_. True" g po xo] by (simp add: option.pred_set)

lemma inner_op_iff [proto_iff]: "inner_op_from_proto p = Ok x \<longleftrightarrow> p = inner_op_into_proto x"
  by (cases p; cases x)
    (auto simp: inner_op_from_proto_def inner_op_into_proto_def outcome_ok proto_iff)

lemma leaf_op_iff [proto_iff]: "leaf_op_from_proto p = Ok x \<longleftrightarrow> p = leaf_op_into_proto x"
  by (cases p; cases x)
    (auto simp: leaf_op_from_proto_def leaf_op_into_proto_def outcome_ok proto_iff)

lemma existence_proof_iff [proto_iff]:
  "existence_proof_from_proto p = Ok x \<longleftrightarrow> p = existence_proof_into_proto x"
  by (cases p; cases x)
    (auto simp: existence_proof_from_proto_def existence_proof_into_proto_def outcome_ok proto_iff
      try_map_iff_all [OF inner_op_iff] simp del: try_map.simps)

lemma non_existence_proof_iff [proto_iff]:
  "non_existence_proof_from_proto p = Ok x \<longleftrightarrow> p = non_existence_proof_into_proto x"
  by (cases p; cases x)
    (auto simp: non_existence_proof_from_proto_def non_existence_proof_into_proto_def
      map_err_Ok andthen_Ok try_option_iff_all [OF existence_proof_iff])

lemma batch_entry_iff [proto_iff]:
  "batch_entry_from_proto p = Ok x \<longleftrightarrow> p = batch_entry_into_proto x"
  by (cases "pbe_proof p"; cases "the (pbe_proof p)"; cases p; cases x)
    (auto simp: batch_entry_from_proto_def outcome_ok proto_iff)

lemma batch_proof_iff [proto_iff]:
  "batch_proof_from_proto p = Ok x \<longleftrightarrow> p = batch_proof_into_proto x"
  by (cases p; cases x)
    (auto simp: batch_proof_from_proto_def batch_proof_into_proto_def map_err_Ok andthen_Ok
      try_map_iff_all [OF batch_entry_iff])

definition wf_compressed :: "compressed_existence_proof \<Rightarrow> bool" where
  \<comment> \<open>the bounds of \<^verbatim>\<open>BoundedI32<0, { i32::MAX }>\<close>\<close>
  "wf_compressed v \<longleftrightarrow> list_all (\<lambda>i. 0 \<le> sint i) (cep_path v)"

fun wf_compressed_entry :: "compressed_batch_entry \<Rightarrow> bool" where
  "wf_compressed_entry (CompressedExist e) = wf_compressed e"
| "wf_compressed_entry (CompressedNonexist n) =
     (pred_option wf_compressed (cnp_left n) \<and> pred_option wf_compressed (cnp_right n))"

fun wf_commitment_proof :: "commitment_proof \<Rightarrow> bool" where
  "wf_commitment_proof (CompressedBatch c) = list_all wf_compressed_entry (cbp_entries c)"
| "wf_commitment_proof _ = True"

lemma bounded_index_iff: "bounded_index i = Ok x \<longleftrightarrow> 0 \<le> sint x \<and> i = x"
  using sint_lt [of i] by (auto simp: bounded_index_def outcome_ok bounded_int_new_Inr)

lemma compressed_existence_proof_iff [proto_iff]:
  "compressed_existence_proof_from_proto p = Ok x \<longleftrightarrow>
     wf_compressed x \<and> p = compressed_existence_proof_into_proto x"
  by (cases p; cases x)
    (auto simp: compressed_existence_proof_from_proto_def compressed_existence_proof_into_proto_def
      wf_compressed_def map_err_Ok andthen_Ok some_or_Ok proto_iff
      try_map_iff [where g = id, simplified, OF bounded_index_iff])

lemma compressed_non_existence_proof_iff [proto_iff]:
  "compressed_non_existence_proof_from_proto p = Ok x \<longleftrightarrow>
     wf_compressed_entry (CompressedNonexist x) \<and> p = compressed_non_existence_proof_into_proto x"
  by (cases p; cases x)
    (auto simp: compressed_non_existence_proof_from_proto_def
      compressed_non_existence_proof_into_proto_def map_err_Ok andthen_Ok
      try_option_iff [OF compressed_existence_proof_iff])

lemma compressed_batch_entry_iff [proto_iff]:
  "compressed_batch_entry_from_proto p = Ok x \<longleftrightarrow>
     wf_compressed_entry x \<and> p = compressed_batch_entry_into_proto x"
  by (cases "pcbe_proof p"; cases "the (pcbe_proof p)"; cases p; cases x)
    (auto simp: compressed_batch_entry_from_proto_def outcome_ok proto_iff)

lemma compressed_batch_proof_iff [proto_iff]:
  "compressed_batch_proof_from_proto p = Ok x \<longleftrightarrow>
     list_all wf_compressed_entry (cbp_entries x) \<and> p = compressed_batch_proof_into_proto x"
  by (cases p; cases x)
    (auto simp: compressed_batch_proof_from_proto_def compressed_batch_proof_into_proto_def
      map_err_Ok andthen_Ok try_map_iff [OF compressed_batch_entry_iff]
      try_map_iff_all [OF inner_op_iff])

lemma commitment_proof_iff [proto_iff]:
  "commitment_proof_from_proto p = Ok x \<longleftrightarrow>
     wf_commitment_proof x \<and> p = commitment_proof_into_proto x"
  by (cases "pcp_proof p"; cases "the (pcp_proof p)"; cases p; cases x)
    (auto simp: commitment_proof_from_proto_def outcome_ok proto_iff)

lemma merkle_proof_iff [proto_iff]:
  "merkle_proof_from_proto p = Ok x \<longleftrightarrow>
     list_all wf_commitment_proof (mp_proofs x) \<and> p = merkle_proof_into_proto x"
  by (cases p; cases x)
    (auto simp: merkle_proof_from_proto_def merkle_proof_into_proto_def map_err_Ok andthen_Ok
      try_map_iff [OF commitment_proof_iff])

lemma merkle_root_iff [proto_iff]:
  "merkle_root_from_proto p = Ok x \<longleftrightarrow> length (mr_hash x) = 32 \<and> p = merkle_root_into_proto x"
  by (cases p; cases x)
    (auto simp: merkle_root_from_proto_def merkle_root_into_proto_def h256_try_from_def outcome_ok)

section \<open>Round trips of the specs\<close>

definition wf_inner_spec :: "inner_spec \<Rightarrow> bool" where
  "wf_inner_spec v \<longleftrightarrow>
     list_all (\<lambda>x. x \<le> i32_max) (is_child_order v) \<and> is_child_size v \<le> i32_max \<and>
     is_min_prefix_length v \<le> i32_max \<and> is_max_prefix_length v \<le> i32_max"

definition depth_ok :: "nat option \<Rightarrow> bool" where
  "depth_ok d \<longleftrightarrow> pred_option (\<lambda>n. 1 \<le> n \<and> n \<le> i32_max) d"

definition wf_proof_spec :: "proof_spec \<Rightarrow> bool" where
  "wf_proof_spec v \<longleftrightarrow>
     wf_inner_spec (ps_inner_spec v) \<and>
     depth_ok (ps_max_depth v) \<and> depth_ok (ps_min_depth v)"

lemma sint_i32_of_nat: "n \<le> i32_max \<Longrightarrow> sint (of_nat n :: i32) = int n"
  by (simp add: signed_of_nat signed_take_bit_int_eq_self)

lemma i32_from_usize_Some: "i32_from_usize n = Some i \<longleftrightarrow> n \<le> i32_max \<and> i = of_nat n"
  by (auto simp: i32_from_usize_def)

lemma usize_i32: "usize_from_i32 i = Some n \<longleftrightarrow> n \<le> i32_max \<and> i = of_nat n"
proof
  assume a: "usize_from_i32 i = Some n"
  then have n: "int n = sint i" by (auto simp: usize_from_i32_def split: if_splits)
  have "sint i < 2147483648" using sint_lt [of i] by simp
  with n have "n \<le> i32_max" by linarith
  moreover have "i = of_int (int n)"
    unfolding n by simp
  then have "i = of_nat n" by simp
  ultimately show "n \<le> i32_max \<and> i = of_nat n" ..
next
  assume "n \<le> i32_max \<and> i = of_nat n"
  then show "usize_from_i32 i = Some n" by (simp add: usize_from_i32_def sint_i32_of_nat)
qed

lemma bounded_usize_Inr: "bounded_usize mn n = Inr m \<longleftrightarrow> m = n \<and> mn \<le> n \<and> n \<le> i32_max"
  by (auto simp: bounded_usize_def bounded_int_new_def)

lemma bounded_field_iff: "bounded_field neg bad i = Ok n \<longleftrightarrow> n \<le> i32_max \<and> i = of_nat n"
  by (auto simp: bounded_field_def outcome_ok usize_i32 bounded_usize_Inr)

lemma try_map_i32_from_usize:
  "try_map (\<lambda>x. expects (i32_from_usize x)) ns = Ok is \<longleftrightarrow>
     list_all (\<lambda>n. n \<le> i32_max) ns \<and> is = map of_nat ns"
  by (simp add: try_map_Ok expects_Ok i32_from_usize_Some list_all2_conv_all_nth list_all_length
      list_eq_iff_nth_eq) auto

lemma inner_spec_iff [proto_iff]:
  "inner_spec_from_proto p = Ok x \<longleftrightarrow> inner_spec_into_proto x = (Ok p :: ('e, _) outcome)"
  by (cases p; cases x)
    (auto simp: inner_spec_from_proto_def inner_spec_into_proto_def andthen_Ok result_or_Ok
      expects_Ok i32_from_usize_Some proto_iff bounded_field_iff try_map_i32_from_usize
      try_map_iff [where P = "\<lambda>n. n \<le> i32_max" and g = of_nat, OF bounded_field_iff])

lemma depth_from_i32_Ok:
  "depth_from_i32 neg i = Ok d \<longleftrightarrow>
     (\<exists>n \<le> i32_max. i = of_nat n \<and> d = (if n = 0 then None else Some n))"
proof -
  have "(case bounded_usize 1 n of Inl _ \<Rightarrow> None | Inr m \<Rightarrow> Some m) = (if n = 0 then None else Some n)"
    if "n \<le> i32_max" for n
    using that by (auto simp: bounded_usize_def bounded_int_new_def)
  then show ?thesis
    by (auto simp: depth_from_i32_def andthen_Ok some_or_Ok usize_i32)
qed

lemma depth_choice:
  fixes c :: "nat \<Rightarrow> 'b"
  shows "(\<exists>n \<le> B. i = c n \<and> Some m = (if n = 0 then None else Some n)) \<longleftrightarrow> m \<noteq> 0 \<and> m \<le> B \<and> i = c m"
    and "(\<exists>n \<le> B. i = c n \<and> None = (if n = 0 then None else Some n)) \<longleftrightarrow> i = c 0"
  by (auto split: if_splits)

lemma depth_into_i32_simps:
  "depth_into_i32 None = Ok 0"
  "depth_into_i32 (Some n) = Ok i \<longleftrightarrow> n \<le> i32_max \<and> i = of_nat n"
  by (simp_all add: depth_into_i32_def expects_Ok i32_from_usize_Some)

lemma depth_iff:
  "depth_from_i32 neg i = Ok d \<longleftrightarrow> depth_ok d \<and> depth_into_i32 d = (Ok i :: ('e, _) outcome)"
  by (cases d)
    (simp_all only: depth_from_i32_Ok depth_choice depth_into_i32_simps depth_ok_def
      option.pred_inject of_nat_0 simp_thms outcome.inject, auto)

lemma wf_inner_spec_into: "wf_inner_spec v \<longleftrightarrow> (\<exists>p. inner_spec_into_proto v = (Ok p :: ('e, _) outcome))"
  by (auto simp: wf_inner_spec_def inner_spec_into_proto_def andthen_Ok expects_Ok
      i32_from_usize_Some try_map_i32_from_usize)

lemma depth_into_total: "depth_ok d \<Longrightarrow> \<exists>i. depth_into_i32 d = (Ok i :: ('e, _) outcome)"
  by (cases d) (simp_all add: depth_ok_def depth_into_i32_simps)

lemma proof_spec_iff:
  "proof_spec_from_proto p = Ok x \<longleftrightarrow>
     wf_proof_spec x \<and> proof_spec_into_proto x = (Ok p :: ('e, _) outcome)"
proof (cases p; cases x)
  fix pl pi pmx pmn pk l ins mx mn k
  assume [simp]: "p = \<lparr>pps_leaf_spec = pl, pps_inner_spec = pi, pps_max_depth = pmx,
    pps_min_depth = pmn, pps_prehash_key_before_comparison = pk\<rparr>"
    "x = \<lparr>ps_leaf_spec = l, ps_inner_spec = ins, ps_max_depth = mx, ps_min_depth = mn,
    ps_prehash_key_before_comparison = k\<rparr>"
  show ?thesis
    by (auto simp: proof_spec_from_proto_def proof_spec_into_proto_def wf_proof_spec_def
        andthen_Ok some_or_Ok map_err_Ok leaf_op_iff inner_spec_iff [where 'e = 'e]
        depth_iff [where 'e = 'e] wf_inner_spec_into [where 'e = 'e])
qed

lemma proof_spec_into_total:
  "wf_proof_spec x \<Longrightarrow> \<exists>p. proof_spec_into_proto x = (Ok p :: ('e, _) outcome)"
  using depth_into_total [where 'e = 'e, of "ps_max_depth x"]
    depth_into_total [where 'e = 'e, of "ps_min_depth x"]
    wf_inner_spec_into [where 'e = 'e, of "ps_inner_spec x"]
  by (auto simp: proof_spec_into_proto_def wf_proof_spec_def)

end
