(* ===== verification/Ics23_Claims.thy ===== *)
theory Ics23_Claims imports Ics23_Example Ics23_Proto begin

text \<open>
  The properties of the ICS-23 verifier, each with a witness on the concrete commitment of
  \<open>Ics23_Example\<close>.
\<close>

section \<open>Membership\<close>

text \<open>C6. A value that \<^verbatim>\<open>verify_membership\<close> accepts under the SDK specs is in the committed data: when the
  consensus root is the root of a Tendermint tree that binds printable store names to the roots of
  IAVL trees, an accepted chain of proofs for a path of a store name and a key means that some
  store of that name holds exactly this value under exactly this key, unless two of the byte
  strings hashed by the tree and by the proof collide. The attacker chooses the whole proof: the
  leaf and inner operations, their prefixes and suffixes, and the depth.\<close>
theorem membership_refines_store:
  assumes "lawful_crypto c"
    and "verify_membership c pf sdk_specs \<lparr>mr_hash = multistore_root c m\<rparr> [name, key] value = Ok ()"
    and "commits c m stores" and "length name < 32"
    and "no_collision c (commitment_inputs c m stores) (merkle_inputs c pf)"
  shows "\<exists>s. (name, s) \<in> set stores \<and> (key, value) \<in> set (bindings s)"
  by (rule lawful_crypto.membership_sound [OF assms])

theorem membership_refines_store_witness:
  "\<exists>s. (ibc_name, s) \<in> set example_stores \<and> ([97], [1]) \<in> set (bindings s)"
  by (rule membership_refines_store [OF toy.lawful_crypto_axioms
        present_ok [unfolded example_root_def] example_commits _ present_no_collision]) simp



section \<open>Non-membership\<close>

text \<open>A proof of absence with one neighbour is sound: when \<^verbatim>\<open>verify_non_membership\<close> accepts a
  proof whose left or right existence proof is missing, the given neighbour is the first or the
  last leaf of the store and the key lies beyond it, so a store of that name with its keys in
  order does not hold the key.\<close>
theorem absence_at_the_edge:
  assumes "lawful_crypto c"
    and "verify_non_membership c pf sdk_specs \<lparr>mr_hash = multistore_root c m\<rparr> [name, key] = Ok ()"
    and "mp_proofs pf = Nonexist n # rest" and "np_left n = None \<or> np_right n = None"
    and "commits c m stores" and "length name < 32"
    and "list_all (\<lambda>(_, s). sorted_wrt (<) (map fst (bindings s))) stores"
    and "no_collision c (commitment_inputs c m stores) (merkle_inputs c pf)"
  shows "\<exists>s. (name, s) \<in> set stores \<and> key \<notin> fst ` set (bindings s)"
  by (rule lawful_crypto.non_membership_one_sided [OF assms])

theorem absence_at_the_edge_witness:
  "\<exists>s. (ibc_name, s) \<in> set example_stores \<and> [65] \<notin> fst ` set (bindings s)"
  by (rule absence_at_the_edge [where rest = "[name_proof]" and
        n = "\<lparr>np_key = [65], np_left = None, np_right = Some (key_proof False)\<rparr>", OF toy.lawful_crypto_axioms before_ok [unfolded example_root_def]
        _ _ example_commits _ _ before_no_collision])
    (simp_all add: before_proof_def example_stores_def ibc_store_def acc_store_def bindings_def)

text \<open>With both neighbours given, the key is not looked at: for two keys of the same store the
  verifier returns the same result, whatever the proof and the root (only the shapes of the two
  paths are compared, neither existence proof is checked against the spec and neither key is
  compared with the one to be absent).\<close>
theorem two_neighbours_ignore_key:
  assumes "mp_proofs pf = Nonexist n # rest" and "np_left n = Some l" and "np_right n = Some r"
  shows "verify_non_membership c pf sdk_specs root [name, key] =
         verify_non_membership c pf sdk_specs root [name, key']"
  by (rule non_membership_two_sided [OF assms])

theorem two_neighbours_ignore_key_witness:
  "verify_non_membership toy_crypto between_proof sdk_specs example_root [ibc_name, [97]] =
   verify_non_membership toy_crypto between_proof sdk_specs example_root [ibc_name, [98]]"
  by (rule two_neighbours_ignore_key) (auto simp: between_proof_def)


section \<open>Totality\<close>

lemma get_position_bound:
  "get_position ord b = Ok idx \<Longrightarrow> idx < length ord" and get_position_no_panic: "get_position ord b \<noteq> Panic"
  by (auto simp: get_position_def no_panic outcome_ok in_set_enumerate_eq
      split: option.splits prod.splits dest!: find_SomeD)

lemma get_padding_no_panic: "is_child_order spec \<noteq> [] \<Longrightarrow> get_padding spec b \<noteq> Panic"
  by (auto simp: get_padding_def no_panic sub_usize_def Let_def get_position_no_panic
      dest!: get_position_bound)

lemma order_from_padding_no_panic: "is_child_order spec \<noteq> [] \<Longrightarrow> order_from_padding spec op \<noteq> Panic"
proof -
  assume ne: "is_child_order spec \<noteq> []"
  have "scan_branches spec op bs \<noteq> Panic" for bs
    by (induction bs) (auto simp: no_panic get_padding_no_panic [OF ne])
  then show ?thesis by (simp add: order_from_padding_def)
qed

lemma scan_branches_bound: "scan_branches spec op bs = Ok b \<Longrightarrow> b \<in> set bs"
  by (induction bs) (auto simp: outcome_ok split: if_splits)

lemma order_from_padding_bound: "order_from_padding spec op = Ok b \<Longrightarrow> b < length (is_child_order spec)"
  by (auto simp: order_from_padding_def dest: scan_branches_bound)

lemma try_all_no_panic: "(\<And>x. x \<in> set xs \<Longrightarrow> f x \<noteq> Panic) \<Longrightarrow> try_all f xs \<noteq> Panic"
  by (induction xs) (auto simp: no_panic)

lemma branches_no_panic:
  assumes ne: "is_child_order spec \<noteq> []"
  shows "left_branches_are_empty spec op \<noteq> Panic" "right_branches_are_empty spec op \<noteq> Panic"
proof -
  have inner: "try_all (\<lambda>i. andthen (get_position (is_child_order spec) i) (\<lambda>idx. Ok (P idx))) is \<noteq> Panic"
    for P "is"
    by (rule try_all_no_panic) (simp add: no_panic get_position_no_panic)
  show "left_branches_are_empty spec op \<noteq> Panic"
    using order_from_padding_no_panic [OF ne] inner
    by (auto simp: left_branches_are_empty_def no_panic Let_def split: if_splits)
  show "right_branches_are_empty spec op \<noteq> Panic"
    using order_from_padding_no_panic [OF ne] inner order_from_padding_bound
    by (auto simp: right_branches_are_empty_def no_panic sub_usize_def split: if_splits)
      (use ne in \<open>fastforce dest: order_from_padding_bound\<close>)+
qed

lemma or_try_Panic: "or_try a b = Panic \<longleftrightarrow> a = Panic \<or> (a = Ok False \<and> b = Panic)"
  by (auto simp: or_try_def no_panic)

lemma and_try_Panic: "and_try a b = Panic \<longleftrightarrow> a = Panic \<or> (a = Ok True \<and> b = Panic)"
  by (auto simp: and_try_def no_panic)

lemma edges_no_panic:
  assumes ne: "is_child_order spec \<noteq> []"
  shows "is_left_most spec path \<noteq> Panic" "is_right_most spec path \<noteq> Panic"
proof -
  have inner: "try_all (\<lambda>step. or_try (Ok (P step)) (f step)) path \<noteq> Panic"
    if "\<And>s. f s \<noteq> Panic" for P and f :: "inner_op \<Rightarrow> (neighbor_search_error, bool) outcome"
    by (rule try_all_no_panic) (simp add: or_try_Panic that)
  show "is_left_most spec path \<noteq> Panic" "is_right_most spec path \<noteq> Panic"
    using ne inner [OF branches_no_panic(1) [OF ne]] inner [OF branches_no_panic(2) [OF ne]]
    by (auto simp: is_left_most_def is_right_most_def no_panic get_padding_no_panic sub_usize_def
        Suc_le_eq)
qed

lemma drop_common_no_panic: "drop_common a l b r \<noteq> Panic"
proof (induction a l b r rule: drop_common.induct)
  case (1 a l b r)
  then show ?case by (subst drop_common.simps) (auto simp: no_panic some_or_Ok)
qed

lemma is_left_neighbor_no_panic: "is_child_order spec \<noteq> [] \<Longrightarrow> is_left_neighbor spec l r \<noteq> Panic"
  by (auto simp: is_left_neighbor_def is_left_step_def no_panic drop_common_no_panic
      order_from_padding_no_panic edges_no_panic and_try_Panic)

definition sane_spec :: "proof_spec \<Rightarrow> bool" where
  \<comment> \<open>the order of the children is not empty and a child has a size\<close>
  "sane_spec spec \<longleftrightarrow>
     is_child_order (ps_inner_spec spec) \<noteq> [] \<and> is_child_size (ps_inner_spec spec) \<noteq> 0"

lemma calculate_no_panic [simp]: "calculate c ep spec \<noteq> Panic"
proof -
  have "calculate_step c spec h s \<noteq> Panic" for h s
    by (auto simp: calculate_step_def no_panic split: option.splits)
  then show ?thesis by (simp add: calculate_def no_panic try_fold_no_panic)
qed

lemma calculate_root_no_panic [simp]: "calculate_root c ep \<noteq> Panic"
  by (simp add: calculate_root_def)

lemma verify_existence_no_panic:
  assumes "sane_spec spec"
  shows "verify_existence_proof c ep spec r k v \<noteq> Panic"
proof -
  have "try_each (\<lambda>(i, s). map_err InnerOpSpecMismatch (inner_check_against_spec c s spec i)) xs \<noteq> Panic"
    for xs
    using assms
    by (intro try_each_no_panic) (auto simp: sane_spec_def inner_check_no_panic split: prod.splits)
  then have "ep_check_against_spec c ep spec \<noteq> Panic"
    by (auto simp: ep_check_against_spec_def no_panic split: option.splits)
  then show ?thesis by (simp add: verify_existence_proof_def no_panic)
qed

lemma verify_non_existence_no_panic:
  assumes "sane_spec spec"
  shows "verify_non_existence c n spec r k \<noteq> Panic"
proof -
  have k: "key_for_comparison c spec x \<noteq> Panic" for x by (simp add: key_for_comparison_def)
  from assms have ne: "is_child_order (ps_inner_spec spec) \<noteq> []" by (simp add: sane_spec_def)
  have "left_ops c spec r k e \<noteq> Panic" "right_ops c spec r k e \<noteq> Panic" for e
    by (simp_all add: left_ops_def right_ops_def no_panic k edges_no_panic [OF ne]
        verify_existence_no_panic [OF assms])
  then show ?thesis
    by (auto simp: verify_non_existence_def no_panic is_left_neighbor_no_panic [OF ne]
        split: option.splits)
qed

lemma get_no_panic: "i < length xs \<Longrightarrow> expects (slice_get xs i) \<noteq> Panic"
  by (simp add: slice_get_def)

lemma chained_no_panic:
  assumes "list_all sane_spec specs" "length ps = length specs"
  shows "verify_chained_membership_proof c r specs ps keys v i \<noteq> Panic"
proof -
  have step: "chained_step c specs keys w x \<noteq> Panic" if "x \<in> set (drop i (List.enumerate 0 ps))" for w x
  proof -
    obtain j p where x: "x = (j, p)" by force
    with that have j: "j < length specs"
      using assms(2) by (auto dest!: in_set_dropD simp: in_set_enumerate_eq)
    then have "sane_spec (specs ! j)" using assms(1) by (simp add: list_all_length)
    with j show ?thesis
      by (auto simp: x chained_step_def no_panic slice_get_def ics23_verify_membership_def
          verify_existence_no_panic split: commitment_proof.splits)
  qed
  then show ?thesis
    by (simp add: verify_chained_membership_proof_def no_panic try_fold_no_panic)
qed

text \<open>C39. No proof makes the verifier panic: for specs whose child order is not empty and whose child
  size is not zero, as the two of \<^verbatim>\<open>SDK_SPECS\<close> are, both verifiers return a value or an error on
  every proof, path and value, however the prover chooses the operations; no index is out of
  range and no subtraction goes below zero.\<close>
theorem verification_never_panics:
  assumes "list_all sane_spec specs"
  shows "verify_membership c pf specs root path value \<noteq> Panic \<and>
    verify_non_membership c pf specs root path \<noteq> Panic"
proof
  show "verify_membership c pf specs root path value \<noteq> Panic"
    by (auto simp: verify_membership_def no_panic require_Ok chained_no_panic [OF assms])
  show "verify_non_membership c pf specs root path \<noteq> Panic"
    using assms
    by (cases specs)
      (auto simp: verify_non_membership_def no_panic require_Ok slice_get_def
        ics23_verify_non_membership_def verify_non_existence_no_panic chained_no_panic
        split: commitment_proof.splits option.splits)
qed

theorem verification_never_panics_witness:
  "verify_membership toy_crypto present_proof sdk_specs example_root [] [] \<noteq> Panic"
  using verification_never_panics [of sdk_specs toy_crypto present_proof example_root "[]" "[]"]
  by (simp add: sdk_specs_def sane_spec_def)

section \<open>Depth bounds and varints\<close>

text \<open>The bound on the depth works the wrong way round: under a spec with a maximal depth, a proof
  that passes the check against the spec has at least that many steps, and one with fewer steps is
  refused with the error that it is too long.\<close>
theorem max_depth_is_a_minimum:
  assumes "ps_max_depth spec = Some d"
  shows "(ep_check_against_spec c ep spec = Ok () \<longrightarrow> d \<le> length (ep_path ep)) \<and>
    (leaf_check_against_spec c (ep_leaf ep) spec = Ok () \<longrightarrow> ps_min_depth spec = None \<longrightarrow>
      length (ep_path ep) < d \<longrightarrow>
      ep_check_against_spec c ep spec = Err (InnerDepthTooLong (length (ep_path ep)) d))"
  using assms by (auto simp: ep_check_against_spec_def outcome_ok)

theorem max_depth_is_a_minimum_witness:
  "ep_check_against_spec toy_crypto (key_proof False)
     (tendermint_proof_spec\<lparr>ps_max_depth := Some 5\<rparr>) = Err (InnerDepthTooLong 1 5)"
  using max_depth_is_a_minimum [of "tendermint_proof_spec\<lparr>ps_max_depth := Some 5\<rparr>" 5 toy_crypto
      "key_proof False"]
  by (simp add: key_proof_fields)
    (simp add: key_proof_def honest_proof_def ibc_store_def leaf_check_against_spec_def
      compatible_def iavl_proof_spec_def tendermint_proof_spec_def starts_with_def)

text \<open>A varint is read into the range of an \<^verbatim>\<open>i64\<close>, symmetric about zero: the result of
  \<^verbatim>\<open>read_varint\<close> is between \<open>-(2^63 - 1)\<close> and \<open>2^63 - 1\<close>, so the multiplication does not
  overflow. It is not the zigzag decoding of the reference implementation, which maps the odd
  numbers \<open>2k + 1\<close> to \<open>-(k + 1)\<close>: the code maps them to \<open>-k\<close>, and 1 to 0.\<close>
theorem read_varint_range:
  "- (2 ^ 63 - 1) \<le> zigzag u \<and> zigzag u \<le> 2 ^ 63 - 1 \<and>
   (even (uint u) \<longrightarrow> 2 * zigzag u = uint u) \<and> (odd (uint u) \<longrightarrow> - 2 * zigzag u + 1 = uint u)"
proof -
  have range: "0 \<le> uint u" "uint u < 2 ^ 64" using uint_lt2p [of u] by auto
  consider k where "uint u = 2 * k" | k where "uint u = 2 * k + 1"
    by (cases "even (uint u)") (auto elim!: evenE oddE)
  then show ?thesis
  proof cases
    case 1
    with range show ?thesis by (simp add: zigzag_def)
  next
    case 2
    with range show ?thesis by (simp add: zigzag_def)
  qed
qed

theorem read_varint_range_witness: "zigzag 1 = 0 \<and> - 2 * zigzag 5 + 1 = 5"
  using read_varint_range [of 5] by (simp add: zigzag_def)

section \<open>The protobuf forms\<close>

text \<open>A \<^verbatim>\<open>MerkleProof\<close> message has exactly one reading: decoding it gives a proof if and only
  if it is the encoding of that proof (and the indexes of a compressed proof are not negative).
  So encoding and decoding are inverse, and no two messages decode to the same proof.\<close>
theorem merkle_proof_proto_exact:
  "merkle_proof_from_proto p = Ok x \<longleftrightarrow>
     list_all wf_commitment_proof (mp_proofs x) \<and> p = merkle_proof_into_proto x"
  by (rule merkle_proof_iff)

text \<open>A proof spec inside its integer bounds is encoded without a panic, and decodes to itself; a
  message that decodes gives a spec inside the bounds that encodes to the same message.\<close>
theorem proof_spec_proto_exact:
  "(wf_proof_spec x \<longrightarrow> (\<exists>p. proof_spec_into_proto x = (Ok p :: (unit, proto_proof_spec) outcome) \<and>
      proof_spec_from_proto p = Ok x)) \<and>
   (proof_spec_from_proto p = Ok x \<longrightarrow>
      wf_proof_spec x \<and> proof_spec_into_proto x = (Ok p :: (unit, proto_proof_spec) outcome))"
  using proof_spec_into_total [where 'e = unit, of x] proof_spec_iff [where 'e = unit] by blast

theorem proof_spec_proto_exact_witness:
  "\<exists>p. proof_spec_into_proto iavl_proof_spec = (Ok p :: (unit, proto_proof_spec) outcome) \<and>
     proof_spec_from_proto p = Ok iavl_proof_spec"
  using proof_spec_proto_exact [of iavl_proof_spec]
  by (simp add: wf_proof_spec_def wf_inner_spec_def iavl_proof_spec_def depth_ok_def)

end
