(* ===== verification/Proto_Time.thy ===== *)
theory Proto_Time imports Outcomes Ids "HOL-Library.Signed_Division" begin

text \<open>
  Timestamps and durations (\<^verbatim>\<open>lib/unionlabs/src/google/protobuf/timestamp.rs\<close> and \<^verbatim>\<open>duration.rs\<close>).
  A timestamp keeps seconds and nanoseconds apart, a duration keeps one number of nanoseconds; the
  integers are \<open>int\<close> within the bounds of their types, the division of Rust truncates towards
  zero. The specification is arithmetic on one count of nanoseconds (\<open>ts_total\<close>).
\<close>

section \<open>Durations\<close>

abbreviation nanos_per_second :: int where "nanos_per_second \<equiv> 1000000000"

abbreviation duration_max_seconds :: int where "duration_max_seconds \<equiv> 315576000000"

abbreviation duration_max_nanos :: int where "duration_max_nanos \<equiv> 999999999"

datatype duration = Duration (dur_inner: int)

definition dur_max :: int where
  "dur_max = duration_max_seconds * nanos_per_second + duration_max_nanos"

definition wf_duration :: "duration \<Rightarrow> bool" where
  \<comment> \<open>the bounds of \<^verbatim>\<open>DurationInner\<close>\<close>
  "wf_duration d \<longleftrightarrow> - dur_max \<le> dur_inner d \<and> dur_inner d \<le> dur_max"

datatype duration_error =
    DurSeconds bounded_int_error
  | DurNanos bounded_int_error
  | DurSign

definition dur_new_private :: "int \<Rightarrow> int \<Rightarrow> ('e, duration) outcome" where
  \<comment> \<open>\<^verbatim>\<open>unreachable!()\<close> outside the bounds\<close>
  "dur_new_private seconds nanos =
     (case bounded_int_new (- dur_max) dur_max (seconds * nanos_per_second + nanos) of
        Inr inner \<Rightarrow> Ok (Duration inner)
      | Inl _ \<Rightarrow> Panic)"

definition dur_new :: "int \<Rightarrow> int \<Rightarrow> (duration_error, duration) outcome" where
  "dur_new seconds nanos =
     (if seconds = 0 then
        andthen (result_or DurNanos (bounded_int_new (- duration_max_nanos) duration_max_nanos nanos)) (\<lambda>n.
        dur_new_private 0 n)
      else if seconds \<le> - 1 \<and> nanos \<le> 0 then
        andthen (result_or DurSeconds (bounded_int_new (- duration_max_seconds) (- 1) seconds)) (\<lambda>s.
        andthen (result_or DurNanos (bounded_int_new (- duration_max_nanos) 0 nanos)) (\<lambda>n.
        dur_new_private s n))
      else if 1 \<le> seconds \<and> 0 \<le> nanos then
        andthen (result_or DurSeconds (bounded_int_new 1 duration_max_seconds seconds)) (\<lambda>s.
        andthen (result_or DurNanos (bounded_int_new 0 duration_max_nanos nanos)) (\<lambda>n.
        dur_new_private s n))
      else Err DurSign)"

definition dur_seconds :: "duration \<Rightarrow> int" where
  "dur_seconds d = dur_inner d sdiv nanos_per_second"

definition dur_nanos :: "duration \<Rightarrow> int" where
  "dur_nanos d = dur_inner d smod nanos_per_second"

definition dur_neg :: "duration \<Rightarrow> duration" where
  \<comment> \<open>the bounds are symmetric, so the \<^verbatim>\<open>expect\<close> holds\<close>
  "dur_neg d = Duration (- dur_inner d)"

definition dur_checked_add :: "duration \<Rightarrow> duration \<Rightarrow> duration option" where
  \<comment> \<open>the sum of two bounded durations fits an \<^verbatim>\<open>i128\<close>\<close>
  "dur_checked_add a b =
     (case bounded_int_new (- dur_max) dur_max (dur_inner a + dur_inner b) of
        Inr inner \<Rightarrow> Some (Duration inner)
      | Inl _ \<Rightarrow> None)"

section \<open>Timestamps\<close>

abbreviation timestamp_seconds_max :: int where "timestamp_seconds_max \<equiv> 253402300799"

abbreviation timestamp_seconds_min :: int where "timestamp_seconds_min \<equiv> - 62135596800"

abbreviation nanos_max :: int where "nanos_max \<equiv> nanos_per_second - 1"

datatype timestamp = Timestamp (ts_seconds: int) (ts_nanos: int)

definition wf_timestamp :: "timestamp \<Rightarrow> bool" where
  "wf_timestamp t \<longleftrightarrow>
     timestamp_seconds_min \<le> ts_seconds t \<and> ts_seconds t \<le> timestamp_seconds_max \<and>
     0 \<le> ts_nanos t \<and> ts_nanos t \<le> nanos_max"

definition min_timestamp :: timestamp where
  "min_timestamp = Timestamp timestamp_seconds_min 0"

instantiation timestamp :: linorder
begin

definition less_eq_timestamp :: "timestamp \<Rightarrow> timestamp \<Rightarrow> bool" where
  \<comment> \<open>the seconds first, then the nanoseconds\<close>
  "t \<le> u \<longleftrightarrow> ts_seconds t < ts_seconds u \<or> ts_seconds t = ts_seconds u \<and> ts_nanos t \<le> ts_nanos u"

definition less_timestamp :: "timestamp \<Rightarrow> timestamp \<Rightarrow> bool" where
  "t < u \<longleftrightarrow> ts_seconds t < ts_seconds u \<or> ts_seconds t = ts_seconds u \<and> ts_nanos t < ts_nanos u"

instance
  by standard (auto simp: less_eq_timestamp_def less_timestamp_def timestamp.expand)

end

definition i64_ok :: "int \<Rightarrow> bool" where
  "i64_ok n \<longleftrightarrow> - (2 ^ 63) \<le> n \<and> n < 2 ^ 63"

definition ts_make :: "int \<Rightarrow> int \<Rightarrow> timestamp option" where
  \<comment> \<open>both fields converted into their bounded types\<close>
  "ts_make seconds nanos =
     (case (bounded_int_new timestamp_seconds_min timestamp_seconds_max seconds,
            bounded_int_new 0 nanos_max nanos) of
        (Inr s, Inr n) \<Rightarrow> Some (Timestamp s n)
      | _ \<Rightarrow> None)"

definition ts_try_from_unix_nanos :: "int \<Rightarrow> timestamp option" where
  "ts_try_from_unix_nanos nanos =
     (if i64_ok (nanos sdiv nanos_per_second)
      then ts_make (nanos sdiv nanos_per_second) (nanos smod nanos_per_second)
      else None)"

definition ts_from_unix_nanos :: "int \<Rightarrow> ('e, timestamp) outcome" where
  \<comment> \<open>the argument is within \<^verbatim>\<open>ValidTimestampUnixNanos\<close>\<close>
  "ts_from_unix_nanos nanos =
     expects (if i64_ok (nanos sdiv nanos_per_second)
              then ts_make (nanos sdiv nanos_per_second) (nanos smod nanos_per_second)
              else None)"

definition ts_as_unix_nanos :: "timestamp \<Rightarrow> ('e, nat) outcome" where
  \<comment> \<open>\<^verbatim>\<open>u64::try_from(..).expect(..) * 1_000_000_000 + ..\<close>, an overflow is a panic\<close>
  "ts_as_unix_nanos t =
     (if ts_seconds t < 0 \<or> ts_nanos t < 0 then Panic
      else if 2 ^ 64 \<le> ts_seconds t * 1000000000 then Panic
      else if 2 ^ 64 \<le> ts_seconds t * 1000000000 + ts_nanos t then Panic
      else Ok (nat (ts_seconds t * 1000000000 + ts_nanos t)))"

function ts_duration_since :: "timestamp \<Rightarrow> timestamp \<Rightarrow> duration option" where
  "ts_duration_since t u =
     (if u < t then
        if \<not> i64_ok (ts_seconds t - ts_seconds u) then None
        else
          let seconds = ts_seconds t - ts_seconds u;
              (seconds, nanos) =
                if ts_nanos t < ts_nanos u
                then (seconds - 1, nanos_per_second - (ts_nanos u - ts_nanos t))
                else (seconds, ts_nanos t - ts_nanos u)
          in (case dur_new seconds nanos of Ok d \<Rightarrow> Some d | _ \<Rightarrow> None)
      else if t = u then (case dur_new 0 0 of Ok d \<Rightarrow> Some d | _ \<Rightarrow> None)
      else map_option dur_neg (ts_duration_since u t))"
  by pat_completeness auto
termination
  by (relation "measure (\<lambda>(t, u). if t < u then 1 else 0)") auto

declare ts_duration_since.simps [simp del]

definition ts_checked_add :: "timestamp \<Rightarrow> duration \<Rightarrow> timestamp option" where
  "ts_checked_add t d =
     (let seconds = ts_seconds t + dur_seconds d; nanos = ts_nanos t + dur_nanos d in
     if \<not> i64_ok seconds then None
     else if nanos < 0 then ts_make (seconds - 1) (nanos + (nanos_max + 1))
     else if nanos_max < nanos then ts_make (seconds + 1) (nanos - (nanos_max + 1))
     else ts_make seconds nanos)"

section \<open>Their protobuf messages\<close>

record proto_timestamp =
  pts_seconds :: int
  pts_nanos :: int

record proto_duration =
  pdu_seconds :: int
  pdu_nanos :: int

definition ts_into_proto :: "timestamp \<Rightarrow> proto_timestamp" where
  "ts_into_proto t = \<lparr>pts_seconds = ts_seconds t, pts_nanos = ts_nanos t\<rparr>"

datatype timestamp_error = TsSeconds bounded_int_error | TsNanos bounded_int_error

definition ts_from_proto :: "proto_timestamp \<Rightarrow> (timestamp_error, timestamp) outcome" where
  "ts_from_proto v =
     andthen (result_or TsSeconds
                (bounded_int_new timestamp_seconds_min timestamp_seconds_max (pts_seconds v))) (\<lambda>s.
     andthen (result_or TsNanos (bounded_int_new 0 nanos_max (pts_nanos v))) (\<lambda>n.
     Ok (Timestamp s n)))"

definition dur_into_proto :: "duration \<Rightarrow> proto_duration" where
  "dur_into_proto d = \<lparr>pdu_seconds = dur_seconds d, pdu_nanos = dur_nanos d\<rparr>"

definition dur_from_proto :: "proto_duration \<Rightarrow> (duration_error, duration) outcome" where
  "dur_from_proto v = dur_new (pdu_seconds v) (pdu_nanos v)"

lemma ts_from_proto_Ok: "ts_from_proto v = Ok t \<longleftrightarrow> v = ts_into_proto t \<and> wf_timestamp t"
  by (cases t) (auto simp: ts_from_proto_def ts_into_proto_def outcome_ok bounded_int_new_Inr wf_timestamp_def)

section \<open>One count of nanoseconds\<close>

definition ts_total :: "timestamp \<Rightarrow> int" where
  "ts_total t = ts_seconds t * nanos_per_second + ts_nanos t"

definition ts_of_total :: "int \<Rightarrow> timestamp option" where
  \<comment> \<open>the timestamp with this count, if it is in range\<close>
  "ts_of_total n =
     (if ts_total min_timestamp \<le> n \<and> n \<le> timestamp_seconds_max * nanos_per_second + nanos_max
      then Some (Timestamp (n div nanos_per_second) (n mod nanos_per_second)) else None)"

lemma ts_of_total_total: "wf_timestamp t \<Longrightarrow> ts_of_total (ts_total t) = Some t"
  by (cases t) (auto simp: wf_timestamp_def ts_of_total_def ts_total_def min_timestamp_def)

lemma ts_of_total_Some: "ts_of_total n = Some t \<Longrightarrow> wf_timestamp t \<and> ts_total t = n"
  by (auto simp: wf_timestamp_def ts_of_total_def ts_total_def min_timestamp_def split: if_splits)

lemma ts_less_total:
  "wf_timestamp t \<Longrightarrow> wf_timestamp u \<Longrightarrow> t < u \<longleftrightarrow> ts_total t < ts_total u"
  by (auto simp: less_timestamp_def wf_timestamp_def ts_total_def)

lemma ts_less_eq_total:
  "wf_timestamp t \<Longrightarrow> wf_timestamp u \<Longrightarrow> t \<le> u \<longleftrightarrow> ts_total t \<le> ts_total u"
  by (auto simp: less_eq_timestamp_def wf_timestamp_def ts_total_def)

lemma dur_split: "dur_inner d = dur_seconds d * nanos_per_second + dur_nanos d"
  unfolding dur_seconds_def dur_nanos_def by (metis sdiv_mult_smod_eq)

lemma dur_nanos_range: "\<bar>dur_nanos d\<bar> < nanos_per_second"
  by (simp add: dur_nanos_def smod_int_alt_def abs_mult)

lemma dur_seconds_range: "wf_duration d \<Longrightarrow> \<bar>dur_seconds d\<bar> \<le> duration_max_seconds"
proof -
  assume "wf_duration d"
  then have "\<bar>dur_inner d\<bar> \<le> dur_max" by (auto simp: wf_duration_def)
  then have "\<bar>dur_inner d\<bar> div nanos_per_second \<le> dur_max div nanos_per_second"
    by (intro zdiv_mono1) simp_all
  then show ?thesis
    by (simp add: dur_seconds_def signed_divide_int_def dur_max_def abs_mult)
qed

lemma ts_make_total:
  "0 \<le> n \<Longrightarrow> n \<le> nanos_max \<Longrightarrow> ts_make s n = ts_of_total (s * nanos_per_second + n)"
  by (auto simp: ts_make_def bounded_int_new_def ts_of_total_def ts_total_def min_timestamp_def)

text \<open>Addition is addition of the counts, refused exactly when the sum is out of range.\<close>

lemma ts_checked_add_total:
  assumes t: "wf_timestamp t" and d: "wf_duration d"
  shows "ts_checked_add t d = ts_of_total (ts_total t + dur_inner d)"
proof -
  have s: "i64_ok (ts_seconds t + dur_seconds d)"
    using t dur_seconds_range [OF d] by (auto simp: i64_ok_def wf_timestamp_def)
  have n: "0 \<le> ts_nanos t" "ts_nanos t \<le> nanos_max" using t by (auto simp: wf_timestamp_def)
  have r: "\<bar>dur_nanos d\<bar> < nanos_per_second" by (rule dur_nanos_range)
  show ?thesis
    using s n r dur_split [of d]
    by (auto simp: ts_checked_add_def Let_def ts_make_total ts_total_def algebra_simps)
qed

lemma dur_new_Ok:
  "dur_new s n = Ok d \<longleftrightarrow>
     \<bar>s\<bar> \<le> duration_max_seconds \<and> \<bar>n\<bar> \<le> duration_max_nanos \<and> (0 \<le> s \<and> 0 \<le> n \<or> s \<le> 0 \<and> n \<le> 0 \<or> s = 0) \<and>
     d = Duration (s * nanos_per_second + n)"
  by (auto simp: dur_new_def dur_new_private_def outcome_ok bounded_int_new_def dur_max_def)

lemma dur_from_into_proto: "wf_duration d \<Longrightarrow> dur_from_proto (dur_into_proto d) = Ok d"
proof -
  assume "wf_duration d"
  then have "\<bar>dur_seconds d\<bar> \<le> duration_max_seconds" "\<bar>dur_nanos d\<bar> \<le> duration_max_nanos"
    using dur_seconds_range [of d] dur_nanos_range [of d] by linarith+
  moreover have "0 \<le> dur_seconds d \<and> 0 \<le> dur_nanos d \<or> dur_seconds d \<le> 0 \<and> dur_nanos d \<le> 0"
    by (cases "0 \<le> dur_inner d")
      (auto simp: dur_seconds_def dur_nanos_def signed_divide_int_def signed_modulo_int_def sgn_if
        div_int_pos_iff)
  moreover have "d = Duration (dur_seconds d * nanos_per_second + dur_nanos d)"
    by (metis dur_split duration.collapse)
  ultimately show ?thesis
    unfolding dur_from_proto_def dur_into_proto_def proto_duration.simps dur_new_Ok by blast
qed

lemma ts_duration_since_total:
  assumes t: "wf_timestamp t" and u: "wf_timestamp u"
  shows "ts_duration_since t u = Some (Duration (ts_total t - ts_total u))"
proof -
  have greater: "ts_duration_since a b = Some (Duration (ts_total a - ts_total b))"
    if ab: "b < a" and a: "wf_timestamp a" and b: "wf_timestamp b" for a b
  proof -
    define s n where "s = (if ts_nanos a < ts_nanos b then ts_seconds a - ts_seconds b - 1
        else ts_seconds a - ts_seconds b)"
      and "n = (if ts_nanos a < ts_nanos b then nanos_per_second - (ts_nanos b - ts_nanos a)
        else ts_nanos a - ts_nanos b)"
    have "dur_new s n = Ok (Duration (s * nanos_per_second + n))"
      using ab a b by (auto simp: dur_new_Ok s_def n_def wf_timestamp_def less_timestamp_def)
    moreover have "i64_ok (ts_seconds a - ts_seconds b)"
      using a b by (auto simp: i64_ok_def wf_timestamp_def)
    ultimately show ?thesis
      using ab by (auto simp: ts_duration_since.simps [of a b] Let_def s_def n_def ts_total_def)
  qed
  consider "u < t" | "t = u" | "t < u" by fastforce
  then show ?thesis
  proof cases
    case 1
    then show ?thesis using greater t u by blast
  next
    case 2
    then show ?thesis by (simp add: ts_duration_since.simps [of u u] dur_new_Ok [THEN iffD2])
  next
    case 3
    then show ?thesis
      using greater [of t u] t u by (auto simp: ts_duration_since.simps [of t u] dur_neg_def)
  qed
qed

text \<open>A count below zero that is not a number of whole seconds has a negative remainder.\<close>

lemma ts_make_negative: "n < 0 \<Longrightarrow> ts_make s n = None"
  by (simp add: ts_make_def bounded_int_new_def split: sum.splits)

lemma smod_negative: "n < 0 \<Longrightarrow> \<not> nanos_per_second dvd n \<Longrightarrow> n smod nanos_per_second < 0"
  using smod_int_compares(4) [of n nanos_per_second]
  by (metis dvd_eq_mod_eq_0 dvd_triv_left add.right_neutral less_le mult_sdiv_smod_eq zero_less_numeral)

section \<open>Properties\<close>

text \<open>Timestamp arithmetic is arithmetic on one count of nanoseconds: for timestamps and
  durations within the bounds of their types, the order of timestamps is the order of the counts,
  \<^verbatim>\<open>checked_add\<close> gives the timestamp with the sum of the counts and nothing exactly when that sum
  is outside the years 1 to 9999, and \<^verbatim>\<open>duration_since\<close> never fails and gives the difference,
  negative when the other timestamp is later. The carries between seconds and nanoseconds and the
  truncating division of negative durations do not show.\<close>
theorem timestamp_arithmetic_exact:
  assumes "wf_timestamp t" "wf_timestamp u" "wf_duration d"
  shows "(t < u \<longleftrightarrow> ts_total t < ts_total u) \<and>
    ts_checked_add t d = ts_of_total (ts_total t + dur_inner d) \<and>
    ts_duration_since t u = Some (Duration (ts_total t - ts_total u))"
  using ts_less_total ts_checked_add_total ts_duration_since_total assms by simp

theorem timestamp_arithmetic_exact_witness:
  "ts_checked_add (Timestamp 5 1) (Duration (- 2000000002)) = Some (Timestamp 2 999999999)"
  using timestamp_arithmetic_exact [of "Timestamp 5 1" "Timestamp 5 1" "Duration (- 2000000002)"]
  by (simp add: wf_timestamp_def wf_duration_def dur_max_def ts_of_total_def ts_total_def
      min_timestamp_def)

text \<open>The conversions of a timestamp from and to UNIX nanoseconds, both documented as free of
  panics, are not: \<^verbatim>\<open>as_unix_nanos\<close> panics for every timestamp before 1970, the default one
  included, and for every one whose count does not fit 64 bits (from the year 2554 on);
  \<^verbatim>\<open>from_unix_nanos\<close> panics on every negative count that is not a number of whole seconds.\<close>
theorem unix_nanos_panics:
  assumes "wf_timestamp t"
  shows "ts_as_unix_nanos t =
      (if 0 \<le> ts_seconds t \<and> ts_total t < 2 ^ 64 then Ok (nat (ts_total t)) else Panic) \<and>
    (n < 0 \<and> \<not> nanos_per_second dvd n \<longrightarrow> ts_from_unix_nanos n = Panic)"
  using assms ts_make_negative [OF smod_negative, of n]
  by (auto simp: ts_as_unix_nanos_def ts_total_def wf_timestamp_def ts_from_unix_nanos_def)

theorem unix_nanos_panics_witness:
  "ts_as_unix_nanos min_timestamp = (Panic :: (unit, nat) outcome) \<and>
   ts_from_unix_nanos (- 1) = (Panic :: (unit, timestamp) outcome)"
  using unix_nanos_panics [of min_timestamp, where 'a = unit and 'b = unit]
  by (simp add: wf_timestamp_def min_timestamp_def)

end
