(* ===== verification/Tm_Types.thy ===== *)
theory Tm_Types imports Ics23_Proto Proto_Time Heights begin

text \<open>
  The Tendermint datatypes of \<^verbatim>\<open>lib/unionlabs/src/tendermint/types/\<close>, their protobuf messages, and
  the conversions between them with their round trips. Bounded integers are \<open>int\<close> within the bounds
  of their type, hashes and addresses are byte strings of their length.
\<close>

section \<open>Data\<close>

abbreviation i64_max :: int where "i64_max \<equiv> 9223372036854775807"

datatype public_key = Ed25519 bytes | Secp256k1 bytes | Bn254 bytes | Bls12_381 bytes

record tm_validator =
  val_address :: bytes
  val_pub_key :: public_key
  val_voting_power :: int
  val_proposer_priority :: int

record validator_set =
  vs_validators :: "tm_validator list"
  vs_proposer :: tm_validator
  vs_total_voting_power :: int

record part_set_header =
  psh_total :: "32 word"
  psh_hash :: "bytes option"

record block_id =
  bid_hash :: "bytes option"
  bid_part_set_header :: part_set_header

datatype commit_sig =
    SigAbsent
  | SigCommit (sig_validator: bytes) (sig_timestamp: timestamp) (sig_bytes: bytes)
  | SigNil bytes timestamp bytes

record tm_commit =
  com_height :: int
  com_round :: int
  com_block_id :: block_id
  com_signatures :: "commit_sig list"

record consensus_version =
  cv_block :: u64
  cv_app :: u64

record tm_header =
  hdr_version :: consensus_version
  hdr_chain_id :: string
  hdr_height :: int
  hdr_time :: timestamp
  hdr_last_block_id :: block_id
  hdr_last_commit_hash :: bytes
  hdr_data_hash :: bytes
  hdr_validators_hash :: bytes
  hdr_next_validators_hash :: bytes
  hdr_consensus_hash :: bytes
  hdr_app_hash :: bytes
  hdr_last_results_hash :: bytes
  hdr_evidence_hash :: bytes
  hdr_proposer_address :: bytes

record signed_header =
  sh_header :: tm_header
  sh_commit :: tm_commit

record light_header =
  \<comment> \<open>\<^verbatim>\<open>ibc::lightclients::tendermint::header::Header\<close>\<close>
  lh_signed_header :: signed_header
  lh_validator_set :: validator_set
  lh_trusted_height :: height
  lh_trusted_validators :: validator_set

record simple_validator =
  sv_pub_key :: public_key
  sv_voting_power :: int

datatype signed_msg_type = MsgUnknown | Prevote | Precommit | Proposal

record canonical_part_set_header =
  cpsh_total :: "32 word"
  cpsh_hash :: bytes

record canonical_block_id =
  cbid_hash :: bytes
  cbid_part_set_header :: canonical_part_set_header

record canonical_vote =
  cvo_ty :: signed_msg_type
  cvo_height :: int
  cvo_round :: int
  cvo_block_id :: canonical_block_id
  cvo_chain_id :: string
  cvo_timestamp :: timestamp

definition default_block_id :: block_id where
  "default_block_id = \<lparr>bid_hash = None, bid_part_set_header = \<lparr>psh_total = 0, psh_hash = None\<rparr>\<rparr>"

section \<open>The bounds of the types\<close>

definition wf_validator :: "tm_validator \<Rightarrow> bool" where
  "wf_validator v \<longleftrightarrow>
     length (val_address v) = 20 \<and> 0 \<le> val_voting_power v \<and> val_voting_power v \<le> i64_max"

definition wf_validator_set :: "validator_set \<Rightarrow> bool" where
  "wf_validator_set vs \<longleftrightarrow> list_all wf_validator (vs_validators vs) \<and> wf_validator (vs_proposer vs)"

definition wf_hash :: "bytes option \<Rightarrow> bool" where
  "wf_hash h \<longleftrightarrow> pred_option (\<lambda>b. length b = 32) h"

definition wf_block_id :: "block_id \<Rightarrow> bool" where
  "wf_block_id b \<longleftrightarrow> wf_hash (bid_hash b) \<and> wf_hash (psh_hash (bid_part_set_header b))"

fun wf_commit_sig :: "commit_sig \<Rightarrow> bool" where
  "wf_commit_sig SigAbsent \<longleftrightarrow> True"
| "wf_commit_sig (SigCommit a t s) \<longleftrightarrow> length a = 20 \<and> wf_timestamp t"
| "wf_commit_sig (SigNil a t s) \<longleftrightarrow> length a = 20 \<and> wf_timestamp t"

definition wf_commit :: "tm_commit \<Rightarrow> bool" where
  "wf_commit c \<longleftrightarrow>
     0 \<le> com_height c \<and> com_height c \<le> i64_max \<and> 0 \<le> com_round c \<and> com_round c \<le> int i32_max \<and>
     wf_block_id (com_block_id c) \<and> list_all wf_commit_sig (com_signatures c)"

definition wf_header :: "tm_header \<Rightarrow> bool" where
  "wf_header h \<longleftrightarrow>
     0 \<le> hdr_height h \<and> hdr_height h \<le> i64_max \<and> wf_timestamp (hdr_time h) \<and>
     wf_block_id (hdr_last_block_id h) \<and>
     length (hdr_last_commit_hash h) = 32 \<and> length (hdr_data_hash h) = 32 \<and>
     length (hdr_validators_hash h) = 32 \<and> length (hdr_next_validators_hash h) = 32 \<and>
     length (hdr_consensus_hash h) = 32 \<and> length (hdr_app_hash h) = 32 \<and>
     length (hdr_last_results_hash h) = 32 \<and> length (hdr_evidence_hash h) = 32 \<and>
     length (hdr_proposer_address h) = 20"

definition wf_signed_header :: "signed_header \<Rightarrow> bool" where
  "wf_signed_header s \<longleftrightarrow> wf_header (sh_header s) \<and> wf_commit (sh_commit s)"

definition wf_light_header :: "light_header \<Rightarrow> bool" where
  "wf_light_header l \<longleftrightarrow>
     wf_signed_header (lh_signed_header l) \<and> wf_validator_set (lh_validator_set l) \<and>
     wf_validator_set (lh_trusted_validators l)"

section \<open>Protobuf messages\<close>

datatype proto_key_sum =
    SumEd25519 bytes | SumSecp256k1 bytes | SumBn254 bytes | SumBls12_381 bytes

record proto_public_key =
  ppk_sum :: "proto_key_sum option"

record proto_validator =
  pv_address :: bytes
  pv_pub_key :: "proto_public_key option"
  pv_voting_power :: int
  pv_proposer_priority :: int

record proto_validator_set =
  pvs_validators :: "proto_validator list"
  pvs_proposer :: "proto_validator option"
  pvs_total_voting_power :: int

record proto_part_set_header =
  ppsh_total :: "32 word"
  ppsh_hash :: bytes

record proto_block_id =
  pbid_hash :: bytes
  pbid_part_set_header :: "proto_part_set_header option"

record proto_commit_sig =
  pcs_block_id_flag :: i32
  pcs_validator_address :: bytes
  pcs_timestamp :: "proto_timestamp option"
  pcs_signature :: bytes

record proto_commit =
  pco_height :: int
  pco_round :: int
  pco_block_id :: "proto_block_id option"
  pco_signatures :: "proto_commit_sig list"

record proto_consensus_version =
  pcv_block :: u64
  pcv_app :: u64

record proto_header =
  phd_version :: "proto_consensus_version option"
  phd_chain_id :: string
  phd_height :: int
  phd_time :: "proto_timestamp option"
  phd_last_block_id :: "proto_block_id option"
  phd_last_commit_hash :: bytes
  phd_data_hash :: bytes
  phd_validators_hash :: bytes
  phd_next_validators_hash :: bytes
  phd_consensus_hash :: bytes
  phd_app_hash :: bytes
  phd_last_results_hash :: bytes
  phd_evidence_hash :: bytes
  phd_proposer_address :: bytes

record proto_signed_header =
  psh_header :: "proto_header option"
  psh_commit :: "proto_commit option"

record proto_light_header =
  plh_signed_header :: "proto_signed_header option"
  plh_validator_set :: "proto_validator_set option"
  plh_trusted_height :: "height option" \<comment> \<open>the message and the struct have the same two fields\<close>
  plh_trusted_validators :: "proto_validator_set option"

record proto_simple_validator =
  psv_pub_key :: "proto_public_key option"
  psv_voting_power :: int

record proto_canonical_part_set_header =
  pcpsh_total :: "32 word"
  pcpsh_hash :: bytes

record proto_canonical_block_id =
  pcbid_hash :: bytes
  pcbid_part_set_header :: "proto_canonical_part_set_header option"

record proto_canonical_vote =
  pcvo_type :: i32
  pcvo_height :: int
  pcvo_round :: int
  pcvo_block_id :: "proto_canonical_block_id option"
  pcvo_chain_id :: string
  pcvo_timestamp :: "proto_timestamp option"

end
