(* ===== verification/Tm_Proto.thy ===== *)
theory Tm_Proto imports Tm_Types begin

text \<open>
  The conversions between the Tendermint datatypes and their protobuf messages: what a value encodes
  to, which messages are refused and with which error, and their round trips.
\<close>

section \<open>Public keys and validators\<close>

fun key_into_sum :: "public_key \<Rightarrow> proto_key_sum" where
  "key_into_sum (Ed25519 k) = SumEd25519 k"
| "key_into_sum (Secp256k1 k) = SumSecp256k1 k"
| "key_into_sum (Bn254 k) = SumBn254 k"
| "key_into_sum (Bls12_381 k) = SumBls12_381 k"

definition public_key_into_proto :: "public_key \<Rightarrow> proto_public_key" where
  "public_key_into_proto k = \<lparr>ppk_sum = Some (key_into_sum k)\<rparr>"

datatype public_key_error = PKMissingField string

fun key_from_sum :: "proto_key_sum \<Rightarrow> public_key" where
  "key_from_sum (SumEd25519 k) = Ed25519 k"
| "key_from_sum (SumSecp256k1 k) = Secp256k1 k"
| "key_from_sum (SumBn254 k) = Bn254 k"
| "key_from_sum (SumBls12_381 k) = Bls12_381 k"

definition public_key_from_proto :: "proto_public_key \<Rightarrow> (public_key_error, public_key) outcome" where
  "public_key_from_proto v =
     andthen (some_or (ppk_sum v) (PKMissingField ''sum'')) (\<lambda>s. Ok (key_from_sum s))"

definition h160_try_from :: "bytes \<Rightarrow> invalid_length + bytes" where
  "h160_try_from b =
     (if length b = 20 then Inr b else Inl \<lparr>expected_len = Exact 20, found_len = length b\<rparr>)"

definition validator_into_proto :: "tm_validator \<Rightarrow> proto_validator" where
  "validator_into_proto v =
     \<lparr>pv_address = val_address v, pv_pub_key = Some (public_key_into_proto (val_pub_key v)),
      pv_voting_power = val_voting_power v, pv_proposer_priority = val_proposer_priority v\<rparr>"

datatype validator_error =
    ValMissingField string
  | ValAddress invalid_length
  | ValVotingPower bounded_int_error
  | ValPubKey public_key_error

definition validator_from_proto :: "proto_validator \<Rightarrow> (validator_error, tm_validator) outcome" where
  "validator_from_proto v =
     andthen (result_or ValAddress (h160_try_from (pv_address v))) (\<lambda>a.
     andthen (some_or (pv_pub_key v) (ValMissingField ''pub_key'')) (\<lambda>pk.
     andthen (map_err ValPubKey (public_key_from_proto pk)) (\<lambda>k.
     andthen (result_or ValVotingPower (bounded_int_new 0 i64_max (pv_voting_power v))) (\<lambda>p.
     Ok \<lparr>val_address = a, val_pub_key = k, val_voting_power = p,
         val_proposer_priority = pv_proposer_priority v\<rparr>))))"

definition validator_set_into_proto :: "validator_set \<Rightarrow> proto_validator_set" where
  "validator_set_into_proto v =
     \<lparr>pvs_validators = map validator_into_proto (vs_validators v),
      pvs_proposer = Some (validator_into_proto (vs_proposer v)),
      pvs_total_voting_power = vs_total_voting_power v\<rparr>"

datatype validator_set_error =
    VSMissingField string
  | VSValidators validator_error
  | VSProposer validator_error

definition validator_set_from_proto ::
  "proto_validator_set \<Rightarrow> (validator_set_error, validator_set) outcome" where
  "validator_set_from_proto v =
     andthen (map_err VSValidators (try_map validator_from_proto (pvs_validators v))) (\<lambda>vals.
     andthen (some_or (pvs_proposer v) (VSMissingField ''proposer'')) (\<lambda>pp.
     andthen (map_err VSProposer (validator_from_proto pp)) (\<lambda>p.
     Ok \<lparr>vs_validators = vals, vs_proposer = p,
         vs_total_voting_power = pvs_total_voting_power v\<rparr>)))"

definition simple_validator_into_proto :: "simple_validator \<Rightarrow> proto_simple_validator" where
  "simple_validator_into_proto v =
     \<lparr>psv_pub_key = Some (public_key_into_proto (sv_pub_key v)), psv_voting_power = sv_voting_power v\<rparr>"

section \<open>Block ids and commits\<close>

definition maybe_empty_h256 :: "bytes \<Rightarrow> (invalid_length, bytes option) outcome" where
  \<comment> \<open>the error of \<^verbatim>\<open>H256::try_from\<close> with the other expected length\<close>
  "maybe_empty_h256 value =
     (if value = [] then Ok None
      else andthen (result_or (\<lambda>err. \<lparr>expected_len = EitherLen 0 32, found_len = found_len err\<rparr>)
                      (h256_try_from value)) (\<lambda>h. Ok (Some h)))"

definition hash_into_proto :: "bytes option \<Rightarrow> bytes" where
  \<comment> \<open>\<^verbatim>\<open>map(Into::into).unwrap_or_default()\<close>\<close>
  "hash_into_proto h = (case h of None \<Rightarrow> [] | Some b \<Rightarrow> b)"

definition part_set_header_into_proto :: "part_set_header \<Rightarrow> proto_part_set_header" where
  "part_set_header_into_proto v =
     \<lparr>ppsh_total = psh_total v, ppsh_hash = hash_into_proto (psh_hash v)\<rparr>"

datatype part_set_header_error = PSHHash invalid_length

definition part_set_header_from_proto ::
  "proto_part_set_header \<Rightarrow> (part_set_header_error, part_set_header) outcome" where
  "part_set_header_from_proto v =
     andthen (map_err PSHHash (maybe_empty_h256 (ppsh_hash v))) (\<lambda>h.
     Ok \<lparr>psh_total = ppsh_total v, psh_hash = h\<rparr>)"

definition block_id_into_proto :: "block_id \<Rightarrow> proto_block_id" where
  "block_id_into_proto v =
     \<lparr>pbid_hash = hash_into_proto (bid_hash v),
      pbid_part_set_header = Some (part_set_header_into_proto (bid_part_set_header v))\<rparr>"

datatype block_id_error =
    BIMissingField string
  | BIHash invalid_length
  | BIPartSetHeader part_set_header_error

definition block_id_from_proto :: "proto_block_id \<Rightarrow> (block_id_error, block_id) outcome" where
  "block_id_from_proto v =
     andthen (map_err BIHash (maybe_empty_h256 (pbid_hash v))) (\<lambda>h.
     andthen (some_or (pbid_part_set_header v) (BIMissingField ''part_set_header'')) (\<lambda>pp.
     andthen (map_err BIPartSetHeader (part_set_header_from_proto pp)) (\<lambda>p.
     Ok \<lparr>bid_hash = h, bid_part_set_header = p\<rparr>)))"

datatype block_id_flag = FlagUnknown | FlagAbsent | FlagCommit | FlagNil

fun block_id_flag_i32 :: "block_id_flag \<Rightarrow> i32" where
  "block_id_flag_i32 FlagUnknown = 0"
| "block_id_flag_i32 FlagAbsent = 1"
| "block_id_flag_i32 FlagCommit = 2"
| "block_id_flag_i32 FlagNil = 3"

definition block_id_flag_from_i32 :: "i32 \<Rightarrow> i32 + block_id_flag" where
  "block_id_flag_from_i32 = enum_from block_id_flag_i32 [FlagUnknown, FlagAbsent, FlagCommit, FlagNil]"

fun commit_sig_into_proto :: "commit_sig \<Rightarrow> proto_commit_sig" where
  "commit_sig_into_proto SigAbsent =
     \<lparr>pcs_block_id_flag = block_id_flag_i32 FlagAbsent, pcs_validator_address = [],
      pcs_timestamp = None, pcs_signature = []\<rparr>"
| "commit_sig_into_proto (SigCommit a t s) =
     \<lparr>pcs_block_id_flag = block_id_flag_i32 FlagCommit, pcs_validator_address = a,
      pcs_timestamp = Some (ts_into_proto t), pcs_signature = s\<rparr>"
| "commit_sig_into_proto (SigNil a t s) =
     \<lparr>pcs_block_id_flag = block_id_flag_i32 FlagNil, pcs_validator_address = a,
      pcs_timestamp = Some (ts_into_proto t), pcs_signature = s\<rparr>"

datatype commit_sig_error =
    CSMissingField string
  | CSValidatorAddress invalid_length
  | CSBlockIdFlag i32
  | CSTimestamp timestamp_error
  | CSUnknownBlockIdFlag
  | CSAbsentWithValidatorAddress
  | CSAbsentWithTimestamp
  | CSAbsentWithSignature

definition sig_fields_from_proto ::
  "proto_commit_sig \<Rightarrow> (bytes \<Rightarrow> timestamp \<Rightarrow> bytes \<Rightarrow> commit_sig) \<Rightarrow> (commit_sig_error, commit_sig) outcome"
  where
  \<comment> \<open>the two branches that read an address and a timestamp\<close>
  "sig_fields_from_proto v mk =
     andthen (result_or CSValidatorAddress (h160_try_from (pcs_validator_address v))) (\<lambda>a.
     andthen (some_or (pcs_timestamp v) (CSMissingField ''timestamp'')) (\<lambda>pt.
     andthen (map_err CSTimestamp (ts_from_proto pt)) (\<lambda>t.
     Ok (mk a t (pcs_signature v)))))"

definition commit_sig_from_proto :: "proto_commit_sig \<Rightarrow> (commit_sig_error, commit_sig) outcome" where
  "commit_sig_from_proto v =
     andthen (result_or CSBlockIdFlag (block_id_flag_from_i32 (pcs_block_id_flag v))) (\<lambda>flag.
     case flag of
       FlagUnknown \<Rightarrow> Err CSUnknownBlockIdFlag
     | FlagAbsent \<Rightarrow>
         if pcs_validator_address v \<noteq> [] then Err CSAbsentWithValidatorAddress
         else if (case pcs_timestamp v of None \<Rightarrow> False | Some ts \<Rightarrow> ts \<noteq> ts_into_proto min_timestamp)
           then Err CSAbsentWithTimestamp
         else if pcs_signature v \<noteq> [] then Err CSAbsentWithSignature
         else Ok SigAbsent
     | FlagCommit \<Rightarrow> sig_fields_from_proto v SigCommit
     | FlagNil \<Rightarrow> sig_fields_from_proto v SigNil)"

definition commit_into_proto :: "tm_commit \<Rightarrow> proto_commit" where
  "commit_into_proto v =
     \<lparr>pco_height = com_height v, pco_round = com_round v,
      pco_block_id = Some (block_id_into_proto (com_block_id v)),
      pco_signatures = map commit_sig_into_proto (com_signatures v)\<rparr>"

datatype commit_error =
    CoMissingField string
  | CoHeight bounded_int_error
  | CoRound bounded_int_error
  | CoBlockId block_id_error
  | CoSignatures commit_sig_error

definition commit_from_proto :: "proto_commit \<Rightarrow> (commit_error, tm_commit) outcome" where
  "commit_from_proto v =
     andthen (result_or CoHeight (bounded_int_new 0 i64_max (pco_height v))) (\<lambda>h.
     andthen (result_or CoRound (bounded_int_new 0 (int i32_max) (pco_round v))) (\<lambda>r.
     andthen (some_or (pco_block_id v) (CoMissingField ''block_id'')) (\<lambda>pb.
     andthen (map_err CoBlockId (block_id_from_proto pb)) (\<lambda>b.
     andthen (map_err CoSignatures (try_map commit_sig_from_proto (pco_signatures v))) (\<lambda>ss.
     Ok \<lparr>com_height = h, com_round = r, com_block_id = b, com_signatures = ss\<rparr>)))))"

section \<open>Headers\<close>

definition consensus_version_into_proto :: "consensus_version \<Rightarrow> proto_consensus_version" where
  "consensus_version_into_proto v = \<lparr>pcv_block = cv_block v, pcv_app = cv_app v\<rparr>"

definition consensus_version_from_proto :: "proto_consensus_version \<Rightarrow> consensus_version" where
  "consensus_version_from_proto v = \<lparr>cv_block = pcv_block v, cv_app = pcv_app v\<rparr>"

definition header_into_proto :: "tm_header \<Rightarrow> proto_header" where
  "header_into_proto v =
     \<lparr>phd_version = Some (consensus_version_into_proto (hdr_version v)),
      phd_chain_id = hdr_chain_id v, phd_height = hdr_height v,
      phd_time = Some (ts_into_proto (hdr_time v)),
      phd_last_block_id = Some (block_id_into_proto (hdr_last_block_id v)),
      phd_last_commit_hash = hdr_last_commit_hash v, phd_data_hash = hdr_data_hash v,
      phd_validators_hash = hdr_validators_hash v,
      phd_next_validators_hash = hdr_next_validators_hash v,
      phd_consensus_hash = hdr_consensus_hash v, phd_app_hash = hdr_app_hash v,
      phd_last_results_hash = hdr_last_results_hash v, phd_evidence_hash = hdr_evidence_hash v,
      phd_proposer_address = hdr_proposer_address v\<rparr>"

datatype header_error =
    HdMissingField string
  | HdLastBlockId block_id_error
  | HdHeight bounded_int_error
  | HdTimestamp timestamp_error
  | HdLastCommitHash invalid_length
  | HdDataHash invalid_length
  | HdValidatorsHash invalid_length
  | HdNextValidatorsHash invalid_length
  | HdConsensusHash invalid_length
  | HdAppHash invalid_length
  | HdLastResultsHash invalid_length
  | HdEvidenceHash invalid_length
  | HdProposerAddress invalid_length

definition header_from_proto :: "proto_header \<Rightarrow> (header_error, tm_header) outcome" where
  "header_from_proto v =
     andthen (some_or (phd_version v) (HdMissingField ''version'')) (\<lambda>ver.
     andthen (result_or HdHeight (bounded_int_new 0 i64_max (phd_height v))) (\<lambda>h.
     andthen (some_or (phd_time v) (HdMissingField ''time'')) (\<lambda>pt.
     andthen (map_err HdTimestamp (ts_from_proto pt)) (\<lambda>t.
     andthen (some_or (phd_last_block_id v) (HdMissingField ''last_block_id'')) (\<lambda>pb.
     andthen (map_err HdLastBlockId (block_id_from_proto pb)) (\<lambda>b.
     andthen (result_or HdLastCommitHash (h256_try_from (phd_last_commit_hash v))) (\<lambda>lc.
     andthen (result_or HdDataHash (h256_try_from (phd_data_hash v))) (\<lambda>d.
     andthen (result_or HdValidatorsHash (h256_try_from (phd_validators_hash v))) (\<lambda>vh.
     andthen (result_or HdNextValidatorsHash (h256_try_from (phd_next_validators_hash v))) (\<lambda>nv.
     andthen (result_or HdConsensusHash (h256_try_from (phd_consensus_hash v))) (\<lambda>ch.
     andthen (result_or HdAppHash (h256_try_from (phd_app_hash v))) (\<lambda>ah.
     andthen (result_or HdLastResultsHash (h256_try_from (phd_last_results_hash v))) (\<lambda>lr.
     andthen (result_or HdEvidenceHash (h256_try_from (phd_evidence_hash v))) (\<lambda>eh.
     andthen (result_or HdProposerAddress (h160_try_from (phd_proposer_address v))) (\<lambda>pa.
     Ok \<lparr>hdr_version = consensus_version_from_proto ver, hdr_chain_id = phd_chain_id v,
         hdr_height = h, hdr_time = t, hdr_last_block_id = b, hdr_last_commit_hash = lc,
         hdr_data_hash = d, hdr_validators_hash = vh, hdr_next_validators_hash = nv,
         hdr_consensus_hash = ch, hdr_app_hash = ah, hdr_last_results_hash = lr,
         hdr_evidence_hash = eh, hdr_proposer_address = pa\<rparr>)))))))))))))))"

definition signed_header_into_proto :: "signed_header \<Rightarrow> proto_signed_header" where
  "signed_header_into_proto v =
     \<lparr>psh_header = Some (header_into_proto (sh_header v)),
      psh_commit = Some (commit_into_proto (sh_commit v))\<rparr>"

datatype signed_header_error =
    SHMissingField string
  | SHHeader header_error
  | SHCommit commit_error

definition signed_header_from_proto ::
  "proto_signed_header \<Rightarrow> (signed_header_error, signed_header) outcome" where
  "signed_header_from_proto v =
     andthen (some_or (psh_header v) (SHMissingField ''header'')) (\<lambda>ph.
     andthen (map_err SHHeader (header_from_proto ph)) (\<lambda>h.
     andthen (some_or (psh_commit v) (SHMissingField ''commit'')) (\<lambda>pc.
     andthen (map_err SHCommit (commit_from_proto pc)) (\<lambda>c.
     Ok \<lparr>sh_header = h, sh_commit = c\<rparr>))))"

definition light_header_into_proto :: "light_header \<Rightarrow> proto_light_header" where
  "light_header_into_proto v =
     \<lparr>plh_signed_header = Some (signed_header_into_proto (lh_signed_header v)),
      plh_validator_set = Some (validator_set_into_proto (lh_validator_set v)),
      plh_trusted_height = Some (lh_trusted_height v),
      plh_trusted_validators = Some (validator_set_into_proto (lh_trusted_validators v))\<rparr>"

datatype light_header_error =
    LHMissingField string
  | LHSignedHeader signed_header_error
  | LHValidatorSet validator_set_error
  | LHTrustedValidators validator_set_error

definition light_header_from_proto ::
  "proto_light_header \<Rightarrow> (light_header_error, light_header) outcome" where
  "light_header_from_proto v =
     andthen (some_or (plh_signed_header v) (LHMissingField ''signed header'')) (\<lambda>ps.
     andthen (map_err LHSignedHeader (signed_header_from_proto ps)) (\<lambda>s.
     andthen (some_or (plh_validator_set v) (LHMissingField ''validator_set'')) (\<lambda>pv.
     andthen (map_err LHValidatorSet (validator_set_from_proto pv)) (\<lambda>vs.
     andthen (some_or (plh_trusted_height v) (LHMissingField ''trusted_height'')) (\<lambda>h.
     andthen (some_or (plh_trusted_validators v) (LHMissingField ''trusted_validators'')) (\<lambda>pt.
     andthen (map_err LHTrustedValidators (validator_set_from_proto pt)) (\<lambda>tv.
     Ok \<lparr>lh_signed_header = s, lh_validator_set = vs, lh_trusted_height = h,
         lh_trusted_validators = tv\<rparr>)))))))"

section \<open>Canonical votes\<close>

fun signed_msg_type_i32 :: "signed_msg_type \<Rightarrow> i32" where
  "signed_msg_type_i32 MsgUnknown = 0"
| "signed_msg_type_i32 Prevote = 1"
| "signed_msg_type_i32 Precommit = 2"
| "signed_msg_type_i32 Proposal = 32"

definition canonical_part_set_header_into_proto ::
  "canonical_part_set_header \<Rightarrow> proto_canonical_part_set_header" where
  "canonical_part_set_header_into_proto v = \<lparr>pcpsh_total = cpsh_total v, pcpsh_hash = cpsh_hash v\<rparr>"

definition canonical_block_id_into_proto :: "canonical_block_id \<Rightarrow> proto_canonical_block_id" where
  "canonical_block_id_into_proto v =
     \<lparr>pcbid_hash = cbid_hash v,
      pcbid_part_set_header =
        Some (canonical_part_set_header_into_proto (cbid_part_set_header v))\<rparr>"

definition canonical_vote_into_proto :: "canonical_vote \<Rightarrow> proto_canonical_vote" where
  "canonical_vote_into_proto v =
     \<lparr>pcvo_type = signed_msg_type_i32 (cvo_ty v), pcvo_height = cvo_height v,
      pcvo_round = cvo_round v,
      pcvo_block_id = Some (canonical_block_id_into_proto (cvo_block_id v)),
      pcvo_chain_id = cvo_chain_id v, pcvo_timestamp = Some (ts_into_proto (cvo_timestamp v))\<rparr>"

section \<open>Round trips\<close>

lemma public_key_round_trip [simp]: "public_key_from_proto (public_key_into_proto k) = Ok k"
  by (cases k) (simp_all add: public_key_from_proto_def public_key_into_proto_def)

lemma try_from_Inr [simp]:
  "h256_try_from b = Inr c \<longleftrightarrow> c = b \<and> length b = 32" "h160_try_from b = Inr c \<longleftrightarrow> c = b \<and> length b = 20"
  by (auto simp: h256_try_from_def h160_try_from_def)

lemma try_from_exact [simp]:
  "length b = 32 \<Longrightarrow> h256_try_from b = Inr b" "length b = 20 \<Longrightarrow> h160_try_from b = Inr b"
  by simp_all

lemma bounded_int_new_in [simp]: "mn \<le> n \<Longrightarrow> n \<le> mx \<Longrightarrow> bounded_int_new mn mx n = Inr n"
  by (simp add: bounded_int_new_def)

lemma ts_round_trip [simp]: "wf_timestamp t \<Longrightarrow> ts_from_proto (ts_into_proto t) = Ok t"
  by (simp add: ts_from_proto_Ok)

lemma validator_round_trip [simp]:
  "wf_validator v \<Longrightarrow> validator_from_proto (validator_into_proto v) = Ok v"
  by (simp add: validator_from_proto_def validator_into_proto_def wf_validator_def)

lemma try_map_round_trip:
  "list_all P xs \<Longrightarrow> (\<And>x. P x \<Longrightarrow> f (g x) = Ok x) \<Longrightarrow> try_map f (map g xs) = Ok xs"
  using try_map_map [of xs f g "\<lambda>x. x"] by (simp add: list_all_iff)

lemma validator_set_round_trip [simp]:
  "wf_validator_set v \<Longrightarrow> validator_set_from_proto (validator_set_into_proto v) = Ok v"
  by (simp add: validator_set_from_proto_def validator_set_into_proto_def wf_validator_set_def
      try_map_round_trip [of wf_validator])

lemma hash_round_trip [simp]: "wf_hash h \<Longrightarrow> maybe_empty_h256 (hash_into_proto h) = Ok h"
  by (cases h) (auto simp: maybe_empty_h256_def hash_into_proto_def wf_hash_def)

lemma block_id_round_trip [simp]:
  "wf_block_id b \<Longrightarrow> block_id_from_proto (block_id_into_proto b) = Ok b"
  by (simp add: block_id_from_proto_def block_id_into_proto_def part_set_header_from_proto_def
      part_set_header_into_proto_def wf_block_id_def)

lemma block_id_flag_round_trip [simp]:
  "block_id_flag_from_i32 (block_id_flag_i32 f) = Inr f"
  by (cases f) (simp_all add: block_id_flag_from_i32_def enum_from_def)

lemma commit_sig_round_trip [simp]:
  "wf_commit_sig s \<Longrightarrow> commit_sig_from_proto (commit_sig_into_proto s) = Ok s"
  by (cases s) (simp_all add: commit_sig_from_proto_def sig_fields_from_proto_def del: block_id_flag_i32.simps)

lemma commit_round_trip [simp]: "wf_commit c \<Longrightarrow> commit_from_proto (commit_into_proto c) = Ok c"
  by (simp add: commit_from_proto_def commit_into_proto_def wf_commit_def
      try_map_round_trip [of wf_commit_sig])

lemma header_round_trip [simp]: "wf_header h \<Longrightarrow> header_from_proto (header_into_proto h) = Ok h"
  by (simp add: header_from_proto_def header_into_proto_def wf_header_def
      consensus_version_from_proto_def consensus_version_into_proto_def)

lemma signed_header_round_trip [simp]:
  "wf_signed_header s \<Longrightarrow> signed_header_from_proto (signed_header_into_proto s) = Ok s"
  by (simp add: signed_header_from_proto_def signed_header_into_proto_def wf_signed_header_def)

text \<open>Decoding never leaves the bounds of the types.\<close>

lemma validator_from_proto_wf: "validator_from_proto p = Ok v \<Longrightarrow> wf_validator v"
  by (auto simp: validator_from_proto_def outcome_ok bounded_int_new_Inr wf_validator_def)

lemma try_map_wf: "try_map f xs = Ok ys \<Longrightarrow> (\<And>x y. f x = Ok y \<Longrightarrow> P y) \<Longrightarrow> list_all P ys"
  by (induction xs arbitrary: ys) (auto simp: andthen_Ok)

lemma validator_set_from_proto_wf: "validator_set_from_proto p = Ok v \<Longrightarrow> wf_validator_set v"
  by (auto simp: validator_set_from_proto_def outcome_ok wf_validator_set_def
      intro: validator_from_proto_wf try_map_wf)

lemma maybe_empty_h256_wf: "maybe_empty_h256 b = Ok h \<Longrightarrow> wf_hash h"
  by (auto simp: maybe_empty_h256_def wf_hash_def outcome_ok split: if_splits)

lemma block_id_from_proto_wf: "block_id_from_proto p = Ok b \<Longrightarrow> wf_block_id b"
  by (auto simp: block_id_from_proto_def part_set_header_from_proto_def wf_block_id_def outcome_ok
      intro: maybe_empty_h256_wf)

lemma commit_sig_from_proto_wf: "commit_sig_from_proto p = Ok s \<Longrightarrow> wf_commit_sig s"
proof -
  assume a: "commit_sig_from_proto p = Ok s"
  then obtain flag where "block_id_flag_from_i32 (pcs_block_id_flag p) = Inr flag"
    by (auto simp: commit_sig_from_proto_def outcome_ok)
  with a show ?thesis
    by (cases flag)
      (auto simp: commit_sig_from_proto_def sig_fields_from_proto_def outcome_ok ts_from_proto_Ok)
qed

lemma commit_from_proto_wf: "commit_from_proto p = Ok c \<Longrightarrow> wf_commit c"
  by (auto simp: commit_from_proto_def outcome_ok bounded_int_new_Inr wf_commit_def
      intro: block_id_from_proto_wf commit_sig_from_proto_wf try_map_wf)

lemma header_from_proto_wf: "header_from_proto p = Ok h \<Longrightarrow> wf_header h"
  by (auto simp: header_from_proto_def outcome_ok bounded_int_new_Inr wf_header_def ts_from_proto_Ok
      intro: block_id_from_proto_wf)

lemma light_header_from_proto_wf: "light_header_from_proto p = Ok l \<Longrightarrow> wf_light_header l"
  by (auto simp: light_header_from_proto_def signed_header_from_proto_def outcome_ok
      wf_light_header_def wf_signed_header_def
      intro: header_from_proto_wf commit_from_proto_wf validator_set_from_proto_wf)

lemma light_header_round_trip [simp]:
  "wf_light_header l \<Longrightarrow> light_header_from_proto (light_header_into_proto l) = Ok l"
  by (simp add: light_header_from_proto_def light_header_into_proto_def wf_light_header_def)

end
