(* ===== verification/Tm_Merkle.thy ===== *)
theory Tm_Merkle imports Ics23_Ops begin

text \<open>
  The Merkle root of a list of byte strings (\<^verbatim>\<open>lib/tendermint-verifier/src/merkle.rs\<close>): the code
  reduces an array of hashes in place, level by level; the definition of RFC 6962 splits the list
  at the largest power of two below its length. Both give the same root.
\<close>

section \<open>The code\<close>

definition tm_leaf_hash :: "crypto \<Rightarrow> bytes \<Rightarrow> bytes" where
  "tm_leaf_hash c leaf = sha256 c ([0] @ leaf)"

definition tm_inner_hash :: "crypto \<Rightarrow> bytes \<Rightarrow> bytes \<Rightarrow> bytes" where
  "tm_inner_hash c left right = sha256 c ([1] @ left @ right)"

definition empty_sha256 :: bytes where
  "empty_sha256 =
     hex_literal ''e3b0c44298fc1c149afbf4c8996fb92427ae41e4649b934ca495991b7852b855''"

function merkle_pass ::
  "crypto \<Rightarrow> bytes list \<Rightarrow> nat \<Rightarrow> nat \<Rightarrow> (unit, bytes list \<times> nat) outcome" where
  \<comment> \<open>the inner loop: one level, from index \<open>i\<close> on\<close>
  "merkle_pass c hs n i =
     (if i < n then
        andthen
          (if i + 1 < n then
             andthen (expects (slice_get hs i)) (\<lambda>l.
             andthen (expects (slice_get hs (i + 1))) (\<lambda>r.
             slice_set hs (i div 2) (tm_inner_hash c l r)))
           else slice_swap hs (i div 2) i)
          (\<lambda>hs'. merkle_pass c hs' n (i + 2))
      else Ok (hs, i div 2))"
  by pat_completeness auto
termination
  by (relation "measure (\<lambda>(_, _, n, i). n - i)") auto

declare merkle_pass.simps [simp del]

partial_function (option) merkle_levels ::
  "crypto \<Rightarrow> bytes list \<Rightarrow> nat \<Rightarrow> (unit, bytes list) outcome option" where
  \<comment> \<open>the outer loop; it would not end on a length of zero\<close>
  "merkle_levels c hs n =
     (if n = 1 then Some (Ok hs)
      else case merkle_pass c hs n 0 of
             Ok (hs', n') \<Rightarrow> merkle_levels c hs' n'
           | Err e \<Rightarrow> Some (Err e)
           | Panic \<Rightarrow> Some Panic)"

definition calculate_merkle_root :: "crypto \<Rightarrow> bytes list \<Rightarrow> (unit, bytes) outcome option" where
  "calculate_merkle_root c leaves =
     (if leaves = [] then Some (Ok empty_sha256)
      else map_option (\<lambda>r. andthen r (\<lambda>hs. expects (slice_get hs 0)))
             (merkle_levels c (map (tm_leaf_hash c) leaves) (length leaves)))"

section \<open>The reference definition\<close>

fun split_point :: "nat \<Rightarrow> nat" where
  \<comment> \<open>the largest power of two below \<open>n\<close>, for \<open>2 \<le> n\<close>\<close>
  "split_point n = (if n \<le> 2 then 1 else 2 * split_point ((n + 1) div 2))"

declare split_point.simps [simp del]

lemma split_point_bounds: "2 \<le> n \<Longrightarrow> 0 < split_point n \<and> split_point n < n \<and> n \<le> 2 * split_point n"
proof (induction n rule: split_point.induct)
  case (1 n)
  show ?case
  proof (cases "n \<le> 2")
    case True
    with 1 show ?thesis by (simp add: split_point.simps [of 2])
  next
    case False
    with 1 have "0 < split_point ((n + 1) div 2) \<and> split_point ((n + 1) div 2) < (n + 1) div 2 \<and>
        (n + 1) div 2 \<le> 2 * split_point ((n + 1) div 2)"
      by auto
    with False show ?thesis by (simp add: split_point.simps [of n]) linarith
  qed
qed

lemma split_point_power: "\<exists>j. split_point n = 2 ^ j"
proof (induction n rule: split_point.induct)
  case (1 n)
  show ?case
  proof (cases "n \<le> 2")
    case True
    then show ?thesis by (simp add: split_point.simps [of n] exI [of _ 0])
  next
    case False
    with 1 obtain j where "split_point ((n + 1) div 2) = 2 ^ j" by blast
    with False show ?thesis by (simp add: split_point.simps [of n]) (metis power_Suc)
  qed
qed

function merkle_tree :: "crypto \<Rightarrow> bytes list \<Rightarrow> bytes" where
  \<comment> \<open>the root over the hashes of the leaves\<close>
  "merkle_tree c hs =
     (if length hs < 2 then hd hs
      else tm_inner_hash c (merkle_tree c (take (split_point (length hs)) hs))
                           (merkle_tree c (drop (split_point (length hs)) hs)))"
  by pat_completeness auto
termination
proof (relation "measure (\<lambda>(_, hs). length hs)")
  fix c :: crypto and hs :: "bytes list"
  assume "\<not> length hs < 2"
  then have "0 < split_point (length hs) \<and> split_point (length hs) < length hs"
    using split_point_bounds [of "length hs"] by simp
  then show "((c, take (split_point (length hs)) hs), c, hs) \<in> measure (\<lambda>(_, hs). length hs)"
    and "((c, drop (split_point (length hs)) hs), c, hs) \<in> measure (\<lambda>(_, hs). length hs)"
    by auto
qed simp

declare merkle_tree.simps [simp del]

definition rfc6962_root :: "crypto \<Rightarrow> bytes list \<Rightarrow> bytes" where
  "rfc6962_root c leaves =
     (if leaves = [] then empty_sha256 else merkle_tree c (map (tm_leaf_hash c) leaves))"

section \<open>One level\<close>

fun pair_up :: "crypto \<Rightarrow> bytes list \<Rightarrow> bytes list" where
  "pair_up c (a # b # hs) = tm_inner_hash c a b # pair_up c hs"
| "pair_up c hs = hs"

lemma length_pair_up [simp]: "length (pair_up c hs) = (length hs + 1) div 2"
  by (induction c hs rule: pair_up.induct) auto

lemma pair_up_take: "pair_up c (take (2 * k) hs) = take k (pair_up c hs)"
proof (induction k arbitrary: hs)
  case (Suc k)
  then show ?case by (cases hs; cases "tl hs") auto
qed simp

lemma pair_up_drop: "pair_up c (drop (2 * k) hs) = drop k (pair_up c hs)"
proof (induction k arbitrary: hs)
  case (Suc k)
  then show ?case by (cases hs; cases "tl hs") auto
qed simp

text \<open>A level does not change the root.\<close>

lemma merkle_tree_pair_up: "hs \<noteq> [] \<Longrightarrow> merkle_tree c (pair_up c hs) = merkle_tree c hs"
proof (induction "length hs" arbitrary: hs rule: less_induct)
  case less
  let ?n = "length hs"
  consider "?n = 1" | "?n = 2" | "3 \<le> ?n"
    using less.prems by (cases hs; cases "tl hs") (auto simp: Suc_le_eq)
  then show ?case
  proof cases
    case 1
    then show ?thesis by (auto simp: length_Suc_conv)
  next
    case 2
    then obtain a b where "hs = [a, b]" by (auto simp: numeral_2_eq_2 length_Suc_conv)
    then show ?thesis
      by (simp add: merkle_tree.simps [of c "[a, b]"] merkle_tree.simps [of c "[a]"]
          merkle_tree.simps [of c "[b]"] merkle_tree.simps [of c "[x]" for x] split_point.simps)
  next
    case 3
    let ?k = "split_point ((?n + 1) div 2)"
    have k: "split_point ?n = 2 * ?k" using 3 by (simp add: split_point.simps [of ?n])
    have b: "0 < 2 * ?k" "2 * ?k < ?n" using split_point_bounds [of ?n] 3 k by auto
    have l: "merkle_tree c (pair_up c (take (2 * ?k) hs)) = merkle_tree c (take (2 * ?k) hs)"
      and r: "merkle_tree c (pair_up c (drop (2 * ?k) hs)) = merkle_tree c (drop (2 * ?k) hs)"
      using b by (auto intro!: less.hyps)
    have "\<not> length (pair_up c hs) < 2" using 3 by simp
    then show ?thesis
      using 3 k l r
      by (simp add: merkle_tree.simps [of c hs] merkle_tree.simps [of c "pair_up c hs"]
          pair_up_take pair_up_drop)
  qed
qed

section \<open>The loops\<close>

text \<open>The inner loop leaves the level above in the front of the array.\<close>

lemma merkle_pass_pair_up:
  "\<lbrakk>n \<le> length hs; 2 * k \<le> n + 1\<rbrakk> \<Longrightarrow>
   \<exists>hs'. merkle_pass c hs n (2 * k) = Ok (hs', (n + 1) div 2) \<and> length hs' = length hs \<and>
     take ((n + 1) div 2) hs' = take k hs @ pair_up c (drop (2 * k) (take n hs))"
proof (induction "n + 1 - 2 * k" arbitrary: hs k rule: less_induct)
  case less
  consider "n \<le> 2 * k" | "n = 2 * k + 1" | "2 * k + 1 < n" by linarith
  then show ?case
  proof cases
    case 1
    with less.prems have "(n + 1) div 2 = k" by linarith
    with 1 show ?thesis by (simp add: merkle_pass.simps)
  next
    case 2
    let ?hs = "hs[k := hs ! (2 * k), 2 * k := hs ! k]"
    have "drop (2 * k) (take n hs) = [hs ! (2 * k)]"
      using 2 less.prems(1) by (simp add: take_Suc_conv_app_nth)
    moreover have "take (Suc k) ?hs = take k hs @ [hs ! (2 * k)]"
      using 2 less.prems(1)
      by (intro nth_equalityI) (auto simp: nth_append nth_list_update less_Suc_eq)
    ultimately show ?thesis
      using 2 less.prems(1) by (simp add: merkle_pass.simps slice_swap_def)
  next
    case 3
    let ?hs = "hs[k := tm_inner_hash c (hs ! (2 * k)) (hs ! (2 * k + 1))]"
    have "merkle_pass c hs n (2 * k) = merkle_pass c ?hs n (2 * Suc k)"
      using 3 less.prems(1) by (simp add: merkle_pass.simps [of c hs] slice_get_def slice_set_def)
    moreover have "drop (2 * k) (take n hs) = hs ! (2 * k) # hs ! (2 * k + 1) # drop (2 * Suc k) (take n hs)"
      using 3 less.prems(1)
        Cons_nth_drop_Suc [of "2 * k" "take n hs"] Cons_nth_drop_Suc [of "Suc (2 * k)" "take n hs"]
      by simp
    moreover have "drop (2 * Suc k) (take n ?hs) = drop (2 * Suc k) (take n hs)"
      by (simp add: take_update_swap)
    moreover have "take (Suc k) ?hs = take k hs @ [tm_inner_hash c (hs ! (2 * k)) (hs ! (2 * k + 1))]"
      using 3 less.prems(1) by (simp add: take_Suc_conv_app_nth)
    ultimately show ?thesis
      using less.hyps [of "Suc k" ?hs] 3 less.prems(1) by simp
  qed
qed

lemma merkle_levels_root:
  "\<lbrakk>0 < n; n \<le> length hs\<rbrakk> \<Longrightarrow>
   \<exists>hs'. merkle_levels c hs n = Some (Ok hs') \<and> slice_get hs' 0 = Some (merkle_tree c (take n hs))"
proof (induction n arbitrary: hs rule: less_induct)
  case (less n)
  show ?case
  proof (cases "n = 1")
    case True
    with less.prems show ?thesis
      by (cases hs) (simp_all add: merkle_levels.simps merkle_tree.simps slice_get_def)
  next
    case False
    let ?m = "(n + 1) div 2"
    obtain hs' where p: "merkle_pass c hs n 0 = Ok (hs', ?m)" and l: "length hs' = length hs"
      and t: "take ?m hs' = pair_up c (take n hs)"
      using merkle_pass_pair_up [of n hs 0 c] less.prems by auto
    have "merkle_tree c (take ?m hs') = merkle_tree c (take n hs)"
      unfolding t using less.prems by (intro merkle_tree_pair_up) auto
    moreover have "0 < ?m" "?m < n" "?m \<le> length hs'" using False less.prems l by auto
    ultimately show ?thesis
      using less.IH [of ?m hs'] False p by (simp add: merkle_levels.simps [of c hs])
  qed
qed

lemma calculate_merkle_root_rfc6962: "calculate_merkle_root c leaves = Some (Ok (rfc6962_root c leaves))"
proof (cases "leaves = []")
  case False
  then obtain hs' where
    "merkle_levels c (map (tm_leaf_hash c) leaves) (length leaves) = Some (Ok hs')"
    "slice_get hs' 0 = Some (merkle_tree c (map (tm_leaf_hash c) leaves))"
    using merkle_levels_root [of "length leaves" "map (tm_leaf_hash c) leaves" c] by auto
  with False show ?thesis by (simp add: calculate_merkle_root_def rfc6962_root_def)
qed (simp add: calculate_merkle_root_def rfc6962_root_def)

end
