(* ===== verification/Tm_Verify.thy ===== *)
theory Tm_Verify imports Tm_Proto Tm_Merkle begin

text \<open>
  The Tendermint header verifier (\<^verbatim>\<open>lib/tendermint-verifier/src/\<close>): the hash of a header and of a
  validator set, the tally of the signatures of a commit, one by one or as a batch, and the checks on
  an adjacent or non-adjacent header. Hashes, protobuf encoders and signature checks are parameters.
  The tally is an \<^verbatim>\<open>u64\<close>; an addition that overflows it is a panic, as in a build with overflow
  checks.
\<close>

section \<open>Parameters\<close>

record tm_codec =
  enc_consensus :: "proto_consensus_version \<Rightarrow> bytes"
  enc_string_value :: "string \<Rightarrow> bytes"
  enc_int64_value :: "int \<Rightarrow> bytes"
  enc_bytes_value :: "bytes \<Rightarrow> bytes"
  enc_timestamp :: "proto_timestamp \<Rightarrow> bytes"
  enc_block_id :: "proto_block_id \<Rightarrow> bytes"
  enc_simple_validator :: "proto_simple_validator \<Rightarrow> bytes"
  enc_canonical_vote :: "proto_canonical_vote \<Rightarrow> bytes" \<comment> \<open>length delimited\<close>

record host_fns =
  verify_signature :: "public_key \<Rightarrow> bytes \<Rightarrow> bytes \<Rightarrow> bool"
  verify_batch_signature :: "public_key list \<Rightarrow> bytes list \<Rightarrow> bytes list \<Rightarrow> bool"

record fraction =
  fr_numerator :: u64
  fr_denominator :: u64 \<comment> \<open>a \<^verbatim>\<open>NonZeroU64\<close>\<close>

section \<open>Errors\<close>

datatype tm_error =
    IntegerOverflow
  | InvalidHeader
  | HeadersMustBeNonAdjacent
  | HeadersMustBeAdjacent
  | HeaderExpired duration timestamp
  | ChainIdMismatch string string
  | SignedHeaderCommitHeightMismatch int int
  | SignedHeaderCommitHashMismatch bytes bytes
  | UntrustedHeaderHeightIsLE int int
  | UntrustedHeaderTimestampIsLE timestamp timestamp
  | UntrustedValidatorSetMismatch bytes bytes
  | InvalidIndexInValidatorSet nat nat
  | DoubleVote bytes
  | NotEnoughVotingPower int int
  | SignatureVerification
  | MaxClockDriftCheckFailed duration timestamp
  | NextValidatorsHashMismatch bytes bytes
  | InvalidCommitSignaturesLength nat nat
  | InvalidCommitHeight int int
  | InvalidCommitBlockId block_id block_id
  | NegativeVotingPower int
  | MissingBlockIdHash

section \<open>Hashes\<close>

definition header_leaves :: "crypto \<Rightarrow> tm_codec \<Rightarrow> proto_header \<Rightarrow> bytes list option" where
  \<comment> \<open>the fourteen encoded fields; \<^verbatim>\<open>?\<close> on the three that are optional in the message\<close>
  "header_leaves c k h =
     Option.bind (phd_version h) (\<lambda>version.
     Option.bind (phd_time h) (\<lambda>time.
     Option.bind (phd_last_block_id h) (\<lambda>last_block_id.
     Some (map (tm_leaf_hash c)
       [enc_consensus k version, enc_string_value k (phd_chain_id h),
        enc_int64_value k (phd_height h), enc_timestamp k time, enc_block_id k last_block_id,
        enc_bytes_value k (phd_last_commit_hash h), enc_bytes_value k (phd_data_hash h),
        enc_bytes_value k (phd_validators_hash h), enc_bytes_value k (phd_next_validators_hash h),
        enc_bytes_value k (phd_consensus_hash h), enc_bytes_value k (phd_app_hash h),
        enc_bytes_value k (phd_last_results_hash h), enc_bytes_value k (phd_evidence_hash h),
        enc_bytes_value k (phd_proposer_address h)]))))"

definition set_inner :: "crypto \<Rightarrow> nat \<Rightarrow> nat \<Rightarrow> nat \<Rightarrow> bytes list \<Rightarrow> bytes list" where
  \<comment> \<open>\<^verbatim>\<open>leaves[i] = inner_hash(&leaves[l], &leaves[r])\<close>, the indices are below 14\<close>
  "set_inner c i l r hs = hs[i := tm_inner_hash c (hs ! l) (hs ! r)]"

definition header_merkle_root :: "crypto \<Rightarrow> tm_codec \<Rightarrow> tm_header \<Rightarrow> bytes option" where
  \<comment> \<open>\<^verbatim>\<open>Header::calculate_merkle_root\<close>: three levels written out, on fourteen leaves\<close>
  "header_merkle_root c k header =
     Option.bind (header_leaves c k (header_into_proto header)) (\<lambda>leaves.
       let leaves = set_inner c 0 0 1 leaves;
           leaves = set_inner c 1 2 3 leaves;
           leaves = set_inner c 2 4 5 leaves;
           leaves = set_inner c 3 6 7 leaves;
           leaves = set_inner c 4 8 9 leaves;
           leaves = set_inner c 5 10 11 leaves;
           leaves = set_inner c 6 12 13 leaves;
           leaves = set_inner c 0 0 1 leaves;
           leaves = set_inner c 1 2 3 leaves;
           leaves = set_inner c 2 4 5 leaves;
           leaves = leaves[3 := leaves ! 6];
           leaves = set_inner c 0 0 1 leaves;
           leaves = set_inner c 1 2 3 leaves
       in Some (tm_inner_hash c (leaves ! 0) (leaves ! 1)))"

fun finished :: "(unit, 'a) outcome option \<Rightarrow> ('e, 'a) outcome" where
  \<comment> \<open>the result of a loop without errors; one that does not end is counted as a panic\<close>
  "finished (Some (Ok x)) = Ok x"
| "finished _ = Panic"

definition simple_validator_of :: "tm_validator \<Rightarrow> simple_validator" where
  \<comment> \<open>a BLS12-381 key is hashed as a BN254 key\<close>
  "simple_validator_of v =
     \<lparr>sv_pub_key = (case val_pub_key v of Bls12_381 key \<Rightarrow> Bn254 key | key \<Rightarrow> key),
      sv_voting_power = val_voting_power v\<rparr>"

definition raw_validators :: "tm_codec \<Rightarrow> validator_set \<Rightarrow> bytes list" where
  "raw_validators k vs =
     map (\<lambda>v. enc_simple_validator k (simple_validator_into_proto (simple_validator_of v)))
       (vs_validators vs)"

definition validators_hash :: "crypto \<Rightarrow> tm_codec \<Rightarrow> validator_set \<Rightarrow> ('e, bytes) outcome" where
  "validators_hash c k vs = finished (calculate_merkle_root c (raw_validators k vs))"

section \<open>Votes\<close>

definition canonical_vote_bytes ::
  "tm_codec \<Rightarrow> tm_commit \<Rightarrow> commit_sig \<Rightarrow> timestamp \<Rightarrow> string \<Rightarrow> (tm_error, bytes) outcome" where
  \<comment> \<open>\<^verbatim>\<open>canonical_vote\<close>; a missing hash of the part set header is reported as the block id's\<close>
  "canonical_vote_bytes k commit sg timestamp chain_id =
     (let bid = (case sg of SigCommit _ _ _ \<Rightarrow> com_block_id commit | _ \<Rightarrow> default_block_id) in
     andthen (some_or (bid_hash bid) MissingBlockIdHash) (\<lambda>h.
     andthen (some_or (psh_hash (bid_part_set_header bid)) MissingBlockIdHash) (\<lambda>ph.
     Ok (enc_canonical_vote k (canonical_vote_into_proto
       \<lparr>cvo_ty = Precommit, cvo_height = com_height commit, cvo_round = com_round commit,
        cvo_block_id =
          \<lparr>cbid_hash = h,
           cbid_part_set_header =
             \<lparr>cpsh_total = psh_total (bid_part_set_header bid), cpsh_hash = ph\<rparr>\<rparr>,
        cvo_chain_id = chain_id, cvo_timestamp = timestamp\<rparr>)))))"

definition get_validator_by_address :: "validator_set \<Rightarrow> bytes \<Rightarrow> (nat \<times> tm_validator) option" where
  "get_validator_by_address vals address =
     find (\<lambda>(_, val). val_address val = address) (List.enumerate 0 (vs_validators vals))"

definition header_expired :: "signed_header \<Rightarrow> duration \<Rightarrow> timestamp \<Rightarrow> bool" where
  \<comment> \<open>the check is commented out\<close>
  "header_expired h trusting_period now = False"

fun filter_commit :: "commit_sig \<Rightarrow> (tm_error, (bytes \<times> timestamp \<times> bytes) option) outcome" where
  "filter_commit (SigCommit a t s) = Ok (Some (a, t, s))"
| "filter_commit _ = Ok None"

definition u64_add :: "int \<Rightarrow> int \<Rightarrow> ('e, int) outcome" where
  "u64_add a b = (if a + b < 2 ^ 64 then Ok (a + b) else Panic)"

section \<open>The tally\<close>

type_synonym 's sig_handler = "'s \<Rightarrow> public_key \<Rightarrow> bytes \<Rightarrow> bytes \<Rightarrow> (tm_error, 's) outcome"

fun verify_commit_loop ::
  "tm_codec \<Rightarrow> string \<Rightarrow> validator_set \<Rightarrow> tm_commit \<Rightarrow> int \<Rightarrow> bool \<Rightarrow> 's sig_handler \<Rightarrow>
   (nat \<times> commit_sig) list \<Rightarrow> int \<Rightarrow> (nat \<rightharpoonup> nat) \<Rightarrow> 's \<Rightarrow> (tm_error, 's) outcome" where
  "verify_commit_loop k chain_id vals commit needed by_index handle [] tallied seen s =
     Err (NotEnoughVotingPower tallied needed)"
| "verify_commit_loop k chain_id vals commit needed by_index handle ((i, sg) # rest) tallied seen s =
     andthen (filter_commit sg) (\<lambda>x.
     case x of
       None \<Rightarrow> verify_commit_loop k chain_id vals commit needed by_index handle rest tallied seen s
     | Some (address, timestamp, signature) \<Rightarrow>
         andthen
           (if by_index then
              andthen (some_or (slice_get (vs_validators vals) i)
                         (InvalidIndexInValidatorSet i (length (vs_validators vals)))) (\<lambda>val.
              Ok (Some (val, seen)))
            else
              (case get_validator_by_address vals address of
                 None \<Rightarrow> Ok None
               | Some (val_idx, val) \<Rightarrow>
                   if seen val_idx \<noteq> None then Err (DoubleVote address)
                   else Ok (Some (val, seen(val_idx \<mapsto> i)))))
           (\<lambda>found.
           case found of
             None \<Rightarrow>
               verify_commit_loop k chain_id vals commit needed by_index handle rest tallied seen s
           | Some (val, seen') \<Rightarrow>
               andthen (canonical_vote_bytes k commit sg timestamp chain_id) (\<lambda>msg.
               andthen (handle s (val_pub_key val) msg signature) (\<lambda>s'.
               andthen (u64_add tallied (val_voting_power val)) (\<lambda>tallied'.
               if needed < tallied' then Ok s'
               else verify_commit_loop k chain_id vals commit needed by_index handle rest
                      tallied' seen' s')))))"

definition verify_commit ::
  "tm_codec \<Rightarrow> string \<Rightarrow> validator_set \<Rightarrow> tm_commit \<Rightarrow> int \<Rightarrow> bool \<Rightarrow> 's sig_handler \<Rightarrow> 's \<Rightarrow>
   (tm_error, 's) outcome" where
  "verify_commit k chain_id vals commit needed by_index handle s =
     verify_commit_loop k chain_id vals commit needed by_index handle
       (List.enumerate 0 (com_signatures commit)) 0 Map.empty s"

definition check_one :: "host_fns \<Rightarrow> unit sig_handler" where
  "check_one host s pubkey msg signature =
     (if verify_signature host pubkey msg signature then Ok () else Err SignatureVerification)"

definition verify_commit_single ::
  "tm_codec \<Rightarrow> host_fns \<Rightarrow> string \<Rightarrow> validator_set \<Rightarrow> tm_commit \<Rightarrow> int \<Rightarrow> bool \<Rightarrow> (tm_error, unit) outcome"
  where
  "verify_commit_single k host chain_id vals commit needed by_index =
     verify_commit k chain_id vals commit needed by_index (check_one host) ()"

definition collect :: "(public_key list \<times> bytes list \<times> bytes list) sig_handler" where
  "collect s pubkey msg signature =
     (case s of (pubkeys, msgs, signatures) \<Rightarrow>
        Ok (pubkeys @ [pubkey], msgs @ [msg], signatures @ [signature]))"

definition verify_commit_batch ::
  "tm_codec \<Rightarrow> host_fns \<Rightarrow> string \<Rightarrow> validator_set \<Rightarrow> tm_commit \<Rightarrow> int \<Rightarrow> bool \<Rightarrow> (tm_error, unit) outcome"
  where
  "verify_commit_batch k host chain_id vals commit needed by_index =
     andthen (verify_commit k chain_id vals commit needed by_index collect ([], [], []))
       (\<lambda>(pubkeys, msgs, signatures).
       if verify_batch_signature host pubkeys msgs signatures then Ok ()
       else Err SignatureVerification)"

definition should_batch_verify :: "nat \<Rightarrow> bool" where
  "should_batch_verify n \<longleftrightarrow> 2 \<le> n"

definition verify_signatures ::
  "tm_codec \<Rightarrow> host_fns \<Rightarrow> string \<Rightarrow> validator_set \<Rightarrow> tm_commit \<Rightarrow> int \<Rightarrow> bool \<Rightarrow> (tm_error, unit) outcome"
  where
  \<comment> \<open>the choice at the end of the two functions below\<close>
  "verify_signatures k host chain_id vals commit needed by_index =
     (if should_batch_verify (length (com_signatures commit))
      then verify_commit_batch k host chain_id vals commit needed by_index
      else verify_commit_single k host chain_id vals commit needed by_index)"

definition verify_basic_vals_and_commit ::
  "validator_set \<Rightarrow> tm_commit \<Rightarrow> int \<Rightarrow> block_id \<Rightarrow> (tm_error, unit) outcome" where
  "verify_basic_vals_and_commit vals commit height bid =
     (if length (vs_validators vals) \<noteq> length (com_signatures commit) then
        Err (InvalidCommitSignaturesLength (length (com_signatures commit))
               (length (vs_validators vals)))
      else if height \<noteq> com_height commit then Err (InvalidCommitHeight (com_height commit) height)
      else if bid \<noteq> com_block_id commit then Err (InvalidCommitBlockId (com_block_id commit) bid)
      else Ok ())"

definition light_power_needed :: "validator_set \<Rightarrow> (tm_error, int) outcome" where
  "light_power_needed vals =
     (if vs_total_voting_power vals < 0 then Err (NegativeVotingPower (vs_total_voting_power vals))
      else if 2 ^ 64 \<le> vs_total_voting_power vals * 2 then Err IntegerOverflow
      else Ok (vs_total_voting_power vals * 2 div 3))"

definition verify_commit_light ::
  "tm_codec \<Rightarrow> host_fns \<Rightarrow> validator_set \<Rightarrow> string \<Rightarrow> block_id \<Rightarrow> int \<Rightarrow> tm_commit \<Rightarrow>
   (tm_error, unit) outcome" where
  "verify_commit_light k host vals chain_id bid height commit =
     andthen (verify_basic_vals_and_commit vals commit height bid) (\<lambda>_.
     andthen (light_power_needed vals) (\<lambda>needed.
     verify_signatures k host chain_id vals commit needed True))"

definition trusting_power_needed :: "validator_set \<Rightarrow> fraction \<Rightarrow> (tm_error, int) outcome" where
  "trusting_power_needed vals trust_level =
     (let p = \<bar>vs_total_voting_power vals\<bar> * uint (fr_numerator trust_level) in
     if 2 ^ 64 \<le> p then Err IntegerOverflow else Ok (p div uint (fr_denominator trust_level)))"

definition verify_commit_light_trusting ::
  "tm_codec \<Rightarrow> host_fns \<Rightarrow> string \<Rightarrow> validator_set \<Rightarrow> tm_commit \<Rightarrow> fraction \<Rightarrow> (tm_error, unit) outcome"
  where
  "verify_commit_light_trusting k host chain_id vals commit trust_level =
     andthen (trusting_power_needed vals trust_level) (\<lambda>needed.
     verify_signatures k host chain_id vals commit needed False)"

section \<open>Headers\<close>

definition verify_new_headers_and_vals ::
  "crypto \<Rightarrow> tm_codec \<Rightarrow> signed_header \<Rightarrow> validator_set \<Rightarrow> signed_header \<Rightarrow> timestamp \<Rightarrow> duration \<Rightarrow>
   (tm_error, unit) outcome" where
  "verify_new_headers_and_vals c k untrusted untrusted_vals trusted now max_clock_drift =
     (let uh = sh_header untrusted; th = sh_header trusted in
     if com_height (sh_commit untrusted) \<noteq> hdr_height uh then
       Err (SignedHeaderCommitHeightMismatch (hdr_height uh) (com_height (sh_commit untrusted)))
     else
       andthen (some_or (header_merkle_root c k uh) InvalidHeader) (\<lambda>header_hash.
       andthen (some_or (bid_hash (com_block_id (sh_commit untrusted))) MissingBlockIdHash) (\<lambda>commit_hash.
       if header_hash \<noteq> commit_hash then Err (SignedHeaderCommitHashMismatch header_hash commit_hash)
       else if hdr_chain_id uh \<noteq> hdr_chain_id th then
         Err (ChainIdMismatch (hdr_chain_id uh) (hdr_chain_id th))
       else if hdr_height uh \<le> hdr_height th then
         Err (UntrustedHeaderHeightIsLE (hdr_height uh) (hdr_height th))
       else if hdr_time uh \<le> hdr_time th then
         Err (UntrustedHeaderTimestampIsLE (hdr_time uh) (hdr_time th))
       else
         andthen (some_or (ts_checked_add now max_clock_drift)
                    (MaxClockDriftCheckFailed max_clock_drift now)) (\<lambda>drift_timestamp.
         if drift_timestamp \<le> hdr_time uh then
           Err (MaxClockDriftCheckFailed max_clock_drift (hdr_time uh))
         else
           andthen (validators_hash c k untrusted_vals) (\<lambda>vh.
           if hdr_validators_hash uh \<noteq> vh then
             Err (UntrustedValidatorSetMismatch (hdr_validators_hash uh) vh)
           else Ok ())))))"

definition next_height :: "signed_header \<Rightarrow> (tm_error, int) outcome" where
  \<comment> \<open>\<^verbatim>\<open>height.inner().checked_add(1)\<close> on an \<^verbatim>\<open>i64\<close>\<close>
  "next_height trusted =
     (if hdr_height (sh_header trusted) + 1 \<le> i64_max then Ok (hdr_height (sh_header trusted) + 1)
      else Err IntegerOverflow)"

definition verify_non_adjacent ::
  "crypto \<Rightarrow> tm_codec \<Rightarrow> host_fns \<Rightarrow> signed_header \<Rightarrow> validator_set \<Rightarrow> signed_header \<Rightarrow> validator_set \<Rightarrow>
   duration \<Rightarrow> timestamp \<Rightarrow> duration \<Rightarrow> fraction \<Rightarrow> (tm_error, unit) outcome" where
  "verify_non_adjacent c k host trusted trusted_vals untrusted untrusted_vals trusting_period now
     max_clock_drift trust_level =
     andthen (next_height trusted) (\<lambda>n.
     if hdr_height (sh_header untrusted) = n then Err HeadersMustBeNonAdjacent
     else if header_expired trusted trusting_period now then
       Err (HeaderExpired trusting_period (hdr_time (sh_header trusted)))
     else
       andthen (verify_new_headers_and_vals c k untrusted untrusted_vals trusted now max_clock_drift) (\<lambda>_.
       andthen (verify_commit_light_trusting k host (hdr_chain_id (sh_header trusted)) trusted_vals
                  (sh_commit untrusted) trust_level) (\<lambda>_.
       verify_commit_light k host untrusted_vals (hdr_chain_id (sh_header trusted))
         (com_block_id (sh_commit untrusted)) (hdr_height (sh_header untrusted))
         (sh_commit untrusted))))"

definition verify_adjacent ::
  "crypto \<Rightarrow> tm_codec \<Rightarrow> host_fns \<Rightarrow> signed_header \<Rightarrow> signed_header \<Rightarrow> validator_set \<Rightarrow>
   duration \<Rightarrow> timestamp \<Rightarrow> duration \<Rightarrow> (tm_error, unit) outcome" where
  "verify_adjacent c k host trusted untrusted untrusted_vals trusting_period now max_clock_drift =
     andthen (next_height trusted) (\<lambda>n.
     if hdr_height (sh_header untrusted) \<noteq> n then Err HeadersMustBeAdjacent
     else if header_expired trusted trusting_period now then
       Err (HeaderExpired trusting_period (hdr_time (sh_header trusted)))
     else
       andthen (verify_new_headers_and_vals c k untrusted untrusted_vals trusted now max_clock_drift) (\<lambda>_.
       if hdr_validators_hash (sh_header untrusted) \<noteq> hdr_next_validators_hash (sh_header trusted)
       then Err (NextValidatorsHashMismatch (hdr_next_validators_hash (sh_header untrusted))
                   (hdr_next_validators_hash (sh_header trusted)))
       else
         verify_commit_light k host untrusted_vals (hdr_chain_id (sh_header trusted))
           (com_block_id (sh_commit untrusted)) (hdr_height (sh_header untrusted))
           (sh_commit untrusted)))"

definition tm_verify ::
  "crypto \<Rightarrow> tm_codec \<Rightarrow> host_fns \<Rightarrow> signed_header \<Rightarrow> validator_set \<Rightarrow> signed_header \<Rightarrow> validator_set \<Rightarrow>
   duration \<Rightarrow> timestamp \<Rightarrow> duration \<Rightarrow> fraction \<Rightarrow> (tm_error, unit) outcome" where
  "tm_verify c k host trusted trusted_vals untrusted untrusted_vals trusting_period now
     max_clock_drift trust_level =
     andthen (next_height trusted) (\<lambda>n.
     if hdr_height (sh_header untrusted) \<noteq> n then
       verify_non_adjacent c k host trusted trusted_vals untrusted untrusted_vals trusting_period now
         max_clock_drift trust_level
     else
       verify_adjacent c k host trusted untrusted untrusted_vals trusting_period now max_clock_drift)"

end
