(* ===== verification/Tm_Soundness.thy ===== *)
theory Tm_Soundness imports Tm_Verify begin

text \<open>
  What the Tendermint verifier establishes. \<open>voted\<close> says that a validator of the set has a commit
  signature that verifies, \<open>voted_power\<close> adds the power of those validators, each once. The lemmas
  show that the tally is below that power, that it does not overflow, and that a commit whose
  signatures all verify passes. The locale \<open>signature_host\<close> is what the tally needs of the host's
  batch check.
\<close>

section \<open>The header's root\<close>

definition header_fields :: "tm_codec \<Rightarrow> tm_header \<Rightarrow> bytes list" where
  \<comment> \<open>what is hashed, in order\<close>
  "header_fields k h =
     (let m = header_into_proto h in
      [enc_consensus k (consensus_version_into_proto (hdr_version h)),
       enc_string_value k (phd_chain_id m), enc_int64_value k (phd_height m),
       enc_timestamp k (ts_into_proto (hdr_time h)),
       enc_block_id k (block_id_into_proto (hdr_last_block_id h))] @
      map (enc_bytes_value k)
        [phd_last_commit_hash m, phd_data_hash m, phd_validators_hash m, phd_next_validators_hash m,
         phd_consensus_hash m, phd_app_hash m, phd_last_results_hash m, phd_evidence_hash m,
         phd_proposer_address m])"

lemma merkle_tree_single [simp]: "merkle_tree c [x] = x"
  by (simp add: merkle_tree.simps)

lemma merkle_tree_pairs: "hs \<noteq> [] \<Longrightarrow> merkle_tree c hs = merkle_tree c (pair_up c hs)"
  by (simp add: merkle_tree_pair_up)

lemma header_root: "header_merkle_root c k h = Some (rfc6962_root c (header_fields k h))"
proof -
  have fourteen: "merkle_tree c [a, b, d, e, f, g, i, j, l, m, n, p, q, r] =
      (let x = tm_inner_hash c in
       x (x (x (x a b) (x d e)) (x (x f g) (x i j))) (x (x (x l m) (x n p)) (x q r)))"
    for a b d e f g i j l m n p q r
    by (simp add: merkle_tree_pairs [of "[_, _, _, _, _, _, _, _, _, _, _, _, _, _]"]
        merkle_tree_pairs [of "[_, _, _, _, _, _, _]"] merkle_tree_pairs [of "[_, _, _, _]"]
        merkle_tree_pairs [of "[_, _]"] Let_def)
  show ?thesis
    by (simp add: header_merkle_root_def header_leaves_def header_fields_def rfc6962_root_def
        header_into_proto_def set_inner_def fourteen Let_def)
qed

lemma validators_hash_root: "validators_hash c k vs = Ok (rfc6962_root c (raw_validators k vs))"
  by (simp add: validators_hash_def calculate_merkle_root_rfc6962)

section \<open>What a counted signature is\<close>

definition counted ::
  "tm_codec \<Rightarrow> string \<Rightarrow> validator_set \<Rightarrow> tm_commit \<Rightarrow> bool \<Rightarrow> nat \<times> nat \<Rightarrow>
   public_key \<times> bytes \<times> bytes \<Rightarrow> bool" where
  \<comment> \<open>validator \<open>j\<close> is behind signature \<open>i\<close> of the commit, over the message a vote has\<close>
  "counted k chain_id vals commit by_index p t \<longleftrightarrow>
     (case (p, t) of ((j, i), (pk, msg, signature)) \<Rightarrow>
        i < length (com_signatures commit) \<and> j < length (vs_validators vals) \<and>
        (case com_signatures commit ! i of
           SigCommit a ts sg \<Rightarrow>
             sg = signature \<and>
             (if by_index then j = i else val_address (vs_validators vals ! j) = a) \<and>
             canonical_vote_bytes k commit (com_signatures commit ! i) ts chain_id = Ok msg
         | _ \<Rightarrow> False) \<and>
        pk = val_pub_key (vs_validators vals ! j))"

definition power_at :: "validator_set \<Rightarrow> nat \<Rightarrow> int" where
  "power_at vals j = val_voting_power (vs_validators vals ! j)"

definition voted ::
  "tm_codec \<Rightarrow> host_fns \<Rightarrow> string \<Rightarrow> validator_set \<Rightarrow> tm_commit \<Rightarrow> bool \<Rightarrow> nat \<Rightarrow> bool" where
  "voted k host chain_id vals commit by_index j \<longleftrightarrow>
     (\<exists>i pk msg signature. counted k chain_id vals commit by_index (j, i) (pk, msg, signature) \<and>
        verify_signature host pk msg signature)"

definition voted_power ::
  "tm_codec \<Rightarrow> host_fns \<Rightarrow> string \<Rightarrow> validator_set \<Rightarrow> tm_commit \<Rightarrow> bool \<Rightarrow> int" where
  "voted_power k host chain_id vals commit by_index =
     (\<Sum>j | j < length (vs_validators vals) \<and> voted k host chain_id vals commit by_index j.
        power_at vals j)"

lemma counted_less: "counted k ch vals commit by_index (j, i) t \<Longrightarrow> j < length (vs_validators vals)"
  by (auto simp: counted_def split: prod.splits)

section \<open>The loop\<close>

lemma get_validator_by_address_Some:
  assumes "get_validator_by_address vals a = Some (j, v)"
  shows "j < length (vs_validators vals) \<and> vs_validators vals ! j = v \<and> val_address v = a"
  using assms unfolding get_validator_by_address_def find_Some_iff
  by (auto simp: nth_enumerate_eq)

text \<open>A step of a successful run skips the signature or counts it.\<close>

lemma loop_step:
  assumes "verify_commit_loop k ch vals commit needed by_index handle ((i, sg) # xs) tallied seen s = Ok s'"
  obtains (skip) "verify_commit_loop k ch vals commit needed by_index handle xs tallied seen s = Ok s'"
  | (count) a ts sb j seen' msg s1 where
      "sg = SigCommit a ts sb" "j < length (vs_validators vals)"
      "if by_index then j = i \<and> seen' = seen
       else val_address (vs_validators vals ! j) = a \<and> seen j = None \<and> seen' = seen(j \<mapsto> i)"
      "canonical_vote_bytes k commit sg ts ch = Ok msg"
      "handle s (val_pub_key (vs_validators vals ! j)) msg sb = Ok s1"
      "if needed < tallied + power_at vals j then s' = s1
       else verify_commit_loop k ch vals commit needed by_index handle xs (tallied + power_at vals j)
              seen' s1 = Ok s'"
proof (cases sg)
  case (SigCommit a ts sb)
  show thesis
  proof (cases by_index)
    case True
    with SigCommit assms show thesis
      by (auto simp: outcome_ok u64_add_def slice_get_def power_at_def split: if_splits
          intro: count [of a ts sb i seen])
  next
    case False
    show thesis
    proof (cases "get_validator_by_address vals a")
      case None
      with False SigCommit assms show thesis by (intro skip) simp
    next
      case (Some jv)
      obtain j v where jv: "jv = (j, v)" by (cases jv)
      from get_validator_by_address_Some [OF Some [unfolded jv]] False SigCommit Some jv assms
      show thesis
        by (auto simp: outcome_ok u64_add_def power_at_def split: if_splits
            intro: count [of a ts sb j "seen(j \<mapsto> i)"])
    qed
  qed
qed (use assms in \<open>auto intro: skip\<close>)

text \<open>A successful run has fed the handler the signatures of distinct validators, and their power
  exceeds what is needed.\<close>

lemma loop_counts:
  assumes "verify_commit_loop k ch vals commit needed by_index handle xs tallied seen s = Ok s'"
    and "\<And>i sg. (i, sg) \<in> set xs \<Longrightarrow> i < length (com_signatures commit) \<and> com_signatures commit ! i = sg"
    and "distinct (map fst xs)"
  shows "\<exists>ps ts. list_all2 (counted k ch vals commit by_index) ps ts \<and> distinct (map fst ps) \<and>
     (\<forall>p \<in> set ps. if by_index then fst p \<in> fst ` set xs else fst p \<notin> dom seen) \<and>
     try_fold (\<lambda>s (pk, msg, sg). handle s pk msg sg) s ts = Ok s' \<and>
     needed < tallied + sum_list (map (power_at vals) (map fst ps))"
  using assms
proof (induction xs arbitrary: tallied seen s)
  case (Cons x xs)
  obtain i sg where x: "x = (i, sg)" by (cases x)
  have i: "i < length (com_signatures commit)" "com_signatures commit ! i = sg"
    using Cons.prems(2) [of i sg] x by auto
  let ?loop = "verify_commit_loop k ch vals commit needed by_index handle xs"
  have skipped: ?case if "?loop tallied seen s = Ok s'"
  proof -
    from Cons.IH [OF that] Cons.prems(2,3) obtain ps ts where
      "list_all2 (counted k ch vals commit by_index) ps ts" "distinct (map fst ps)"
      "\<forall>p \<in> set ps. if by_index then fst p \<in> fst ` set xs else fst p \<notin> dom seen"
      "try_fold (\<lambda>s (pk, msg, sg). handle s pk msg sg) s ts = Ok s'"
      "needed < tallied + sum_list (map (power_at vals) (map fst ps))"
      by auto
    then show ?thesis by (intro exI [of _ ps] exI [of _ ts]) (auto split: if_splits)
  qed
  from Cons.prems(1) [unfolded x] show ?case
  proof (cases rule: loop_step)
    case skip
    then show ?thesis by (rule skipped)
  next
    case (count a ts sb j seen' msg s1)
    let ?t = "(val_pub_key (vs_validators vals ! j), msg, sb)"
    have c: "counted k ch vals commit by_index (j, i) ?t"
      using count i by (auto simp: counted_def)
    show ?thesis
    proof (cases "needed < tallied + power_at vals j")
      case True
      with count c x show ?thesis
        by (intro exI [of _ "[(j, i)]"] exI [of _ "[?t]"]) auto
    next
      case False
      with count have "?loop (tallied + power_at vals j) seen' s1 = Ok s'" by simp
      from Cons.IH [OF this] Cons.prems(2,3) obtain ps us where
        ps: "list_all2 (counted k ch vals commit by_index) ps us" "distinct (map fst ps)"
        "\<forall>p \<in> set ps. if by_index then fst p \<in> fst ` set xs else fst p \<notin> dom seen'"
        "try_fold (\<lambda>s (pk, msg, sg). handle s pk msg sg) s1 us = Ok s'"
        "needed < tallied + power_at vals j + sum_list (map (power_at vals) (map fst ps))"
        by auto
      have "j \<notin> fst ` set ps"
        using ps(3) count(3) Cons.prems(3) x by (force split: if_splits)
      then show ?thesis
        using ps count c x
        by (intro exI [of _ "(j, i) # ps"] exI [of _ "?t # us"]) (auto split: if_splits)
    qed
  qed
qed simp

lemma commit_entries:
  "(i, sg) \<in> set (List.enumerate 0 (com_signatures commit)) \<Longrightarrow>
     i < length (com_signatures commit) \<and> com_signatures commit ! i = sg"
  "distinct (map fst (List.enumerate 0 (com_signatures commit)))"
  by (auto simp: in_set_enumerate_eq)

lemma verify_commit_counts:
  assumes "verify_commit k ch vals commit needed by_index handle s = Ok s'"
  obtains ps ts where "list_all2 (counted k ch vals commit by_index) ps ts" "distinct (map fst ps)"
    "try_fold (\<lambda>s (pk, msg, sg). handle s pk msg sg) s ts = Ok s'"
    "needed < sum_list (map (power_at vals) (map fst ps))"
  using loop_counts [OF assms [unfolded verify_commit_def] commit_entries] by auto

section \<open>The signature checks\<close>

lemma check_one_fold:
  "try_fold (\<lambda>s (pk, msg, sg). check_one host s pk msg sg) u ts = Ok u' \<Longrightarrow>
   (pk, msg, sg) \<in> set ts \<Longrightarrow> verify_signature host pk msg sg"
  by (induction ts arbitrary: u) (auto simp: check_one_def outcome_ok)

lemma collect_fold:
  "try_fold (\<lambda>s (pk, msg, sg). collect s pk msg sg) (a, b, d) ts =
     Ok (a @ map fst ts, b @ map (fst \<circ> snd) ts, d @ map (snd \<circ> snd) ts)"
  by (induction ts arbitrary: a b d) (auto simp: collect_def)

text \<open>What a batch check promises, for lists of one length: it refuses a batch with a signature that
  does not verify alone, and accepts one whose signatures all do.\<close>

locale signature_host =
  fixes check :: "public_key \<Rightarrow> bytes \<Rightarrow> bytes \<Rightarrow> bool"
    and batch :: "public_key list \<Rightarrow> bytes list \<Rightarrow> bytes list \<Rightarrow> bool"
  assumes batch_checks:
    "batch (map fst ts) (map (fst \<circ> snd) ts) (map (snd \<circ> snd) ts) \<longleftrightarrow>
       (\<forall>(pk, msg, sg) \<in> set ts. check pk msg sg)"

abbreviation lawful_host :: "host_fns \<Rightarrow> bool" where
  "lawful_host host \<equiv> signature_host (verify_signature host) (verify_batch_signature host)"

lemma sum_list_power_le:
  assumes "wf_validator_set vals" "distinct js" "set js \<subseteq> J" "J \<subseteq> {..<length (vs_validators vals)}"
  shows "sum_list (map (power_at vals) js) \<le> sum (power_at vals) J"
proof -
  have "sum_list (map (power_at vals) js) = sum (power_at vals) (set js)"
    using assms(2) by (simp add: sum_list_distinct_conv_sum_set)
  also have "\<dots> \<le> sum (power_at vals) J"
    using assms by (intro sum_mono2 finite_subset [OF assms(4)])
      (auto simp: wf_validator_set_def wf_validator_def list_all_length power_at_def)
  finally show ?thesis .
qed

text \<open>Signatures that pass, singly or as a batch, carry more power than needed.\<close>

lemma signatures_power:
  assumes host: "lawful_host host" and wf: "wf_validator_set vals"
    and ok: "verify_signatures k host ch vals commit needed by_index = Ok ()"
  shows "needed < voted_power k host ch vals commit by_index"
proof -
  obtain ps ts where ps: "list_all2 (counted k ch vals commit by_index) ps ts" "distinct (map fst ps)"
    and power: "needed < sum_list (map (power_at vals) (map fst ps))"
    and all: "\<forall>(pk, msg, sg) \<in> set ts. verify_signature host pk msg sg"
  proof (cases "should_batch_verify (length (com_signatures commit))")
    case True
    with ok obtain s where s: "verify_commit k ch vals commit needed by_index collect ([], [], []) = Ok s"
      and b: "case s of (pks, ms, ss) \<Rightarrow> verify_batch_signature host pks ms ss"
      by (auto simp: verify_signatures_def verify_commit_batch_def outcome_ok split: if_splits)
    from s obtain ps ts where
      ps: "list_all2 (counted k ch vals commit by_index) ps ts" "distinct (map fst ps)"
      "needed < sum_list (map (power_at vals) (map fst ps))"
      and f: "try_fold (\<lambda>s (pk, msg, sg). collect s pk msg sg) ([], [], []) ts = Ok s"
      by (elim verify_commit_counts)
    from f b show thesis
      using signature_host.batch_checks [OF host, of ts] ps by (intro that) (auto simp: collect_fold)
  next
    case False
    with ok have "verify_commit k ch vals commit needed by_index (check_one host) () = Ok ()"
      by (simp add: verify_signatures_def verify_commit_single_def)
    then show thesis
      by (elim verify_commit_counts) (rule that, auto intro: check_one_fold)
  qed
  have "set (map fst ps) \<subseteq>
      {j. j < length (vs_validators vals) \<and> voted k host ch vals commit by_index j}"
  proof
    fix j assume "j \<in> set (map fst ps)"
    then obtain n where n: "n < length ps" "j = fst (ps ! n)" by (auto simp: in_set_conv_nth)
    obtain i pk msg sg where e: "ps ! n = (j, i)" "ts ! n = (pk, msg, sg)"
      using n by (cases "ps ! n"; cases "ts ! n") auto
    with ps(1) n have c: "counted k ch vals commit by_index (j, i) (pk, msg, sg)"
      and t: "(pk, msg, sg) \<in> set ts"
      by (auto simp: list_all2_conv_all_nth in_set_conv_nth)
    from t all have "verify_signature host pk msg sg" by blast
    with c show "j \<in> {j. j < length (vs_validators vals) \<and> voted k host ch vals commit by_index j}"
      unfolding voted_def using counted_less [OF c] by blast
  qed
  then have "sum_list (map (power_at vals) (map fst ps)) \<le>
      voted_power k host ch vals commit by_index"
    unfolding voted_power_def by (intro sum_list_power_le [OF wf ps(2)]) auto
  with power show ?thesis by simp
qed

section \<open>No overflow\<close>

lemma canonical_vote_no_panic [no_panic]: "canonical_vote_bytes k commit sg ts ch \<noteq> Panic"
  by (auto simp: canonical_vote_bytes_def Let_def no_panic)

lemma handlers_no_panic [no_panic]: "check_one host s pk msg sg \<noteq> Panic" "collect s' pk msg sg \<noteq> Panic"
  by (auto simp: check_one_def collect_def split: prod.splits)

lemma power_at_range:
  "wf_validator_set vals \<Longrightarrow> j < length (vs_validators vals) \<Longrightarrow> 0 \<le> power_at vals j \<and> power_at vals j \<le> i64_max"
  by (auto simp: wf_validator_set_def wf_validator_def list_all_length power_at_def)

text \<open>By index, the tally stays at most one power above what is needed; by address, it stays below
  the sum of the powers, because no validator is counted twice.\<close>

lemma loop_no_panic_index:
  assumes wf: "wf_validator_set vals" and n: "needed + i64_max < 2 ^ 64"
    and h: "\<And>s pk msg sg. handle s pk msg sg \<noteq> Panic" and t: "tallied \<le> needed"
  shows "verify_commit_loop k ch vals commit needed True handle xs tallied seen s \<noteq> Panic"
  using t
proof (induction xs arbitrary: tallied seen s)
  case (Cons x xs)
  obtain i sg where x: "x = (i, sg)" by (cases x)
  show ?case
  proof (cases sg)
    case (SigCommit a ts sb)
    with x Cons show ?thesis
      using power_at_range [OF wf, of i] n
      by (auto simp: no_panic h slice_get_def u64_add_def power_at_def)
  qed (use Cons x in \<open>auto simp: no_panic\<close>)
qed simp

lemma loop_no_panic_address:
  assumes wf: "wf_validator_set vals"
    and n: "sum (power_at vals) {..<length (vs_validators vals)} < 2 ^ 64"
    and h: "\<And>s pk msg sg. handle s pk msg sg \<noteq> Panic"
    and t: "tallied = sum (power_at vals) (dom seen)" "dom seen \<subseteq> {..<length (vs_validators vals)}"
  shows "verify_commit_loop k ch vals commit needed False handle xs tallied seen s \<noteq> Panic"
  using t
proof (induction xs arbitrary: tallied seen s)
  case (Cons x xs)
  obtain i sg where x: "x = (i, sg)" by (cases x)
  show ?case
  proof (cases sg)
    case (SigCommit a ts sb)
    show ?thesis
    proof (cases "get_validator_by_address vals a")
      case None
      with x SigCommit Cons show ?thesis by (auto simp: no_panic)
    next
      case (Some jv)
      obtain j v where jv: "jv = (j, v)" by (cases jv)
      note v = get_validator_by_address_Some [OF Some [unfolded jv]]
      show ?thesis
      proof (cases "seen j")
        case None
        obtain seen' where seen': "seen' = seen(j \<mapsto> i)" by simp
        have p: "val_voting_power v = power_at vals j" using v by (simp add: power_at_def)
        have d: "dom seen' \<subseteq> {..<length (vs_validators vals)}"
          using v Cons.prems seen' by auto
        have "finite (dom seen)" using Cons.prems(2) finite_subset by blast
        then have "tallied + power_at vals j = sum (power_at vals) (dom seen')"
          using Cons.prems(1) None seen' by (simp add: domIff)
        moreover have "sum (power_at vals) (dom seen') < 2 ^ 64"
          using sum_mono2 [OF _ d, of "power_at vals"] power_at_range [OF wf] n
          by (auto intro: le_less_trans)
        ultimately have u: "u64_add tallied (power_at vals j) = Ok (sum (power_at vals) (dom seen'))"
          by (simp add: u64_add_def)
        have "verify_commit_loop k ch vals commit needed False handle (x # xs) tallied seen s =
          andthen (canonical_vote_bytes k commit sg ts ch) (\<lambda>msg.
          andthen (handle s (val_pub_key v) msg sb) (\<lambda>s'.
          if needed < sum (power_at vals) (dom seen') then Ok s'
          else verify_commit_loop k ch vals commit needed False handle xs
                 (sum (power_at vals) (dom seen')) seen' s'))"
          using x SigCommit Some jv None by (simp add: p u flip: seen')
        then show ?thesis
          using Cons.IH [OF refl d] by (simp add: no_panic h)
      next
        case (Some l)
        with x SigCommit \<open>get_validator_by_address vals a = Some jv\<close> jv show ?thesis by simp
      qed
    qed
  qed (use Cons x in \<open>auto simp: no_panic\<close>)
qed simp

definition total_is_sum :: "validator_set \<Rightarrow> bool" where
  "total_is_sum vals \<longleftrightarrow>
     vs_total_voting_power vals = sum (power_at vals) {..<length (vs_validators vals)} \<and>
     vs_total_voting_power vals \<le> i64_max"

lemma verify_commit_no_panic:
  assumes "wf_validator_set vals" "\<And>s pk msg sg. handle s pk msg sg \<noteq> Panic"
    and "if by_index then 0 \<le> needed \<and> needed + i64_max < 2 ^ 64 else total_is_sum vals"
  shows "verify_commit k ch vals commit needed by_index handle s \<noteq> Panic"
  using assms loop_no_panic_index [of vals needed handle 0] loop_no_panic_address [of vals handle 0 Map.empty]
  by (auto simp: verify_commit_def total_is_sum_def split: if_splits)

lemma verify_signatures_no_panic:
  assumes "wf_validator_set vals"
    and "if by_index then 0 \<le> needed \<and> needed + i64_max < 2 ^ 64 else total_is_sum vals"
  shows "verify_signatures k host ch vals commit needed by_index \<noteq> Panic"
proof -
  have "verify_commit k ch vals commit needed by_index (check_one host) () \<noteq> Panic"
    and "verify_commit k ch vals commit needed by_index collect ([], [], []) \<noteq> Panic"
    by (rule verify_commit_no_panic [OF assms(1) _ assms(2)], rule no_panic)+
  then show ?thesis
    by (auto simp: verify_signatures_def verify_commit_single_def verify_commit_batch_def no_panic
        split: prod.splits)
qed

lemma light_power_needed_Ok:
  "light_power_needed vals = Ok n \<longleftrightarrow> 0 \<le> vs_total_voting_power vals \<and>
     vs_total_voting_power vals * 2 < 2 ^ 64 \<and> n = vs_total_voting_power vals * 2 div 3"
  by (auto simp: light_power_needed_def)

lemma verify_commit_light_no_panic:
  assumes "wf_validator_set vals" "vs_total_voting_power vals \<le> i64_max"
  shows "verify_commit_light k host vals ch bid h commit \<noteq> Panic"
proof -
  have "verify_signatures k host ch vals commit (vs_total_voting_power vals * 2 div 3) True \<noteq> Panic"
    if "0 \<le> vs_total_voting_power vals"
    using that assms(2) by (intro verify_signatures_no_panic [OF assms(1)]) auto
  then show ?thesis
    by (auto simp: verify_commit_light_def no_panic verify_basic_vals_and_commit_def
        light_power_needed_def)
qed

lemma verify_commit_light_trusting_no_panic:
  assumes "wf_validator_set vals" "total_is_sum vals"
  shows "verify_commit_light_trusting k host ch vals commit trust_level \<noteq> Panic"
  using verify_signatures_no_panic [OF assms(1), of False] assms(2)
  by (auto simp: verify_commit_light_trusting_def no_panic trusting_power_needed_def Let_def)

lemma verify_new_headers_and_vals_no_panic [no_panic]:
  "verify_new_headers_and_vals c k untrusted vals trusted now drift \<noteq> Panic"
  by (auto simp: verify_new_headers_and_vals_def Let_def no_panic validators_hash_root)

lemma next_height_no_panic [no_panic]: "next_height trusted \<noteq> Panic"
  by (simp add: next_height_def)

lemma tm_verify_no_panic:
  assumes "wf_validator_set trusted_vals" "total_is_sum trusted_vals"
    and "wf_validator_set untrusted_vals" "vs_total_voting_power untrusted_vals \<le> i64_max"
  shows "tm_verify c k host trusted trusted_vals untrusted untrusted_vals period now drift level \<noteq> Panic"
  using verify_commit_light_no_panic [OF assms(3,4)] verify_commit_light_trusting_no_panic [OF assms(1,2)]
  by (auto simp: tm_verify_def verify_non_adjacent_def verify_adjacent_def no_panic)

section \<open>Completeness\<close>

text \<open>Where every commit signature verifies, the tally reaches the power that is there.\<close>

fun committed :: "commit_sig \<Rightarrow> bool" where
  "committed (SigCommit _ _ _) = True"
| "committed _ = False"

lemma loop_complete:
  assumes wf: "wf_validator_set vals" and n: "needed + i64_max < 2 ^ 64" and t: "tallied \<le> needed"
    and xs: "\<And>i sg. (i, sg) \<in> set xs \<Longrightarrow> i < length (vs_validators vals)"
    and ok: "\<And>i a ts sb. (i, SigCommit a ts sb) \<in> set xs \<Longrightarrow>
        \<exists>msg. canonical_vote_bytes k commit (SigCommit a ts sb) ts ch = Ok msg \<and>
          (\<forall>s. \<exists>s'. handle s (val_pub_key (vs_validators vals ! i)) msg sb = Ok s')"
    and enough: "needed < tallied +
        sum_list (map (\<lambda>(i, sg). if committed sg then power_at vals i else 0) xs)"
  shows "\<exists>s'. verify_commit_loop k ch vals commit needed True handle xs tallied seen s = Ok s'"
  using t xs ok enough
proof (induction xs arbitrary: tallied s)
  case (Cons x xs)
  obtain i sg where x: "x = (i, sg)" by (cases x)
  have IH: "\<exists>s'. verify_commit_loop k ch vals commit needed True handle xs t seen r = Ok s'"
    if "t \<le> needed"
      and "needed < t + sum_list (map (\<lambda>(i, sg). if committed sg then power_at vals i else 0) xs)"
    for t r
    using that Cons.prems(2,3) by (intro Cons.IH) auto
  show ?case
  proof (cases sg)
    case (SigCommit a ts sb)
    have i: "i < length (vs_validators vals)" using Cons.prems(2) x by auto
    obtain msg s1 where m: "canonical_vote_bytes k commit (SigCommit a ts sb) ts ch = Ok msg"
      and h: "handle s (val_pub_key (vs_validators vals ! i)) msg sb = Ok s1"
      using Cons.prems(3) [of i a ts sb] x SigCommit by fastforce
    have "verify_commit_loop k ch vals commit needed True handle (x # xs) tallied seen s =
        (if needed < tallied + power_at vals i then Ok s1
         else verify_commit_loop k ch vals commit needed True handle xs (tallied + power_at vals i) seen s1)"
      using x SigCommit i m h power_at_range [OF wf i] n Cons.prems(1)
      by (simp add: slice_get_def u64_add_def power_at_def)
    with IH [of "tallied + power_at vals i" s1] Cons.prems(4) x SigCommit show ?thesis by auto
  qed (use IH Cons.prems(1,4) x in auto)
qed simp

lemma counted_by_index:
  "counted k ch vals commit True (j, i) (pk, msg, sg) \<longleftrightarrow>
     j = i \<and> i < length (com_signatures commit) \<and> i < length (vs_validators vals) \<and>
     (\<exists>a ts. com_signatures commit ! i = SigCommit a ts sg \<and>
        canonical_vote_bytes k commit (SigCommit a ts sg) ts ch = Ok msg) \<and>
     pk = val_pub_key (vs_validators vals ! i)"
  by (cases "com_signatures commit ! i") (auto simp: counted_def)

lemma voted_by_index:
  "counted k ch vals commit True (j, i) (pk, msg, sg) \<Longrightarrow> voted k host ch vals commit True i \<Longrightarrow>
   verify_signature host pk msg sg"
  by (auto simp: voted_def counted_by_index)

lemma voted_committed: "voted k host ch vals commit True j \<Longrightarrow> committed (com_signatures commit ! j)"
  by (auto simp: voted_def counted_by_index)

lemma voted_power_committed:
  assumes "length (vs_validators vals) = length (com_signatures commit)"
    and "\<And>i. i < length (com_signatures commit) \<Longrightarrow> committed (com_signatures commit ! i) \<Longrightarrow>
      voted k host ch vals commit True i"
  shows "voted_power k host ch vals commit True =
    sum_list (map (\<lambda>(i, sg). if committed sg then power_at vals i else 0)
      (List.enumerate 0 (com_signatures commit)))"
proof -
  let ?n = "length (com_signatures commit)"
  have "sum_list (map (\<lambda>(i, sg). if committed sg then power_at vals i else 0)
      (List.enumerate 0 (com_signatures commit))) =
    (\<Sum>i < ?n. if committed (com_signatures commit ! i) then power_at vals i else 0)"
    by (simp add: sum_list_sum_nth nth_enumerate_eq atLeast0LessThan)
  also have "\<dots> = sum (power_at vals) {i. i < ?n \<and> committed (com_signatures commit ! i)}"
    by (simp add: sum.If_cases Int_def lessThan_def)
  also have "{i. i < ?n \<and> committed (com_signatures commit ! i)} =
      {j. j < length (vs_validators vals) \<and> voted k host ch vals commit True j}"
    using assms voted_committed by auto
  finally show ?thesis by (simp add: voted_power_def)
qed

lemma verify_signatures_complete:
  assumes host: "lawful_host host" and wf: "wf_validator_set vals"
    and len: "length (vs_validators vals) = length (com_signatures commit)"
    and all: "\<And>i. i < length (com_signatures commit) \<Longrightarrow> committed (com_signatures commit ! i) \<Longrightarrow>
      voted k host ch vals commit True i"
    and n: "0 \<le> needed" "needed + i64_max < 2 ^ 64"
    and enough: "needed < voted_power k host ch vals commit True"
  shows "verify_signatures k host ch vals commit needed True = Ok ()"
proof -
  let ?xs = "List.enumerate 0 (com_signatures commit)"
  have vote: "\<exists>msg. canonical_vote_bytes k commit (SigCommit a ts sb) ts ch = Ok msg \<and>
      verify_signature host (val_pub_key (vs_validators vals ! i)) msg sb"
    if "(i, SigCommit a ts sb) \<in> set ?xs" for i a ts sb
    using all [of i] that by (auto simp: in_set_enumerate_eq voted_def counted_by_index)
  have complete: "\<exists>s'. verify_commit k ch vals commit needed True handle s = Ok s'"
    if h: "\<And>s pk msg sg. verify_signature host pk msg sg \<Longrightarrow> \<exists>s'. handle s pk msg sg = Ok s'" for handle s
    unfolding verify_commit_def
  proof (rule loop_complete [OF wf n(2) n(1)])
    show "\<exists>msg. canonical_vote_bytes k commit (SigCommit a ts sb) ts ch = Ok msg \<and>
        (\<forall>s. \<exists>s'. handle s (val_pub_key (vs_validators vals ! i)) msg sb = Ok s')"
      if "(i, SigCommit a ts sb) \<in> set ?xs" for i a ts sb
      using vote [OF that] h by blast
  qed (use len enough voted_power_committed [OF len all] in \<open>auto simp: in_set_enumerate_eq\<close>)
  show ?thesis
  proof (cases "should_batch_verify (length (com_signatures commit))")
    case True
    have "\<exists>s. verify_commit k ch vals commit needed True collect ([], [], []) = Ok s"
      by (rule complete) (simp add: collect_def split: prod.splits)
    then obtain s where s: "verify_commit k ch vals commit needed True collect ([], [], []) = Ok s" ..
    then obtain ps ts where ps: "list_all2 (counted k ch vals commit True) ps ts"
      and f: "try_fold (\<lambda>s (pk, msg, sg). collect s pk msg sg) ([], [], []) ts = Ok s"
      by (elim verify_commit_counts)
    have "verify_signature host pk msg sg" if "(pk, msg, sg) \<in> set ts" for pk msg sg
    proof -
      from that ps obtain j i where c: "counted k ch vals commit True (j, i) (pk, msg, sg)"
        by (auto simp: in_set_conv_nth list_all2_conv_all_nth) (metis prod.collapse)
      then have "voted k host ch vals commit True i"
        by (intro all) (auto simp: counted_by_index)
      with c show ?thesis by (rule voted_by_index)
    qed
    then have "verify_batch_signature host (map fst ts) (map (fst \<circ> snd) ts) (map (snd \<circ> snd) ts)"
      using signature_host.batch_checks [OF host, of ts] by auto
    with s f True show ?thesis
      by (auto simp: verify_signatures_def verify_commit_batch_def collect_fold)
  next
    case False
    with complete [of "check_one host"] show ?thesis
      by (auto simp: verify_signatures_def verify_commit_single_def check_one_def)
  qed
qed

section \<open>Accepted headers\<close>

lemma verify_new_headers_and_vals_Ok:
  "verify_new_headers_and_vals c k untrusted vals trusted now drift = Ok () \<longleftrightarrow>
     (let uh = sh_header untrusted; th = sh_header trusted; com = sh_commit untrusted in
      com_height com = hdr_height uh \<and>
      bid_hash (com_block_id com) = Some (rfc6962_root c (header_fields k uh)) \<and>
      hdr_chain_id uh = hdr_chain_id th \<and> hdr_height th < hdr_height uh \<and>
      hdr_time th < hdr_time uh \<and>
      (\<exists>d. ts_checked_add now drift = Some d \<and> hdr_time uh < d) \<and>
      hdr_validators_hash uh = rfc6962_root c (raw_validators k vals))"
  by (auto simp: verify_new_headers_and_vals_def Let_def outcome_ok header_root validators_hash_root)

lemma verify_commit_light_power:
  assumes "lawful_host host" "wf_validator_set vals"
    and "verify_commit_light k host vals ch bid h commit = Ok ()"
  shows "2 * vs_total_voting_power vals < 3 * voted_power k host ch vals commit True"
  using assms signatures_power [OF assms(1,2)]
  by (fastforce simp: verify_commit_light_def outcome_ok light_power_needed_Ok)

lemma verify_commit_light_trusting_power:
  assumes "lawful_host host" "wf_validator_set vals" "fr_denominator level \<noteq> 0"
    and "verify_commit_light_trusting k host ch vals commit level = Ok ()"
  shows "\<bar>vs_total_voting_power vals\<bar> * uint (fr_numerator level) <
    uint (fr_denominator level) * voted_power k host ch vals commit False"
proof -
  let ?d = "uint (fr_denominator level)" and ?n = "\<bar>vs_total_voting_power vals\<bar> * uint (fr_numerator level)"
  have d: "0 < ?d" using assms(3) uint_0_iff [of "fr_denominator level"] unsigned_greater_eq [of "fr_denominator level"]
    by (simp add: less_le)
  have "?n div ?d < voted_power k host ch vals commit False"
    using assms signatures_power [OF assms(1,2)]
    by (auto simp: verify_commit_light_trusting_def trusting_power_needed_def Let_def outcome_ok
        split: if_splits)
  then have "(?n div ?d + 1) * ?d \<le> voted_power k host ch vals commit False * ?d"
    using d by (intro mult_right_mono) auto
  moreover have "?n < (?n div ?d + 1) * ?d"
  proof -
    have "?n mod ?d < ?d" "?n div ?d * ?d + ?n mod ?d = ?n" using d by simp_all
    then show ?thesis by (simp only: distrib_right mult_1)
  qed
  ultimately show ?thesis by (simp add: mult.commute)
qed

lemma tm_verify_Ok:
  "tm_verify c k host trusted trusted_vals untrusted vals period now drift level = Ok () \<longleftrightarrow>
     hdr_height (sh_header trusted) < i64_max \<and>
     verify_new_headers_and_vals c k untrusted vals trusted now drift = Ok () \<and>
     verify_commit_light k host vals (hdr_chain_id (sh_header trusted))
       (com_block_id (sh_commit untrusted)) (hdr_height (sh_header untrusted))
       (sh_commit untrusted) = Ok () \<and>
     (if hdr_height (sh_header untrusted) = hdr_height (sh_header trusted) + 1
      then hdr_validators_hash (sh_header untrusted) = hdr_next_validators_hash (sh_header trusted)
      else verify_commit_light_trusting k host (hdr_chain_id (sh_header trusted)) trusted_vals
             (sh_commit untrusted) level = Ok ())"
  by (auto simp: tm_verify_def verify_adjacent_def verify_non_adjacent_def next_height_def
      header_expired_def outcome_ok)

end
