(* ===== verification/Wasm_Storage.thy ===== *)
theory Wasm_Storage imports Vm_Types Outcomes "HOL-Library.AList" "HOL-Library.List_Lexorder" begin

text \<open>
  The store of a light client contract: \<^verbatim>\<open>cosmwasm_std::Storage\<close> as a finite map with ordered ranges,
  the keys of \<^verbatim>\<open>lib/ics-008-wasm-client/src/storage_utils.rs\<close>, and the iteration keys of
  \<^verbatim>\<open>storage.rs\<close> of the Tendermint and CometBLS clients, whose order is the order of heights.
\<close>

section \<open>The store\<close>

type_synonym kv_store = "(bytes \<times> bytes) list"

definition kv_get :: "kv_store \<Rightarrow> bytes \<Rightarrow> bytes option" where
  "kv_get s k = map_of s k"

definition kv_set :: "kv_store \<Rightarrow> bytes \<Rightarrow> bytes \<Rightarrow> kv_store" where
  "kv_set s k v = AList.update k v s"

definition kv_first_from :: "kv_store \<Rightarrow> bytes \<Rightarrow> (bytes \<times> bytes) option" where
  \<comment> \<open>\<^verbatim>\<open>range(Some(lo), None, Ascending).next()\<close>\<close>
  "kv_first_from s lo =
     (let ks = filter (\<lambda>k. lo \<le> k) (map fst s); k = Min (set ks) in
      if ks = [] then None else map_option (Pair k) (kv_get s k))"

definition kv_last_before :: "kv_store \<Rightarrow> bytes \<Rightarrow> (bytes \<times> bytes) option" where
  \<comment> \<open>\<^verbatim>\<open>range(None, Some(hi), Descending).next()\<close>, the end of the range is exclusive\<close>
  "kv_last_before s hi =
     (let ks = filter (\<lambda>k. k < hi) (map fst s); k = Max (set ks) in
      if ks = [] then None else map_option (Pair k) (kv_get s k))"

text \<open>The contract of the store, on which the clients rest.\<close>

locale ordered_store =
  fixes lookup :: "'s \<Rightarrow> bytes \<Rightarrow> bytes option"
    and store :: "'s \<Rightarrow> bytes \<Rightarrow> bytes \<Rightarrow> 's"
    and first_from last_before :: "'s \<Rightarrow> bytes \<Rightarrow> (bytes \<times> bytes) option"
  assumes lookup_store: "lookup (store s k v) = (lookup s)(k \<mapsto> v)"
    and first_from_Some: "first_from s lo = Some (k, v) \<longleftrightarrow>
      lookup s k = Some v \<and> lo \<le> k \<and> (\<forall>k'. lookup s k' \<noteq> None \<longrightarrow> lo \<le> k' \<longrightarrow> k \<le> k')"
    and first_from_None: "first_from s lo = None \<longleftrightarrow> (\<forall>k. lookup s k \<noteq> None \<longrightarrow> k < lo)"
    and last_before_Some: "last_before s hi = Some (k, v) \<longleftrightarrow>
      lookup s k = Some v \<and> k < hi \<and> (\<forall>k'. lookup s k' \<noteq> None \<longrightarrow> k' < hi \<longrightarrow> k' \<le> k)"
    and last_before_None: "last_before s hi = None \<longleftrightarrow> (\<forall>k. lookup s k \<noteq> None \<longrightarrow> hi \<le> k)"
begin

lemma lookup_store_same [simp]: "lookup (store s k v) k = Some v"
  by (simp add: lookup_store)

lemma lookup_store_other [simp]: "k \<noteq> k' \<Longrightarrow> lookup (store s k v) k' = lookup s k'"
  by (simp add: lookup_store)

end

lemma kv_get_dom: "kv_get s k \<noteq> None \<longleftrightarrow> k \<in> fst ` set s"
  by (simp add: kv_get_def map_of_eq_None_iff)

lemma extreme_entry:
  fixes A :: "'a::linorder set"
  assumes "finite A"
  shows "(if A = {} then None else map_option (Pair (Min A)) (g (Min A))) = Some (k, v) \<longleftrightarrow>
      k \<in> A \<and> (\<forall>k' \<in> A. k \<le> k') \<and> g k = Some v"
    and "(if A = {} then None else map_option (Pair (Max A)) (g (Max A))) = Some (k, v) \<longleftrightarrow>
      k \<in> A \<and> (\<forall>k' \<in> A. k' \<le> k) \<and> g k = Some v"
proof -
  have e: "map_option (Pair m) (g m) = Some (k, v) \<longleftrightarrow> m = k \<and> g k = Some v" for m by auto
  show "(if A = {} then None else map_option (Pair (Min A)) (g (Min A))) = Some (k, v) \<longleftrightarrow>
      k \<in> A \<and> (\<forall>k' \<in> A. k \<le> k') \<and> g k = Some v"
    by (cases "A = {}") (simp, simp only: e Min_eq_iff [OF assms] if_False simp_thms conj_assoc)
  show "(if A = {} then None else map_option (Pair (Max A)) (g (Max A))) = Some (k, v) \<longleftrightarrow>
      k \<in> A \<and> (\<forall>k' \<in> A. k' \<le> k) \<and> g k = Some v"
    by (cases "A = {}") (simp, simp only: e Max_eq_iff [OF assms] if_False simp_thms conj_assoc)
qed

lemma extreme_entry_None:
  fixes A :: "'a::linorder set"
  assumes "finite A" "\<And>k. k \<in> A \<Longrightarrow> g k \<noteq> None"
  shows "(if A = {} then None else map_option (Pair (Min A)) (g (Min A))) = None \<longleftrightarrow> A = {}"
    and "(if A = {} then None else map_option (Pair (Max A)) (g (Max A))) = None \<longleftrightarrow> A = {}"
  using assms(2) Min_in [OF assms(1)] Max_in [OF assms(1)] by auto

lemma kv_ranges:
  "kv_first_from s lo =
     (let A = {k. kv_get s k \<noteq> None \<and> lo \<le> k} in
      if A = {} then None else map_option (Pair (Min A)) (kv_get s (Min A)))"
  "kv_last_before s hi =
     (let A = {k. kv_get s k \<noteq> None \<and> k < hi} in
      if A = {} then None else map_option (Pair (Max A)) (kv_get s (Max A)))"
proof -
  have sets: "set (filter (\<lambda>k. lo \<le> k) (map fst s)) = {k. kv_get s k \<noteq> None \<and> lo \<le> k}"
    "set (filter (\<lambda>k. k < hi) (map fst s)) = {k. kv_get s k \<noteq> None \<and> k < hi}"
    unfolding kv_get_dom by auto
  show "kv_first_from s lo =
     (let A = {k. kv_get s k \<noteq> None \<and> lo \<le> k} in
      if A = {} then None else map_option (Pair (Min A)) (kv_get s (Min A)))"
    and "kv_last_before s hi =
     (let A = {k. kv_get s k \<noteq> None \<and> k < hi} in
      if A = {} then None else map_option (Pair (Max A)) (kv_get s (Max A)))"
    unfolding kv_first_from_def kv_last_before_def Let_def set_empty [symmetric] sets by (rule refl)+
qed

lemma finite_kv: "finite {k. kv_get s k \<noteq> None \<and> P k}"
  unfolding kv_get_dom by (rule finite_subset [of _ "fst ` set s"]) auto

interpretation kv: ordered_store kv_get kv_set kv_first_from kv_last_before
proof
  fix s :: kv_store and k v lo hi :: bytes
  show "kv_get (kv_set s k v) = (kv_get s)(k \<mapsto> v)"
    by (simp add: kv_get_def kv_set_def fun_eq_iff update_conv)
  show "kv_first_from s lo = Some (k, v) \<longleftrightarrow>
      kv_get s k = Some v \<and> lo \<le> k \<and> (\<forall>k'. kv_get s k' \<noteq> None \<longrightarrow> lo \<le> k' \<longrightarrow> k \<le> k')"
    unfolding kv_ranges Let_def extreme_entry(1) [OF finite_kv, where g = "kv_get s"] by auto
  show "kv_first_from s lo = None \<longleftrightarrow> (\<forall>k. kv_get s k \<noteq> None \<longrightarrow> k < lo)"
    unfolding kv_ranges Let_def by (subst extreme_entry_None [OF finite_kv]) (fastforce simp: not_le)+
  show "kv_last_before s hi = Some (k, v) \<longleftrightarrow>
      kv_get s k = Some v \<and> k < hi \<and> (\<forall>k'. kv_get s k' \<noteq> None \<longrightarrow> k' < hi \<longrightarrow> k' \<le> k)"
    unfolding kv_ranges Let_def extreme_entry(2) [OF finite_kv, where g = "kv_get s"] by auto
  show "kv_last_before s hi = None \<longleftrightarrow> (\<forall>k. kv_get s k \<noteq> None \<longrightarrow> hi \<le> k)"
    unfolding kv_ranges Let_def by (subst extreme_entry_None [OF finite_kv]) (fastforce simp: not_less)+
qed

section \<open>Keys\<close>

abbreviation HOST_CLIENT_STATE_KEY :: string where
  "HOST_CLIENT_STATE_KEY \<equiv> ''clientState''"

abbreviation HOST_CONSENSUS_STATES_KEY :: string where
  "HOST_CONSENSUS_STATES_KEY \<equiv> ''consensusStates''"

abbreviation SUBJECT_CLIENT_STORE_PREFIX :: string where
  "SUBJECT_CLIENT_STORE_PREFIX \<equiv> ''subject/''"

abbreviation SUBSTITUTE_CLIENT_STORE_PREFIX :: string where
  "SUBSTITUTE_CLIENT_STORE_PREFIX \<equiv> ''substitute/''"

abbreviation CONSENSUS_STATE_ITER_KEY_PREFIX :: string where
  "CONSENSUS_STATE_ITER_KEY_PREFIX \<equiv> ''iter_cons''"

definition consensus_db_key :: "height \<Rightarrow> string" where
  "consensus_db_key h =
     HOST_CONSENSUS_STATES_KEY @ ''/'' @ show_u64 (revision_number h) @ ''-'' @
     show_u64 (revision_height h)"

definition consensus_state_iterator_key :: "height \<Rightarrow> bytes" where
  "consensus_state_iterator_key h =
     str_bytes CONSENSUS_STATE_ITER_KEY_PREFIX @ str_bytes ''/'' @
     u64_to_be_bytes (revision_number h) @ u64_to_be_bytes (revision_height h)"

datatype storage_error = InvalidConsensusStateMetadata

definition parse_height_from_key :: "bytes \<Rightarrow> (storage_error, height) outcome" where
  \<comment> \<open>the last sixteen bytes; what is before them is not looked at\<close>
  "parse_height_from_key key =
     (if length key \<noteq> length CONSENSUS_STATE_ITER_KEY_PREFIX + 17
      then Err InvalidConsensusStateMetadata
      else
        andthen (expects (u64_from_be_bytes (drop (length key - 8) key))) (\<lambda>revision_height.
        andthen (expects (u64_from_be_bytes (take 8 (drop (length key - 16) key)))) (\<lambda>revision_number.
        Ok (Height revision_number revision_height))))"

lemma be_value_Cons: "be_value (b # bs) = unat b * 256 ^ length bs + be_value bs"
  using be_value_snoc [of "[]" b]
  by (induction bs rule: rev_induct) (simp_all add: algebra_simps flip: append_Cons)

lemma be_value_less:
  "length xs = length ys \<Longrightarrow> xs < ys \<longleftrightarrow> be_value xs < be_value ys"
proof (induction xs ys rule: list_induct2)
  case (Cons x xs y ys)
  have b: "be_value xs < 256 ^ length ys" "be_value ys < 256 ^ length ys"
    using be_value_bound [of xs] be_value_bound [of ys] Cons.hyps by simp_all
  have "unat x * 256 ^ length ys + be_value xs < unat y * 256 ^ length ys + be_value ys"
    if "unat x < unat y"
  proof -
    from that have "(unat x + 1) * 256 ^ length ys \<le> unat y * 256 ^ length ys" by (intro mult_right_mono) auto
    with b show ?thesis by (simp add: algebra_simps)
  qed
  moreover have "\<not> unat x * 256 ^ length ys + be_value xs < unat y * 256 ^ length ys + be_value ys"
    if "unat y < unat x"
  proof -
    from that have "(unat y + 1) * 256 ^ length ys \<le> unat x * 256 ^ length ys" by (intro mult_right_mono) auto
    with b show ?thesis by (simp add: algebra_simps)
  qed
  ultimately show ?case
    using Cons by (cases "unat x" "unat y" rule: linorder_cases)
      (auto simp: be_value_Cons word_less_nat_alt word_unat_eq_iff)
qed simp

lemma u64_to_be_bytes_less [simp]: "u64_to_be_bytes v < u64_to_be_bytes w \<longleftrightarrow> v < w"
proof -
  have "be_value (u64_to_be_bytes u) = unat u" for u
    using unat_u64_bound [of u] by (simp add: u64_to_be_bytes_def be_value_be_bytes)
  then show ?thesis by (simp add: be_value_less word_less_nat_alt)
qed

lemma append_less_same_length:
  fixes a b c d :: "'a::linorder list"
  shows "length a = length b \<Longrightarrow> a @ c < b @ d \<longleftrightarrow> a < b \<or> a = b \<and> c < d"
  by (induction a b rule: list_induct2) auto

lemma append_less_prefix [simp]:
  fixes a c d :: "'a::linorder list"
  shows "a @ c < a @ d \<longleftrightarrow> c < d"
  by (induction a) auto

text \<open>The order of the keys is the order of the heights, and a key gives its height back.\<close>

lemma iterator_key_less [simp]:
  "consensus_state_iterator_key h < consensus_state_iterator_key h' \<longleftrightarrow> h < h'"
  by (cases h; cases h') (simp add: consensus_state_iterator_key_def append_less_same_length height_less_iff)

lemma iterator_key_inject [simp]:
  "consensus_state_iterator_key h = consensus_state_iterator_key h' \<longleftrightarrow> h = h'"
  by (metis iterator_key_less less_irrefl linorder_neqE)

lemma iterator_key_le [simp]:
  "consensus_state_iterator_key h \<le> consensus_state_iterator_key h' \<longleftrightarrow> h \<le> h'"
  by (metis iterator_key_less not_le)

lemma parse_iterator_key [simp]: "parse_height_from_key (consensus_state_iterator_key h) = Ok h"
  by (simp add: parse_height_from_key_def consensus_state_iterator_key_def str_bytes_def)

end
