(* ===== verification/Wasm_Client.thy ===== *)
theory Wasm_Client imports Wasm_Storage begin

text \<open>
  The glue between a light client and the contract host (\<^verbatim>\<open>lib/ics-008-wasm-client/src/\<close>): how client
  and consensus states are wrapped and stored, the trait \<^verbatim>\<open>IbcClient\<close> as a record of its operations,
  and the dispatch of the host's messages to them. The protobuf bytes of a message are a parameter;
  replies are the values before their JSON encoding.
\<close>

section \<open>Wrapped states\<close>

record 'cs wasm_client_state =
  wcs_data :: 'cs
  wcs_checksum :: bytes
  wcs_latest_height :: height

record proto_wasm_client_state =
  pwcs_data :: bytes
  pwcs_checksum :: bytes
  pwcs_latest_height :: "height option"

record ('cs, 'cons) wasm_codec =
  \<comment> \<open>the bytes of \<^verbatim>\<open>Any<ClientState>\<close> and \<^verbatim>\<open>Any<ConsensusState>\<close> of \<^verbatim>\<open>ibc.lightclients.wasm.v1\<close>;
     a wasm consensus state is its data field\<close>
  any_client_encode :: "proto_wasm_client_state \<Rightarrow> bytes"
  any_client_decode :: "bytes \<Rightarrow> string + proto_wasm_client_state"
  any_consensus_encode :: "bytes \<Rightarrow> bytes"
  any_consensus_decode :: "bytes \<Rightarrow> string + bytes"
  client_encode :: "'cs \<Rightarrow> bytes"
  client_decode :: "bytes \<Rightarrow> string + 'cs"
  consensus_encode :: "'cons \<Rightarrow> bytes"
  consensus_decode :: "bytes \<Rightarrow> string + 'cons"

definition wasm_client_state_into_proto ::
  "('cs, 'cons) wasm_codec \<Rightarrow> 'cs wasm_client_state \<Rightarrow> proto_wasm_client_state" where
  "wasm_client_state_into_proto w v =
     \<lparr>pwcs_data = client_encode w (wcs_data v), pwcs_checksum = wcs_checksum v,
      pwcs_latest_height = Some (wcs_latest_height v)\<rparr>"

datatype wasm_client_state_error =
    WCSAny string
  | WCSMissingField string
  | WCSData string
  | WCSChecksum invalid_length

definition h256_from_vec :: "bytes \<Rightarrow> invalid_length + bytes" where
  \<comment> \<open>\<^verbatim>\<open>H256::try_from\<close> of a vector\<close>
  "h256_from_vec b =
     (if length b = 32 then Inr b else Inl \<lparr>expected_len = Exact 32, found_len = length b\<rparr>)"

definition wasm_client_state_from_proto ::
  "('cs, 'cons) wasm_codec \<Rightarrow> proto_wasm_client_state \<Rightarrow>
   (wasm_client_state_error, 'cs wasm_client_state) outcome" where
  "wasm_client_state_from_proto w v =
     andthen (result_or WCSData (client_decode w (pwcs_data v))) (\<lambda>d.
     andthen (result_or WCSChecksum (h256_from_vec (pwcs_checksum v))) (\<lambda>c.
     andthen (some_or (pwcs_latest_height v) (WCSMissingField ''latest_height'')) (\<lambda>h.
     Ok \<lparr>wcs_data = d, wcs_checksum = c, wcs_latest_height = h\<rparr>)))"

section \<open>Errors\<close>

datatype decode_error =
    DecodeHeader string
  | DecodeMisbehaviour string
  | DecodeClientState string
  | DecodeConsensusState string
  | AnyWasmClientState wasm_client_state_error
  | AnyWasmConsensusState string

datatype 'e client_error =
    DecodeErr decode_error
  | UnexpectedCallDataFromHostModule string
  | NoClientState
  | ClientSpecific 'e
  | BadClientMessage bytes
  | NoConsensusState height

section \<open>Reading and saving\<close>

abbreviation no_prefix :: string where "no_prefix \<equiv> []"

definition read_prefixed_client_state ::
  "('cs, 'cons) wasm_codec \<Rightarrow> kv_store \<Rightarrow> string \<Rightarrow> ('e client_error, 'cs wasm_client_state) outcome"
  where
  "read_prefixed_client_state w s prefix =
     andthen (some_or (kv_get s (str_bytes (prefix @ HOST_CLIENT_STATE_KEY))) NoClientState) (\<lambda>any.
     map_err (\<lambda>e. DecodeErr (AnyWasmClientState e))
       (andthen (result_or WCSAny (any_client_decode w any)) (wasm_client_state_from_proto w)))"

definition read_prefixed_consensus_state ::
  "('cs, 'cons) wasm_codec \<Rightarrow> kv_store \<Rightarrow> height \<Rightarrow> string \<Rightarrow> ('e client_error, 'cons option) outcome"
  where
  "read_prefixed_consensus_state w s h prefix =
     try_option (\<lambda>any.
       andthen (result_or (\<lambda>e. DecodeErr (AnyWasmConsensusState e)) (any_consensus_decode w any))
         (\<lambda>d. result_or (\<lambda>e. DecodeErr (AnyWasmConsensusState e)) (consensus_decode w d)))
       (kv_get s (str_bytes (prefix @ consensus_db_key h)))"

definition save_prefixed_client_state ::
  "('cs, 'cons) wasm_codec \<Rightarrow> kv_store \<Rightarrow> string \<Rightarrow> 'cs wasm_client_state \<Rightarrow> kv_store" where
  \<comment> \<open>\<^verbatim>\<open>save_client_state\<close> without a prefix, \<^verbatim>\<open>save_subject_client_state\<close> with one\<close>
  "save_prefixed_client_state w s prefix v =
     kv_set s (str_bytes (prefix @ HOST_CLIENT_STATE_KEY))
       (any_client_encode w (wasm_client_state_into_proto w v))"

definition update_client_state ::
  "('cs, 'cons) wasm_codec \<Rightarrow> kv_store \<Rightarrow> 'cs wasm_client_state \<Rightarrow> u64 \<Rightarrow> kv_store" where
  "update_client_state w s v latest_height =
     save_prefixed_client_state w s no_prefix
       (v\<lparr>wcs_latest_height := Height (revision_number (wcs_latest_height v)) latest_height\<rparr>)"

definition save_prefixed_consensus_state ::
  "('cs, 'cons) wasm_codec \<Rightarrow> kv_store \<Rightarrow> string \<Rightarrow> 'cons \<Rightarrow> height \<Rightarrow> kv_store" where
  \<comment> \<open>\<^verbatim>\<open>save_consensus_state\<close> and \<^verbatim>\<open>save_subject_consensus_state\<close>\<close>
  "save_prefixed_consensus_state w s prefix v h =
     kv_set s (str_bytes (prefix @ consensus_db_key h))
       (any_consensus_encode w (consensus_encode w v))"

definition save_proto_client_state ::
  "('cs, 'cons) wasm_codec \<Rightarrow> kv_store \<Rightarrow> proto_wasm_client_state \<Rightarrow> kv_store" where
  "save_proto_client_state w s v = kv_set s (str_bytes HOST_CLIENT_STATE_KEY) (any_client_encode w v)"

definition save_proto_consensus_state ::
  "('cs, 'cons) wasm_codec \<Rightarrow> kv_store \<Rightarrow> bytes \<Rightarrow> height \<Rightarrow> kv_store" where
  "save_proto_consensus_state w s data h =
     kv_set s (str_bytes (consensus_db_key h)) (any_consensus_encode w data)"

section \<open>The trait\<close>

abbreviation ZERO_HEIGHT :: height where "ZERO_HEIGHT \<equiv> Height 0 0"

datatype storage_state = Occupied bytes | Empty

datatype wasm_status = StActive | StFrozen | StExpired

record genesis_metadata =
  gm_key :: bytes
  gm_value :: bytes

record ('hdr, 'cs, 'cons, 'e) ibc_client =
  ic_decode_header :: "bytes \<Rightarrow> string + 'hdr"
  ic_decode_misbehaviour :: "bytes \<Rightarrow> string + 'hdr"
  ic_decode_client_state :: "bytes \<Rightarrow> string + 'cs"
  ic_decode_consensus_state :: "bytes \<Rightarrow> string + 'cons"
  ic_verify_membership ::
    "kv_store \<Rightarrow> height \<Rightarrow> u64 \<Rightarrow> u64 \<Rightarrow> bytes \<Rightarrow> merkle_path \<Rightarrow> storage_state \<Rightarrow>
     ('e client_error, unit) outcome"
  ic_verify_header :: "kv_store \<Rightarrow> u64 \<Rightarrow> 'hdr \<Rightarrow> ('e client_error, unit) outcome"
  ic_verify_misbehaviour :: "kv_store \<Rightarrow> u64 \<Rightarrow> 'hdr \<Rightarrow> ('e client_error, unit) outcome"
  ic_update_state :: "kv_store \<Rightarrow> u64 \<Rightarrow> 'hdr \<Rightarrow> ('e client_error, height list \<times> kv_store) outcome"
  ic_update_state_on_misbehaviour ::
    "kv_store \<Rightarrow> u64 \<Rightarrow> bytes \<Rightarrow> ('e client_error, kv_store) outcome"
  ic_check_for_misbehaviour_on_header :: "kv_store \<Rightarrow> 'hdr \<Rightarrow> ('e client_error, bool) outcome"
  ic_check_for_misbehaviour_on_misbehaviour :: "kv_store \<Rightarrow> 'hdr \<Rightarrow> ('e client_error, bool) outcome"
  ic_verify_upgrade_and_update_state ::
    "kv_store \<Rightarrow> 'cs \<Rightarrow> 'cons \<Rightarrow> bytes \<Rightarrow> bytes \<Rightarrow> ('e client_error, kv_store) outcome"
  ic_migrate_client_store :: "kv_store \<Rightarrow> ('e client_error, kv_store) outcome"
  ic_status :: "kv_store \<Rightarrow> u64 \<Rightarrow> ('e client_error, wasm_status) outcome"
  ic_export_metadata :: "kv_store \<Rightarrow> u64 \<Rightarrow> ('e client_error, genesis_metadata list) outcome"
  ic_timestamp_at_height :: "kv_store \<Rightarrow> height \<Rightarrow> ('e client_error, u64) outcome"

section \<open>Dispatch\<close>

record instantiate_msg =
  im_client_state :: bytes
  im_consensus_state :: bytes
  im_checksum :: bytes

datatype sudo_msg =
    SudoVerifyMembership height u64 u64 bytes merkle_path bytes
  | SudoVerifyNonMembership height u64 u64 bytes merkle_path
  | SudoUpdateState bytes
  | SudoUpdateStateOnMisbehaviour bytes
  | SudoVerifyUpgradeAndUpdateState bytes bytes bytes bytes
  | SudoMigrateClientStore

datatype query_msg =
    QueryVerifyClientMessage bytes
  | QueryCheckForMisbehaviour bytes
  | QueryTimestampAtHeight height
  | QueryStatus
  | QueryExportMetadata

datatype reply =
    ReplyUnit
  | ReplyEmpty
  | ReplyUpdateState "height list"
  | ReplyStatus string
  | ReplyExportMetadata "genesis_metadata list"
  | ReplyCheckForMisbehaviour bool
  | ReplyTimestampAtHeight u64

fun status_text :: "wasm_status \<Rightarrow> string" where
  "status_text StActive = ''Active''"
| "status_text StFrozen = ''Frozen''"
| "status_text StExpired = ''Expired''"

fun sudo ::
  "('hdr, 'cs, 'cons, 'e) ibc_client \<Rightarrow> kv_store \<Rightarrow> u64 \<Rightarrow> sudo_msg \<Rightarrow>
   ('e client_error, reply \<times> kv_store) outcome" where
  "sudo c s now (SudoVerifyMembership h dt db proof_bytes path value) =
     andthen (ic_verify_membership c s h dt db proof_bytes path (Occupied value)) (\<lambda>_.
     Ok (ReplyUnit, s))"
| "sudo c s now (SudoVerifyNonMembership h dt db proof_bytes path) =
     andthen (ic_verify_membership c s h dt db proof_bytes path Empty) (\<lambda>_. Ok (ReplyUnit, s))"
| "sudo c s now (SudoUpdateState msg) =
     (case ic_decode_header c msg of
        Inr header \<Rightarrow>
          andthen (ic_update_state c s now header) (\<lambda>(heights, s'). Ok (ReplyUpdateState heights, s'))
      | Inl _ \<Rightarrow>
          Err (UnexpectedCallDataFromHostModule
                 ''`UpdateState` cannot be called with `Misbehaviour`''))"
| "sudo c s now (SudoUpdateStateOnMisbehaviour msg) =
     andthen (ic_update_state_on_misbehaviour c s now msg) (\<lambda>s'. Ok (ReplyEmpty, s'))"
| "sudo c s now (SudoVerifyUpgradeAndUpdateState cs cons proof_client proof_consensus) =
     andthen (result_or (\<lambda>e. DecodeErr (DecodeClientState e)) (ic_decode_client_state c cs)) (\<lambda>cs'.
     andthen (result_or (\<lambda>e. DecodeErr (DecodeConsensusState e)) (ic_decode_consensus_state c cons)) (\<lambda>cons'.
     andthen (ic_verify_upgrade_and_update_state c s cs' cons' proof_client proof_consensus) (\<lambda>s'.
     Ok (ReplyEmpty, s'))))"
| "sudo c s now SudoMigrateClientStore =
     andthen (ic_migrate_client_store c s) (\<lambda>s'. Ok (ReplyEmpty, s'))"

fun query ::
  "('hdr, 'cs, 'cons, 'e) ibc_client \<Rightarrow> kv_store \<Rightarrow> u64 \<Rightarrow> query_msg \<Rightarrow> ('e client_error, reply) outcome"
  where
  "query c s now QueryStatus =
     andthen (ic_status c s now) (\<lambda>st. Ok (ReplyStatus (status_text st)))"
| "query c s now QueryExportMetadata =
     andthen (ic_export_metadata c s now) (\<lambda>m. Ok (ReplyExportMetadata m))"
| "query c s now (QueryVerifyClientMessage msg) =
     (case ic_decode_header c msg of
        Inr header \<Rightarrow> andthen (ic_verify_header c s now header) (\<lambda>_. Ok ReplyUnit)
      | Inl _ \<Rightarrow>
          (case ic_decode_misbehaviour c msg of
             Inr m \<Rightarrow> andthen (ic_verify_misbehaviour c s now m) (\<lambda>_. Ok ReplyUnit)
           | Inl _ \<Rightarrow> Err (BadClientMessage msg)))"
| "query c s now (QueryCheckForMisbehaviour msg) =
     (case ic_decode_header c msg of
        Inr header \<Rightarrow>
          andthen (ic_check_for_misbehaviour_on_header c s header) (\<lambda>b.
          Ok (ReplyCheckForMisbehaviour b))
      | Inl _ \<Rightarrow>
          (case ic_decode_misbehaviour c msg of
             Inr m \<Rightarrow>
               andthen (ic_check_for_misbehaviour_on_misbehaviour c s m) (\<lambda>b.
               Ok (ReplyCheckForMisbehaviour b))
           | Inl _ \<Rightarrow> Err (BadClientMessage msg)))"
| "query c s now (QueryTimestampAtHeight h) =
     andthen (ic_timestamp_at_height c s h) (\<lambda>t. Ok (ReplyTimestampAtHeight t))"

section \<open>Laws\<close>

text \<open>The encodings this code relies on give a value back.\<close>

locale wasm_laws =
  fixes w :: "('cs, 'cons) wasm_codec" and wf_client :: "'cs \<Rightarrow> bool" and wf_consensus :: "'cons \<Rightarrow> bool"
  assumes any_client [simp]: "any_client_decode w (any_client_encode w p) = Inr p"
    and any_consensus [simp]: "any_consensus_decode w (any_consensus_encode w d) = Inr d"
    and client [simp]: "wf_client cs \<Longrightarrow> client_decode w (client_encode w cs) = Inr cs"
    and consensus [simp]: "wf_consensus cons \<Longrightarrow> consensus_decode w (consensus_encode w cons) = Inr cons"
begin

lemma read_saved_client_state:
  "wf_client (wcs_data v) \<Longrightarrow> length (wcs_checksum v) = 32 \<Longrightarrow>
   read_prefixed_client_state w (save_prefixed_client_state w s p v) p = Ok v"
  by (simp add: read_prefixed_client_state_def save_prefixed_client_state_def
      wasm_client_state_into_proto_def wasm_client_state_from_proto_def h256_from_vec_def)

lemma read_saved_consensus_state:
  "wf_consensus cons \<Longrightarrow>
   read_prefixed_consensus_state w (save_prefixed_consensus_state w s p cons h) h p = Ok (Some cons)"
  by (simp add: read_prefixed_consensus_state_def save_prefixed_consensus_state_def)

end

section \<open>Distinct keys\<close>

lemma str_bytes_inject [simp]: "str_bytes a = str_bytes b \<longleftrightarrow> a = b"
proof -
  have "inj (of_char :: char \<Rightarrow> u8)"
  proof (rule injI)
    fix x y :: char
    assume "(of_char x :: u8) = of_char y"
    then have "(of_nat (of_char x) :: u8) = of_nat (of_char y)" by (simp only: of_nat_of_char)
    then have "(of_char x :: nat) mod 256 = of_char y mod 256"
      by (metis unat_of_nat_u8)
    then show "x = y" by simp
  qed
  then show ?thesis by (simp add: str_bytes_def inj_map_eq_map)
qed

lemma str_bytes_append: "str_bytes (a @ b) = str_bytes a @ str_bytes b"
  by (simp add: str_bytes_def)

lemma show_u64_no_dash [simp]: "CHR ''-'' \<notin> set (show_u64 n)"
  using show_u64_digits [of "CHR ''-''" n] by (auto simp: is_digit_def)

lemma consensus_db_key_inject [simp]: "consensus_db_key h = consensus_db_key h' \<longleftrightarrow> h = h'"
proof
  assume "consensus_db_key h = consensus_db_key h'"
  then have "show_u64 (revision_number h) @ CHR ''-'' # show_u64 (revision_height h) =
      show_u64 (revision_number h') @ CHR ''-'' # show_u64 (revision_height h')"
    by (simp add: consensus_db_key_def)
  then have "split_once CHR ''-'' (show_u64 (revision_number h) @ CHR ''-'' # show_u64 (revision_height h)) =
      split_once CHR ''-'' (show_u64 (revision_number h') @ CHR ''-'' # show_u64 (revision_height h'))"
    by simp
  then show "h = h'" by (cases h; cases h') (simp add: split_once_append)
qed simp

lemma db_key_not_client [simp]:
  "consensus_db_key h \<noteq> HOST_CLIENT_STATE_KEY" "HOST_CLIENT_STATE_KEY \<noteq> consensus_db_key h"
  by (simp_all add: consensus_db_key_def)

lemma keys_distinct [simp]:
  "str_bytes (consensus_db_key h) \<noteq> str_bytes HOST_CLIENT_STATE_KEY"
  "str_bytes HOST_CLIENT_STATE_KEY \<noteq> str_bytes (consensus_db_key h)"
  "consensus_state_iterator_key h' \<noteq> str_bytes (consensus_db_key h)"
  "str_bytes (consensus_db_key h) \<noteq> consensus_state_iterator_key h'"
  "consensus_state_iterator_key h' \<noteq> str_bytes HOST_CLIENT_STATE_KEY"
  "str_bytes HOST_CLIENT_STATE_KEY \<noteq> consensus_state_iterator_key h'"
  by (simp_all add: consensus_db_key_def consensus_state_iterator_key_def str_bytes_def)

end
