(* ===== verification/Client_History.thy ===== *)
theory Client_History imports Wasm_Client begin

text \<open>
  The history a light client contract keeps, for the clients that share its layout (a client state, a
  consensus state per height, metadata under iteration keys that hold the state's time): what is stored,
  the neighbours of a height, the search for a conflict in time, and the invariant that the times of
  the stored states are ordered as their heights. The locale \<open>client_history\<close> is what a client
  provides: its encodings, the time of its consensus states and their coding in the metadata.
\<close>

section \<open>What is stored\<close>

definition stored_at :: "('cs, 'cons) wasm_codec \<Rightarrow> kv_store \<Rightarrow> height \<Rightarrow> 'cons option" where
  "stored_at w s h =
     (case read_prefixed_consensus_state w s h no_prefix :: (unit client_error, 'cons option) outcome of
        Ok c \<Rightarrow> c | _ \<Rightarrow> None)"

definition client_at :: "('cs, 'cons) wasm_codec \<Rightarrow> kv_store \<Rightarrow> 'cs wasm_client_state option" where
  "client_at w s =
     (case read_prefixed_client_state w s no_prefix :: (unit client_error, 'cs wasm_client_state) outcome of
        Ok v \<Rightarrow> Some v | _ \<Rightarrow> None)"

lemma read_consensus_Ok:
  "read_prefixed_consensus_state w s h p = Ok (Some c) \<longleftrightarrow>
     (\<exists>any d. kv_get s (str_bytes (p @ consensus_db_key h)) = Some any \<and>
        any_consensus_decode w any = Inr d \<and> consensus_decode w d = Inr c)"
  by (auto simp: read_prefixed_consensus_state_def try_option_def outcome_ok split: option.splits)

lemma read_consensus_None:
  "read_prefixed_consensus_state w s h p = Ok None \<longleftrightarrow> kv_get s (str_bytes (p @ consensus_db_key h)) = None"
  by (auto simp: read_prefixed_consensus_state_def try_option_def outcome_ok split: option.splits)

lemma stored_iff:
  "stored_at w s h = Some c \<longleftrightarrow>
     (\<exists>any d. kv_get s (str_bytes (consensus_db_key h)) = Some any \<and>
        any_consensus_decode w any = Inr d \<and> consensus_decode w d = Inr c)"
  by (auto simp: stored_at_def read_prefixed_consensus_state_def try_option_def outcome_ok
      split: option.splits outcome.splits)

lemma stored_at_Some:
  "stored_at w s h = Some c \<longleftrightarrow> read_prefixed_consensus_state w s h no_prefix = Ok (Some c)"
  by (simp add: stored_iff read_consensus_Ok)

lemma read_client_Ok:
  "read_prefixed_client_state w s p = Ok v \<longleftrightarrow>
     (\<exists>any. kv_get s (str_bytes (p @ HOST_CLIENT_STATE_KEY)) = Some any \<and>
        andthen (result_or WCSAny (any_client_decode w any)) (wasm_client_state_from_proto w) = Ok v)"
  by (auto simp: read_prefixed_client_state_def outcome_ok)

lemma client_iff:
  "client_at w s = Some v \<longleftrightarrow>
     (\<exists>any. kv_get s (str_bytes HOST_CLIENT_STATE_KEY) = Some any \<and>
        andthen (result_or WCSAny (any_client_decode w any)) (wasm_client_state_from_proto w) = Ok v)"
  by (auto simp: client_at_def read_prefixed_client_state_def outcome_ok split: outcome.splits)

lemma client_at_Some: "client_at w s = Some v \<longleftrightarrow> read_prefixed_client_state w s no_prefix = Ok v"
  by (simp add: client_iff read_client_Ok)

lemma stored_at_None:
  "kv_get s (str_bytes (consensus_db_key h)) = None \<Longrightarrow> stored_at w s h = None"
  by (simp add: stored_at_def read_prefixed_consensus_state_def)

lemma stored_at_read:
  "read_prefixed_consensus_state w s h no_prefix = Ok c \<Longrightarrow> stored_at w s h = c"
  by (cases c) (simp_all add: read_consensus_None read_consensus_Ok stored_at_None stored_iff)

lemma stored_at_other:
  "kv_get s' (str_bytes (consensus_db_key h)) = kv_get s (str_bytes (consensus_db_key h)) \<Longrightarrow>
   stored_at w s' h = stored_at w s h"
  by (simp add: stored_at_def read_prefixed_consensus_state_def)

section \<open>Neighbours in the store\<close>

definition own_keys :: "kv_store \<Rightarrow> bool" where
  \<comment> \<open>the store holds the client state, consensus states and metadata, nothing else\<close>
  "own_keys s \<longleftrightarrow>
     (\<forall>k. kv_get s k \<noteq> None \<longrightarrow>
        k = str_bytes HOST_CLIENT_STATE_KEY \<or> (\<exists>h. k = str_bytes (consensus_db_key h)) \<or>
        (\<exists>h. k = consensus_state_iterator_key h))"

lemma other_keys_less:
  "str_bytes HOST_CLIENT_STATE_KEY < consensus_state_iterator_key h"
  "str_bytes (consensus_db_key h') < consensus_state_iterator_key h"
  by (simp_all add: consensus_state_iterator_key_def consensus_db_key_def str_bytes_def)

abbreviation meta_at :: "kv_store \<Rightarrow> height \<Rightarrow> bytes option" where
  "meta_at s h \<equiv> kv_get s (consensus_state_iterator_key h)"

lemma next_neighbour:
  assumes own: "own_keys s" and f: "kv_first_from s (consensus_state_iterator_key h) = Some (k, d)"
  obtains n where "k = consensus_state_iterator_key n" "meta_at s n = Some d" "h \<le> n"
    "\<And>m. meta_at s m \<noteq> None \<Longrightarrow> h \<le> m \<Longrightarrow> n \<le> m"
proof -
  have k: "kv_get s k = Some d" "consensus_state_iterator_key h \<le> k"
    and least: "\<And>k'. kv_get s k' \<noteq> None \<Longrightarrow> consensus_state_iterator_key h \<le> k' \<Longrightarrow> k \<le> k'"
    using f by (auto simp: kv.first_from_Some)
  have "\<not> k < consensus_state_iterator_key h" using k(2) by simp
  moreover have "k = str_bytes HOST_CLIENT_STATE_KEY \<or> (\<exists>h. k = str_bytes (consensus_db_key h)) \<or>
      (\<exists>h. k = consensus_state_iterator_key h)"
    using own k(1) by (simp add: own_keys_def)
  ultimately obtain n where n: "k = consensus_state_iterator_key n" using other_keys_less by blast
  have "n \<le> m" if "meta_at s m \<noteq> None" "h \<le> m" for m
    using least [of "consensus_state_iterator_key m"] that n by simp
  with that [OF n] k n show thesis by simp
qed

lemma no_next_neighbour:
  "kv_first_from s (consensus_state_iterator_key h) = None \<Longrightarrow> meta_at s n \<noteq> None \<Longrightarrow> n < h"
  by (auto simp: kv.first_from_None)

text \<open>Below the first metadata come the consensus states: their keys are not read as metadata, because
  their values do not have the size of it.\<close>

lemma prev_neighbour:
  assumes own: "own_keys s" and f: "kv_last_before s (consensus_state_iterator_key h) = Some (k, d)"
  obtains (metadata) n where "k = consensus_state_iterator_key n" "meta_at s n = Some d" "n < h"
    "\<And>m. meta_at s m \<noteq> None \<Longrightarrow> m < h \<Longrightarrow> m \<le> n"
  | (other) "k = str_bytes HOST_CLIENT_STATE_KEY \<or> (\<exists>h. k = str_bytes (consensus_db_key h))"
    "kv_get s k = Some d" "\<And>m. meta_at s m \<noteq> None \<Longrightarrow> \<not> m < h"
proof -
  have k: "kv_get s k = Some d" "k < consensus_state_iterator_key h"
    and greatest: "\<And>k'. kv_get s k' \<noteq> None \<Longrightarrow> k' < consensus_state_iterator_key h \<Longrightarrow> k' \<le> k"
    using f by (auto simp: kv.last_before_Some)
  show thesis
  proof (cases "\<exists>n. k = consensus_state_iterator_key n")
    case True
    then obtain n where n: "k = consensus_state_iterator_key n" ..
    have "m \<le> n" if "meta_at s m \<noteq> None" "m < h" for m
      using greatest [of "consensus_state_iterator_key m"] that n by simp
    with metadata [OF n] k n show thesis by simp
  next
    case False
    with own k(1) have o: "k = str_bytes HOST_CLIENT_STATE_KEY \<or> (\<exists>h. k = str_bytes (consensus_db_key h))"
      by (auto simp: own_keys_def)
    then have "k < consensus_state_iterator_key m" for m using other_keys_less by blast
    with greatest have "meta_at s m \<noteq> None \<Longrightarrow> \<not> m < h" for m
      by (metis iterator_key_less leD)
    with other o k(1) show thesis by blast
  qed
qed

lemma no_prev_neighbour:
  "kv_last_before s (consensus_state_iterator_key h) = None \<Longrightarrow> meta_at s n \<noteq> None \<Longrightarrow> h \<le> n"
  by (auto simp: kv.last_before_None)


section \<open>Metadata\<close>

definition meta_entry ::
  "(bytes \<Rightarrow> (storage_error, 't) outcome) \<Rightarrow> (bytes \<times> bytes) option \<Rightarrow>
   (storage_error, (height \<times> 't) option) outcome" where
  "meta_entry dec entry =
     (case entry of
        None \<Rightarrow> Ok None
      | Some (key, metadata) \<Rightarrow>
          andthen (parse_height_from_key key) (\<lambda>h.
          andthen (dec metadata) (\<lambda>m. Ok (Some (h, m)))))"

definition neighbour_conflict ::
  "(storage_error, (height \<times> 't) option) outcome \<Rightarrow> (storage_error, (height \<times> 't) option) outcome \<Rightarrow>
   't::linorder \<Rightarrow> ('e, bool) outcome" where
  \<comment> \<open>the end of \<^verbatim>\<open>check_for_misbehaviour_on_header\<close>: an error of either search is passed over\<close>
  "neighbour_conflict next_meta prev_meta t =
     (case next_meta of
        Panic \<Rightarrow> Panic
      | _ \<Rightarrow>
          if (case next_meta of Ok (Some (_, u)) \<Rightarrow> u \<le> t | _ \<Rightarrow> False) then Ok True
          else
            (case prev_meta of
               Panic \<Rightarrow> Panic
             | _ \<Rightarrow> Ok (case prev_meta of Ok (Some (_, u)) \<Rightarrow> t \<le> u | _ \<Rightarrow> False)))"


definition raised :: "(height \<Rightarrow> 'cs \<Rightarrow> 'cs) \<Rightarrow> height \<Rightarrow> 'cs wasm_client_state \<Rightarrow> 'cs wasm_client_state" where
  \<comment> \<open>the client state with its latest height raised to that of the header\<close>
  "raised set_latest h v =
     (if wcs_latest_height v < h then v\<lparr>wcs_latest_height := h, wcs_data := set_latest h (wcs_data v)\<rparr> else v)"

section \<open>The laws of a client\<close>

locale client_history = wasm_laws w wf_client wf_cons
  for w :: "('cs, 'cons) wasm_codec" and wf_client :: "'cs \<Rightarrow> bool" and wf_cons :: "'cons \<Rightarrow> bool" +
  fixes latest_of :: "'cs \<Rightarrow> height" and time_of :: "'cons \<Rightarrow> 't::linorder"
    and enc :: "'t \<Rightarrow> bytes" and dec :: "bytes \<Rightarrow> (storage_error, 't) outcome" and msize :: nat
  assumes decode_time: "wf_cons c \<Longrightarrow> dec (enc (time_of c)) = Ok (time_of c)"
    and decode_size: "length b \<noteq> msize \<Longrightarrow> \<exists>e. dec b = Err e"
    and decoded_client: "client_decode w b = Inr cs \<Longrightarrow> wf_client cs"
    and decoded_consensus: "consensus_decode w b = Inr c \<Longrightarrow> wf_cons c"
    and consensus_long: "length (any_consensus_encode w d) \<noteq> msize"
begin

definition time_at :: "kv_store \<Rightarrow> height \<Rightarrow> 't" where
  "time_at s h = time_of (the (stored_at w s h))"

definition history_inv :: "kv_store \<Rightarrow> bool" where
  "history_inv s \<longleftrightarrow>
     (\<forall>h. kv_get s (str_bytes (consensus_db_key h)) \<noteq> None \<longrightarrow> stored_at w s h \<noteq> None) \<and>
     own_keys s \<and>
     (\<forall>h b. kv_get s (str_bytes (consensus_db_key h)) = Some b \<longrightarrow> length b \<noteq> msize) \<and>
     (\<forall>h b. meta_at s h = Some b \<longrightarrow> stored_at w s h \<noteq> None \<and> b = enc (time_at s h)) \<and>
     (\<exists>h0. stored_at w s h0 \<noteq> None \<and> meta_at s h0 = None \<and>
        (\<forall>h. stored_at w s h \<noteq> None \<longrightarrow> h \<noteq> h0 \<longrightarrow> h0 < h \<and> meta_at s h \<noteq> None)) \<and>
     (\<forall>h h'. stored_at w s h \<noteq> None \<longrightarrow> stored_at w s h' \<noteq> None \<longrightarrow> h < h' \<longrightarrow>
        time_at s h < time_at s h') \<and>
     (\<exists>v. client_at w s = Some v \<and> length (wcs_checksum v) = 32 \<and>
        latest_of (wcs_data v) = wcs_latest_height v \<and> stored_at w s (wcs_latest_height v) \<noteq> None \<and>
        (\<forall>h. stored_at w s h \<noteq> None \<longrightarrow> h \<le> wcs_latest_height v))"

lemma inv_facts:
  assumes "history_inv s"
  shows inv_decodes: "kv_get s (str_bytes (consensus_db_key h)) \<noteq> None \<Longrightarrow> stored_at w s h \<noteq> None"
    and inv_own: "own_keys s"
    and inv_size: "kv_get s (str_bytes (consensus_db_key h)) = Some b \<Longrightarrow> length b \<noteq> msize"
    and inv_meta: "meta_at s h = Some b \<Longrightarrow> stored_at w s h \<noteq> None \<and> b = enc (time_at s h)"
    and inv_mono: "stored_at w s h \<noteq> None \<Longrightarrow> stored_at w s h' \<noteq> None \<Longrightarrow> h < h' \<Longrightarrow>
      time_at s h < time_at s h'"
    and inv_first: "\<exists>h0. stored_at w s h0 \<noteq> None \<and> meta_at s h0 = None \<and>
      (\<forall>h. stored_at w s h \<noteq> None \<longrightarrow> h \<noteq> h0 \<longrightarrow> h0 < h \<and> meta_at s h \<noteq> None)"
    and inv_client: "\<exists>v. client_at w s = Some v \<and> length (wcs_checksum v) = 32 \<and>
      latest_of (wcs_data v) = wcs_latest_height v \<and> stored_at w s (wcs_latest_height v) \<noteq> None \<and>
      (\<forall>h. stored_at w s h \<noteq> None \<longrightarrow> h \<le> wcs_latest_height v)"
  using assms unfolding history_inv_def by blast+

lemma stored_wf: "stored_at w s h = Some c \<Longrightarrow> wf_cons c"
  using decoded_consensus unfolding stored_iff by blast

lemma client_wf: "client_at w s = Some v \<Longrightarrow> wf_client (wcs_data v)"
  using decoded_client
  by (auto simp: client_iff outcome_ok wasm_client_state_from_proto_def)

text \<open>In such a store every consensus state is read without an error.\<close>

lemma inv_read:
  assumes "history_inv s"
  shows "read_prefixed_consensus_state w s h no_prefix = Ok (stored_at w s h)"
proof (cases "stored_at w s h")
  case None
  with inv_decodes [OF assms, of h] have "kv_get s (str_bytes (no_prefix @ consensus_db_key h)) = None"
    unfolding append_Nil by blast
  then show ?thesis unfolding None read_consensus_None .
next
  case (Some c)
  then have "\<exists>any d. kv_get s (str_bytes (consensus_db_key h)) = Some any \<and>
      any_consensus_decode w any = Inr d \<and> consensus_decode w d = Inr c"
    by (simp only: stored_iff)
  then show ?thesis unfolding Some read_consensus_Ok append_Nil .
qed

lemma inv_mono_le:
  "history_inv s \<Longrightarrow> stored_at w s h \<noteq> None \<Longrightarrow> stored_at w s h' \<noteq> None \<Longrightarrow> h \<le> h' \<Longrightarrow>
   time_at s h \<le> time_at s h'"
  by (metis inv_mono le_less)

lemma metadata:
  assumes "history_inv s" "meta_at s n = Some d"
  shows "stored_at w s n \<noteq> None" "dec d = Ok (time_at s n)"
  using inv_meta [OF assms] decode_time stored_wf by (auto simp: time_at_def)

lemma meta_mono:
  assumes "history_inv s" "meta_at s n \<noteq> None" "meta_at s m \<noteq> None" "n \<le> m"
  shows "time_at s n \<le> time_at s m"
  using assms metadata(1) [OF assms(1)] by (intro inv_mono_le [OF assms(1)]) auto

section \<open>Searching for a conflict\<close>

abbreviation (input) "next_entry s h \<equiv> meta_entry dec (kv_first_from s (consensus_state_iterator_key h))"

abbreviation (input) "prev_entry s h \<equiv> meta_entry dec (kv_last_before s (consensus_state_iterator_key h))"

lemma next_time:
  assumes inv: "history_inv s"
  shows "\<exists>r. next_entry s h = Ok r \<and>
    ((case r of Some (_, u) \<Rightarrow> u \<le> t | None \<Rightarrow> False) \<longleftrightarrow>
     (\<exists>n. meta_at s n \<noteq> None \<and> h \<le> n \<and> time_at s n \<le> t))"
proof (cases "kv_first_from s (consensus_state_iterator_key h)")
  case None
  then show ?thesis
    using no_next_neighbour [OF None] by (force simp: meta_entry_def dest: leD)
next
  case (Some kd)
  obtain k d where "kd = (k, d)" by (cases kd)
  with Some obtain n where n: "k = consensus_state_iterator_key n" "meta_at s n = Some d" "h \<le> n"
    "\<And>m. meta_at s m \<noteq> None \<Longrightarrow> h \<le> m \<Longrightarrow> n \<le> m"
    using next_neighbour [OF inv_own [OF inv]] by metis
  have "next_entry s h = Ok (Some (n, time_at s n))"
    using Some \<open>kd = (k, d)\<close> n metadata(2) [OF inv n(2)] by (simp add: meta_entry_def)
  moreover have "time_at s n \<le> time_at s m" if "meta_at s m \<noteq> None" "h \<le> m" for m
    using n(2,4) that by (intro meta_mono [OF inv]) auto
  ultimately show ?thesis using n(2,3) by (auto intro: order_trans)
qed

lemma other_entry:
  assumes "k = str_bytes HOST_CLIENT_STATE_KEY \<or> length d \<noteq> msize"
  shows "\<exists>e. meta_entry dec (Some (k, d)) = Err e"
proof (cases "parse_height_from_key k")
  case (Ok h)
  with assms have "length d \<noteq> msize"
    by (auto simp: parse_height_from_key_def str_bytes_def)
  with Ok decode_size show ?thesis by (fastforce simp: meta_entry_def)
next
  case Panic
  then show ?thesis
    by (auto simp: parse_height_from_key_def u64_from_be_bytes_def outcome_ok no_panic split: if_splits)
qed (simp add: meta_entry_def)

lemma prev_time:
  assumes inv: "history_inv s"
  shows "\<exists>r. prev_entry s h = r \<and> r \<noteq> Panic \<and>
    ((case r of Ok (Some (_, u)) \<Rightarrow> t \<le> u | _ \<Rightarrow> False) \<longleftrightarrow>
     (\<exists>n. meta_at s n \<noteq> None \<and> n < h \<and> t \<le> time_at s n))"
proof (cases "kv_last_before s (consensus_state_iterator_key h)")
  case None
  then show ?thesis
    using no_prev_neighbour [OF None] by (force simp: meta_entry_def dest: leD)
next
  case (Some kd)
  obtain k d where kd: "kd = (k, d)" by (cases kd)
  note meta = metadata [OF inv]
  from inv_own [OF inv] Some [unfolded kd] show ?thesis
  proof (cases rule: prev_neighbour)
    case (metadata n)
    have "prev_entry s h = Ok (Some (n, time_at s n))"
      using Some kd metadata meta(2) [OF metadata(2)] by (simp add: meta_entry_def)
    moreover have "time_at s m \<le> time_at s n" if "meta_at s m \<noteq> None" "m < h" for m
      using metadata(2,4) that by (intro meta_mono [OF inv]) auto
    ultimately show ?thesis using metadata(2,3) by (auto intro: order_trans)
  next
    case other
    then have "k = str_bytes HOST_CLIENT_STATE_KEY \<or> length d \<noteq> msize"
      using inv_size [OF inv] by auto
    then obtain e where "meta_entry dec (Some (k, d)) = Err e" using other_entry by blast
    with Some kd other(3) show ?thesis by auto
  qed
qed

lemma conflict_exact:
  assumes inv: "history_inv s" and res: "neighbour_conflict (next_entry s h) (prev_entry s h) t = res"
  shows "\<exists>b. res = Ok b \<and>
    (b \<longleftrightarrow> (\<exists>n. meta_at s n \<noteq> None \<and> (h \<le> n \<and> time_at s n \<le> t \<or> n < h \<and> t \<le> time_at s n)))"
proof -
  obtain r where "next_entry s h = Ok r"
    "(case r of Some (_, u) \<Rightarrow> u \<le> t | None \<Rightarrow> False) \<longleftrightarrow>
     (\<exists>n. meta_at s n \<noteq> None \<and> h \<le> n \<and> time_at s n \<le> t)"
    using next_time [OF inv] by blast
  moreover obtain q where "prev_entry s h = q" "q \<noteq> Panic"
    "(case q of Ok (Some (_, u)) \<Rightarrow> t \<le> u | _ \<Rightarrow> False) \<longleftrightarrow>
     (\<exists>n. meta_at s n \<noteq> None \<and> n < h \<and> t \<le> time_at s n)"
    using prev_time [OF inv] by blast
  ultimately show ?thesis unfolding res [symmetric] by (cases q) (auto simp: neighbour_conflict_def)
qed

text \<open>The same in terms of what is stored: every state but the first is looked at.\<close>

lemma conflict_stored:
  assumes inv: "history_inv s"
  obtains h0 where "stored_at w s h0 \<noteq> None" "\<And>n. stored_at w s n \<noteq> None \<Longrightarrow> h0 \<le> n"
    "\<And>h t. (\<exists>n. meta_at s n \<noteq> None \<and> (h \<le> n \<and> time_at s n \<le> t \<or> n < h \<and> t \<le> time_at s n)) \<longleftrightarrow>
       (\<exists>n c. stored_at w s n = Some c \<and> n \<noteq> h0 \<and>
         (h \<le> n \<and> time_of c \<le> t \<or> n < h \<and> t \<le> time_of c))"
proof -
  obtain h0 where h0: "stored_at w s h0 \<noteq> None" "meta_at s h0 = None"
    "\<And>h. stored_at w s h \<noteq> None \<Longrightarrow> h \<noteq> h0 \<Longrightarrow> h0 < h \<and> meta_at s h \<noteq> None"
    using inv_first [OF inv] by blast
  have meta: "meta_at s n \<noteq> None \<longleftrightarrow> (\<exists>c. stored_at w s n = Some c) \<and> n \<noteq> h0" for n
    using h0(2) h0(3) [of n] inv_meta [OF inv, of n] by auto
  have first: "h0 \<le> h" if "stored_at w s h \<noteq> None" for h
    using h0(3) [OF that] by (cases "h = h0") auto
  have time: "time_at s n = time_of c" if "stored_at w s n = Some c" for n c
    using that by (simp add: time_at_def)
  have ex: "(\<exists>n. meta_at s n \<noteq> None \<and> P (time_at s n) n) \<longleftrightarrow>
      (\<exists>n c. stored_at w s n = Some c \<and> n \<noteq> h0 \<and> P (time_of c) n)" for P
    unfolding meta using time by metis
  show thesis
  proof (rule that [OF h0(1)])
    show "h0 \<le> n" if "stored_at w s n \<noteq> None" for n using first [OF that] .
    show "(\<exists>n. meta_at s n \<noteq> None \<and> (h \<le> n \<and> time_at s n \<le> t \<or> n < h \<and> t \<le> time_at s n)) \<longleftrightarrow>
       (\<exists>n c. stored_at w s n = Some c \<and> n \<noteq> h0 \<and>
         (h \<le> n \<and> time_of c \<le> t \<or> n < h \<and> t \<le> time_of c))" for h t
      by (rule ex)
  qed
qed

section \<open>Writing\<close>

definition put_states :: "'cs wasm_client_state \<Rightarrow> 'cons \<Rightarrow> height \<Rightarrow> kv_store \<Rightarrow> kv_store" where
  \<comment> \<open>the three writes of an update\<close>
  "put_states v c h s =
     save_prefixed_consensus_state w
       (kv_set (save_prefixed_client_state w s no_prefix v) (consensus_state_iterator_key h)
          (enc (time_of c))) no_prefix c h"

lemma put_states:
  assumes "wf_client (wcs_data v)" "length (wcs_checksum v) = 32" "wf_cons c"
  shows "client_at w (put_states v c h s) = Some v"
    and "stored_at w (put_states v c h s) h' = (if h' = h then Some c else stored_at w s h')"
    and "meta_at (put_states v c h s) h' = (if h' = h then Some (enc (time_of c)) else meta_at s h')"
    and "own_keys s \<Longrightarrow> own_keys (put_states v c h s)"
    and "kv_get (put_states v c h s) (str_bytes (consensus_db_key h')) =
      (if h' = h then Some (any_consensus_encode w (consensus_encode w c))
       else kv_get s (str_bytes (consensus_db_key h')))"
    and "time_at (put_states v c h s) h' = (if h' = h then time_of c else time_at s h')"
proof -
  let ?s = "put_states v c h s"
  have get: "kv_get ?s k =
      (if k = str_bytes (consensus_db_key h)
       then Some (any_consensus_encode w (consensus_encode w c))
       else if k = consensus_state_iterator_key h then Some (enc (time_of c))
       else if k = str_bytes HOST_CLIENT_STATE_KEY
         then Some (any_client_encode w (wasm_client_state_into_proto w v))
       else kv_get s k)" for k
    by (simp add: put_states_def save_prefixed_consensus_state_def
        save_prefixed_client_state_def kv.lookup_store)
  show "client_at w ?s = Some v"
    using assms
    by (simp add: client_at_def read_prefixed_client_state_def get wasm_client_state_into_proto_def
        wasm_client_state_from_proto_def h256_from_vec_def)
  show st: "stored_at w ?s h' = (if h' = h then Some c else stored_at w s h')"
    using assms(3) by (simp add: stored_at_def read_prefixed_consensus_state_def get)
  then show "time_at ?s h' = (if h' = h then time_of c else time_at s h')"
    by (simp add: time_at_def)
  show "meta_at ?s h' = (if h' = h then Some (enc (time_of c)) else meta_at s h')"
    by (simp add: get)
  show "kv_get ?s (str_bytes (consensus_db_key h')) =
      (if h' = h then Some (any_consensus_encode w (consensus_encode w c))
       else kv_get s (str_bytes (consensus_db_key h')))"
    by (simp add: get)
  show "own_keys s \<Longrightarrow> own_keys ?s"
    unfolding own_keys_def get by auto
qed

text \<open>A state at a height above a stored one, with a time between those of its neighbours, keeps the
  invariant, whether the height is new or holds the same time already.\<close>

lemma put_states_inv:
  assumes inv: "history_inv s"
    and v: "wf_client (wcs_data v)" "length (wcs_checksum v) = 32" "wf_cons c"
    and latest: "latest_of (wcs_data v) = wcs_latest_height v"
      "wcs_latest_height v = h \<or> stored_at w s (wcs_latest_height v) \<noteq> None"
      "h \<le> wcs_latest_height v" "\<And>n. stored_at w s n \<noteq> None \<Longrightarrow> n \<le> wcs_latest_height v"
    and below: "\<And>n. stored_at w s n \<noteq> None \<Longrightarrow> n < h \<Longrightarrow> time_at s n < time_of c"
    and above: "\<And>n. stored_at w s n \<noteq> None \<Longrightarrow> h < n \<Longrightarrow> time_of c < time_at s n"
    and first: "stored_at w s n0 \<noteq> None" "n0 < h"
  shows "history_inv (put_states v c h s)"
proof -
  let ?s = "put_states v c h s"
  note ps = put_states [OF v, where h = h and s = s]
  obtain h0 where h0: "stored_at w s h0 \<noteq> None" "meta_at s h0 = None"
    "\<And>n. stored_at w s n \<noteq> None \<Longrightarrow> n \<noteq> h0 \<Longrightarrow> h0 < n \<and> meta_at s n \<noteq> None"
    using inv_first [OF inv] by blast
  have "h0 \<le> n0" using h0(3) [OF first(1)] by (cases "n0 = h0") auto
  with first(2) have "h0 < h" by simp
  have "stored_at w ?s n \<noteq> None" if "kv_get ?s (str_bytes (consensus_db_key n)) \<noteq> None" for n
    using that inv_decodes [OF inv, of n] unfolding ps(2,5) by (auto split: if_splits)
  moreover have "own_keys ?s" using ps(4) inv_own [OF inv] by simp
  moreover have "length b \<noteq> msize" if "kv_get ?s (str_bytes (consensus_db_key n)) = Some b" for n b
    using that ps(5) [where h' = n] inv_size [OF inv] consensus_long by (auto split: if_splits)
  moreover have "stored_at w ?s n \<noteq> None \<and> b = enc (time_at ?s n)" if "meta_at ?s n = Some b" for n b
    using that ps(3) [where h' = n] inv_meta [OF inv, of n b] unfolding ps(2,6) by (auto split: if_splits)
  moreover have "\<exists>h0. stored_at w ?s h0 \<noteq> None \<and> meta_at ?s h0 = None \<and>
      (\<forall>n. stored_at w ?s n \<noteq> None \<longrightarrow> n \<noteq> h0 \<longrightarrow> h0 < n \<and> meta_at ?s n \<noteq> None)"
    using h0 \<open>h0 < h\<close> unfolding ps(2,3) by (intro exI [of _ h0]) auto
  moreover have "time_at ?s n < time_at ?s m"
    if "stored_at w ?s n \<noteq> None" "stored_at w ?s m \<noteq> None" "n < m" for n m
    using that inv_mono [OF inv, of n m] below [of n] above [of m] unfolding ps(2,6) by (auto split: if_splits)
  moreover have "client_at w ?s = Some v \<and> length (wcs_checksum v) = 32 \<and>
      latest_of (wcs_data v) = wcs_latest_height v \<and> stored_at w ?s (wcs_latest_height v) \<noteq> None \<and>
      (\<forall>n. stored_at w ?s n \<noteq> None \<longrightarrow> n \<le> wcs_latest_height v)"
    using ps(1) v latest unfolding ps(2) by (auto split: if_splits)
  ultimately show ?thesis unfolding history_inv_def by blast
qed

text \<open>An update keeps the invariant when the header was verified against a stored state and is in
  conflict with none.\<close>

lemma update_inv:
  assumes inv: "history_inv s" and v: "client_at w s = Some v" and c: "wf_cons c"
    and set_latest: "\<And>cs. wf_client cs \<Longrightarrow> wf_client (set_latest h cs) \<and> latest_of (set_latest h cs) = h"
    and trusted: "stored_at w s n0 = Some c0" "n0 < h" "time_of c0 < time_of c"
    and same: "\<And>d. stored_at w s h = Some d \<Longrightarrow> time_of d = time_of c"
    and honest: "stored_at w s h = None \<Longrightarrow>
      neighbour_conflict (next_entry s h) (prev_entry s h) (time_of c) = Ok False"
  shows "history_inv (put_states (raised set_latest h v) c h s)"
proof -
  obtain first where first: "stored_at w s first \<noteq> None" "\<And>n. stored_at w s n \<noteq> None \<Longrightarrow> first \<le> n"
    and exact: "\<And>h t. (\<exists>n. meta_at s n \<noteq> None \<and> (h \<le> n \<and> time_at s n \<le> t \<or> n < h \<and> t \<le> time_at s n)) \<longleftrightarrow>
       (\<exists>n c. stored_at w s n = Some c \<and> n \<noteq> first \<and>
         (h \<le> n \<and> time_of c \<le> t \<or> n < h \<and> t \<le> time_of c))"
    using conflict_stored [OF inv] by blast
  have "first \<le> n0" using first(2) trusted(1) by simp
  with inv_mono_le [OF inv first(1), of n0] trusted
  have first_c: "time_at s first < time_of c" "first < h" by (auto simp: time_at_def)
  have time: "time_at s n = time_of d" if "stored_at w s n = Some d" for n d
    using that by (simp add: time_at_def)
  have ordered: "(n < h \<longrightarrow> time_at s n < time_of c) \<and> (h < n \<longrightarrow> time_of c < time_at s n)"
    if n: "stored_at w s n \<noteq> None" for n
  proof (cases "stored_at w s h")
    case None
    have "\<not> (\<exists>n d. stored_at w s n = Some d \<and> n \<noteq> first \<and>
         (h \<le> n \<and> time_of d \<le> time_of c \<or> n < h \<and> time_of c \<le> time_of d))"
      using conflict_exact [OF inv honest [OF None]] unfolding exact by simp
    with n first_c show ?thesis by (cases "n = first") (fastforce simp: time not_le not_less)+
  next
    case (Some d)
    with same inv_mono [OF inv n, of h] inv_mono [OF inv _ n, of h] show ?thesis by (auto simp: time)
  qed
  obtain v1 where v1: "client_at w s = Some v1" "length (wcs_checksum v1) = 32"
    "latest_of (wcs_data v1) = wcs_latest_height v1" "stored_at w s (wcs_latest_height v1) \<noteq> None"
    "\<And>n. stored_at w s n \<noteq> None \<Longrightarrow> n \<le> wcs_latest_height v1"
    using inv_client [OF inv] by blast
  show ?thesis
  proof (rule put_states_inv [OF inv _ _ c])
    show "stored_at w s first \<noteq> None" "first < h" using first(1) first_c(2) by simp_all
    show "n \<le> wcs_latest_height (raised set_latest h v)" if "stored_at w s n \<noteq> None" for n
      using v1(1) v v1(5) [OF that] by (auto simp: raised_def)
  qed (use ordered v1 v set_latest client_wf [OF v] in \<open>auto simp: raised_def\<close>)
qed

section \<open>The start\<close>

lemma start_states:
  assumes c: "consensus_decode w d = Inr c" and cs: "client_decode w b = Inr cs"
    and checksum: "length k = 32"
    and s: "s = save_proto_client_state w (save_proto_consensus_state w [] d (latest_of cs))
              \<lparr>pwcs_data = b, pwcs_checksum = k, pwcs_latest_height = Some (latest_of cs)\<rparr>"
  shows "stored_at w s = [latest_of cs \<mapsto> c]"
    and "client_at w s = Some \<lparr>wcs_data = cs, wcs_checksum = k, wcs_latest_height = latest_of cs\<rparr>"
    and "meta_at s h = None" and "history_inv s"
proof -
  let ?h0 = "latest_of cs"
  let ?p = "\<lparr>pwcs_data = b, pwcs_checksum = k, pwcs_latest_height = Some ?h0\<rparr>"
  have get: "kv_get s key =
      (if key = str_bytes HOST_CLIENT_STATE_KEY then Some (any_client_encode w ?p)
       else if key = str_bytes (consensus_db_key ?h0) then Some (any_consensus_encode w d)
       else None)" for key
    unfolding s by (auto simp: save_proto_client_state_def save_proto_consensus_state_def
        kv.lookup_store) (simp_all add: kv_get_def)
  show st: "stored_at w s = [?h0 \<mapsto> c]"
    using c by (intro ext) (simp add: stored_at_def read_prefixed_consensus_state_def get)
  show cl: "client_at w s = Some \<lparr>wcs_data = cs, wcs_checksum = k, wcs_latest_height = ?h0\<rparr>"
    using cs checksum
    by (simp add: client_at_def read_prefixed_client_state_def get wasm_client_state_from_proto_def
        h256_from_vec_def)
  show "meta_at s h = None" by (simp add: get)
  have "own_keys s" unfolding own_keys_def get by auto
  moreover have "length x \<noteq> msize" if "kv_get s (str_bytes (consensus_db_key n)) = Some x" for n x
    using that consensus_long by (auto simp: get split: if_splits)
  ultimately show "history_inv s"
    using checksum by (simp add: history_inv_def st cl get)
qed

end

end
