(* ===== verification/Tm_Client.thy ===== *)
theory Tm_Client imports Tm_Soundness Client_History Ics23_Api begin

text \<open>
  The Tendermint light client contract (\<^verbatim>\<open>light-clients/tendermint-light-client/src/\<close>): its state, the
  metadata it keeps for iteration, the operations of \<^verbatim>\<open>IbcClient\<close> and the instantiation of the
  contract. The host's Ed25519 functions and the protobuf bytes are parameters.
\<close>

section \<open>State\<close>

record tm_client_state =
  tcs_chain_id :: string
  tcs_trust_level :: fraction
  tcs_trusting_period :: duration
  tcs_unbonding_period :: duration
  tcs_max_clock_drift :: duration
  tcs_frozen_height :: "height option"
  tcs_latest_height :: height
  tcs_proof_specs :: "proof_spec list"
  tcs_upgrade_path :: "string list"

record tm_consensus_state =
  tco_timestamp :: timestamp
  tco_root :: merkle_root
  tco_next_validators_hash :: bytes

type_synonym tm_wasm_client_state = "tm_client_state wasm_client_state"

datatype tm_client_error =
    MathOverflow
  | NegativeTimestamp int
  | Unimplemented
  | MerkleProofDecode string
  | ClientStateDecode string
  | IbcHeightTooLargeForTendermintHeight u64
  | RevisionNumberMismatch u64 u64 \<comment> \<open>trusted, header\<close>
  | SignedHeaderHeightMustBeMoreRecent u64 u64
  | InvalidChainId string
  | TrustedValidatorsMismatch bytes bytes
  | VerifyMembership api_error
  | SubstituteClientFrozen
  | MigrateFieldsChanged
  | TendermintVerify tm_error
  | InvalidHostTimestamp u64

section \<open>The host's signature checks\<close>

record ed25519_api =
  \<comment> \<open>\<^verbatim>\<open>Inl\<close> is any error of the host\<close>
  ed25519_verify :: "bytes \<Rightarrow> bytes \<Rightarrow> bytes \<Rightarrow> unit + bool" \<comment> \<open>message, signature, key\<close>
  ed25519_batch_verify :: "bytes list \<Rightarrow> bytes list \<Rightarrow> bytes list \<Rightarrow> unit + bool"

definition ed25519_key :: "public_key \<Rightarrow> (unit, bytes) outcome" where
  "ed25519_key pk = (case pk of Ed25519 key \<Rightarrow> Ok key | _ \<Rightarrow> Err ())"

definition ed25519_host :: "ed25519_api \<Rightarrow> host_fns" where
  "ed25519_host api =
     \<lparr>verify_signature = (\<lambda>pubkey msg sg.
        case pubkey of
          Ed25519 key \<Rightarrow> (case ed25519_verify api msg sg key of Inr res \<Rightarrow> res | Inl _ \<Rightarrow> False)
        | _ \<Rightarrow> False),
      verify_batch_signature = (\<lambda>pubkeys msgs sigs.
        case try_map ed25519_key pubkeys of
          Ok keys \<Rightarrow> (case ed25519_batch_verify api msgs sigs keys of Inr res \<Rightarrow> res | Inl _ \<Rightarrow> False)
        | _ \<Rightarrow> False)\<rparr>"

record tm_world =
  tw_crypto :: crypto
  tw_codec :: tm_codec
  tw_api :: ed25519_api
  tw_wasm :: "(tm_client_state, tm_consensus_state) wasm_codec"
  tw_decode_header :: "bytes \<Rightarrow> string + light_header"
  tw_decode_merkle_proof :: "bytes \<Rightarrow> string + merkle_proof"

section \<open>Metadata\<close>

definition METADATA_SIZE :: nat where
  \<comment> \<open>\<^verbatim>\<open>size_of::<ConsensusStateMetadata>()\<close>: eight bytes and four, aligned to eight\<close>
  "METADATA_SIZE = 16"

definition le_bytes :: "nat \<Rightarrow> int \<Rightarrow> bytes" where
  \<comment> \<open>\<^verbatim>\<open>to_le_bytes\<close> of a signed integer of \<open>k\<close> bytes\<close>
  "le_bytes k n = rev (be_bytes k (nat (n mod 256 ^ k)))"

definition le_value :: "bytes \<Rightarrow> int" where
  \<comment> \<open>\<^verbatim>\<open>from_le_bytes\<close>, two's complement\<close>
  "le_value bs =
     (let v = int (be_value (rev bs)) in if 2 * v < 256 ^ length bs then v else v - 256 ^ length bs)"

definition encode_packed :: "timestamp \<Rightarrow> bytes" where
  "encode_packed t =
     le_bytes 8 (ts_seconds t) @ le_bytes 4 (ts_nanos t) @ replicate (METADATA_SIZE - 12) 0"

definition decode_packed :: "bytes \<Rightarrow> (storage_error, timestamp) outcome" where
  \<comment> \<open>the \<^verbatim>\<open>unwrap\<close> of a bounded integer is a panic out of bounds\<close>
  "decode_packed data =
     (if length data \<noteq> METADATA_SIZE then Err InvalidConsensusStateMetadata
      else expects (ts_make (le_value (take 8 data)) (le_value (take 4 (drop 8 data)))))"

definition get_current_or_prev_consensus_state_meta ::
  "kv_store \<Rightarrow> height \<Rightarrow> (storage_error, (height \<times> timestamp) option) outcome" where
  "get_current_or_prev_consensus_state_meta s h =
     meta_entry decode_packed (kv_last_before s (consensus_state_iterator_key h))"

definition get_current_or_next_consensus_state_meta ::
  "kv_store \<Rightarrow> height \<Rightarrow> (storage_error, (height \<times> timestamp) option) outcome" where
  "get_current_or_next_consensus_state_meta s h =
     meta_entry decode_packed (kv_first_from s (consensus_state_iterator_key h))"

definition save_consensus_state_metadata :: "kv_store \<Rightarrow> timestamp \<Rightarrow> height \<Rightarrow> kv_store" where
  "save_consensus_state_metadata s t h =
     kv_set s (consensus_state_iterator_key h) (encode_packed t)"

section \<open>Helpers\<close>

definition set_total_voting_power :: "validator_set \<Rightarrow> (tm_client_error, validator_set) outcome" where
  \<comment> \<open>\<^verbatim>\<open>checked_add\<close> of \<^verbatim>\<open>i64\<close>; the powers are not negative\<close>
  "set_total_voting_power vals =
     andthen (try_fold
       (\<lambda>acc val. if acc + val_voting_power val \<le> i64_max then Ok (acc + val_voting_power val)
                  else Err MathOverflow)
       0 (vs_validators vals)) (\<lambda>total.
     Ok (vals\<lparr>vs_total_voting_power := total\<rparr>))"

definition migrate_check_allowed_fields :: "tm_client_state \<Rightarrow> tm_client_state \<Rightarrow> bool" where
  "migrate_check_allowed_fields subject substitute \<longleftrightarrow>
     tcs_trust_level subject = tcs_trust_level substitute \<and>
     tcs_unbonding_period subject = tcs_unbonding_period substitute \<and>
     tcs_max_clock_drift subject = tcs_max_clock_drift substitute \<and>
     tcs_proof_specs subject = tcs_proof_specs substitute \<and>
     tcs_upgrade_path subject = tcs_upgrade_path substitute"

definition zero_h256 :: bytes where "zero_h256 = replicate 32 0"

definition construct_partial_header :: "string \<Rightarrow> int \<Rightarrow> timestamp \<Rightarrow> bytes \<Rightarrow> signed_header" where
  "construct_partial_header chain_id height time next_validators_hash =
     \<lparr>sh_header =
        \<lparr>hdr_version = \<lparr>cv_block = 0, cv_app = 0\<rparr>, hdr_chain_id = chain_id, hdr_height = height,
         hdr_time = time, hdr_last_block_id = default_block_id, hdr_last_commit_hash = zero_h256,
         hdr_data_hash = zero_h256, hdr_validators_hash = zero_h256,
         hdr_next_validators_hash = next_validators_hash, hdr_consensus_hash = zero_h256,
         hdr_app_hash = zero_h256, hdr_last_results_hash = zero_h256,
         hdr_evidence_hash = zero_h256, hdr_proposer_address = replicate 20 0\<rparr>,
      sh_commit =
        \<lparr>com_height = height, com_round = 0, com_block_id = default_block_id,
         com_signatures = []\<rparr>\<rparr>"

definition is_client_expired :: "timestamp \<Rightarrow> duration \<Rightarrow> timestamp \<Rightarrow> bool" where
  "is_client_expired consensus_state_timestamp trusting_period current_block_time =
     (case ts_checked_add consensus_state_timestamp trusting_period of
        Some expiry \<Rightarrow> expiry < current_block_time
      | None \<Rightarrow> True)"

definition height_from_header :: "light_header \<Rightarrow> height" where
  "height_from_header h =
     Height (revision_number (lh_trusted_height h))
       (word_of_int (hdr_height (sh_header (lh_signed_header h))))"

definition check_trusted_header ::
  "tm_world \<Rightarrow> light_header \<Rightarrow> bytes \<Rightarrow> (tm_client_error, unit) outcome" where
  "check_trusted_header w h next_validators_hash =
     andthen (validators_hash (tw_crypto w) (tw_codec w) (lh_trusted_validators h)) (\<lambda>val_hash.
     if val_hash \<noteq> next_validators_hash
     then Err (TrustedValidatorsMismatch val_hash next_validators_hash)
     else Ok ())"

definition parse_revision_number :: "string \<Rightarrow> u64 option" where
  \<comment> \<open>what is after the last dash, or everything\<close>
  "parse_revision_number chain_id =
     (case parse_u64 (rev (takeWhile (\<lambda>c. c \<noteq> CHR ''-'') (rev chain_id))) of
        Inr n \<Rightarrow> Some n
      | Inl _ \<Rightarrow> None)"

datatype cosmwasm_timestamp_error =
    CwSeconds bounded_int_error
  | CwSecondsCast

definition ts_from_cosmwasm :: "u64 \<Rightarrow> (cosmwasm_timestamp_error, timestamp) outcome" where
  \<comment> \<open>a \<^verbatim>\<open>cosmwasm_std::Timestamp\<close> is a number of nanoseconds\<close>
  "ts_from_cosmwasm t =
     (let seconds = uint t div nanos_per_second in
      andthen (require (i64_ok seconds) CwSecondsCast) (\<lambda>_.
      andthen (result_or CwSeconds
                 (bounded_int_new timestamp_seconds_min timestamp_seconds_max seconds)) (\<lambda>s.
      andthen (expects (case bounded_int_new 0 nanos_max (uint t mod nanos_per_second) of
                          Inr n \<Rightarrow> Some n | Inl _ \<Rightarrow> None)) (\<lambda>n.
      Ok (Timestamp s n)))))"

definition host_time :: "u64 \<Rightarrow> (tm_client_error client_error, timestamp) outcome" where
  "host_time now = map_err (\<lambda>_. ClientSpecific (InvalidHostTimestamp now)) (ts_from_cosmwasm now)"

section \<open>Operations\<close>

abbreviation read_client ::
  "tm_world \<Rightarrow> kv_store \<Rightarrow> string \<Rightarrow> (tm_client_error client_error, tm_wasm_client_state) outcome" where
  "read_client w \<equiv> read_prefixed_client_state (tw_wasm w)"

abbreviation read_consensus ::
  "tm_world \<Rightarrow> kv_store \<Rightarrow> height \<Rightarrow> string \<Rightarrow>
   (tm_client_error client_error, tm_consensus_state option) outcome" where
  "read_consensus w \<equiv> read_prefixed_consensus_state (tw_wasm w)"

definition consensus_at ::
  "tm_world \<Rightarrow> kv_store \<Rightarrow> height \<Rightarrow> (tm_client_error client_error, tm_consensus_state) outcome" where
  \<comment> \<open>\<^verbatim>\<open>read_consensus_state(..)?.ok_or(ConsensusStateNotFound(height))\<close>\<close>
  "consensus_at w s h =
     andthen (read_consensus w s h no_prefix) (\<lambda>c. some_or c (NoConsensusState h))"

definition tm_verify_membership ::
  "tm_world \<Rightarrow> kv_store \<Rightarrow> height \<Rightarrow> u64 \<Rightarrow> u64 \<Rightarrow> bytes \<Rightarrow> merkle_path \<Rightarrow> storage_state \<Rightarrow>
   (tm_client_error client_error, unit) outcome" where
  "tm_verify_membership w s h delay_time delay_block proof_bytes path value =
     andthen (consensus_at w s h) (\<lambda>consensus_state.
     andthen (result_or (\<lambda>e. ClientSpecific (MerkleProofDecode e))
                (tw_decode_merkle_proof w proof_bytes)) (\<lambda>merkle_proof.
     map_err (\<lambda>e. ClientSpecific (VerifyMembership e))
       (case value of
          Occupied v \<Rightarrow>
            Ics23_Api.verify_membership (tw_crypto w) merkle_proof sdk_specs
              (tco_root consensus_state) (map str_bytes path) v
        | Empty \<Rightarrow>
            verify_non_membership (tw_crypto w) merkle_proof sdk_specs
              (tco_root consensus_state) (map str_bytes path))))"

definition tm_verify_header ::
  "tm_world \<Rightarrow> kv_store \<Rightarrow> u64 \<Rightarrow> light_header \<Rightarrow> (tm_client_error client_error, unit) outcome" where
  "tm_verify_header w s now h =
     andthen (map_err ClientSpecific (set_total_voting_power (lh_validator_set h))) (\<lambda>vals.
     andthen (map_err ClientSpecific (set_total_voting_power (lh_trusted_validators h))) (\<lambda>trusted_vals.
     let header = h\<lparr>lh_validator_set := vals, lh_trusted_validators := trusted_vals\<rparr> in
     andthen (read_client w s no_prefix) (\<lambda>client_state.
     andthen (consensus_at w s (lh_trusted_height header)) (\<lambda>consensus_state.
     andthen (map_err ClientSpecific
                (check_trusted_header w header (tco_next_validators_hash consensus_state))) (\<lambda>_.
     let uh = sh_header (lh_signed_header header); trusted_height = lh_trusted_height header in
     andthen (some_or (parse_revision_number (hdr_chain_id uh))
                (ClientSpecific (InvalidChainId (hdr_chain_id uh)))) (\<lambda>rev_number.
     if rev_number \<noteq> revision_number trusted_height then
       Err (ClientSpecific (RevisionNumberMismatch rev_number (revision_number trusted_height)))
     else
       let signed_height = word_of_int (hdr_height uh) :: u64 in
       if signed_height \<le> revision_height trusted_height then
         Err (ClientSpecific (SignedHeaderHeightMustBeMoreRecent signed_height
                (revision_height trusted_height)))
       else
         andthen (require (uint (revision_height trusted_height) \<le> i64_max)
                    (ClientSpecific (IbcHeightTooLargeForTendermintHeight
                       (revision_height trusted_height)))) (\<lambda>_.
         andthen (host_time now) (\<lambda>time.
         map_err (\<lambda>e. ClientSpecific (TendermintVerify e))
           (tm_verify (tw_crypto w) (tw_codec w) (ed25519_host (tw_api w))
              (construct_partial_header (tcs_chain_id (wcs_data client_state))
                 (uint (revision_height trusted_height)) (tco_timestamp consensus_state)
                 (tco_next_validators_hash consensus_state))
              (lh_trusted_validators header) (lh_signed_header header) (lh_validator_set header)
              (tcs_trusting_period (wcs_data client_state)) time
              (tcs_max_clock_drift (wcs_data client_state))
              (tcs_trust_level (wcs_data client_state)))))))))))"

definition tm_update_state ::
  "tm_world \<Rightarrow> kv_store \<Rightarrow> u64 \<Rightarrow> light_header \<Rightarrow>
   (tm_client_error client_error, height list \<times> kv_store) outcome" where
  "tm_update_state w s now header =
     (let update_height = height_from_header header; uh = sh_header (lh_signed_header header) in
     andthen (read_consensus w s update_height no_prefix) (\<lambda>existing.
     if existing \<noteq> None then Ok ([update_height], s)
     else
       andthen (read_client w s no_prefix) (\<lambda>client_state.
       let client_state =
             (if wcs_latest_height client_state < update_height
              then client_state\<lparr>wcs_latest_height := update_height,
                     wcs_data := (wcs_data client_state)\<lparr>tcs_latest_height := update_height\<rparr>\<rparr>
              else client_state);
           s = save_prefixed_client_state (tw_wasm w) s no_prefix client_state;
           s = save_consensus_state_metadata s (hdr_time uh) update_height;
           s = save_prefixed_consensus_state (tw_wasm w) s no_prefix
                 \<lparr>tco_timestamp = hdr_time uh, tco_root = \<lparr>mr_hash = hdr_app_hash uh\<rparr>,
                  tco_next_validators_hash = hdr_next_validators_hash uh\<rparr> update_height
       in Ok ([update_height], s))))"

definition tm_check_for_misbehaviour_on_header ::
  "tm_world \<Rightarrow> kv_store \<Rightarrow> light_header \<Rightarrow> (tm_client_error client_error, bool) outcome" where
  "tm_check_for_misbehaviour_on_header w s header =
     (let height = height_from_header header; uh = sh_header (lh_signed_header header) in
     andthen (read_consensus w s height no_prefix) (\<lambda>existing.
     case existing of
       Some c \<Rightarrow>
         Ok (tco_timestamp c \<noteq> hdr_time uh \<or> mr_hash (tco_root c) \<noteq> hdr_app_hash uh \<or>
             tco_next_validators_hash c \<noteq> hdr_next_validators_hash uh)
     | None \<Rightarrow>
         neighbour_conflict (get_current_or_next_consensus_state_meta s height)
           (get_current_or_prev_consensus_state_meta s height) (hdr_time uh)))"

definition tm_migrate_client_store ::
  "tm_world \<Rightarrow> kv_store \<Rightarrow> (tm_client_error client_error, kv_store) outcome" where
  "tm_migrate_client_store w s =
     andthen (read_client w s SUBJECT_CLIENT_STORE_PREFIX) (\<lambda>subject.
     andthen (read_client w s SUBSTITUTE_CLIENT_STORE_PREFIX) (\<lambda>substitute.
     andthen (require (case_option ZERO_HEIGHT id (tcs_frozen_height (wcs_data substitute)) = ZERO_HEIGHT)
                (ClientSpecific SubstituteClientFrozen)) (\<lambda>_.
     andthen (require (migrate_check_allowed_fields (wcs_data subject) (wcs_data substitute))
                (ClientSpecific MigrateFieldsChanged)) (\<lambda>_.
     andthen (read_consensus w s (wcs_latest_height substitute) SUBSTITUTE_CLIENT_STORE_PREFIX) (\<lambda>c.
     andthen (some_or c (NoConsensusState (wcs_latest_height substitute))) (\<lambda>consensus.
     let s = save_consensus_state_metadata s (tco_timestamp consensus) (wcs_latest_height substitute);
         s = save_prefixed_consensus_state (tw_wasm w) s SUBJECT_CLIENT_STORE_PREFIX consensus
               (wcs_latest_height substitute);
         scs = wcs_data substitute;
         s = save_prefixed_client_state (tw_wasm w) s SUBJECT_CLIENT_STORE_PREFIX
               \<lparr>wcs_data = (wcs_data subject)\<lparr>tcs_chain_id := tcs_chain_id scs,
                  tcs_trusting_period := tcs_trusting_period scs,
                  tcs_latest_height := tcs_latest_height scs, tcs_frozen_height := None\<rparr>,
                wcs_checksum = wcs_checksum subject, wcs_latest_height = tcs_latest_height scs\<rparr>
     in Ok s))))))"

definition tm_status ::
  "tm_world \<Rightarrow> kv_store \<Rightarrow> u64 \<Rightarrow> (tm_client_error client_error, wasm_status) outcome" where
  "tm_status w s now =
     andthen (read_client w s no_prefix) (\<lambda>client_state.
     if case_option ZERO_HEIGHT id (tcs_frozen_height (wcs_data client_state)) \<noteq> ZERO_HEIGHT
     then Ok StFrozen
     else
       andthen (read_consensus w s (wcs_latest_height client_state) no_prefix) (\<lambda>c.
       case c of
         None \<Rightarrow> Ok StExpired
       | Some consensus_state \<Rightarrow>
           andthen (host_time now) (\<lambda>time.
           Ok (if is_client_expired (tco_timestamp consensus_state)
                    (tcs_trusting_period (wcs_data client_state)) time
               then StExpired else StActive))))"

definition tm_timestamp_at_height ::
  "tm_world \<Rightarrow> kv_store \<Rightarrow> height \<Rightarrow> (tm_client_error client_error, u64) outcome" where
  \<comment> \<open>the seconds of the timestamp\<close>
  "tm_timestamp_at_height w s h =
     andthen (consensus_at w s h) (\<lambda>c.
     let timestamp = ts_seconds (tco_timestamp c) in
     if timestamp < 0 then Err (ClientSpecific (NegativeTimestamp timestamp))
     else Ok (word_of_int timestamp))"

definition tendermint_light_client ::
  "tm_world \<Rightarrow> (light_header, tm_client_state, tm_consensus_state, tm_client_error) ibc_client" where
  "tendermint_light_client w =
     \<lparr>ic_decode_header = tw_decode_header w, ic_decode_misbehaviour = tw_decode_header w,
      ic_decode_client_state = client_decode (tw_wasm w),
      ic_decode_consensus_state = consensus_decode (tw_wasm w),
      ic_verify_membership = tm_verify_membership w,
      ic_verify_header = tm_verify_header w,
      ic_verify_misbehaviour = (\<lambda>_ _ _. Err (ClientSpecific Unimplemented)),
      ic_update_state = tm_update_state w,
      ic_update_state_on_misbehaviour = (\<lambda>_ _ _. Err (ClientSpecific Unimplemented)),
      ic_check_for_misbehaviour_on_header = tm_check_for_misbehaviour_on_header w,
      ic_check_for_misbehaviour_on_misbehaviour = (\<lambda>_ _. Err (ClientSpecific Unimplemented)),
      ic_verify_upgrade_and_update_state = (\<lambda>_ _ _ _ _. Err (ClientSpecific Unimplemented)),
      ic_migrate_client_store = tm_migrate_client_store w,
      ic_status = tm_status w,
      ic_export_metadata = (\<lambda>_ _. Ok []),
      ic_timestamp_at_height = tm_timestamp_at_height w\<rparr>"

section \<open>Instantiation\<close>

definition tm_instantiate ::
  "tm_world \<Rightarrow> kv_store \<Rightarrow> instantiate_msg \<Rightarrow> (tm_client_error, kv_store) outcome" where
  "tm_instantiate w s msg =
     andthen (result_or ClientStateDecode (client_decode (tw_wasm w) (im_client_state msg))) (\<lambda>client_state.
     let s = save_proto_consensus_state (tw_wasm w) s (im_consensus_state msg)
               (tcs_latest_height client_state)
     in Ok (save_proto_client_state (tw_wasm w) s
              \<lparr>pwcs_data = im_client_state msg, pwcs_checksum = im_checksum msg,
               pwcs_latest_height = Some (tcs_latest_height client_state)\<rparr>))"

end
