(* ===== verification/Tm_System.thy ===== *)
theory Tm_System imports Tm_Client begin

text \<open>
  A Tendermint client under its host: instantiated on an empty store, then updated with messages the
  host has verified and checked for misbehaviour. The invariant says what the store holds; from it,
  the consensus states of every reachable store are ordered in time as they are in height.
\<close>

section \<open>Metadata bytes\<close>

lemma le_value_bytes:
  assumes "- (256 ^ k) \<le> 2 * n" "2 * n < 256 ^ k"
  shows "le_value (le_bytes k n) = n"
proof -
  have m: "0 \<le> n mod 256 ^ k" "n mod 256 ^ k < 256 ^ k" by simp_all
  then have "nat (n mod 256 ^ k) < 256 ^ k" by (simp add: nat_less_iff)
  then have v: "int (be_value (rev (le_bytes k n))) = n mod 256 ^ k"
    using m(1) by (simp add: le_bytes_def be_value_be_bytes)
  have l: "length (le_bytes k n) = k" by (simp add: le_bytes_def)
  show ?thesis
  proof (cases "0 \<le> n")
    case True
    with assms have "n mod 256 ^ k = n" by (simp add: mod_pos_pos_trivial)
    with v l assms show ?thesis by (simp add: le_value_def Let_def)
  next
    case False
    have "n mod 256 ^ k = (n + 256 ^ k) mod 256 ^ k" by simp
    also have "\<dots> = n + 256 ^ k" using False assms by (intro mod_pos_pos_trivial) auto
    finally have "n mod 256 ^ k = n + 256 ^ k" .
    with v l assms show ?thesis by (simp add: le_value_def Let_def)
  qed
qed

lemma decode_encode_packed: "wf_timestamp t \<Longrightarrow> decode_packed (encode_packed t) = Ok t"
proof -
  assume wf: "wf_timestamp t"
  have l: "length (le_bytes 8 x) = 8" "length (le_bytes 4 x) = 4" for x by (simp_all add: le_bytes_def)
  have "le_value (le_bytes 8 (ts_seconds t)) = ts_seconds t" "le_value (le_bytes 4 (ts_nanos t)) = ts_nanos t"
    using wf by (auto intro!: le_value_bytes simp: wf_timestamp_def)
  with wf l show ?thesis
    by (cases t) (simp add: decode_packed_def encode_packed_def METADATA_SIZE_def ts_make_def wf_timestamp_def)
qed

section \<open>The host's signatures\<close>

text \<open>The contract of the host's Ed25519 functions, and what it gives the verifier.\<close>

locale ed25519_host_laws =
  fixes api :: ed25519_api
  assumes batch_verify:
    "ed25519_batch_verify api (map fst ts) (map (fst \<circ> snd) ts) (map (snd \<circ> snd) ts) = Inr True \<longleftrightarrow>
       (\<forall>(msg, sg, key) \<in> set ts. ed25519_verify api msg sg key = Inr True)"
begin

lemma ed25519_keys:
  "try_map ed25519_key pks = Ok keys \<longleftrightarrow> pks = map Ed25519 keys"
  by (induction pks arbitrary: keys) (auto simp: outcome_ok ed25519_key_def split: public_key.splits)

lemma verify_ed25519:
  "verify_signature (ed25519_host api) pk msg sg \<longleftrightarrow>
     (\<exists>key. pk = Ed25519 key \<and> ed25519_verify api msg sg key = Inr True)"
  by (cases pk; cases "ed25519_verify api msg sg (case pk of Ed25519 k \<Rightarrow> k)") (auto simp: ed25519_host_def)

lemma ed25519_lawful: "lawful_host (ed25519_host api)"
proof
  fix ts :: "(public_key \<times> bytes \<times> bytes) list"
  show "verify_batch_signature (ed25519_host api) (map fst ts) (map (fst \<circ> snd) ts) (map (snd \<circ> snd) ts) \<longleftrightarrow>
      (\<forall>(pk, msg, sg) \<in> set ts. verify_signature (ed25519_host api) pk msg sg)"
  proof (cases "\<exists>keys. map fst ts = map Ed25519 keys")
    case True
    then obtain keys where keys: "map fst ts = map Ed25519 keys" by blast
    let ?us = "map (\<lambda>(pk, msg, sg). (msg, sg, case pk of Ed25519 k \<Rightarrow> k | _ \<Rightarrow> [])) ts"
    have k: "map (snd \<circ> snd) ?us = keys"
    proof (rule nth_equalityI)
      show "length (map (snd \<circ> snd) ?us) = length keys" using arg_cong [OF keys, of length] by simp
      fix i assume "i < length (map (snd \<circ> snd) ?us)"
      then have "fst (ts ! i) = Ed25519 (keys ! i)"
        using arg_cong [OF keys, of "\<lambda>l. l ! i"] arg_cong [OF keys, of length] by simp
      then show "map (snd \<circ> snd) ?us ! i = keys ! i"
        using \<open>i < length _\<close> by (auto split: prod.splits)
    qed
    have m: "map fst ?us = map (fst \<circ> snd) ts" "map (fst \<circ> snd) ?us = map (snd \<circ> snd) ts" by auto
    have ed: "\<exists>key. pk = Ed25519 key" if "(pk, r) \<in> set ts" for pk r
    proof -
      from that have "pk \<in> set (map fst ts)" by force
      then show ?thesis unfolding keys by auto
    qed
    have "try_map ed25519_key (map fst ts) = Ok keys" by (simp add: keys ed25519_keys)
    then have "verify_batch_signature (ed25519_host api) (map fst ts) (map (fst \<circ> snd) ts) (map (snd \<circ> snd) ts) \<longleftrightarrow>
        ed25519_batch_verify api (map fst ?us) (map (fst \<circ> snd) ?us) (map (snd \<circ> snd) ?us) = Inr True"
      unfolding k m by (auto simp: ed25519_host_def split: sum.splits)
    also have "\<dots> \<longleftrightarrow> (\<forall>(msg, sg, key) \<in> set ?us. ed25519_verify api msg sg key = Inr True)"
      by (rule batch_verify)
    also have "\<dots> \<longleftrightarrow> (\<forall>(pk, msg, sg) \<in> set ts. verify_signature (ed25519_host api) pk msg sg)"
    proof -
      have "(case (case t of (pk, msg, sg) \<Rightarrow> (msg, sg, case pk of Ed25519 k \<Rightarrow> k | _ \<Rightarrow> [])) of
            (msg, sg, key) \<Rightarrow> ed25519_verify api msg sg key = Inr True) \<longleftrightarrow>
          (case t of (pk, msg, sg) \<Rightarrow> verify_signature (ed25519_host api) pk msg sg)"
        if "t \<in> set ts" for t
        using ed [of "fst t" "snd t"] that by (cases t) (auto simp: verify_ed25519)
      then have "(\<forall>t \<in> set ts.
            case (case t of (pk, msg, sg) \<Rightarrow> (msg, sg, case pk of Ed25519 k \<Rightarrow> k | _ \<Rightarrow> [])) of
              (msg, sg, key) \<Rightarrow> ed25519_verify api msg sg key = Inr True) \<longleftrightarrow>
          (\<forall>t \<in> set ts. case t of (pk, msg, sg) \<Rightarrow> verify_signature (ed25519_host api) pk msg sg)"
        by (intro ball_cong [OF refl])
      then show ?thesis by (simp only: set_map ball_simps(9))
    qed
    finally show ?thesis .
  next
    case False
    then have f: "try_map ed25519_key (map fst ts) \<noteq> Ok keys" for keys by (simp add: ed25519_keys)
    from False obtain t where "t \<in> set ts" "\<forall>key. fst t \<noteq> Ed25519 key"
      unfolding ex_map_conv by auto
    then have "\<not> (\<forall>(pk, msg, sg) \<in> set ts. verify_signature (ed25519_host api) pk msg sg)"
      by (intro notI, drule_tac x = t in bspec) (auto simp: verify_ed25519)
    moreover have "\<not> verify_batch_signature (ed25519_host api) (map fst ts) (map (fst \<circ> snd) ts) (map (snd \<circ> snd) ts)"
      using f by (auto simp: ed25519_host_def split: outcome.splits)
    ultimately show ?thesis by simp
  qed
qed

end

sublocale ed25519_host_laws \<subseteq>
  host: signature_host "verify_signature (ed25519_host api)" "verify_batch_signature (ed25519_host api)"
  by (rule ed25519_lawful)

section \<open>The laws of the encodings\<close>

lemma decode_packed_size: "length b \<noteq> METADATA_SIZE \<Longrightarrow> \<exists>e. decode_packed b = Err e"
  by (simp add: decode_packed_def)

definition wf_tm_consensus :: "tm_consensus_state \<Rightarrow> bool" where
  "wf_tm_consensus c \<longleftrightarrow> wf_timestamp (tco_timestamp c) \<and> length (mr_hash (tco_root c)) = 32 \<and>
     length (tco_next_validators_hash c) = 32"

locale tm_client =
  wasm_laws "tw_wasm w" wf_client wf_tm_consensus
  for w :: tm_world and wf_client :: "tm_client_state \<Rightarrow> bool" +
  assumes decoded_client: "client_decode (tw_wasm w) b = Inr cs \<Longrightarrow> wf_client cs"
    and decoded_consensus: "consensus_decode (tw_wasm w) b = Inr c \<Longrightarrow> wf_tm_consensus c"
    and decoded_header: "tw_decode_header w b = Inr hdr \<Longrightarrow> wf_light_header hdr"
    and consensus_long: "length (any_consensus_encode (tw_wasm w) d) \<noteq> METADATA_SIZE"
    and client_latest: "wf_client cs \<Longrightarrow> wf_client (cs\<lparr>tcs_latest_height := h\<rparr>)"

sublocale tm_client \<subseteq>
  history: client_history "tw_wasm w" wf_client wf_tm_consensus tcs_latest_height tco_timestamp
    encode_packed decode_packed METADATA_SIZE
  by unfold_locales
    (auto simp: decode_encode_packed decode_packed_size wf_tm_consensus_def consensus_long
      decoded_consensus [unfolded wf_tm_consensus_def] dest: decoded_client)

section \<open>The host's calls\<close>

inductive tm_reachable :: "tm_world \<Rightarrow> kv_store \<Rightarrow> bool" for w :: tm_world where
  start: "\<lbrakk>consensus_decode (tw_wasm w) (im_consensus_state msg) = Inr c; length (im_checksum msg) = 32;
           tm_instantiate w [] msg = Ok s\<rbrakk> \<Longrightarrow> tm_reachable w s"
| update: "\<lbrakk>tm_reachable w s;
            query (tendermint_light_client w) s now (QueryVerifyClientMessage m) = Ok ReplyUnit;
            query (tendermint_light_client w) s now (QueryCheckForMisbehaviour m) =
              Ok (ReplyCheckForMisbehaviour False);
            sudo (tendermint_light_client w) s now (SudoUpdateState m) = Ok (r, s')\<rbrakk> \<Longrightarrow>
           tm_reachable w s'"

abbreviation stored :: "tm_world \<Rightarrow> kv_store \<Rightarrow> height \<Rightarrow> tm_consensus_state option" where
  "stored w \<equiv> stored_at (tw_wasm w)"

text \<open>What an accepted header was compared with.\<close>

lemma verified_header:
  assumes "tm_verify_header w s now hdr = Ok ()"
  shows "\<exists>c. stored w s (lh_trusted_height hdr) = Some c \<and>
    lh_trusted_height hdr < height_from_header hdr \<and>
    tco_timestamp c < hdr_time (sh_header (lh_signed_header hdr))"
  using assms
  by (cases "lh_trusted_height hdr")
    (auto simp: tm_verify_header_def Let_def outcome_ok consensus_at_def tm_verify_Ok
      verify_new_headers_and_vals_Ok construct_partial_header_def height_from_header_def
      height_less_iff not_le dest!: stored_at_read)

definition header_consensus :: "light_header \<Rightarrow> tm_consensus_state" where
  "header_consensus hdr =
     (let uh = sh_header (lh_signed_header hdr) in
      \<lparr>tco_timestamp = hdr_time uh, tco_root = \<lparr>mr_hash = hdr_app_hash uh\<rparr>,
       tco_next_validators_hash = hdr_next_validators_hash uh\<rparr>)"

lemma header_consensus_wf: "wf_light_header hdr \<Longrightarrow> wf_tm_consensus (header_consensus hdr)"
  by (simp add: wf_light_header_def wf_signed_header_def wf_header_def wf_tm_consensus_def
      header_consensus_def Let_def)

context tm_client begin

lemma misbehaviour_conflict:
  assumes inv: "history.history_inv s"
  shows "tm_check_for_misbehaviour_on_header w s hdr =
    (case stored w s (height_from_header hdr) of
       Some c \<Rightarrow> Ok (c \<noteq> header_consensus hdr)
     | None \<Rightarrow>
         neighbour_conflict (meta_entry decode_packed (kv_first_from s (consensus_state_iterator_key (height_from_header hdr))))
           (meta_entry decode_packed (kv_last_before s (consensus_state_iterator_key (height_from_header hdr))))
           (tco_timestamp (header_consensus hdr)))"
proof (cases "stored w s (height_from_header hdr)")
  case (Some d)
  have "d = \<lparr>tco_timestamp = t, tco_root = \<lparr>mr_hash = r\<rparr>, tco_next_validators_hash = v\<rparr> \<longleftrightarrow>
      tco_timestamp d = t \<and> mr_hash (tco_root d) = r \<and> tco_next_validators_hash d = v" for t r v
    by (auto intro!: tm_consensus_state.equality merkle_root.equality)
  with Some show ?thesis
    by (simp add: tm_check_for_misbehaviour_on_header_def history.inv_read [OF inv] header_consensus_def Let_def)
qed (simp add: tm_check_for_misbehaviour_on_header_def history.inv_read [OF inv] header_consensus_def
    get_current_or_next_consensus_state_meta_def get_current_or_prev_consensus_state_meta_def Let_def)

lemma update_put_states:
  assumes inv: "history.history_inv s" and ok: "tm_update_state w s now hdr = Ok (hs, s')"
    and new: "stored w s (height_from_header hdr) = None"
  shows "\<exists>v. client_at (tw_wasm w) s = Some v \<and>
    s' = history.put_states
      (raised (\<lambda>h cs. cs\<lparr>tcs_latest_height := h\<rparr>) (height_from_header hdr) v)
      (header_consensus hdr) (height_from_header hdr) s"
proof -
  obtain v where v: "read_client w s no_prefix = Ok v"
    using ok new by (auto simp: tm_update_state_def history.inv_read [OF inv] Let_def outcome_ok)
  then have "client_at (tw_wasm w) s = Some v" by (rule client_at_Some [THEN iffD2])
  with ok new v show ?thesis
    by (simp add: tm_update_state_def history.inv_read [OF inv] Let_def history.put_states_def
        raised_def header_consensus_def save_consensus_state_metadata_def)
qed

lemma update_inv:
  assumes inv: "history.history_inv s" and wf: "wf_light_header hdr"
    and verified: "tm_verify_header w s now hdr = Ok ()"
    and honest: "tm_check_for_misbehaviour_on_header w s hdr = Ok False"
    and ok: "tm_update_state w s now hdr = Ok (hs, s')"
  shows "history.history_inv s'"
proof (cases "stored w s (height_from_header hdr)")
  case (Some c)
  with ok inv show ?thesis by (simp add: tm_update_state_def history.inv_read [OF inv] Let_def)
next
  case None
  obtain v where v: "client_at (tw_wasm w) s = Some v" and
    s': "s' = history.put_states
      (raised (\<lambda>h cs. cs\<lparr>tcs_latest_height := h\<rparr>) (height_from_header hdr) v)
      (header_consensus hdr) (height_from_header hdr) s"
    using update_put_states [OF inv ok None] by blast
  obtain ct where ct: "stored w s (lh_trusted_height hdr) = Some ct"
    "lh_trusted_height hdr < height_from_header hdr" "tco_timestamp ct < tco_timestamp (header_consensus hdr)"
    using verified_header [OF verified] by (auto simp: header_consensus_def Let_def)
  show ?thesis
    unfolding s'
    by (rule history.update_inv [OF inv v header_consensus_wf [OF wf] _ ct])
      (use None honest client_latest in \<open>auto simp: misbehaviour_conflict [OF inv]\<close>)
qed

lemma start_reads:
  assumes c: "consensus_decode (tw_wasm w) (im_consensus_state msg) = Inr c"
    and cs: "client_decode (tw_wasm w) (im_client_state msg) = Inr cs"
    and checksum: "length (im_checksum msg) = 32" and ok: "tm_instantiate w [] msg = Ok s"
  shows "stored w s = [tcs_latest_height cs \<mapsto> c]"
    "client_at (tw_wasm w) s =
       Some \<lparr>wcs_data = cs, wcs_checksum = im_checksum msg, wcs_latest_height = tcs_latest_height cs\<rparr>"
    "meta_at s h = None" "history.history_inv s"
  using history.start_states [OF c cs checksum] ok cs
  by (auto simp: tm_instantiate_def Let_def outcome_ok)

lemma reachable_inv: "tm_reachable w s \<Longrightarrow> history.history_inv s"
proof (induction rule: tm_reachable.induct)
  case (start msg c s)
  then obtain cs where "client_decode (tw_wasm w) (im_client_state msg) = Inr cs"
    by (auto simp: tm_instantiate_def outcome_ok)
  with start show ?case by (intro start_reads(4))
next
  case (update s now m r s')
  then obtain hdr where hdr: "tw_decode_header w m = Inr hdr"
    by (auto simp: tendermint_light_client_def split: sum.splits)
  from update hdr obtain hs where "tm_verify_header w s now hdr = Ok ()"
    "tm_check_for_misbehaviour_on_header w s hdr = Ok False" "tm_update_state w s now hdr = Ok (hs, s')"
    by (auto simp: tendermint_light_client_def outcome_ok)
  with update.IH decoded_header [OF hdr] show ?case by (blast intro: update_inv)
qed

text \<open>What the invariant says of the stores the host can reach.\<close>

lemma history_ordered:
  assumes "tm_reachable w s" "stored w s h = Some c" "stored w s h' = Some c'" "h < h'"
  shows "tco_timestamp c < tco_timestamp c'"
  using history.inv_mono [OF reachable_inv [OF assms(1)], of h h'] assms(2-4)
  by (simp add: history.time_at_def)

lemma misbehaviour:
  assumes "tm_reachable w s"
  shows "\<exists>h0. stored w s h0 \<noteq> None \<and> (\<forall>h. stored w s h \<noteq> None \<longrightarrow> h0 \<le> h) \<and>
    (\<forall>hdr. \<exists>b. tm_check_for_misbehaviour_on_header w s hdr = Ok b \<and>
      (b \<longleftrightarrow>
        (case stored w s (height_from_header hdr) of
           Some c \<Rightarrow> c \<noteq> header_consensus hdr
         | None \<Rightarrow>
             (\<exists>n c. stored w s n = Some c \<and> n \<noteq> h0 \<and>
               (height_from_header hdr \<le> n \<and> tco_timestamp c \<le> tco_timestamp (header_consensus hdr) \<or>
                n < height_from_header hdr \<and> tco_timestamp (header_consensus hdr) \<le> tco_timestamp c)))))"
proof -
  note inv = reachable_inv [OF assms]
  obtain h0 where h0: "stored w s h0 \<noteq> None" "\<And>n. stored w s n \<noteq> None \<Longrightarrow> h0 \<le> n"
    and exact: "\<And>h t. (\<exists>n. meta_at s n \<noteq> None \<and>
        (h \<le> n \<and> history.time_at s n \<le> t \<or> n < h \<and> t \<le> history.time_at s n)) \<longleftrightarrow>
       (\<exists>n c. stored w s n = Some c \<and> n \<noteq> h0 \<and>
         (h \<le> n \<and> tco_timestamp c \<le> t \<or> n < h \<and> t \<le> tco_timestamp c))"
    using history.conflict_stored [OF inv] by blast
  have "\<exists>b. tm_check_for_misbehaviour_on_header w s hdr = Ok b \<and>
      (b \<longleftrightarrow>
        (case stored w s (height_from_header hdr) of
           Some c \<Rightarrow> c \<noteq> header_consensus hdr
         | None \<Rightarrow>
             (\<exists>n c. stored w s n = Some c \<and> n \<noteq> h0 \<and>
               (height_from_header hdr \<le> n \<and> tco_timestamp c \<le> tco_timestamp (header_consensus hdr) \<or>
                n < height_from_header hdr \<and> tco_timestamp (header_consensus hdr) \<le> tco_timestamp c))))" for hdr
    using history.conflict_exact [OF inv, of "height_from_header hdr" "tco_timestamp (header_consensus hdr)"
      "tm_check_for_misbehaviour_on_header w s hdr"] misbehaviour_conflict [OF inv, of hdr]
    by (cases "stored w s (height_from_header hdr)") (simp_all add: exact del: not_None_eq)
  with h0 show ?thesis by blast
qed

lemma history_facts:
  assumes "tm_reachable w s"
  shows "(\<forall>h. kv_get s (str_bytes (consensus_db_key h)) \<noteq> None \<longrightarrow> stored w s h \<noteq> None) \<and>
    (\<exists>v. read_client w s no_prefix = Ok v \<and> tcs_latest_height (wcs_data v) = wcs_latest_height v \<and>
       stored w s (wcs_latest_height v) \<noteq> None \<and>
       (\<forall>h. stored w s h \<noteq> None \<longrightarrow> h \<le> wcs_latest_height v))"
proof -
  note inv = reachable_inv [OF assms]
  obtain v where v: "client_at (tw_wasm w) s = Some v" "tcs_latest_height (wcs_data v) = wcs_latest_height v"
    "stored w s (wcs_latest_height v) \<noteq> None" "\<And>h. stored w s h \<noteq> None \<Longrightarrow> h \<le> wcs_latest_height v"
    using history.inv_client [OF inv] by blast
  have "read_client w s no_prefix = Ok v" by (rule client_at_Some [THEN iffD1, OF v(1)])
  with v(2-4) history.inv_decodes [OF inv] show ?thesis by blast
qed

lemma update_stores:
  assumes "tm_reachable w s" "wf_light_header hdr" "stored w s (height_from_header hdr) = None"
    and ok: "tm_update_state w s now hdr = Ok (hs, s')"
  shows "hs = [height_from_header hdr] \<and>
    stored w s' = (stored w s)(height_from_header hdr \<mapsto> header_consensus hdr) \<and>
    (\<exists>v v'. read_client w s no_prefix = Ok v \<and> read_client w s' no_prefix = Ok v' \<and>
       wcs_latest_height v' = max (wcs_latest_height v) (height_from_header hdr) \<and>
       wcs_checksum v' = wcs_checksum v \<and>
       wcs_data v' = (wcs_data v)\<lparr>tcs_latest_height := wcs_latest_height v'\<rparr>)"
proof -
  note inv = reachable_inv [OF assms(1)] and wf = header_consensus_wf [OF assms(2)]
  let ?h = "height_from_header hdr" and ?set = "\<lambda>h cs. cs\<lparr>tcs_latest_height := h\<rparr>"
  obtain v where v: "client_at (tw_wasm w) s = Some v"
    and s': "s' = history.put_states (raised ?set ?h v) (header_consensus hdr) ?h s"
    using update_put_states [OF inv ok assms(3)] by blast
  have c: "wf_client (wcs_data v)" "length (wcs_checksum v) = 32"
    "tcs_latest_height (wcs_data v) = wcs_latest_height v"
    using history.client_wf [OF v] history.inv_client [OF inv] v by auto
  then have "wf_client (wcs_data (raised ?set ?h v))" "length (wcs_checksum (raised ?set ?h v)) = 32"
    using client_latest by (auto simp: raised_def)
  note puts = history.put_states [OF this wf, where h = ?h and s = s]
  have "hs = [?h]"
    using ok by (auto simp: tm_update_state_def Let_def outcome_ok split: if_splits)
  moreover have "stored w s' = (stored w s)(?h \<mapsto> header_consensus hdr)"
    unfolding s' using puts(2) by (intro ext) simp
  moreover have "read_client w s no_prefix = Ok v" "read_client w s' no_prefix = Ok (raised ?set ?h v)"
    using v puts(1) unfolding s' by (auto intro: client_at_Some [THEN iffD1])
  moreover have "(wcs_data v)\<lparr>tcs_latest_height := wcs_latest_height v\<rparr> = wcs_data v"
    using c(3) by (cases "wcs_data v") simp
  ultimately show ?thesis by (auto simp: raised_def max_def)
qed

end

end
