(* ===== verification/Wasm_Example.thy ===== *)
theory Wasm_Example imports Wasm_Client Example_Codec begin

text \<open>
  Concrete bytes for heights and for the wrapped client state, used by the example worlds of the
  light clients.
\<close>

definition pack_height :: "height \<Rightarrow> bytes" where
  "pack_height h = pack [u64_to_be_bytes (revision_number h), u64_to_be_bytes (revision_height h)]"

definition unpack_height :: "bytes \<Rightarrow> height option" where
  "unpack_height b =
     (case unpack b of
        Some [n, h] \<Rightarrow>
          (case (u64_from_be_bytes n, u64_from_be_bytes h) of
             (Some n, Some h) \<Rightarrow> Some (Height n h)
           | _ \<Rightarrow> None)
      | _ \<Rightarrow> None)"

lemma unpack_pack_height [simp]: "unpack_height (pack_height h) = Some h"
  by (simp add: unpack_height_def pack_height_def)

definition pack_wasm :: "proto_wasm_client_state \<Rightarrow> bytes" where
  "pack_wasm p =
     pack [pwcs_data p, pwcs_checksum p, pack_option (map_option pack_height (pwcs_latest_height p))]"

definition unpack_wasm :: "bytes \<Rightarrow> string + proto_wasm_client_state" where
  "unpack_wasm b =
     (case unpack b of
        Some [d, c, h] \<Rightarrow>
          (case unpack_option h of
             Some None \<Rightarrow> Inr \<lparr>pwcs_data = d, pwcs_checksum = c, pwcs_latest_height = None\<rparr>
           | Some (Some x) \<Rightarrow>
               Inr \<lparr>pwcs_data = d, pwcs_checksum = c, pwcs_latest_height = unpack_height x\<rparr>
           | None \<Rightarrow> Inl ''height'')
      | _ \<Rightarrow> Inl ''fields'')"

lemma unpack_pack_wasm [simp]: "unpack_wasm (pack_wasm p) = Inr p"
  by (cases "pwcs_latest_height p") (simp_all add: pack_wasm_def unpack_wasm_def)

end
