(* ===== verification/Tm_Example.thy ===== *)
theory Tm_Example imports Tm_System Ics23_Example Wasm_Example begin

text \<open>
  A concrete world for the Tendermint client (toy hashes, encodings and signatures that satisfy the
  laws), a validator set of two, a client that trusts it, and a header both have signed: the
  theorems about the verifier and the client are applied to them.
\<close>

section \<open>The code outside the repository\<close>

definition toy_tm_codec :: tm_codec where
  "toy_tm_codec =
     \<lparr>enc_consensus = (\<lambda>_. [1]), enc_string_value = map of_char, enc_int64_value = (\<lambda>n. [word_of_int n]),
      enc_bytes_value = (\<lambda>b. b), enc_timestamp = (\<lambda>t. [word_of_int (pts_seconds t)]),
      enc_block_id = (\<lambda>b. pbid_hash b),
      enc_simple_validator = (\<lambda>v. [word_of_int (psv_voting_power v)]),
      enc_canonical_vote = (\<lambda>v. [word_of_int (pcvo_height v), word_of_int (pcvo_round v)])\<rparr>"

definition toy_api :: ed25519_api where
  \<comment> \<open>a signature is the message and the key\<close>
  "toy_api =
     \<lparr>ed25519_verify = (\<lambda>msg sg key. Inr (sg = msg @ key)),
      ed25519_batch_verify = (\<lambda>msgs sigs keys. Inr (sigs = map2 (@) msgs keys))\<rparr>"

definition toy_client_state :: "height \<Rightarrow> tm_client_state" where
  "toy_client_state h =
     \<lparr>tcs_chain_id = ''toy-1'', tcs_trust_level = \<lparr>fr_numerator = 1, fr_denominator = 3\<rparr>,
      tcs_trusting_period = Duration 1000000000000, tcs_unbonding_period = Duration 2000000000000,
      tcs_max_clock_drift = Duration 10000000000, tcs_frozen_height = None, tcs_latest_height = h,
      tcs_proof_specs = sdk_specs, tcs_upgrade_path = []\<rparr>"

definition toy_wf_client :: "tm_client_state \<Rightarrow> bool" where
  "toy_wf_client cs \<longleftrightarrow> cs = toy_client_state (tcs_latest_height cs)"

definition toy_client_decode :: "bytes \<Rightarrow> string + tm_client_state" where
  "toy_client_decode b =
     (case unpack_height b of None \<Rightarrow> Inl ''height'' | Some h \<Rightarrow> Inr (toy_client_state h))"

definition toy_consensus_decode :: "bytes \<Rightarrow> string + tm_consensus_state" where
  "toy_consensus_decode b =
     (case unpack b of
        Some [t, r, v] \<Rightarrow>
          (case decode_packed t of
             Ok u \<Rightarrow>
               (let c = \<lparr>tco_timestamp = u, tco_root = \<lparr>mr_hash = r\<rparr>, tco_next_validators_hash = v\<rparr> in
                if wf_tm_consensus c then Inr c else Inl ''bounds'')
           | _ \<Rightarrow> Inl ''timestamp'')
      | _ \<Rightarrow> Inl ''fields'')"

definition toy_wasm :: "(tm_client_state, tm_consensus_state) wasm_codec" where
  "toy_wasm =
     \<lparr>any_client_encode = pack_wasm, any_client_decode = unpack_wasm,
      any_consensus_encode = (\<lambda>d. replicate 17 0 @ d), any_consensus_decode = (\<lambda>b. Inr (drop 17 b)),
      client_encode = (\<lambda>cs. pack_height (tcs_latest_height cs)), client_decode = toy_client_decode,
      consensus_encode = (\<lambda>c.
        pack [encode_packed (tco_timestamp c), mr_hash (tco_root c), tco_next_validators_hash c]),
      consensus_decode = toy_consensus_decode\<rparr>"

section \<open>A client and a header\<close>

definition toy_vals :: validator_set where
  "toy_vals =
     \<lparr>vs_validators =
        [\<lparr>val_address = replicate 20 1, val_pub_key = Ed25519 [11], val_voting_power = 3,
          val_proposer_priority = 0\<rparr>,
         \<lparr>val_address = replicate 20 2, val_pub_key = Ed25519 [22], val_voting_power = 4,
          val_proposer_priority = 0\<rparr>],
      vs_proposer =
        \<lparr>val_address = replicate 20 1, val_pub_key = Ed25519 [11], val_voting_power = 3,
         val_proposer_priority = 0\<rparr>,
      vs_total_voting_power = 7\<rparr>"

definition toy_vals_hash :: bytes where
  "toy_vals_hash = rfc6962_root toy_crypto (raw_validators toy_tm_codec toy_vals)"

definition toy_header :: tm_header where
  "toy_header =
     \<lparr>hdr_version = \<lparr>cv_block = 11, cv_app = 0\<rparr>, hdr_chain_id = ''toy-1'', hdr_height = 7,
      hdr_time = Timestamp 200 0, hdr_last_block_id = default_block_id,
      hdr_last_commit_hash = zero_h256, hdr_data_hash = zero_h256,
      hdr_validators_hash = toy_vals_hash, hdr_next_validators_hash = toy_vals_hash,
      hdr_consensus_hash = zero_h256, hdr_app_hash = replicate 32 8,
      hdr_last_results_hash = zero_h256, hdr_evidence_hash = zero_h256,
      hdr_proposer_address = replicate 20 1\<rparr>"

definition toy_block_id :: block_id where
  "toy_block_id =
     \<lparr>bid_hash = Some (rfc6962_root toy_crypto (header_fields toy_tm_codec toy_header)),
      bid_part_set_header = \<lparr>psh_total = 1, psh_hash = Some (replicate 32 9)\<rparr>\<rparr>"

definition toy_commit :: tm_commit where
  "toy_commit =
     \<lparr>com_height = 7, com_round = 0, com_block_id = toy_block_id,
      com_signatures =
        [SigCommit (replicate 20 1) (Timestamp 201 0) [7, 0, 11],
         SigCommit (replicate 20 2) (Timestamp 202 0) [7, 0, 22]]\<rparr>"

definition toy_update :: light_header where
  "toy_update =
     \<lparr>lh_signed_header = \<lparr>sh_header = toy_header, sh_commit = toy_commit\<rparr>,
      lh_validator_set = toy_vals, lh_trusted_height = Height 1 5, lh_trusted_validators = toy_vals\<rparr>"

definition toy_world :: tm_world where
  "toy_world =
     \<lparr>tw_crypto = toy_crypto, tw_codec = toy_tm_codec, tw_api = toy_api, tw_wasm = toy_wasm,
      tw_decode_header = (\<lambda>b. if b = [1] then Inr toy_update else Inl ''header''),
      tw_decode_merkle_proof = (\<lambda>b. Inl ''proof'')\<rparr>"

definition toy_consensus :: tm_consensus_state where
  "toy_consensus =
     \<lparr>tco_timestamp = Timestamp 100 0, tco_root = \<lparr>mr_hash = replicate 32 7\<rparr>,
      tco_next_validators_hash = toy_vals_hash\<rparr>"

definition toy_instantiate :: instantiate_msg where
  "toy_instantiate =
     \<lparr>im_client_state = client_encode toy_wasm (toy_client_state (Height 1 5)),
      im_consensus_state = consensus_encode toy_wasm toy_consensus,
      im_checksum = replicate 32 3\<rparr>"

section \<open>The laws hold\<close>

interpretation toy_signatures: ed25519_host_laws toy_api
proof
  fix ts :: "(bytes \<times> bytes \<times> bytes) list"
  show "ed25519_batch_verify toy_api (map fst ts) (map (fst \<circ> snd) ts) (map (snd \<circ> snd) ts) = Inr True \<longleftrightarrow>
      (\<forall>(msg, sg, key) \<in> set ts. ed25519_verify toy_api msg sg key = Inr True)"
    by (induction ts) (auto simp: toy_api_def)
qed

lemma toy_vals_hash_length: "length toy_vals_hash = 32"
  by (simp add: toy_vals_hash_def rfc6962_root_def raw_validators_def toy_vals_def merkle_tree.simps
      tm_inner_hash_def split_point.simps toy_crypto_def toy_hash_def)

lemma wf_toy_update: "wf_light_header toy_update"
proof -
  have "length (rfc6962_root toy_crypto (header_fields toy_tm_codec toy_header)) = 32"
    by (simp add: rfc6962_root_def header_fields_def Let_def merkle_tree.simps [of _ "_ # _ # _"]
        tm_inner_hash_def toy_crypto_def toy_hash_def)
  then show ?thesis
    by (simp add: toy_update_def wf_light_header_def wf_signed_header_def wf_header_def wf_commit_def
        wf_validator_set_def wf_validator_def wf_block_id_def wf_hash_def wf_timestamp_def
        toy_header_def toy_commit_def toy_block_id_def toy_vals_def toy_vals_hash_length
        zero_h256_def default_block_id_def)
qed

interpretation toy_tm: tm_client toy_world toy_wf_client
proof
  show "any_client_decode (tw_wasm toy_world) (any_client_encode (tw_wasm toy_world) p) = Inr p" for p
    by (cases "pwcs_latest_height p")
      (simp_all add: toy_world_def toy_wasm_def pack_wasm_def unpack_wasm_def)
  show "any_consensus_decode (tw_wasm toy_world) (any_consensus_encode (tw_wasm toy_world) d) = Inr d" for d
    by (simp add: toy_world_def toy_wasm_def)
  show "client_decode (tw_wasm toy_world) (client_encode (tw_wasm toy_world) cs) = Inr cs"
    if "toy_wf_client cs" for cs
    using that by (simp add: toy_world_def toy_wasm_def toy_client_decode_def toy_wf_client_def)
  show "consensus_decode (tw_wasm toy_world) (consensus_encode (tw_wasm toy_world) c) = Inr c"
    if "wf_tm_consensus c" for c
    using that
    by (simp add: toy_world_def toy_wasm_def toy_consensus_decode_def decode_encode_packed wf_tm_consensus_def)
  show "toy_wf_client cs" if "client_decode (tw_wasm toy_world) b = Inr cs" for b cs
    using that
    by (auto simp: toy_world_def toy_wasm_def toy_client_decode_def toy_wf_client_def toy_client_state_def
        split: option.splits)
  show "wf_tm_consensus c" if "consensus_decode (tw_wasm toy_world) b = Inr c" for b c
    using that
    by (auto simp: toy_world_def toy_wasm_def toy_consensus_decode_def Let_def
        split: option.splits list.splits outcome.splits if_splits)
  show "wf_light_header hdr" if "tw_decode_header toy_world b = Inr hdr" for b hdr
    using that wf_toy_update by (auto simp: toy_world_def split: if_splits)
  show "length (any_consensus_encode (tw_wasm toy_world) d) \<noteq> METADATA_SIZE" for d
    by (simp add: toy_world_def toy_wasm_def METADATA_SIZE_def)
  show "toy_wf_client (cs\<lparr>tcs_latest_height := h\<rparr>)" if "toy_wf_client cs" for cs h
    using that unfolding toy_wf_client_def by (metis toy_client_state_def tm_client_state.simps)
qed

section \<open>The header is accepted\<close>

lemma toy_headers:
  "verify_new_headers_and_vals toy_crypto toy_tm_codec (lh_signed_header toy_update) toy_vals
     (construct_partial_header ''toy-1'' 5 (Timestamp 100 0) toy_vals_hash) (Timestamp 250 0)
     (Duration 10000000000) = Ok ()"
proof -
  have "ts_checked_add (Timestamp 250 0) (Duration 10000000000) = Some (Timestamp 260 0)"
    by code_simp
  then show ?thesis
    unfolding verify_new_headers_and_vals_Ok
    by (simp add: toy_update_def toy_commit_def toy_block_id_def construct_partial_header_def Let_def
        toy_vals_hash_def less_timestamp_def toy_header_def)
qed

lemmas toy_signed =
  verify_signatures_def should_batch_verify_def verify_commit_batch_def verify_commit_def
  toy_commit_def toy_vals_def slice_get_def canonical_vote_bytes_def toy_block_id_def
  canonical_vote_into_proto_def toy_tm_codec_def u64_add_def collect_def ed25519_host_def
  ed25519_key_def toy_api_def

lemma toy_commit_light:
  "verify_commit_light toy_tm_codec (ed25519_host toy_api) toy_vals ''toy-1'' toy_block_id 7 toy_commit =
     Ok ()"
  by (simp add: verify_commit_light_def verify_basic_vals_and_commit_def light_power_needed_def toy_signed)

lemma toy_commit_trusting:
  "verify_commit_light_trusting toy_tm_codec (ed25519_host toy_api) ''toy-1'' toy_vals toy_commit
     \<lparr>fr_numerator = 1, fr_denominator = 3\<rparr> = Ok ()"
  by (simp add: verify_commit_light_trusting_def trusting_power_needed_def Let_def
      get_validator_by_address_def toy_signed)

lemma toy_verify:
  "tm_verify toy_crypto toy_tm_codec (ed25519_host toy_api)
     (construct_partial_header ''toy-1'' 5 (Timestamp 100 0) toy_vals_hash) toy_vals
     (lh_signed_header toy_update) toy_vals (Duration 1000000000000) (Timestamp 250 0)
     (Duration 10000000000) \<lparr>fr_numerator = 1, fr_denominator = 3\<rparr> = Ok ()"
  unfolding tm_verify_Ok
  using toy_headers toy_commit_light toy_commit_trusting
  by (simp add: toy_update_def construct_partial_header_def toy_header_def toy_commit_def)

section \<open>A run of the client\<close>

definition toy_start :: kv_store where
  "toy_start = (case tm_instantiate toy_world [] toy_instantiate of Ok s \<Rightarrow> s | _ \<Rightarrow> [])"

lemma toy_start: "tm_instantiate toy_world [] toy_instantiate = Ok toy_start"
  by (simp add: toy_start_def tm_instantiate_def toy_instantiate_def toy_world_def toy_wasm_def
      toy_client_decode_def Let_def)

lemma toy_consensus_decode:
  "consensus_decode (tw_wasm toy_world) (im_consensus_state toy_instantiate) = Inr toy_consensus"
  by (simp add: toy_world_def toy_wasm_def toy_instantiate_def toy_consensus_decode_def toy_consensus_def
      decode_encode_packed wf_timestamp_def wf_tm_consensus_def toy_vals_hash_length)

lemma toy_start_reachable: "tm_reachable toy_world toy_start"
  by (rule tm_reachable.start [OF toy_consensus_decode _ toy_start]) (simp add: toy_instantiate_def)

lemma toy_reads:
  "stored toy_world toy_start = [Height 1 5 \<mapsto> toy_consensus]"
  "client_at toy_wasm toy_start =
     Some \<lparr>wcs_data = toy_client_state (Height 1 5), wcs_checksum = replicate 32 3,
           wcs_latest_height = Height 1 5\<rparr>"
  "toy_tm.history.history_inv toy_start"
proof -
  have "client_decode (tw_wasm toy_world) (im_client_state toy_instantiate) =
      Inr (toy_client_state (Height 1 5))"
    "length (im_checksum toy_instantiate) = 32"
    by (simp_all add: toy_world_def toy_wasm_def toy_instantiate_def toy_client_decode_def
        toy_client_state_def)
  note r = toy_tm.start_reads [OF toy_consensus_decode this toy_start]
  show "stored toy_world toy_start = [Height 1 5 \<mapsto> toy_consensus]"
    "toy_tm.history.history_inv toy_start"
    using r(1,4) by (simp_all add: toy_client_state_def)
  show "client_at toy_wasm toy_start =
     Some \<lparr>wcs_data = toy_client_state (Height 1 5), wcs_checksum = replicate 32 3,
           wcs_latest_height = Height 1 5\<rparr>"
    using r(2) by (simp add: toy_client_state_def toy_instantiate_def toy_world_def)
qed

lemma toy_world_fields [simp]:
  "tw_crypto toy_world = toy_crypto" "tw_codec toy_world = toy_tm_codec" "tw_api toy_world = toy_api"
  "tw_wasm toy_world = toy_wasm"
  by (simp_all add: toy_world_def)

lemma toy_update_fields [simp]:
  "lh_validator_set toy_update = toy_vals" "lh_trusted_validators toy_update = toy_vals"
  "lh_trusted_height toy_update = Height 1 5" "sh_header (lh_signed_header toy_update) = toy_header"
  "sh_commit (lh_signed_header toy_update) = toy_commit"
  "hdr_chain_id toy_header = ''toy-1''" "hdr_height toy_header = 7" "hdr_time toy_header = Timestamp 200 0"
  by (simp_all add: toy_update_def toy_header_def)

lemma toy_read_states:
  "read_prefixed_client_state toy_wasm toy_start no_prefix =
     Ok \<lparr>wcs_data = toy_client_state (Height 1 5), wcs_checksum = replicate 32 3,
         wcs_latest_height = Height 1 5\<rparr>"
  "read_prefixed_consensus_state toy_wasm toy_start h no_prefix =
     Ok (if h = Height 1 5 then Some toy_consensus else None)"
  using toy_reads(2) [THEN client_at_Some [THEN iffD1]] toy_tm.history.inv_read [OF toy_reads(3), of h]
    toy_reads(1) by simp_all

lemma toy_verify_header: "tm_verify_header toy_world toy_start 250000000000 toy_update = Ok ()"
proof -
  have total: "set_total_voting_power toy_vals = Ok toy_vals"
    by (simp add: set_total_voting_power_def toy_vals_def)
  have rev: "parse_revision_number ''toy-1'' = Some 1"
    by (simp add: parse_revision_number_def parse_u64_def parse_uint_def digit_value_def of_char_def is_digit_def)
  have time: "host_time 250000000000 = Ok (Timestamp 250 0)"
    by (simp add: host_time_def ts_from_cosmwasm_def Let_def require_def bounded_int_new_def i64_ok_def expects_def)
  have self: "toy_update\<lparr>lh_validator_set := toy_vals, lh_trusted_validators := toy_vals\<rparr> = toy_update"
    by (simp add: toy_update_def)
  have trusted: "check_trusted_header toy_world toy_update toy_vals_hash = Ok ()"
    by (simp add: check_trusted_header_def validators_hash_root toy_vals_hash_def)
  have cs: "tcs_chain_id (toy_client_state h) = ''toy-1''"
    "tcs_trusting_period (toy_client_state h) = Duration 1000000000000"
    "tcs_max_clock_drift (toy_client_state h) = Duration 10000000000"
    "tcs_trust_level (toy_client_state h) = \<lparr>fr_numerator = 1, fr_denominator = 3\<rparr>" for h
    by (simp_all add: toy_client_state_def)
  have c: "tco_timestamp toy_consensus = Timestamp 100 0" "tco_next_validators_hash toy_consensus = toy_vals_hash"
    by (simp_all add: toy_consensus_def)
  show ?thesis
    by (simp add: tm_verify_header_def total toy_read_states consensus_at_def rev trusted self Let_def time require_def
      cs c toy_verify)
qed

lemma toy_honest: "tm_check_for_misbehaviour_on_header toy_world toy_start toy_update = Ok False"
proof -
  obtain h0 b where h0: "stored toy_world toy_start h0 \<noteq> None"
    and b: "tm_check_for_misbehaviour_on_header toy_world toy_start toy_update = Ok b"
    "b \<longleftrightarrow>
      (case stored toy_world toy_start (height_from_header toy_update) of
         Some c \<Rightarrow> c \<noteq> header_consensus toy_update
       | None \<Rightarrow>
           (\<exists>n c. stored toy_world toy_start n = Some c \<and> n \<noteq> h0 \<and>
             (height_from_header toy_update \<le> n \<and> tco_timestamp c \<le> tco_timestamp (header_consensus toy_update) \<or>
              n < height_from_header toy_update \<and>
              tco_timestamp (header_consensus toy_update) \<le> tco_timestamp c)))"
    using toy_tm.misbehaviour [OF toy_start_reachable] by blast
  have "h0 = Height 1 5" using h0 unfolding toy_reads(1) by (simp split: if_splits)
  moreover have "height_from_header toy_update = Height 1 7" by (simp add: height_from_header_def)
  ultimately show ?thesis using b unfolding toy_reads(1) by simp
qed

definition toy_next :: kv_store where
  "toy_next = (case tm_update_state toy_world toy_start 250000000000 toy_update of Ok (_, s) \<Rightarrow> s | _ \<Rightarrow> [])"

lemma toy_update_state: "tm_update_state toy_world toy_start 250000000000 toy_update = Ok ([Height 1 7], toy_next)"
  by (simp add: toy_next_def tm_update_state_def toy_read_states height_from_header_def Let_def)

lemma toy_next_reachable: "tm_reachable toy_world toy_next"
proof (rule tm_reachable.update [OF toy_start_reachable, of 250000000000 "[1]"])
  have "tw_decode_header toy_world [1] = Inr toy_update" by (simp add: toy_world_def)
  then show "query (tendermint_light_client toy_world) toy_start 250000000000 (QueryVerifyClientMessage [1]) = Ok ReplyUnit"
    "query (tendermint_light_client toy_world) toy_start 250000000000 (QueryCheckForMisbehaviour [1]) =
       Ok (ReplyCheckForMisbehaviour False)"
    "sudo (tendermint_light_client toy_world) toy_start 250000000000 (SudoUpdateState [1]) =
       Ok (ReplyUpdateState [Height 1 7], toy_next)"
    by (simp_all add: tendermint_light_client_def toy_verify_header toy_honest toy_update_state)
qed

end
