(* ===== verification/Tm_Claims.thy ===== *)
theory Tm_Claims imports Tm_Example begin

text \<open>
  The properties of the Tendermint verifier and of the client built on it, each applied at the
  concrete world of \<open>Tm_Example\<close>.
\<close>

section \<open>Voting power\<close>

definition sum_power :: "validator_set \<Rightarrow> int" where
  "sum_power vals = sum_list (map val_voting_power (vs_validators vals))"

lemma voted_power_total [simp]:
  "voted_power k host ch (vals\<lparr>vs_total_voting_power := t\<rparr>) commit b = voted_power k host ch vals commit b"
  by (simp add: voted_power_def voted_def counted_def power_at_def cong: commit_sig.case_cong if_cong)

lemma set_total_Ok:
  "set_total_voting_power vals = Ok vals' \<Longrightarrow>
   vals' = vals\<lparr>vs_total_voting_power := sum_power vals\<rparr> \<and> sum_power vals \<le> i64_max"
proof -
  let ?add = "\<lambda>acc val. if acc + val_voting_power val \<le> i64_max
    then Ok (acc + val_voting_power val) else Err MathOverflow"
  have fold: "x + sum_list (map val_voting_power xs) = t \<and> (xs = [] \<or> t \<le> i64_max)"
    if "try_fold ?add x xs = Ok t" for xs x t
    using that
  proof (induction xs arbitrary: x)
    case (Cons v xs)
    then have v: "x + val_voting_power v \<le> i64_max" "try_fold ?add (x + val_voting_power v) xs = Ok t"
      by (auto simp: outcome_ok split: if_splits)
    from Cons.IH [OF v(2)] v(1) show ?case by auto
  qed simp
  assume "set_total_voting_power vals = Ok vals'"
  then obtain t where "vals' = vals\<lparr>vs_total_voting_power := t\<rparr>"
    "try_fold ?add 0 (vs_validators vals) = Ok t"
    by (auto simp: set_total_voting_power_def outcome_ok)
  with fold [OF this(2)] show ?thesis by (auto simp: sum_power_def)
qed

lemma sum_power_at: "sum_power vals = sum (power_at vals) {..<length (vs_validators vals)}"
  by (simp add: sum_power_def power_at_def sum_list_sum_nth atLeast0LessThan)

lemma set_total_sum: "set_total_voting_power vals = Ok vals' \<Longrightarrow> total_is_sum vals'"
  using set_total_Ok [of vals vals'] by (auto simp: total_is_sum_def sum_power_at power_at_def)

lemma set_total_wf [simp]: "wf_validator_set (vals\<lparr>vs_total_voting_power := t\<rparr>) = wf_validator_set vals"
  by (simp add: wf_validator_set_def)

lemma set_total_raw [simp]: "raw_validators k (vals\<lparr>vs_total_voting_power := t\<rparr>) = raw_validators k vals"
  by (simp add: raw_validators_def)

lemma sum_power_nonneg: "wf_validator_set vals \<Longrightarrow> 0 \<le> sum_power vals"
  unfolding sum_power_def wf_validator_set_def list_all_iff wf_validator_def by (intro sum_list_nonneg) auto

section \<open>The verifier\<close>

text \<open>C29. The hash of a header, three levels of pairs written out over the fourteen encoded fields, and the
  hash of a validator set, a loop that reduces an array in place, are both the RFC 6962 root of their
  leaves, the tree that splits at the largest power of two below the number of leaves. The loop ends
  and does not panic, whatever the number of leaves.
\<close>
theorem merkle_roots_are_rfc6962:
  "calculate_merkle_root c ls = Some (Ok (rfc6962_root c ls)) \<and>
   header_merkle_root c k h = Some (rfc6962_root c (header_fields k h)) \<and>
   validators_hash c k vals = Ok (rfc6962_root c (raw_validators k vals))"
  by (simp add: calculate_merkle_root_rfc6962 header_root validators_hash_root)

text \<open>C20. The check of a commit is exact. When every signature of the commit verifies, it accepts if and
  only if the validators who signed have more than two thirds of the set's declared power, and that
  power is neither negative nor so large that twice it overflows; the signature counts, the height
  and the block id agreeing. Signatures are checked in a batch or one by one, as many as are needed.
\<close>
theorem commit_check_exact:
  assumes "lawful_host host" "wf_validator_set vals" "vs_total_voting_power vals \<le> i64_max"
    and "length (vs_validators vals) = length (com_signatures commit)"
    and "com_height commit = h" "com_block_id commit = bid"
    and "\<And>i. i < length (com_signatures commit) \<Longrightarrow> committed (com_signatures commit ! i) \<Longrightarrow>
      voted k host ch vals commit True i"
  shows "verify_commit_light k host vals ch bid h commit = Ok () \<longleftrightarrow>
    0 \<le> vs_total_voting_power vals \<and>
    2 * vs_total_voting_power vals < 3 * voted_power k host ch vals commit True"
proof (cases "0 \<le> vs_total_voting_power vals")
  case True
  let ?n = "vs_total_voting_power vals * 2 div 3"
  have n: "light_power_needed vals = Ok ?n" "0 \<le> ?n" "?n + i64_max < 2 ^ 64"
    using True assms(3) by (auto simp: light_power_needed_Ok)
  have "verify_signatures k host ch vals commit ?n True = Ok () \<longleftrightarrow>
      ?n < voted_power k host ch vals commit True"
    using signatures_power [OF assms(1,2)] verify_signatures_complete [OF assms(1,2,4,7) n(2,3)] by blast
  with True n assms(4-6) show ?thesis
    by (simp add: verify_commit_light_def verify_basic_vals_and_commit_def) presburger
qed (auto simp: verify_commit_light_def outcome_ok light_power_needed_def)

lemma toy_voted:
  "i < length (com_signatures toy_commit) \<Longrightarrow>
   voted toy_tm_codec (ed25519_host toy_api) ''toy-1'' toy_vals toy_commit True i"
proof -
  assume "i < length (com_signatures toy_commit)"
  then have "i = 0 \<or> i = 1" by (auto simp: toy_commit_def)
  then show ?thesis
    by (auto simp: voted_def counted_def toy_signed intro!: exI [of _ i])
qed

lemma commit_check_exact_witness:
  "2 * 7 < 3 * voted_power toy_tm_codec (ed25519_host toy_api) ''toy-1'' toy_vals toy_commit True"
proof -
  have "wf_validator_set toy_vals" "vs_total_voting_power toy_vals = 7"
    using wf_toy_update by (auto simp: wf_light_header_def toy_update_def toy_vals_def)
  moreover have "length (vs_validators toy_vals) = length (com_signatures toy_commit)"
    "com_height toy_commit = 7" "com_block_id toy_commit = toy_block_id"
    by (simp_all add: toy_vals_def toy_commit_def)
  ultimately show ?thesis
    using commit_check_exact [OF toy_signatures.ed25519_lawful, of toy_vals toy_commit 7 toy_block_id
        toy_tm_codec "''toy-1''"] toy_commit_light toy_voted
    by simp
qed

section \<open>The client\<close>

text \<open>C2. The Tendermint client accepts a header only when the header's own validators signed it. A header
  that passes the contract's check names the stored consensus state it starts from, is above it and
  later, carries the client's chain id, and its commit is for the hash of the header. Validators with
  more than two thirds of the power of the set whose hash the header holds have signatures that verify;
  and that set is the announced next one when the header is the next height, or else validators of the
  announced set with more power than the trust level have signed too. No validator counts twice.
\<close>
theorem client_accepts_signed_headers:
  assumes host: "ed25519_host_laws (tw_api w)" and wf: "wf_light_header hdr"
    and client: "read_client w s no_prefix = Ok v" and level: "fr_denominator (tcs_trust_level (wcs_data v)) \<noteq> 0"
    and ok: "tm_verify_header w s now hdr = Ok ()"
  shows "\<exists>c. stored w s (lh_trusted_height hdr) = Some c \<and>
    (let uh = sh_header (lh_signed_header hdr); commit = sh_commit (lh_signed_header hdr);
         root = rfc6962_root (tw_crypto w); vals = lh_validator_set hdr;
         trusted = lh_trusted_validators hdr; ch = tcs_chain_id (wcs_data v);
         level = tcs_trust_level (wcs_data v);
         power = voted_power (tw_codec w) (ed25519_host (tw_api w)) ch in
     lh_trusted_height hdr < height_from_header hdr \<and> tco_timestamp c < hdr_time uh \<and>
     hdr_chain_id uh = ch \<and>
     bid_hash (com_block_id commit) = Some (root (header_fields (tw_codec w) uh)) \<and>
     root (raw_validators (tw_codec w) vals) = hdr_validators_hash uh \<and>
     root (raw_validators (tw_codec w) trusted) = tco_next_validators_hash c \<and>
     2 * sum_power vals < 3 * power vals commit True \<and>
     (if hdr_height uh = uint (revision_height (lh_trusted_height hdr)) + 1
      then hdr_validators_hash uh = tco_next_validators_hash c
      else sum_power trusted * uint (fr_numerator level) <
             uint (fr_denominator level) * power trusted commit False))"
proof -
  note lawful = ed25519_host_laws.ed25519_lawful [OF host]
  let ?vals = "(lh_validator_set hdr)\<lparr>vs_total_voting_power := sum_power (lh_validator_set hdr)\<rparr>"
    and ?trusted = "(lh_trusted_validators hdr)\<lparr>vs_total_voting_power := sum_power (lh_trusted_validators hdr)\<rparr>"
  have set_wf: "wf_validator_set ?vals" "wf_validator_set ?trusted"
    using wf by (simp_all add: wf_light_header_def)
  obtain c time where c: "stored w s (lh_trusted_height hdr) = Some c" and
    verified: "tm_verify (tw_crypto w) (tw_codec w) (ed25519_host (tw_api w))
      (construct_partial_header (tcs_chain_id (wcs_data v)) (uint (revision_height (lh_trusted_height hdr)))
        (tco_timestamp c) (tco_next_validators_hash c)) ?trusted (lh_signed_header hdr) ?vals
      (tcs_trusting_period (wcs_data v)) time (tcs_max_clock_drift (wcs_data v))
      (tcs_trust_level (wcs_data v)) = Ok ()"
    and trusted: "check_trusted_header w (hdr\<lparr>lh_validator_set := ?vals, lh_trusted_validators := ?trusted\<rparr>)
      (tco_next_validators_hash c) = Ok ()"
    using ok client
    by (auto simp: tm_verify_header_def Let_def outcome_ok consensus_at_def dest!: set_total_Ok stored_at_read)
  note facts = verified [unfolded tm_verify_Ok verify_new_headers_and_vals_Ok, simplified construct_partial_header_def Let_def, simplified]
  have light: "2 * sum_power (lh_validator_set hdr) <
      3 * voted_power (tw_codec w) (ed25519_host (tw_api w)) (tcs_chain_id (wcs_data v)) (lh_validator_set hdr)
        (sh_commit (lh_signed_header hdr)) True"
    using facts verify_commit_light_power [OF lawful set_wf(1)] by fastforce
  have trusting: "sum_power (lh_trusted_validators hdr) * uint (fr_numerator (tcs_trust_level (wcs_data v))) <
      uint (fr_denominator (tcs_trust_level (wcs_data v))) *
      voted_power (tw_codec w) (ed25519_host (tw_api w)) (tcs_chain_id (wcs_data v)) (lh_trusted_validators hdr)
        (sh_commit (lh_signed_header hdr)) False"
    if "hdr_height (sh_header (lh_signed_header hdr)) \<noteq> uint (revision_height (lh_trusted_height hdr)) + 1"
    using that facts verify_commit_light_trusting_power [OF lawful set_wf(2) level] sum_power_nonneg set_wf(2)
    by fastforce
  have "lh_trusted_height hdr < height_from_header hdr \<and> tco_timestamp c < hdr_time (sh_header (lh_signed_header hdr))"
    using verified_header [OF ok] c by auto
  moreover have "rfc6962_root (tw_crypto w) (raw_validators (tw_codec w) (lh_trusted_validators hdr)) =
      tco_next_validators_hash c"
    using trusted by (simp add: check_trusted_header_def validators_hash_root split: if_splits)
  ultimately show ?thesis
    using facts light trusting c by (auto simp: Let_def)
qed

lemma client_accepts_signed_headers_witness:
  "2 * sum_power toy_vals < 3 * voted_power toy_tm_codec (ed25519_host toy_api) ''toy-1'' toy_vals toy_commit True \<and>
   sum_power toy_vals * 1 < 3 * voted_power toy_tm_codec (ed25519_host toy_api) ''toy-1'' toy_vals toy_commit False"
proof -
  have "ed25519_host_laws (tw_api toy_world)" by (simp add: toy_signatures.ed25519_host_laws_axioms)
  moreover have "read_client toy_world toy_start no_prefix =
      Ok \<lparr>wcs_data = toy_client_state (Height 1 5), wcs_checksum = replicate 32 3,
          wcs_latest_height = Height 1 5\<rparr>"
    using toy_read_states(1) by simp
  ultimately show ?thesis
    using client_accepts_signed_headers [OF _ wf_toy_update _ _ toy_verify_header, of
        "\<lparr>wcs_data = toy_client_state (Height 1 5), wcs_checksum = replicate 32 3,
          wcs_latest_height = Height 1 5\<rparr>"]
    by (auto simp: toy_client_state_def Let_def)
qed

text \<open>C40. The check of a header never panics: the powers are added up by the client before they are
  tallied, so that the tally cannot overflow, whatever the header, the store and the host's clock.
\<close>
theorem client_check_never_panics:
  assumes "wf_light_header hdr"
  shows "tm_verify_header w s now hdr \<noteq> Panic"
proof -
  have reads: "read_client w s no_prefix \<noteq> Panic" "consensus_at w s h \<noteq> Panic" for h
    by (auto simp: read_prefixed_client_state_def read_prefixed_consensus_state_def consensus_at_def
        wasm_client_state_from_proto_def h256_from_vec_def try_option_def no_panic
        split: option.splits)
  have totals: "set_total_voting_power vals \<noteq> Panic" for vals
    by (auto simp: set_total_voting_power_def no_panic try_fold_no_panic)
  have time: "host_time now \<noteq> Panic"
    by (auto simp: host_time_def ts_from_cosmwasm_def Let_def no_panic expects_def bounded_int_new_def
        split: option.splits sum.splits)
  have trusted: "check_trusted_header w h b \<noteq> Panic" for h b
    by (simp add: check_trusted_header_def validators_hash_root no_panic)
  have verify: "tm_verify (tw_crypto w) (tw_codec w) (ed25519_host (tw_api w)) t tvals u vals p n d l \<noteq> Panic"
    if "set_total_voting_power (lh_validator_set hdr) = Ok vals"
      "set_total_voting_power (lh_trusted_validators hdr) = Ok tvals" for t tvals u vals p n d l
    using that assms set_total_sum [OF that(1)] set_total_sum [OF that(2)]
    by (intro tm_verify_no_panic) (auto simp: wf_light_header_def total_is_sum_def dest!: set_total_Ok)
  show ?thesis
    using verify
    by (auto simp: tm_verify_header_def Let_def no_panic outcome_ok reads totals time trusted split: if_splits)
qed

lemma client_check_never_panics_witness: "tm_verify_header toy_world [] 0 toy_update \<noteq> Panic"
  by (rule client_check_never_panics [OF wf_toy_update])





text \<open>An accepted header that is new and no misbehaviour is stored: the client reads back exactly the
  header's time, application hash and next validators at its height, every other height is as it was,
  and the latest height becomes the greater of the two.
\<close>
theorem client_update_stores:
  assumes "tm_client w wf_client" "tm_reachable w s" "wf_light_header hdr"
    and "stored w s (height_from_header hdr) = None" "tm_update_state w s now hdr = Ok (hs, s')"
  shows "hs = [height_from_header hdr] \<and>
    stored w s' = (stored w s)(height_from_header hdr \<mapsto> header_consensus hdr) \<and>
    (\<exists>v v'. read_client w s no_prefix = Ok v \<and> read_client w s' no_prefix = Ok v' \<and>
       wcs_latest_height v' = max (wcs_latest_height v) (height_from_header hdr) \<and>
       wcs_checksum v' = wcs_checksum v \<and>
       wcs_data v' = (wcs_data v)\<lparr>tcs_latest_height := wcs_latest_height v'\<rparr>)"
  using tm_client.update_stores [OF assms] .

lemma client_update_stores_witness:
  "stored toy_world toy_next (Height 1 7) = Some (header_consensus toy_update)"
proof -
  have "height_from_header toy_update = Height 1 7" by (simp add: height_from_header_def)
  moreover have "stored toy_world toy_start (Height 1 7) = None" unfolding toy_reads(1) by simp
  ultimately show ?thesis
    using client_update_stores [OF toy_tm.tm_client_axioms toy_start_reachable wf_toy_update _ toy_update_state]
    by simp
qed

section \<open>The header's message\<close>

text \<open>The light-client header of Tendermint survives its protobuf message, and what a message decodes
  to is within the bounds of the types: hashes of 32 bytes, addresses of 20, heights and voting powers
  that are not negative, timestamps of the years 1 to 9999.
\<close>
theorem light_header_proto:
  assumes "light_header_from_proto p = Ok l"
  shows "wf_light_header l \<and> light_header_from_proto (light_header_into_proto l) = Ok l"
  using light_header_from_proto_wf [OF assms] by simp

lemma light_header_proto_witness: "light_header_from_proto (light_header_into_proto toy_update) = Ok toy_update"
  using light_header_proto [of "light_header_into_proto toy_update" toy_update] wf_toy_update by simp

end
