(* ===== verification/Cb_Types.thy ===== *)
theory Cb_Types imports Proto_Time Ics23_Proto begin

text \<open>
  The types of the CometBLS light client (\<^verbatim>\<open>unionlabs/src/ibc/lightclients/cometbls/\<close>) and their
  conversions to and from the generated protobuf structs.
\<close>

section \<open>Data\<close>

record cb_client_state =
  ccs_chain_id :: string
  ccs_trusting_period :: u64
  ccs_unbonding_period :: u64
  ccs_max_clock_drift :: u64
  ccs_frozen_height :: height
  ccs_latest_height :: height

record cb_consensus_state =
  cco_timestamp :: u64
  cco_app_hash :: merkle_root
  cco_next_validators_hash :: bytes

record cb_light_header =
  clh_height :: int \<comment> \<open>between 0 and \<^verbatim>\<open>i64::MAX\<close>\<close>
  clh_time :: timestamp
  clh_validators_hash :: bytes
  clh_next_validators_hash :: bytes
  clh_app_hash :: bytes

record cb_header =
  ch_signed_header :: cb_light_header
  ch_trusted_height :: height
  ch_zero_knowledge_proof :: bytes

definition wf_cb_consensus :: "cb_consensus_state \<Rightarrow> bool" where
  "wf_cb_consensus c \<longleftrightarrow> length (mr_hash (cco_app_hash c)) = 32 \<and> length (cco_next_validators_hash c) = 32"

definition wf_cb_light_header :: "cb_light_header \<Rightarrow> bool" where
  "wf_cb_light_header h \<longleftrightarrow>
     0 \<le> clh_height h \<and> clh_height h < 2 ^ 63 \<and> wf_timestamp (clh_time h) \<and>
     length (clh_validators_hash h) = 32 \<and> length (clh_next_validators_hash h) = 32 \<and>
     length (clh_app_hash h) = 32"

abbreviation wf_cb_header :: "cb_header \<Rightarrow> bool" where
  "wf_cb_header h \<equiv> wf_cb_light_header (ch_signed_header h)"

section \<open>The generated structs\<close>

record proto_cb_client_state =
  pccs_chain_id :: string
  pccs_trusting_period :: u64
  pccs_unbonding_period :: u64
  pccs_max_clock_drift :: u64
  pccs_frozen_height :: "height option"
  pccs_latest_height :: "height option"

record proto_cb_consensus_state =
  pcco_timestamp :: u64
  pcco_root :: "proto_merkle_root option"
  pcco_next_validators_hash :: bytes

record proto_cb_light_header =
  pclh_height :: int
  pclh_time :: "proto_timestamp option"
  pclh_validators_hash :: bytes
  pclh_next_validators_hash :: bytes
  pclh_app_hash :: bytes

record proto_cb_header =
  pch_signed_header :: "proto_cb_light_header option"
  pch_trusted_height :: "height option"
  pch_zero_knowledge_proof :: bytes

section \<open>Conversions\<close>

definition cb_client_state_into_proto :: "cb_client_state \<Rightarrow> proto_cb_client_state" where
  "cb_client_state_into_proto v =
     \<lparr>pccs_chain_id = ccs_chain_id v, pccs_trusting_period = ccs_trusting_period v,
      pccs_unbonding_period = ccs_unbonding_period v, pccs_max_clock_drift = ccs_max_clock_drift v,
      pccs_frozen_height = Some (ccs_frozen_height v), pccs_latest_height = Some (ccs_latest_height v)\<rparr>"

datatype cb_client_state_error = CCSMissingField string

definition cb_client_state_from_proto ::
  "proto_cb_client_state \<Rightarrow> (cb_client_state_error, cb_client_state) outcome" where
  "cb_client_state_from_proto v =
     andthen (some_or (pccs_frozen_height v) (CCSMissingField ''frozen_height'')) (\<lambda>f.
     andthen (some_or (pccs_latest_height v) (CCSMissingField ''latest_height'')) (\<lambda>l.
     Ok \<lparr>ccs_chain_id = pccs_chain_id v, ccs_trusting_period = pccs_trusting_period v,
         ccs_unbonding_period = pccs_unbonding_period v, ccs_max_clock_drift = pccs_max_clock_drift v,
         ccs_frozen_height = f, ccs_latest_height = l\<rparr>))"

definition cb_consensus_state_into_proto :: "cb_consensus_state \<Rightarrow> proto_cb_consensus_state" where
  "cb_consensus_state_into_proto v =
     \<lparr>pcco_timestamp = cco_timestamp v, pcco_root = Some (merkle_root_into_proto (cco_app_hash v)),
      pcco_next_validators_hash = cco_next_validators_hash v\<rparr>"

datatype cb_consensus_state_error =
    CCOMissingField string
  | CCORoot merkle_root_error
  | CCONextValidatorsHash invalid_length

definition cb_consensus_state_from_proto ::
  "proto_cb_consensus_state \<Rightarrow> (cb_consensus_state_error, cb_consensus_state) outcome" where
  "cb_consensus_state_from_proto v =
     andthen (some_or (pcco_root v) (CCOMissingField ''root'')) (\<lambda>r.
     andthen (map_err CCORoot (merkle_root_from_proto r)) (\<lambda>root.
     andthen (result_or CCONextValidatorsHash (h256_try_from (pcco_next_validators_hash v))) (\<lambda>n.
     Ok \<lparr>cco_timestamp = pcco_timestamp v, cco_app_hash = root, cco_next_validators_hash = n\<rparr>)))"

definition cb_light_header_into_proto :: "cb_light_header \<Rightarrow> proto_cb_light_header" where
  "cb_light_header_into_proto v =
     \<lparr>pclh_height = clh_height v, pclh_time = Some (ts_into_proto (clh_time v)),
      pclh_validators_hash = clh_validators_hash v,
      pclh_next_validators_hash = clh_next_validators_hash v, pclh_app_hash = clh_app_hash v\<rparr>"

datatype cb_light_header_error =
    CLHMissingField string
  | CLHHeight bounded_int_error
  | CLHTimestamp timestamp_error
  | CLHValidatorsHash invalid_length
  | CLHNextValidatorsHash invalid_length
  | CLHAppHash invalid_length

definition cb_light_header_from_proto ::
  "proto_cb_light_header \<Rightarrow> (cb_light_header_error, cb_light_header) outcome" where
  "cb_light_header_from_proto v =
     andthen (result_or CLHHeight (bounded_int_new 0 9223372036854775807 (pclh_height v))) (\<lambda>h.
     andthen (some_or (pclh_time v) (CLHMissingField ''time'')) (\<lambda>pt.
     andthen (map_err CLHTimestamp (ts_from_proto pt)) (\<lambda>t.
     andthen (result_or CLHValidatorsHash (h256_try_from (pclh_validators_hash v))) (\<lambda>vh.
     andthen (result_or CLHNextValidatorsHash (h256_try_from (pclh_next_validators_hash v))) (\<lambda>nv.
     andthen (result_or CLHAppHash (h256_try_from (pclh_app_hash v))) (\<lambda>a.
     Ok \<lparr>clh_height = h, clh_time = t, clh_validators_hash = vh, clh_next_validators_hash = nv,
         clh_app_hash = a\<rparr>))))))"

definition cb_header_into_proto :: "cb_header \<Rightarrow> proto_cb_header" where
  "cb_header_into_proto v =
     \<lparr>pch_signed_header = Some (cb_light_header_into_proto (ch_signed_header v)),
      pch_trusted_height = Some (ch_trusted_height v),
      pch_zero_knowledge_proof = ch_zero_knowledge_proof v\<rparr>"

datatype cb_header_error =
    CHMissingField string
  | CHSignedHeader cb_light_header_error

definition cb_header_from_proto :: "proto_cb_header \<Rightarrow> (cb_header_error, cb_header) outcome" where
  "cb_header_from_proto v =
     andthen (some_or (pch_signed_header v) (CHMissingField ''signed_header'')) (\<lambda>p.
     andthen (map_err CHSignedHeader (cb_light_header_from_proto p)) (\<lambda>s.
     andthen (some_or (pch_trusted_height v) (CHMissingField ''trusted_height'')) (\<lambda>h.
     Ok \<lparr>ch_signed_header = s, ch_trusted_height = h,
         ch_zero_knowledge_proof = pch_zero_knowledge_proof v\<rparr>)))"

section \<open>Round trips\<close>

text \<open>Decoding undoes encoding, and decodes nothing else: the conversion is onto the messages that
  hold every field within its bounds.\<close>

lemma cb_client_state_exact:
  "cb_client_state_from_proto p = Ok c \<longleftrightarrow> p = cb_client_state_into_proto c"
  by (cases p; cases c)
    (auto simp: cb_client_state_from_proto_def cb_client_state_into_proto_def outcome_ok)

lemma cb_consensus_state_exact:
  "cb_consensus_state_from_proto p = Ok c \<longleftrightarrow> wf_cb_consensus c \<and> p = cb_consensus_state_into_proto c"
  by (cases p; cases c)
    (auto simp: cb_consensus_state_from_proto_def cb_consensus_state_into_proto_def outcome_ok
      merkle_root_iff h256_try_from_def wf_cb_consensus_def)

lemma ts_from_proto_exact:
  "ts_from_proto p = Ok t \<longleftrightarrow> wf_timestamp t \<and> p = ts_into_proto t"
  by (cases p; cases t)
    (auto simp: ts_from_proto_def ts_into_proto_def outcome_ok bounded_int_new_def wf_timestamp_def
      split: if_splits)

lemma cb_light_header_exact:
  "cb_light_header_from_proto p = Ok c \<longleftrightarrow> wf_cb_light_header c \<and> p = cb_light_header_into_proto c"
  by (cases p; cases c)
    (auto simp: cb_light_header_from_proto_def cb_light_header_into_proto_def outcome_ok
      ts_from_proto_exact h256_try_from_def wf_cb_light_header_def bounded_int_new_def split: if_splits)

lemma cb_header_exact:
  "cb_header_from_proto p = Ok c \<longleftrightarrow> wf_cb_header c \<and> p = cb_header_into_proto c"
  by (cases p; cases c)
    (auto simp: cb_header_from_proto_def cb_header_into_proto_def outcome_ok cb_light_header_exact)

end
