(* ===== verification/Cb_Groth16.thy ===== *)
theory Cb_Groth16 imports Cb_Types Client_History Ics23_Ops begin

text \<open>
  The proof verifier of CometBLS (\<^verbatim>\<open>lib/cometbls-groth16-verifier/src/lib.rs\<close>): the layout of a proof,
  the public inputs and the two pairing equations. The curve, its constants and Keccak-256 are
  parameters; the hash of the inputs is SHA-256 of \<open>crypto\<close>.
\<close>

section \<open>Parameters\<close>

record ('fq, 'a1, 'a2, 'g1, 'g2, 'fr, 'gt) bn254 =
  \<comment> \<open>\<^verbatim>\<open>substrate_bn\<close>: affine points \<open>'a1\<close>, \<open>'a2\<close>, group elements \<open>'g1\<close>, \<open>'g2\<close>, scalars \<open>'fr\<close>\<close>
  fq_from_slice :: "bytes \<Rightarrow> 'fq option"
  fq_to_big_endian :: "'fq \<Rightarrow> bytes option"
  affine_g1_new :: "'fq \<Rightarrow> 'fq \<Rightarrow> 'a1 option"
  affine_g1_x :: "'a1 \<Rightarrow> 'fq"
  affine_g1_y :: "'a1 \<Rightarrow> 'fq"
  affine_g2_new :: "'fq \<times> 'fq \<Rightarrow> 'fq \<times> 'fq \<Rightarrow> 'a2 option"
  g1_from :: "'a1 \<Rightarrow> 'g1"
  g2_from :: "'a2 \<Rightarrow> 'g2"
  g1_add :: "'g1 \<Rightarrow> 'g1 \<Rightarrow> 'g1"
  g1_mul :: "'g1 \<Rightarrow> 'fr \<Rightarrow> 'g1"
  g2_neg :: "'g2 \<Rightarrow> 'g2"
  fr_new :: "nat \<Rightarrow> 'fr option"
  pairing_batch :: "('g1 \<times> 'g2) list \<Rightarrow> 'gt"
  gt_one :: 'gt

record ('a1, 'a2) zkp_constants =
  ALPHA_G1 :: 'a1
  BETA_G2 :: 'a2
  GAMMA_G2 :: 'a2
  DELTA_G2 :: 'a2
  GAMMA_ABC_G1 :: "'a1 list" \<comment> \<open>three of them\<close>
  PEDERSEN_G :: 'a2
  PEDERSEN_G_ROOT_SIGMA_NEG :: 'a2

section \<open>Hash to field\<close>

definition HMAC_O :: bytes where
  "HMAC_O = hex_literal ''1F333139281E100F'' @ replicate 128 0x5C"

definition HMAC_I :: bytes where
  "HMAC_I = hex_literal ''75595B5342747A65'' @ replicate 128 0x36"

definition PRIME_R_MINUS_ONE :: nat where
  \<comment> \<open>from its limbs, the least significant first\<close>
  "PRIME_R_MINUS_ONE =
     4891460686036598784 + 2 ^ 64 * (2896914383306846353 + 2 ^ 64 * (13281191951274694749 +
       2 ^ 64 * 3486998266802970665))"

definition hmac_keccak :: "(bytes \<Rightarrow> bytes) \<Rightarrow> bytes \<Rightarrow> bytes" where
  "hmac_keccak keccak message = keccak (HMAC_O @ keccak (HMAC_I @ message))"

definition hash_to_field :: "(bytes \<Rightarrow> bytes) \<Rightarrow> bytes \<Rightarrow> nat" where
  "hash_to_field keccak message = be_value (hmac_keccak keccak message) mod PRIME_R_MINUS_ONE + 1"

section \<open>Proofs\<close>

datatype zkp_error =
    InvalidPublicInput
  | InvalidPoint
  | InvalidProof
  | InvalidVerifyingKey
  | InvalidCommitment
  | InvalidRawProof
  | ZkpInvalidChainId
  | InvalidHeight
  | InvalidTimestamp
  | InvalidSliceLength

definition hash_commitment ::
  "(bytes \<Rightarrow> bytes) \<Rightarrow> ('fq, 'a1, 'a2, 'g1, 'g2, 'fr, 'gt) bn254 \<Rightarrow> 'a1 \<Rightarrow> (zkp_error, nat) outcome" where
  "hash_commitment keccak E p =
     andthen (some_or (fq_to_big_endian E (affine_g1_x E p)) InvalidCommitment) (\<lambda>x.
     andthen (some_or (fq_to_big_endian E (affine_g1_y E p)) InvalidCommitment) (\<lambda>y.
     Ok (hash_to_field keccak (x @ y))))"

definition array_slice :: "nat \<Rightarrow> nat \<Rightarrow> bytes \<Rightarrow> bytes" where
  "array_slice offset n b = take n (drop offset b)"

abbreviation (input) FQ_SIZE :: nat where "FQ_SIZE \<equiv> 32"
abbreviation (input) G1_SIZE :: nat where "G1_SIZE \<equiv> 2 * FQ_SIZE"
abbreviation (input) G2_SIZE :: nat where "G2_SIZE \<equiv> 2 * G1_SIZE"

definition EXPECTED_PROOF_SIZE :: nat where
  "EXPECTED_PROOF_SIZE = G1_SIZE + G2_SIZE + G1_SIZE + G1_SIZE + G1_SIZE"

definition g1_try_from ::
  "('fq, 'a1, 'a2, 'g1, 'g2, 'fr, 'gt) bn254 \<Rightarrow> bytes \<Rightarrow> (zkp_error, 'a1) outcome" where
  "g1_try_from E value =
     andthen (some_or (fq_from_slice E (array_slice 0 FQ_SIZE value)) InvalidPoint) (\<lambda>x.
     andthen (some_or (fq_from_slice E (array_slice FQ_SIZE FQ_SIZE value)) InvalidPoint) (\<lambda>y.
     some_or (affine_g1_new E x y) InvalidPoint))"

definition g2_try_from ::
  "('fq, 'a1, 'a2, 'g1, 'g2, 'fr, 'gt) bn254 \<Rightarrow> bytes \<Rightarrow> (zkp_error, 'a2) outcome" where
  \<comment> \<open>the imaginary part of a coordinate comes first\<close>
  "g2_try_from E value =
     andthen (some_or (fq_from_slice E (array_slice FQ_SIZE FQ_SIZE value)) InvalidPoint) (\<lambda>x0.
     andthen (some_or (fq_from_slice E (array_slice 0 FQ_SIZE value)) InvalidPoint) (\<lambda>x1.
     andthen (some_or (fq_from_slice E (array_slice (G1_SIZE + FQ_SIZE) FQ_SIZE value)) InvalidPoint) (\<lambda>y0.
     andthen (some_or (fq_from_slice E (array_slice G1_SIZE FQ_SIZE value)) InvalidPoint) (\<lambda>y1.
     some_or (affine_g2_new E (x0, x1) (y0, y1)) InvalidPoint))))"

record ('a1, 'a2) zkp =
  zkp_a :: 'a1
  zkp_b :: 'a2
  zkp_c :: 'a1
  zkp_commitment :: 'a1
  zkp_commitment_pok :: 'a1

definition zkp_try_from ::
  "('fq, 'a1, 'a2, 'g1, 'g2, 'fr, 'gt) bn254 \<Rightarrow> bytes \<Rightarrow> (zkp_error, ('a1, 'a2) zkp) outcome" where
  "zkp_try_from E value =
     andthen (require (length value = EXPECTED_PROOF_SIZE) InvalidRawProof) (\<lambda>_.
     andthen (g1_try_from E (array_slice 0 G1_SIZE value)) (\<lambda>a.
     andthen (g2_try_from E (array_slice G1_SIZE G2_SIZE value)) (\<lambda>b.
     andthen (g1_try_from E (array_slice (G1_SIZE + G2_SIZE) G1_SIZE value)) (\<lambda>c.
     andthen (g1_try_from E (array_slice (G1_SIZE + G2_SIZE + G1_SIZE) G1_SIZE value)) (\<lambda>commitment.
     andthen (g1_try_from E (array_slice (G1_SIZE + G2_SIZE + G1_SIZE + G1_SIZE) G1_SIZE value)) (\<lambda>pok.
     Ok \<lparr>zkp_a = a, zkp_b = b, zkp_c = c, zkp_commitment = commitment, zkp_commitment_pok = pok\<rparr>))))))"

section \<open>Verification\<close>

definition inputs_preimage :: "string \<Rightarrow> bytes \<Rightarrow> cb_light_header \<Rightarrow> (zkp_error, bytes) outcome" where
  \<comment> \<open>what is hashed: eight words of thirty-two bytes; the chain id is padded on its left\<close>
  "inputs_preimage chain_id trusted_validators_hash h =
     andthen (require (0 \<le> clh_height h) InvalidHeight) (\<lambda>_.
     andthen (require (0 \<le> ts_seconds (clh_time h)) InvalidTimestamp) (\<lambda>_.
     andthen (require (0 \<le> ts_nanos (clh_time h)) InvalidTimestamp) (\<lambda>_.
     Ok ((replicate (32 - length chain_id) 0 @ str_bytes chain_id) @
         be_bytes 32 (nat (clh_height h)) @ be_bytes 32 (nat (ts_seconds (clh_time h))) @
         be_bytes 32 (nat (ts_nanos (clh_time h))) @ clh_validators_hash h @
         clh_next_validators_hash h @ clh_app_hash h @ trusted_validators_hash))))"

definition decode_scalar ::
  "('fq, 'a1, 'a2, 'g1, 'g2, 'fr, 'gt) bn254 \<Rightarrow> nat \<Rightarrow> (zkp_error, 'fr) outcome" where
  "decode_scalar E x = some_or (fr_new E x) InvalidPublicInput"

definition public_inputs_msm ::
  "('fq, 'a1, 'a2, 'g1, 'g2, 'fr, 'gt) bn254 \<Rightarrow> ('a1, 'a2) zkp_constants \<Rightarrow> 'fr list \<Rightarrow> 'a1 \<Rightarrow> 'g1" where
  "public_inputs_msm E K public_inputs commitment =
     fold (\<lambda>(w, gamma_l) s. g1_add E s (g1_mul E gamma_l w))
       (zip public_inputs (map (g1_from E) (drop 1 (GAMMA_ABC_G1 K))))
       (g1_add E (g1_from E (GAMMA_ABC_G1 K ! 0)) (g1_from E commitment))"

definition pok_holds ::
  "('fq, 'a1, 'a2, 'g1, 'g2, 'fr, 'gt) bn254 \<Rightarrow> 'a2 \<Rightarrow> 'a2 \<Rightarrow> ('a1, 'a2) zkp \<Rightarrow> bool" where
  "pok_holds E g g_root_sigma_neg z \<longleftrightarrow>
     pairing_batch E [(g1_from E (zkp_commitment z), g2_from E g),
                      (g1_from E (zkp_commitment_pok z), g2_from E g_root_sigma_neg)] = gt_one E"

definition groth16_holds ::
  "('fq, 'a1, 'a2, 'g1, 'g2, 'fr, 'gt) bn254 \<Rightarrow> ('a1, 'a2) zkp_constants \<Rightarrow> 'g1 \<Rightarrow> ('a1, 'a2) zkp \<Rightarrow> bool"
  where
  "groth16_holds E K msm z \<longleftrightarrow>
     pairing_batch E [(g1_from E (zkp_a z), g2_from E (zkp_b z)),
                      (msm, g2_neg E (g2_from E (GAMMA_G2 K))),
                      (g1_from E (zkp_c z), g2_neg E (g2_from E (DELTA_G2 K))),
                      (g1_from E (ALPHA_G1 K), g2_neg E (g2_from E (BETA_G2 K)))] = gt_one E"

definition inputs_scalar :: "crypto \<Rightarrow> bytes \<Rightarrow> nat" where
  \<comment> \<open>the hash without its first byte\<close>
  "inputs_scalar c preimage = be_value ((sha256 c preimage)[0 := 0])"

definition verify_generic_zkp_2 ::
  "crypto \<Rightarrow> (bytes \<Rightarrow> bytes) \<Rightarrow> ('fq, 'a1, 'a2, 'g1, 'g2, 'fr, 'gt) bn254 \<Rightarrow> ('a1, 'a2) zkp_constants \<Rightarrow>
   string \<Rightarrow> bytes \<Rightarrow> cb_light_header \<Rightarrow> 'a2 \<Rightarrow> 'a2 \<Rightarrow> ('a1, 'a2) zkp \<Rightarrow> (zkp_error, unit) outcome" where
  "verify_generic_zkp_2 c keccak E K chain_id trusted_validators_hash h g g_root_sigma_neg z =
     andthen (require (length chain_id \<le> 31) ZkpInvalidChainId) (\<lambda>_.
     andthen (hash_commitment keccak E (zkp_commitment z)) (\<lambda>commitment_hash.
     andthen (inputs_preimage chain_id trusted_validators_hash h) (\<lambda>preimage.
     andthen (decode_scalar E (inputs_scalar c preimage)) (\<lambda>inputs_hash.
     andthen (decode_scalar E commitment_hash) (\<lambda>commitment_hash.
     let msm = public_inputs_msm E K [inputs_hash, commitment_hash] (zkp_commitment z) in
     if \<not> pok_holds E g g_root_sigma_neg z then Err InvalidProof
     else if \<not> groth16_holds E K msm z then Err InvalidProof else Ok ())))))"

definition verify_zkp ::
  "crypto \<Rightarrow> (bytes \<Rightarrow> bytes) \<Rightarrow> ('fq, 'a1, 'a2, 'g1, 'g2, 'fr, 'gt) bn254 \<Rightarrow> ('a1, 'a2) zkp_constants \<Rightarrow>
   string \<Rightarrow> bytes \<Rightarrow> cb_light_header \<Rightarrow> bytes \<Rightarrow> (zkp_error, unit) outcome" where
  "verify_zkp c keccak E K chain_id trusted_validators_hash h proof_bytes =
     andthen (zkp_try_from E proof_bytes)
       (verify_generic_zkp_2 c keccak E K chain_id trusted_validators_hash h (PEDERSEN_G K)
          (PEDERSEN_G_ROOT_SIGMA_NEG K))"

section \<open>What the verifier establishes\<close>

text \<open>What is relied on: a scalar is a number below the order of the group, and a coordinate has a
  big-endian form.\<close>

locale bn254_laws =
  fixes c :: crypto and keccak :: "bytes \<Rightarrow> bytes"
    and E :: "('fq, 'a1, 'a2, 'g1, 'g2, 'fr, 'gt) bn254"
  assumes sha_length: "length (sha256 c b) = 32"
    and scalar: "fr_new E n \<noteq> None \<longleftrightarrow> n < PRIME_R_MINUS_ONE + 1"
    and coordinate: "fq_to_big_endian E x \<noteq> None"
begin

text \<open>Both public inputs are in the field: clearing the first byte of the hash is enough.\<close>

lemma prime_bound: "2 ^ 248 < PRIME_R_MINUS_ONE"
  by (simp add: PRIME_R_MINUS_ONE_def)

lemma inputs_scalar_in_field: "\<exists>x. decode_scalar E (inputs_scalar c b) = Ok x"
proof -
  obtain y ys where y: "sha256 c b = y # ys" "length ys = 31"
    using sha_length [of b] by (cases "sha256 c b") auto
  then have "inputs_scalar c b = be_value ys" by (simp add: inputs_scalar_def be_value_Cons)
  moreover have "be_value ys < 256 ^ 31" using be_value_bound [of ys] y(2) by simp
  moreover have "(256::nat) ^ 31 = 2 ^ 248" by simp
  ultimately have "inputs_scalar c b < PRIME_R_MINUS_ONE + 1" using prime_bound by linarith
  then show ?thesis using scalar [of "inputs_scalar c b"] by (auto simp: decode_scalar_def)
qed

lemma commitment_in_field:
  "\<exists>n x. hash_commitment keccak E p = Ok n \<and> decode_scalar E n = Ok x"
proof -
  obtain x y where "fq_to_big_endian E (affine_g1_x E p) = Some x"
    "fq_to_big_endian E (affine_g1_y E p) = Some y"
    using coordinate by blast
  then have "hash_commitment keccak E p = Ok (hash_to_field keccak (x @ y))"
    by (simp add: hash_commitment_def)
  moreover have "hash_to_field keccak m < PRIME_R_MINUS_ONE + 1" for m
    using prime_bound by (auto simp: hash_to_field_def intro!: mod_less_divisor)
  then have "\<exists>x. decode_scalar E (hash_to_field keccak m) = Ok x" for m
    using scalar [of "hash_to_field keccak m"] by (auto simp: decode_scalar_def)
  ultimately show ?thesis by blast
qed

lemma verify_zkp_exact:
  "verify_zkp c keccak E K ch vh h b = Ok () \<longleftrightarrow>
     (\<exists>z i n x y. zkp_try_from E b = Ok z \<and> length ch \<le> 31 \<and>
        inputs_preimage ch vh h = Ok i \<and> decode_scalar E (inputs_scalar c i) = Ok x \<and>
        hash_commitment keccak E (zkp_commitment z) = Ok n \<and> decode_scalar E n = Ok y \<and>
        pok_holds E (PEDERSEN_G K) (PEDERSEN_G_ROOT_SIGMA_NEG K) z \<and>
        groth16_holds E K (public_inputs_msm E K [x, y] (zkp_commitment z)) z)"
  by (auto simp: verify_zkp_def verify_generic_zkp_2_def outcome_ok Let_def split: if_splits)

text \<open>So of the errors of the type, those of the two public inputs never occur.\<close>

lemma andthen_Err: "andthen r f = Err e \<longleftrightarrow> r = Err e \<or> (\<exists>x. r = Ok x \<and> f x = Err e)"
  by (cases r) simp_all

lemma zkp_try_from_Err: "zkp_try_from E b = Err e \<Longrightarrow> e = InvalidRawProof \<or> e = InvalidPoint"
  by (auto simp: zkp_try_from_def g1_try_from_def g2_try_from_def andthen_Err require_def some_or_def
      split: if_splits option.splits)

lemma zkp_try_from_no_panic: "zkp_try_from E b \<noteq> Panic"
  by (simp add: zkp_try_from_def g1_try_from_def g2_try_from_def no_panic)

lemma verify_zkp_errors:
  "(case verify_zkp c keccak E K ch vh h b of
      Ok _ \<Rightarrow> True
    | Err e \<Rightarrow> e \<in> {InvalidRawProof, InvalidPoint, ZkpInvalidChainId, InvalidHeight, InvalidTimestamp, InvalidProof}
    | Panic \<Rightarrow> False)"
proof (cases "zkp_try_from E b")
  case (Ok z)
  obtain n y where n: "hash_commitment keccak E (zkp_commitment z) = Ok n" "decode_scalar E n = Ok y"
    using commitment_in_field by blast
  show ?thesis
  proof (cases "inputs_preimage ch vh h")
    case (Ok i)
    obtain x where "decode_scalar E (inputs_scalar c i) = Ok x" using inputs_scalar_in_field by blast
    with Ok \<open>zkp_try_from E b = Ok z\<close> n show ?thesis
      by (simp add: verify_zkp_def verify_generic_zkp_2_def Let_def require_def)
  next
    case (Err e)
    then have "e = InvalidHeight \<or> e = InvalidTimestamp"
      by (auto simp: inputs_preimage_def andthen_Err require_def split: if_splits)
    with Err Ok n show ?thesis
      by (auto simp: verify_zkp_def verify_generic_zkp_2_def Let_def require_def)
  next
    case Panic
    then show ?thesis by (simp add: inputs_preimage_def no_panic)
  qed
qed (auto simp: verify_zkp_def zkp_try_from_no_panic dest: zkp_try_from_Err)

end

section \<open>The hashed inputs\<close>

text \<open>The hashed bytes determine the header, the trusted validators and the chain id, if the id does not
  start with a zero byte.\<close>

lemma padded_inject:
  assumes "replicate m 0 @ a = replicate n (0 :: u8) @ b" "a = [] \<or> hd a \<noteq> 0" "b = [] \<or> hd b \<noteq> 0"
  shows "a = b"
proof -
  have "dropWhile (\<lambda>x. x = 0) (replicate k 0 @ l) = l" if "l = [] \<or> hd l \<noteq> 0" for k and l :: bytes
    using that by (induction k) (auto simp: dropWhile_eq_self_iff)
  with assms show ?thesis by metis
qed

lemma inputs_preimage_Ok:
  "inputs_preimage ch vh h = Ok i \<longleftrightarrow>
     0 \<le> clh_height h \<and> 0 \<le> ts_seconds (clh_time h) \<and> 0 \<le> ts_nanos (clh_time h) \<and>
     (replicate (32 - length ch) 0 @ str_bytes ch) @
         be_bytes 32 (nat (clh_height h)) @ be_bytes 32 (nat (ts_seconds (clh_time h))) @
         be_bytes 32 (nat (ts_nanos (clh_time h))) @ clh_validators_hash h @
         clh_next_validators_hash h @ clh_app_hash h @ vh = i"
  by (auto simp: inputs_preimage_def andthen_def require_def)

lemma append_eq_eight:
  assumes "a1 @ a2 @ a3 @ a4 @ a5 @ a6 @ a7 @ a8 = b1 @ b2 @ b3 @ b4 @ b5 @ b6 @ b7 @ b8"
    and "length a1 = length b1" "length a2 = length b2" "length a3 = length b3" "length a4 = length b4"
      "length a5 = length b5" "length a6 = length b6" "length a7 = length b7"
  shows "a1 = b1 \<and> a2 = b2 \<and> a3 = b3 \<and> a4 = b4 \<and> a5 = b5 \<and> a6 = b6 \<and> a7 = b7 \<and> a8 = b8"
  using assms by simp

lemma inputs_preimage_inject:
  assumes "wf_cb_light_header h" "wf_cb_light_header h'" "length vh = 32" "length vh' = 32"
    and "length ch \<le> 32" "length ch' \<le> 32"
    and "ch = [] \<or> of_char (hd ch) \<noteq> (0 :: u8)" "ch' = [] \<or> of_char (hd ch') \<noteq> (0 :: u8)"
    and i: "inputs_preimage ch vh h = Ok i" "inputs_preimage ch' vh' h' = Ok i"
  shows "ch = ch' \<and> vh = vh' \<and> h = h'"
proof -
  let ?id = "\<lambda>ch. replicate (32 - length ch) 0 @ str_bytes ch"
  have len: "length (?id ch) = 32" "length (?id ch') = 32" using assms(5,6) by (simp_all add: str_bytes_def)
  note i = i [unfolded inputs_preimage_Ok]
  have nonneg: "0 \<le> clh_height h" "0 \<le> ts_seconds (clh_time h)" "0 \<le> ts_nanos (clh_time h)"
    "0 \<le> clh_height h'" "0 \<le> ts_seconds (clh_time h')" "0 \<le> ts_nanos (clh_time h')"
    using i by blast+
  have small: "nat x < 256 ^ 32" if "x < 2 ^ 63" for x :: int
  proof -
    have "nat x < 2 ^ 63" using that by (simp add: nat_less_iff zless_nat_eq_int_zless)
    also have "(2::nat) ^ 63 \<le> 256 ^ 32" by simp
    finally show ?thesis .
  qed
  have be: "nat x = nat y" if "be_bytes 32 (nat x) = be_bytes 32 (nat y)" "x < 2 ^ 63" "y < 2 ^ 63" for x y
    using that small be_value_be_bytes by metis
  have whole: "?id ch @ be_bytes 32 (nat (clh_height h)) @ be_bytes 32 (nat (ts_seconds (clh_time h))) @
        be_bytes 32 (nat (ts_nanos (clh_time h))) @ clh_validators_hash h @
        clh_next_validators_hash h @ clh_app_hash h @ vh =
      ?id ch' @ be_bytes 32 (nat (clh_height h')) @ be_bytes 32 (nat (ts_seconds (clh_time h'))) @
        be_bytes 32 (nat (ts_nanos (clh_time h'))) @ clh_validators_hash h' @
        clh_next_validators_hash h' @ clh_app_hash h' @ vh'"
    using i by metis
  have lengths: "length (?id ch) = length (?id ch')" "length (be_bytes 32 a) = length (be_bytes 32 b)"
    "length (clh_validators_hash h) = length (clh_validators_hash h')"
    "length (clh_next_validators_hash h) = length (clh_next_validators_hash h')"
    "length (clh_app_hash h) = length (clh_app_hash h')" for a b
    using len assms(1,2) by (simp_all only: length_be_bytes wf_cb_light_header_def)
  have parts: "?id ch = ?id ch' \<and> be_bytes 32 (nat (clh_height h)) = be_bytes 32 (nat (clh_height h')) \<and>
      be_bytes 32 (nat (ts_seconds (clh_time h))) = be_bytes 32 (nat (ts_seconds (clh_time h'))) \<and>
      be_bytes 32 (nat (ts_nanos (clh_time h))) = be_bytes 32 (nat (ts_nanos (clh_time h'))) \<and>
      clh_validators_hash h = clh_validators_hash h' \<and>
      clh_next_validators_hash h = clh_next_validators_hash h' \<and> clh_app_hash h = clh_app_hash h' \<and> vh = vh'"
    by (rule append_eq_eight [OF whole]) (rule lengths)+
  note eqs = parts [THEN conjunct1] parts [THEN conjunct2, THEN conjunct1]
    parts [THEN conjunct2, THEN conjunct2, THEN conjunct1]
    parts [THEN conjunct2, THEN conjunct2, THEN conjunct2, THEN conjunct1]
    parts [THEN conjunct2, THEN conjunct2, THEN conjunct2, THEN conjunct2]
  have "str_bytes ch = str_bytes ch'"
    using assms(7,8) by - (rule padded_inject [OF eqs(1)], auto simp: str_bytes_def hd_map)
  moreover have "clh_height h = clh_height h'" "ts_seconds (clh_time h) = ts_seconds (clh_time h')"
    "ts_nanos (clh_time h) = ts_nanos (clh_time h')"
    using be [OF eqs(2)] be [OF eqs(3)] be [OF eqs(4)] nonneg assms(1,2)
    by (auto simp: wf_cb_light_header_def wf_timestamp_def)
  ultimately show ?thesis
    using eqs by (auto intro!: cb_light_header.equality timestamp.expand)
qed

end
