(* ===== verification/Cb_Client.thy ===== *)
theory Cb_Client imports Cb_Groth16 Ics23_Api begin

text \<open>
  The CometBLS light client contract (\<^verbatim>\<open>light-clients/cometbls-light-client/src/\<close>): the metadata it
  keeps for iteration, the operations of \<^verbatim>\<open>IbcClient\<close> and the instantiation of the contract. The
  trait \<^verbatim>\<open>ZkpVerifier\<close> and the protobuf bytes are parameters; \<open>default_zkp_verifier\<close> is the verifier of
  the deployed contract.
\<close>

section \<open>State\<close>

type_synonym cb_wasm_client_state = "cb_client_state wasm_client_state"

datatype invalid_header_error =
    CbSignedHeaderHeightMustBeMoreRecent u64 u64 \<comment> \<open>signed, trusted\<close>
  | CbSignedHeaderTimestampMustBeMoreRecent u64 u64
  | CbHeaderExpired u64
  | CbSignedHeaderCannotExceedMaxClockDrift u64 u64
  | CbInvalidValidatorsHash bytes bytes \<comment> \<open>expected, actual\<close>

datatype cb_client_error =
    CbMathOverflow
  | CbUnimplemented
  | CbMerkleProofDecode string
  | CbClientStateDecode string
  | CbClientStateNotFound
  | CbInvalidHeader invalid_header_error
  | CbInvalidZKP zkp_error
  | CbConsensusStateNotFound height
  | CbVerifyMembership api_error
  | CbSubstituteClientFrozen
  | CbMigrateFieldsChanged
  | CbInvalidChainId

type_synonym zkp_verifier = "string \<Rightarrow> bytes \<Rightarrow> cb_light_header \<Rightarrow> bytes \<Rightarrow> (zkp_error, unit) outcome"

record cb_world =
  cw_crypto :: crypto
  cw_verify_zkp :: zkp_verifier
  cw_wasm :: "(cb_client_state, cb_consensus_state) wasm_codec"
  cw_decode_header :: "bytes \<Rightarrow> string + cb_header"
  cw_decode_merkle_proof :: "bytes \<Rightarrow> string + merkle_proof"

definition default_zkp_verifier ::
  "crypto \<Rightarrow> (bytes \<Rightarrow> bytes) \<Rightarrow> ('fq, 'a1, 'a2, 'g1, 'g2, 'fr, 'gt) bn254 \<Rightarrow> ('a1, 'a2) zkp_constants \<Rightarrow>
   zkp_verifier" where
  \<comment> \<open>\<^verbatim>\<open>impl ZkpVerifier for ()\<close>\<close>
  "default_zkp_verifier c keccak E K chain_id trusted_validators_hash header proof_bytes =
     verify_zkp c keccak E K chain_id trusted_validators_hash header proof_bytes"

section \<open>Metadata\<close>

definition CB_METADATA_SIZE :: nat where
  "CB_METADATA_SIZE = 8"

definition cb_encode_packed :: "u64 \<Rightarrow> bytes" where
  "cb_encode_packed timestamp = rev (u64_to_be_bytes timestamp)"

definition cb_decode_packed :: "bytes \<Rightarrow> (storage_error, u64) outcome" where
  "cb_decode_packed data =
     (if length data \<noteq> CB_METADATA_SIZE then Err InvalidConsensusStateMetadata
      else expects (u64_from_be_bytes (rev data)))"

definition cb_current_or_prev_meta ::
  "kv_store \<Rightarrow> height \<Rightarrow> (storage_error, (height \<times> u64) option) outcome" where
  "cb_current_or_prev_meta s h = meta_entry cb_decode_packed (kv_last_before s (consensus_state_iterator_key h))"

definition cb_current_or_next_meta ::
  "kv_store \<Rightarrow> height \<Rightarrow> (storage_error, (height \<times> u64) option) outcome" where
  "cb_current_or_next_meta s h = meta_entry cb_decode_packed (kv_first_from s (consensus_state_iterator_key h))"

definition cb_save_metadata :: "kv_store \<Rightarrow> u64 \<Rightarrow> height \<Rightarrow> kv_store" where
  "cb_save_metadata s timestamp h =
     kv_set s (consensus_state_iterator_key h) (cb_encode_packed timestamp)"

section \<open>Helpers\<close>

definition u64_checked_add :: "u64 \<Rightarrow> u64 \<Rightarrow> u64 option" where
  "u64_checked_add a b = (if uint a + uint b < 2 ^ 64 then Some (a + b) else None)"

definition as_unix_nanos :: "timestamp \<Rightarrow> (cb_client_error client_error, u64) outcome" where
  \<comment> \<open>the count of \<open>ts_as_unix_nanos\<close> fits a \<^verbatim>\<open>u64\<close>\<close>
  "as_unix_nanos t = andthen (ts_as_unix_nanos t) (\<lambda>n. Ok (of_nat n))"

definition cb_migrate_check_allowed_fields :: "cb_client_state \<Rightarrow> cb_client_state \<Rightarrow> bool" where
  "cb_migrate_check_allowed_fields subject substitute \<longleftrightarrow>
     ccs_unbonding_period subject = ccs_unbonding_period substitute \<and>
     ccs_max_clock_drift subject = ccs_max_clock_drift substitute"

definition cb_is_client_expired :: "u64 \<Rightarrow> u64 \<Rightarrow> u64 \<Rightarrow> bool" where
  "cb_is_client_expired consensus_state_timestamp trusting_period current_block_time =
     (case u64_checked_add consensus_state_timestamp trusting_period of
        Some expiry \<Rightarrow> expiry < current_block_time
      | None \<Rightarrow> True)"

definition cb_height_number :: "cb_header \<Rightarrow> u64" where
  \<comment> \<open>\<^verbatim>\<open>header.signed_header.height.inner() as u64\<close>\<close>
  "cb_height_number header = word_of_int (clh_height (ch_signed_header header))"

definition cb_height_from_header :: "cb_header \<Rightarrow> height" where
  "cb_height_from_header header =
     Height (revision_number (ch_trusted_height header)) (cb_height_number header)"

section \<open>Operations\<close>

abbreviation cb_read_client ::
  "cb_world \<Rightarrow> kv_store \<Rightarrow> string \<Rightarrow> (cb_client_error client_error, cb_wasm_client_state) outcome" where
  "cb_read_client w \<equiv> read_prefixed_client_state (cw_wasm w)"

definition cb_consensus_at ::
  "cb_world \<Rightarrow> kv_store \<Rightarrow> height \<Rightarrow> string \<Rightarrow>
   (cb_client_error client_error, cb_consensus_state) outcome" where
  \<comment> \<open>\<^verbatim>\<open>read_consensus_state(..)?.ok_or(Error::ConsensusStateNotFound(height))\<close>\<close>
  "cb_consensus_at w s h prefix =
     andthen (read_prefixed_consensus_state (cw_wasm w) s h prefix) (\<lambda>c.
     some_or c (ClientSpecific (CbConsensusStateNotFound h)))"

definition cb_verify_membership ::
  "cb_world \<Rightarrow> kv_store \<Rightarrow> height \<Rightarrow> u64 \<Rightarrow> u64 \<Rightarrow> bytes \<Rightarrow> merkle_path \<Rightarrow> storage_state \<Rightarrow>
   (cb_client_error client_error, unit) outcome" where
  "cb_verify_membership w s h delay_time delay_block proof_bytes path value =
     andthen (cb_consensus_at w s h no_prefix) (\<lambda>consensus_state.
     andthen (result_or (\<lambda>e. ClientSpecific (CbMerkleProofDecode e))
                (cw_decode_merkle_proof w proof_bytes)) (\<lambda>merkle_proof.
     map_err (\<lambda>e. ClientSpecific (CbVerifyMembership e))
       (case value of
          Occupied v \<Rightarrow>
            Ics23_Api.verify_membership (cw_crypto w) merkle_proof sdk_specs
              (cco_app_hash consensus_state) (map str_bytes path) v
        | Empty \<Rightarrow>
            verify_non_membership (cw_crypto w) merkle_proof sdk_specs
              (cco_app_hash consensus_state) (map str_bytes path))))"

definition cb_verify_header ::
  "cb_world \<Rightarrow> kv_store \<Rightarrow> u64 \<Rightarrow> cb_header \<Rightarrow> (cb_client_error client_error, unit) outcome" where
  "cb_verify_header w s now header =
     (let invalid = \<lambda>e. ClientSpecific (CbInvalidHeader e); sh = ch_signed_header header;
          untrusted_height_number = cb_height_number header;
          trusted_height_number = revision_height (ch_trusted_height header) in
     andthen (cb_read_client w s no_prefix) (\<lambda>client_state.
     andthen (cb_consensus_at w s (ch_trusted_height header) no_prefix) (\<lambda>consensus_state.
     andthen (require (\<not> untrusted_height_number \<le> trusted_height_number)
       (invalid (CbSignedHeaderHeightMustBeMoreRecent untrusted_height_number trusted_height_number))) (\<lambda>_.
     let trusted_timestamp = cco_timestamp consensus_state in
     andthen (as_unix_nanos (clh_time sh)) (\<lambda>untrusted_timestamp.
     andthen (require (\<not> untrusted_timestamp \<le> trusted_timestamp)
       (invalid (CbSignedHeaderTimestampMustBeMoreRecent untrusted_timestamp trusted_timestamp))) (\<lambda>_.
     andthen (require (\<not> cb_is_client_expired untrusted_timestamp
                           (ccs_trusting_period (wcs_data client_state)) now)
       (invalid (CbHeaderExpired (cco_timestamp consensus_state)))) (\<lambda>_.
     andthen (some_or (u64_checked_add now (ccs_max_clock_drift (wcs_data client_state)))
       (ClientSpecific CbMathOverflow)) (\<lambda>max_clock_drift.
     andthen (require (\<not> max_clock_drift \<le> untrusted_timestamp)
       (invalid (CbSignedHeaderCannotExceedMaxClockDrift untrusted_timestamp max_clock_drift))) (\<lambda>_.
     let trusted_validators_hash = cco_next_validators_hash consensus_state in
     andthen (require (\<not> (untrusted_height_number = trusted_height_number + 1 \<and>
                           clh_validators_hash sh \<noteq> trusted_validators_hash))
       (invalid (CbInvalidValidatorsHash trusted_validators_hash (clh_validators_hash sh)))) (\<lambda>_.
     map_err (\<lambda>e. ClientSpecific (CbInvalidZKP e))
       (cw_verify_zkp w (ccs_chain_id (wcs_data client_state)) trusted_validators_hash sh
          (ch_zero_knowledge_proof header))))))))))))"

definition cb_update_state ::
  "cb_world \<Rightarrow> kv_store \<Rightarrow> u64 \<Rightarrow> cb_header \<Rightarrow>
   (cb_client_error client_error, height list \<times> kv_store) outcome" where
  "cb_update_state w s now header =
     andthen (cb_read_client w s no_prefix) (\<lambda>client_state.
     andthen (cb_consensus_at w s (ch_trusted_height header) no_prefix) (\<lambda>consensus_state.
     let sh = ch_signed_header header;
         untrusted_height =
           Height (revision_number (ch_trusted_height header)) (cb_height_number header);
         client_state =
           (if wcs_latest_height client_state < untrusted_height
            then client_state\<lparr>wcs_latest_height := untrusted_height,
                   wcs_data := (wcs_data client_state)\<lparr>ccs_latest_height := untrusted_height\<rparr>\<rparr>
            else client_state) in
     andthen (as_unix_nanos (clh_time sh)) (\<lambda>timestamp.
     let consensus_state =
           consensus_state\<lparr>cco_app_hash := \<lparr>mr_hash = clh_app_hash sh\<rparr>,
             cco_next_validators_hash := clh_next_validators_hash sh, cco_timestamp := timestamp\<rparr>;
         s = save_prefixed_client_state (cw_wasm w) s no_prefix client_state;
         s = cb_save_metadata s (cco_timestamp consensus_state) untrusted_height;
         s = save_prefixed_consensus_state (cw_wasm w) s no_prefix consensus_state untrusted_height
     in Ok ([untrusted_height], s))))"

definition cb_check_for_misbehaviour_on_header ::
  "cb_world \<Rightarrow> kv_store \<Rightarrow> cb_header \<Rightarrow> (cb_client_error client_error, bool) outcome" where
  "cb_check_for_misbehaviour_on_header w s header =
     (let height = cb_height_from_header header; sh = ch_signed_header header in
     andthen (as_unix_nanos (clh_time sh)) (\<lambda>expected_timestamp.
     andthen (read_prefixed_consensus_state (cw_wasm w) s height no_prefix) (\<lambda>existing.
     case existing of
       Some c \<Rightarrow>
         Ok (cco_timestamp c \<noteq> expected_timestamp \<or> mr_hash (cco_app_hash c) \<noteq> clh_app_hash sh \<or>
             cco_next_validators_hash c \<noteq> clh_next_validators_hash sh)
     | None \<Rightarrow>
         neighbour_conflict (cb_current_or_next_meta s height) (cb_current_or_prev_meta s height)
           expected_timestamp)))"

definition cb_migrate_client_store ::
  "cb_world \<Rightarrow> kv_store \<Rightarrow> (cb_client_error client_error, kv_store) outcome" where
  "cb_migrate_client_store w s =
     andthen (cb_read_client w s SUBJECT_CLIENT_STORE_PREFIX) (\<lambda>subject.
     andthen (cb_read_client w s SUBSTITUTE_CLIENT_STORE_PREFIX) (\<lambda>substitute.
     andthen (require (ccs_frozen_height (wcs_data substitute) = ZERO_HEIGHT)
                (ClientSpecific CbSubstituteClientFrozen)) (\<lambda>_.
     andthen (require (cb_migrate_check_allowed_fields (wcs_data subject) (wcs_data substitute))
                (ClientSpecific CbMigrateFieldsChanged)) (\<lambda>_.
     andthen (cb_consensus_at w s (wcs_latest_height substitute) SUBSTITUTE_CLIENT_STORE_PREFIX) (\<lambda>consensus.
     let s = cb_save_metadata s (cco_timestamp consensus) (wcs_latest_height substitute);
         s = save_prefixed_consensus_state (cw_wasm w) s SUBJECT_CLIENT_STORE_PREFIX consensus
               (wcs_latest_height substitute);
         scs = wcs_data substitute;
         s = save_prefixed_client_state (cw_wasm w) s SUBJECT_CLIENT_STORE_PREFIX
               \<lparr>wcs_data = (wcs_data subject)\<lparr>ccs_chain_id := ccs_chain_id scs,
                  ccs_trusting_period := ccs_trusting_period scs,
                  ccs_latest_height := ccs_latest_height scs, ccs_frozen_height := ZERO_HEIGHT\<rparr>,
                wcs_checksum = wcs_checksum subject, wcs_latest_height = ccs_latest_height scs\<rparr>
     in Ok s)))))"

definition cb_status ::
  "cb_world \<Rightarrow> kv_store \<Rightarrow> u64 \<Rightarrow> (cb_client_error client_error, wasm_status) outcome" where
  "cb_status w s now =
     andthen (cb_read_client w s no_prefix) (\<lambda>client_state.
     if ccs_frozen_height (wcs_data client_state) \<noteq> ZERO_HEIGHT then Ok StFrozen
     else
       andthen (read_prefixed_consensus_state (cw_wasm w) s (wcs_latest_height client_state) no_prefix) (\<lambda>c.
       case c of
         None \<Rightarrow> Ok StExpired
       | Some consensus_state \<Rightarrow>
           Ok (if cb_is_client_expired (cco_timestamp consensus_state)
                    (ccs_trusting_period (wcs_data client_state)) now
               then StExpired else StActive)))"

definition cb_timestamp_at_height ::
  "cb_world \<Rightarrow> kv_store \<Rightarrow> height \<Rightarrow> (cb_client_error client_error, u64) outcome" where
  "cb_timestamp_at_height w s h =
     andthen (cb_consensus_at w s h no_prefix) (\<lambda>c. Ok (cco_timestamp c))"

definition cometbls_light_client ::
  "cb_world \<Rightarrow> (cb_header, cb_client_state, cb_consensus_state, cb_client_error) ibc_client" where
  "cometbls_light_client w =
     \<lparr>ic_decode_header = cw_decode_header w, ic_decode_misbehaviour = cw_decode_header w,
      ic_decode_client_state = client_decode (cw_wasm w),
      ic_decode_consensus_state = consensus_decode (cw_wasm w),
      ic_verify_membership = cb_verify_membership w,
      ic_verify_header = cb_verify_header w,
      ic_verify_misbehaviour = (\<lambda>_ _ _. Err (ClientSpecific CbUnimplemented)),
      ic_update_state = cb_update_state w,
      ic_update_state_on_misbehaviour = (\<lambda>_ _ _. Err (ClientSpecific CbUnimplemented)),
      ic_check_for_misbehaviour_on_header = cb_check_for_misbehaviour_on_header w,
      ic_check_for_misbehaviour_on_misbehaviour = (\<lambda>_ _. Err (ClientSpecific CbUnimplemented)),
      ic_verify_upgrade_and_update_state = (\<lambda>_ _ _ _ _. Err (ClientSpecific CbUnimplemented)),
      ic_migrate_client_store = cb_migrate_client_store w,
      ic_status = cb_status w,
      ic_export_metadata = (\<lambda>_ _. Ok []),
      ic_timestamp_at_height = cb_timestamp_at_height w\<rparr>"

section \<open>Instantiation\<close>

definition cb_instantiate ::
  "cb_world \<Rightarrow> kv_store \<Rightarrow> instantiate_msg \<Rightarrow> (cb_client_error, kv_store) outcome" where
  "cb_instantiate w s msg =
     andthen (result_or CbClientStateDecode (client_decode (cw_wasm w) (im_client_state msg))) (\<lambda>client_state.
     if 31 < length (ccs_chain_id client_state) then Err CbInvalidChainId
     else
       let s = save_proto_consensus_state (cw_wasm w) s (im_consensus_state msg)
                 (ccs_latest_height client_state)
       in Ok (save_proto_client_state (cw_wasm w) s
                \<lparr>pwcs_data = im_client_state msg, pwcs_checksum = im_checksum msg,
                 pwcs_latest_height = Some (ccs_latest_height client_state)\<rparr>))"

end
