(* ===== verification/Cb_System.thy ===== *)
theory Cb_System imports Cb_Client begin

text \<open>
  A CometBLS client under its host: instantiated on an empty store, then updated with messages the
  host has verified and checked for misbehaviour. The history of \<open>Client_History\<close>, with times counted
  in nanoseconds, gives the order of the stored consensus states and the exactness of the check.
\<close>

section \<open>The laws of the encodings\<close>

lemma cb_decode_encode: "cb_decode_packed (cb_encode_packed t) = Ok t"
  by (simp add: cb_decode_packed_def cb_encode_packed_def CB_METADATA_SIZE_def)

lemma cb_decode_size: "length b \<noteq> CB_METADATA_SIZE \<Longrightarrow> \<exists>e. cb_decode_packed b = Err e"
  by (simp add: cb_decode_packed_def)

locale cb_client =
  wasm_laws "cw_wasm w" wf_client wf_cb_consensus
  for w :: cb_world and wf_client :: "cb_client_state \<Rightarrow> bool" +
  assumes decoded_client: "client_decode (cw_wasm w) b = Inr cs \<Longrightarrow> wf_client cs"
    and decoded_consensus: "consensus_decode (cw_wasm w) b = Inr c \<Longrightarrow> wf_cb_consensus c"
    and decoded_header: "cw_decode_header w b = Inr hdr \<Longrightarrow> wf_cb_header hdr"
    and consensus_long: "length (any_consensus_encode (cw_wasm w) d) \<noteq> CB_METADATA_SIZE"
    and client_latest: "wf_client cs \<Longrightarrow> wf_client (cs\<lparr>ccs_latest_height := h\<rparr>)"

sublocale cb_client \<subseteq>
  history: client_history "cw_wasm w" wf_client wf_cb_consensus ccs_latest_height cco_timestamp
    cb_encode_packed cb_decode_packed CB_METADATA_SIZE
  by unfold_locales
    (auto simp: cb_decode_encode cb_decode_size consensus_long dest: decoded_client decoded_consensus)

section \<open>The host's calls\<close>

inductive cb_reachable :: "cb_world \<Rightarrow> kv_store \<Rightarrow> bool" for w :: cb_world where
  start: "\<lbrakk>consensus_decode (cw_wasm w) (im_consensus_state msg) = Inr c; length (im_checksum msg) = 32;
           cb_instantiate w [] msg = Ok s\<rbrakk> \<Longrightarrow> cb_reachable w s"
| update: "\<lbrakk>cb_reachable w s;
            query (cometbls_light_client w) s now (QueryVerifyClientMessage m) = Ok ReplyUnit;
            query (cometbls_light_client w) s now (QueryCheckForMisbehaviour m) =
              Ok (ReplyCheckForMisbehaviour False);
            sudo (cometbls_light_client w) s now (SudoUpdateState m) = Ok (r, s')\<rbrakk> \<Longrightarrow>
           cb_reachable w s'"

abbreviation cb_stored :: "cb_world \<Rightarrow> kv_store \<Rightarrow> height \<Rightarrow> cb_consensus_state option" where
  "cb_stored w \<equiv> stored_at (cw_wasm w)"

section \<open>The check of a header\<close>

lemma uint_u64_bound: "0 \<le> uint (n :: u64)" "uint (n :: u64) < 2 ^ 64"
  using unsigned_less [where 'a = int and w = n] by simp_all

lemma uint_nat_u64: "0 \<le> x \<Longrightarrow> x < 2 ^ 64 \<Longrightarrow> uint (of_nat (nat x) :: u64) = x"
  by (simp add: unsigned_of_int take_bit_int_eq_self)

lemma u64_checked_add_Some:
  "u64_checked_add a b = Some c \<longleftrightarrow> uint a + uint b = uint c"
proof
  assume "u64_checked_add a b = Some c"
  then show "uint a + uint b = uint c"
    by (auto simp: u64_checked_add_def uint_word_ariths split: if_splits)
next
  assume eq: "uint a + uint b = uint c"
  then have "uint a + uint b < 2 ^ 64" using uint_u64_bound [of c] by simp
  moreover from this have "uint (a + b) = uint c" using eq by (simp add: uint_word_ariths)
  then have "a + b = c" by (rule word_uint_eqI)
  ultimately show "u64_checked_add a b = Some c" by (simp add: u64_checked_add_def)
qed

lemma not_expired:
  "\<not> cb_is_client_expired t p now \<longleftrightarrow> uint t + uint p < 2 ^ 64 \<and> uint now \<le> uint t + uint p"
proof (cases "u64_checked_add t p")
  case None
  then show ?thesis by (simp add: cb_is_client_expired_def u64_checked_add_def split: if_splits)
next
  case (Some e)
  then have "uint t + uint p = uint e" by (simp add: u64_checked_add_Some)
  moreover have "uint e < 2 ^ 64" using uint_u64_bound [of e] by simp
  ultimately show ?thesis using Some by (simp add: cb_is_client_expired_def word_less_def not_less)
qed

lemma as_unix_nanos_Ok:
  assumes wf: "wf_timestamp t"
  shows "as_unix_nanos t = Ok n \<longleftrightarrow> 0 \<le> ts_seconds t \<and> uint n = ts_total t"
proof -
  have total: "0 \<le> ts_total t" if "0 \<le> ts_seconds t" using that wf by (simp add: ts_total_def wf_timestamp_def)
  have nanos: "ts_as_unix_nanos t =
      (if 0 \<le> ts_seconds t \<and> ts_total t < 2 ^ 64 then Ok (nat (ts_total t)) else Panic)"
    using wf by (auto simp: ts_as_unix_nanos_def ts_total_def wf_timestamp_def)
  show ?thesis
    using total uint_nat_u64 [of "ts_total t"] uint_u64_bound [of n]
    by (auto simp: as_unix_nanos_def nanos word_uint_eq_iff)
qed

lemma cb_consensus_at_Ok:
  "cb_consensus_at w s h no_prefix = Ok c \<longleftrightarrow> cb_stored w s h = Some c"
  by (auto simp: cb_consensus_at_def outcome_ok simp flip: stored_at_Some)

text \<open>The check passes exactly for a header above the trusted height, later than the trusted time, still
  within the trusting period of its own time, not ahead of the clock by the drift, of the announced
  validators when it is the next one, and with a proof the verifier accepts.\<close>

lemma cb_verify_header_Ok:
  assumes "wf_cb_header hdr"
  shows "cb_verify_header w s now hdr = Ok () \<longleftrightarrow>
    (\<exists>v c. client_at (cw_wasm w) s = Some v \<and> cb_stored w s (ch_trusted_height hdr) = Some c \<and>
      (let sh = ch_signed_header hdr; t = ts_total (clh_time sh); cs = wcs_data v in
       uint (revision_height (ch_trusted_height hdr)) < clh_height sh \<and>
       0 \<le> ts_seconds (clh_time sh) \<and> uint (cco_timestamp c) < t \<and>
       uint now \<le> t + uint (ccs_trusting_period cs) \<and> t + uint (ccs_trusting_period cs) < 2 ^ 64 \<and>
       t < uint now + uint (ccs_max_clock_drift cs) \<and> uint now + uint (ccs_max_clock_drift cs) < 2 ^ 64 \<and>
       (clh_height sh = uint (revision_height (ch_trusted_height hdr)) + 1 \<longrightarrow>
          clh_validators_hash sh = cco_next_validators_hash c) \<and>
       cw_verify_zkp w (ccs_chain_id cs) (cco_next_validators_hash c) sh (ch_zero_knowledge_proof hdr) = Ok ()))"
proof -
  let ?sh = "ch_signed_header hdr" and ?m = "revision_height (ch_trusted_height hdr)"
  let ?t = "ts_total (clh_time ?sh)"
  have h: "0 \<le> clh_height ?sh" "clh_height ?sh < 2 ^ 63" and wf: "wf_timestamp (clh_time ?sh)"
    using assms by (simp_all add: wf_cb_light_header_def)
  have n: "uint (cb_height_number hdr) = clh_height ?sh"
    using h by (simp add: cb_height_number_def unsigned_of_int take_bit_int_eq_self)
  have less: "?m < cb_height_number hdr \<longleftrightarrow> uint ?m < clh_height ?sh"
    by (simp add: word_less_def n)
  have adjacent: "cb_height_number hdr = ?m + 1 \<longleftrightarrow> clh_height ?sh = uint ?m + 1"
    if "uint ?m < clh_height ?sh"
  proof -
    have "uint (?m + 1) = uint ?m + 1"
      using that h uint_u64_bound [of ?m] by (simp add: uint_word_ariths)
    then show ?thesis by (simp add: word_uint_eq_iff n)
  qed
  have drift: "u64_checked_add now d = Some x \<longleftrightarrow> uint now + uint d = uint x" for d x
    by (rule u64_checked_add_Some)
  have "cb_verify_header w s now hdr = Ok () \<longleftrightarrow>
    (\<exists>v c t x. client_at (cw_wasm w) s = Some v \<and> cb_stored w s (ch_trusted_height hdr) = Some c \<and>
      uint ?m < clh_height ?sh \<and> 0 \<le> ts_seconds (clh_time ?sh) \<and> uint t = ?t \<and>
      cco_timestamp c < t \<and> \<not> cb_is_client_expired t (ccs_trusting_period (wcs_data v)) now \<and>
      uint now + uint (ccs_max_clock_drift (wcs_data v)) = uint x \<and> t < x \<and>
      (cb_height_number hdr = ?m + 1 \<longrightarrow> clh_validators_hash ?sh = cco_next_validators_hash c) \<and>
      cw_verify_zkp w (ccs_chain_id (wcs_data v)) (cco_next_validators_hash c) ?sh
        (ch_zero_knowledge_proof hdr) = Ok ())"
    unfolding cb_verify_header_def Let_def
    by (simp add: outcome_ok cb_consensus_at_Ok less as_unix_nanos_Ok [OF wf] drift not_le flip: client_at_Some)
  also have "\<dots> \<longleftrightarrow> (\<exists>v c. client_at (cw_wasm w) s = Some v \<and> cb_stored w s (ch_trusted_height hdr) = Some c \<and>
      uint ?m < clh_height ?sh \<and> 0 \<le> ts_seconds (clh_time ?sh) \<and> uint (cco_timestamp c) < ?t \<and>
       uint now \<le> ?t + uint (ccs_trusting_period (wcs_data v)) \<and>
       ?t + uint (ccs_trusting_period (wcs_data v)) < 2 ^ 64 \<and>
       ?t < uint now + uint (ccs_max_clock_drift (wcs_data v)) \<and>
       uint now + uint (ccs_max_clock_drift (wcs_data v)) < 2 ^ 64 \<and>
      (clh_height ?sh = uint ?m + 1 \<longrightarrow> clh_validators_hash ?sh = cco_next_validators_hash c) \<and>
      cw_verify_zkp w (ccs_chain_id (wcs_data v)) (cco_next_validators_hash c) ?sh
        (ch_zero_knowledge_proof hdr) = Ok ())"
    (is "(\<exists>v c t x. ?L v c t x) \<longleftrightarrow> (\<exists>v c. ?R v c)")
  proof (intro ex_cong1)
    fix v :: cb_wasm_client_state and c
    let ?p = "uint (ccs_trusting_period (wcs_data v))" and ?d = "uint (ccs_max_clock_drift (wcs_data v))"
    show "(\<exists>t x. ?L v c t x) \<longleftrightarrow> ?R v c"
    proof
      assume "\<exists>t x. ?L v c t x"
      then obtain t x where l: "?L v c t x" by blast
      then show "?R v c"
        using uint_u64_bound(2) [of x] adjacent by (auto simp: not_expired word_less_def)
    next
      assume r: "?R v c"
      then have "0 \<le> ?t" "?t < 2 ^ 64" "0 \<le> uint now + ?d" "uint now + ?d < 2 ^ 64"
        using uint_u64_bound [of now] uint_u64_bound [of "ccs_max_clock_drift (wcs_data v)"]
          uint_u64_bound [of "ccs_trusting_period (wcs_data v)"] uint_u64_bound [of "cco_timestamp c"]
        by linarith+
      then obtain t x :: u64 where "uint t = ?t" "uint x = uint now + ?d" using uint_nat_u64 by blast
      with r have "?L v c t x" using adjacent by (simp add: not_expired word_less_def)
      then show "\<exists>t x. ?L v c t x" by blast
    qed
  qed
  finally show ?thesis by (simp only: Let_def)
qed

lemma cb_verified_header:
  assumes "wf_cb_header hdr" "cb_verify_header w s now hdr = Ok ()"
  shows "\<exists>c t. cb_stored w s (ch_trusted_height hdr) = Some c \<and>
    as_unix_nanos (clh_time (ch_signed_header hdr)) = Ok t \<and>
    ch_trusted_height hdr < cb_height_from_header hdr \<and> cco_timestamp c < t"
  using assms(2)
  by (cases "ch_trusted_height hdr")
    (auto simp: cb_verify_header_def Let_def outcome_ok cb_consensus_at_Ok cb_height_from_header_def
      height_less_iff not_le)

section \<open>The history\<close>

definition cb_header_consensus :: "cb_header \<Rightarrow> u64 \<Rightarrow> cb_consensus_state" where
  \<comment> \<open>what a header says of its height, its time counted in nanoseconds\<close>
  "cb_header_consensus hdr t =
     (let sh = ch_signed_header hdr in
      \<lparr>cco_timestamp = t, cco_app_hash = \<lparr>mr_hash = clh_app_hash sh\<rparr>,
       cco_next_validators_hash = clh_next_validators_hash sh\<rparr>)"

lemma cb_header_consensus_wf: "wf_cb_header hdr \<Longrightarrow> wf_cb_consensus (cb_header_consensus hdr t)"
  by (simp add: wf_cb_light_header_def wf_cb_consensus_def cb_header_consensus_def Let_def)

lemma cb_header_consensus_time [simp]: "cco_timestamp (cb_header_consensus hdr t) = t"
  by (simp add: cb_header_consensus_def Let_def)

abbreviation set_cb_latest :: "height \<Rightarrow> cb_client_state \<Rightarrow> cb_client_state" where
  "set_cb_latest h cs \<equiv> cs\<lparr>ccs_latest_height := h\<rparr>"

context cb_client begin

lemma misbehaviour_conflict:
  assumes inv: "history.history_inv s" and t: "as_unix_nanos (clh_time (ch_signed_header hdr)) = Ok t"
  shows "cb_check_for_misbehaviour_on_header w s hdr =
    (case cb_stored w s (cb_height_from_header hdr) of
       Some c \<Rightarrow> Ok (c \<noteq> cb_header_consensus hdr t)
     | None \<Rightarrow>
         neighbour_conflict (meta_entry cb_decode_packed (kv_first_from s (consensus_state_iterator_key (cb_height_from_header hdr))))
           (meta_entry cb_decode_packed (kv_last_before s (consensus_state_iterator_key (cb_height_from_header hdr)))) t)"
proof (cases "cb_stored w s (cb_height_from_header hdr)")
  case (Some d)
  have "d = \<lparr>cco_timestamp = t, cco_app_hash = \<lparr>mr_hash = r\<rparr>, cco_next_validators_hash = v\<rparr> \<longleftrightarrow>
      cco_timestamp d = t \<and> mr_hash (cco_app_hash d) = r \<and> cco_next_validators_hash d = v" for r v
    by (auto intro!: cb_consensus_state.equality merkle_root.equality)
  with Some show ?thesis
    by (simp add: cb_check_for_misbehaviour_on_header_def history.inv_read [OF inv] t
        cb_header_consensus_def Let_def)
qed (simp add: cb_check_for_misbehaviour_on_header_def history.inv_read [OF inv] t
    cb_current_or_next_meta_def cb_current_or_prev_meta_def Let_def)

text \<open>An update writes its states whether its height is new or not.\<close>

lemma update_put_states:
  assumes ok: "cb_update_state w s now hdr = Ok (hs, s')"
  shows "\<exists>v t. client_at (cw_wasm w) s = Some v \<and>
    as_unix_nanos (clh_time (ch_signed_header hdr)) = Ok t \<and> hs = [cb_height_from_header hdr] \<and>
    s' = history.put_states (raised set_cb_latest (cb_height_from_header hdr) v)
      (cb_header_consensus hdr t) (cb_height_from_header hdr) s"
proof -
  obtain v c t where v: "cb_read_client w s no_prefix = Ok v"
    and t: "as_unix_nanos (clh_time (ch_signed_header hdr)) = Ok t"
    and c: "cb_consensus_at w s (ch_trusted_height hdr) no_prefix = Ok c"
    using ok by (auto simp: cb_update_state_def Let_def outcome_ok)
  have at: "client_at (cw_wasm w) s = Some v" using v by (rule client_at_Some [THEN iffD2])
  have "c\<lparr>cco_app_hash := a, cco_next_validators_hash := n, cco_timestamp := t\<rparr> =
      \<lparr>cco_timestamp = t, cco_app_hash = a, cco_next_validators_hash = n\<rparr>" for a n
    by (cases c) simp
  with ok v t c at show ?thesis
    by (simp add: cb_update_state_def Let_def history.put_states_def raised_def cb_header_consensus_def
        cb_save_metadata_def cb_height_from_header_def)
qed

lemma update_inv:
  assumes inv: "history.history_inv s" and wf: "wf_cb_header hdr"
    and verified: "cb_verify_header w s now hdr = Ok ()"
    and honest: "cb_check_for_misbehaviour_on_header w s hdr = Ok False"
    and ok: "cb_update_state w s now hdr = Ok (hs, s')"
  shows "history.history_inv s'"
proof -
  obtain v t where v: "client_at (cw_wasm w) s = Some v"
    and t: "as_unix_nanos (clh_time (ch_signed_header hdr)) = Ok t" and
    s': "s' = history.put_states (raised set_cb_latest (cb_height_from_header hdr) v)
      (cb_header_consensus hdr t) (cb_height_from_header hdr) s"
    using update_put_states [OF ok] by blast
  obtain ct where ct: "cb_stored w s (ch_trusted_height hdr) = Some ct"
    "ch_trusted_height hdr < cb_height_from_header hdr"
    "cco_timestamp ct < cco_timestamp (cb_header_consensus hdr t)"
    using cb_verified_header [OF wf verified] t by auto
  show ?thesis
    unfolding s'
    by (rule history.update_inv [OF inv v cb_header_consensus_wf [OF wf] _ ct])
      (use honest client_latest in \<open>auto simp: misbehaviour_conflict [OF inv t]\<close>)
qed

lemma start_reads:
  assumes c: "consensus_decode (cw_wasm w) (im_consensus_state msg) = Inr c"
    and cs: "client_decode (cw_wasm w) (im_client_state msg) = Inr cs"
    and checksum: "length (im_checksum msg) = 32" and ok: "cb_instantiate w [] msg = Ok s"
  shows "cb_stored w s = [ccs_latest_height cs \<mapsto> c]"
    "client_at (cw_wasm w) s =
       Some \<lparr>wcs_data = cs, wcs_checksum = im_checksum msg, wcs_latest_height = ccs_latest_height cs\<rparr>"
    "meta_at s h = None" "history.history_inv s" "length (ccs_chain_id cs) \<le> 31"
  using history.start_states [OF c cs checksum] ok cs
  by (auto simp: cb_instantiate_def Let_def outcome_ok split: if_splits)

definition chain_id_fits :: "kv_store \<Rightarrow> bool" where
  "chain_id_fits s \<longleftrightarrow>
     (\<forall>v. client_at (cw_wasm w) s = Some v \<longrightarrow> length (ccs_chain_id (wcs_data v)) \<le> 31)"

lemma reachable_inv: "cb_reachable w s \<Longrightarrow> history.history_inv s \<and> chain_id_fits s"
proof (induction rule: cb_reachable.induct)
  case (start msg c s)
  then obtain cs where cs: "client_decode (cw_wasm w) (im_client_state msg) = Inr cs"
    by (auto simp: cb_instantiate_def outcome_ok)
  note reads = start_reads [OF start.hyps(1) cs start.hyps(2,3)]
  from reads(2,5) have "chain_id_fits s" by (simp add: chain_id_fits_def)
  with reads(4) show ?case by blast
next
  case (update s now m r s')
  then obtain hdr where hdr: "cw_decode_header w m = Inr hdr"
    by (auto simp: cometbls_light_client_def split: sum.splits)
  from update hdr obtain hs where "cb_verify_header w s now hdr = Ok ()"
    "cb_check_for_misbehaviour_on_header w s hdr = Ok False" and ok: "cb_update_state w s now hdr = Ok (hs, s')"
    by (auto simp: cometbls_light_client_def outcome_ok)
  with update.IH decoded_header [OF hdr] have inv: "history.history_inv s'" by (blast intro: update_inv)
  obtain v t where v: "client_at (cw_wasm w) s = Some v" and
    s': "s' = history.put_states (raised set_cb_latest (cb_height_from_header hdr) v)
      (cb_header_consensus hdr t) (cb_height_from_header hdr) s"
    using update_put_states [OF ok] by blast
  have c: "wf_client (wcs_data v)" "length (wcs_checksum v) = 32"
    using update.IH history.client_wf [OF v] history.inv_client [of s] v by auto
  have "client_at (cw_wasm w) s' = Some (raised set_cb_latest (cb_height_from_header hdr) v)"
    unfolding s' using c client_latest cb_header_consensus_wf [OF decoded_header [OF hdr]]
    by (intro history.put_states(1)) (auto simp: raised_def)
  with update.IH v have "chain_id_fits s'" by (simp add: chain_id_fits_def raised_def)
  with inv show ?case by blast
qed

text \<open>What the invariant says of the stores the host can reach.\<close>

lemma history_ordered:
  assumes "cb_reachable w s" "cb_stored w s h = Some c" "cb_stored w s h' = Some c'" "h < h'"
  shows "cco_timestamp c < cco_timestamp c'"
  using history.inv_mono [of s h h'] reachable_inv [OF assms(1)] assms(2-4)
  by (simp add: history.time_at_def)

lemma misbehaviour:
  assumes "cb_reachable w s"
  shows "\<exists>h0. cb_stored w s h0 \<noteq> None \<and> (\<forall>h. cb_stored w s h \<noteq> None \<longrightarrow> h0 \<le> h) \<and>
    (\<forall>hdr t. as_unix_nanos (clh_time (ch_signed_header hdr)) = Ok t \<longrightarrow>
      (\<exists>b. cb_check_for_misbehaviour_on_header w s hdr = Ok b \<and>
      (b \<longleftrightarrow>
        (case cb_stored w s (cb_height_from_header hdr) of
           Some c \<Rightarrow> c \<noteq> cb_header_consensus hdr t
         | None \<Rightarrow>
             (\<exists>n c. cb_stored w s n = Some c \<and> n \<noteq> h0 \<and>
               (cb_height_from_header hdr \<le> n \<and> cco_timestamp c \<le> t \<or>
                n < cb_height_from_header hdr \<and> t \<le> cco_timestamp c))))))"
proof -
  have inv: "history.history_inv s" using reachable_inv [OF assms] ..
  obtain h0 where h0: "cb_stored w s h0 \<noteq> None" "\<And>n. cb_stored w s n \<noteq> None \<Longrightarrow> h0 \<le> n"
    and exact: "\<And>h t. (\<exists>n. meta_at s n \<noteq> None \<and>
        (h \<le> n \<and> history.time_at s n \<le> t \<or> n < h \<and> t \<le> history.time_at s n)) \<longleftrightarrow>
       (\<exists>n c. cb_stored w s n = Some c \<and> n \<noteq> h0 \<and>
         (h \<le> n \<and> cco_timestamp c \<le> t \<or> n < h \<and> t \<le> cco_timestamp c))"
    using history.conflict_stored [OF inv] by blast
  have "\<exists>b. cb_check_for_misbehaviour_on_header w s hdr = Ok b \<and>
      (b \<longleftrightarrow>
        (case cb_stored w s (cb_height_from_header hdr) of
           Some c \<Rightarrow> c \<noteq> cb_header_consensus hdr t
         | None \<Rightarrow>
             (\<exists>n c. cb_stored w s n = Some c \<and> n \<noteq> h0 \<and>
               (cb_height_from_header hdr \<le> n \<and> cco_timestamp c \<le> t \<or>
                n < cb_height_from_header hdr \<and> t \<le> cco_timestamp c))))"
    if t: "as_unix_nanos (clh_time (ch_signed_header hdr)) = Ok t" for hdr t
    using history.conflict_exact [OF inv, of "cb_height_from_header hdr" t
      "cb_check_for_misbehaviour_on_header w s hdr"] misbehaviour_conflict [OF inv t]
    by (cases "cb_stored w s (cb_height_from_header hdr)") (simp_all add: exact del: not_None_eq)
  with h0 show ?thesis by blast
qed

lemma update_stores:
  assumes "cb_reachable w s" "wf_cb_header hdr" and ok: "cb_update_state w s now hdr = Ok (hs, s')"
  shows "\<exists>v v' t. as_unix_nanos (clh_time (ch_signed_header hdr)) = Ok t \<and>
    hs = [cb_height_from_header hdr] \<and>
    cb_stored w s' = (cb_stored w s)(cb_height_from_header hdr \<mapsto> cb_header_consensus hdr t) \<and>
    cb_read_client w s no_prefix = Ok v \<and> cb_read_client w s' no_prefix = Ok v' \<and>
    wcs_latest_height v' = max (wcs_latest_height v) (cb_height_from_header hdr) \<and>
    wcs_checksum v' = wcs_checksum v \<and>
    wcs_data v' = (wcs_data v)\<lparr>ccs_latest_height := wcs_latest_height v'\<rparr>"
proof -
  have inv: "history.history_inv s" using reachable_inv [OF assms(1)] ..
  note wf = cb_header_consensus_wf [OF assms(2)]
  let ?h = "cb_height_from_header hdr"
  obtain v t where v: "client_at (cw_wasm w) s = Some v"
    and t: "as_unix_nanos (clh_time (ch_signed_header hdr)) = Ok t" "hs = [?h]"
    and s': "s' = history.put_states (raised set_cb_latest ?h v) (cb_header_consensus hdr t) ?h s"
    using update_put_states [OF ok] by blast
  have c: "wf_client (wcs_data v)" "length (wcs_checksum v) = 32"
    "ccs_latest_height (wcs_data v) = wcs_latest_height v"
    using history.client_wf [OF v] history.inv_client [OF inv] v by auto
  then have "wf_client (wcs_data (raised set_cb_latest ?h v))"
    "length (wcs_checksum (raised set_cb_latest ?h v)) = 32"
    using client_latest by (auto simp: raised_def)
  note puts = history.put_states [OF this wf, where h = ?h and s = s]
  have "cb_stored w s' = (cb_stored w s)(?h \<mapsto> cb_header_consensus hdr t)"
    unfolding s' using puts(2) by (intro ext) simp
  moreover have "cb_read_client w s no_prefix = Ok v"
    "cb_read_client w s' no_prefix = Ok (raised set_cb_latest ?h v)"
    using v puts(1) unfolding s' by (auto intro: client_at_Some [THEN iffD1])
  moreover have "(wcs_data v)\<lparr>ccs_latest_height := wcs_latest_height v\<rparr> = wcs_data v"
    using c(3) by (cases "wcs_data v") simp
  ultimately show ?thesis
    using t
    by - (rule exI [of _ v], rule exI [of _ "raised set_cb_latest ?h v"], rule exI [of _ t],
        auto simp: raised_def max_def)
qed

lemma history_whole:
  assumes "cb_reachable w s"
  shows "(\<forall>h h' c c'. cb_stored w s h = Some c \<longrightarrow> cb_stored w s h' = Some c' \<longrightarrow> h < h' \<longrightarrow>
       cco_timestamp c < cco_timestamp c') \<and>
    (\<forall>h. kv_get s (str_bytes (consensus_db_key h)) \<noteq> None \<longrightarrow> cb_stored w s h \<noteq> None) \<and>
    (\<exists>v. cb_read_client w s no_prefix = Ok v \<and> length (ccs_chain_id (wcs_data v)) \<le> 31 \<and>
       ccs_latest_height (wcs_data v) = wcs_latest_height v \<and> cb_stored w s (wcs_latest_height v) \<noteq> None \<and>
       (\<forall>h. cb_stored w s h \<noteq> None \<longrightarrow> h \<le> wcs_latest_height v))"
proof -
  have inv: "history.history_inv s" and fits: "chain_id_fits s" using reachable_inv [OF assms] by blast+
  obtain v where v: "client_at (cw_wasm w) s = Some v" "ccs_latest_height (wcs_data v) = wcs_latest_height v"
    "cb_stored w s (wcs_latest_height v) \<noteq> None" "\<And>h. cb_stored w s h \<noteq> None \<Longrightarrow> h \<le> wcs_latest_height v"
    using history.inv_client [OF inv] by blast
  have "cb_read_client w s no_prefix = Ok v" by (rule client_at_Some [THEN iffD1, OF v(1)])
  moreover have "length (ccs_chain_id (wcs_data v)) \<le> 31" using fits v(1) by (simp add: chain_id_fits_def)
  ultimately show ?thesis
    using v(2-4) history.inv_decodes [OF inv] history_ordered [OF assms] by blast
qed

lemma panics_exact:
  assumes "cb_reachable w s" and wf: "wf_cb_header hdr"
    and verifier: "\<And>ch vh h b. cw_verify_zkp w ch vh h b \<noteq> Panic"
  shows "(cb_check_for_misbehaviour_on_header w s hdr = Panic \<longleftrightarrow>
      \<not> (0 \<le> ts_seconds (clh_time (ch_signed_header hdr)) \<and> ts_total (clh_time (ch_signed_header hdr)) < 2 ^ 64)) \<and>
    (cb_verify_header w s now hdr = Panic \<longleftrightarrow>
      \<not> (0 \<le> ts_seconds (clh_time (ch_signed_header hdr)) \<and> ts_total (clh_time (ch_signed_header hdr)) < 2 ^ 64) \<and>
      cb_stored w s (ch_trusted_height hdr) \<noteq> None \<and>
      uint (revision_height (ch_trusted_height hdr)) < clh_height (ch_signed_header hdr))"
proof -
  have inv: "history.history_inv s" using reachable_inv [OF assms(1)] ..
  let ?t = "clh_time (ch_signed_header hdr)"
  have nanos: "as_unix_nanos ?t = Panic \<longleftrightarrow> \<not> (0 \<le> ts_seconds ?t \<and> ts_total ?t < 2 ^ 64)"
    "as_unix_nanos ?t \<noteq> Err e" for e
    using wf
    by (auto simp: as_unix_nanos_def ts_as_unix_nanos_def ts_total_def wf_cb_light_header_def wf_timestamp_def)
  have n: "cb_height_number hdr \<le> revision_height (ch_trusted_height hdr) \<longleftrightarrow>
      \<not> uint (revision_height (ch_trusted_height hdr)) < clh_height (ch_signed_header hdr)"
    using wf by (simp add: cb_height_number_def unsigned_of_int take_bit_int_eq_self wf_cb_light_header_def
        word_le_def not_less)
  obtain v where v: "client_at (cw_wasm w) s = Some v" using history.inv_client [OF inv] by blast
  have at: "cb_consensus_at w s h no_prefix =
      (case cb_stored w s h of Some c \<Rightarrow> Ok c | None \<Rightarrow> Err (ClientSpecific (CbConsensusStateNotFound h)))" for h
    by (simp add: cb_consensus_at_def history.inv_read [OF inv] some_or_def split: option.split)
  have "cb_check_for_misbehaviour_on_header w s hdr = Panic \<longleftrightarrow> as_unix_nanos ?t = Panic"
  proof (cases "as_unix_nanos ?t")
    case (Ok t)
    then obtain b where "cb_check_for_misbehaviour_on_header w s hdr = Ok b"
      using misbehaviour [OF assms(1)] by blast
    with Ok show ?thesis by simp
  qed (use nanos(2) in \<open>simp_all add: cb_check_for_misbehaviour_on_header_def Let_def\<close>)
  moreover have "cb_verify_header w s now hdr = Panic \<longleftrightarrow>
      as_unix_nanos ?t = Panic \<and> cb_stored w s (ch_trusted_height hdr) \<noteq> None \<and>
      uint (revision_height (ch_trusted_height hdr)) < clh_height (ch_signed_header hdr)"
    using verifier nanos(2)
    by (cases "cb_stored w s (ch_trusted_height hdr)"; cases "as_unix_nanos ?t")
      (simp_all add: cb_verify_header_def Let_def client_at_Some [THEN iffD1, OF v] at n require_def no_panic)
  ultimately show ?thesis unfolding nanos(1) by blast
qed

end

end
