(* ===== verification/Cb_Example.thy ===== *)
theory Cb_Example imports Cb_System Ics23_Example Wasm_Example begin

text \<open>
  A concrete world for the CometBLS client: integers for the groups of the curve, with products for
  the pairing, toy hashes and encodings that satisfy the laws, a client and two headers with a proof.
\<close>

section \<open>A curve\<close>

definition toy_curve :: "(nat, nat \<times> nat, int, int, int, nat, int) bn254" where
  \<comment> \<open>a point is its first coordinate, the pairing of two points their product\<close>
  "toy_curve =
     \<lparr>fq_from_slice = (\<lambda>b. Some (be_value b)), fq_to_big_endian = (\<lambda>x. Some (be_bytes 32 x)),
      affine_g1_new = (\<lambda>x y. Some (x, y)), affine_g1_x = fst, affine_g1_y = snd,
      affine_g2_new = (\<lambda>(x0, x1) (y0, y1). Some (int x0)),
      g1_from = (\<lambda>(x, y). int x), g2_from = (\<lambda>p. p), g1_add = (+), g1_mul = (\<lambda>p n. p * int n),
      g2_neg = uminus, fr_new = (\<lambda>n. if n < PRIME_R_MINUS_ONE + 1 then Some n else None),
      pairing_batch = (\<lambda>ps. sum_list (map (\<lambda>(p, q). p * q) ps)), gt_one = 0\<rparr>"

definition toy_key :: "(nat \<times> nat, int) zkp_constants" where
  "toy_key =
     \<lparr>ALPHA_G1 = (1, 0), BETA_G2 = 1, GAMMA_G2 = 1, DELTA_G2 = 1,
      GAMMA_ABC_G1 = [(1, 0), (0, 0), (0, 0)], PEDERSEN_G = 1, PEDERSEN_G_ROOT_SIGMA_NEG = - 1\<rparr>"

abbreviation toy_keccak :: "bytes \<Rightarrow> bytes" where "toy_keccak \<equiv> sha256 toy_crypto"

definition toy_zkp_words :: "nat list" where
  \<comment> \<open>twelve coordinates: a, b, c, the commitment and its proof of knowledge\<close>
  "toy_zkp_words = [2, 0, 0, 3, 0, 0, 3, 0, 1, 0, 1, 0]"

definition toy_zkp_bytes :: bytes where
  "toy_zkp_bytes = concat (map (be_bytes 32) toy_zkp_words)"

interpretation toy_bn: bn254_laws toy_crypto toy_keccak toy_curve
  by unfold_locales (simp_all add: toy_crypto_def toy_hash_def toy_curve_def)

lemma toy_zkp_read:
  "zkp_try_from toy_curve toy_zkp_bytes =
     Ok \<lparr>zkp_a = (2, 0), zkp_b = 3, zkp_c = (3, 0), zkp_commitment = (1, 0), zkp_commitment_pok = (1, 0)\<rparr>"
  by (simp add: zkp_try_from_def EXPECTED_PROOF_SIZE_def g1_try_from_def g2_try_from_def array_slice_def
      toy_zkp_bytes_def toy_zkp_words_def toy_curve_def be_value_be_bytes)

text \<open>The proof is good for every header whose height and time are not negative.\<close>

lemma toy_zkp_accepted:
  assumes "length ch \<le> 31" "0 \<le> clh_height h" "0 \<le> ts_seconds (clh_time h)" "0 \<le> ts_nanos (clh_time h)"
  shows "verify_zkp toy_crypto toy_keccak toy_curve toy_key ch vh h toy_zkp_bytes = Ok ()"
proof -
  let ?z = "\<lparr>zkp_a = (2, 0), zkp_b = 3, zkp_c = (3, 0), zkp_commitment = (1, 0), zkp_commitment_pok = (1, 0)\<rparr>"
  obtain i where i: "inputs_preimage ch vh h = Ok i"
    using assms by (simp add: inputs_preimage_Ok)
  obtain x where x: "decode_scalar toy_curve (inputs_scalar toy_crypto i) = Ok x"
    using toy_bn.inputs_scalar_in_field by blast
  obtain n y where y: "hash_commitment toy_keccak toy_curve (1, 0) = Ok n" "decode_scalar toy_curve n = Ok y"
    using toy_bn.commitment_in_field by blast
  have "pok_holds toy_curve (PEDERSEN_G toy_key) (PEDERSEN_G_ROOT_SIGMA_NEG toy_key) ?z"
    "groth16_holds toy_curve toy_key (public_inputs_msm toy_curve toy_key [x, y] (1, 0)) ?z"
    by (simp_all add: pok_holds_def groth16_holds_def public_inputs_msm_def toy_curve_def toy_key_def)
  with i x y toy_zkp_read assms(1) show ?thesis unfolding toy_bn.verify_zkp_exact by simp
qed

section \<open>A client\<close>

definition toy_cb_client_state :: "height \<Rightarrow> cb_client_state" where
  "toy_cb_client_state h =
     \<lparr>ccs_chain_id = ''toy-1'', ccs_trusting_period = 100000000000, ccs_unbonding_period = 200000000000,
      ccs_max_clock_drift = 10000000000, ccs_frozen_height = ZERO_HEIGHT, ccs_latest_height = h\<rparr>"

definition toy_cb_wf_client :: "cb_client_state \<Rightarrow> bool" where
  "toy_cb_wf_client cs \<longleftrightarrow> cs = toy_cb_client_state (ccs_latest_height cs)"

definition toy_cb_consensus_decode :: "bytes \<Rightarrow> string + cb_consensus_state" where
  "toy_cb_consensus_decode b =
     (case unpack b of
        Some [t, r, v] \<Rightarrow>
          (case cb_decode_packed t of
             Ok u \<Rightarrow>
               (let c = \<lparr>cco_timestamp = u, cco_app_hash = \<lparr>mr_hash = r\<rparr>, cco_next_validators_hash = v\<rparr> in
                if wf_cb_consensus c then Inr c else Inl ''bounds'')
           | _ \<Rightarrow> Inl ''timestamp'')
      | _ \<Rightarrow> Inl ''fields'')"

definition toy_cb_wasm :: "(cb_client_state, cb_consensus_state) wasm_codec" where
  "toy_cb_wasm =
     \<lparr>any_client_encode = pack_wasm, any_client_decode = unpack_wasm,
      any_consensus_encode = (\<lambda>d. replicate 17 0 @ d), any_consensus_decode = (\<lambda>b. Inr (drop 17 b)),
      client_encode = (\<lambda>cs. pack_height (ccs_latest_height cs)),
      client_decode = (\<lambda>b. case unpack_height b of None \<Rightarrow> Inl ''height'' | Some h \<Rightarrow> Inr (toy_cb_client_state h)),
      consensus_encode = (\<lambda>c.
        pack [cb_encode_packed (cco_timestamp c), mr_hash (cco_app_hash c), cco_next_validators_hash c]),
      consensus_decode = toy_cb_consensus_decode\<rparr>"

definition toy_cb_header :: "int \<Rightarrow> int \<Rightarrow> cb_header" where
  \<comment> \<open>of a height and a second, from the trusted height 5\<close>
  "toy_cb_header h t =
     \<lparr>ch_signed_header =
        \<lparr>clh_height = h, clh_time = Timestamp t 0, clh_validators_hash = replicate 32 6,
         clh_next_validators_hash = replicate 32 6, clh_app_hash = replicate 32 8\<rparr>,
      ch_trusted_height = Height 1 5, ch_zero_knowledge_proof = toy_zkp_bytes\<rparr>"

definition toy_cb_world :: cb_world where
  \<comment> \<open>three messages: headers of heights 7 and 8, and one with a time before 1970\<close>
  "toy_cb_world =
     \<lparr>cw_crypto = toy_crypto,
      cw_verify_zkp = default_zkp_verifier toy_crypto toy_keccak toy_curve toy_key,
      cw_wasm = toy_cb_wasm,
      cw_decode_header = (\<lambda>b.
        if b = [7] then Inr (toy_cb_header 7 200) else if b = [8] then Inr (toy_cb_header 8 240)
        else if b = [9] then Inr (toy_cb_header 9 (- 1)) else Inl ''header''),
      cw_decode_merkle_proof = (\<lambda>b. Inl ''proof'')\<rparr>"

definition toy_cb_consensus :: cb_consensus_state where
  "toy_cb_consensus =
     \<lparr>cco_timestamp = 100000000000, cco_app_hash = \<lparr>mr_hash = replicate 32 7\<rparr>,
      cco_next_validators_hash = replicate 32 5\<rparr>"

definition toy_cb_instantiate :: instantiate_msg where
  "toy_cb_instantiate =
     \<lparr>im_client_state = client_encode toy_cb_wasm (toy_cb_client_state (Height 1 5)),
      im_consensus_state = consensus_encode toy_cb_wasm toy_cb_consensus,
      im_checksum = replicate 32 3\<rparr>"

lemma wf_toy_cb_header: "0 \<le> h \<Longrightarrow> h < 2 ^ 63 \<Longrightarrow> - 1 \<le> t \<Longrightarrow> t \<le> 1000 \<Longrightarrow> wf_cb_header (toy_cb_header h t)"
  by (simp add: toy_cb_header_def wf_cb_light_header_def wf_timestamp_def)

interpretation toy_cb: cb_client toy_cb_world toy_cb_wf_client
proof
  show "any_client_decode (cw_wasm toy_cb_world) (any_client_encode (cw_wasm toy_cb_world) p) = Inr p" for p
    by (simp add: toy_cb_world_def toy_cb_wasm_def)
  show "any_consensus_decode (cw_wasm toy_cb_world) (any_consensus_encode (cw_wasm toy_cb_world) d) = Inr d" for d
    by (simp add: toy_cb_world_def toy_cb_wasm_def)
  show "client_decode (cw_wasm toy_cb_world) (client_encode (cw_wasm toy_cb_world) cs) = Inr cs"
    if "toy_cb_wf_client cs" for cs
    using that by (simp add: toy_cb_world_def toy_cb_wasm_def toy_cb_wf_client_def)
  show "consensus_decode (cw_wasm toy_cb_world) (consensus_encode (cw_wasm toy_cb_world) c) = Inr c"
    if "wf_cb_consensus c" for c
    using that
    by (simp add: toy_cb_world_def toy_cb_wasm_def toy_cb_consensus_decode_def cb_decode_encode Let_def wf_cb_consensus_def)
  show "toy_cb_wf_client cs" if "client_decode (cw_wasm toy_cb_world) b = Inr cs" for b cs
    using that
    by (auto simp: toy_cb_world_def toy_cb_wasm_def toy_cb_wf_client_def toy_cb_client_state_def
        split: option.splits)
  show "wf_cb_consensus c" if "consensus_decode (cw_wasm toy_cb_world) b = Inr c" for b c
    using that
    by (auto simp: toy_cb_world_def toy_cb_wasm_def toy_cb_consensus_decode_def Let_def
        split: option.splits list.splits outcome.splits if_splits)
  show "wf_cb_header hdr" if "cw_decode_header toy_cb_world b = Inr hdr" for b hdr
    using that wf_toy_cb_header by (auto simp: toy_cb_world_def split: if_splits)
  show "length (any_consensus_encode (cw_wasm toy_cb_world) d) \<noteq> CB_METADATA_SIZE" for d
    by (simp add: toy_cb_world_def toy_cb_wasm_def CB_METADATA_SIZE_def)
  show "toy_cb_wf_client (cs\<lparr>ccs_latest_height := h\<rparr>)" if "toy_cb_wf_client cs" for cs h
    using that unfolding toy_cb_wf_client_def by (metis toy_cb_client_state_def cb_client_state.simps)
qed

section \<open>A run\<close>

definition toy_cb_start :: kv_store where
  "toy_cb_start = (case cb_instantiate toy_cb_world [] toy_cb_instantiate of Ok s \<Rightarrow> s | _ \<Rightarrow> [])"

lemma toy_cb_client_decode:
  "client_decode (cw_wasm toy_cb_world) (im_client_state toy_cb_instantiate) = Inr (toy_cb_client_state (Height 1 5))"
  by (simp add: toy_cb_world_def toy_cb_wasm_def toy_cb_instantiate_def toy_cb_client_state_def)

lemma toy_cb_start: "cb_instantiate toy_cb_world [] toy_cb_instantiate = Ok toy_cb_start"
  by (simp add: toy_cb_start_def cb_instantiate_def toy_cb_client_decode Let_def)
    (simp add: toy_cb_client_state_def)

lemma toy_cb_consensus_decode:
  "consensus_decode (cw_wasm toy_cb_world) (im_consensus_state toy_cb_instantiate) = Inr toy_cb_consensus"
  by (simp add: toy_cb_world_def toy_cb_wasm_def toy_cb_instantiate_def toy_cb_consensus_decode_def
      toy_cb_consensus_def cb_decode_encode wf_cb_consensus_def)

lemma toy_cb_start_reachable: "cb_reachable toy_cb_world toy_cb_start"
  by (rule cb_reachable.start [OF toy_cb_consensus_decode _ toy_cb_start]) (simp add: toy_cb_instantiate_def)

lemma toy_cb_reads:
  "cb_stored toy_cb_world toy_cb_start = [Height 1 5 \<mapsto> toy_cb_consensus]"
  "client_at (cw_wasm toy_cb_world) toy_cb_start =
     Some \<lparr>wcs_data = toy_cb_client_state (Height 1 5), wcs_checksum = replicate 32 3,
           wcs_latest_height = Height 1 5\<rparr>"
proof -
  have checksum: "length (im_checksum toy_cb_instantiate) = 32" by (simp add: toy_cb_instantiate_def)
  note r = toy_cb.start_reads [OF toy_cb_consensus_decode toy_cb_client_decode checksum toy_cb_start]
  show "cb_stored toy_cb_world toy_cb_start = [Height 1 5 \<mapsto> toy_cb_consensus]"
    using r(1) by (simp add: toy_cb_client_state_def)
  show "client_at (cw_wasm toy_cb_world) toy_cb_start =
     Some \<lparr>wcs_data = toy_cb_client_state (Height 1 5), wcs_checksum = replicate 32 3,
           wcs_latest_height = Height 1 5\<rparr>"
    using r(2) by (simp add: toy_cb_client_state_def toy_cb_instantiate_def)
qed

text \<open>The header of height 7 is accepted, in conflict with nothing, and stored.\<close>

lemma toy_cb_verify:
  assumes "cb_stored toy_cb_world s (Height 1 5) = Some toy_cb_consensus"
    and "client_at (cw_wasm toy_cb_world) s = Some v" "wcs_data v = toy_cb_client_state h0"
    and "7 \<le> h" "h < 2 ^ 63" "100 < t" "t \<le> 1000" "uint now \<le> (t + 100) * 1000000000"
      "(t - 10) * 1000000000 < uint now"
  shows "cb_verify_header toy_cb_world s now (toy_cb_header h t) = Ok ()"
proof -
  have wf: "wf_cb_header (toy_cb_header h t)" using assms by (intro wf_toy_cb_header) auto
  have zkp: "verify_zkp toy_crypto toy_keccak toy_curve toy_key ''toy-1'' (replicate 32 5)
      (ch_signed_header (toy_cb_header h t)) toy_zkp_bytes = Ok ()"
    using assms by (intro toy_zkp_accepted) (simp_all add: toy_cb_header_def)
  have fields: "ccs_chain_id (wcs_data v) = ''toy-1''" "uint (ccs_trusting_period (wcs_data v)) = 100000000000"
    "uint (ccs_max_clock_drift (wcs_data v)) = 10000000000" "uint (cco_timestamp toy_cb_consensus) = 100000000000"
    "cco_next_validators_hash toy_cb_consensus = replicate 32 5"
    "ch_trusted_height (toy_cb_header h t) = Height 1 5" "clh_height (ch_signed_header (toy_cb_header h t)) = h"
    "clh_time (ch_signed_header (toy_cb_header h t)) = Timestamp t 0"
    "ch_zero_knowledge_proof (toy_cb_header h t) = toy_zkp_bytes"
    "cw_verify_zkp toy_cb_world = default_zkp_verifier toy_crypto toy_keccak toy_curve toy_key"
    using assms(3)
    by (simp_all add: toy_cb_header_def toy_cb_client_state_def toy_cb_consensus_def toy_cb_world_def)
  show ?thesis
    unfolding cb_verify_header_Ok [OF wf] Let_def
    by (rule exI [of _ v], rule exI [of _ toy_cb_consensus])
      (use assms zkp fields in \<open>simp add: default_zkp_verifier_def ts_total_def\<close>)
qed

lemma toy_cb_nanos:
  "0 \<le> t \<Longrightarrow> t \<le> 1000 \<Longrightarrow>
   as_unix_nanos (clh_time (ch_signed_header (toy_cb_header h t))) = Ok (word_of_int (t * 1000000000))"
  by (simp add: as_unix_nanos_def ts_as_unix_nanos_def toy_cb_header_def)

lemma toy_cb_height: "cb_height_from_header (toy_cb_header h t) = Height 1 (word_of_int h)"
  by (simp add: cb_height_from_header_def cb_height_number_def toy_cb_header_def)

lemma toy_cb_honest: "cb_check_for_misbehaviour_on_header toy_cb_world toy_cb_start (toy_cb_header 7 200) = Ok False"
proof -
  have t: "as_unix_nanos (clh_time (ch_signed_header (toy_cb_header 7 200))) = Ok 200000000000"
    using toy_cb_nanos [of 200] by simp
  obtain h0 b where h0: "cb_stored toy_cb_world toy_cb_start h0 \<noteq> None"
    and b: "cb_check_for_misbehaviour_on_header toy_cb_world toy_cb_start (toy_cb_header 7 200) = Ok b"
    "b \<longleftrightarrow>
        (case cb_stored toy_cb_world toy_cb_start (cb_height_from_header (toy_cb_header 7 200)) of
           Some c \<Rightarrow> c \<noteq> cb_header_consensus (toy_cb_header 7 200) 200000000000
         | None \<Rightarrow>
             (\<exists>n c. cb_stored toy_cb_world toy_cb_start n = Some c \<and> n \<noteq> h0 \<and>
               (cb_height_from_header (toy_cb_header 7 200) \<le> n \<and> cco_timestamp c \<le> 200000000000 \<or>
                n < cb_height_from_header (toy_cb_header 7 200) \<and> 200000000000 \<le> cco_timestamp c)))"
    using toy_cb.misbehaviour [OF toy_cb_start_reachable] t by blast
  have "h0 = Height 1 5" using h0 unfolding toy_cb_reads(1) by (simp split: if_splits)
  with b show ?thesis unfolding toy_cb_reads(1) by (simp add: toy_cb_height)
qed

definition toy_cb_next :: kv_store where
  "toy_cb_next =
     (case cb_update_state toy_cb_world toy_cb_start 205000000000 (toy_cb_header 7 200) of
        Ok (_, s) \<Rightarrow> s | _ \<Rightarrow> [])"

lemma toy_cb_update_state:
  "cb_update_state toy_cb_world toy_cb_start 205000000000 (toy_cb_header 7 200) = Ok ([Height 1 7], toy_cb_next)"
proof -
  have c: "cb_consensus_at toy_cb_world toy_cb_start (Height 1 5) no_prefix = Ok toy_cb_consensus"
    by (simp add: cb_consensus_at_Ok toy_cb_reads(1))
  have "ch_trusted_height (toy_cb_header 7 200) = Height 1 5" by (simp add: toy_cb_header_def)
  then show ?thesis
    using c toy_cb_nanos [of 200 7]
    by (simp add: toy_cb_next_def cb_update_state_def Let_def cb_height_number_def
        client_at_Some [THEN iffD1, OF toy_cb_reads(2)])
      (simp add: toy_cb_header_def)
qed

lemma toy_cb_next_reachable: "cb_reachable toy_cb_world toy_cb_next"
proof (rule cb_reachable.update [OF toy_cb_start_reachable, of 205000000000 "[7]"])
  have "cw_decode_header toy_cb_world [7] = Inr (toy_cb_header 7 200)" by (simp add: toy_cb_world_def)
  moreover have "cb_verify_header toy_cb_world toy_cb_start 205000000000 (toy_cb_header 7 200) = Ok ()"
    by (rule toy_cb_verify [OF _ toy_cb_reads(2)]) (simp_all add: toy_cb_reads(1))
  ultimately show "query (cometbls_light_client toy_cb_world) toy_cb_start 205000000000 (QueryVerifyClientMessage [7]) = Ok ReplyUnit"
    "query (cometbls_light_client toy_cb_world) toy_cb_start 205000000000 (QueryCheckForMisbehaviour [7]) =
       Ok (ReplyCheckForMisbehaviour False)"
    "sudo (cometbls_light_client toy_cb_world) toy_cb_start 205000000000 (SudoUpdateState [7]) =
       Ok (ReplyUpdateState [Height 1 7], toy_cb_next)"
    by (simp_all add: cometbls_light_client_def toy_cb_honest toy_cb_update_state)
qed

lemma toy_cb_next_reads:
  "cb_stored toy_cb_world toy_cb_next =
     [Height 1 5 \<mapsto> toy_cb_consensus, Height 1 7 \<mapsto> cb_header_consensus (toy_cb_header 7 200) 200000000000]"
  "client_at (cw_wasm toy_cb_world) toy_cb_next =
     Some \<lparr>wcs_data = toy_cb_client_state (Height 1 7), wcs_checksum = replicate 32 3,
           wcs_latest_height = Height 1 7\<rparr>"
proof -
  have wf: "wf_cb_header (toy_cb_header 7 200)" by (rule wf_toy_cb_header) simp_all
  obtain v v' t where t: "as_unix_nanos (clh_time (ch_signed_header (toy_cb_header 7 200))) = Ok t"
    and st: "cb_stored toy_cb_world toy_cb_next =
      (cb_stored toy_cb_world toy_cb_start)(Height 1 7 \<mapsto> cb_header_consensus (toy_cb_header 7 200) t)"
    and v: "cb_read_client toy_cb_world toy_cb_start no_prefix = Ok v"
      "cb_read_client toy_cb_world toy_cb_next no_prefix = Ok v'"
      "wcs_latest_height v' = max (wcs_latest_height v) (Height 1 7)" "wcs_checksum v' = wcs_checksum v"
      "wcs_data v' = (wcs_data v)\<lparr>ccs_latest_height := wcs_latest_height v'\<rparr>"
    using toy_cb.update_stores [OF toy_cb_start_reachable wf toy_cb_update_state]
    by (auto simp: toy_cb_height)
  have "t = 200000000000" using t toy_cb_nanos [of 200 7] by simp
  with st show "cb_stored toy_cb_world toy_cb_next =
     [Height 1 5 \<mapsto> toy_cb_consensus, Height 1 7 \<mapsto> cb_header_consensus (toy_cb_header 7 200) 200000000000]"
    by (simp add: toy_cb_reads(1))
  have "client_at (cw_wasm toy_cb_world) toy_cb_start = Some v"
    by (rule client_at_Some [THEN iffD2, OF v(1)])
  moreover have "Height 1 5 \<le> Height 1 7" by (intro less_imp_le) (simp add: height_less_iff)
  ultimately have "v' = \<lparr>wcs_data = toy_cb_client_state (Height 1 7), wcs_checksum = replicate 32 3,
           wcs_latest_height = Height 1 7\<rparr>"
    using v(3-5) toy_cb_reads(2)
    by (intro wasm_client_state.equality) (auto simp: max_def toy_cb_client_state_def)
  moreover have "client_at (cw_wasm toy_cb_world) toy_cb_next = Some v'"
    by (rule client_at_Some [THEN iffD2, OF v(2)])
  ultimately show "client_at (cw_wasm toy_cb_world) toy_cb_next =
     Some \<lparr>wcs_data = toy_cb_client_state (Height 1 7), wcs_checksum = replicate 32 3,
           wcs_latest_height = Height 1 7\<rparr>"
    by simp
qed

end
