(* ===== verification/Cb_Claims.thy ===== *)
theory Cb_Claims imports Cb_Example begin

text \<open>
  The properties of the CometBLS client and of its proof verifier, each applied at the concrete world
  of \<open>Cb_Example\<close>.
\<close>

section \<open>The proof\<close>



text \<open>C22. The first public input binds everything the header says. If two headers of well-formed fields,
  under chain ids that fit a word and do not start with a zero byte, have the same first public input,
  then chain id, trusted validators and header are the same, unless their hashed bytes are an explicit
  collision of SHA-256 less its first byte.
\<close>
theorem zkp_input_binds_header:
  assumes "\<And>b. length (sha256 cr b) = 32"
    and "wf_cb_light_header h" "wf_cb_light_header h'" "length vh = 32" "length vh' = 32"
    and "length ch \<le> 32" "length ch' \<le> 32"
    and "ch = [] \<or> of_char (hd ch) \<noteq> (0 :: u8)" "ch' = [] \<or> of_char (hd ch') \<noteq> (0 :: u8)"
    and i: "inputs_preimage ch vh h = Ok i" "inputs_preimage ch' vh' h' = Ok i'"
    and "inputs_scalar cr i = inputs_scalar cr i'"
  shows "ch = ch' \<and> vh = vh' \<and> h = h' \<or>
    i \<noteq> i' \<and> tl (sha256 cr i) = tl (sha256 cr i')"
proof (cases "i = i'")
  case True
  with inputs_preimage_inject [OF assms(2-9)] i show ?thesis by blast
next
  case False
  have less: "inputs_scalar cr b = be_value (tl (sha256 cr b))" for b
    using assms(1) [of b] by (cases "sha256 cr b") (simp_all add: inputs_scalar_def be_value_Cons)
  have "be_bytes 31 (be_value (tl (sha256 cr b))) = tl (sha256 cr b)" for b
    using be_bytes_be_value [of "tl (sha256 cr b)"] assms(1) [of b] by simp
  with assms(12) less have "tl (sha256 cr i) = tl (sha256 cr i')" by metis
  with False show ?thesis by blast
qed

theorem zkp_input_binds_header_witness:
  "\<exists>i. inputs_preimage ''toy-1'' (replicate 32 5) (ch_signed_header (toy_cb_header 7 200)) = Ok i"
proof -
  let ?h = "ch_signed_header (toy_cb_header 7 200)"
  have "wf_cb_light_header ?h" by (rule wf_toy_cb_header) simp_all
  moreover obtain i where i: "inputs_preimage ''toy-1'' (replicate 32 5) ?h = Ok i"
    by (simp add: inputs_preimage_Ok toy_cb_header_def)
  moreover have "length (sha256 toy_crypto b) = 32" for b by (rule toy_bn.sha_length)
  ultimately show ?thesis
    using zkp_input_binds_header [of toy_crypto ?h ?h "replicate 32 5" "replicate 32 5" "''toy-1''" "''toy-1''" i i]
    by auto
qed

text \<open>The verifier does not panic, and of the ten errors of its type only six occur: both public inputs
  are below the order of the group whatever the header is, since the hash loses its first byte and the
  other input is reduced, so neither an invalid public input nor an invalid commitment is reported.
\<close>
theorem zkp_errors_exact:
  assumes "bn254_laws cr E"
  shows "(case verify_zkp cr keccak E K ch vh h b of
      Ok _ \<Rightarrow> True
    | Err e \<Rightarrow> e \<in> {InvalidRawProof, InvalidPoint, ZkpInvalidChainId, InvalidHeight, InvalidTimestamp, InvalidProof}
    | Panic \<Rightarrow> False)"
  by (rule bn254_laws.verify_zkp_errors [OF assms])

theorem zkp_errors_exact_witness:
  "verify_zkp toy_crypto toy_keccak toy_curve toy_key ''toy-1'' [] (ch_signed_header (toy_cb_header 7 200)) [] =
     Err InvalidRawProof"
  using zkp_errors_exact [OF toy_bn.bn254_laws_axioms, of toy_keccak toy_key "''toy-1''" "[]"
      "ch_signed_header (toy_cb_header 7 200)" "[]"]
  by (simp add: verify_zkp_def zkp_try_from_def EXPECTED_PROOF_SIZE_def require_def)

section \<open>The client\<close>





text \<open>C24. The trusting period is compared with the time of the new header and not with that of the trusted
  state. So a state that has expired still carries trust: there is a reachable store, in which the client
  is active, and a header that is accepted although the state it is verified against is older than the
  trusting period.
\<close>
theorem cometbls_expired_trusted_accepted:
  "\<exists>w wf_client s now hdr v c.
     cb_client w wf_client \<and> cb_reachable w s \<and> wf_cb_header hdr \<and>
     cb_read_client w s no_prefix = Ok v \<and> cb_stored w s (ch_trusted_height hdr) = Some c \<and>
     cb_is_client_expired (cco_timestamp c) (ccs_trusting_period (wcs_data v)) now \<and>
     cb_status w s now = Ok StActive \<and> cb_verify_header w s now hdr = Ok ()"
proof -
  let ?hdr = "toy_cb_header 8 240" and ?now = "250000000000 :: u64"
    and ?v = "\<lparr>wcs_data = toy_cb_client_state (Height 1 7), wcs_checksum = replicate 32 3,
           wcs_latest_height = Height 1 7\<rparr>"
  have v: "cb_read_client toy_cb_world toy_cb_next no_prefix = Ok ?v"
    by (rule client_at_Some [THEN iffD1, OF toy_cb_next_reads(2)])
  have "read_prefixed_consensus_state (cw_wasm toy_cb_world) toy_cb_next (Height 1 7) no_prefix =
      (Ok (Some (cb_header_consensus (toy_cb_header 7 200) 200000000000)) :: (cb_client_error client_error, _) outcome)"
    by (rule stored_at_Some [THEN iffD1]) (simp add: toy_cb_next_reads(1))
  then have "cb_status toy_cb_world toy_cb_next ?now = Ok StActive"
    by (simp add: cb_status_def v cb_is_client_expired_def u64_checked_add_def toy_cb_client_state_def)
  moreover have "cb_stored toy_cb_world toy_cb_next (ch_trusted_height ?hdr) = Some toy_cb_consensus"
    by (simp add: toy_cb_next_reads(1) toy_cb_header_def)
  moreover have "cb_is_client_expired (cco_timestamp toy_cb_consensus) (ccs_trusting_period (wcs_data ?v)) ?now"
    by (simp add: cb_is_client_expired_def u64_checked_add_def toy_cb_client_state_def toy_cb_consensus_def)
  moreover have "cb_verify_header toy_cb_world toy_cb_next ?now ?hdr = Ok ()"
    by (rule toy_cb_verify [OF _ toy_cb_next_reads(2)]) (simp_all add: toy_cb_next_reads(1))
  moreover have "wf_cb_header ?hdr" by (rule wf_toy_cb_header) simp_all
  ultimately show ?thesis using toy_cb.cb_client_axioms toy_cb_next_reachable v by blast
qed

text \<open>Where the client panics. In a reachable store the check for misbehaviour panics exactly for a header
  whose time is before 1970 or whose count of nanoseconds needs more than 64 bits, and the check of a
  header, under a verifier that does not panic, exactly when the trusted state is stored, the header is
  above it, and its time is such a one.
\<close>
theorem cometbls_panics_exact:
  assumes "cb_client w wf_client" "cb_reachable w s" "wf_cb_header hdr"
    and "\<And>ch vh h b. cw_verify_zkp w ch vh h b \<noteq> Panic"
  shows "(cb_check_for_misbehaviour_on_header w s hdr = Panic \<longleftrightarrow>
      \<not> (0 \<le> ts_seconds (clh_time (ch_signed_header hdr)) \<and> ts_total (clh_time (ch_signed_header hdr)) < 2 ^ 64)) \<and>
    (cb_verify_header w s now hdr = Panic \<longleftrightarrow>
      \<not> (0 \<le> ts_seconds (clh_time (ch_signed_header hdr)) \<and> ts_total (clh_time (ch_signed_header hdr)) < 2 ^ 64) \<and>
      cb_stored w s (ch_trusted_height hdr) \<noteq> None \<and>
      uint (revision_height (ch_trusted_height hdr)) < clh_height (ch_signed_header hdr))"
  by (rule cb_client.panics_exact [OF assms])

theorem cometbls_panics_exact_witness:
  "cb_verify_header toy_cb_world toy_cb_start 0 (toy_cb_header 9 (- 1)) = Panic"
proof -
  have "wf_cb_header (toy_cb_header 9 (- 1))" by (rule wf_toy_cb_header) simp_all
  moreover have "cw_verify_zkp toy_cb_world ch vh h b \<noteq> Panic" for ch vh h b
    using toy_bn.verify_zkp_errors [where b = b and ch = ch and vh = vh and h = h and K = toy_key]
    by (auto simp: toy_cb_world_def default_zkp_verifier_def)
  ultimately show ?thesis
    using cometbls_panics_exact [OF toy_cb.cb_client_axioms toy_cb_start_reachable, of "toy_cb_header 9 (- 1)" 0]
    by (simp add: toy_cb_header_def toy_cb_reads(1))
qed

end
