(* ===== verification/Ucs01_Types.thy ===== *)
theory Ucs01_Types imports Outcomes Heights begin

text \<open>
  The data of the token transfer application (\<^verbatim>\<open>cosmwasm/ucs01-relay-api/src/\<close>): tokens and their fees,
  the two packet formats with their acknowledgements, the origin of a denomination, and the memo that
  asks for a packet to be forwarded. Amounts are \<^verbatim>\<open>Uint128\<close>, as natural numbers with their bound
  written out; the bytes of the JSON and of the Ethereum ABI encodings are parameters.
\<close>

section \<open>Tokens\<close>

abbreviation u128_max :: nat where "u128_max \<equiv> 2 ^ 128 - 1"

datatype ratio_error = RatioDivideByZero | RatioOverflow

definition checked_multiply_ratio :: "nat \<Rightarrow> nat \<Rightarrow> nat \<Rightarrow> (ratio_error, nat) outcome" where
  \<comment> \<open>\<^verbatim>\<open>Uint128::checked_multiply_ratio\<close>, computed in 256 bits\<close>
  "checked_multiply_ratio x numerator denominator =
     (if denominator = 0 then Err RatioDivideByZero
      else if u128_max < x * numerator div denominator then Err RatioOverflow
      else Ok (x * numerator div denominator))"

record transfer_token =
  tk_denom :: string
  tk_amount :: nat
  tk_fee :: nat \<comment> \<open>of \<^verbatim>\<open>u128::MAX\<close>\<close>

definition wf_token :: "transfer_token \<Rightarrow> bool" where
  "wf_token t \<longleftrightarrow> tk_amount t \<le> u128_max \<and> tk_fee t \<le> u128_max"

record normalized_transfer_token =
  ntk_origin_denom :: string
  ntk_token :: transfer_token

definition amounts :: "transfer_token \<Rightarrow> (ratio_error, nat \<times> nat) outcome" where
  \<comment> \<open>what is left and the fee; the subtraction panics below zero\<close>
  "amounts t =
     andthen (checked_multiply_ratio (tk_amount t) (tk_fee t) u128_max) (\<lambda>fee_amount.
     if tk_amount t < fee_amount then Panic else Ok (tk_amount t - fee_amount, fee_amount))"

definition fee_percent :: "nat \<Rightarrow> (ratio_error, nat) outcome" where
  \<comment> \<open>of a number up to a hundred\<close>
  "fee_percent x = checked_multiply_ratio u128_max x 100"

type_synonym coin = "string \<times> nat"

definition token_of_coin :: "coin \<Rightarrow> nat \<Rightarrow> transfer_token" where
  "token_of_coin c fee = \<lparr>tk_denom = fst c, tk_amount = snd c, tk_fee = fee\<rparr>"

text \<open>A fee is part of the amount, so the split loses nothing and never fails.\<close>

lemma fee_le_amount: "f \<le> u128_max \<Longrightarrow> a * f div u128_max \<le> a"
proof -
  assume "f \<le> u128_max"
  then have "a * f div u128_max \<le> a * u128_max div u128_max" by (intro div_le_mono mult_le_mono2)
  then show ?thesis by simp
qed

lemma amounts_exact:
  assumes "wf_token t"
  shows "amounts t =
    Ok (tk_amount t - tk_amount t * tk_fee t div u128_max, tk_amount t * tk_fee t div u128_max)"
  using assms fee_le_amount [of "tk_fee t" "tk_amount t"]
  by (auto simp: amounts_def checked_multiply_ratio_def wf_token_def)

lemma amounts_sum: "amounts t = Ok (a, f) \<Longrightarrow> a + f = tk_amount t"
  by (auto simp: amounts_def checked_multiply_ratio_def split: if_splits)

section \<open>Errors\<close>

datatype std_error = NotFound | GenericErr string

datatype encoding_error =
    Ics20OnlyOneCoin
  | Ics20CannotHandleFee
  | InvalidUCS01PacketEncoding bytes string
  | InvalidUCS01AckEncoding bytes
  | InvalidICS20PacketEncoding bytes string
  | InvalidICS20AckEncoding bytes string
  | InvalidSender string std_error
  | InvalidReceiver string std_error

section \<open>Packets\<close>

record transfer_packet_common =
  tpc_sender :: string
  tpc_receiver :: string
  tpc_tokens :: "transfer_token list"
  tpc_extension :: string

record ucs01_packet =
  up_sender :: bytes
  up_receiver :: bytes
  up_tokens :: "transfer_token list"
  up_memo :: string

record ics20_packet =
  ip_denom :: string
  ip_amount :: nat
  ip_sender :: string
  ip_receiver :: string
  ip_memo :: string

datatype abi_token =
    AbiBytes bytes
  | AbiString string
  | AbiUint nat
  | AbiArray "abi_token list"
  | AbiTuple "abi_token list"

definition ucs01_packet_tokens :: "ucs01_packet \<Rightarrow> abi_token list" where
  \<comment> \<open>the argument of \<^verbatim>\<open>ethabi::encode\<close>\<close>
  "ucs01_packet_tokens p =
     [AbiBytes (up_sender p), AbiBytes (up_receiver p),
      AbiArray (map (\<lambda>t. AbiTuple [AbiString (tk_denom t), AbiUint (tk_amount t), AbiUint (tk_fee t)])
        (up_tokens p)),
      AbiString (up_memo p)]"

definition as_u128 :: "nat \<Rightarrow> ('e, nat) outcome" where
  "as_u128 n = (if n \<le> u128_max then Ok n else Panic)"

definition token_of_abi :: "abi_token \<Rightarrow> ('e, transfer_token) outcome" where
  "token_of_abi a =
     (case a of
        AbiTuple [AbiString denom, AbiUint amount, AbiUint fee] \<Rightarrow>
          andthen (as_u128 amount) (\<lambda>amount. andthen (as_u128 fee) (\<lambda>fee.
          Ok \<lparr>tk_denom = denom, tk_amount = amount, tk_fee = fee\<rparr>))
      | _ \<Rightarrow> Panic)"

definition ucs01_packet_of_tokens :: "abi_token list \<Rightarrow> ('e, ucs01_packet) outcome" where
  "ucs01_packet_of_tokens ts =
     (case ts of
        [AbiBytes sender, AbiBytes receiver, AbiArray tokens, AbiString memo] \<Rightarrow>
          andthen (try_map token_of_abi tokens) (\<lambda>tokens.
          Ok \<lparr>up_sender = sender, up_receiver = receiver, up_tokens = tokens, up_memo = memo\<rparr>)
      | _ \<Rightarrow> Panic)"

definition ics20_packet_tokens :: "ics20_packet \<Rightarrow> transfer_token list" where
  "ics20_packet_tokens p = [\<lparr>tk_denom = ip_denom p, tk_amount = ip_amount p, tk_fee = 0\<rparr>]"

definition ics20_packet_try_from :: "transfer_packet_common \<Rightarrow> (encoding_error, ics20_packet) outcome" where
  "ics20_packet_try_from c =
     andthen
       (case tpc_tokens c of
          [t] \<Rightarrow> if tk_fee t = 0 then Ok (tk_denom t, tk_amount t) else Err Ics20CannotHandleFee
        | _ \<Rightarrow> Err Ics20OnlyOneCoin) (\<lambda>(denom, amount).
     Ok \<lparr>ip_denom = denom, ip_amount = amount, ip_sender = tpc_sender c, ip_receiver = tpc_receiver c,
         ip_memo = tpc_extension c\<rparr>)"

section \<open>Acknowledgements\<close>

type_synonym generic_ack = "bytes + bytes" \<comment> \<open>\<^verbatim>\<open>Err\<close> on the left\<close>

datatype ucs01_ack = Failure | Success

fun ucs01_ack_encode :: "ucs01_ack \<Rightarrow> bytes" where
  "ucs01_ack_encode Failure = [0]"
| "ucs01_ack_encode Success = [1]"

definition ucs01_ack_decode :: "bytes \<Rightarrow> (encoding_error, ucs01_ack) outcome" where
  "ucs01_ack_decode b =
     (if b = [0] then Ok Failure else if b = [1] then Ok Success else Err (InvalidUCS01AckEncoding b))"

fun ucs01_ack_generic :: "ucs01_ack \<Rightarrow> generic_ack" where
  "ucs01_ack_generic Failure = Inl [0]"
| "ucs01_ack_generic Success = Inr [1]"

datatype ics20_ack = Ics20Result bytes | Ics20Error string

definition ics20_ack_generic :: "(ics20_ack \<Rightarrow> bytes) \<Rightarrow> ics20_ack \<Rightarrow> generic_ack" where
  "ics20_ack_generic enc a = (case a of Ics20Result _ \<Rightarrow> Inr (enc a) | Ics20Error _ \<Rightarrow> Inl (enc a))"

lemma ucs01_ack_roundtrip [simp]: "ucs01_ack_decode (ucs01_ack_encode a) = Ok a"
  by (cases a) (simp_all add: ucs01_ack_decode_def)

lemma token_of_abi_Ok:
  "token_of_abi a = Ok t \<Longrightarrow>
   wf_token t \<and> a = AbiTuple [AbiString (tk_denom t), AbiUint (tk_amount t), AbiUint (tk_fee t)]"
  by (auto simp: token_of_abi_def as_u128_def wf_token_def outcome_ok
      split: abi_token.split_asm list.split_asm if_split_asm)

lemma try_map_token_of_abi_Ok: "try_map token_of_abi as = Ok ts \<Longrightarrow> list_all wf_token ts"
  by (induction as arbitrary: ts) (auto simp: outcome_ok token_of_abi_Ok)

lemma ucs01_packet_of_tokens_Ok: "ucs01_packet_of_tokens as = Ok p \<Longrightarrow> list_all wf_token (up_tokens p)"
  by (auto simp: ucs01_packet_of_tokens_def outcome_ok try_map_token_of_abi_Ok
      split: abi_token.split_asm list.split_asm)

lemma token_of_abi_roundtrip:
  "wf_token t \<Longrightarrow> token_of_abi (AbiTuple [AbiString (tk_denom t), AbiUint (tk_amount t), AbiUint (tk_fee t)]) = Ok t"
  by (simp add: token_of_abi_def as_u128_def wf_token_def)

lemma try_map_token_of_abi:
  "list_all wf_token ts \<Longrightarrow>
   try_map token_of_abi (map (\<lambda>t. AbiTuple [AbiString (tk_denom t), AbiUint (tk_amount t), AbiUint (tk_fee t)]) ts) =
     Ok ts"
  by (induction ts) (simp_all add: token_of_abi_roundtrip)

lemma ucs01_packet_roundtrip:
  "list_all wf_token (up_tokens p) \<Longrightarrow> ucs01_packet_of_tokens (ucs01_packet_tokens p) = Ok p"
  by (simp add: ucs01_packet_of_tokens_def ucs01_packet_tokens_def try_map_token_of_abi)

section \<open>Denominations\<close>

record ibc_endpoint =
  ep_port_id :: string
  ep_channel_id :: string

fun strip_prefix :: "string \<Rightarrow> string \<Rightarrow> string option" where
  \<comment> \<open>\<^verbatim>\<open>str::strip_prefix\<close>, the prefix first\<close>
  "strip_prefix [] s = Some s"
| "strip_prefix (c # p) [] = None"
| "strip_prefix (c # p) (d # s) = (if c = d then strip_prefix p s else None)"

definition make_foreign_denom :: "ibc_endpoint \<Rightarrow> string \<Rightarrow> string" where
  "make_foreign_denom ep denom = ep_port_id ep @ ''/'' @ ep_channel_id ep @ ''/'' @ denom"

datatype origin = Local string | Remote string

definition denom_origin :: "string \<Rightarrow> ibc_endpoint \<Rightarrow> origin" where
  "denom_origin denom remote_endpoint =
     (case Option.bind (Option.bind (Option.bind (strip_prefix (ep_port_id remote_endpoint) denom)
             (strip_prefix ''/'')) (strip_prefix (ep_channel_id remote_endpoint))) (strip_prefix ''/'') of
        Some denom \<Rightarrow> Local denom
      | None \<Rightarrow> Remote denom)"

lemma strip_prefix_Some: "strip_prefix p s = Some r \<longleftrightarrow> s = p @ r"
  by (induction p s rule: strip_prefix.induct) auto

lemma strip_prefix_append [simp]: "strip_prefix p (p @ r) = Some r"
  by (simp add: strip_prefix_Some)

text \<open>A denomination is local exactly when the endpoint's prefix was put in front of it.\<close>

lemma denom_origin_Local: "denom_origin d ep = Local x \<longleftrightarrow> d = make_foreign_denom ep x"
  by (auto simp: denom_origin_def make_foreign_denom_def bind_eq_Some_conv strip_prefix_Some
      split: option.splits)

lemma denom_origin_Remote:
  "denom_origin d ep = Remote x \<longleftrightarrow> x = d \<and> (\<forall>y. d \<noteq> make_foreign_denom ep y)"
proof -
  have "denom_origin d ep = Remote y \<Longrightarrow> y = d" for y by (auto simp: denom_origin_def split: option.splits)
  then show ?thesis using denom_origin_Local [of d ep] by (cases "denom_origin d ep") auto
qed

lemma denom_origin_foreign [simp]: "denom_origin (make_foreign_denom ep d) ep = Local d"
  by (simp add: denom_origin_Local)

end
