(* ===== verification/Ucs01_Relay.thy ===== *)
theory Ucs01_Relay imports Ucs01_Types begin

text \<open>
  The state of the token transfer contract and what it does with tokens
  (\<^verbatim>\<open>cosmwasm/ucs01-relay/src/\<close>: \<^verbatim>\<open>state.rs\<close>, \<^verbatim>\<open>error.rs\<close>, \<^verbatim>\<open>msg.rs\<close> and the first part of
  \<^verbatim>\<open>protocol.rs\<close>): the amounts escrowed by channel and denomination, the names of foreign
  denominations, and the messages that move, mint and burn. The libraries the contract calls (hashes,
  the chain's addresses, JSON, hexadecimal, durations) are the parameter \<open>relay_api\<close>.
\<close>

section \<open>Messages and packets of the chain\<close>

record timeout_block =
  tb_revision :: u64
  tb_height :: u64

record cw_timeout =
  ct_block :: "timeout_block option"
  ct_timestamp :: "u64 option" \<comment> \<open>in nanoseconds\<close>

record cw_packet =
  cp_data :: bytes
  cp_src :: ibc_endpoint
  cp_dest :: ibc_endpoint
  cp_sequence :: u64
  cp_timeout :: cw_timeout

datatype cw_order = CwUnordered | CwOrdered

record cw_channel =
  cc_endpoint :: ibc_endpoint
  cc_counterparty_endpoint :: ibc_endpoint
  cc_order :: cw_order
  cc_version :: string
  cc_connection_id :: string

type_synonym fees = "string \<rightharpoonup> nat"

record transfer_msg =
  tm_channel :: string
  tm_receiver :: string
  tm_timeout :: "u64 option" \<comment> \<open>in seconds\<close>
  tm_memo :: string
  tm_fees :: "fees option"

record deferred_packet_info =
  dp_refund_channel_id :: string
  dp_refund_port_id :: string
  dp_src_channel_id :: string
  dp_src_port_id :: string
  dp_timeout_timestamp :: u64
  dp_timeout_height :: string
  dp_data :: bytes
  dp_sequence :: u64

text \<open>The bank's, the token factory's, the relay's own and the IBC messages.\<close>

datatype cw_msg =
    BankSend string "coin list" \<comment> \<open>to\<close>
  | CreateDenom string
  | MintTokens string nat string \<comment> \<open>the denomination, the amount, to\<close>
  | BurnTokens string nat string \<comment> \<open>from\<close>
  | WasmExecute string execute_msg "coin list"
  | SendPacket string bytes cw_timeout \<comment> \<open>the channel, the data\<close>
  | WriteDeferredAck string deferred_packet_info bytes
and execute_msg =
    Transfer transfer_msg
  | RegisterDenom ibc_endpoint string bytes
  | UpdateAdmin string
  | BatchExecute "cw_msg list"

datatype reply_on = ReplyAlways | ReplyError | ReplyNever

record sub_msg =
  sm_id :: nat
  sm_msg :: cw_msg
  sm_reply_on :: reply_on
  sm_payload :: bytes

definition plain_msg :: "cw_msg \<Rightarrow> sub_msg" where
  \<comment> \<open>\<^verbatim>\<open>SubMsg::new\<close>, which \<^verbatim>\<open>add_message\<close> makes\<close>
  "plain_msg m = \<lparr>sm_id = 0, sm_msg = m, sm_reply_on = ReplyNever, sm_payload = []\<rparr>"

type_synonym cw_event = "string \<times> (string \<times> string) list"

text \<open>
  A response of any entry point; the data of an \<^verbatim>\<open>IbcReceiveResponse\<close> is its acknowledgement.
\<close>

record response =
  rs_messages :: "sub_msg list"
  rs_events :: "cw_event list"
  rs_data :: "bytes option"

definition no_response :: response where
  "no_response = \<lparr>rs_messages = [], rs_events = [], rs_data = None\<rparr>"

section \<open>Forwarding\<close>

record packet_id =
  pi_height :: u64
  pi_index :: u64

datatype pfm_forward = PacketForward
  (pf_receiver: string) (pf_port: string) (pf_channel: string) (pf_timeout: string) (pf_retries: nat)
  (pf_next: "pfm_forward option") (pf_return_info: "packet_id option") (pf_fees: "fees option")

datatype memo = MemoForward pfm_forward | MemoNone

record in_flight_packet =
  if_origin_sender_addr :: string
  if_origin_protocol_version :: string
  if_origin_packet :: cw_packet
  if_forward_src_channel_id :: string
  if_forward_src_port_id :: string
  if_forward_timeout :: u64

section \<open>Errors\<close>

datatype overflow_operation = OverflowAdd | OverflowSub

datatype packet_forward_error =
  NoPacketRefundInformation | PacketNotInRefundStore | InvalidPfmEncoding | NoReplyMessageInStack

datatype protocol_error = ProtocolNoSuchChannel string | ProtocolUnauthorized | InvalidTimeout

datatype sub_msg_result = SubErr string | SubOk "u64 option"
  \<comment> \<open>the sequence in the \<^verbatim>\<open>MsgIbcSendResponse\<close>, if the result has one\<close>

datatype contract_error =
    StdErr std_error
  | AdminErr string
  | NoSuchChannel string
  | NoFunds
  | OverflowErr overflow_operation
  | InvalidChannelOrdering cw_order cw_order
  | InsufficientFunds
  | UnknownReply nat sub_msg_result
  | PfmSendPacketError string
  | ProtocolErr protocol_error
  | ProtocolEncoding encoding_error
  | UnknownProtocol string string
  | ProtocolMismatch string string string
  | Unauthorized
  | MiddlewareErr packet_forward_error
  | SerdeJson string
  | Arithmetic ratio_error

section \<open>The state\<close>

record channel_info =
  ci_endpoint :: ibc_endpoint
  ci_counterparty_endpoint :: ibc_endpoint
  ci_connection_id :: string
  ci_protocol_version :: string

record relay =
  rl_config :: "u64 option" \<comment> \<open>the default timeout in seconds\<close>
  rl_admin :: "string option"
  rl_channel_info :: "string \<rightharpoonup> channel_info"
  rl_channel_state :: "string \<times> string \<rightharpoonup> nat" \<comment> \<open>by channel and denomination\<close>
  rl_in_flight :: "string \<times> string \<times> u64 \<rightharpoonup> in_flight_packet"
  rl_foreign_to_hash :: "ibc_endpoint \<times> string \<rightharpoonup> bytes"
  rl_hash_to_foreign :: "ibc_endpoint \<times> bytes \<rightharpoonup> string"

definition empty_relay :: relay where
  "empty_relay =
     \<lparr>rl_config = None, rl_admin = None, rl_channel_info = Map.empty, rl_channel_state = Map.empty,
      rl_in_flight = Map.empty, rl_foreign_to_hash = Map.empty, rl_hash_to_foreign = Map.empty\<rparr>"

type_synonym 'a relay_prog = "(relay, contract_error, 'a) prog"

text \<open>What is called of the libraries and of the chain's address functions.\<close>

record relay_api =
  api_addr_validate :: "string \<Rightarrow> std_error + string"
  api_addr_canonicalize :: "string \<Rightarrow> std_error + bytes"
  api_addr_humanize :: "bytes \<Rightarrow> std_error + string"
  api_update_admin :: "string option \<Rightarrow> string \<Rightarrow> string option \<Rightarrow> string + string option"
    \<comment> \<open>\<^verbatim>\<open>execute_update_admin\<close>: the current admin, the caller and the new admin\<close>
  api_sha256 :: "string \<Rightarrow> bytes"
  api_hex :: "bytes \<Rightarrow> string"
  api_hex_decode :: "string \<Rightarrow> bytes option"
  api_from_hex :: "string \<Rightarrow> std_error + bytes" \<comment> \<open>\<^verbatim>\<open>HexBinary::from_hex\<close>\<close>
  api_base64 :: "bytes \<Rightarrow> string"
  api_coins :: "coin list \<Rightarrow> coin list option" \<comment> \<open>\<^verbatim>\<open>Coins::try_from\<close> and \<^verbatim>\<open>into_vec\<close>\<close>
  api_coins_json :: "coin list \<Rightarrow> string"
  api_plus_seconds :: "u64 \<Rightarrow> u64 \<Rightarrow> u64 option" \<comment> \<open>nothing where the addition panics\<close>
  api_parse_duration :: "string \<Rightarrow> u64 option" \<comment> \<open>the \<^verbatim>\<open>i64\<close> nanoseconds\<close>
  api_abi_encode :: "abi_token list \<Rightarrow> bytes"
  api_abi_decode :: "bytes \<Rightarrow> string + abi_token list"
  api_ics20_packet_json :: "ics20_packet \<Rightarrow> bytes"
  api_ics20_packet_of_json :: "bytes \<Rightarrow> string + ics20_packet"
  api_ics20_ack_json :: "ics20_ack \<Rightarrow> bytes"
  api_ics20_ack_of_json :: "bytes \<Rightarrow> string + ics20_ack"
  api_memo_json :: "memo \<Rightarrow> string"
  api_memo_of_json :: "string \<Rightarrow> string + memo"
  api_in_flight_json :: "in_flight_packet \<Rightarrow> bytes"
  api_in_flight_of_json :: "bytes \<Rightarrow> string + in_flight_packet"
  api_debug_error :: "contract_error \<Rightarrow> string" \<comment> \<open>\<^verbatim>\<open>format!("{:?}")\<close>\<close>
  api_debug_string :: "string \<Rightarrow> string"

definition lift_outcome :: "('d \<Rightarrow> 'e) \<Rightarrow> ('d, 'a) outcome \<Rightarrow> ('s, 'e, 'a) prog" where
  \<comment> \<open>a pure result under \<^verbatim>\<open>?\<close>\<close>
  "lift_outcome f r = (case r of Ok x \<Rightarrow> ret x | Err e \<Rightarrow> raise (f e) | Panic \<Rightarrow> panic)"

lemma lift_outcome_simps [simp, prog_simps]:
  "lift_outcome f (Ok x) = ret x" "lift_outcome f (Err e) = raise (f e)" "lift_outcome f Panic = panic"
  by (simp_all add: lift_outcome_def)

lemma lift_outcome_Ok [prog_ok]: "lift_outcome f r s = (Ok y, s') \<longleftrightarrow> r = Ok y \<and> s' = s"
  by (cases r) auto

section \<open>Denominations\<close>

definition hash_denom :: "relay_api \<Rightarrow> string \<Rightarrow> bytes" where
  "hash_denom A denom = take 21 (api_sha256 A denom)"

definition hash_denom_str :: "relay_api \<Rightarrow> string \<Rightarrow> string" where
  "hash_denom_str A denom = ''0x'' @ api_hex A (hash_denom A denom)"

definition factory_denom :: "string \<Rightarrow> string \<Rightarrow> string" where
  "factory_denom contract_address subdenom = ''factory/'' @ contract_address @ ''/'' @ subdenom"

definition normalize_for_ibc_transfer ::
  "relay_api \<Rightarrow> (bytes \<Rightarrow> string option) \<Rightarrow> string \<Rightarrow> ibc_endpoint \<Rightarrow> transfer_token \<Rightarrow>
   (contract_error, transfer_token) outcome" where
  "normalize_for_ibc_transfer A hash_to_denom contract_address endpoint token =
     (case Option.bind (Option.bind (strip_prefix ''factory/'' (tk_denom token))
             (strip_prefix contract_address)) (strip_prefix ''/0x'') of
        Some denom_hash \<Rightarrow>
          andthen (expects (api_hex_decode A denom_hash)) (\<lambda>h.
          if length h \<noteq> 21 then Panic
          else
            Ok (case hash_to_denom h of
                Some normalized_denom \<Rightarrow>
                  (case denom_origin normalized_denom endpoint of
                     Local _ \<Rightarrow> token\<lparr>tk_denom := normalized_denom\<rparr>
                   | Remote _ \<Rightarrow> token)
              | None \<Rightarrow> token))
      | None \<Rightarrow> Ok token)"

section \<open>The amounts escrowed\<close>

definition update_outstanding ::
  "string \<Rightarrow> string \<Rightarrow> (nat option \<Rightarrow> (contract_error, nat) outcome) \<Rightarrow> unit relay_prog" where
  "update_outstanding channel_id denom f = (\<lambda>s.
     case f (rl_channel_state s (channel_id, denom)) of
       Ok n \<Rightarrow> (Ok (), s\<lparr>rl_channel_state := (rl_channel_state s)((channel_id, denom) \<mapsto> n)\<rparr>)
     | Err e \<Rightarrow> (Err e, s)
     | Panic \<Rightarrow> (Panic, s))"

abbreviation u512_max :: nat where "u512_max \<equiv> 2 ^ 512 - 1"

definition increase_outstanding :: "string \<Rightarrow> string \<Rightarrow> nat \<Rightarrow> unit relay_prog" where
  "increase_outstanding channel_id denom amount =
     update_outstanding channel_id denom (\<lambda>outstanding.
       let n = (case outstanding of None \<Rightarrow> 0 | Some n \<Rightarrow> n) + amount
       in if n \<le> u512_max then Ok n else Err (OverflowErr OverflowAdd))"

definition decrease_outstanding :: "string \<Rightarrow> string \<Rightarrow> nat \<Rightarrow> unit relay_prog" where
  "decrease_outstanding channel_id denom amount =
     update_outstanding channel_id denom (\<lambda>outstanding.
       case outstanding of
         None \<Rightarrow> Err InsufficientFunds
       | Some n \<Rightarrow> if amount \<le> n then Ok (n - amount) else Err (OverflowErr OverflowSub))"

section \<open>Receiving tokens\<close>

definition foreign_toggle ::
  "relay_api \<Rightarrow> string \<Rightarrow> ibc_endpoint \<Rightarrow> string \<Rightarrow> (bool \<times> bytes \<times> cw_msg) relay_prog" where
  "foreign_toggle A contract_address local_endpoint denom =
     asks (\<lambda>s.
       (rl_foreign_to_hash s (local_endpoint, denom) \<noteq> None, hash_denom A denom,
        WasmExecute contract_address (RegisterDenom local_endpoint denom (hash_denom A denom)) []))"

definition nonzero :: "nat \<Rightarrow> cw_msg \<Rightarrow> cw_msg list" where
  "nonzero n m = (if n = 0 then [] else [m])"

definition receive_token ::
  "relay_api \<Rightarrow> string \<Rightarrow> ibc_endpoint \<Rightarrow> ibc_endpoint \<Rightarrow> string \<Rightarrow> string \<Rightarrow> bool \<Rightarrow> transfer_token \<Rightarrow>
   (normalized_transfer_token \<times> cw_msg list) relay_prog" where
  "receive_token A contract_address endpoint counterparty_endpoint receiver relayer cut_fees token =
     seqp (if cut_fees then lift_outcome Arithmetic (amounts token) else ret (tk_amount token, 0))
       (\<lambda>(actual_amount, fee_amount).
     case denom_origin (tk_denom token) counterparty_endpoint of
       Local denom \<Rightarrow>
         seqp (decrease_outstanding (ep_channel_id endpoint) denom (tk_amount token)) (\<lambda>_.
         ret (\<lparr>ntk_origin_denom = tk_denom token, ntk_token = token\<lparr>tk_denom := denom\<rparr>\<rparr>,
              nonzero actual_amount (BankSend receiver [(denom, actual_amount)]) @
              nonzero fee_amount (BankSend relayer [(denom, fee_amount)])))
     | Remote denom \<Rightarrow>
         seqp (foreign_toggle A contract_address endpoint (make_foreign_denom endpoint denom))
           (\<lambda>(exists, hashed_foreign_denom, register_msg).
         let normalized_foreign_denom = ''0x'' @ api_hex A hashed_foreign_denom;
             denom = factory_denom contract_address normalized_foreign_denom
         in ret (\<lparr>ntk_origin_denom = tk_denom token, ntk_token = token\<lparr>tk_denom := denom\<rparr>\<rparr>,
                 (if exists then [] else [register_msg, CreateDenom normalized_foreign_denom]) @
                 nonzero actual_amount (MintTokens denom actual_amount receiver) @
                 nonzero fee_amount (MintTokens denom fee_amount relayer))))"

definition receive_phase1_transfer ::
  "relay_api \<Rightarrow> string \<Rightarrow> ibc_endpoint \<Rightarrow> ibc_endpoint \<Rightarrow> string \<Rightarrow> string \<Rightarrow> transfer_token list \<Rightarrow>
   bool \<Rightarrow> (normalized_transfer_token list \<times> cw_msg list) relay_prog" where
  "receive_phase1_transfer A contract_address endpoint counterparty_endpoint receiver relayer tokens cut_fees =
     seqp (mapp (receive_token A contract_address endpoint counterparty_endpoint receiver relayer cut_fees)
       tokens) (\<lambda>rs.
     ret (map fst rs, concat (map snd rs)))"

section \<open>Sending and refunding tokens\<close>

type_synonym on_token = "string \<Rightarrow> string \<Rightarrow> nat \<Rightarrow> nat \<Rightarrow> cw_msg list relay_prog"
  \<comment> \<open>the channel, the denomination, the amount and the fee\<close>

definition for_token ::
  "relay_api \<Rightarrow> on_token \<Rightarrow> on_token \<Rightarrow> string \<Rightarrow> ibc_endpoint \<Rightarrow> transfer_token \<Rightarrow> cw_msg list relay_prog" where
  "for_token A on_local on_remote contract_address endpoint token =
     seqp (lift_outcome Arithmetic (amounts token)) (\<lambda>(actual_amount, fee_amount).
     case denom_origin (tk_denom token) endpoint of
       Local denom \<Rightarrow>
         on_remote (ep_channel_id endpoint)
           (factory_denom contract_address (hash_denom_str A (make_foreign_denom endpoint denom)))
           actual_amount fee_amount
     | Remote denom \<Rightarrow> on_local (ep_channel_id endpoint) denom actual_amount fee_amount)"

definition for_tokens ::
  "relay_api \<Rightarrow> on_token \<Rightarrow> on_token \<Rightarrow> string \<Rightarrow> ibc_endpoint \<Rightarrow> transfer_token list \<Rightarrow>
   cw_msg list relay_prog" where
  "for_tokens A on_local on_remote contract_address endpoint tokens =
     seqp (mapp (for_token A on_local on_remote contract_address endpoint) tokens) (\<lambda>ms. ret (concat ms))"

definition total_amount :: "nat \<Rightarrow> nat \<Rightarrow> nat relay_prog" where
  \<comment> \<open>\<^verbatim>\<open>amount.checked_add(fee_amount).expect(..)\<close>\<close>
  "total_amount amount fee_amount = unwrap (if amount + fee_amount \<le> u128_max then Some (amount + fee_amount) else None)"

definition send_on_local :: on_token where
  "send_on_local channel_id denom amount fee_amount =
     seqp (total_amount amount fee_amount) (\<lambda>total.
     seqp (increase_outstanding channel_id denom total) (\<lambda>_. ret []))"

definition send_on_remote :: "string \<Rightarrow> on_token" where
  "send_on_remote contract_address channel_id denom amount fee_amount =
     seqp (total_amount amount fee_amount) (\<lambda>total. ret [BurnTokens denom total contract_address])"

definition refund_on_local :: "string \<Rightarrow> on_token" where
  "refund_on_local receiver channel_id denom amount fee_amount =
     seqp (total_amount amount fee_amount) (\<lambda>total.
     seqp (decrease_outstanding channel_id denom total) (\<lambda>_. ret [BankSend receiver [(denom, total)]]))"

definition refund_on_remote :: "string \<Rightarrow> on_token" where
  "refund_on_remote receiver channel_id denom amount fee_amount =
     seqp (total_amount amount fee_amount) (\<lambda>total. ret [MintTokens denom total receiver])"

end
