(* ===== verification/Ucs01_Protocol.thy ===== *)
theory Ucs01_Protocol imports Ucs01_Relay begin

text \<open>
  The protocol of the token transfer application: the trait \<^verbatim>\<open>TransferProtocol\<close> of
  \<^verbatim>\<open>cosmwasm/ucs01-relay-api/src/protocol.rs\<close> as a record of the operations its two
  implementations supply, its provided methods over that record, and from
  \<^verbatim>\<open>cosmwasm/ucs01-relay/src/protocol.rs\<close> the implementations \<^verbatim>\<open>Ics20Protocol\<close> and
  \<^verbatim>\<open>Ucs01Protocol\<close> with the forwarding of packets (\<^verbatim>\<open>TransferProtocolExt\<close>).
\<close>

section \<open>The trait\<close>

record relay_ctx = \<comment> \<open>\<^verbatim>\<open>ProtocolCommon\<close>\<close>
  cx_self :: string
  cx_time :: u64
  cx_sender :: string
  cx_channel :: channel_info

record ('p, 'a) protocol = \<comment> \<open>the packets and the addresses in them\<close>
  pr_version :: string
  pr_ordering :: cw_order
  pr_receive_reply_id :: nat
  pr_decode :: "bytes \<Rightarrow> (contract_error, 'p) outcome"
  pr_encode :: "'p \<Rightarrow> bytes"
  pr_sender :: "'p \<Rightarrow> 'a"
  pr_receiver :: "'p \<Rightarrow> 'a"
  pr_tokens :: "'p \<Rightarrow> transfer_token list"
  pr_extension :: "'p \<Rightarrow> string"
  pr_addr_text :: "'a \<Rightarrow> string"
  pr_addr_of :: "'a \<Rightarrow> (contract_error, string) outcome" \<comment> \<open>the account on this chain\<close>
  pr_self_addr_canonical :: "string \<Rightarrow> (contract_error, 'a) outcome"
  pr_common_to_packet :: "transfer_packet_common \<Rightarrow> (encoding_error, 'p) outcome"
  pr_decode_ack :: "bytes \<Rightarrow> (contract_error, generic_ack) outcome"
  pr_ack_success :: bytes \<comment> \<open>encoded\<close>
  pr_ack_failure :: "string \<Rightarrow> bytes"
  pr_convert_ack :: "string \<Rightarrow> generic_ack \<Rightarrow> (contract_error, generic_ack) outcome"

record transfer_input =
  ti_current_time :: u64
  ti_timeout_delta :: u64
  ti_sender :: string
  ti_receiver :: string
  ti_tokens :: "transfer_token list"

definition IBC_SEND_ID :: nat where "IBC_SEND_ID = 69"

definition ACK_ERR_TIMEOUT_MSG :: bytes where
  "ACK_ERR_TIMEOUT_MSG = map of_char ''giving up on forwarded packet after timeout''"

section \<open>The two protocols\<close>

definition ics20_convert_ack ::
  "string \<Rightarrow> generic_ack \<Rightarrow> (contract_error, generic_ack) outcome" where
  "ics20_convert_ack foreign_protocol ack =
     (if foreign_protocol = ''ucs01-relay-1'' then
        Ok (ucs01_ack_generic (case ack of Inr _ \<Rightarrow> Success | Inl _ \<Rightarrow> Failure))
      else if foreign_protocol = ''ics20-1'' then Ok ack
      else Err (UnknownProtocol [] foreign_protocol))"

definition ucs01_convert_ack ::
  "relay_api \<Rightarrow> string \<Rightarrow> generic_ack \<Rightarrow> (contract_error, generic_ack) outcome" where
  "ucs01_convert_ack A foreign_protocol ack =
     (if foreign_protocol = ''ucs01-relay-1'' then Ok ack
      else if foreign_protocol = ''ics20-1'' then
        Ok (ics20_ack_generic (api_ics20_ack_json A)
              (case ack of Inr _ \<Rightarrow> Ics20Result [1] | Inl _ \<Rightarrow> Ics20Error ''ucs01 ack failure''))
      else Err (UnknownProtocol [] foreign_protocol))"

definition ics20_protocol :: "relay_api \<Rightarrow> (ics20_packet, string) protocol" where
  "ics20_protocol A =
     \<lparr>pr_version = ''ics20-1'',
      pr_ordering = CwUnordered,
      pr_receive_reply_id = 0,
      pr_decode = (\<lambda>b. result_or SerdeJson (api_ics20_packet_of_json A b)),
      pr_encode = api_ics20_packet_json A,
      pr_sender = ip_sender, pr_receiver = ip_receiver,
      pr_tokens = ics20_packet_tokens, pr_extension = ip_memo,
      pr_addr_text = (\<lambda>a. a),
      pr_addr_of = Ok,
      pr_self_addr_canonical = Ok,
      pr_common_to_packet = ics20_packet_try_from,
      pr_decode_ack = (\<lambda>b.
        andthen (result_or SerdeJson (api_ics20_ack_of_json A b)) (\<lambda>a.
        Ok (ics20_ack_generic (api_ics20_ack_json A) a))),
      pr_ack_success = api_ics20_ack_json A (Ics20Result [1]),
      pr_ack_failure = (\<lambda>error. api_ics20_ack_json A (Ics20Error error)),
      pr_convert_ack = ics20_convert_ack\<rparr>"

definition ucs01_packet_decode :: "relay_api \<Rightarrow> bytes \<Rightarrow> (encoding_error, ucs01_packet) outcome" where
  "ucs01_packet_decode A b =
     andthen (result_or (InvalidUCS01PacketEncoding b) (api_abi_decode A b)) ucs01_packet_of_tokens"

definition ucs01_common_to_packet ::
  "relay_api \<Rightarrow> transfer_packet_common \<Rightarrow> (encoding_error, ucs01_packet) outcome" where
  "ucs01_common_to_packet A packet =
     andthen (result_or (InvalidSender (tpc_sender packet)) (api_addr_canonicalize A (tpc_sender packet))) (\<lambda>sender.
     andthen (result_or (InvalidReceiver (tpc_receiver packet)) (api_from_hex A (tpc_receiver packet)))
       (\<lambda>receiver.
     Ok \<lparr>up_sender = sender, up_receiver = receiver, up_tokens = tpc_tokens packet,
         up_memo = tpc_extension packet\<rparr>))"

definition ucs01_protocol :: "relay_api \<Rightarrow> (ucs01_packet, bytes) protocol" where
  "ucs01_protocol A =
     \<lparr>pr_version = ''ucs01-relay-1'',
      pr_ordering = CwUnordered,
      pr_receive_reply_id = 1,
      pr_decode = (\<lambda>b. map_err ProtocolEncoding (ucs01_packet_decode A b)),
      pr_encode = (\<lambda>p. api_abi_encode A (ucs01_packet_tokens p)),
      pr_sender = up_sender, pr_receiver = up_receiver,
      pr_tokens = up_tokens, pr_extension = up_memo,
      pr_addr_text = api_hex A,
      pr_addr_of = (\<lambda>a. result_or StdErr (api_addr_humanize A a)),
      pr_self_addr_canonical = (\<lambda>a. result_or StdErr (api_addr_canonicalize A a)),
      pr_common_to_packet = ucs01_common_to_packet A,
      pr_decode_ack = (\<lambda>b.
        andthen (map_err ProtocolEncoding (ucs01_ack_decode b)) (\<lambda>a. Ok (ucs01_ack_generic a))),
      pr_ack_success = ucs01_ack_encode Success,
      pr_ack_failure = (\<lambda>_. ucs01_ack_encode Failure),
      pr_convert_ack = ucs01_convert_ack A\<rparr>"

definition protocol_ordering :: "relay_api \<Rightarrow> string \<Rightarrow> cw_order option" where
  "protocol_ordering A version =
     (if version = pr_version (ics20_protocol A) then Some (pr_ordering (ics20_protocol A))
      else if version = pr_version (ucs01_protocol A) then Some (pr_ordering (ucs01_protocol A))
      else None)"

section \<open>Tokens in and out of a channel\<close>

definition send_tokens :: "relay_api \<Rightarrow> relay_ctx \<Rightarrow> transfer_token list \<Rightarrow> cw_msg list relay_prog" where
  "send_tokens A cx tokens =
     for_tokens A send_on_local (send_on_remote (cx_self cx)) (cx_self cx) (ci_endpoint (cx_channel cx)) tokens"

definition send_tokens_success :: "cw_msg list relay_prog" where
  "send_tokens_success = ret []"

definition send_tokens_failure ::
  "('p, 'a) protocol \<Rightarrow> relay_api \<Rightarrow> relay_ctx \<Rightarrow> 'a \<Rightarrow> transfer_token list \<Rightarrow> cw_msg list relay_prog" where
  "send_tokens_failure P A cx sender tokens =
     seqp (lift_outcome (\<lambda>e. e) (pr_addr_of P sender)) (\<lambda>receiver.
     for_tokens A (refund_on_local receiver) (refund_on_remote receiver) (cx_self cx)
       (ci_endpoint (cx_channel cx)) tokens)"

definition batch_submessages :: "string \<Rightarrow> cw_msg list \<Rightarrow> cw_msg list" where
  "batch_submessages self_addr msgs = [WasmExecute self_addr (BatchExecute msgs) []]"

definition receive_transfer ::
  "('p, 'a) protocol \<Rightarrow> relay_api \<Rightarrow> relay_ctx \<Rightarrow> 'a \<Rightarrow> transfer_token list \<Rightarrow> bool \<Rightarrow>
   (normalized_transfer_token list \<times> cw_msg list) relay_prog" where
  "receive_transfer P A cx receiver tokens cut_fees =
     seqp (lift_outcome (\<lambda>e. e) (pr_addr_of P receiver)) (\<lambda>receiver.
     seqp (receive_phase1_transfer A (cx_self cx) (ci_endpoint (cx_channel cx))
       (ci_counterparty_endpoint (cx_channel cx)) receiver (cx_sender cx) tokens cut_fees) (\<lambda>(tokens, msgs).
     ret (tokens, batch_submessages (cx_self cx) msgs)))"

section \<open>Sending\<close>

definition tokens_to_attr ::
  "relay_api \<Rightarrow> transfer_token list \<Rightarrow> (ratio_error, (string \<times> string) list) outcome" where
  "tokens_to_attr A tokens =
     andthen (try_map (\<lambda>t. andthen (amounts t) (\<lambda>(actual_amount, fee_amount).
       Ok ((tk_denom t, actual_amount), (tk_denom t, fee_amount)))) tokens) (\<lambda>cs.
     Ok [(''assets'', api_coins_json A (map fst cs)), (''fee_assets'', api_coins_json A (map snd cs))])"

definition memo_attr :: "string \<Rightarrow> (string \<times> string) list" where
  "memo_attr memo = (if memo = [] then [] else [(''memo'', memo)])"

definition normalize_token :: "relay_api \<Rightarrow> relay_ctx \<Rightarrow> transfer_token \<Rightarrow> transfer_token relay_prog" where
  "normalize_token A cx token =
     seqp (asks (\<lambda>s h. rl_hash_to_foreign s (ci_endpoint (cx_channel cx), h))) (\<lambda>hash_to_denom.
     lift_outcome (\<lambda>e. e)
       (normalize_for_ibc_transfer A hash_to_denom (cx_self cx) (ci_endpoint (cx_channel cx)) token))"

definition send ::
  "('p, 'a) protocol \<Rightarrow> relay_api \<Rightarrow> relay_ctx \<Rightarrow> transfer_input \<Rightarrow> string \<Rightarrow> response relay_prog" where
  "send P A cx input extension =
     seqp (mapp (normalize_token A cx) (ti_tokens input)) (\<lambda>tokens.
     seqp (lift_outcome ProtocolEncoding (pr_common_to_packet P
       \<lparr>tpc_sender = ti_sender input, tpc_receiver = ti_receiver input, tpc_tokens = tokens,
        tpc_extension = extension\<rparr>)) (\<lambda>packet.
     seqp (send_tokens A cx (pr_tokens P packet)) (\<lambda>send_msgs.
     seqp (unwrap (api_plus_seconds A (ti_current_time input) (ti_timeout_delta input))) (\<lambda>timeout.
     seqp (lift_outcome Arithmetic (tokens_to_attr A (pr_tokens P packet))) (\<lambda>attrs.
     ret \<lparr>rs_messages = map plain_msg send_msgs @
            [\<lparr>sm_id = IBC_SEND_ID,
              sm_msg = SendPacket (ep_channel_id (ci_endpoint (cx_channel cx))) (pr_encode P packet)
                \<lparr>ct_block = None, ct_timestamp = Some timeout\<rparr>,
              sm_reply_on = ReplyAlways, sm_payload = []\<rparr>],
          rs_events =
            [(''ibc_transfer'', memo_attr extension @
               [(''sender'', ti_sender input), (''receiver'', ti_receiver input)] @ attrs),
             (''message'', [(''module'', ''transfer'')])],
          rs_data = None\<rparr>)))))"

section \<open>Acknowledgements and timeouts\<close>

definition get_in_flight_packet :: "cw_packet \<Rightarrow> in_flight_packet option relay_prog" where
  "get_in_flight_packet forward_packet =
     asks (\<lambda>s. rl_in_flight s
       (ep_channel_id (cp_src forward_packet), ep_port_id (cp_src forward_packet), cp_sequence forward_packet))"

definition deferred_info :: "cw_packet \<Rightarrow> deferred_packet_info" where
  "deferred_info p =
     \<lparr>dp_refund_channel_id = ep_channel_id (cp_dest p),
      dp_refund_port_id = ep_port_id (cp_dest p),
      dp_src_channel_id = ep_channel_id (cp_src p),
      dp_src_port_id = ep_port_id (cp_src p),
      dp_timeout_timestamp = (case ct_timestamp (cp_timeout p) of None \<Rightarrow> 0 | Some t \<Rightarrow> t),
      dp_timeout_height = show_height (case ct_block (cp_timeout p) of
          Some b \<Rightarrow> Height (tb_revision b) (tb_height b)
        | None \<Rightarrow> Height 0 0),
      dp_data = cp_data p,
      dp_sequence = cp_sequence p\<rparr>"

definition pfm_ack ::
  "('p, 'a) protocol \<Rightarrow> relay_api \<Rightarrow> relay_ctx \<Rightarrow> generic_ack \<Rightarrow> cw_packet \<Rightarrow> in_flight_packet \<Rightarrow> 'a \<Rightarrow>
   transfer_token list \<Rightarrow> (cw_msg list \<times> (string \<times> string) list) relay_prog" where
  "pfm_ack P A cx ack ibc_packet refund_info sender tokens =
     seqp (lift_outcome (\<lambda>e. e) (pr_convert_ack P (if_origin_protocol_version refund_info) ack)) (\<lambda>ack.
     seqp (case ack of
         Inr value \<Rightarrow>
           seqp send_tokens_success (\<lambda>msgs.
           ret (msgs, if api_base64 A value = [] then [] else [(''success'', api_base64 A value)], value))
       | Inl error \<Rightarrow>
           seqp (send_tokens_failure P A cx sender tokens) (\<lambda>msgs.
           ret (msgs, if error = [] then [] else [(''error'', api_base64 A error)], error)))
       (\<lambda>(ack_msgs, ack_attrs, ack_bytes).
     seqp (modify (\<lambda>s. s\<lparr>rl_in_flight := (rl_in_flight s)
       ((ep_channel_id (cp_src ibc_packet), ep_port_id (cp_src ibc_packet), cp_sequence ibc_packet) := None)\<rparr>)) (\<lambda>_.
     ret (ack_msgs @ [WriteDeferredAck (cx_self cx) (deferred_info (if_origin_packet refund_info)) ack_bytes],
          ack_attrs @ [(''pfm'', ''pfm_ack'')]))))"

definition send_ack ::
  "('p, 'a) protocol \<Rightarrow> relay_api \<Rightarrow> relay_ctx \<Rightarrow> bytes \<Rightarrow> cw_packet \<Rightarrow> response relay_prog" where
  "send_ack P A cx acknowledgement original_packet =
     seqp (lift_outcome (\<lambda>e. e) (pr_decode P (cp_data original_packet))) (\<lambda>packet.
     seqp (lift_outcome (\<lambda>e. e) (pr_decode_ack P acknowledgement)) (\<lambda>ack.
     seqp (get_in_flight_packet original_packet) (\<lambda>in_flight.
     seqp (case in_flight of
         Some in_flight_packet \<Rightarrow>
           pfm_ack P A cx ack original_packet in_flight_packet (pr_sender P packet) (pr_tokens P packet)
       | None \<Rightarrow>
           (case ack of
              Inr value \<Rightarrow>
                seqp send_tokens_success (\<lambda>msgs.
                ret (msgs, if api_base64 A value = [] then [] else [(''success'', api_base64 A value)]))
            | Inl error \<Rightarrow>
                seqp (send_tokens_failure P A cx (pr_sender P packet) (pr_tokens P packet)) (\<lambda>msgs.
                ret (msgs, if api_base64 A error = [] then [] else [(''error'', api_base64 A error)]))))
       (\<lambda>(ack_msgs, ack_attr).
     seqp (lift_outcome Arithmetic (tokens_to_attr A (pr_tokens P packet))) (\<lambda>attrs.
     ret \<lparr>rs_messages = map plain_msg ack_msgs,
          rs_events =
            [(''fungible_token_packet'', memo_attr (pr_extension P packet) @
               [(''module'', ''transfer''), (''sender'', pr_addr_text P (pr_sender P packet)),
                (''receiver'', pr_addr_text P (pr_receiver P packet)),
                (''acknowledgement'', api_base64 A acknowledgement)] @ attrs),
             (''fungible_token_packet'', ack_attr)],
          rs_data = None\<rparr>)))))"

definition send_timeout ::
  "('p, 'a) protocol \<Rightarrow> relay_api \<Rightarrow> relay_ctx \<Rightarrow> cw_packet \<Rightarrow> response relay_prog" where
  "send_timeout P A cx ibc_packet =
     seqp (lift_outcome (\<lambda>e. e) (pr_decode P (cp_data ibc_packet))) (\<lambda>packet.
     seqp (get_in_flight_packet ibc_packet) (\<lambda>in_flight.
     seqp (case in_flight of
         Some in_flight_packet \<Rightarrow>
           seqp (pfm_ack P A cx (Inl ACK_ERR_TIMEOUT_MSG) ibc_packet in_flight_packet (pr_sender P packet)
             (pr_tokens P packet)) (\<lambda>(msgs, _). ret msgs)
       | None \<Rightarrow> send_tokens_failure P A cx (pr_sender P packet) (pr_tokens P packet)) (\<lambda>refund_msgs.
     seqp (lift_outcome Arithmetic (tokens_to_attr A (pr_tokens P packet))) (\<lambda>attrs.
     ret \<lparr>rs_messages = map plain_msg refund_msgs,
          rs_events =
            [(''fungible_token_packet'', memo_attr (pr_extension P packet) @
               [(''module'', ''transfer''), (''refund_receiver'', pr_addr_text P (pr_sender P packet))] @ attrs)],
          rs_data = None\<rparr>))))"

end
