(* ===== verification/Ucs01_Contract.thy ===== *)
theory Ucs01_Contract imports Ucs01_Protocol begin

text \<open>
  The entry points of the token transfer contract: \<^verbatim>\<open>contract.rs\<close> and \<^verbatim>\<open>ibc.rs\<close> of
  \<^verbatim>\<open>cosmwasm/ucs01-relay/src/\<close>, with the reception and the forwarding of packets
  (\<^verbatim>\<open>receive\<close> and \<^verbatim>\<open>packet_forward\<close> of \<^verbatim>\<open>cosmwasm/ucs01-relay-api/src/protocol.rs\<close>,
  \<^verbatim>\<open>do_forward_transfer_packet\<close>), which call the transfer of the contract itself.
\<close>

section \<open>Transfers\<close>

definition load_channel :: "string \<Rightarrow> channel_info relay_prog" where
  \<comment> \<open>\<^verbatim>\<open>CHANNEL_INFO.load\<close>\<close>
  "load_channel channel = seqp (asks rl_channel_info) (\<lambda>m. ok_or (StdErr NotFound) (m channel))"

definition execute_transfer ::
  "relay_api \<Rightarrow> string \<Rightarrow> u64 \<Rightarrow> string \<Rightarrow> coin list \<Rightarrow> transfer_msg \<Rightarrow> response relay_prog" where
  \<comment> \<open>the contract's address, the time of the block, the sender and the funds\<close>
  "execute_transfer A self time sender funds msg =
     (let fees = (case tm_fees msg of None \<Rightarrow> Map.empty | Some fees \<Rightarrow> fees) in
     seqp (ok_or (StdErr (GenericErr ''Couldn't decode funds to Coins'')) (api_coins A funds)) (\<lambda>coins.
     let tokens = map (\<lambda>coin. token_of_coin coin (case fees (fst coin) of None \<Rightarrow> 0 | Some fee \<Rightarrow> fee)) coins in
     if tokens = [] then raise NoFunds
     else
       seqp (load_channel (tm_channel msg)) (\<lambda>channel_info.
       seqp (asks rl_config) (\<lambda>config.
       seqp (ok_or (StdErr NotFound) config) (\<lambda>default_timeout.
       let input = \<lparr>ti_current_time = time,
             ti_timeout_delta = (case tm_timeout msg of None \<Rightarrow> default_timeout | Some t \<Rightarrow> t),
             ti_sender = sender, ti_receiver = tm_receiver msg, ti_tokens = tokens\<rparr>;
           cx = \<lparr>cx_self = self, cx_time = time, cx_sender = sender, cx_channel = channel_info\<rparr> in
       if ci_protocol_version channel_info = pr_version (ics20_protocol A) then
         send (ics20_protocol A) A cx input (tm_memo msg)
       else if ci_protocol_version channel_info = pr_version (ucs01_protocol A) then
         send (ucs01_protocol A) A cx input (tm_memo msg)
       else raise (UnknownProtocol (tm_channel msg) (ci_protocol_version channel_info)))))))"

section \<open>Forwarding\<close>

definition get_effective_timeout :: "relay_api \<Rightarrow> pfm_forward \<Rightarrow> (protocol_error, u64) outcome" where
  \<comment> \<open>signed arithmetic that wraps, as in the release profile\<close>
  "get_effective_timeout A forward =
     (let retries = (of_nat (pf_retries forward) :: u64) + 1 in
     andthen (expects (api_parse_duration A ''1m'')) (\<lambda>d.
     let default_timeout = d * retries;
         timeout = (case api_parse_duration A (pf_timeout forward) of
             Some timeout \<Rightarrow> if sint timeout \<le> 0 then default_timeout else timeout * retries
           | None \<Rightarrow> default_timeout)
     in some_or (Some (timeout div 1000000000)) InvalidTimeout))"

fun with_payload :: "nat \<Rightarrow> bytes \<Rightarrow> sub_msg list \<Rightarrow> sub_msg list option" where
  \<comment> \<open>\<^verbatim>\<open>iter_mut().find(|sub| sub.id == id)\<close> and the update of what it finds\<close>
  "with_payload i payload [] = None"
| "with_payload i payload (sub # subs) =
     (if sm_id sub = i then Some (sub\<lparr>sm_payload := payload\<rparr> # subs)
      else map_option ((#) sub) (with_payload i payload subs))"

definition forward_transfer_packet ::
  "('p, 'a) protocol \<Rightarrow> relay_api \<Rightarrow> relay_ctx \<Rightarrow> coin list \<Rightarrow> cw_packet \<Rightarrow> pfm_forward \<Rightarrow> string \<Rightarrow>
   response relay_prog" where
  "forward_transfer_packet P A cx tokens original_packet forward sender =
     seqp (lift_outcome ProtocolErr (get_effective_timeout A forward)) (\<lambda>timeout.
     seqp (execute_transfer A (cx_self cx) (cx_time cx) sender tokens
       \<lparr>tm_channel = pf_channel forward, tm_receiver = pf_receiver forward, tm_timeout = Some timeout,
        tm_memo = (case pf_next forward of Some next \<Rightarrow> api_memo_json A (MemoForward next) | None \<Rightarrow> []),
        tm_fees = pf_fees forward\<rparr>) (\<lambda>transfer.
     let in_flight_packet =
           \<lparr>if_origin_sender_addr = cx_sender cx,
            if_origin_protocol_version = pr_version P,
            if_origin_packet = original_packet,
            if_forward_src_channel_id = pf_channel forward,
            if_forward_src_port_id = pf_port forward,
            if_forward_timeout = timeout\<rparr> in
     seqp (ok_or (MiddlewareErr NoReplyMessageInStack)
       (with_payload IBC_SEND_ID (api_in_flight_json A in_flight_packet) (rs_messages transfer))) (\<lambda>messages.
     ret \<lparr>rs_messages = messages, rs_events = rs_events transfer, rs_data = None\<rparr>)))"

fun remap_fees :: "normalized_transfer_token list \<Rightarrow> fees option \<Rightarrow> fees option" where
  "remap_fees [] fees = fees"
| "remap_fees (t # ts) fees =
     remap_fees ts
       (case fees of
          None \<Rightarrow> None
        | Some m \<Rightarrow>
            (case m (ntk_origin_denom t) of
               None \<Rightarrow> Some m
             | Some fee \<Rightarrow> Some (m(ntk_origin_denom t := None, tk_denom (ntk_token t) \<mapsto> fee))))"

definition with_fees :: "pfm_forward \<Rightarrow> fees option \<Rightarrow> pfm_forward" where
  "with_fees f fees =
     PacketForward (pf_receiver f) (pf_port f) (pf_channel f) (pf_timeout f) (pf_retries f) (pf_next f)
       (pf_return_info f) fees"

definition packet_forward ::
  "('p, 'a) protocol \<Rightarrow> relay_api \<Rightarrow> relay_ctx \<Rightarrow> 'p \<Rightarrow> cw_packet \<Rightarrow> pfm_forward \<Rightarrow> response relay_prog" where
  "packet_forward P A cx packet original_packet forward =
     seqp (lift_outcome (\<lambda>e. e) (pr_self_addr_canonical P (cx_self cx))) (\<lambda>self_receiver.
     seqp (receive_transfer P A cx self_receiver (pr_tokens P packet) False) (\<lambda>(tokens, msgs).
     seqp (forward_transfer_packet P A cx
       (map (\<lambda>t. (tk_denom (ntk_token t), tk_amount (ntk_token t))) tokens) original_packet
       (with_fees forward (remap_fees tokens (pf_fees forward))) (cx_self cx)) (\<lambda>r.
     ret (r\<lparr>rs_messages := rs_messages r @ map plain_msg msgs\<rparr>))))"

section \<open>Receiving\<close>

definition receive_error :: "('p, 'a) protocol \<Rightarrow> string \<Rightarrow> response" where
  \<comment> \<open>of the error as \<^verbatim>\<open>Debug\<close> prints it\<close>
  "receive_error P error =
     \<lparr>rs_messages = [],
      rs_events = [(''fungible_token_packet'',
        [(''module'', ''transfer''), (''success'', ''false''), (''error'', error)])],
      rs_data = Some (pr_ack_failure P error)\<rparr>"

definition receive_handle ::
  "('p, 'a) protocol \<Rightarrow> relay_api \<Rightarrow> relay_ctx \<Rightarrow> cw_packet \<Rightarrow> response relay_prog" where
  \<comment> \<open>the closure \<^verbatim>\<open>handle\<close>\<close>
  "receive_handle P A cx original_packet =
     seqp (lift_outcome (\<lambda>e. e) (pr_decode P (cp_data original_packet))) (\<lambda>packet.
     case api_memo_of_json A (pr_extension P packet) of
       Inr (MemoForward forward) \<Rightarrow> packet_forward P A cx packet original_packet forward
     | _ \<Rightarrow>
       seqp (receive_transfer P A cx (pr_receiver P packet) (pr_tokens P packet) True) (\<lambda>(_, transfer_msgs).
       seqp (lift_outcome Arithmetic (tokens_to_attr A (pr_tokens P packet))) (\<lambda>attrs.
       ret \<lparr>rs_messages = map (\<lambda>m. \<lparr>sm_id = pr_receive_reply_id P, sm_msg = m, sm_reply_on = ReplyError,
              sm_payload = []\<rparr>) transfer_msgs,
            rs_events = [(''fungible_token_packet'', memo_attr (pr_extension P packet) @
              [(''module'', ''transfer''), (''sender'', pr_addr_text P (pr_sender P packet)),
               (''receiver'', pr_addr_text P (pr_receiver P packet)), (''success'', ''true'')] @ attrs)],
            rs_data = Some (pr_ack_success P)\<rparr>)))"

definition receive :: "('p, 'a) protocol \<Rightarrow> relay_api \<Rightarrow> relay_ctx \<Rightarrow> cw_packet \<Rightarrow> response relay_prog" where
  \<comment> \<open>an error is answered, and what was written before it stays written\<close>
  "receive P A cx original_packet = (\<lambda>s.
     case receive_handle P A cx original_packet s of
       (Err e, s') \<Rightarrow> (Ok (receive_error P (api_debug_error A e)), s')
     | r \<Rightarrow> r)"

section \<open>The channel\<close>

definition enforce_order_and_version ::
  "relay_api \<Rightarrow> cw_channel \<Rightarrow> string option \<Rightarrow> (contract_error, unit) outcome" where
  "enforce_order_and_version A channel counterparty_version =
     andthen (some_or (protocol_ordering A (cc_version channel))
       (UnknownProtocol (ep_channel_id (cc_endpoint channel)) (cc_version channel))) (\<lambda>channel_ordering.
     andthen (case counterparty_version of
         None \<Rightarrow> Ok ()
       | Some version \<Rightarrow>
           if protocol_ordering A version = None then
             Err (UnknownProtocol (ep_channel_id (cc_endpoint channel)) version)
           else if version \<noteq> cc_version channel then
             Err (ProtocolMismatch (ep_channel_id (cc_endpoint channel)) (cc_version channel) version)
           else Ok ()) (\<lambda>_.
     if cc_order channel \<noteq> channel_ordering then
       Err (InvalidChannelOrdering channel_ordering (cc_order channel))
     else Ok ()))"

definition info_of_channel :: "cw_channel \<Rightarrow> channel_info" where
  "info_of_channel channel =
     \<lparr>ci_endpoint = cc_endpoint channel, ci_counterparty_endpoint = cc_counterparty_endpoint channel,
      ci_connection_id = cc_connection_id channel, ci_protocol_version = cc_version channel\<rparr>"

definition save_channel :: "cw_channel \<Rightarrow> unit relay_prog" where
  "save_channel channel =
     modify (\<lambda>s. s\<lparr>rl_channel_info :=
       (rl_channel_info s)(ep_channel_id (cc_endpoint channel) \<mapsto> info_of_channel channel)\<rparr>)"

definition ibc_channel_open :: "relay_api \<Rightarrow> cw_channel \<Rightarrow> string option \<Rightarrow> unit relay_prog" where
  "ibc_channel_open A channel counterparty_version =
     lift_outcome (\<lambda>e. e) (enforce_order_and_version A channel counterparty_version)"

definition ibc_channel_connect :: "relay_api \<Rightarrow> cw_channel \<Rightarrow> string option \<Rightarrow> response relay_prog" where
  "ibc_channel_connect A channel counterparty_version =
     seqp (lift_outcome (\<lambda>e. e) (enforce_order_and_version A channel counterparty_version)) (\<lambda>_.
     seqp (save_channel channel) (\<lambda>_. ret no_response))"

definition ibc_channel_close :: "response relay_prog" where
  "ibc_channel_close = raise Unauthorized"

section \<open>Packets\<close>

definition on_channel ::
  "relay_api \<Rightarrow> string \<Rightarrow> u64 \<Rightarrow> string \<Rightarrow> string \<Rightarrow> string \<Rightarrow> (relay_ctx \<Rightarrow> response relay_prog) \<Rightarrow>
   (relay_ctx \<Rightarrow> response relay_prog) \<Rightarrow> response relay_prog" where
  \<comment> \<open>the channel by its id, and by the version it was opened with the two protocols\<close>
  "on_channel A self time relayer channel_id dest_channel_id ics20 ucs01 =
     seqp (load_channel channel_id) (\<lambda>channel_info.
     let cx = \<lparr>cx_self = self, cx_time = time, cx_sender = relayer, cx_channel = channel_info\<rparr> in
     if ci_protocol_version channel_info = pr_version (ics20_protocol A) then ics20 cx
     else if ci_protocol_version channel_info = pr_version (ucs01_protocol A) then ucs01 cx
     else raise (UnknownProtocol dest_channel_id (ci_protocol_version channel_info)))"

definition ibc_packet_receive ::
  "relay_api \<Rightarrow> string \<Rightarrow> u64 \<Rightarrow> string \<Rightarrow> cw_packet \<Rightarrow> response relay_prog" where
  "ibc_packet_receive A self time relayer packet =
     on_channel A self time relayer (ep_channel_id (cp_dest packet)) (ep_channel_id (cp_dest packet))
       (\<lambda>cx. receive (ics20_protocol A) A cx packet) (\<lambda>cx. receive (ucs01_protocol A) A cx packet)"

definition ibc_packet_ack ::
  "relay_api \<Rightarrow> string \<Rightarrow> u64 \<Rightarrow> string \<Rightarrow> bytes \<Rightarrow> cw_packet \<Rightarrow> response relay_prog" where
  "ibc_packet_ack A self time relayer acknowledgement packet =
     on_channel A self time relayer (ep_channel_id (cp_src packet)) (ep_channel_id (cp_dest packet))
       (\<lambda>cx. send_ack (ics20_protocol A) A cx acknowledgement packet)
       (\<lambda>cx. send_ack (ucs01_protocol A) A cx acknowledgement packet)"

definition ibc_packet_timeout ::
  "relay_api \<Rightarrow> string \<Rightarrow> u64 \<Rightarrow> string \<Rightarrow> cw_packet \<Rightarrow> response relay_prog" where
  "ibc_packet_timeout A self time relayer packet =
     on_channel A self time relayer (ep_channel_id (cp_src packet)) (ep_channel_id (cp_dest packet))
       (\<lambda>cx. send_timeout (ics20_protocol A) A cx packet) (\<lambda>cx. send_timeout (ucs01_protocol A) A cx packet)"

section \<open>Instantiation, execution and replies\<close>

record relay_instantiate_msg =
  im_default_timeout :: u64
  im_gov_contract :: string
  im_channel :: "cw_channel option"

definition relay_instantiate :: "relay_api \<Rightarrow> string \<Rightarrow> relay_instantiate_msg \<Rightarrow> response relay_prog" where
  "relay_instantiate A self msg =
     seqp (modify (\<lambda>s. s\<lparr>rl_config := Some (im_default_timeout msg)\<rparr>)) (\<lambda>_.
     seqp (lift_result StdErr (api_addr_validate A (im_gov_contract msg))) (\<lambda>admin.
     seqp (modify (\<lambda>s. s\<lparr>rl_admin := Some admin\<rparr>)) (\<lambda>_.
     case im_channel msg of
       None \<Rightarrow> ret no_response
     | Some channel \<Rightarrow>
         let channel = channel\<lparr>cc_endpoint := (cc_endpoint channel)\<lparr>ep_port_id := ''wasm.'' @ self\<rparr>\<rparr> in
         seqp (lift_outcome (\<lambda>e. e) (enforce_order_and_version A channel None)) (\<lambda>_.
         seqp (save_channel channel) (\<lambda>_. ret no_response)))))"

definition register_denom :: "ibc_endpoint \<Rightarrow> string \<Rightarrow> bytes \<Rightarrow> response relay_prog" where
  "register_denom local_endpoint denom h =
     (if length h \<noteq> 21 then panic
      else
        seqp (modify (\<lambda>s. s\<lparr>rl_foreign_to_hash := (rl_foreign_to_hash s)((local_endpoint, denom) \<mapsto> h)\<rparr>)) (\<lambda>_.
        seqp (modify (\<lambda>s. s\<lparr>rl_hash_to_foreign := (rl_hash_to_foreign s)((local_endpoint, h) \<mapsto> denom)\<rparr>)) (\<lambda>_.
        ret no_response)))"

definition relay_execute ::
  "relay_api \<Rightarrow> string \<Rightarrow> u64 \<Rightarrow> string \<Rightarrow> coin list \<Rightarrow> execute_msg \<Rightarrow> response relay_prog" where
  "relay_execute A self time sender funds msg =
     (case msg of
        Transfer msg \<Rightarrow> execute_transfer A self time sender funds msg
      | UpdateAdmin admin \<Rightarrow>
          seqp (lift_result StdErr (api_addr_validate A admin)) (\<lambda>admin.
          seqp (asks rl_admin) (\<lambda>current.
          seqp (lift_result AdminErr (api_update_admin A current sender (Some admin))) (\<lambda>new.
          seqp (modify (\<lambda>s. s\<lparr>rl_admin := new\<rparr>)) (\<lambda>_. ret no_response))))
      | RegisterDenom local_endpoint denom h \<Rightarrow>
          if sender \<noteq> self then raise Unauthorized else register_denom local_endpoint denom h
      | BatchExecute msgs \<Rightarrow>
          if sender \<noteq> self then raise Unauthorized
          else ret (no_response\<lparr>rs_messages := map plain_msg msgs\<rparr>))"

definition hop_event :: "in_flight_packet \<Rightarrow> u64 \<Rightarrow> cw_event" where
  "hop_event p sent_sequence =
     (''packet_forward_hop'',
      [(''recv_sequence'', show_u64 (cp_sequence (if_origin_packet p))),
       (''dest_channel'', if_forward_src_channel_id p),
       (''dest_port'', if_forward_src_port_id p),
       (''sent_sequence'', show_u64 sent_sequence),
       (''src_channel'', ep_channel_id (cp_src (if_origin_packet p))),
       (''src_port'', ep_port_id (cp_src (if_origin_packet p)))])"

definition relay_reply :: "relay_api \<Rightarrow> nat \<Rightarrow> bytes \<Rightarrow> sub_msg_result \<Rightarrow> response relay_prog" where
  \<comment> \<open>the id and the payload of the message and what came of it\<close>
  "relay_reply A i payload result =
     (case result of
        SubErr err \<Rightarrow>
          if i = pr_receive_reply_id (ics20_protocol A) then
            ret (receive_error (ics20_protocol A) (api_debug_string A err))
          else if i = pr_receive_reply_id (ucs01_protocol A) then
            ret (receive_error (ucs01_protocol A) (api_debug_string A err))
          else if i = IBC_SEND_ID then
            if payload = [] then raise (PfmSendPacketError err)
            else
              seqp (unwrap_result (api_in_flight_of_json A payload)) (\<lambda>p.
              if if_origin_protocol_version p = pr_version (ucs01_protocol A) then
                ret (receive_error (ucs01_protocol A) (api_debug_string A err))
              else if if_origin_protocol_version p = pr_version (ics20_protocol A) then
                ret (receive_error (ics20_protocol A) (api_debug_string A err))
              else panic)
          else raise (UnknownReply i result)
      | SubOk response \<Rightarrow>
          if i = IBC_SEND_ID then
            if payload = [] then ret no_response
            else
              seqp (unwrap response) (\<lambda>sequence.
              seqp (unwrap_result (api_in_flight_of_json A payload)) (\<lambda>p.
              seqp (modify (\<lambda>s. s\<lparr>rl_in_flight := (rl_in_flight s)
                ((if_forward_src_channel_id p, if_forward_src_port_id p, sequence) \<mapsto> p)\<rparr>)) (\<lambda>_.
              ret (no_response\<lparr>rs_events := [hop_event p sequence]\<rparr>))))
          else raise (UnknownReply i result))"

end
