(* ===== verification/Ucs01_Chain.thy ===== *)
theory Ucs01_Chain imports Ucs01_Contract begin

text \<open>
  The chain around the token transfer contract: the bank, the token factory and the IBC module are
  the parameter \<open>ledger\<close>, and the dispatch of a response's messages, with the rollback of one that
  fails and the call of the contract's reply, is the one CosmWasm documents. A transaction of a user
  or of a relayer is the function \<open>relay_tx\<close>, the life of the contract the relation \<open>relay_step\<close>.
\<close>

section \<open>The ledger\<close>

record 'b ledger =
  lg_balance :: "'b \<Rightarrow> string \<Rightarrow> string \<Rightarrow> nat" \<comment> \<open>of an address in a denomination\<close>
  lg_exists :: "'b \<Rightarrow> string \<Rightarrow> bool" \<comment> \<open>the denominations there are\<close>
  lg_send :: "'b \<Rightarrow> string \<Rightarrow> string \<Rightarrow> coin list \<Rightarrow> string + 'b"
  lg_create :: "'b \<Rightarrow> string \<Rightarrow> string \<Rightarrow> string + 'b"
  lg_mint :: "'b \<Rightarrow> string \<Rightarrow> string \<Rightarrow> nat \<Rightarrow> string \<Rightarrow> string + 'b"
  lg_burn :: "'b \<Rightarrow> string \<Rightarrow> string \<Rightarrow> nat \<Rightarrow> string \<Rightarrow> string + 'b"
  lg_send_packet :: "'b \<Rightarrow> string \<Rightarrow> string \<Rightarrow> bytes \<Rightarrow> cw_timeout \<Rightarrow> string + u64 \<times> 'b"
  lg_deferred_ack :: "'b \<Rightarrow> string \<Rightarrow> deferred_packet_info \<Rightarrow> bytes \<Rightarrow> string + 'b"
  lg_execute :: "'b \<Rightarrow> string \<Rightarrow> string \<Rightarrow> execute_msg \<Rightarrow> coin list \<Rightarrow> string + 'b" \<comment> \<open>another contract\<close>
  lg_error :: "contract_error option \<Rightarrow> string" \<comment> \<open>what a reply is told; nothing for a panic\<close>

record 'b world =
  wd_relay :: relay
  wd_ledger :: 'b

definition amt :: "coin list \<Rightarrow> string \<Rightarrow> nat" where
  \<comment> \<open>what a list of coins holds of a denomination\<close>
  "amt cs d = sum_list (map snd (filter (\<lambda>c. fst c = d) cs))"

section \<open>Dispatch\<close>

type_synonym 'b run = "'b world \<Rightarrow> string + bytes option \<times> 'b world"

fun run_list ::
  "(cw_msg \<Rightarrow> 'b world \<Rightarrow> string + u64 option \<times> 'b world) \<Rightarrow>
   (nat \<Rightarrow> bytes \<Rightarrow> sub_msg_result \<Rightarrow> 'b run) \<Rightarrow> sub_msg list \<Rightarrow> bytes option \<Rightarrow> 'b run" where
  \<comment> \<open>one after the other; what a failing message wrote is dropped, and its error is the end unless
      the contract asked for a reply, whose data replaces that of the response\<close>
  "run_list exec rep [] data w = Inr (data, w)"
| "run_list exec rep (sub # subs) data w =
     (case exec (sm_msg sub) w of
        Inl err \<Rightarrow>
          if sm_reply_on sub = ReplyNever then Inl err
          else
            (case rep (sm_id sub) (sm_payload sub) (SubErr err) w of
               Inl err' \<Rightarrow> Inl err'
             | Inr (d, w') \<Rightarrow> run_list exec rep subs (if d = None then data else d) w')
      | Inr (sequence, w') \<Rightarrow>
          if sm_reply_on sub \<noteq> ReplyAlways then run_list exec rep subs data w'
          else
            (case rep (sm_id sub) (sm_payload sub) (SubOk sequence) w' of
               Inl err \<Rightarrow> Inl err
             | Inr (d, w'') \<Rightarrow> run_list exec rep subs (if d = None then data else d) w''))"

definition call_reply ::
  "relay_api \<Rightarrow> 'b ledger \<Rightarrow> nat \<Rightarrow> bytes \<Rightarrow> sub_msg_result \<Rightarrow> 'b run" where
  \<comment> \<open>the replies of this contract have no messages\<close>
  "call_reply A L i payload result w =
     (case relay_reply A i payload result (wd_relay w) of
        (Ok r, s) \<Rightarrow> Inr (rs_data r, w\<lparr>wd_relay := s\<rparr>)
      | (Err e, _) \<Rightarrow> Inl (lg_error L (Some e))
      | (Panic, _) \<Rightarrow> Inl (lg_error L None))"

definition on_ledger :: "'b world \<Rightarrow> string + 'b \<Rightarrow> string + u64 option \<times> 'b world" where
  "on_ledger w r = map_sum (\<lambda>e. e) (\<lambda>b. (None, w\<lparr>wd_ledger := b\<rparr>)) r"

primrec run_msg ::
  "relay_api \<Rightarrow> 'b ledger \<Rightarrow> string \<Rightarrow> u64 \<Rightarrow> nat \<Rightarrow> cw_msg \<Rightarrow> 'b world \<Rightarrow>
   string + u64 option \<times> 'b world" where
  \<comment> \<open>a message of the contract, its own calls of itself to the given depth\<close>
  "run_msg A L self time 0 m w = Inl []"
| "run_msg A L self time (Suc n) m w =
     (let b = wd_ledger w in
      case m of
        BankSend to cs \<Rightarrow> on_ledger w (lg_send L b self to cs)
      | CreateDenom sub \<Rightarrow> on_ledger w (lg_create L b self sub)
      | MintTokens denom amount to \<Rightarrow> on_ledger w (lg_mint L b self denom amount to)
      | BurnTokens denom amount from_addr \<Rightarrow> on_ledger w (lg_burn L b self denom amount from_addr)
      | WriteDeferredAck sender info ack \<Rightarrow> on_ledger w (lg_deferred_ack L b sender info ack)
      | SendPacket channel data timeout \<Rightarrow>
          map_sum (\<lambda>e. e) (\<lambda>(sequence, b'). (Some sequence, w\<lparr>wd_ledger := b'\<rparr>))
            (lg_send_packet L b self channel data timeout)
      | WasmExecute contract msg funds \<Rightarrow>
          if contract \<noteq> self then on_ledger w (lg_execute L b self contract msg funds)
          else
            (case relay_execute A self time self funds msg (wd_relay w) of
               (Ok r, s) \<Rightarrow>
                 map_sum (\<lambda>e. e) (\<lambda>(_, w'). (None, w'))
                   (run_list (run_msg A L self time n) (call_reply A L) (rs_messages r) None
                     (w\<lparr>wd_relay := s\<rparr>))
             | (Err e, _) \<Rightarrow> Inl (lg_error L (Some e))
             | (Panic, _) \<Rightarrow> Inl (lg_error L None)))"

definition dispatch :: "relay_api \<Rightarrow> 'b ledger \<Rightarrow> string \<Rightarrow> u64 \<Rightarrow> response \<Rightarrow> 'b run" where
  \<comment> \<open>the contract calls itself with a batch and a batch with a registration: two levels\<close>
  "dispatch A L self time r w =
     run_list (run_msg A L self time 2) (call_reply A L) (rs_messages r) (rs_data r) w"

section \<open>Transactions\<close>

datatype relay_event =
    UserExecute string "coin list" execute_msg
  | PacketReceive string cw_packet
  | PacketAck string bytes cw_packet
  | PacketTimeout string cw_packet
  | ChannelConnect cw_channel "string option"

definition entry_point :: "relay_api \<Rightarrow> string \<Rightarrow> u64 \<Rightarrow> relay_event \<Rightarrow> response relay_prog" where
  "entry_point A self time ev =
     (case ev of
        UserExecute sender funds msg \<Rightarrow> relay_execute A self time sender funds msg
      | PacketReceive relayer packet \<Rightarrow> ibc_packet_receive A self time relayer packet
      | PacketAck relayer ack packet \<Rightarrow> ibc_packet_ack A self time relayer ack packet
      | PacketTimeout relayer packet \<Rightarrow> ibc_packet_timeout A self time relayer packet
      | ChannelConnect channel version \<Rightarrow> ibc_channel_connect A channel version)"

definition pay_funds :: "'b ledger \<Rightarrow> string \<Rightarrow> relay_event \<Rightarrow> 'b \<Rightarrow> string + 'b" where
  \<comment> \<open>the funds of a call are the contract's before it runs\<close>
  "pay_funds L self ev b =
     (case ev of UserExecute sender funds msg \<Rightarrow> lg_send L b sender self funds | _ \<Rightarrow> Inr b)"

definition relay_tx :: "relay_api \<Rightarrow> 'b ledger \<Rightarrow> string \<Rightarrow> u64 \<Rightarrow> relay_event \<Rightarrow> 'b run" where
  \<comment> \<open>a failure leaves the world as it was\<close>
  "relay_tx A L self time ev w =
     (case pay_funds L self ev (wd_ledger w) of
        Inl e \<Rightarrow> Inl e
      | Inr b \<Rightarrow>
          (case entry_point A self time ev (wd_relay w) of
             (Ok r, s) \<Rightarrow> dispatch A L self time r \<lparr>wd_relay = s, wd_ledger = b\<rparr>
           | (Err e, _) \<Rightarrow> Inl (lg_error L (Some e))
           | (Panic, _) \<Rightarrow> Inl (lg_error L None)))"

text \<open>
  The types of a transaction: a coin is a \<^verbatim>\<open>Uint128\<close> and a fee too; the contract signs no
  transaction, and the host opens channels on the contract's own port.
\<close>

definition own_port :: "string \<Rightarrow> string" where
  "own_port self = ''wasm.'' @ self"

definition wf_fees :: "fees option \<Rightarrow> bool" where
  "wf_fees fees \<longleftrightarrow> (\<forall>m d n. fees = Some m \<longrightarrow> m d = Some n \<longrightarrow> n \<le> u128_max)"

definition wf_event :: "string \<Rightarrow> relay_event \<Rightarrow> bool" where
  "wf_event self ev =
     (case ev of
        UserExecute sender funds msg \<Rightarrow>
          sender \<noteq> self \<and> list_all (\<lambda>c. snd c \<le> u128_max) funds \<and>
          (case msg of Transfer m \<Rightarrow> wf_fees (tm_fees m) | _ \<Rightarrow> True)
      | ChannelConnect channel _ \<Rightarrow> ep_port_id (cc_endpoint channel) = own_port self
      | _ \<Rightarrow> True)"

text \<open>
  What the rest of the chain does between the contract's transactions: it takes nothing from the
  contract, and names no denomination as the contract names its own or those of its port.
\<close>

definition others_name :: "string \<Rightarrow> string \<Rightarrow> bool" where
  "others_name self d \<longleftrightarrow>
     strip_prefix (factory_denom self []) d = None \<and> strip_prefix (own_port self @ ''/'') d = None"

definition others_act :: "'b ledger \<Rightarrow> string \<Rightarrow> 'b \<Rightarrow> 'b \<Rightarrow> bool" where
  "others_act L self b b' \<longleftrightarrow>
     (\<forall>d. lg_balance L b self d \<le> lg_balance L b' self d) \<and>
     (\<forall>d. lg_exists L b' d \<longrightarrow> lg_exists L b d \<or> others_name self d)"

inductive relay_step :: "relay_api \<Rightarrow> 'b ledger \<Rightarrow> string \<Rightarrow> 'b world \<Rightarrow> 'b world \<Rightarrow> bool"
  for A L self where
  step_tx: "wf_event self ev \<Longrightarrow> relay_tx A L self time ev w = Inr (data, w') \<Longrightarrow> relay_step A L self w w'"
| step_others: "others_act L self (wd_ledger w) b \<Longrightarrow> relay_step A L self w (w\<lparr>wd_ledger := b\<rparr>)"

definition relay_start :: "relay_api \<Rightarrow> 'b ledger \<Rightarrow> string \<Rightarrow> 'b world \<Rightarrow> bool" where
  \<comment> \<open>the contract was instantiated, on a chain where no denomination bears its name\<close>
  "relay_start A L self w \<longleftrightarrow>
     (\<exists>msg r. relay_instantiate A self msg empty_relay = (Ok r, wd_relay w)) \<and>
     (\<forall>d. lg_exists L (wd_ledger w) d \<longrightarrow> others_name self d)"

inductive relay_reachable :: "relay_api \<Rightarrow> 'b ledger \<Rightarrow> string \<Rightarrow> 'b world \<Rightarrow> bool" for A L self where
  reach_start: "relay_start A L self w \<Longrightarrow> relay_reachable A L self w"
| reach_step: "relay_reachable A L self w \<Longrightarrow> relay_step A L self w w' \<Longrightarrow> relay_reachable A L self w'"

inductive_simps relay_step_iff: "relay_step A L self w w'"

lemma relay_reply_messages: "relay_reply A i payload result s = (Ok r, s') \<Longrightarrow> rs_messages r = []"
  by (auto simp: relay_reply_def receive_error_def no_response_def prog_ok
      split: sub_msg_result.splits if_splits)

section \<open>The laws\<close>

locale ledger_laws =
  fixes L :: "'b ledger"
  assumes send_balance:
      "lg_send L b f t cs = Inr b' \<Longrightarrow>
       lg_balance L b' a d + (if a = f then amt cs d else 0) = lg_balance L b a d + (if a = t then amt cs d else 0)"
    and send_exists: "lg_send L b f t cs = Inr b' \<Longrightarrow> lg_exists L b' d = lg_exists L b d"
    and send_known: "lg_send L b f t cs = Inr b' \<Longrightarrow> (d, n) \<in> set cs \<Longrightarrow> 0 < n \<Longrightarrow> lg_exists L b d"
    and create_balance: "lg_create L b c x = Inr b' \<Longrightarrow> lg_balance L b' a d = lg_balance L b a d"
    and create_exists:
      "lg_create L b c x = Inr b' \<Longrightarrow> lg_exists L b' d \<longleftrightarrow> lg_exists L b d \<or> d = factory_denom c x"
    and mint_balance:
      "lg_mint L b c e n t = Inr b' \<Longrightarrow>
       lg_balance L b' a d = lg_balance L b a d + (if a = t \<and> d = e then n else 0)"
    and mint_exists: "lg_mint L b c e n t = Inr b' \<Longrightarrow> lg_exists L b' d = lg_exists L b d"
    and burn_balance:
      "lg_burn L b c e n f = Inr b' \<Longrightarrow>
       lg_balance L b' a d + (if a = f \<and> d = e then n else 0) = lg_balance L b a d"
    and burn_exists: "lg_burn L b c e n f = Inr b' \<Longrightarrow> lg_exists L b' d = lg_exists L b d"
    and packet_balance: "lg_send_packet L b c ch bs tmo = Inr (q, b') \<Longrightarrow> lg_balance L b' a d = lg_balance L b a d"
    and packet_exists: "lg_send_packet L b c ch bs tmo = Inr (q, b') \<Longrightarrow> lg_exists L b' d = lg_exists L b d"
    and ack_balance: "lg_deferred_ack L b c i bs = Inr b' \<Longrightarrow> lg_balance L b' a d = lg_balance L b a d"
    and ack_exists: "lg_deferred_ack L b c i bs = Inr b' \<Longrightarrow> lg_exists L b' d = lg_exists L b d"
    and balance_bound: "lg_balance L b a d < 2 ^ 256"

locale relay_laws =
  fixes A :: relay_api and self :: string
  assumes hex_roundtrip: "api_hex_decode A (api_hex A b) = Some b"
    and coins_distinct: "api_coins A cs = Some cs' \<Longrightarrow> distinct (map fst cs')"
    and coins_subset: "api_coins A cs = Some cs' \<Longrightarrow> set cs' \<subseteq> set cs"
    and coins_nonzero: "api_coins A cs = Some cs' \<Longrightarrow> (d, n) \<in> set cs' \<Longrightarrow> 0 < n"
    and ics20_amount: "api_ics20_packet_of_json A b = Inr p \<Longrightarrow> ip_amount p \<le> u128_max"
    and memo_fees: "api_memo_of_json A s = Inr (MemoForward f) \<Longrightarrow> wf_fees (pf_fees f)"
    and self_normal: "api_addr_canonicalize A self = Inr b \<Longrightarrow> api_addr_humanize A b = Inr a \<Longrightarrow> a = self"

end
