(* ===== verification/Ucs01_Escrow.thy ===== *)
theory Ucs01_Escrow imports Ucs01_Chain begin

text \<open>
  The accounts of the token transfer contract: what it has escrowed of a denomination over all
  channels, and how each operation on tokens changes it, with what the messages it answers with
  take from and bring to the contract.
\<close>

section \<open>What is escrowed\<close>

definition outstanding :: "relay \<Rightarrow> string \<times> string \<Rightarrow> nat" where
  "outstanding s k = (case rl_channel_state s k of None \<Rightarrow> 0 | Some n \<Rightarrow> n)"

definition escrowed :: "relay \<Rightarrow> string \<Rightarrow> nat" where
  "escrowed s d = (\<Sum>k \<in> {k \<in> dom (rl_channel_state s). snd k = d}. outstanding s k)"

abbreviation book :: "relay \<Rightarrow> (string \<times> string) set" where
  "book s \<equiv> dom (rl_channel_state s)"

abbreviation set_outstanding :: "relay \<Rightarrow> string \<times> string \<Rightarrow> nat \<Rightarrow> relay" where
  "set_outstanding s k n \<equiv> s\<lparr>rl_channel_state := (rl_channel_state s)(k \<mapsto> n)\<rparr>"

lemma outstanding_le_escrowed: "finite (book s) \<Longrightarrow> outstanding s (c, d) \<le> escrowed s d"
proof (cases "(c, d) \<in> book s")
  case True
  then show "finite (book s) \<Longrightarrow> outstanding s (c, d) \<le> escrowed s d"
    unfolding escrowed_def by (intro member_le_sum) auto
next
  case False
  then show ?thesis by (simp add: outstanding_def domIff)
qed

lemma escrowed_set:
  assumes "finite (book s)"
  shows "escrowed (set_outstanding s (c, d) n) e + (if e = d then outstanding s (c, d) else 0) =
    escrowed s e + (if e = d then n else 0)"
proof (cases "e = d")
  case True
  let ?K = "{k \<in> book s. snd k = d}" and ?s = "set_outstanding s (c, d) n"
  have K: "{k \<in> book ?s. snd k = d} = insert (c, d) (?K - {(c, d)})" by auto
  have "escrowed ?s d = outstanding ?s (c, d) + sum (outstanding ?s) (?K - {(c, d)})"
    unfolding escrowed_def K using assms by (intro sum.insert) auto
  also have "sum (outstanding ?s) (?K - {(c, d)}) = sum (outstanding s) (?K - {(c, d)})"
    by (intro sum.cong) (auto simp: outstanding_def)
  also have "outstanding ?s (c, d) = n" by (simp add: outstanding_def)
  finally have new: "escrowed ?s d = n + sum (outstanding s) (?K - {(c, d)})" .
  have "escrowed s d = outstanding s (c, d) + sum (outstanding s) (?K - {(c, d)})"
  proof (cases "(c, d) \<in> book s")
    case True
    then show ?thesis unfolding escrowed_def using assms by (intro sum.remove) auto
  next
    case False
    then have "?K - {(c, d)} = ?K" "outstanding s (c, d) = 0" by (auto simp: outstanding_def domIff)
    then show ?thesis by (simp add: escrowed_def)
  qed
  with new True show ?thesis by simp
next
  case False
  then have "escrowed (set_outstanding s (c, d) n) e = escrowed s e"
    unfolding escrowed_def by (intro sum.cong) (auto simp: outstanding_def)
  with False show ?thesis by simp
qed

text \<open>Changes of the book alone: amounts released from it, and amounts locked in it.\<close>

definition book_only :: "relay \<Rightarrow> relay \<Rightarrow> bool" where
  "book_only s s' \<longleftrightarrow> s' = s\<lparr>rl_channel_state := rl_channel_state s'\<rparr>"

definition released :: "relay \<Rightarrow> relay \<Rightarrow> (string \<Rightarrow> nat) \<Rightarrow> bool" where
  "released s s' f \<longleftrightarrow> book_only s s' \<and> book s' = book s \<and> (\<forall>e. escrowed s' e + f e = escrowed s e)"

definition locked :: "relay \<Rightarrow> relay \<Rightarrow> (string \<times> string) set \<Rightarrow> (string \<Rightarrow> nat) \<Rightarrow> bool" where
  "locked s s' K f \<longleftrightarrow> book_only s s' \<and> book s' = book s \<union> K \<and> (\<forall>e. escrowed s' e = escrowed s e + f e)"

definition shrunk :: "relay \<Rightarrow> relay \<Rightarrow> bool" where
  "shrunk s s' \<longleftrightarrow> book_only s s' \<and> book s' = book s \<and> (\<forall>e. escrowed s' e \<le> escrowed s e)"

lemma book_only_trans: "book_only s s' \<Longrightarrow> book_only s' s'' \<Longrightarrow> book_only s s''"
  unfolding book_only_def by (metis relay.update_convs(4) relay.cases_scheme)

lemma book_only_refl [simp]: "book_only s s"
  by (simp add: book_only_def)

lemma released_refl: "released s s (\<lambda>_. 0)"
  by (simp add: released_def)

lemma locked_refl: "locked s s {} (\<lambda>_. 0)"
  by (simp add: locked_def)

lemma released_trans:
  "released s s' f \<Longrightarrow> released s' s'' g \<Longrightarrow> released s s'' (\<lambda>e. f e + g e)"
  unfolding released_def by (metis (no_types, lifting) book_only_trans add.assoc add.commute)

lemma locked_trans:
  "locked s s' K f \<Longrightarrow> locked s' s'' K' g \<Longrightarrow> locked s s'' (K \<union> K') (\<lambda>e. f e + g e)"
  unfolding locked_def by (auto intro: book_only_trans simp: Un_assoc)

lemma released_shrunk: "released s s' f \<Longrightarrow> shrunk s s'"
  unfolding released_def shrunk_def by (metis le_add1)

lemma shrunk_refl: "shrunk s s"
  by (simp add: shrunk_def)

lemma shrunk_trans: "shrunk s s' \<Longrightarrow> shrunk s' s'' \<Longrightarrow> shrunk s s''"
  unfolding shrunk_def by (auto intro: book_only_trans order.trans)

lemma decrease_Ok:
  assumes "decrease_outstanding c d n s = (Ok u, s')" "finite (book s)"
  shows "released s s' (\<lambda>e. if e = d then n else 0)" "(c, d) \<in> book s"
proof -
  from assms(1) obtain m where m: "rl_channel_state s (c, d) = Some m" "n \<le> m"
    and s': "s' = set_outstanding s (c, d) (m - n)"
    by (auto simp: decrease_outstanding_def update_outstanding_def split: outcome.splits option.splits if_splits)
  have "escrowed s' e + (if e = d then n else 0) = escrowed s e" for e
    using escrowed_set [OF assms(2), of c d "m - n" e] m
      outstanding_le_escrowed [OF assms(2), of c d]
    by (auto simp: s' outstanding_def split: if_splits)
  with m show "released s s' (\<lambda>e. if e = d then n else 0)" "(c, d) \<in> book s"
    by (auto simp: released_def book_only_def s')
qed

lemma decrease_not_Ok:
  "decrease_outstanding c d n s = (r, s') \<Longrightarrow> r \<noteq> Ok () \<Longrightarrow> s' = s"
  by (auto simp: decrease_outstanding_def update_outstanding_def split: outcome.splits option.splits if_splits)

lemma decrease_shrinks:
  assumes d: "decrease_outstanding c d n s = (r, s')" and fin: "finite (book s)"
  shows "shrunk s s'"
proof (cases "r = Ok ()")
  case True
  with d have "released s s' (\<lambda>e. if e = d then n else 0)" using decrease_Ok(1) fin by blast
  then show ?thesis by (rule released_shrunk)
next
  case False
  then show ?thesis using decrease_not_Ok [OF d] by (simp add: shrunk_refl)
qed

lemma increase_Ok:
  assumes "increase_outstanding c d n s = (Ok u, s')" "finite (book s)"
  shows "locked s s' {(c, d)} (\<lambda>e. if e = d then n else 0)"
proof -
  from assms(1) have s': "s' = set_outstanding s (c, d) (outstanding s (c, d) + n)"
    by (auto simp: increase_outstanding_def update_outstanding_def outstanding_def Let_def
        split: outcome.splits option.splits if_splits)
  have "escrowed s' e = escrowed s e + (if e = d then n else 0)" for e
    using escrowed_set [OF assms(2), of c d "outstanding s (c, d) + n" e]
    by (auto simp: s' split: if_splits)
  then show ?thesis by (auto simp: locked_def book_only_def s')
qed

lemma increase_fits:
  "outstanding s (c, d) + n \<le> u512_max \<Longrightarrow>
   increase_outstanding c d n s = (Ok (), set_outstanding s (c, d) (outstanding s (c, d) + n))"
  by (auto simp: increase_outstanding_def update_outstanding_def outstanding_def Let_def split: option.splits)

end
