(* ===== verification/Ucs01_Moves.thy ===== *)
theory Ucs01_Moves imports Ucs01_Escrow begin

text \<open>
  What the operations on tokens do to the accounts: for each list of tokens what is released from
  escrow or locked in it, and what the messages of the answer take from the contract's own account
  and bring to it.
\<close>

section \<open>What messages move\<close>

fun taken :: "string \<Rightarrow> string \<Rightarrow> cw_msg \<Rightarrow> nat" where
  "taken self e (BankSend to cs) = (if to = self then 0 else amt cs e)"
| "taken self e (BurnTokens d n from_addr) = (if from_addr = self \<and> d = e then n else 0)"
| "taken self e _ = 0"

fun brought :: "string \<Rightarrow> string \<Rightarrow> cw_msg \<Rightarrow> nat" where
  "brought self e (MintTokens d n to) = (if to = self \<and> d = e then n else 0)"
| "brought self e _ = 0"

abbreviation taken_all :: "string \<Rightarrow> string \<Rightarrow> cw_msg list \<Rightarrow> nat" where
  "taken_all self e ms \<equiv> sum_list (map (taken self e) ms)"

abbreviation brought_all :: "string \<Rightarrow> string \<Rightarrow> cw_msg list \<Rightarrow> nat" where
  "brought_all self e ms \<equiv> sum_list (map (brought self e) ms)"

fun own_msg :: "relay_api \<Rightarrow> string \<Rightarrow> cw_msg \<Rightarrow> bool" where
  \<comment> \<open>the messages the contract makes, a batch apart\<close>
  "own_msg A self (CreateDenom sub) \<longleftrightarrow> (\<exists>h. sub = ''0x'' @ api_hex A h)"
| "own_msg A self (WasmExecute c m fs) \<longleftrightarrow>
     c = self \<and> fs = [] \<and> (\<exists>ep d. m = RegisterDenom ep d (hash_denom A d))"
| "own_msg A self _ \<longleftrightarrow> True"

lemma amt_simps [simp]:
  "amt [] d = 0" "amt ((e, n) # cs) d = (if e = d then n else 0) + amt cs d"
  by (simp_all add: amt_def)

lemma taken_nonzero [simp]:
  "taken_all self e (nonzero n (BankSend to [(d, n)])) = (if to \<noteq> self \<and> e = d then n else 0)"
  "brought_all self e (nonzero n (BankSend to [(d, n)])) = 0"
  "taken_all self e (nonzero n (MintTokens d n to)) = 0"
  "brought_all self e (nonzero n (MintTokens d n to)) = (if to = self \<and> e = d then n else 0)"
  by (auto simp: nonzero_def)

lemma list_all_nonzero [simp]: "P m \<Longrightarrow> list_all P (nonzero n m)"
  by (simp add: nonzero_def)

section \<open>Loops over programs\<close>

lemma mapp_relates:
  assumes refl: "\<And>s. Q s s" and trans: "\<And>s s' s''. Q s s' \<Longrightarrow> Q s' s'' \<Longrightarrow> Q s s''"
    and step: "\<And>x s r s'. f x s = (r, s') \<Longrightarrow> Q s s'"
  shows "mapp f xs s = (r, s') \<Longrightarrow> Q s s'"
proof (induction xs arbitrary: s r s')
  case Nil
  then show ?case by (simp add: refl)
next
  case (Cons x xs)
  obtain r1 s1 where x: "f x s = (r1, s1)" by fastforce
  obtain r2 s2 where xs: "mapp f xs s1 = (r2, s2)" by fastforce
  have "Q s s1" "Q s1 s2" using step [OF x] Cons.IH [OF xs] by auto
  with Cons.prems x xs show ?case
    by (cases r1; cases r2) (auto intro: trans)
qed

lemma mapp_Cons_Ok:
  "mapp f (x # xs) s = (Ok ys, s') \<longleftrightarrow>
   (\<exists>y zs s1. f x s = (Ok y, s1) \<and> mapp f xs s1 = (Ok zs, s') \<and> ys = y # zs)"
  by (auto simp: prog_ok)

section \<open>Receiving\<close>

definition unescrowed :: "ibc_endpoint \<Rightarrow> string \<Rightarrow> transfer_token \<Rightarrow> nat" where
  "unescrowed cp e t =
     (case denom_origin (tk_denom t) cp of Local d \<Rightarrow> if e = d then tk_amount t else 0 | Remote _ \<Rightarrow> 0)"

definition coin_of :: "normalized_transfer_token \<Rightarrow> coin" where
  "coin_of t = (tk_denom (ntk_token t), tk_amount (ntk_token t))"

lemma receive_token_shrinks:
  assumes "receive_token A self ep cp rcv rel cf t s = (r, s')" "finite (book s)"
  shows "shrunk s s'"
proof (cases "fst ((if cf then lift_outcome Arithmetic (amounts t) else ret (tk_amount t, 0)) s)")
  case (Ok x)
  then obtain a f where af: "(if cf then lift_outcome Arithmetic (amounts t) else ret (tk_amount t, 0)) s = (Ok (a, f), s)"
    by (cases x; cases "amounts t") (auto split: if_splits)
  show ?thesis
  proof (cases "denom_origin (tk_denom t) cp")
    case (Local d)
    obtain r1 s1 where d: "decrease_outstanding (ep_channel_id ep) d (tk_amount t) s = (r1, s1)" by fastforce
    have "shrunk s s1" using decrease_shrinks [OF d assms(2)] .
    with assms(1) af d Local show ?thesis
      by (cases r1) (auto simp: receive_token_def)
  next
    case (Remote d)
    with assms(1) af show ?thesis
      by (auto simp: receive_token_def foreign_toggle_def Let_def shrunk_refl)
  qed
next
  case (Err e)
  then have "(if cf then lift_outcome Arithmetic (amounts t) else ret (tk_amount t, 0)) s = (Err e, s)"
    by (cases "amounts t") (auto split: if_splits)
  with assms(1) show ?thesis by (auto simp: receive_token_def shrunk_refl)
next
  case Panic
  then have "(if cf then lift_outcome Arithmetic (amounts t) else ret (tk_amount t, 0)) s = (Panic, s)"
    by (cases "amounts t") (auto split: if_splits)
  with assms(1) show ?thesis by (auto simp: receive_token_def shrunk_refl)
qed

lemma receive_token_Ok:
  assumes "receive_token A self ep cp rcv rel cf t s = (Ok (nt, ms), s')" "finite (book s)"
  shows "released s s' (\<lambda>e. unescrowed cp e t)"
    and "taken_all self e ms \<le> unescrowed cp e t"
    and "list_all (own_msg A self) ms"
    and "\<not> cf \<Longrightarrow> rcv = self \<Longrightarrow>
      taken_all self e ms = 0 \<and> unescrowed cp e t + brought_all self e ms = amt [coin_of nt] e"
    and "tk_amount (ntk_token nt) = tk_amount t"
    and "(\<exists>x. tk_denom (ntk_token nt) = factory_denom self (''0x'' @ api_hex A x)) \<or>
      (ep_channel_id ep, tk_denom (ntk_token nt)) \<in> book s"
proof -
  from assms(1) obtain a f where af: "(if cf then amounts t = Ok (a, f) else a = tk_amount t \<and> f = 0)"
    and rest: "(case denom_origin (tk_denom t) cp of
       Local denom \<Rightarrow>
         seqp (decrease_outstanding (ep_channel_id ep) denom (tk_amount t)) (\<lambda>_.
         ret (\<lparr>ntk_origin_denom = tk_denom t, ntk_token = t\<lparr>tk_denom := denom\<rparr>\<rparr>,
              nonzero a (BankSend rcv [(denom, a)]) @ nonzero f (BankSend rel [(denom, f)])))
     | Remote denom \<Rightarrow>
         seqp (foreign_toggle A self ep (make_foreign_denom ep denom)) (\<lambda>(exists, h, register_msg).
         let n = ''0x'' @ api_hex A h; denom = factory_denom self n
         in ret (\<lparr>ntk_origin_denom = tk_denom t, ntk_token = t\<lparr>tk_denom := denom\<rparr>\<rparr>,
                 (if exists then [] else [register_msg, CreateDenom n]) @
                 nonzero a (MintTokens denom a rcv) @ nonzero f (MintTokens denom f rel)))) s = (Ok (nt, ms), s')"
    by (auto simp: receive_token_def prog_ok split: if_splits)
  have sum: "a + f = tk_amount t" using af by (auto simp: amounts_sum split: if_splits)
  have "released s s' (\<lambda>e. unescrowed cp e t) \<and> taken_all self e ms \<le> unescrowed cp e t \<and>
    list_all (own_msg A self) ms \<and>
    (\<not> cf \<longrightarrow> rcv = self \<longrightarrow>
      taken_all self e ms = 0 \<and> unescrowed cp e t + brought_all self e ms = amt [coin_of nt] e) \<and>
    tk_amount (ntk_token nt) = tk_amount t \<and>
    ((\<exists>x. tk_denom (ntk_token nt) = factory_denom self (''0x'' @ api_hex A x)) \<or>
      (ep_channel_id ep, tk_denom (ntk_token nt)) \<in> book s)"
  proof (cases "denom_origin (tk_denom t) cp")
    case (Local d)
    from rest Local have dec: "decrease_outstanding (ep_channel_id ep) d (tk_amount t) s = (Ok (), s')"
      and nt: "nt = \<lparr>ntk_origin_denom = tk_denom t, ntk_token = t\<lparr>tk_denom := d\<rparr>\<rparr>"
      and ms: "ms = nonzero a (BankSend rcv [(d, a)]) @ nonzero f (BankSend rel [(d, f)])"
      by (auto simp: prog_ok)
    show ?thesis
      using decrease_Ok [OF dec assms(2)] sum af
      by (auto simp: unescrowed_def Local nt ms coin_of_def)
  next
    case (Remote d)
    let ?n = "''0x'' @ api_hex A (hash_denom A (make_foreign_denom ep d))"
    from rest Remote have s': "s' = s"
      and nt: "nt = \<lparr>ntk_origin_denom = tk_denom t, ntk_token = t\<lparr>tk_denom := factory_denom self ?n\<rparr>\<rparr>"
      and ms: "ms = (if rl_foreign_to_hash s (ep, make_foreign_denom ep d) \<noteq> None then [] else
          [WasmExecute self (RegisterDenom ep (make_foreign_denom ep d) (hash_denom A (make_foreign_denom ep d))) [],
           CreateDenom ?n]) @
        nonzero a (MintTokens (factory_denom self ?n) a rcv) @ nonzero f (MintTokens (factory_denom self ?n) f rel)"
      by (auto simp: foreign_toggle_def Let_def)
    show ?thesis
      using sum af released_refl
      by (auto simp: unescrowed_def Remote nt ms coin_of_def s')
  qed
  then show "released s s' (\<lambda>e. unescrowed cp e t)" "taken_all self e ms \<le> unescrowed cp e t"
    "list_all (own_msg A self) ms"
    "\<not> cf \<Longrightarrow> rcv = self \<Longrightarrow>
      taken_all self e ms = 0 \<and> unescrowed cp e t + brought_all self e ms = amt [coin_of nt] e"
    "tk_amount (ntk_token nt) = tk_amount t"
    "(\<exists>x. tk_denom (ntk_token nt) = factory_denom self (''0x'' @ api_hex A x)) \<or>
      (ep_channel_id ep, tk_denom (ntk_token nt)) \<in> book s" by blast+
qed

text \<open>A list of tokens.\<close>

abbreviation unescrowed_all :: "ibc_endpoint \<Rightarrow> string \<Rightarrow> transfer_token list \<Rightarrow> nat" where
  "unescrowed_all cp e ts \<equiv> sum_list (map (unescrowed cp e) ts)"

lemma receive_phase1_shrinks:
  assumes "receive_phase1_transfer A self ep cp rcv rel ts cf s = (r, s')" "finite (book s)"
  shows "shrunk s s'"
proof -
  let ?m = "mapp (receive_token A self ep cp rcv rel cf) ts s"
  have s': "s' = snd ?m" using assms(1)
    by (cases ?m; cases "fst ?m") (auto simp: receive_phase1_transfer_def)
  have "finite (book s) \<longrightarrow> shrunk s (snd ?m)"
  proof (rule mapp_relates [where Q = "\<lambda>s s'. finite (book s) \<longrightarrow> shrunk s s'"])
    show "?m = (fst ?m, snd ?m)" by simp
    show "receive_token A self ep cp rcv rel cf x s = (r, s') \<Longrightarrow> finite (book s) \<longrightarrow> shrunk s s'" for x s r s'
      using receive_token_shrinks by blast
  qed (auto simp: shrunk_refl intro: shrunk_trans, auto simp: shrunk_def intro: book_only_trans order.trans)
  with assms(2) s' show ?thesis by simp
qed

lemma receive_tokens_Ok:
  assumes "mapp (receive_token A self ep cp rcv rel cf) ts s = (Ok rs, s')" "finite (book s)"
  shows "released s s' (\<lambda>e. unescrowed_all cp e ts) \<and>
    taken_all self e (concat (map snd rs)) \<le> unescrowed_all cp e ts \<and>
    list_all (own_msg A self) (concat (map snd rs)) \<and>
    (\<not> cf \<longrightarrow> rcv = self \<longrightarrow> taken_all self e (concat (map snd rs)) = 0 \<and>
      unescrowed_all cp e ts + brought_all self e (concat (map snd rs)) = amt (map (coin_of \<circ> fst) rs) e) \<and>
    map (tk_amount \<circ> ntk_token \<circ> fst) rs = map tk_amount ts \<and>
    (\<forall>nt \<in> set (map fst rs). (\<exists>x. tk_denom (ntk_token nt) = factory_denom self (''0x'' @ api_hex A x)) \<or>
      (ep_channel_id ep, tk_denom (ntk_token nt)) \<in> book s)"
  using assms
proof (induction ts arbitrary: s rs)
  case Nil
  then show ?case by (auto simp: released_refl)
next
  case (Cons t ts)
  from Cons.prems(1) obtain nt ms zs s1 where
    t: "receive_token A self ep cp rcv rel cf t s = (Ok (nt, ms), s1)"
    and ts: "mapp (receive_token A self ep cp rcv rel cf) ts s1 = (Ok zs, s')" and rs: "rs = (nt, ms) # zs"
    by (auto simp: prog_ok)
  note one = receive_token_Ok [OF t Cons.prems(2)]
  have book: "book s1 = book s" using one(1) by (simp add: released_def)
  have fin: "finite (book s1)" using book Cons.prems(2) by simp
  note all = Cons.IH [OF ts fin]
  have rel: "released s s' (\<lambda>e. unescrowed cp e t + unescrowed_all cp e ts)"
    using released_trans [OF one(1)] all by blast
  have "coin_of nt = (fst (coin_of nt), snd (coin_of nt))" by simp
  then have am: "amt (coin_of nt # cs) e = amt [coin_of nt] e + amt cs e" for cs
    by (metis amt_simps add.right_neutral)
  show ?case
  proof (intro conjI impI)
    assume c: "\<not> cf" "rcv = self"
    have x: "taken_all self e ms = 0" "unescrowed cp e t + brought_all self e ms = amt [coin_of nt] e"
      using one(4) [OF c] by blast+
    have y: "taken_all self e (concat (map snd zs)) = 0"
        "unescrowed_all cp e ts + brought_all self e (concat (map snd zs)) = amt (map (coin_of \<circ> fst) zs) e"
      using all c by blast+
    show "taken_all self e (concat (map snd rs)) = 0" using x(1) y(1) by (simp add: rs)
    show "unescrowed_all cp e (t # ts) + brought_all self e (concat (map snd rs)) = amt (map (coin_of \<circ> fst) rs) e"
      using x(2) y(2) am [of "map (coin_of \<circ> fst) zs"] by (simp add: rs)
  next
    show "released s s' (\<lambda>e. unescrowed_all cp e (t # ts))" using rel by simp
    have "taken_all self e (concat (map snd zs)) \<le> unescrowed_all cp e ts" using all by blast
    then show "taken_all self e (concat (map snd rs)) \<le> unescrowed_all cp e (t # ts)"
      using add_mono [OF one(2)] by (simp add: rs)
    have "list_all (own_msg A self) (concat (map snd zs))" using all by blast
    with one(3) show "list_all (own_msg A self) (concat (map snd rs))" by (simp add: rs)
    have "map (tk_amount \<circ> ntk_token \<circ> fst) zs = map tk_amount ts" using all by blast
    with one(5) show "map (tk_amount \<circ> ntk_token \<circ> fst) rs = map tk_amount (t # ts)" by (simp add: rs)
    have "\<forall>nt \<in> set (map fst zs). (\<exists>x. tk_denom (ntk_token nt) = factory_denom self (''0x'' @ api_hex A x)) \<or>
        (ep_channel_id ep, tk_denom (ntk_token nt)) \<in> book s"
      using all unfolding book by blast
    with one(6) show "\<forall>nt \<in> set (map fst rs).
        (\<exists>x. tk_denom (ntk_token nt) = factory_denom self (''0x'' @ api_hex A x)) \<or>
        (ep_channel_id ep, tk_denom (ntk_token nt)) \<in> book s"
      unfolding rs by (simp only: list.map list.set fst_conv) blast
  qed
qed

lemma receive_phase1_Ok:
  assumes "receive_phase1_transfer A self ep cp rcv rel ts cf s = (Ok (nts, ms), s')" "finite (book s)"
  shows "released s s' (\<lambda>e. unescrowed_all cp e ts)"
    and "taken_all self e ms \<le> unescrowed_all cp e ts"
    and "list_all (own_msg A self) ms"
    and "\<not> cf \<Longrightarrow> rcv = self \<Longrightarrow> taken_all self e ms = 0"
    and "\<not> cf \<Longrightarrow> rcv = self \<Longrightarrow> unescrowed_all cp e ts + brought_all self e ms = amt (map coin_of nts) e"
    and "map (tk_amount \<circ> ntk_token) nts = map tk_amount ts"
    and "nt \<in> set nts \<Longrightarrow> (\<exists>x. tk_denom (ntk_token nt) = factory_denom self (''0x'' @ api_hex A x)) \<or>
      (ep_channel_id ep, tk_denom (ntk_token nt)) \<in> book s"
proof -
  from assms(1) obtain rs where rs: "mapp (receive_token A self ep cp rcv rel cf) ts s = (Ok rs, s')"
    and nts: "nts = map fst rs" and ms: "ms = concat (map snd rs)"
    by (auto simp: receive_phase1_transfer_def prog_ok)
  note all = receive_tokens_Ok [OF rs assms(2), of e]
  show "released s s' (\<lambda>e. unescrowed_all cp e ts)" "taken_all self e ms \<le> unescrowed_all cp e ts"
    "list_all (own_msg A self) ms"
    "\<not> cf \<Longrightarrow> rcv = self \<Longrightarrow> taken_all self e ms = 0"
    "\<not> cf \<Longrightarrow> rcv = self \<Longrightarrow> unescrowed_all cp e ts + brought_all self e ms = amt (map coin_of nts) e"
    "map (tk_amount \<circ> ntk_token) nts = map tk_amount ts"
    using all by (simp_all add: nts ms comp_assoc)
  show "nt \<in> set nts \<Longrightarrow> (\<exists>x. tk_denom (ntk_token nt) = factory_denom self (''0x'' @ api_hex A x)) \<or>
      (ep_channel_id ep, tk_denom (ntk_token nt)) \<in> book s"
    using all unfolding nts by blast
qed

section \<open>Sending and refunding\<close>

definition escrows :: "ibc_endpoint \<Rightarrow> string \<Rightarrow> transfer_token \<Rightarrow> nat" where
  "escrows ep e t =
     (case denom_origin (tk_denom t) ep of Remote d \<Rightarrow> if e = d then tk_amount t else 0 | Local _ \<Rightarrow> 0)"

definition burns :: "relay_api \<Rightarrow> string \<Rightarrow> ibc_endpoint \<Rightarrow> string \<Rightarrow> transfer_token \<Rightarrow> nat" where
  "burns A self ep e t =
     (case denom_origin (tk_denom t) ep of
        Local d \<Rightarrow> if e = factory_denom self (hash_denom_str A (make_foreign_denom ep d)) then tk_amount t else 0
      | Remote _ \<Rightarrow> 0)"

definition escrow_keys :: "ibc_endpoint \<Rightarrow> transfer_token list \<Rightarrow> (string \<times> string) set" where
  "escrow_keys ep ts =
     {(ep_channel_id ep, tk_denom t) |t. t \<in> set ts \<and> denom_origin (tk_denom t) ep = Remote (tk_denom t)}"

abbreviation escrows_all :: "ibc_endpoint \<Rightarrow> string \<Rightarrow> transfer_token list \<Rightarrow> nat" where
  "escrows_all ep e ts \<equiv> sum_list (map (escrows ep e) ts)"

abbreviation burns_all :: "relay_api \<Rightarrow> string \<Rightarrow> ibc_endpoint \<Rightarrow> string \<Rightarrow> transfer_token list \<Rightarrow> nat" where
  "burns_all A self ep e ts \<equiv> sum_list (map (burns A self ep e) ts)"

lemma total_amount_Ok [prog_ok]:
  "total_amount a f s = (Ok n, s') \<longleftrightarrow> n = a + f \<and> a + f \<le> u128_max \<and> s' = s"
  by (auto simp: total_amount_def)

lemma denom_origin_cases:
  obtains (Local) x where "denom_origin d ep = Local x" "d = make_foreign_denom ep x"
    | (Remote) "denom_origin d ep = Remote d"
  by (metis origin.exhaust denom_origin_Local denom_origin_Remote)

lemma send_token_Ok:
  assumes "for_token A send_on_local (send_on_remote self) self ep t s = (Ok ms, s')" "finite (book s)"
  shows "locked s s' (escrow_keys ep [t]) (\<lambda>e. escrows ep e t)"
    and "taken_all self e ms = burns A self ep e t" and "brought_all self e ms = 0"
    and "list_all (own_msg A self) ms"
proof -
  from assms(1) obtain a f where af: "amounts t = Ok (a, f)"
    and rest: "(case denom_origin (tk_denom t) ep of
       Local denom \<Rightarrow> send_on_remote self (ep_channel_id ep)
         (factory_denom self (hash_denom_str A (make_foreign_denom ep denom))) a f
     | Remote denom \<Rightarrow> send_on_local (ep_channel_id ep) denom a f) s = (Ok ms, s')"
    by (auto simp: for_token_def prog_ok)
  have sum: "a + f = tk_amount t" using amounts_sum [OF af] .
  have "locked s s' (escrow_keys ep [t]) (\<lambda>e. escrows ep e t) \<and>
    taken_all self e ms = burns A self ep e t \<and> brought_all self e ms = 0 \<and> list_all (own_msg A self) ms"
  proof (cases rule: denom_origin_cases [of "tk_denom t" ep])
    case (Local x)
    with rest sum show ?thesis
      by (auto simp: send_on_remote_def prog_ok escrows_def burns_def escrow_keys_def locked_refl)
  next
    case Remote
    with rest sum have inc: "increase_outstanding (ep_channel_id ep) (tk_denom t) (tk_amount t) s = (Ok (), s')"
      and "ms = []"
      by (auto simp: send_on_local_def prog_ok)
    with increase_Ok [OF inc assms(2)] Remote show ?thesis
      by (simp add: escrows_def burns_def escrow_keys_def)
  qed
  then show "locked s s' (escrow_keys ep [t]) (\<lambda>e. escrows ep e t)"
    "taken_all self e ms = burns A self ep e t" "brought_all self e ms = 0" "list_all (own_msg A self) ms"
    by blast+
qed

lemma escrow_keys_Cons: "escrow_keys ep (t # ts) = escrow_keys ep [t] \<union> escrow_keys ep ts"
  by (auto simp: escrow_keys_def)

lemma finite_escrow_keys [simp]: "finite (escrow_keys ep ts)"
proof -
  have "escrow_keys ep ts \<subseteq> (\<lambda>t. (ep_channel_id ep, tk_denom t)) ` set ts" by (auto simp: escrow_keys_def)
  then show ?thesis by (rule finite_subset) simp
qed

lemma send_tokens_Ok:
  assumes "for_tokens A send_on_local (send_on_remote self) self ep ts s = (Ok ms, s')" "finite (book s)"
  shows "locked s s' (escrow_keys ep ts) (\<lambda>e. escrows_all ep e ts)"
    and "taken_all self e ms = burns_all A self ep e ts" and "brought_all self e ms = 0"
    and "list_all (own_msg A self) ms"
proof -
  let ?f = "for_token A send_on_local (send_on_remote self) self ep"
  have "mapp ?f ts s = (Ok mss, s') \<Longrightarrow> finite (book s) \<Longrightarrow>
    locked s s' (escrow_keys ep ts) (\<lambda>e. escrows_all ep e ts) \<and>
    taken_all self e (concat mss) = burns_all A self ep e ts \<and> brought_all self e (concat mss) = 0 \<and>
    list_all (own_msg A self) (concat mss)" for mss
  proof (induction ts arbitrary: s mss)
    case Nil
    then show ?case using locked_refl by (auto simp: escrow_keys_def)
  next
    case (Cons t ts)
    from Cons.prems(1) obtain y zs s1 where t: "?f t s = (Ok y, s1)"
      and ts: "mapp ?f ts s1 = (Ok zs, s')" and mss: "mss = y # zs"
      by (auto simp: prog_ok)
    note one = send_token_Ok [OF t Cons.prems(2)]
    have "finite (book s1)" using one(1) Cons.prems(2) by (simp add: locked_def)
    note all = Cons.IH [OF ts this]
    have "locked s s' (escrow_keys ep (t # ts)) (\<lambda>e. escrows ep e t + escrows_all ep e ts)"
      unfolding escrow_keys_Cons [of ep t ts] using locked_trans [OF one(1)] all by blast
    with one all show ?case by (simp add: mss)
  qed
  with assms show "locked s s' (escrow_keys ep ts) (\<lambda>e. escrows_all ep e ts)"
    "taken_all self e ms = burns_all A self ep e ts" "brought_all self e ms = 0"
    "list_all (own_msg A self) ms"
    by (auto simp: for_tokens_def prog_ok)
qed

lemma refund_token_Ok:
  assumes "for_token A (refund_on_local rcv) (refund_on_remote rcv) self ep t s = (Ok ms, s')" "finite (book s)"
  shows "released s s' (\<lambda>e. escrows ep e t)" and "taken_all self e ms \<le> escrows ep e t"
    and "list_all (own_msg A self) ms"
proof -
  from assms(1) obtain a f where af: "amounts t = Ok (a, f)"
    and rest: "(case denom_origin (tk_denom t) ep of
       Local denom \<Rightarrow> refund_on_remote rcv (ep_channel_id ep)
         (factory_denom self (hash_denom_str A (make_foreign_denom ep denom))) a f
     | Remote denom \<Rightarrow> refund_on_local rcv (ep_channel_id ep) denom a f) s = (Ok ms, s')"
    by (auto simp: for_token_def prog_ok)
  have sum: "a + f = tk_amount t" using amounts_sum [OF af] .
  have "released s s' (\<lambda>e. escrows ep e t) \<and> taken_all self e ms \<le> escrows ep e t \<and> list_all (own_msg A self) ms"
  proof (cases rule: denom_origin_cases [of "tk_denom t" ep])
    case (Local x)
    with rest show ?thesis
      by (auto simp: refund_on_remote_def prog_ok escrows_def released_refl)
  next
    case Remote
    with rest sum have dec: "decrease_outstanding (ep_channel_id ep) (tk_denom t) (tk_amount t) s = (Ok (), s')"
      and "ms = [BankSend rcv [(tk_denom t, tk_amount t)]]"
      by (auto simp: refund_on_local_def prog_ok)
    with decrease_Ok(1) [OF dec assms(2)] Remote show ?thesis
      by (simp add: escrows_def)
  qed
  then show "released s s' (\<lambda>e. escrows ep e t)" "taken_all self e ms \<le> escrows ep e t"
    "list_all (own_msg A self) ms"
    by blast+
qed

lemma refund_tokens_Ok:
  assumes "for_tokens A (refund_on_local rcv) (refund_on_remote rcv) self ep ts s = (Ok ms, s')" "finite (book s)"
  shows "released s s' (\<lambda>e. escrows_all ep e ts)" and "taken_all self e ms \<le> escrows_all ep e ts"
    and "list_all (own_msg A self) ms"
proof -
  let ?f = "for_token A (refund_on_local rcv) (refund_on_remote rcv) self ep"
  have "mapp ?f ts s = (Ok mss, s') \<Longrightarrow> finite (book s) \<Longrightarrow>
    released s s' (\<lambda>e. escrows_all ep e ts) \<and> taken_all self e (concat mss) \<le> escrows_all ep e ts \<and>
    list_all (own_msg A self) (concat mss)" for mss
  proof (induction ts arbitrary: s mss)
    case Nil
    then show ?case using released_refl by auto
  next
    case (Cons t ts)
    from Cons.prems(1) obtain y zs s1 where t: "?f t s = (Ok y, s1)"
      and ts: "mapp ?f ts s1 = (Ok zs, s')" and mss: "mss = y # zs"
      by (auto simp: prog_ok)
    note one = refund_token_Ok [OF t Cons.prems(2)]
    have "finite (book s1)" using one(1) Cons.prems(2) by (simp add: released_def)
    note all = Cons.IH [OF ts this]
    have "released s s' (\<lambda>e. escrows ep e t + escrows_all ep e ts)"
      using released_trans [OF one(1)] all by blast
    with one(3) all add_mono [OF one(2)] show ?case by (simp add: mss)
  qed
  with assms show "released s s' (\<lambda>e. escrows_all ep e ts)" "taken_all self e ms \<le> escrows_all ep e ts"
    "list_all (own_msg A self) ms"
    by (auto simp: for_tokens_def prog_ok)
qed

text \<open>Tokens are sent without an error while what is escrowed fits its integer.\<close>

lemma send_tokens_fit:
  assumes "list_all wf_token ts" "\<And>e. outstanding s (ep_channel_id ep, e) + escrows_all ep e ts \<le> u512_max"
  shows "\<exists>ms s'. for_tokens A send_on_local (send_on_remote self) self ep ts s = (Ok ms, s')"
proof -
  let ?f = "for_token A send_on_local (send_on_remote self) self ep"
  have "\<exists>mss s'. mapp ?f ts s = (Ok mss, s')"
    using assms
  proof (induction ts arbitrary: s)
    case Nil
    then show ?case by simp
  next
    case (Cons t ts)
    from Cons.prems(1) have wf: "wf_token t" "list_all wf_token ts" by simp_all
    obtain a f where af: "amounts t = Ok (a, f)" using amounts_exact [OF wf(1)] by blast
    have sum: "a + f = tk_amount t" "tk_amount t \<le> u128_max"
      using amounts_sum [OF af] wf(1) by (simp_all add: wf_token_def)
    obtain ms s1 where t: "?f t s = (Ok ms, s1)"
      and out: "\<And>e. outstanding s1 (ep_channel_id ep, e) = outstanding s (ep_channel_id ep, e) + escrows ep e t"
    proof (cases rule: denom_origin_cases [of "tk_denom t" ep])
      case (Local x)
      have "?f t s = (Ok [BurnTokens (factory_denom self (hash_denom_str A (make_foreign_denom ep x))) (tk_amount t) self], s)"
        using af Local(1) sum by (simp add: for_token_def send_on_remote_def total_amount_def)
      moreover have "escrows ep e t = 0" for e using Local(1) by (simp add: escrows_def)
      ultimately show ?thesis using that by simp
    next
      case Remote
      have "escrows ep (tk_denom t) t = tk_amount t" using Remote by (simp add: escrows_def)
      with Cons.prems(2) [of "tk_denom t"]
      have "outstanding s (ep_channel_id ep, tk_denom t) + tk_amount t \<le> u512_max" by simp
      from increase_fits [OF this] have "?f t s = (Ok [], set_outstanding s (ep_channel_id ep, tk_denom t)
          (outstanding s (ep_channel_id ep, tk_denom t) + tk_amount t))"
        using af Remote sum by (simp add: for_token_def send_on_local_def total_amount_def)
      then show ?thesis using that Remote by (auto simp: escrows_def outstanding_def)
    qed
    have "outstanding s1 (ep_channel_id ep, e) + escrows_all ep e ts \<le> u512_max" for e
      using Cons.prems(2) [of e] by (simp add: out)
    with Cons.IH wf(2) obtain mss s' where "mapp ?f ts s1 = (Ok mss, s')" by blast
    with t show ?case by simp
  qed
  then show ?thesis by (auto simp: for_tokens_def)
qed

end
