(* ===== verification/Ucs01_Transfer.thy ===== *)
theory Ucs01_Transfer imports Ucs01_Moves begin

text \<open>
  The accounts of a transfer: every coin given to the contract is either locked in escrow or burnt,
  under the denomination it was given in, because the names the contract keeps of foreign
  denominations are the hashes of them. The interface of a protocol, as far as the accounts rest on
  it, is the locale \<open>transfer_protocol\<close>, which both protocols are.
\<close>

section \<open>Names\<close>

definition canon :: "relay_api \<Rightarrow> string \<Rightarrow> string \<Rightarrow> bool" where
  \<comment> \<open>a name of the contract's own is one it gave, and none is of its port\<close>
  "canon A self d \<longleftrightarrow>
     (\<forall>x. d = factory_denom self (''0x'' @ x) \<longrightarrow> (\<exists>h. x = api_hex A h)) \<and>
     (\<forall>c x. d \<noteq> make_foreign_denom \<lparr>ep_port_id = own_port self, ep_channel_id = c\<rparr> x)"

definition names_ok :: "relay_api \<Rightarrow> relay \<Rightarrow> bool" where
  "names_ok A s \<longleftrightarrow> (\<forall>ep h nd. rl_hash_to_foreign s (ep, h) = Some nd \<longrightarrow> h = hash_denom A nd)"

lemma canon_others: "others_name self d \<Longrightarrow> canon A self d"
  by (auto simp: canon_def others_name_def factory_denom_def make_foreign_denom_def strip_prefix_Some
      simp flip: not_Some_eq)

lemma canon_factory: "canon A self (factory_denom self (''0x'' @ api_hex A h))"
  by (auto simp: canon_def factory_denom_def make_foreign_denom_def own_port_def)

lemma canon_not_Local:
  assumes "canon A self d" "ep_port_id ep = own_port self"
  shows "denom_origin d ep = Remote d"
proof (cases rule: denom_origin_cases [of d ep])
  case (Local x)
  have "ep = \<lparr>ep_port_id = own_port self, ep_channel_id = ep_channel_id ep\<rparr>" using assms(2) by simp
  with Local assms(1) show ?thesis unfolding canon_def by metis
qed

definition given :: "string \<Rightarrow> transfer_token list \<Rightarrow> nat" where
  "given e ts = amt (map (\<lambda>t. (tk_denom t, tk_amount t)) ts) e"

lemma given_simps [simp]:
  "given e [] = 0" "given e (t # ts) = (if tk_denom t = e then tk_amount t else 0) + given e ts"
  by (simp_all add: given_def)

lemma normalize_Ok:
  assumes laws: "relay_laws A self" and names: "\<And>h nd. l h = Some nd \<Longrightarrow> h = hash_denom A nd"
    and can: "canon A self (tk_denom t)" and port: "ep_port_id ep = own_port self"
    and n: "normalize_for_ibc_transfer A l self ep t = Ok t'"
  shows "tk_amount t' = tk_amount t" "tk_fee t' = tk_fee t"
    "escrows ep e t' + burns A self ep e t' = (if tk_denom t = e then tk_amount t else 0)"
    "denom_origin (tk_denom t') ep = Remote x \<Longrightarrow> t' = t"
    "denom_origin (tk_denom t') ep = Local y \<Longrightarrow>
      factory_denom self (hash_denom_str A (make_foreign_denom ep y)) = tk_denom t"
proof -
  have keep: "escrows ep e t + burns A self ep e t = (if tk_denom t = e then tk_amount t else 0)"
    using canon_not_Local [OF can port] by (simp add: escrows_def burns_def)
  let ?o = "Option.bind (Option.bind (strip_prefix ''factory/'' (tk_denom t)) (strip_prefix self)) (strip_prefix ''/0x'')"
  have o: "tk_denom t = factory_denom self (''0x'' @ hs)" if "?o = Some hs" for hs
  proof -
    from that obtain a b where "strip_prefix ''factory/'' (tk_denom t) = Some a" "strip_prefix self a = Some b"
      "strip_prefix ''/0x'' b = Some hs" unfolding bind_eq_Some_conv by blast
    then have "tk_denom t = ''factory/'' @ a" "a = self @ b" "b = ''/0x'' @ hs" unfolding strip_prefix_Some by blast+
    then show ?thesis by (simp add: factory_denom_def)
  qed
  consider (same) "t' = t"
    | (image) x hs h nd where "?o = Some hs" "api_hex_decode A hs = Some h"
      "l h = Some nd" "denom_origin nd ep = Local x" "t' = t\<lparr>tk_denom := nd\<rparr>"
  proof (cases ?o)
    case None
    with n that(1) show thesis unfolding normalize_for_ibc_transfer_def by simp
  next
    case (Some hs)
    with n obtain h where h: "api_hex_decode A hs = Some h" and
      t': "t' = (case l h of Some nd \<Rightarrow> (case denom_origin nd ep of Local _ \<Rightarrow> t\<lparr>tk_denom := nd\<rparr> | Remote _ \<Rightarrow> t) | None \<Rightarrow> t)"
      unfolding normalize_for_ibc_transfer_def Some by (auto simp: outcome_ok)
    show thesis
    proof (cases "l h")
      case None
      with t' that(1) show thesis by simp
    next
      case nd: (Some nd)
      with t' that(1) that(2) [OF Some h nd] show thesis by (cases "denom_origin nd ep") auto
    qed
  qed
  then have "tk_amount t' = tk_amount t \<and> tk_fee t' = tk_fee t \<and>
    escrows ep e t' + burns A self ep e t' = (if tk_denom t = e then tk_amount t else 0) \<and>
    (denom_origin (tk_denom t') ep = Remote x \<longrightarrow> t' = t) \<and>
    (denom_origin (tk_denom t') ep = Local y \<longrightarrow>
      factory_denom self (hash_denom_str A (make_foreign_denom ep y)) = tk_denom t)"
  proof cases
    case same
    with keep canon_not_Local [OF can port] show ?thesis by simp
  next
    case (image z hs h nd)
    note d = o [OF image(1)]
    obtain g where "hs = api_hex A g" using can d unfolding canon_def by blast
    then have hs: "hs = api_hex A h" using image(2) relay_laws.hex_roundtrip [OF laws, of g] by simp
    have "factory_denom self (hash_denom_str A (make_foreign_denom ep z)) = tk_denom t"
      using image(3,4) names hs by (simp add: hash_denom_str_def denom_origin_Local d)
    with image(4,5) show ?thesis by (auto simp: escrows_def burns_def)
  qed
  then show "tk_amount t' = tk_amount t" "tk_fee t' = tk_fee t"
    "escrows ep e t' + burns A self ep e t' = (if tk_denom t = e then tk_amount t else 0)"
    "denom_origin (tk_denom t') ep = Remote x \<Longrightarrow> t' = t"
    "denom_origin (tk_denom t') ep = Local y \<Longrightarrow>
      factory_denom self (hash_denom_str A (make_foreign_denom ep y)) = tk_denom t" by blast+
qed

definition normal_form :: "relay_api \<Rightarrow> string \<Rightarrow> ibc_endpoint \<Rightarrow> transfer_token \<Rightarrow> transfer_token \<Rightarrow> bool" where
  "normal_form A self ep t t' \<longleftrightarrow>
     tk_amount t' = tk_amount t \<and> tk_fee t' = tk_fee t \<and>
     (\<forall>e. escrows ep e t' + burns A self ep e t' = (if tk_denom t = e then tk_amount t else 0)) \<and>
     (\<forall>x. denom_origin (tk_denom t') ep = Remote x \<longrightarrow> t' = t) \<and>
     (\<forall>y. denom_origin (tk_denom t') ep = Local y \<longrightarrow>
       factory_denom self (hash_denom_str A (make_foreign_denom ep y)) = tk_denom t)"

lemma normalize_token_keeps: "normalize_token A cx t s = (r, s') \<Longrightarrow> s' = s"
  by (cases "normalize_for_ibc_transfer A (\<lambda>h. rl_hash_to_foreign s (ci_endpoint (cx_channel cx), h)) (cx_self cx)
        (ci_endpoint (cx_channel cx)) t") (auto simp: normalize_token_def)

lemma normalize_tokens_keep: "mapp (normalize_token A cx) ts s = (r, s') \<Longrightarrow> s' = s"
  by (rule mapp_relates [where Q = "\<lambda>s s'. s' = s", of "normalize_token A cx" ts s r s'])
    (auto dest: normalize_token_keeps)

lemma normalize_tokens_Ok:
  assumes laws: "relay_laws A (cx_self cx)" and names: "names_ok A s"
    and port: "ep_port_id (ci_endpoint (cx_channel cx)) = own_port (cx_self cx)"
  shows "\<forall>t \<in> set ts. canon A (cx_self cx) (tk_denom t) \<Longrightarrow> mapp (normalize_token A cx) ts s = (Ok ts', s') \<Longrightarrow>
    list_all2 (normal_form A (cx_self cx) (ci_endpoint (cx_channel cx))) ts ts'"
proof (induction ts arbitrary: ts')
  case Nil
  then show ?case by simp
next
  case (Cons t ts)
  from Cons.prems(2) obtain y zs s1 where t: "normalize_token A cx t s = (Ok y, s1)"
    and ts: "mapp (normalize_token A cx) ts s1 = (Ok zs, s')" and ts': "ts' = y # zs"
    by (auto simp: prog_ok)
  have s1: "s1 = s" using normalize_token_keeps [OF t] .
  let ?l = "\<lambda>h. rl_hash_to_foreign s (ci_endpoint (cx_channel cx), h)"
  have l: "?l h = Some nd \<Longrightarrow> h = hash_denom A nd" for h nd using names unfolding names_ok_def by blast
  have n: "normalize_for_ibc_transfer A ?l (cx_self cx) (ci_endpoint (cx_channel cx)) t = Ok y"
    using t by (auto simp: normalize_token_def prog_ok)
  have can: "canon A (cx_self cx) (tk_denom t)" using Cons.prems(1) by simp
  have "normal_form A (cx_self cx) (ci_endpoint (cx_channel cx)) t y"
    using normalize_Ok [OF laws l can port n] unfolding normal_form_def by blast
  with Cons.IH ts Cons.prems(1) show ?case by (simp add: ts' s1)
qed

lemma normal_flow:
  "list_all2 (normal_form A self ep) ts ts' \<Longrightarrow> escrows_all ep e ts' + burns_all A self ep e ts' = given e ts"
proof (induction rule: list_all2_induct)
  case (Cons t ts t' ts')
  then have "escrows ep e t' + burns A self ep e t' = (if tk_denom t = e then tk_amount t else 0)"
    by (simp add: normal_form_def)
  with Cons show ?case by simp
qed simp

lemma normal_keys:
  "list_all2 (normal_form A self ep) ts ts' \<Longrightarrow>
   escrow_keys ep ts' \<subseteq> {(ep_channel_id ep, tk_denom t) |t. t \<in> set ts}"
proof (induction rule: list_all2_induct)
  case (Cons t ts t' ts')
  then have "escrow_keys ep [t'] \<subseteq> {(ep_channel_id ep, tk_denom t)}"
    by (auto simp: normal_form_def escrow_keys_def)
  with Cons show ?case unfolding escrow_keys_Cons [of ep t' ts'] by auto
qed (simp add: escrow_keys_def)

lemma normal_wf: "list_all2 (normal_form A self ep) ts ts' \<Longrightarrow> list_all wf_token ts \<Longrightarrow> list_all wf_token ts'"
  by (induction rule: list_all2_induct) (auto simp: normal_form_def wf_token_def)

section \<open>Sending\<close>

locale transfer_protocol = relay_laws A self
  for A :: relay_api and self :: string and P :: "('p, 'a) protocol" +
  assumes tokens_kept: "pr_common_to_packet P c = Ok p \<Longrightarrow> pr_tokens P p = tpc_tokens c"
    and decoded_wf: "pr_decode P b = Ok p \<Longrightarrow> list_all wf_token (pr_tokens P p)"
    and self_addr: "pr_self_addr_canonical P self = Ok x \<Longrightarrow> pr_addr_of P x = Ok y \<Longrightarrow> y = self"

lemma tokens_to_attr_defined:
  "(\<And>t. t \<in> set ts \<Longrightarrow> \<exists>af. amounts t = Ok af) \<Longrightarrow> \<exists>x. tokens_to_attr A ts = Ok x"
proof -
  have "(\<And>t. t \<in> set ts \<Longrightarrow> \<exists>af. amounts t = Ok af) \<Longrightarrow>
    \<exists>cs. try_map (\<lambda>t. andthen (amounts t) (\<lambda>(actual_amount, fee_amount).
       Ok ((tk_denom t, actual_amount), (tk_denom t, fee_amount)) :: (ratio_error, _) outcome)) ts = Ok cs"
    by (induction ts) fastforce+
  then show "(\<And>t. t \<in> set ts \<Longrightarrow> \<exists>af. amounts t = Ok af) \<Longrightarrow> \<exists>x. tokens_to_attr A ts = Ok x"
    by (fastforce simp: tokens_to_attr_def)
qed

context transfer_protocol begin

lemma send_Ok:
  assumes cx: "cx_self cx = self" and ok: "send P A cx input ext s = (Ok r, s')" and fin: "finite (book s)" and names: "names_ok A s"
    and port: "ep_port_id (ci_endpoint (cx_channel cx)) = own_port (cx_self cx)"
    and can: "\<forall>t \<in> set (ti_tokens input). canon A (cx_self cx) (tk_denom t)"
  obtains ms ch x tmo K f where
    "rs_messages r = map plain_msg ms @ [\<lparr>sm_id = IBC_SEND_ID, sm_msg = SendPacket ch x tmo, sm_reply_on = ReplyAlways, sm_payload = []\<rparr>]"
    "list_all (own_msg A (cx_self cx)) ms" "locked s s' K f"
    "K \<subseteq> {(ep_channel_id (ci_endpoint (cx_channel cx)), tk_denom t) |t. t \<in> set (ti_tokens input)}"
    "\<And>e. f e + taken_all (cx_self cx) e ms = given e (ti_tokens input)"
    "\<And>e. brought_all (cx_self cx) e ms = 0"
proof -
  let ?ep = "ci_endpoint (cx_channel cx)"
  from ok obtain ts p ms s1 s2 tmo where ts: "mapp (normalize_token A cx) (ti_tokens input) s = (Ok ts, s1)"
    and p: "pr_common_to_packet P \<lparr>tpc_sender = ti_sender input, tpc_receiver = ti_receiver input,
        tpc_tokens = ts, tpc_extension = ext\<rparr> = Ok p"
    and ms: "send_tokens A cx (pr_tokens P p) s1 = (Ok ms, s2)" and s': "s' = s2"
    and r: "rs_messages r = map plain_msg ms @
      [\<lparr>sm_id = IBC_SEND_ID, sm_msg = SendPacket (ep_channel_id ?ep) (pr_encode P p)
         \<lparr>ct_block = None, ct_timestamp = Some tmo\<rparr>, sm_reply_on = ReplyAlways, sm_payload = []\<rparr>]"
    by (auto simp: send_def prog_ok)
  have s1: "s1 = s" using normalize_tokens_keep [OF ts] .
  have pt: "pr_tokens P p = ts" using tokens_kept [OF p] by simp
  note nf = normalize_tokens_Ok [OF relay_laws_axioms [folded cx] names port can ts]
  have ms': "for_tokens A send_on_local (send_on_remote (cx_self cx)) (cx_self cx) ?ep ts s = (Ok ms, s')"
    using ms by (simp add: send_tokens_def pt s1 s')
  note sent = send_tokens_Ok [OF ms' fin]
  have "escrows_all ?ep e ts + taken_all (cx_self cx) e ms = given e (ti_tokens input)" for e
    using normal_flow [OF nf] sent(2) by simp
  with that [OF r sent(4) sent(1) normal_keys [OF nf]] sent(3) show thesis by blast
qed

lemma send_Err:
  assumes cx: "cx_self cx = self" and err: "send P A cx input ext s = (Err x, s')" and names: "names_ok A s"
    and port: "ep_port_id (ci_endpoint (cx_channel cx)) = own_port (cx_self cx)"
    and can: "\<forall>t \<in> set (ti_tokens input). canon A (cx_self cx) (tk_denom t)"
    and wf: "list_all wf_token (ti_tokens input)"
    and fits: "\<And>c e. outstanding s (c, e) + given e (ti_tokens input) \<le> u512_max"
  shows "s' = s"
proof -
  let ?ep = "ci_endpoint (cx_channel cx)"
  obtain r1 s1 where n: "mapp (normalize_token A cx) (ti_tokens input) s = (r1, s1)" by fastforce
  have s1: "s1 = s" using normalize_tokens_keep [OF n] .
  show ?thesis
  proof (cases r1)
    case (Ok ts)
    let ?c = "\<lparr>tpc_sender = ti_sender input, tpc_receiver = ti_receiver input, tpc_tokens = ts, tpc_extension = ext\<rparr>"
    show ?thesis
    proof (cases "pr_common_to_packet P ?c")
      case p: (Ok p)
      have pt: "pr_tokens P p = ts" using tokens_kept [OF p] by simp
      note nf = normalize_tokens_Ok [OF relay_laws_axioms [folded cx] names port can n [unfolded Ok]]
      have "escrows_all ?ep e ts \<le> given e (ti_tokens input)" for e
        using normal_flow [OF nf, of e] by simp
      then have "outstanding s (ep_channel_id ?ep, e) + escrows_all ?ep e ts \<le> u512_max" for e
        using fits [of "ep_channel_id ?ep" e] by (meson add_left_mono le_trans)
      from send_tokens_fit [OF normal_wf [OF nf wf] this, of A "cx_self cx"]
      obtain ms s2 where ms: "send_tokens A cx (pr_tokens P p) s = (Ok ms, s2)"
        by (auto simp: send_tokens_def pt)
      have "\<exists>af. amounts t = Ok af" if "t \<in> set ts" for t
        using normal_wf [OF nf wf] amounts_exact that by (fastforce simp: list_all_iff)
      from tokens_to_attr_defined [OF this] obtain at where "tokens_to_attr A ts = Ok at" by blast
      with err n Ok s1 p ms show ?thesis
        by (cases "api_plus_seconds A (ti_current_time input) (ti_timeout_delta input)")
          (simp_all add: send_def pt)
    qed (use err n Ok s1 in \<open>simp_all add: send_def\<close>)
  qed (use err n s1 in \<open>simp_all add: send_def\<close>)
qed

end

end
