(* ===== verification/Ucs01_Dispatch.thy ===== *)
theory Ucs01_Dispatch imports Ucs01_Transfer begin

text \<open>
  The dispatch of the messages the contract makes: what a run that succeeds does to the ledger, the
  parts of the contract's state it leaves alone, and that two levels of calls are enough.
\<close>

section \<open>What a run leaves alone\<close>

definition denoms_ok :: "relay_api \<Rightarrow> 'b ledger \<Rightarrow> string \<Rightarrow> 'b \<Rightarrow> bool" where
  "denoms_ok A L self b \<longleftrightarrow> (\<forall>d. lg_exists L b d \<longrightarrow> canon A self d)"

definition calm :: "relay_api \<Rightarrow> 'b ledger \<Rightarrow> string \<Rightarrow> 'b world \<Rightarrow> 'b world \<Rightarrow> bool" where
  "calm A L self w w' \<longleftrightarrow>
     rl_channel_state (wd_relay w') = rl_channel_state (wd_relay w) \<and>
     rl_channel_info (wd_relay w') = rl_channel_info (wd_relay w) \<and>
     (names_ok A (wd_relay w) \<longrightarrow> names_ok A (wd_relay w')) \<and>
     (denoms_ok A L self (wd_ledger w) \<longrightarrow> denoms_ok A L self (wd_ledger w'))"

lemma calm_refl: "calm A L self w w"
  by (simp add: calm_def)

lemma calm_trans: "calm A L self w w' \<Longrightarrow> calm A L self w' w'' \<Longrightarrow> calm A L self w w''"
  by (simp add: calm_def)

definition moves :: "relay_api \<Rightarrow> 'b ledger \<Rightarrow> string \<Rightarrow> (string \<Rightarrow> nat) \<Rightarrow> (string \<Rightarrow> nat) \<Rightarrow> 'b world \<Rightarrow> 'b world \<Rightarrow> bool" where
  \<comment> \<open>what is taken from the contract's account and what is brought to it\<close>
  "moves A L self out inn w w' \<longleftrightarrow>
     calm A L self w w' \<and>
     (\<forall>e. lg_balance L (wd_ledger w') self e + out e = lg_balance L (wd_ledger w) self e + inn e)"

lemma moves_none: "moves A L self (\<lambda>_. 0) (\<lambda>_. 0) w w"
  by (simp add: moves_def calm_refl)

lemma moves_trans:
  assumes "moves A L self out inn w w'" "moves A L self out' inn' w' w''"
  shows "moves A L self (\<lambda>e. out e + out' e) (\<lambda>e. inn e + inn' e) w w''"
proof -
  have "lg_balance L (wd_ledger w'') self e + (out e + out' e) = lg_balance L (wd_ledger w) self e + (inn e + inn' e)" for e
  proof -
    have "lg_balance L (wd_ledger w') self e + out e = lg_balance L (wd_ledger w) self e + inn e"
      "lg_balance L (wd_ledger w'') self e + out' e = lg_balance L (wd_ledger w') self e + inn' e"
      using assms by (simp_all add: moves_def)
    then show ?thesis by linarith
  qed
  with assms show ?thesis by (auto simp: moves_def intro: calm_trans)
qed

lemma reply_keeps:
  "relay_reply A i payload result s = (r, s') \<Longrightarrow>
   rl_channel_state s' = rl_channel_state s \<and> rl_channel_info s' = rl_channel_info s \<and>
   rl_hash_to_foreign s' = rl_hash_to_foreign s"
proof (cases result)
  case (SubErr err)
  then show "relay_reply A i payload result s = (r, s') \<Longrightarrow> ?thesis"
    by (cases "api_in_flight_of_json A payload") (auto simp: relay_reply_def split: if_splits)
next
  case (SubOk q)
  then show "relay_reply A i payload result s = (r, s') \<Longrightarrow> ?thesis"
    by (cases q; cases "api_in_flight_of_json A payload") (auto simp: relay_reply_def split: if_splits)
qed

lemma call_reply_moves:
  assumes "call_reply A L i payload result w = Inr (d, w')"
  shows "moves A L self (\<lambda>_. 0) (\<lambda>_. 0) w w'"
proof -
  from assms obtain r s where r: "relay_reply A i payload result (wd_relay w) = (Ok r, s)"
    and w': "w' = w\<lparr>wd_relay := s\<rparr>"
    by (auto simp: call_reply_def split: prod.splits outcome.splits)
  from reply_keeps [OF r] show ?thesis by (simp add: moves_def calm_def names_ok_def w')
qed

section \<open>One message\<close>

lemma plain_msg_simps [simp]:
  "sm_msg (plain_msg m) = m" "sm_reply_on (plain_msg m) = ReplyNever"
  by (simp_all add: plain_msg_def)

section \<open>The messages of a response\<close>

fun batch :: "cw_msg \<Rightarrow> cw_msg list" where
  \<comment> \<open>what a message of a response has run\<close>
  "batch (WasmExecute c (BatchExecute ms) fs) = ms"
| "batch m = [m]"

definition own_sub :: "relay_api \<Rightarrow> string \<Rightarrow> sub_msg \<Rightarrow> bool" where
  "own_sub A self sub \<longleftrightarrow>
     own_msg A self (sm_msg sub) \<or>
     (\<exists>ms. sm_msg sub = WasmExecute self (BatchExecute ms) [] \<and> list_all (own_msg A self) ms)"

abbreviation sub_taken :: "string \<Rightarrow> string \<Rightarrow> sub_msg \<Rightarrow> nat" where
  "sub_taken self e sub \<equiv> taken_all self e (batch (sm_msg sub))"

abbreviation sub_brought :: "string \<Rightarrow> string \<Rightarrow> sub_msg \<Rightarrow> nat" where
  "sub_brought self e sub \<equiv> brought_all self e (batch (sm_msg sub))"

text \<open>
  A response whose messages all have to succeed, but for those that move nothing; and a response
  of one message, which succeeds or whose failure the contract is told.
\<close>

definition sound_messages :: "relay_api \<Rightarrow> string \<Rightarrow> sub_msg list \<Rightarrow> bool" where
  "sound_messages A self subs \<longleftrightarrow>
     (\<forall>sub \<in> set subs. own_sub A self sub \<and>
       (sm_reply_on sub \<noteq> ReplyNever \<longrightarrow> (\<forall>e. sub_taken self e sub = 0 \<and> sub_brought self e sub = 0)))"

abbreviation subs_taken :: "string \<Rightarrow> string \<Rightarrow> sub_msg list \<Rightarrow> nat" where
  "subs_taken self e subs \<equiv> sum_list (map (sub_taken self e) subs)"

abbreviation subs_brought :: "string \<Rightarrow> string \<Rightarrow> sub_msg list \<Rightarrow> nat" where
  "subs_brought self e subs \<equiv> sum_list (map (sub_brought self e) subs)"

section \<open>Their runs\<close>

context ledger_laws begin

lemma run_own_msg:
  assumes own: "own_msg A self m" and run: "run_msg A L self time (Suc n) m w = Inr (q, w')"
  shows "moves A L self (\<lambda>e. taken self e m) (\<lambda>e. brought self e m) w w'"
proof (cases m)
  case (BankSend to cs)
  with run obtain b where b: "lg_send L (wd_ledger w) self to cs = Inr b" and w': "w' = w\<lparr>wd_ledger := b\<rparr>"
    by (cases "lg_send L (wd_ledger w) self to cs") (auto simp: on_ledger_def)
  show ?thesis using send_balance [OF b, of self] send_exists [OF b]
    by (auto simp: moves_def calm_def denoms_ok_def BankSend w')
next
  case (CreateDenom sub)
  with run obtain b where b: "lg_create L (wd_ledger w) self sub = Inr b" and w': "w' = w\<lparr>wd_ledger := b\<rparr>"
    by (cases "lg_create L (wd_ledger w) self sub") (auto simp: on_ledger_def)
  from own CreateDenom obtain h where "sub = ''0x'' @ api_hex A h" by auto
  then show ?thesis using create_balance [OF b] create_exists [OF b] canon_factory [of A self h]
    by (auto simp: moves_def calm_def denoms_ok_def CreateDenom w')
next
  case (MintTokens d k to)
  with run obtain b where b: "lg_mint L (wd_ledger w) self d k to = Inr b" and w': "w' = w\<lparr>wd_ledger := b\<rparr>"
    by (cases "lg_mint L (wd_ledger w) self d k to") (auto simp: on_ledger_def)
  show ?thesis using mint_balance [OF b, of self] mint_exists [OF b]
    by (auto simp: moves_def calm_def denoms_ok_def MintTokens w')
next
  case (BurnTokens d k f)
  with run obtain b where b: "lg_burn L (wd_ledger w) self d k f = Inr b" and w': "w' = w\<lparr>wd_ledger := b\<rparr>"
    by (cases "lg_burn L (wd_ledger w) self d k f") (auto simp: on_ledger_def)
  have "lg_balance L b self e + taken self e m = lg_balance L (wd_ledger w) self e" for e
    using burn_balance [OF b, of self e] by (auto simp: BurnTokens split: if_splits)
  then show ?thesis using burn_exists [OF b]
    by (simp add: moves_def calm_def denoms_ok_def BurnTokens w')
next
  case (WasmExecute c em fs)
  with own obtain ep d where em: "c = self" "fs = []" "em = RegisterDenom ep d (hash_denom A d)" by auto
  with run WasmExecute obtain r s q' where r: "register_denom ep d (hash_denom A d) (wd_relay w) = (Ok r, s)"
    and rest: "run_list (run_msg A L self time n) (call_reply A L) (rs_messages r) None (w\<lparr>wd_relay := s\<rparr>) = Inr (q', w')"
    by (auto simp: relay_execute_def map_sum_def split: prod.splits outcome.splits sum.splits)
  have "rs_messages r = []" "names_ok A (wd_relay w) \<longrightarrow> names_ok A s"
    "rl_channel_state s = rl_channel_state (wd_relay w)" "rl_channel_info s = rl_channel_info (wd_relay w)"
    using r by (auto simp: register_denom_def prog_ok no_response_def names_ok_def split: if_splits)
  with rest show ?thesis by (auto simp: moves_def calm_def WasmExecute)
next
  case (SendPacket ch x tmo)
  with run obtain q b where b: "lg_send_packet L (wd_ledger w) self ch x tmo = Inr (q, b)" and w': "w' = w\<lparr>wd_ledger := b\<rparr>"
    by (cases "lg_send_packet L (wd_ledger w) self ch x tmo") auto
  show ?thesis using packet_balance [OF b] packet_exists [OF b]
    by (simp add: moves_def calm_def denoms_ok_def SendPacket w')
next
  case (WriteDeferredAck c i x)
  with run obtain b where b: "lg_deferred_ack L (wd_ledger w) c i x = Inr b" and w': "w' = w\<lparr>wd_ledger := b\<rparr>"
    by (cases "lg_deferred_ack L (wd_ledger w) c i x") (auto simp: on_ledger_def)
  show ?thesis using ack_balance [OF b] ack_exists [OF b]
    by (simp add: moves_def calm_def denoms_ok_def WriteDeferredAck w')
qed

lemma run_own_msgs:
  assumes "list_all (own_msg A self) ms"
    "run_list (run_msg A L self time (Suc n)) (call_reply A L) (map plain_msg ms) data w = Inr (d, w')"
  shows "moves A L self (\<lambda>e. taken_all self e ms) (\<lambda>e. brought_all self e ms) w w'"
  using assms
proof (induction ms arbitrary: w)
  case Nil
  then show ?case using moves_none by simp
next
  case (Cons m ms)
  from Cons.prems(2) obtain q w1 where m: "run_msg A L self time (Suc n) m w = Inr (q, w1)"
    and rest: "run_list (run_msg A L self time (Suc n)) (call_reply A L) (map plain_msg ms) data w1 = Inr (d, w')"
    by (auto simp del: run_msg.simps split: sum.splits)
  from Cons.prems(1) have "own_msg A self m" "list_all (own_msg A self) ms" by simp_all
  from moves_trans [OF run_own_msg [OF this(1) m] Cons.IH [OF this(2) rest]] show ?case by simp
qed

lemma run_sub:
  assumes own: "own_sub A self sub" and run: "run_msg A L self time (Suc (Suc n)) (sm_msg sub) w = Inr (q, w')"
  shows "moves A L self (\<lambda>e. sub_taken self e sub) (\<lambda>e. sub_brought self e sub) w w'"
proof (cases "own_msg A self (sm_msg sub)")
  case True
  then have "batch (sm_msg sub) = [sm_msg sub]" by (cases "sm_msg sub") auto
  with run_own_msg [OF True run] show ?thesis by simp
next
  case False
  with own obtain ms where m: "sm_msg sub = WasmExecute self (BatchExecute ms) []"
    and ms: "list_all (own_msg A self) ms" by (auto simp: own_sub_def)
  let ?r = "run_list (run_msg A L self time (Suc n)) (call_reply A L) (map plain_msg ms) None w"
  have "w\<lparr>wd_relay := wd_relay w\<rparr> = w" by simp
  then have "run_msg A L self time (Suc (Suc n)) (sm_msg sub) w = map_sum (\<lambda>e. e) (\<lambda>(_, w'). (None, w')) ?r"
    by (simp add: m relay_execute_def no_response_def del: run_msg.simps(2))
      (subst run_msg.simps(2), simp add: relay_execute_def no_response_def del: run_msg.simps)
  with run obtain d where "?r = Inr (d, w')" by (cases ?r) auto
  from run_own_msgs [OF ms this] show ?thesis by (simp add: m)
qed

lemma run_sound_messages:
  assumes "sound_messages A self subs"
    "run_list (run_msg A L self time (Suc (Suc n))) (call_reply A L) subs data w = Inr (d, w')"
  shows "moves A L self (\<lambda>e. subs_taken self e subs) (\<lambda>e. subs_brought self e subs) w w'"
  using assms
proof (induction subs arbitrary: w data)
  case Nil
  then show ?case using moves_none by simp
next
  case (Cons sub subs)
  let ?run = "run_msg A L self time (Suc (Suc n))"
  from Cons.prems(1) have own: "own_sub A self sub" and sound: "sound_messages A self subs"
    and quiet: "sm_reply_on sub \<noteq> ReplyNever \<Longrightarrow> sub_taken self e sub = 0 \<and> sub_brought self e sub = 0" for e
    by (simp_all add: sound_messages_def)
  have "\<exists>w1 data1. moves A L self (\<lambda>e. sub_taken self e sub) (\<lambda>e. sub_brought self e sub) w w1 \<and>
    run_list ?run (call_reply A L) subs data1 w1 = Inr (d, w')"
  proof (cases "?run (sm_msg sub) w")
    case (Inl err)
    with Cons.prems(2) have never: "sm_reply_on sub \<noteq> ReplyNever" by (auto simp del: run_msg.simps)
    with Cons.prems(2) Inl obtain x w1 where r: "call_reply A L (sm_id sub) (sm_payload sub) (SubErr err) w = Inr (x, w1)"
      and rest: "run_list ?run (call_reply A L) subs (if x = None then data else x) w1 = Inr (d, w')"
      by (auto simp del: run_msg.simps split: sum.splits)
    have zero: "(\<lambda>e. sub_taken self e sub) = (\<lambda>_. 0)" "(\<lambda>e. sub_brought self e sub) = (\<lambda>_. 0)"
      using quiet [OF never] by blast+
    show ?thesis unfolding zero using call_reply_moves [OF r] rest by blast
  next
    case (Inr qw)
    then obtain q w1 where run: "?run (sm_msg sub) w = Inr (q, w1)" by (cases qw) auto
    note m = run_sub [OF own run]
    show ?thesis
    proof (cases "sm_reply_on sub = ReplyAlways")
      case False
      with Cons.prems(2) run m show ?thesis by (auto simp del: run_msg.simps)
    next
      case True
      with Cons.prems(2) run obtain x w2 where
        r: "call_reply A L (sm_id sub) (sm_payload sub) (SubOk q) w1 = Inr (x, w2)"
        and rest: "run_list ?run (call_reply A L) subs (if x = None then data else x) w2 = Inr (d, w')"
        by (auto simp del: run_msg.simps split: sum.splits)
      from moves_trans [OF m call_reply_moves [OF r]] rest show ?thesis by auto
    qed
  qed
  then obtain w1 data1 where "moves A L self (\<lambda>e. sub_taken self e sub) (\<lambda>e. sub_brought self e sub) w w1"
    "run_list ?run (call_reply A L) subs data1 w1 = Inr (d, w')" by blast
  from moves_trans [OF this(1) Cons.IH [OF sound this(2)]] show ?case by simp
qed

lemma run_one_message:
  assumes own: "own_sub A self sub"
    and run: "run_list (run_msg A L self time (Suc (Suc n))) (call_reply A L) [sub] data w = Inr (d, w')"
  shows "moves A L self (\<lambda>e. sub_taken self e sub) (\<lambda>e. sub_brought self e sub) w w' \<or>
    moves A L self (\<lambda>_. 0) (\<lambda>_. 0) w w'"
proof (cases "run_msg A L self time (Suc (Suc n)) (sm_msg sub) w")
  case (Inl err)
  with run obtain x where "call_reply A L (sm_id sub) (sm_payload sub) (SubErr err) w = Inr (x, w')"
    by (auto simp del: run_msg.simps split: sum.splits if_splits)
  then show ?thesis using call_reply_moves by blast
next
  case (Inr qw)
  then obtain q w1 where r: "run_msg A L self time (Suc (Suc n)) (sm_msg sub) w = Inr (q, w1)" by (cases qw) auto
  show ?thesis
  proof (cases "sm_reply_on sub = ReplyAlways")
    case False
    with run r run_sub [OF own r] show ?thesis by (auto simp del: run_msg.simps)
  next
    case True
    with run r obtain x where "call_reply A L (sm_id sub) (sm_payload sub) (SubOk q) w1 = Inr (x, w')"
      by (auto simp del: run_msg.simps split: sum.splits)
    from moves_trans [OF run_sub [OF own r] call_reply_moves [OF this]] show ?thesis by simp
  qed
qed

end

text \<open>A deeper dispatch runs the contract's messages no further.\<close>

lemma own_msg_depth:
  assumes "own_msg A self m"
  shows "run_msg A L self time (Suc n) m w = run_msg A L self time (Suc 0) m w"
proof (cases m)
  case (WasmExecute c em fs)
  with assms obtain ep d where em: "c = self" "em = RegisterDenom ep d (hash_denom A d)" by auto
  have "rs_messages r = []" if "register_denom ep d (hash_denom A d) (wd_relay w) = (Ok r, s)" for r s
    using that by (auto simp: register_denom_def prog_ok no_response_def split: if_splits)
  then show ?thesis
    by (auto simp: WasmExecute em relay_execute_def split: prod.splits outcome.splits)
qed simp_all

lemma run_list_cong:
  "(\<And>sub w. sub \<in> set subs \<Longrightarrow> exec (sm_msg sub) w = exec' (sm_msg sub) w) \<Longrightarrow>
   run_list exec rep subs data w = run_list exec' rep subs data w"
  by (induction subs arbitrary: data w) (auto split: sum.splits)

lemma own_sub_depth:
  fixes w :: "'b world"
  assumes "own_sub A self sub"
  shows "run_msg A L self time (n + 2) (sm_msg sub) w = run_msg A L self time 2 (sm_msg sub) w"
proof (cases "own_msg A self (sm_msg sub)")
  case True
  have "n + 2 = Suc (Suc n)" "2 = Suc (Suc 0)" by simp_all
  then show ?thesis using own_msg_depth [OF True] by metis
next
  case False
  with assms obtain ms where m: "sm_msg sub = WasmExecute self (BatchExecute ms) []"
    and ms: "list_all (own_msg A self) ms" by (auto simp: own_sub_def)
  have two: "n + 2 = Suc (Suc n)" "2 = Suc (Suc 0)" by simp_all
  have "run_list (run_msg A L self time (Suc n)) (call_reply A L) (map plain_msg ms) None w' =
      run_list (run_msg A L self time (Suc 0)) (call_reply A L) (map plain_msg ms) None w'" for w'
  proof (rule run_list_cong)
    fix sub and w :: "'b world"
    assume "sub \<in> set (map plain_msg ms)"
    with ms have "own_msg A self (sm_msg sub)" by (auto simp: list_all_iff)
    then show "run_msg A L self time (Suc n) (sm_msg sub) w = run_msg A L self time (Suc 0) (sm_msg sub) w"
      by (rule own_msg_depth)
  qed
  then have "run_msg A L self time (Suc (Suc n)) (sm_msg sub) w = run_msg A L self time (Suc (Suc 0)) (sm_msg sub) w"
    unfolding m by (subst (1 2) run_msg.simps(2)) (simp add: relay_execute_def no_response_def del: run_msg.simps)
  then show ?thesis by (simp only: two(1) two(2) [symmetric])
qed

end
