(* ===== verification/Ucs01_Solvency.thy ===== *)
theory Ucs01_Solvency imports Ucs01_Dispatch begin

text \<open>
  The invariant of the token transfer contract over its whole life on the chain: what its books say
  is escrowed, it has. The entry points are taken one by one; a transfer locks or burns what it was
  given, a reception releases what it pays out even when it is answered with an error, a forwarded
  packet does both, and a refund releases what it pays back.
\<close>

section \<open>The two protocols are transfer protocols\<close>

lemma ics20_tokens_kept: "ics20_packet_try_from c = Ok p \<Longrightarrow> ics20_packet_tokens p = tpc_tokens c"
  by (auto simp: ics20_packet_try_from_def ics20_packet_tokens_def outcome_ok split: list.splits if_splits)

lemma ucs01_decoded_wf: "ucs01_packet_decode A b = Ok p \<Longrightarrow> list_all wf_token (up_tokens p)"
  by (auto simp: ucs01_packet_decode_def outcome_ok ucs01_packet_of_tokens_Ok)

sublocale relay_laws \<subseteq> ics20: transfer_protocol A self "ics20_protocol A"
proof unfold_locales
  fix c p b x y
  show "pr_common_to_packet (ics20_protocol A) c = Ok p \<Longrightarrow> pr_tokens (ics20_protocol A) p = tpc_tokens c"
    by (simp add: ics20_protocol_def ics20_tokens_kept)
  show "pr_decode (ics20_protocol A) b = Ok p \<Longrightarrow> list_all wf_token (pr_tokens (ics20_protocol A) p)"
    using ics20_amount by (auto simp: ics20_protocol_def ics20_packet_tokens_def wf_token_def outcome_ok)
  show "pr_self_addr_canonical (ics20_protocol A) self = Ok x \<Longrightarrow> pr_addr_of (ics20_protocol A) x = Ok y \<Longrightarrow> y = self"
    by (simp add: ics20_protocol_def)
qed

sublocale relay_laws \<subseteq> ucs01: transfer_protocol A self "ucs01_protocol A"
proof unfold_locales
  fix c p b x y
  show "pr_common_to_packet (ucs01_protocol A) c = Ok p \<Longrightarrow> pr_tokens (ucs01_protocol A) p = tpc_tokens c"
    by (auto simp: ucs01_protocol_def ucs01_common_to_packet_def outcome_ok)
  show "pr_decode (ucs01_protocol A) b = Ok p \<Longrightarrow> list_all wf_token (pr_tokens (ucs01_protocol A) p)"
    using ucs01_decoded_wf by (auto simp: ucs01_protocol_def outcome_ok)
  show "pr_self_addr_canonical (ucs01_protocol A) self = Ok x \<Longrightarrow> pr_addr_of (ucs01_protocol A) x = Ok y \<Longrightarrow> y = self"
    using self_normal by (auto simp: ucs01_protocol_def outcome_ok)
qed

section \<open>The invariant\<close>

definition ports_ok :: "string \<Rightarrow> relay \<Rightarrow> bool" where
  "ports_ok self s \<longleftrightarrow>
     (\<forall>c ci. rl_channel_info s c = Some ci \<longrightarrow> ep_port_id (ci_endpoint ci) = own_port self)"

definition books_ok :: "relay_api \<Rightarrow> string \<Rightarrow> relay \<Rightarrow> bool" where
  "books_ok A self s \<longleftrightarrow>
     finite (book s) \<and> (\<forall>k \<in> book s. canon A self (snd k)) \<and> names_ok A s \<and> ports_ok self s"

definition solvent :: "'b ledger \<Rightarrow> string \<Rightarrow> 'b world \<Rightarrow> bool" where
  "solvent L self w \<longleftrightarrow> (\<forall>d. escrowed (wd_relay w) d \<le> lg_balance L (wd_ledger w) self d)"

definition relay_inv :: "relay_api \<Rightarrow> 'b ledger \<Rightarrow> string \<Rightarrow> 'b world \<Rightarrow> bool" where
  "relay_inv A L self w \<longleftrightarrow>
     books_ok A self (wd_relay w) \<and> denoms_ok A L self (wd_ledger w) \<and> solvent L self w"

text \<open>
  What an entry point has to show: the books stay in order, and what it has locked and pays out is
  covered by what it released, what it was given and what it mints for itself.
\<close>

definition accounted ::
  "relay_api \<Rightarrow> string \<Rightarrow> (string \<Rightarrow> nat) \<Rightarrow> relay \<Rightarrow> relay \<Rightarrow> sub_msg list \<Rightarrow> bool" where
  "accounted A self received s s' subs \<longleftrightarrow>
     books_ok A self s' \<and>
     (sound_messages A self subs \<and>
        (\<forall>e. escrowed s' e + subs_taken self e subs \<le> escrowed s e + received e + subs_brought self e subs) \<or>
      (\<exists>sub. subs = [sub] \<and> own_sub A self sub \<and>
        (\<forall>e. escrowed s' e + sub_taken self e sub \<le> escrowed s e + received e)))"

lemma books_ok_grow:
  assumes "books_ok A self s" "book_only s s'" "book s' = book s \<union> K" "finite K" "\<forall>k \<in> K. canon A self (snd k)"
  shows "books_ok A self s'"
proof -
  have "rl_hash_to_foreign s' = rl_hash_to_foreign s" "rl_channel_info s' = rl_channel_info s"
    using assms(2) unfolding book_only_def
    by (metis relay.select_convs(7) relay.surjective relay.update_convs(4),
        metis relay.select_convs(3) relay.surjective relay.update_convs(4))
  with assms show ?thesis by (auto simp: books_ok_def names_ok_def ports_ok_def)
qed

lemma books_ok_same: "books_ok A self s \<Longrightarrow> book_only s s' \<Longrightarrow> book s' = book s \<Longrightarrow> books_ok A self s'"
  using books_ok_grow [of A self s s' "{}"] by simp

context ledger_laws begin

lemma dispatch_inv:
  assumes acc: "accounted A self received s s' (rs_messages r)"
    and start: "\<And>e. escrowed s e + received e \<le> lg_balance L b self e" and den: "denoms_ok A L self b"
    and run: "dispatch A L self time r \<lparr>wd_relay = s', wd_ledger = b\<rparr> = Inr (d, w')"
  shows "relay_inv A L self w'"
proof -
  let ?w = "\<lparr>wd_relay = s', wd_ledger = b\<rparr>"
  have two: "(2::nat) = Suc (Suc 0)" by simp
  have books: "books_ok A self s'" using acc by (simp add: accounted_def)
  obtain out inn where m: "moves A L self out inn ?w w'"
    and le: "\<And>e. escrowed s' e + out e \<le> escrowed s e + received e + inn e"
    using acc unfolding accounted_def
  proof (elim conjE disjE exE)
    assume sound: "sound_messages A self (rs_messages r)"
      and le: "\<forall>e. escrowed s' e + subs_taken self e (rs_messages r) \<le> escrowed s e + received e + subs_brought self e (rs_messages r)"
    show thesis
      using that [OF run_sound_messages [OF sound run [unfolded dispatch_def two]]] le by blast
  next
    fix sub assume one: "rs_messages r = [sub]" and own: "own_sub A self sub"
      and le: "\<forall>e. escrowed s' e + sub_taken self e sub \<le> escrowed s e + received e"
    have le': "escrowed s' e + sub_taken self e sub \<le> escrowed s e + received e + sub_brought self e sub"
      "escrowed s' e + 0 \<le> escrowed s e + received e + 0" for e
      using le [rule_format, of e] by auto
    from run_one_message [OF own run [unfolded dispatch_def two one]] show thesis
      using that le' by blast
  qed
  have "escrowed (wd_relay w') e \<le> lg_balance L (wd_ledger w') self e" for e
  proof -
    have "escrowed (wd_relay w') e = escrowed s' e"
      using m by (simp add: moves_def calm_def escrowed_def outstanding_def)
    moreover have "lg_balance L (wd_ledger w') self e + out e = lg_balance L b self e + inn e"
      using m by (simp add: moves_def)
    ultimately show ?thesis using le [of e] start [of e] by linarith
  qed
  with m books den show ?thesis
    by (auto simp: relay_inv_def solvent_def moves_def calm_def books_ok_def ports_ok_def)
qed

end

section \<open>Transfers\<close>

lemma amt_distinct:
  "distinct (map fst cs) \<Longrightarrow> amt cs e = (case map_of cs e of None \<Rightarrow> 0 | Some n \<Rightarrow> n)"
proof (induction cs)
  case (Cons c cs)
  obtain d n where c: "c = (d, n)" by (cases c)
  have none: "d \<notin> fst ` set cs \<Longrightarrow> amt cs d = 0" by (induction cs) auto
  show ?case
  proof (cases "e = d")
    case True
    with Cons.prems none show ?thesis by (simp add: c)
  next
    case False
    with Cons show ?thesis by (simp add: c)
  qed
qed simp

lemma amt_member: "(e, n) \<in> set cs \<Longrightarrow> n \<le> amt cs e"
  by (induction cs) auto

lemma amt_sub:
  assumes "distinct (map fst cs')" "set cs' \<subseteq> set cs"
  shows "amt cs' e \<le> amt cs e"
proof (cases "map_of cs' e")
  case (Some n)
  then have "(e, n) \<in> set cs" using assms(2) map_of_SomeD by fastforce
  with Some amt_member show ?thesis by (simp add: amt_distinct [OF assms(1)])
qed (simp add: amt_distinct [OF assms(1)])

lemma given_coins:
  "given e (map (\<lambda>c. token_of_coin c (g c)) cs) = amt cs e"
  by (induction cs) (auto simp: token_of_coin_def given_def)

lemma sound_plain:
  "list_all (own_msg A self) ms \<Longrightarrow> sound_messages A self (map plain_msg ms)"
  by (auto simp: sound_messages_def own_sub_def list_all_iff)

lemma batch_own: "own_msg A self m \<Longrightarrow> batch m = [m]"
  by (cases m) auto

lemma plain_moves:
  assumes "list_all (own_msg A self) ms"
  shows "subs_taken self e (map plain_msg ms) = taken_all self e ms"
    "subs_brought self e (map plain_msg ms) = brought_all self e ms"
  using assms by (induction ms) (auto simp: batch_own)

lemma sound_append:
  "sound_messages A self (xs @ ys) \<longleftrightarrow> sound_messages A self xs \<and> sound_messages A self ys"
  by (auto simp: sound_messages_def)

lemma sound_packet:
  "sound_messages A self [\<lparr>sm_id = i, sm_msg = SendPacket ch x tmo, sm_reply_on = ro, sm_payload = pl\<rparr>]"
  by (simp add: sound_messages_def own_sub_def)

lemma execute_transfer_cases:
  assumes "execute_transfer A self time sender funds msg s = (r, s')"
  obtains (early) "s' = s" "\<And>x. r \<noteq> Ok x"
    | (ics20) coins fee input cx where "api_coins A funds = Some coins"
      "ti_tokens input = map (\<lambda>c. token_of_coin c (fee c)) coins"
      "wf_fees (tm_fees msg) \<Longrightarrow> \<forall>c. fee c \<le> u128_max" "cx_self cx = self"
      "rl_channel_info s (tm_channel msg) = Some (cx_channel cx)"
      "send (ics20_protocol A) A cx input (tm_memo msg) s = (r, s')"
    | (ucs01) coins fee input cx where "api_coins A funds = Some coins"
      "ti_tokens input = map (\<lambda>c. token_of_coin c (fee c)) coins"
      "wf_fees (tm_fees msg) \<Longrightarrow> \<forall>c. fee c \<le> u128_max" "cx_self cx = self"
      "rl_channel_info s (tm_channel msg) = Some (cx_channel cx)"
      "send (ucs01_protocol A) A cx input (tm_memo msg) s = (r, s')"
proof (cases "api_coins A funds")
  case None
  with assms show thesis by (intro early) (auto simp: execute_transfer_def)
next
  case (Some coins)
  define fee where "fee = (\<lambda>c :: coin.
    case (case tm_fees msg of None \<Rightarrow> Map.empty | Some fees \<Rightarrow> fees) (fst c) of None \<Rightarrow> 0 | Some fee \<Rightarrow> fee)"
  have fees: "wf_fees (tm_fees msg) \<Longrightarrow> \<forall>c. fee c \<le> u128_max"
    by (auto simp: fee_def wf_fees_def split: option.splits)
  let ?ts = "map (\<lambda>c. token_of_coin c (fee c)) coins"
  show thesis
  proof (cases "rl_channel_info s (tm_channel msg)")
    case None
    with assms Some show thesis
      by (intro early; cases "coins = []") (auto simp: execute_transfer_def load_channel_def)
  next
    case info: (Some ci)
    show thesis
    proof (cases "rl_config s")
      case None
      with assms \<open>api_coins A funds = Some coins\<close> info show thesis
        by (intro early; cases "coins = []") (auto simp: execute_transfer_def load_channel_def)
    next
      case (Some d)
      let ?input = "\<lparr>ti_current_time = time,
             ti_timeout_delta = (case tm_timeout msg of None \<Rightarrow> d | Some t \<Rightarrow> t),
             ti_sender = sender, ti_receiver = tm_receiver msg, ti_tokens = ?ts\<rparr>"
      let ?cx = "\<lparr>cx_self = self, cx_time = time, cx_sender = sender, cx_channel = ci\<rparr>"
      have run: "execute_transfer A self time sender funds msg s =
        (if ?ts = [] then (Err NoFunds, s)
         else if ci_protocol_version ci = pr_version (ics20_protocol A) then
           send (ics20_protocol A) A ?cx ?input (tm_memo msg) s
         else if ci_protocol_version ci = pr_version (ucs01_protocol A) then
           send (ucs01_protocol A) A ?cx ?input (tm_memo msg) s
         else (Err (UnknownProtocol (tm_channel msg) (ci_protocol_version ci)), s))"
        using \<open>api_coins A funds = Some coins\<close> info Some
        by (simp add: execute_transfer_def load_channel_def fee_def Let_def)
      from assms run consider "s' = s \<and> (\<forall>x. r \<noteq> Ok x)"
        | "send (ics20_protocol A) A ?cx ?input (tm_memo msg) s = (r, s')"
        | "send (ucs01_protocol A) A ?cx ?input (tm_memo msg) s = (r, s')"
        by (auto split: if_splits)
      then show thesis
      proof cases
        case 1
        then show thesis using early by blast
      next
        case 2
        show thesis by (rule ics20 [OF \<open>api_coins A funds = Some coins\<close> _ fees _ _ 2]) (simp_all add: info)
      next
        case 3
        show thesis by (rule ucs01 [OF \<open>api_coins A funds = Some coins\<close> _ fees _ _ 3]) (simp_all add: info)
      qed
    qed
  qed
qed

context relay_laws begin

lemma execute_transfer_Ok:
  assumes ok: "execute_transfer A self time sender funds msg s = (Ok r, s')"
    and books: "books_ok A self s" and can: "\<And>d n. (d, n) \<in> set funds \<Longrightarrow> 0 < n \<Longrightarrow> canon A self d"
  obtains ms ch x tmo f where
    "rs_messages r = map plain_msg ms @ [\<lparr>sm_id = IBC_SEND_ID, sm_msg = SendPacket ch x tmo, sm_reply_on = ReplyAlways, sm_payload = []\<rparr>]"
    "list_all (own_msg A self) ms" "book_only s s'" "books_ok A self s'"
    "\<And>e. escrowed s' e = escrowed s e + f e" "\<And>e. f e + taken_all self e ms \<le> amt funds e"
    "\<And>e. brought_all self e ms = 0"
proof -
  note result = that
  have fin: "finite (book s)" and names: "names_ok A s" using books by (simp_all add: books_ok_def)
  have finish: thesis
    if msgs: "rs_messages r = map plain_msg ms @ [\<lparr>sm_id = IBC_SEND_ID, sm_msg = SendPacket ch x tmo, sm_reply_on = ReplyAlways, sm_payload = []\<rparr>]"
      and own: "list_all (own_msg A self) ms" and lock: "locked s s' K f"
      and K: "K \<subseteq> {(c, tk_denom t) |t. t \<in> set (ti_tokens input)}"
      and f: "\<And>e. f e + taken_all self e ms = given e (ti_tokens input)" and b: "\<And>e. brought_all self e ms = 0"
      and coins: "api_coins A funds = Some coins" and ts: "ti_tokens input = map (\<lambda>c. token_of_coin c (fee c)) coins"
    for ms ch x tmo K f c input coins and fee :: "coin \<Rightarrow> nat"
  proof (rule result [OF msgs own _ _ _ _ b])
    have "canon A self (tk_denom t)" if "t \<in> set (ti_tokens input)" for t
      using that coins_subset [OF coins] coins_nonzero [OF coins] can
      by (force simp: ts token_of_coin_def)
    with K have "\<forall>k \<in> K. canon A self (snd k)" by auto
    moreover have "finite K" using finite_subset [OF K] by (simp add: setcompr_eq_image)
    ultimately show "books_ok A self s'" using lock books_ok_grow [OF books] by (simp add: locked_def)
    show "book_only s s'" "\<And>e. escrowed s' e = escrowed s e + f e" using lock by (simp_all add: locked_def)
    show "f e + taken_all self e ms \<le> amt funds e" for e
      using f [of e] amt_sub [OF coins_distinct [OF coins] coins_subset [OF coins], of e]
      by (simp add: ts given_coins)
  qed
  have canon: "\<forall>t \<in> set ts. canon A self (tk_denom t)"
    if "api_coins A funds = Some coins" "ts = map (\<lambda>c. token_of_coin c (fee c)) coins"
    for ts coins and fee :: "coin \<Rightarrow> nat"
    using coins_subset [OF that(1)] coins_nonzero [OF that(1)] can by (force simp: that(2) token_of_coin_def)
  have port: "ep_port_id (ci_endpoint ci) = own_port self" if "rl_channel_info s c = Some ci" for c ci
    using books that unfolding books_ok_def ports_ok_def by blast
  from ok show thesis
  proof (cases rule: execute_transfer_cases)
    case early
    then show thesis by blast
  next
    case (ics20 coins fee input cx)
    note cx = ics20(4)
    show thesis
      by (rule ics20.send_Ok [OF cx ics20(6) fin names])
        (use port [OF ics20(5)] canon [OF ics20(1,2)] finish [OF _ _ _ _ _ _ ics20(1,2)] in \<open>auto simp: cx\<close>)
  next
    case (ucs01 coins fee input cx)
    note cx = ucs01(4)
    show thesis
      by (rule ucs01.send_Ok [OF cx ucs01(6) fin names])
        (use port [OF ucs01(5)] canon [OF ucs01(1,2)] finish [OF _ _ _ _ _ _ ucs01(1,2)] in \<open>auto simp: cx\<close>)
  qed
qed

lemma execute_transfer_Err:
  assumes err: "execute_transfer A self time sender funds msg s = (Err x, s')"
    and books: "books_ok A self s" and can: "\<And>d n. (d, n) \<in> set funds \<Longrightarrow> 0 < n \<Longrightarrow> canon A self d"
    and coin: "\<And>d n. (d, n) \<in> set funds \<Longrightarrow> n \<le> u128_max" and fees: "wf_fees (tm_fees msg)"
    and out: "\<And>c e. outstanding s (c, e) \<le> 2 ^ 256"
  shows "s' = s"
proof -
  have names: "names_ok A s" using books by (simp add: books_ok_def)
  have port: "ep_port_id (ci_endpoint ci) = own_port self" if "rl_channel_info s c = Some ci" for c ci
    using books that unfolding books_ok_def ports_ok_def by blast
  have canon: "\<forall>t \<in> set ts. canon A self (tk_denom t)" and wf: "list_all wf_token ts"
    and fits: "outstanding s (c, e) + given e ts \<le> u512_max"
    if "api_coins A funds = Some coins" "ts = map (\<lambda>c. token_of_coin c (fee c)) coins" "\<forall>c. fee c \<le> u128_max"
    for ts coins c e and fee :: "coin \<Rightarrow> nat"
  proof -
    note sub = coins_subset [OF that(1)]
    show "\<forall>t \<in> set ts. canon A self (tk_denom t)"
      using sub coins_nonzero [OF that(1)] can by (force simp: that(2) token_of_coin_def)
    show "list_all wf_token ts"
      using sub coin that(3) by (force simp: that(2) token_of_coin_def wf_token_def list_all_iff)
    have "amt coins e \<le> u128_max"
    proof (cases "map_of coins e")
      case (Some n)
      then have "(e, n) \<in> set funds" using sub map_of_SomeD by fastforce
      with Some coin show ?thesis by (simp add: amt_distinct [OF coins_distinct [OF that(1)]])
    qed (simp add: amt_distinct [OF coins_distinct [OF that(1)]])
    then have "given e ts \<le> u128_max" by (simp add: that(2) given_coins)
    then have "outstanding s (c, e) + given e ts \<le> 2 ^ 256 + u128_max" using out [of c e] by linarith
    also have "\<dots> \<le> u512_max" by simp
    finally show "outstanding s (c, e) + given e ts \<le> u512_max" .
  qed
  from err show ?thesis
  proof (cases rule: execute_transfer_cases)
    case early
    then show ?thesis by blast
  next
    case (ics20 coins fee input cx)
    note fee = ics20(3) [OF fees]
    show ?thesis
      by (rule ics20.send_Err [OF ics20(4,6) names _ _ wf [OF ics20(1,2) fee] fits [OF ics20(1,2) fee]])
        (use port [OF ics20(5)] canon [OF ics20(1,2) fee] in \<open>simp_all add: ics20(4)\<close>)
  next
    case (ucs01 coins fee input cx)
    note fee = ucs01(3) [OF fees]
    show ?thesis
      by (rule ucs01.send_Err [OF ucs01(4,6) names _ _ wf [OF ucs01(1,2) fee] fits [OF ucs01(1,2) fee]])
        (use port [OF ucs01(5)] canon [OF ucs01(1,2) fee] in \<open>simp_all add: ucs01(4)\<close>)
  qed
qed

end

end
