(* ===== verification/Ucs01_System.thy ===== *)
theory Ucs01_System imports Ucs01_Solvency begin

text \<open>
  The accounts of the packets received, forwarded, acknowledged and timed out, and from them the
  invariant of every state the contract reaches on the chain.
\<close>

section \<open>Forwarding\<close>

lemma with_payload_kept:
  "with_payload i pl subs = Some subs' \<Longrightarrow>
   map sm_msg subs' = map sm_msg subs \<and> map sm_reply_on subs' = map sm_reply_on subs"
  by (induction subs arbitrary: subs') (auto split: if_splits)

lemma sound_same:
  "map sm_msg subs' = map sm_msg subs \<Longrightarrow> map sm_reply_on subs' = map sm_reply_on subs \<Longrightarrow>
   sound_messages A self subs' = sound_messages A self subs"
proof (induction subs arbitrary: subs')
  case (Cons sub subs)
  then obtain x xs where subs': "subs' = x # xs" "sm_msg x = sm_msg sub" "sm_reply_on x = sm_reply_on sub"
    "map sm_msg xs = map sm_msg subs" "map sm_reply_on xs = map sm_reply_on subs"
    by (cases subs') auto
  with Cons.IH [of xs] show ?case by (auto simp: sound_messages_def own_sub_def)
qed simp

lemma moves_same:
  assumes "map sm_msg subs' = map sm_msg subs"
  shows "subs_taken self e subs' = subs_taken self e subs" "subs_brought self e subs' = subs_brought self e subs"
proof -
  have "map (\<lambda>m. taken_all self e (batch m)) (map sm_msg subs') = map (\<lambda>m. taken_all self e (batch m)) (map sm_msg subs)"
    "map (\<lambda>m. brought_all self e (batch m)) (map sm_msg subs') = map (\<lambda>m. brought_all self e (batch m)) (map sm_msg subs)"
    unfolding assms by simp_all
  then show "subs_taken self e subs' = subs_taken self e subs" "subs_brought self e subs' = subs_brought self e subs"
    by (simp_all add: o_def)
qed

lemma with_payload_defined: "sm_id sub = i \<Longrightarrow> with_payload i pl (xs @ [sub]) \<noteq> None"
  by (induction xs) auto

lemma wf_remap: "wf_fees fees \<Longrightarrow> wf_fees (remap_fees nts fees)"
proof (induction nts fees rule: remap_fees.induct)
  case (2 t ts fees)
  show ?case
  proof (cases fees)
    case None
    with 2 show ?thesis by simp
  next
    case (Some m)
    have "wf_fees (case m (ntk_origin_denom t) of None \<Rightarrow> Some m
        | Some fee \<Rightarrow> Some (m(ntk_origin_denom t := None, tk_denom (ntk_token t) \<mapsto> fee)))"
      using 2(2) unfolding Some by (auto simp: wf_fees_def split: option.splits if_splits)
    with 2(1) show ?thesis by (simp add: Some)
  qed
qed simp

lemma wf_forward_fees [simp]: "pf_fees (with_fees f fees) = fees"
  by (simp add: with_fees_def)

lemma batch_batch [simp]: "batch (WasmExecute c (BatchExecute ms) fs) = ms"
  by simp

lemma sound_batch:
  "list_all (own_msg A self) ms \<Longrightarrow> sound_messages A self [plain_msg (WasmExecute self (BatchExecute ms) [])]"
  by (auto simp: sound_messages_def own_sub_def)

definition own_channel :: "string \<Rightarrow> relay_ctx \<Rightarrow> bool" where
  "own_channel self cx \<longleftrightarrow> cx_self cx = self \<and> ep_port_id (ci_endpoint (cx_channel cx)) = own_port self"

context transfer_protocol begin

lemma receive_transfer_cases:
  assumes "receive_transfer P A cx rcv ts cf s = (r, s')"
  obtains (early) "s' = s" "\<And>x. r \<noteq> Ok x"
    | (Ok) rcv' nts ms where "pr_addr_of P rcv = Ok rcv'"
      "receive_phase1_transfer A (cx_self cx) (ci_endpoint (cx_channel cx)) (ci_counterparty_endpoint (cx_channel cx))
         rcv' (cx_sender cx) ts cf s = (Ok (nts, ms), s')"
      "r = Ok (nts, [WasmExecute (cx_self cx) (BatchExecute ms) []])"
    | (fail) rcv' r' where "pr_addr_of P rcv = Ok rcv'"
      "receive_phase1_transfer A (cx_self cx) (ci_endpoint (cx_channel cx)) (ci_counterparty_endpoint (cx_channel cx))
         rcv' (cx_sender cx) ts cf s = (r', s')" "\<And>x. r \<noteq> Ok x"
proof (cases "pr_addr_of P rcv")
  case rcv': (Ok rcv')
  obtain r' s1 where p: "receive_phase1_transfer A (cx_self cx) (ci_endpoint (cx_channel cx))
      (ci_counterparty_endpoint (cx_channel cx)) rcv' (cx_sender cx) ts cf s = (r', s1)" by fastforce
  show thesis
  proof (cases r')
    case r': (Ok x)
    obtain nts ms where "x = (nts, ms)" by (cases x)
    with assms rcv' p r' show thesis
      by (intro Ok [of rcv' nts ms]) (auto simp: receive_transfer_def batch_submessages_def)
  qed (use assms rcv' p fail [of rcv' r'] in \<open>auto simp: receive_transfer_def\<close>)
qed (use assms early in \<open>auto simp: receive_transfer_def\<close>)

lemma receive_transfer_shrinks:
  assumes "receive_transfer P A cx rcv ts cf s = (r, s')" "finite (book s)"
  shows "shrunk s s'"
  using assms(1)
proof (cases rule: receive_transfer_cases)
  case early
  then show ?thesis by (simp add: shrunk_refl)
qed (use receive_phase1_shrinks assms(2) in blast)+

lemma packet_forward_accounts:
  assumes run: "packet_forward P A cx packet original forward s = (r, s')" and cx: "own_channel self cx"
    and books: "books_ok A self s" and bound: "\<And>e. escrowed s e \<le> 2 ^ 256"
    and wf: "list_all wf_token (pr_tokens P packet)" and fees: "wf_fees (pf_fees forward)"
  shows "(\<forall>x. r = Ok x \<longrightarrow> accounted A self (\<lambda>_. 0) s s' (rs_messages x)) \<and>
    (\<forall>x. r = Err x \<longrightarrow> books_ok A self s' \<and> (\<forall>e. escrowed s' e \<le> escrowed s e))"
proof (cases "pr_self_addr_canonical P (cx_self cx)")
  case (Ok me)
  have self: "cx_self cx = self" using cx by (simp add: own_channel_def)
  have fin: "finite (book s)" using books by (simp add: books_ok_def)
  obtain r1 s1 where recv: "receive_transfer P A cx me (pr_tokens P packet) False s = (r1, s1)" by fastforce
  have shr: "shrunk s s1" using receive_transfer_shrinks [OF recv fin] .
  have books1: "books_ok A self s1" using shr books books_ok_same by (auto simp: shrunk_def)
  show ?thesis
  proof (cases r1)
    case r1: (Ok x)
    from recv r1 obtain rcv' nts ms where rcv': "pr_addr_of P me = Ok rcv'"
      and p1: "receive_phase1_transfer A self (ci_endpoint (cx_channel cx)) (ci_counterparty_endpoint (cx_channel cx))
         rcv' (cx_sender cx) (pr_tokens P packet) False s = (Ok (nts, ms), s1)"
      and x: "x = (nts, [WasmExecute self (BatchExecute ms) []])"
      by (cases rule: receive_transfer_cases) (auto simp: self)
    have rcv: "rcv' = self" using self_addr [OF Ok [unfolded self] rcv'] .
    note got = receive_phase1_Ok [OF p1 [unfolded rcv] fin]
    let ?coins = "map (\<lambda>t. (tk_denom (ntk_token t), tk_amount (ntk_token t))) nts"
    let ?fwd = "with_fees forward (remap_fees nts (pf_fees forward))"
    have coins: "?coins = map coin_of nts" by (simp add: coin_of_def)
    obtain r2 s2 where fwd: "forward_transfer_packet P A cx ?coins original ?fwd (cx_self cx) s1 = (r2, s2)" by fastforce
    have can: "canon A self d" if "(d, n) \<in> set ?coins" for d n
    proof -
      from that obtain nt where nt: "nt \<in> set nts" "d = tk_denom (ntk_token nt)" by auto
      have "\<forall>k \<in> book s. canon A self (snd k)" using books by (simp add: books_ok_def)
      with got(7) [OF nt(1)] canon_factory show ?thesis unfolding nt(2) by (metis snd_conv)
    qed
    have small: "n \<le> u128_max" if "(d, n) \<in> set ?coins" for d n
    proof -
      from that have "n \<in> set (map (tk_amount \<circ> ntk_token) nts)" by auto
      with got(6) wf show ?thesis by (auto simp: list_all_iff wf_token_def)
    qed
    have bound1: "outstanding s1 (c, e) \<le> 2 ^ 256" for c e
    proof -
      have "outstanding s1 (c, e) \<le> escrowed s1 e" using outstanding_le_escrowed shr fin by (simp add: shrunk_def)
      also have "\<dots> \<le> escrowed s e" using shr by (simp add: shrunk_def)
      finally show ?thesis using bound [of e] by linarith
    qed
    show ?thesis
    proof (cases "get_effective_timeout A ?fwd")
      case tmo: (Ok tmo)
      let ?msg = "\<lparr>tm_channel = pf_channel ?fwd, tm_receiver = pf_receiver ?fwd, tm_timeout = Some tmo,
        tm_memo = (case pf_next ?fwd of Some next \<Rightarrow> api_memo_json A (MemoForward next) | None \<Rightarrow> []),
        tm_fees = pf_fees ?fwd\<rparr>"
      obtain r3 s3 where tr: "execute_transfer A self (cx_time cx) self ?coins ?msg s1 = (r3, s3)" by fastforce
      have msg_fees: "wf_fees (tm_fees ?msg)" using wf_remap [OF fees] by simp
      show ?thesis
      proof (cases r3)
        case r3: (Ok t)
        obtain ms2 ch x2 tmo2 f where
          t: "rs_messages t = map plain_msg ms2 @ [\<lparr>sm_id = IBC_SEND_ID, sm_msg = SendPacket ch x2 tmo2, sm_reply_on = ReplyAlways, sm_payload = []\<rparr>]"
          and own: "list_all (own_msg A self) ms2" and books3: "books_ok A self s3"
          and esc: "\<And>e. escrowed s3 e = escrowed s1 e + f e"
          and given: "\<And>e. f e + taken_all self e ms2 \<le> amt ?coins e" and none: "\<And>e. brought_all self e ms2 = 0"
          by (rule execute_transfer_Ok [OF tr [unfolded r3] books1 can]) blast+
        obtain subs where subs: "with_payload IBC_SEND_ID (api_in_flight_json A
            \<lparr>if_origin_sender_addr = cx_sender cx, if_origin_protocol_version = pr_version P,
             if_origin_packet = original, if_forward_src_channel_id = pf_channel ?fwd,
             if_forward_src_port_id = pf_port ?fwd, if_forward_timeout = tmo\<rparr>) (rs_messages t) = Some subs"
          using with_payload_defined [of "\<lparr>sm_id = IBC_SEND_ID, sm_msg = SendPacket ch x2 tmo2, sm_reply_on = ReplyAlways, sm_payload = []\<rparr>" IBC_SEND_ID _ "map plain_msg ms2"]
          unfolding t by fastforce
        note kept = with_payload_kept [OF subs]
        let ?out = "subs @ [plain_msg (WasmExecute self (BatchExecute ms) [])]"
        have r: "\<exists>y. r = Ok y \<and> rs_messages y = ?out" and s': "s' = s3"
          using run Ok recv r1 x tmo tr r3 subs
          by (auto simp: packet_forward_def forward_transfer_packet_def self Let_def)
        have sound0: "sound_messages A self (rs_messages t)"
          unfolding t sound_append using sound_plain [OF own] sound_packet by blast
        have sound: "sound_messages A self ?out"
          unfolding sound_append using sound_same [of subs "rs_messages t"] kept sound0 sound_batch [OF got(3)] by simp
        have "escrowed s3 e + subs_taken self e ?out \<le> escrowed s e + 0 + subs_brought self e ?out" for e
        proof -
          have "subs_taken self e subs = taken_all self e ms2" "subs_brought self e subs = 0"
            using kept moves_same [of subs "rs_messages t" self e] plain_moves [OF own, of e] none [of e]
            by (simp_all add: t)
          moreover have "escrowed s1 e + unescrowed_all (ci_counterparty_endpoint (cx_channel cx)) e (pr_tokens P packet) = escrowed s e"
            using got(1) by (simp add: released_def)
          moreover have "taken_all self e ms = 0"
            "unescrowed_all (ci_counterparty_endpoint (cx_channel cx)) e (pr_tokens P packet) + brought_all self e ms = amt ?coins e"
            using got(4,5) unfolding coins by blast+
          moreover have "subs_taken self e ?out = subs_taken self e subs + taken_all self e ms"
            "subs_brought self e ?out = subs_brought self e subs + brought_all self e ms" by simp_all
          ultimately show ?thesis using esc [of e] given [of e] by linarith
        qed
        with sound books3 r show ?thesis by (auto simp: accounted_def s')
      next
        case (Err y)
        have "s3 = s1"
          by (rule execute_transfer_Err [OF tr [unfolded Err] books1 can small msg_fees bound1])
        with run Ok recv r1 x tmo tr Err books1 shr show ?thesis
          by (auto simp: packet_forward_def forward_transfer_packet_def self Let_def shrunk_def)
      qed (use run Ok recv r1 x tmo tr in \<open>auto simp: packet_forward_def forward_transfer_packet_def self Let_def\<close>)
    qed (use run Ok recv r1 x books1 shr in \<open>auto simp: packet_forward_def forward_transfer_packet_def self Let_def shrunk_def\<close>)
  qed (use run Ok recv books1 shr in \<open>auto simp: packet_forward_def shrunk_def\<close>)
qed (use run books in \<open>auto simp: packet_forward_def\<close>)

text \<open>A packet received: what an error leaves behind is only ever a release.\<close>

lemma accounted_nothing:
  "books_ok A self s' \<Longrightarrow> (\<And>e. escrowed s' e \<le> escrowed s e) \<Longrightarrow> accounted A self (\<lambda>_. 0) s s' []"
  by (simp add: accounted_def sound_messages_def)

lemma receive_accounts:
  assumes run: "receive P A cx original s = (Ok r, s')" and cx: "own_channel self cx"
    and books: "books_ok A self s" and bound: "\<And>e. escrowed s e \<le> 2 ^ 256"
  shows "accounted A self (\<lambda>_. 0) s s' (rs_messages r)"
proof -
  have self: "cx_self cx = self" using cx by (simp add: own_channel_def)
  have fin: "finite (book s)" using books by (simp add: books_ok_def)
  obtain r1 s1 where h: "receive_handle P A cx original s = (r1, s1)" by fastforce
  have s': "s' = s1" using run h by (cases r1) (auto simp: receive_def)
  have no_messages: "rs_messages r = []" if "r1 = Err x" for x
    using run h that by (auto simp: receive_def receive_error_def)
  show ?thesis
  proof (cases "pr_decode P (cp_data original)")
    case (Ok packet)
    note wf = decoded_wf [OF Ok]
    show ?thesis
    proof (cases "\<exists>forward. api_memo_of_json A (pr_extension P packet) = Inr (MemoForward forward)")
      case True
      then obtain forward where memo: "api_memo_of_json A (pr_extension P packet) = Inr (MemoForward forward)" by blast
      have fwd: "packet_forward P A cx packet original forward s = (r1, s1)"
        using h Ok memo by (simp add: receive_handle_def)
      note acc = packet_forward_accounts [OF fwd cx books bound wf memo_fees [OF memo]]
      show ?thesis
      proof (cases r1)
        case (Ok x)
        with run h acc show ?thesis by (simp add: receive_def s')
      next
        case (Err x)
        show ?thesis unfolding s' no_messages [OF Err] using acc Err by (intro accounted_nothing) auto
      qed (use run h in \<open>simp add: receive_def\<close>)
    next
      case False
      obtain r2 s2 where recv: "receive_transfer P A cx (pr_receiver P packet) (pr_tokens P packet) True s = (r2, s2)"
        by fastforce
      have plain: "receive_handle P A cx original s =
        seqp (receive_transfer P A cx (pr_receiver P packet) (pr_tokens P packet) True) (\<lambda>(_, transfer_msgs).
        seqp (lift_outcome Arithmetic (tokens_to_attr A (pr_tokens P packet))) (\<lambda>attrs.
        ret \<lparr>rs_messages = map (\<lambda>m. \<lparr>sm_id = pr_receive_reply_id P, sm_msg = m, sm_reply_on = ReplyError,
               sm_payload = []\<rparr>) transfer_msgs,
             rs_events = [(''fungible_token_packet'', memo_attr (pr_extension P packet) @
               [(''module'', ''transfer''), (''sender'', pr_addr_text P (pr_sender P packet)),
                (''receiver'', pr_addr_text P (pr_receiver P packet)), (''success'', ''true'')] @ attrs)],
             rs_data = Some (pr_ack_success P)\<rparr>)) s"
        using Ok False by (auto simp: receive_handle_def split: sum.splits memo.splits)
      have shr: "shrunk s s2" using receive_transfer_shrinks [OF recv fin] .
      have books2: "books_ok A self s2" using shr books books_ok_same by (auto simp: shrunk_def)
      have s1: "s1 = s2" using h recv unfolding plain
        by (cases r2; cases "tokens_to_attr A (pr_tokens P packet)") auto
      show ?thesis
      proof (cases r1)
        case r1: (Ok x)
        with h recv obtain y where r2: "r2 = Ok y" unfolding plain by (cases r2) auto
        from recv r2 obtain rcv' nts ms where
          p1: "receive_phase1_transfer A self (ci_endpoint (cx_channel cx)) (ci_counterparty_endpoint (cx_channel cx))
             rcv' (cx_sender cx) (pr_tokens P packet) True s = (Ok (nts, ms), s2)"
          and y: "y = (nts, [WasmExecute self (BatchExecute ms) []])"
          by (cases rule: receive_transfer_cases) (auto simp: self)
        note got = receive_phase1_Ok [OF p1 fin]
        let ?sub = "\<lparr>sm_id = pr_receive_reply_id P, sm_msg = WasmExecute self (BatchExecute ms) [],
          sm_reply_on = ReplyError, sm_payload = []\<rparr>"
        have x: "rs_messages x = [?sub]" using h recv r2 y r1 unfolding plain
          by (cases "tokens_to_attr A (pr_tokens P packet)") auto
        have "escrowed s2 e + taken_all self e ms \<le> escrowed s e + 0" for e
        proof -
          have "escrowed s2 e + unescrowed_all (ci_counterparty_endpoint (cx_channel cx)) e (pr_tokens P packet) = escrowed s e"
            using got(1) by (simp add: released_def)
          with got(2) [of e] show ?thesis by linarith
        qed
        with got(3) books2 have "accounted A self (\<lambda>_. 0) s s2 [?sub]"
          by (simp add: accounted_def own_sub_def)
        with run h r1 x show ?thesis by (simp add: receive_def s' s1)
      next
        case (Err x)
        show ?thesis unfolding s' no_messages [OF Err] using books2 shr by (intro accounted_nothing) (auto simp: s1 shrunk_def)
      qed (use run h in \<open>simp add: receive_def\<close>)
    qed
  next
    case (Err x)
    then have r1: "r1 = Err x" and s1: "s1 = s" using h by (auto simp: receive_handle_def)
    show ?thesis unfolding s' s1 no_messages [OF r1] using books by (intro accounted_nothing) auto
  next
    case Panic
    with run h show ?thesis by (auto simp: receive_handle_def receive_def)
  qed
qed

section \<open>Acknowledgements and timeouts\<close>

lemma send_tokens_failure_accounts:
  assumes "send_tokens_failure P A cx sender ts s = (Ok ms, s')" "own_channel self cx" "books_ok A self s"
  shows "books_ok A self s'" "list_all (own_msg A self) ms" "escrowed s' e + taken_all self e ms \<le> escrowed s e"
proof -
  from assms(1,2) obtain rcv where
    r: "for_tokens A (refund_on_local rcv) (refund_on_remote rcv) self (ci_endpoint (cx_channel cx)) ts s = (Ok ms, s')"
    by (auto simp: send_tokens_failure_def prog_ok own_channel_def)
  have fin: "finite (book s)" using assms(3) by (simp add: books_ok_def)
  note ref = refund_tokens_Ok [OF r fin]
  show "books_ok A self s'" "list_all (own_msg A self) ms"
    using ref(1,3) books_ok_same [OF assms(3)] by (simp_all add: released_def)
  have "escrowed s' e + escrows_all (ci_endpoint (cx_channel cx)) e ts = escrowed s e"
    using ref(1) by (simp add: released_def)
  with ref(2) [of e] show "escrowed s' e + taken_all self e ms \<le> escrowed s e" by linarith
qed

lemma in_flight_aside [simp]:
  "books_ok A self (s\<lparr>rl_in_flight := m\<rparr>) = books_ok A self s"
  "escrowed (s\<lparr>rl_in_flight := m\<rparr>) e = escrowed s e"
  by (simp_all add: books_ok_def names_ok_def ports_ok_def escrowed_def outstanding_def)

lemma pfm_ack_accounts:
  assumes run: "pfm_ack P A cx ack p info sender ts s = (Ok (ms, attrs), s')" and cx: "own_channel self cx"
    and books: "books_ok A self s"
  shows "books_ok A self s'" "list_all (own_msg A self) ms" "escrowed s' e + taken_all self e ms \<le> escrowed s e"
proof -
  obtain ms0 s1 i where ms: "ms = ms0 @ [i]" and i: "own_msg A self i" "taken self e i = 0"
    and s': "\<exists>m. s' = s1\<lparr>rl_in_flight := m\<rparr>"
    and s1: "(ms0 = [] \<and> s1 = s) \<or> send_tokens_failure P A cx sender ts s = (Ok ms0, s1)"
  proof (cases "pr_convert_ack P (if_origin_protocol_version info) ack")
    case (Ok ack')
    show thesis
    proof (cases ack')
      case (Inl err)
      with run Ok obtain a s1 where f: "send_tokens_failure P A cx sender ts s = (Ok a, s1)"
        and "ms = a @ [WriteDeferredAck (cx_self cx) (deferred_info (if_origin_packet info)) err]"
        and "\<exists>m. s' = s1\<lparr>rl_in_flight := m\<rparr>"
        by (auto simp: pfm_ack_def prog_ok)
      then show thesis by (intro that) auto
    next
      case (Inr v)
      with run Ok have "ms = [] @ [WriteDeferredAck (cx_self cx) (deferred_info (if_origin_packet info)) v]"
        and "\<exists>m. s' = s\<lparr>rl_in_flight := m\<rparr>"
        by (auto simp: pfm_ack_def send_tokens_success_def prog_ok)
      then show thesis by (intro that) auto
    qed
  qed (use run in \<open>auto simp: pfm_ack_def\<close>)
  from s1 have "books_ok A self s1 \<and> list_all (own_msg A self) ms0 \<and> escrowed s1 e + taken_all self e ms0 \<le> escrowed s e"
    using books send_tokens_failure_accounts [OF _ cx books] by auto
  with s' i show "books_ok A self s'" "list_all (own_msg A self) ms" "escrowed s' e + taken_all self e ms \<le> escrowed s e"
    by (auto simp: ms)
qed

lemma refund_accounted:
  assumes "books_ok A self s'" "list_all (own_msg A self) ms" "\<And>e. escrowed s' e + taken_all self e ms \<le> escrowed s e"
  shows "accounted A self (\<lambda>_. 0) s s' (map plain_msg ms)"
proof -
  have "escrowed s' e + subs_taken self e (map plain_msg ms) \<le> escrowed s e + 0 + subs_brought self e (map plain_msg ms)" for e
    using assms(3) [of e] plain_moves [OF assms(2), of e] by linarith
  with assms(1) sound_plain [OF assms(2)] show ?thesis unfolding accounted_def by blast
qed

lemma send_ack_accounts:
  assumes run: "send_ack P A cx bs p s = (Ok r, s')" and cx: "own_channel self cx" and books: "books_ok A self s"
  shows "accounted A self (\<lambda>_. 0) s s' (rs_messages r)"
proof -
  obtain ms where r: "rs_messages r = map plain_msg ms"
    and "(\<exists>ack info sender ts at. pfm_ack P A cx ack p info sender ts s = (Ok (ms, at), s')) \<or>
      (\<exists>sender ts. send_tokens_failure P A cx sender ts s = (Ok ms, s')) \<or> (ms = [] \<and> s' = s)"
  proof (cases "rl_in_flight s (ep_channel_id (cp_src p), ep_port_id (cp_src p), cp_sequence p)")
    case None
    show thesis
    proof (cases "pr_decode_ack P bs")
      case (Ok ack)
      with None run obtain x ms where "rs_messages r = map plain_msg ms"
        and "send_tokens_failure P A cx (pr_sender P x) (pr_tokens P x) s = (Ok ms, s') \<or> (ms = [] \<and> s' = s)"
        by (cases ack) (fastforce simp: send_ack_def get_in_flight_packet_def send_tokens_success_def prog_ok)+
      then show thesis by (intro that [of ms]) blast+
    qed (use run in \<open>auto simp: send_ack_def prog_ok\<close>)
  next
    case (Some info)
    with run that show thesis by (fastforce simp: send_ack_def get_in_flight_packet_def prog_ok)
  qed
  then have "books_ok A self s' \<and> list_all (own_msg A self) ms \<and> (\<forall>e. escrowed s' e + taken_all self e ms \<le> escrowed s e)"
    using books pfm_ack_accounts [OF _ cx books] send_tokens_failure_accounts [OF _ cx books] by auto
  then show ?thesis unfolding r by (intro refund_accounted) auto
qed

lemma send_timeout_accounts:
  assumes run: "send_timeout P A cx p s = (Ok r, s')" and cx: "own_channel self cx" and books: "books_ok A self s"
  shows "accounted A self (\<lambda>_. 0) s s' (rs_messages r)"
proof -
  obtain ms where r: "rs_messages r = map plain_msg ms"
    and "(\<exists>ack info sender ts at. pfm_ack P A cx ack p info sender ts s = (Ok (ms, at), s')) \<or>
      (\<exists>sender ts. send_tokens_failure P A cx sender ts s = (Ok ms, s'))"
  proof (cases "rl_in_flight s (ep_channel_id (cp_src p), ep_port_id (cp_src p), cp_sequence p)")
    case None
    with run obtain x ms where "send_tokens_failure P A cx (pr_sender P x) (pr_tokens P x) s = (Ok ms, s')"
      and "rs_messages r = map plain_msg ms"
      by (auto simp: send_timeout_def get_in_flight_packet_def prog_ok)
    then show thesis by (intro that [of ms]) blast+
  next
    case (Some info)
    with run that show thesis by (fastforce simp: send_timeout_def get_in_flight_packet_def prog_ok)
  qed
  then have "books_ok A self s' \<and> list_all (own_msg A self) ms \<and> (\<forall>e. escrowed s' e + taken_all self e ms \<le> escrowed s e)"
    using pfm_ack_accounts [OF _ cx books] send_tokens_failure_accounts [OF _ cx books] by auto
  then show ?thesis unfolding r by (intro refund_accounted) auto
qed

end

section \<open>Every transaction\<close>

definition received :: "relay_event \<Rightarrow> string \<Rightarrow> nat" where
  "received ev e = (case ev of UserExecute sender funds msg \<Rightarrow> amt funds e | _ \<Rightarrow> 0)"

lemma on_channel_Ok:
  assumes "on_channel A self time relayer c d ics20 ucs01 s = (Ok r, s')" "ports_ok self s"
  obtains cx where "own_channel self cx" "ics20 cx s = (Ok r, s') \<or> ucs01 cx s = (Ok r, s')"
proof -
  from assms(1) obtain ci where ci: "rl_channel_info s c = Some ci"
    and "let cx = \<lparr>cx_self = self, cx_time = time, cx_sender = relayer, cx_channel = ci\<rparr>
      in ics20 cx s = (Ok r, s') \<or> ucs01 cx s = (Ok r, s')"
    by (auto simp: on_channel_def load_channel_def prog_ok Let_def split: if_splits)
  with assms(2) that [of "\<lparr>cx_self = self, cx_time = time, cx_sender = relayer, cx_channel = ci\<rparr>"]
  show thesis by (auto simp: own_channel_def ports_ok_def Let_def)
qed

lemma accounted_kept:
  assumes "books_ok A self s'" "rl_channel_state s' = rl_channel_state s"
  shows "accounted A self f s s' []"
proof -
  have "escrowed s' e = escrowed s e" for e using assms(2) by (simp add: escrowed_def outstanding_def)
  with assms(1) show ?thesis by (simp add: accounted_def sound_messages_def)
qed

context relay_laws begin

lemma relay_execute_accounts:
  assumes run: "relay_execute A self time sender funds msg s = (Ok r, s')" and user: "sender \<noteq> self"
    and books: "books_ok A self s" and can: "\<And>d n. (d, n) \<in> set funds \<Longrightarrow> 0 < n \<Longrightarrow> canon A self d"
  shows "accounted A self (amt funds) s s' (rs_messages r)"
proof (cases msg)
  case (Transfer m)
  with run have tr: "execute_transfer A self time sender funds m s = (Ok r, s')" by (simp add: relay_execute_def)
  obtain ms ch x tmo f where
    r: "rs_messages r = map plain_msg ms @ [\<lparr>sm_id = IBC_SEND_ID, sm_msg = SendPacket ch x tmo, sm_reply_on = ReplyAlways, sm_payload = []\<rparr>]"
    and own: "list_all (own_msg A self) ms" and books': "books_ok A self s'"
    and esc: "\<And>e. escrowed s' e = escrowed s e + f e"
    and given: "\<And>e. f e + taken_all self e ms \<le> amt funds e" and none: "\<And>e. brought_all self e ms = 0"
    by (rule execute_transfer_Ok [OF tr books can]) blast+
  have "sound_messages A self (rs_messages r)"
    unfolding r sound_append using sound_plain [OF own] sound_packet by blast
  moreover have "escrowed s' e + subs_taken self e (rs_messages r) \<le> escrowed s e + amt funds e + subs_brought self e (rs_messages r)" for e
    using esc [of e] given [of e] plain_moves [OF own, of e] by (simp add: r)
  ultimately show ?thesis using books' by (simp add: accounted_def)
next
  case (UpdateAdmin admin)
  with run obtain new where s': "s' = s\<lparr>rl_admin := new\<rparr>" and r: "r = no_response"
    by (auto simp: relay_execute_def prog_ok)
  have "books_ok A self s'" using books by (simp add: s' books_ok_def names_ok_def ports_ok_def)
  then show ?thesis by (simp add: r no_response_def accounted_kept s')
qed (use run user in \<open>simp_all add: relay_execute_def\<close>)

lemma entry_point_accounts:
  assumes run: "entry_point A self time ev s = (Ok r, s')" and wf: "wf_event self ev"
    and books: "books_ok A self s" and bound: "\<And>e. escrowed s e \<le> 2 ^ 256"
    and can: "\<And>sender funds msg d n. ev = UserExecute sender funds msg \<Longrightarrow> (d, n) \<in> set funds \<Longrightarrow> 0 < n \<Longrightarrow> canon A self d"
  shows "accounted A self (received ev) s s' (rs_messages r)"
proof -
  have ports: "ports_ok self s" using books by (simp add: books_ok_def)
  show ?thesis
  proof (cases ev)
    case (UserExecute sender funds msg)
    have "received ev = amt funds" by (rule ext) (simp add: received_def UserExecute)
    with relay_execute_accounts [of time sender funds msg s r s'] run wf books can show ?thesis
      by (simp add: UserExecute entry_point_def wf_event_def)
  next
    case (PacketReceive relayer packet)
    have none: "received ev = (\<lambda>_. 0)" by (rule ext) (simp add: received_def PacketReceive)
    from run have on: "ibc_packet_receive A self time relayer packet s = (Ok r, s')" by (simp add: PacketReceive entry_point_def)
    obtain cx where cx: "own_channel self cx" and
      "receive (ics20_protocol A) A cx packet s = (Ok r, s') \<or> receive (ucs01_protocol A) A cx packet s = (Ok r, s')"
      by (rule on_channel_Ok [OF on [unfolded ibc_packet_receive_def] ports])
    then show ?thesis unfolding none
      using ics20.receive_accounts [OF _ cx books bound] ucs01.receive_accounts [OF _ cx books bound] by blast
  next
    case (PacketAck relayer ack packet)
    have none: "received ev = (\<lambda>_. 0)" by (rule ext) (simp add: received_def PacketAck)
    from run have on: "ibc_packet_ack A self time relayer ack packet s = (Ok r, s')" by (simp add: PacketAck entry_point_def)
    obtain cx where cx: "own_channel self cx" and
      "send_ack (ics20_protocol A) A cx ack packet s = (Ok r, s') \<or> send_ack (ucs01_protocol A) A cx ack packet s = (Ok r, s')"
      by (rule on_channel_Ok [OF on [unfolded ibc_packet_ack_def] ports])
    then show ?thesis unfolding none
      using ics20.send_ack_accounts [OF _ cx books] ucs01.send_ack_accounts [OF _ cx books] by blast
  next
    case (PacketTimeout relayer packet)
    have none: "received ev = (\<lambda>_. 0)" by (rule ext) (simp add: received_def PacketTimeout)
    from run have on: "ibc_packet_timeout A self time relayer packet s = (Ok r, s')" by (simp add: PacketTimeout entry_point_def)
    obtain cx where cx: "own_channel self cx" and
      "send_timeout (ics20_protocol A) A cx packet s = (Ok r, s') \<or> send_timeout (ucs01_protocol A) A cx packet s = (Ok r, s')"
      by (rule on_channel_Ok [OF on [unfolded ibc_packet_timeout_def] ports])
    then show ?thesis unfolding none
      using ics20.send_timeout_accounts [OF _ cx books] ucs01.send_timeout_accounts [OF _ cx books] by blast
  next
    case (ChannelConnect channel version)
    from run have s': "s' = s\<lparr>rl_channel_info :=
        (rl_channel_info s)(ep_channel_id (cc_endpoint channel) \<mapsto> info_of_channel channel)\<rparr>" and r: "r = no_response"
      by (auto simp: ChannelConnect entry_point_def ibc_channel_connect_def save_channel_def prog_ok)
    have "books_ok A self s'" using books wf
      by (auto simp: s' books_ok_def names_ok_def ports_ok_def wf_event_def ChannelConnect info_of_channel_def)
    then show ?thesis by (simp add: r no_response_def accounted_kept s')
  qed
qed

end

section \<open>Every reachable state\<close>

lemma relay_tx_inv:
  assumes laws: "relay_laws A self" and ledger: "ledger_laws L" and inv: "relay_inv A L self w"
    and wf: "wf_event self ev" and run: "relay_tx A L self time ev w = Inr (data, w')"
  shows "relay_inv A L self w'"
proof -
  let ?s = "wd_relay w"
  have books: "books_ok A self ?s" and den: "denoms_ok A L self (wd_ledger w)"
    and sol: "\<And>e. escrowed ?s e \<le> lg_balance L (wd_ledger w) self e"
    using inv by (simp_all add: relay_inv_def solvent_def)
  from run obtain b r s where b: "pay_funds L self ev (wd_ledger w) = Inr b"
    and e: "entry_point A self time ev ?s = (Ok r, s)"
    and d: "dispatch A L self time r \<lparr>wd_relay = s, wd_ledger = b\<rparr> = Inr (data, w')"
    by (auto simp: relay_tx_def split: sum.splits prod.splits outcome.splits)
  have bound: "escrowed ?s x \<le> 2 ^ 256" for x
    using sol [of x] ledger_laws.balance_bound [OF ledger, of "wd_ledger w" self x] by linarith
  have can: "canon A self x" if "ev = UserExecute sender funds msg" "(x, n) \<in> set funds" "0 < n" for sender funds msg x n
    using b that den ledger_laws.send_known [OF ledger, of "wd_ledger w" sender self funds b x n]
    by (simp add: pay_funds_def denoms_ok_def)
  note acc = relay_laws.entry_point_accounts [OF laws e wf books bound can]
  have start: "escrowed ?s x + received ev x \<le> lg_balance L b self x" for x
  proof (cases ev)
    case (UserExecute sender funds msg)
    with b have sent: "lg_send L (wd_ledger w) sender self funds = Inr b" by (simp add: pay_funds_def)
    have "sender \<noteq> self" using wf by (simp add: UserExecute wf_event_def)
    with ledger_laws.send_balance [OF ledger sent, of self x] sol [of x] show ?thesis
      by (simp add: received_def UserExecute)
  qed (use b sol in \<open>simp_all add: pay_funds_def received_def\<close>)
  have den': "denoms_ok A L self b"
  proof (cases ev)
    case (UserExecute sender funds msg)
    with b have sent: "lg_send L (wd_ledger w) sender self funds = Inr b" by (simp add: pay_funds_def)
    with den ledger_laws.send_exists [OF ledger sent] show ?thesis by (simp add: denoms_ok_def)
  qed (use b den in \<open>simp_all add: pay_funds_def\<close>)
  from ledger_laws.dispatch_inv [OF ledger acc start den' d] show ?thesis .
qed

lemma relay_step_inv:
  assumes laws: "relay_laws A self" "ledger_laws L" and inv: "relay_inv A L self w" and step: "relay_step A L self w w'"
  shows "relay_inv A L self w'"
  using step
proof (cases rule: relay_step.cases)
  case (step_tx ev time data)
  with relay_tx_inv [OF laws inv] show ?thesis by blast
next
  case (step_others b)
  have "denoms_ok A L self b"
    using inv step_others(2) canon_others by (auto simp: relay_inv_def denoms_ok_def others_act_def)
  moreover have "escrowed (wd_relay w) d \<le> lg_balance L b self d" for d
    using inv step_others(2) by (meson relay_inv_def solvent_def others_act_def le_trans)
  ultimately show ?thesis using inv by (simp add: step_others(1) relay_inv_def solvent_def)
qed

lemma relay_instantiate_Ok:
  "relay_instantiate A self msg empty_relay = (Ok r, s) \<Longrightarrow>
   rl_channel_state s = Map.empty \<and> rl_hash_to_foreign s = Map.empty \<and> ports_ok self s"
  by (auto simp: relay_instantiate_def prog_ok save_channel_def empty_relay_def ports_ok_def info_of_channel_def
      own_port_def Let_def split: option.splits if_splits)

lemma relay_start_inv:
  assumes "relay_start A L self w"
  shows "relay_inv A L self w"
proof -
  from assms obtain msg r where i: "relay_instantiate A self msg empty_relay = (Ok r, wd_relay w)"
    and den: "\<And>d. lg_exists L (wd_ledger w) d \<Longrightarrow> others_name self d" by (auto simp: relay_start_def)
  from relay_instantiate_Ok [OF i] den canon_others show ?thesis
    by (auto simp: relay_inv_def books_ok_def names_ok_def denoms_ok_def solvent_def escrowed_def)
qed

lemma relay_reachable_inv:
  assumes "relay_laws A self" "ledger_laws L"
  shows "relay_reachable A L self w \<Longrightarrow> relay_inv A L self w"
proof (induction rule: relay_reachable.induct)
  case (reach_start w)
  then show ?case by (rule relay_start_inv)
next
  case (reach_step w w')
  then show ?case using relay_step_inv [OF assms] by blast
qed

end
