(* ===== verification/Ucs01_Refunds.thy ===== *)
theory Ucs01_Refunds imports Ucs01_System begin

text \<open>
  A refund undoes a sending: the books are as they were, and every token is paid back or minted
  again. The way of a token to the other chain and back.
\<close>

section \<open>Refunds\<close>

definition refund_msg :: "relay_api \<Rightarrow> string \<Rightarrow> ibc_endpoint \<Rightarrow> string \<Rightarrow> transfer_token \<Rightarrow> cw_msg" where
  "refund_msg A self ep receiver t =
     (case denom_origin (tk_denom t) ep of
        Local d \<Rightarrow> MintTokens (factory_denom self (hash_denom_str A (make_foreign_denom ep d))) (tk_amount t) receiver
      | Remote d \<Rightarrow> BankSend receiver [(d, tk_amount t)])"

lemma send_token_run:
  assumes "for_token A send_on_local (send_on_remote self) self ep t s = (Ok ms, s')"
  shows "amounts t \<noteq> Panic" "\<exists>a f. amounts t = Ok (a, f) \<and> a + f = tk_amount t \<and> tk_amount t \<le> u128_max"
    and "book_only s s'"
    and "outstanding s' k = outstanding s k + (if fst k = ep_channel_id ep then escrows ep (snd k) t else 0)"
    and "denom_origin (tk_denom t) ep = Remote d \<Longrightarrow> (ep_channel_id ep, d) \<in> book s'"
    and "book s \<subseteq> book s'"
proof -
  from assms obtain a f where af: "amounts t = Ok (a, f)"
    and rest: "(case denom_origin (tk_denom t) ep of
       Local denom \<Rightarrow> send_on_remote self (ep_channel_id ep)
         (factory_denom self (hash_denom_str A (make_foreign_denom ep denom))) a f
     | Remote denom \<Rightarrow> send_on_local (ep_channel_id ep) denom a f) s = (Ok ms, s')"
    by (auto simp: for_token_def prog_ok)
  have sum: "a + f = tk_amount t" using amounts_sum [OF af] .
  show "amounts t \<noteq> Panic" using af by simp
  have "(\<exists>a f. amounts t = Ok (a, f) \<and> a + f = tk_amount t \<and> tk_amount t \<le> u128_max) \<and> book_only s s' \<and>
    outstanding s' k = outstanding s k + (if fst k = ep_channel_id ep then escrows ep (snd k) t else 0) \<and>
    (denom_origin (tk_denom t) ep = Remote d \<longrightarrow> (ep_channel_id ep, d) \<in> book s') \<and> book s \<subseteq> book s'"
  proof (cases rule: denom_origin_cases [of "tk_denom t" ep])
    case (Local x)
    with rest sum af show ?thesis by (auto simp: send_on_remote_def prog_ok escrows_def)
  next
    case Remote
    with rest sum have "increase_outstanding (ep_channel_id ep) (tk_denom t) (tk_amount t) s = (Ok (), s')"
      and "tk_amount t \<le> u128_max"
      by (auto simp: send_on_local_def prog_ok)
    then have "s' = set_outstanding s (ep_channel_id ep, tk_denom t) (outstanding s (ep_channel_id ep, tk_denom t) + tk_amount t)"
      by (auto simp: increase_outstanding_def update_outstanding_def outstanding_def Let_def
          split: outcome.splits option.splits if_splits)
    with af sum Remote \<open>tk_amount t \<le> u128_max\<close> show ?thesis
      by (cases k) (auto simp: escrows_def outstanding_def book_only_def)
  qed
  then show "\<exists>a f. amounts t = Ok (a, f) \<and> a + f = tk_amount t \<and> tk_amount t \<le> u128_max" "book_only s s'"
    "outstanding s' k = outstanding s k + (if fst k = ep_channel_id ep then escrows ep (snd k) t else 0)"
    "denom_origin (tk_denom t) ep = Remote d \<Longrightarrow> (ep_channel_id ep, d) \<in> book s'" "book s \<subseteq> book s'" by blast+
qed

lemma refund_token_run:
  assumes af: "amounts t = Ok (a, f)" "a + f = tk_amount t" "tk_amount t \<le> u128_max"
    and enough: "\<And>d. denom_origin (tk_denom t) ep = Remote d \<Longrightarrow>
      (ep_channel_id ep, d) \<in> book s \<and> tk_amount t \<le> outstanding s (ep_channel_id ep, d)"
  shows "\<exists>s'. for_token A (refund_on_local rcv) (refund_on_remote rcv) self ep t s = (Ok [refund_msg A self ep rcv t], s') \<and>
    book_only s s' \<and> book s' = book s \<and>
    (\<forall>k. outstanding s' k = outstanding s k - (if fst k = ep_channel_id ep then escrows ep (snd k) t else 0))"
proof (cases rule: denom_origin_cases [of "tk_denom t" ep])
  case (Local x)
  with af show ?thesis
    by (auto simp: for_token_def refund_on_remote_def total_amount_def refund_msg_def escrows_def)
next
  case Remote
  from enough [OF Remote] obtain n where n: "rl_channel_state s (ep_channel_id ep, tk_denom t) = Some n" "tk_amount t \<le> n"
    by (auto simp: outstanding_def)
  then have "decrease_outstanding (ep_channel_id ep) (tk_denom t) (tk_amount t) s =
      (Ok (), set_outstanding s (ep_channel_id ep, tk_denom t) (n - tk_amount t))"
    by (simp add: decrease_outstanding_def update_outstanding_def)
  with af Remote n show ?thesis
    by (auto simp: for_token_def refund_on_local_def total_amount_def refund_msg_def escrows_def outstanding_def
        book_only_def)
qed

lemma send_tokens_run:
  assumes "mapp (for_token A send_on_local (send_on_remote self) self ep) ts s = (Ok mss, s')"
  shows "(\<forall>t \<in> set ts. \<exists>a f. amounts t = Ok (a, f) \<and> a + f = tk_amount t \<and> tk_amount t \<le> u128_max) \<and>
    book_only s s' \<and> book s \<subseteq> book s' \<and>
    (\<forall>k. outstanding s' k = outstanding s k + (if fst k = ep_channel_id ep then escrows_all ep (snd k) ts else 0)) \<and>
    (\<forall>t \<in> set ts. \<forall>d. denom_origin (tk_denom t) ep = Remote d \<longrightarrow> (ep_channel_id ep, d) \<in> book s')"
  using assms
proof (induction ts arbitrary: s mss)
  case Nil
  then show ?case by simp
next
  case (Cons t ts)
  let ?f = "for_token A send_on_local (send_on_remote self) self ep"
  from Cons.prems obtain y zs s1 where t: "?f t s = (Ok y, s1)" and ts: "mapp ?f ts s1 = (Ok zs, s')"
    by (auto simp: prog_ok)
  note one = send_token_run [OF t] and all = Cons.IH [OF ts]
  have "book_only s s'" using book_only_trans [OF one(3)] all by blast
  moreover have "outstanding s' k = outstanding s k + (if fst k = ep_channel_id ep then escrows_all ep (snd k) (t # ts) else 0)" for k
  proof -
    have "outstanding s' k = outstanding s1 k + (if fst k = ep_channel_id ep then escrows_all ep (snd k) ts else 0)"
      using all by blast
    with one(4) [of k] show ?thesis by simp
  qed
  moreover have sub: "book s1 \<subseteq> book s'" using all by blast
  have "(ep_channel_id ep, d) \<in> book s'" if "denom_origin (tk_denom t) ep = Remote d" for d
    using one(5) [OF that] sub by blast
  then have "\<forall>u \<in> set (t # ts). \<forall>d. denom_origin (tk_denom u) ep = Remote d \<longrightarrow> (ep_channel_id ep, d) \<in> book s'"
    using all by (simp only: list.set ball_simps(7)) blast
  moreover have "\<forall>u \<in> set (t # ts). \<exists>a f. amounts u = Ok (a, f) \<and> a + f = tk_amount u \<and> tk_amount u \<le> u128_max"
    using one(2) all by (simp only: list.set ball_simps(7)) blast
  moreover have "book s \<subseteq> book s'" using one(6) sub by blast
  ultimately show ?case by blast
qed

lemma refund_tokens_run:
  assumes "\<forall>t \<in> set ts. \<exists>a f. amounts t = Ok (a, f) \<and> a + f = tk_amount t \<and> tk_amount t \<le> u128_max"
    and "\<And>d. escrows_all ep d ts \<le> outstanding s (ep_channel_id ep, d)"
    and "\<forall>t \<in> set ts. \<forall>d. denom_origin (tk_denom t) ep = Remote d \<longrightarrow> (ep_channel_id ep, d) \<in> book s"
  shows "\<exists>s'. mapp (for_token A (refund_on_local rcv) (refund_on_remote rcv) self ep) ts s =
      (Ok (map (\<lambda>t. [refund_msg A self ep rcv t]) ts), s') \<and> book_only s s' \<and> book s' = book s \<and>
    (\<forall>k. outstanding s' k = outstanding s k - (if fst k = ep_channel_id ep then escrows_all ep (snd k) ts else 0))"
  using assms
proof (induction ts arbitrary: s)
  case Nil
  then show ?case by simp
next
  case (Cons t ts)
  let ?f = "for_token A (refund_on_local rcv) (refund_on_remote rcv) self ep"
  from Cons.prems(1) obtain a f where af: "amounts t = Ok (a, f)" "a + f = tk_amount t" "tk_amount t \<le> u128_max" by auto
  have enough: "(ep_channel_id ep, d) \<in> book s \<and> tk_amount t \<le> outstanding s (ep_channel_id ep, d)"
    if "denom_origin (tk_denom t) ep = Remote d" for d
  proof -
    from that have "escrows ep d t = tk_amount t" by (simp add: escrows_def)
    then show ?thesis using Cons.prems(2) [of d] Cons.prems(3) that by simp
  qed
  from refund_token_run [OF af enough] obtain s1 where t: "?f t s = (Ok [refund_msg A self ep rcv t], s1)"
    and only: "book_only s s1" "book s1 = book s"
    and out: "\<And>k. outstanding s1 k = outstanding s k - (if fst k = ep_channel_id ep then escrows ep (snd k) t else 0)" by metis
  have "escrows_all ep d ts \<le> outstanding s1 (ep_channel_id ep, d)" for d
    using Cons.prems(2) [of d] out [of "(ep_channel_id ep, d)"] by simp
  with Cons.IH [of s1] Cons.prems(1,3) only(2) obtain s' where
    ts: "mapp ?f ts s1 = (Ok (map (\<lambda>t. [refund_msg A self ep rcv t]) ts), s')" and "book_only s1 s'" "book s' = book s1"
    and out': "\<And>k. outstanding s' k = outstanding s1 k - (if fst k = ep_channel_id ep then escrows_all ep (snd k) ts else 0)"
    by auto
  then have "book_only s s'" "book s' = book s" using only book_only_trans by auto
  moreover have "outstanding s' k = outstanding s k - (if fst k = ep_channel_id ep then escrows_all ep (snd k) (t # ts) else 0)" for k
    using out [of k] out' [of k] by simp
  ultimately show ?case using t ts by auto
qed

lemma refund_undoes_send:
  assumes "for_tokens A send_on_local (send_on_remote self) self ep ts s = (Ok ms, s1)"
  obtains s2 where "for_tokens A (refund_on_local rcv) (refund_on_remote rcv) self ep ts s1 =
      (Ok (map (refund_msg A self ep rcv) ts), s2)"
    "book_only s s2" "\<And>k. outstanding s2 k = outstanding s k" "\<forall>t \<in> set ts. \<exists>af. amounts t = Ok af"
proof -
  from assms obtain mss where m: "mapp (for_token A send_on_local (send_on_remote self) self ep) ts s = (Ok mss, s1)"
    by (auto simp: for_tokens_def prog_ok)
  note sent = send_tokens_run [OF m]
  have inc: "outstanding s1 k = outstanding s k + (if fst k = ep_channel_id ep then escrows_all ep (snd k) ts else 0)" for k
    using sent by blast
  have "escrows_all ep d ts \<le> outstanding s1 (ep_channel_id ep, d)" for d
    using inc [of "(ep_channel_id ep, d)"] by simp
  with refund_tokens_run [of ts ep s1 A rcv self] sent obtain s2 where
    r: "mapp (for_token A (refund_on_local rcv) (refund_on_remote rcv) self ep) ts s1 =
      (Ok (map (\<lambda>t. [refund_msg A self ep rcv t]) ts), s2)" and "book_only s1 s2"
    and out: "\<And>k. outstanding s2 k = outstanding s1 k - (if fst k = ep_channel_id ep then escrows_all ep (snd k) ts else 0)"
    by auto
  have "concat (map (\<lambda>t. [refund_msg A self ep rcv t]) ts) = map (refund_msg A self ep rcv) ts" by (induction ts) auto
  with r have "for_tokens A (refund_on_local rcv) (refund_on_remote rcv) self ep ts s1 =
      (Ok (map (refund_msg A self ep rcv) ts), s2)" by (simp add: for_tokens_def)
  moreover have "book_only s s2" using sent \<open>book_only s1 s2\<close> book_only_trans by blast
  moreover have "outstanding s2 k = outstanding s k" for k using out [of k] inc [of k] by simp
  ultimately show thesis using that sent by blast
qed

text \<open>What holds of the messages of every token, and what no token changes.\<close>

lemma for_token_all:
  assumes "for_token A l r self ep t s = (Ok ms, s')"
    and "\<And>c d a f u ms u'. l c d a f u = (Ok ms, u') \<Longrightarrow> Q u u' \<and> list_all P ms"
    and "\<And>c d a f u ms u'. r c d a f u = (Ok ms, u') \<Longrightarrow> Q u u' \<and> list_all P ms"
  shows "Q s s' \<and> list_all P ms"
  using assms by (cases "denom_origin (tk_denom t) ep") (auto simp: for_token_def prog_ok)

lemma for_tokens_keep:
  assumes "for_tokens A l r self ep ts s = (Ok ms, s')"
    and on: "\<And>c d a f u ms u'. l c d a f u = (Ok ms, u') \<Longrightarrow> g u' = g u \<and> list_all P ms"
      "\<And>c d a f u ms u'. r c d a f u = (Ok ms, u') \<Longrightarrow> g u' = g u \<and> list_all P ms"
  shows "g s' = g s \<and> list_all P ms"
proof -
  have "mapp (for_token A l r self ep) ts s = (Ok mss, s') \<Longrightarrow> g s' = g s \<and> list_all P (concat mss)" for mss
  proof (induction ts arbitrary: s mss)
    case (Cons t ts)
    from Cons.prems obtain y zs s1 where t: "for_token A l r self ep t s = (Ok y, s1)"
      and "mapp (for_token A l r self ep) ts s1 = (Ok zs, s')" "mss = y # zs"
      by (auto simp: prog_ok)
    with Cons.IH for_token_all [OF t, of "\<lambda>u u'. g u' = g u" P] on show ?case by auto
  qed (auto simp: prog_ok)
  with assms(1) show ?thesis by (auto simp: for_tokens_def prog_ok)
qed

lemmas for_tokens_all = for_tokens_keep [where g = "\<lambda>_. ()", simplified]

text \<open>What the sender gave is what is paid back.\<close>

definition pays_back :: "string \<Rightarrow> transfer_token \<Rightarrow> cw_msg \<Rightarrow> bool" where
  "pays_back sender t m \<longleftrightarrow>
     m = BankSend sender [(tk_denom t, tk_amount t)] \<or> m = MintTokens (tk_denom t) (tk_amount t) sender"

lemma normal_pays_back:
  "list_all2 (normal_form A self ep) ts ts' \<Longrightarrow> list_all2 (pays_back rcv) ts (map (refund_msg A self ep rcv) ts')"
proof (induction rule: list_all2_induct)
  case (Cons t ts t' ts')
  have "pays_back rcv t (refund_msg A self ep rcv t')"
  proof (cases rule: denom_origin_cases [of "tk_denom t'" ep])
    case (Local y)
    with Cons(1) show ?thesis by (simp add: normal_form_def pays_back_def refund_msg_def)
  next
    case Remote
    with Cons(1) have "t' = t" by (auto simp: normal_form_def)
    with Remote show ?thesis by (simp add: pays_back_def refund_msg_def)
  qed
  with Cons show ?case by simp
qed simp

context relay_laws begin

lemma timeout_undoes_send:
  assumes sent: "send (ucs01_protocol A) A cx input ext s = (Ok r, s1)" and cx: "own_channel self cx"
    and books: "books_ok A self s" and can: "\<forall>t \<in> set (ti_tokens input). canon A self (tk_denom t)"
    and wf: "list_all wf_token (ti_tokens input)"
    and msg: "sub \<in> set (rs_messages r)" "sm_msg sub = SendPacket ch (cp_data p) tmo"
    and codec: "\<And>ts. api_abi_decode A (api_abi_encode A ts) = Inr ts"
    and addr: "\<And>b. api_addr_canonicalize A (ti_sender input) = Inr b \<Longrightarrow> api_addr_humanize A b = Inr (ti_sender input)"
    and flight: "rl_in_flight s (ep_channel_id (cp_src p), ep_port_id (cp_src p), cp_sequence p) = None"
    and cx': "cx_self cx' = self" "cx_channel cx' = cx_channel cx"
  shows "\<exists>r2 s2 ms. send_timeout (ucs01_protocol A) A cx' p s1 = (Ok r2, s2) \<and>
    (\<forall>k. outstanding s2 k = outstanding s k) \<and> rs_messages r2 = map plain_msg ms \<and>
    list_all2 (pays_back (ti_sender input)) (ti_tokens input) ms"
proof -
  let ?ep = "ci_endpoint (cx_channel cx)" and ?P = "ucs01_protocol A"
  have self: "cx_self cx = self" and port: "ep_port_id ?ep = own_port (cx_self cx)"
    using cx by (auto simp: own_channel_def)
  from sent obtain ts q ms t1 where ts: "mapp (normalize_token A cx) (ti_tokens input) s = (Ok ts, t1)"
    and q: "pr_common_to_packet ?P \<lparr>tpc_sender = ti_sender input, tpc_receiver = ti_receiver input,
        tpc_tokens = ts, tpc_extension = ext\<rparr> = Ok q"
    and ms: "send_tokens A cx (pr_tokens ?P q) t1 = (Ok ms, s1)"
    and r: "\<exists>tmo. rs_messages r = map plain_msg ms @
      [\<lparr>sm_id = IBC_SEND_ID, sm_msg = SendPacket (ep_channel_id ?ep) (pr_encode ?P q)
         \<lparr>ct_block = None, ct_timestamp = Some tmo\<rparr>, sm_reply_on = ReplyAlways, sm_payload = []\<rparr>]"
    by (auto simp: send_def prog_ok)
  have t1: "t1 = s" using normalize_tokens_keep [OF ts] .
  have names: "names_ok A s" using books by (simp add: books_ok_def)
  have nf: "list_all2 (normal_form A self ?ep) ts0 ts" if "ts0 = ti_tokens input" for ts0
    using normalize_tokens_Ok [OF relay_laws_axioms [folded self] names port _ ts] can by (simp add: self that)
  note nf = nf [OF refl]
  from q obtain b where b: "api_addr_canonicalize A (ti_sender input) = Inr b" and q': "up_sender q = b" "up_tokens q = ts"
    by (auto simp: ucs01_protocol_def ucs01_common_to_packet_def outcome_ok)
  have pq: "pr_tokens ?P q = ts" by (simp add: ucs01_protocol_def q')
  have sent': "for_tokens A send_on_local (send_on_remote self) self ?ep ts s = (Ok ms, s1)"
    using ms by (simp add: send_tokens_def self pq t1)
  have fin: "finite (book s)" using books by (simp add: books_ok_def)
  have "list_all (\<lambda>m. \<nexists>c x y. m = SendPacket c x y) ms"
    by (rule for_tokens_all [OF sent']) (auto simp: send_on_local_def send_on_remote_def prog_ok)
  then have "sub \<notin> set (map plain_msg ms)" using msg(2) by (auto simp: list_all_iff plain_msg_def)
  with msg r have data: "cp_data p = api_abi_encode A (ucs01_packet_tokens q)"
    by (auto simp: ucs01_protocol_def)
  have dec: "pr_decode ?P (cp_data p) = Ok q"
    using codec normal_wf [OF nf wf]
    by (simp add: ucs01_protocol_def ucs01_packet_decode_def data q' ucs01_packet_roundtrip)
  obtain s2 where ref: "for_tokens A (refund_on_local (ti_sender input)) (refund_on_remote (ti_sender input)) self ?ep ts s1 =
      (Ok (map (refund_msg A self ?ep (ti_sender input)) ts), s2)"
    and out: "\<And>k. outstanding s2 k = outstanding s k" and am: "\<forall>t \<in> set ts. \<exists>af. amounts t = Ok af"
    using refund_undoes_send [OF sent'] by blast
  obtain at where at: "tokens_to_attr A ts = Ok at" using tokens_to_attr_defined [of ts] am by blast
  have only: "book_only s s1" using send_tokens_Ok(1) [OF sent' fin] by (simp add: locked_def)
  then have fl: "rl_in_flight s1 = rl_in_flight s" unfolding book_only_def
    by (metis relay.select_convs(5) relay.surjective relay.update_convs(4))
  have "\<exists>r2. send_timeout ?P A cx' p s1 = (Ok r2, s2) \<and>
      rs_messages r2 = map plain_msg (map (refund_msg A self ?ep (ti_sender input)) ts)"
    using dec ref at addr [OF b] flight fl
    by (simp add: send_timeout_def get_in_flight_packet_def send_tokens_failure_def cx' pq)
      (simp add: ucs01_protocol_def q')
  with out normal_pays_back [OF nf] show ?thesis by metis
qed

end

section \<open>To the other chain and back\<close>

lemma normalize_voucher:
  assumes "api_hex_decode A (api_hex A (hash_denom A nd)) = Some (hash_denom A nd)" "length (hash_denom A nd) = 21"
    and "l (hash_denom A nd) = Some nd" "nd = make_foreign_denom ep d"
    and "tk_denom v = factory_denom self (hash_denom_str A nd)"
  shows "normalize_for_ibc_transfer A l self ep v = Ok (v\<lparr>tk_denom := nd\<rparr>)"
proof -
  have "strip_prefix ''factory/'' (tk_denom v) = Some (self @ ''/0x'' @ api_hex A (hash_denom A nd))"
    unfolding strip_prefix_Some by (simp add: assms(5) factory_denom_def hash_denom_str_def)
  moreover have "strip_prefix ''/0x'' (''/0x'' @ x) = Some x" for x by (rule strip_prefix_append)
  ultimately show ?thesis using assms(1-4) unfolding normalize_for_ibc_transfer_def by simp
qed

lemma receive_local_token:
  assumes "wf_token t" "denom_origin (tk_denom t) cp = Local d"
    and "rl_channel_state s (ep_channel_id ep, d) = Some n" "tk_amount t \<le> n"
  obtains a f where "a + f = tk_amount t"
    "receive_token A self ep cp rcv rel True t s =
      (Ok (\<lparr>ntk_origin_denom = tk_denom t, ntk_token = t\<lparr>tk_denom := d\<rparr>\<rparr>,
           nonzero a (BankSend rcv [(d, a)]) @ nonzero f (BankSend rel [(d, f)])),
       set_outstanding s (ep_channel_id ep, d) (n - tk_amount t))"
proof -
  obtain a f where af: "amounts t = Ok (a, f)" using amounts_exact [OF assms(1)] by blast
  show thesis
    using that [OF amounts_sum [OF af]] af assms
    by (simp add: receive_token_def decrease_outstanding_def update_outstanding_def)
qed

lemma voucher_returns:
  assumes laws: "relay_laws A selfB" and hash: "\<And>x. length (hash_denom A x) = 21"
    and home: "\<And>y. tk_denom t \<noteq> make_foreign_denom epA y"
    and sent: "for_tokens A send_on_local (send_on_remote selfA) selfA epA [t] sA = (Ok ms1, sA1)"
    and recv: "receive_phase1_transfer A selfB epB epA rcv rel [t] True sB = (Ok ([nt], ms2), sB1)"
    and reg: "register_denom epB (make_foreign_denom epB (tk_denom t))
      (hash_denom A (make_foreign_denom epB (tk_denom t))) sB1 = (Ok r, sB2)"
    and v: "tk_denom v = tk_denom (ntk_token nt)" "tk_amount v \<le> tk_amount t" "wf_token v"
    and cx: "cx_self cx = selfB" "ci_endpoint (cx_channel cx) = epB"
    and norm: "normalize_token A cx v sB2 = (Ok v', sB3)"
  shows "\<exists>nt' a f sA2. a + f = tk_amount v \<and>
    receive_phase1_transfer A selfA epA epB rcv' rel' [v'] True sA1 =
      (Ok ([nt'], nonzero a (BankSend rcv' [(tk_denom t, a)]) @ nonzero f (BankSend rel' [(tk_denom t, f)])), sA2) \<and>
    outstanding sA2 (ep_channel_id epA, tk_denom t) + tk_amount v =
      outstanding sA (ep_channel_id epA, tk_denom t) + tk_amount t"
proof -
  let ?fd = "make_foreign_denom epB (tk_denom t)" and ?k = "(ep_channel_id epA, tk_denom t)"
  have remote: "denom_origin (tk_denom t) epA = Remote (tk_denom t)" using home by (simp add: denom_origin_Remote)
  from sent obtain ms where one: "for_token A send_on_local (send_on_remote selfA) selfA epA t sA = (Ok ms, sA1)"
    by (auto simp: for_tokens_def prog_ok)
  note run = send_token_run [OF one]
  from run(5) [OF remote] obtain n where n: "rl_channel_state sA1 ?k = Some n" by blast
  with run(4) [of ?k] remote have n': "n = outstanding sA ?k + tk_amount t"
    by (simp add: outstanding_def escrows_def)
  from recv have "receive_token A selfB epB epA rcv rel True t sB = (Ok (nt, ms2), sB1)"
    by (auto simp: receive_phase1_transfer_def prog_ok)
  then have nt: "tk_denom (ntk_token nt) = factory_denom selfB (hash_denom_str A ?fd)"
    using remote by (cases "amounts t") (auto simp: receive_token_def foreign_toggle_def Let_def prog_ok hash_denom_str_def)
  from reg hash have "rl_hash_to_foreign sB2 (epB, hash_denom A ?fd) = Some ?fd"
    by (auto simp: register_denom_def prog_ok)
  then have "normalize_for_ibc_transfer A (\<lambda>h. rl_hash_to_foreign sB2 (epB, h)) selfB epB v = Ok (v\<lparr>tk_denom := ?fd\<rparr>)"
    using normalize_voucher [of A ?fd _ epB "tk_denom t" v selfB] relay_laws.hex_roundtrip [OF laws] hash v(1) nt by simp
  with norm cx have v': "v' = v\<lparr>tk_denom := ?fd\<rparr>" by (simp add: normalize_token_def)
  have wf': "wf_token v'" using v(3) by (simp add: v' wf_token_def)
  have or': "denom_origin (tk_denom v') epB = Local (tk_denom t)" by (simp add: v')
  have le: "tk_amount v' \<le> n" using v(2) n' by (simp add: v')
  obtain a f where sum: "a + f = tk_amount v'" and
    rt: "receive_token A selfA epA epB rcv' rel' True v' sA1 =
      (Ok (\<lparr>ntk_origin_denom = tk_denom v', ntk_token = v'\<lparr>tk_denom := tk_denom t\<rparr>\<rparr>,
           nonzero a (BankSend rcv' [(tk_denom t, a)]) @ nonzero f (BankSend rel' [(tk_denom t, f)])),
       set_outstanding sA1 ?k (n - tk_amount v'))"
    by (rule receive_local_token [OF wf' or' n le])
  then have "receive_phase1_transfer A selfA epA epB rcv' rel' [v'] True sA1 =
      (Ok ([\<lparr>ntk_origin_denom = tk_denom v', ntk_token = v'\<lparr>tk_denom := tk_denom t\<rparr>\<rparr>],
           nonzero a (BankSend rcv' [(tk_denom t, a)]) @ nonzero f (BankSend rel' [(tk_denom t, f)])),
       set_outstanding sA1 ?k (n - tk_amount v'))"
    by (simp add: receive_phase1_transfer_def)
  moreover have "outstanding (set_outstanding sA1 ?k (n - tk_amount v')) ?k + tk_amount v = outstanding sA ?k + tk_amount t"
    using le n' by (simp add: outstanding_def v')
  ultimately show ?thesis using sum by (auto simp: v')
qed

section \<open>Answers\<close>

lemma with_payload_sub:
  "with_payload i pl subs = Some subs' \<Longrightarrow> \<exists>sub \<in> set subs'. sm_id sub = i \<and> sm_payload sub = pl"
  by (induction subs arbitrary: subs') (auto split: if_splits)

definition forwarded :: "relay_api \<Rightarrow> cw_packet \<Rightarrow> response \<Rightarrow> bool" where
  \<comment> \<open>a message whose reply is given the record of the packet to answer\<close>
  "forwarded A p r \<longleftrightarrow>
     (\<exists>sub \<in> set (rs_messages r). \<exists>info. sm_id sub = IBC_SEND_ID \<and>
       sm_payload sub = api_in_flight_json A info \<and> if_origin_packet info = p)"

lemma packet_forward_forwarded:
  "packet_forward P A cx q p fwd s = (Ok r, s') \<Longrightarrow> forwarded A p r"
proof -
  assume "packet_forward P A cx q p fwd s = (Ok r, s')"
  then obtain info subs subs' extra where "with_payload IBC_SEND_ID (api_in_flight_json A info) subs = Some subs'"
    "rs_messages r = subs' @ extra" "if_origin_packet info = p"
    by (fastforce simp: packet_forward_def forward_transfer_packet_def prog_ok Let_def)
  with with_payload_sub [OF this(1)] show ?thesis by (auto simp: forwarded_def)
qed

lemma receive_answers:
  assumes "receive P A cx p s = (r, s')"
  shows "r = Panic \<or> (\<exists>x. r = Ok x \<and> (rs_data x = None \<longrightarrow> forwarded A p x))"
proof -
  obtain r1 s1 where h: "receive_handle P A cx p s = (r1, s1)" by fastforce
  show ?thesis
  proof (cases r1)
    case (Ok x)
    have "rs_data x = None \<longrightarrow> forwarded A p x"
    proof (cases "\<exists>q. pr_decode P (cp_data p) = Ok q")
      case True
      then obtain q where q: "pr_decode P (cp_data p) = Ok q" by blast
      show ?thesis
      proof (cases "\<exists>fwd. api_memo_of_json A (pr_extension P q) = Inr (MemoForward fwd)")
        case True
        with h Ok q show ?thesis by (auto simp: receive_handle_def dest: packet_forward_forwarded)
      next
        case False
        with h Ok q show ?thesis by (auto simp: receive_handle_def prog_ok split: sum.splits memo.splits)
      qed
    next
      case False
      with h Ok show ?thesis by (auto simp: receive_handle_def prog_ok)
    qed
    with assms h Ok show ?thesis by (auto simp: receive_def)
  next
    case (Err e)
    with assms h show ?thesis by (auto simp: receive_def receive_error_def)
  next
    case Panic
    with assms h show ?thesis by (auto simp: receive_def)
  qed
qed

section \<open>Packets that are not found to be forwarded\<close>

abbreviation no_deferred_ack :: "cw_msg \<Rightarrow> bool" where
  "no_deferred_ack m \<equiv> \<forall>a i b. m \<noteq> WriteDeferredAck a i b"

lemma failure_keeps_in_flight:
  assumes "send_tokens_failure P A cx sender ts s = (Ok ms, s')"
  shows "rl_in_flight s' = rl_in_flight s \<and> list_all no_deferred_ack ms"
proof -
  from assms obtain rcv where "for_tokens A (refund_on_local rcv) (refund_on_remote rcv) (cx_self cx)
      (ci_endpoint (cx_channel cx)) ts s = (Ok ms, s')"
    by (auto simp: send_tokens_failure_def prog_ok)
  then show ?thesis
    by (rule for_tokens_keep)
      (auto simp: refund_on_local_def refund_on_remote_def decrease_outstanding_def update_outstanding_def prog_ok
        split: outcome.splits)
qed

lemma send_ack_unmatched:
  assumes "send_ack P A cx ack p s = (Ok r, s')"
    and "rl_in_flight s (ep_channel_id (cp_src p), ep_port_id (cp_src p), cp_sequence p) = None"
  shows "rl_in_flight s' = rl_in_flight s \<and> list_all (\<lambda>sub. no_deferred_ack (sm_msg sub)) (rs_messages r)"
proof -
  from assms obtain q a ms attr where
    run: "(case a of
        Inr value \<Rightarrow> seqp send_tokens_success (\<lambda>msgs.
          ret (msgs, if api_base64 A value = [] then [] else [(''success'', api_base64 A value)]))
      | Inl error \<Rightarrow> seqp (send_tokens_failure P A cx (pr_sender P q) (pr_tokens P q)) (\<lambda>msgs.
          ret (msgs, if api_base64 A error = [] then [] else [(''error'', api_base64 A error)]))) s =
      (Ok (ms, attr), s')"
    and ms: "rs_messages r = map plain_msg ms"
    by (auto simp: send_ack_def get_in_flight_packet_def prog_ok)
  have "rl_in_flight s' = rl_in_flight s \<and> list_all no_deferred_ack ms"
  proof (cases a)
    case Inl
    with run show ?thesis by (auto simp: prog_ok dest: failure_keeps_in_flight)
  next
    case Inr
    with run show ?thesis by (auto simp: send_tokens_success_def prog_ok)
  qed
  with ms show ?thesis by (simp add: list_all_iff plain_msg_def)
qed

lemma send_ack_success:
  assumes "pr_decode P (cp_data p) = Ok q" "pr_decode_ack P ack = Ok (Inr v)"
    and "rl_in_flight s (ep_channel_id (cp_src p), ep_port_id (cp_src p), cp_sequence p) = None"
    and "tokens_to_attr A (pr_tokens P q) = Ok attrs"
  shows "\<exists>r. send_ack P A cx ack p s = (Ok r, s)"
  using assms by (simp add: send_ack_def get_in_flight_packet_def send_tokens_success_def)

section \<open>Releases that stay\<close>

lemma second_token_fails:
  assumes "wf_token t1" "denom_origin (tk_denom t1) cp = Local d1" "wf_token t2" "denom_origin (tk_denom t2) cp = Local d2"
    and "rl_channel_state s (ep_channel_id ep, d1) = Some n" "tk_amount t1 \<le> n"
    and "rl_channel_state s (ep_channel_id ep, d2) = None"
  shows "receive_phase1_transfer A self ep cp rcv rel [t1, t2] True s =
    (Err InsufficientFunds, set_outstanding s (ep_channel_id ep, d1) (n - tk_amount t1))"
proof -
  have "d1 \<noteq> d2" using assms by auto
  moreover obtain a f where "amounts t2 = Ok (a, f)" using amounts_exact [OF assms(3)] by blast
  moreover obtain x where "receive_token A self ep cp rcv rel True t1 s =
      (Ok x, set_outstanding s (ep_channel_id ep, d1) (n - tk_amount t1))"
    using receive_local_token [OF assms(1,2,5,6)] by metis
  ultimately show ?thesis
    using assms
    by (simp add: receive_phase1_transfer_def)
      (simp add: receive_token_def decrease_outstanding_def update_outstanding_def)
qed

end
