(* ===== verification/Ucs01_Example.thy ===== *)
theory Ucs01_Example imports Ucs01_Refunds "HOL-Library.Countable" begin

text \<open>
  A chain to run the token transfer contract on: libraries whose encodings are numbers in unary, a
  bank with a table of balances, and a channel over which a user has sent ten coins. The laws the
  invariant rests on hold of it.
\<close>

section \<open>The libraries\<close>

instance abi_token :: countable
  by countable_datatype

definition toy_text :: "bytes \<Rightarrow> string" where
  "toy_text b = map (\<lambda>x. char_of (unat x)) b"

definition toy_bytes :: "string \<Rightarrow> bytes" where
  "toy_bytes s = map (\<lambda>c. of_nat (of_char c)) s"

lemma toy_bytes_text [simp]: "toy_bytes (toy_text b) = b"
proof -
  have "of_nat (of_char (char_of (unat x) :: char)) = x" for x :: u8
  proof -
    have "unat x < 256" using unsigned_less [where 'a = nat and w = x] by simp
    then show ?thesis by simp
  qed
  then show ?thesis by (simp add: toy_bytes_def toy_text_def comp_def)
qed

lemma toy_text_bytes [simp]: "toy_text (toy_bytes s) = s"
proof -
  have "char_of (unat (of_nat (of_char c) :: u8)) = c" for c :: char
  proof -
    have "(of_char c :: nat) < 256" by simp
    then show ?thesis by (simp add: unat_of_nat)
  qed
  then show ?thesis by (simp add: toy_bytes_def toy_text_def comp_def)
qed

definition toy_forward :: pfm_forward where
  "toy_forward = PacketForward ''carol'' ''elsewhere'' ''c1'' ''1h'' 0 None None None"

definition toy_packet :: cw_packet where
  "toy_packet =
     \<lparr>cp_data = [], cp_src = \<lparr>ep_port_id = ''transfer'', ep_channel_id = ''c9''\<rparr>,
      cp_dest = \<lparr>ep_port_id = ''wasm.cb'', ep_channel_id = ''c0''\<rparr>, cp_sequence = 3,
      cp_timeout = \<lparr>ct_block = None, ct_timestamp = Some 50\<rparr>\<rparr>"

definition toy_in_flight :: in_flight_packet where
  "toy_in_flight =
     \<lparr>if_origin_sender_addr = ''relayer'', if_origin_protocol_version = ''ucs01-relay-1'',
      if_origin_packet = toy_packet, if_forward_src_channel_id = ''c1'',
      if_forward_src_port_id = ''elsewhere'', if_forward_timeout = 60\<rparr>"

definition toy_api :: relay_api where
  "toy_api =
     \<lparr>api_addr_validate = Inr,
      api_addr_canonicalize = (\<lambda>s. Inr (toy_bytes s)),
      api_addr_humanize = (\<lambda>b. Inr (toy_text b)),
      api_update_admin = (\<lambda>cur caller new. if cur = Some caller then Inr new else Inl ''not the admin''),
      api_sha256 = (\<lambda>s. toy_bytes s @ replicate 32 0),
      api_hex = toy_text,
      api_hex_decode = (\<lambda>s. Some (toy_bytes s)),
      api_from_hex = (\<lambda>s. Inr (toy_bytes s)),
      api_base64 = toy_text,
      api_coins = (\<lambda>cs. if distinct (map fst cs) then Some (filter (\<lambda>c. 0 < snd c) cs) else None),
      api_coins_json = (\<lambda>_. ''[]''),
      api_plus_seconds = (\<lambda>t d. Some (t + d * 1000000000)),
      api_parse_duration = (\<lambda>s. if s = ''1m'' then Some 60000000000 else None),
      api_abi_encode = (\<lambda>ts. replicate (to_nat ts) 0),
      api_abi_decode = (\<lambda>b. Inr (from_nat (length b))),
      api_ics20_packet_json = (\<lambda>_. []),
      api_ics20_packet_of_json = (\<lambda>_. Inl ''not a packet''),
      api_ics20_ack_json = (\<lambda>_. [2]),
      api_ics20_ack_of_json = (\<lambda>_. Inl ''not an ack''),
      api_memo_json = (\<lambda>_. ''forward''),
      api_memo_of_json = (\<lambda>s. if s = ''forward'' then Inr (MemoForward toy_forward) else Inl ''no memo''),
      api_in_flight_json = (\<lambda>_. [7]),
      api_in_flight_of_json = (\<lambda>b. if b = [7] then Inr toy_in_flight else Inl ''no record''),
      api_debug_error = (\<lambda>_. ''error''),
      api_debug_string = (\<lambda>s. s)\<rparr>"

lemma toy_api_simps [simp]:
  "api_addr_validate toy_api s = Inr s"
  "api_addr_canonicalize toy_api s = Inr (toy_bytes s)"
  "api_addr_humanize toy_api b = Inr (toy_text b)"
  "api_sha256 toy_api s = toy_bytes s @ replicate 32 0"
  "api_hex toy_api b = toy_text b"
  "api_hex_decode toy_api s = Some (toy_bytes s)"
  "api_from_hex toy_api s = Inr (toy_bytes s)"
  "api_base64 toy_api b = toy_text b"
  "api_coins toy_api cs = (if distinct (map fst cs) then Some (filter (\<lambda>c. 0 < snd c) cs) else None)"
  "api_coins_json toy_api cs = ''[]''"
  "api_plus_seconds toy_api t d = Some (t + d * 1000000000)"
  "api_abi_encode toy_api ts = replicate (to_nat ts) 0"
  "api_abi_decode toy_api b = Inr (from_nat (length b))"
  "api_ics20_packet_of_json toy_api b = Inl ''not a packet''"
  "api_memo_of_json toy_api s = (if s = ''forward'' then Inr (MemoForward toy_forward) else Inl ''no memo'')"
  "api_in_flight_of_json toy_api b = (if b = [7] then Inr toy_in_flight else Inl ''no record'')"
  by (simp_all add: toy_api_def)

interpretation toy: relay_laws toy_api "''cb''"
  by unfold_locales (auto simp: toy_forward_def wf_fees_def distinct_map_filter split: if_splits)

section \<open>The bank\<close>

record toy_accounts =
  tb_balance :: "string \<Rightarrow> string \<Rightarrow> nat"
  tb_denoms :: "string list"
  tb_sequence :: u64

definition toy_balance :: "toy_accounts \<Rightarrow> string \<Rightarrow> string \<Rightarrow> nat" where
  "toy_balance b a d = min (tb_balance b a d) (2 ^ 256 - 1)"

definition toy_add :: "toy_accounts \<Rightarrow> string \<Rightarrow> string \<Rightarrow> nat \<Rightarrow> string + toy_accounts" where
  "toy_add b a d n =
     (if 2 ^ 256 \<le> tb_balance b a d + n then Inl ''too much''
      else Inr (b\<lparr>tb_balance := (tb_balance b)(a := (tb_balance b a)(d := tb_balance b a d + n))\<rparr>))"

definition toy_sub :: "toy_accounts \<Rightarrow> string \<Rightarrow> string \<Rightarrow> nat \<Rightarrow> string + toy_accounts" where
  "toy_sub b a d n =
     (if tb_balance b a d < n \<or> 2 ^ 256 \<le> tb_balance b a d then Inl ''insufficient funds''
      else Inr (b\<lparr>tb_balance := (tb_balance b)(a := (tb_balance b a)(d := tb_balance b a d - n))\<rparr>))"

fun toy_move :: "toy_accounts \<Rightarrow> string \<Rightarrow> string \<Rightarrow> coin list \<Rightarrow> string + toy_accounts" where
  "toy_move b f t [] = Inr b"
| "toy_move b f t ((d, n) # cs) =
     (case toy_sub b f d n of
        Inl e \<Rightarrow> Inl e
      | Inr b1 \<Rightarrow> (case toy_add b1 t d n of Inl e \<Rightarrow> Inl e | Inr b2 \<Rightarrow> toy_move b2 f t cs))"

definition toy_send :: "toy_accounts \<Rightarrow> string \<Rightarrow> string \<Rightarrow> coin list \<Rightarrow> string + toy_accounts" where
  \<comment> \<open>no coin may be sent to the account of a module\<close>
  "toy_send b f t cs =
     (if t = ''module'' then Inl ''blocked address''
      else if list_all (\<lambda>(d, n). n = 0 \<or> d \<in> set (tb_denoms b)) cs then toy_move b f t cs
      else Inl ''unknown denomination'')"

definition toy_ledger :: "toy_accounts ledger" where
  "toy_ledger =
     \<lparr>lg_balance = toy_balance,
      lg_exists = (\<lambda>b d. d \<in> set (tb_denoms b)),
      lg_send = toy_send,
      lg_create = (\<lambda>b c x. Inr (b\<lparr>tb_denoms := factory_denom c x # tb_denoms b\<rparr>)),
      lg_mint = (\<lambda>b c d n t. toy_add b t d n),
      lg_burn = (\<lambda>b c d n f. toy_sub b f d n),
      lg_send_packet = (\<lambda>b c ch x t. Inr (tb_sequence b, b\<lparr>tb_sequence := tb_sequence b + 1\<rparr>)),
      lg_deferred_ack = (\<lambda>b c i x. Inr b),
      lg_execute = (\<lambda>b c a m fs. Inl ''no contract''),
      lg_error = (\<lambda>_. ''failed'')\<rparr>"

lemma toy_ledger_simps [simp]:
  "lg_balance toy_ledger = toy_balance" "lg_exists toy_ledger b d \<longleftrightarrow> d \<in> set (tb_denoms b)"
  "lg_send toy_ledger = toy_send"
  "lg_create toy_ledger b c x = Inr (b\<lparr>tb_denoms := factory_denom c x # tb_denoms b\<rparr>)"
  "lg_mint toy_ledger b c d n t = toy_add b t d n"
  "lg_burn toy_ledger b c d n f = toy_sub b f d n"
  "lg_send_packet toy_ledger b c ch bs tmo = Inr (tb_sequence b, b\<lparr>tb_sequence := tb_sequence b + 1\<rparr>)"
  "lg_deferred_ack toy_ledger b c i bs = Inr b"
  by (simp_all add: toy_ledger_def)

lemma toy_add_Ok:
  assumes "toy_add b t e n = Inr b'"
  shows "toy_balance b' a d = toy_balance b a d + (if a = t \<and> d = e then n else 0)" "tb_denoms b' = tb_denoms b"
  using assms by (auto simp: toy_add_def toy_balance_def split: if_splits)

lemma toy_sub_Ok:
  assumes "toy_sub b f e n = Inr b'"
  shows "toy_balance b' a d + (if a = f \<and> d = e then n else 0) = toy_balance b a d" "tb_denoms b' = tb_denoms b"
  using assms by (auto simp: toy_sub_def toy_balance_def split: if_splits)

lemma toy_move_Ok:
  "toy_move b f t cs = Inr b' \<Longrightarrow>
   toy_balance b' a d + (if a = f then amt cs d else 0) = toy_balance b a d + (if a = t then amt cs d else 0) \<and>
   tb_denoms b' = tb_denoms b"
proof (induction b f t cs rule: toy_move.induct)
  case (2 b f t e n cs)
  from 2(2) obtain b1 b2 where b1: "toy_sub b f e n = Inr b1" and b2: "toy_add b1 t e n = Inr b2"
    and rest: "toy_move b2 f t cs = Inr b'" by (auto split: sum.splits)
  note ih = 2(1) [OF b1 b2 rest]
  show ?case
    using ih toy_sub_Ok(1) [OF b1, of a d] toy_add_Ok(1) [OF b2, of a d] toy_sub_Ok(2) [OF b1] toy_add_Ok(2) [OF b2]
    by auto
qed simp

lemma toy_send_move: "toy_send b f t cs = Inr b' \<Longrightarrow> toy_move b f t cs = Inr b'"
  by (simp add: toy_send_def split: if_splits)

lemma toy_balance_bound: "toy_balance b a d < 2 ^ 256"
proof -
  have "toy_balance b a d \<le> 2 ^ 256 - 1" by (simp add: toy_balance_def)
  then show ?thesis by simp
qed

interpretation toy: ledger_laws toy_ledger
proof unfold_locales
  fix b f t cs b' a d n
  assume sent: "lg_send toy_ledger b f t cs = Inr b'"
  then have "toy_move b f t cs = Inr b'" by (simp add: toy_send_move)
  note moved = toy_move_Ok [OF this, of a d]
  show "lg_balance toy_ledger b' a d + (if a = f then amt cs d else 0) =
       lg_balance toy_ledger b a d + (if a = t then amt cs d else 0)"
    "lg_exists toy_ledger b' d = lg_exists toy_ledger b d"
    using moved by simp_all
  show "(d, n) \<in> set cs \<Longrightarrow> 0 < n \<Longrightarrow> lg_exists toy_ledger b d"
    using sent by (auto simp: toy_send_def list_all_iff split: if_splits)
qed (auto simp: toy_add_Ok toy_sub_Ok toy_balance_bound, simp_all add: toy_balance_def)

section \<open>A channel and a transfer\<close>

definition toy_channel :: cw_channel where
  "toy_channel =
     \<lparr>cc_endpoint = \<lparr>ep_port_id = ''wasm.cb'', ep_channel_id = ''c0''\<rparr>,
      cc_counterparty_endpoint = \<lparr>ep_port_id = ''transfer'', ep_channel_id = ''c9''\<rparr>,
      cc_order = CwUnordered, cc_version = ''ucs01-relay-1'', cc_connection_id = ''connection-0''\<rparr>"

definition toy_relay :: "(string \<times> string \<rightharpoonup> nat) \<Rightarrow> relay" where
  "toy_relay m = empty_relay\<lparr>rl_config := Some 600, rl_admin := Some ''gov'',
     rl_channel_info := [''c0'' \<mapsto> info_of_channel toy_channel], rl_channel_state := m\<rparr>"

definition toy_bank :: toy_accounts where
  "toy_bank =
     \<lparr>tb_balance = (\<lambda>a d. if a = ''alice'' \<and> d = ''muno'' then 100 else 0), tb_denoms = [''muno''], tb_sequence = 1\<rparr>"

definition toy_start :: "toy_accounts world" where
  "toy_start = \<lparr>wd_relay = empty_relay\<lparr>rl_config := Some 600, rl_admin := Some ''gov''\<rparr>, wd_ledger = toy_bank\<rparr>"

definition toy_open :: "toy_accounts world" where
  "toy_open = \<lparr>wd_relay = toy_relay Map.empty, wd_ledger = toy_bank\<rparr>"

definition toy_transfer :: transfer_msg where
  "toy_transfer =
     \<lparr>tm_channel = ''c0'', tm_receiver = ''bob'', tm_timeout = Some 60, tm_memo = [], tm_fees = None\<rparr>"

definition toy_sent :: "toy_accounts world" where
  "toy_sent =
     \<lparr>wd_relay = toy_relay [(''c0'', ''muno'') \<mapsto> 10],
      wd_ledger = toy_bank\<lparr>tb_balance := ((tb_balance toy_bank)
          (''alice'' := (tb_balance toy_bank ''alice'')(''muno'' := 90)))
          (''cb'' := (tb_balance toy_bank ''cb'')(''muno'' := 10)), tb_sequence := 2\<rparr>\<rparr>"

lemma toy_starts: "relay_start toy_api toy_ledger ''cb'' toy_start"
proof -
  have "relay_instantiate toy_api ''cb'' \<lparr>im_default_timeout = 600, im_gov_contract = ''gov'', im_channel = None\<rparr> empty_relay =
      (Ok no_response, wd_relay toy_start)"
    by (simp add: relay_instantiate_def toy_start_def)
  moreover have "others_name ''cb'' ''muno''" by (simp add: others_name_def factory_denom_def own_port_def)
  ultimately show ?thesis by (auto simp: relay_start_def toy_start_def toy_bank_def)
qed

lemma toy_opens:
  "relay_tx toy_api toy_ledger ''cb'' 0 (ChannelConnect toy_channel (Some ''ucs01-relay-1'')) toy_start =
   Inr (None, toy_open)"
  by (simp add: relay_tx_def pay_funds_def entry_point_def ibc_channel_connect_def enforce_order_and_version_def
      protocol_ordering_def ics20_protocol_def ucs01_protocol_def toy_channel_def toy_start_def toy_open_def
      save_channel_def dispatch_def no_response_def toy_relay_def empty_relay_def)

lemma toy_sends:
  "relay_tx toy_api toy_ledger ''cb'' 0 (UserExecute ''alice'' [(''muno'', 10)] (Transfer toy_transfer)) toy_open =
   Inr (None, toy_sent)"
  by (simp add: relay_tx_def pay_funds_def entry_point_def relay_execute_def execute_transfer_def toy_transfer_def
      toy_open_def toy_relay_def empty_relay_def toy_channel_def info_of_channel_def load_channel_def
      ics20_protocol_def ucs01_protocol_def send_def normalize_token_def normalize_for_ibc_transfer_def
      token_of_coin_def ucs01_common_to_packet_def send_tokens_def for_tokens_def for_token_def amounts_def
      checked_multiply_ratio_def denom_origin_def send_on_local_def total_amount_def increase_outstanding_def
      update_outstanding_def tokens_to_attr_def toy_send_def toy_sub_def toy_add_def toy_bank_def
      dispatch_def [unfolded numeral_2_eq_2] call_reply_def relay_reply_def IBC_SEND_ID_def no_response_def
      toy_sent_def)

end
