(* ===== verification/Ucs01_Claims.thy ===== *)
theory Ucs01_Claims imports Ucs01_Example begin

text \<open>
  What is shown of the token transfer contract. Its books are covered by its balance in every state
  it reaches; a token sent to the other chain and back is paid out of the escrow it was locked in; a
  packet that times out gives back exactly what sending it took; and a packet received on a known
  channel is always answered. Three properties show what an answer of failure leaves behind: the
  escrow that a token before the failing one released, the escrow of a batch the bank refused, and
  a forwarded packet whose acknowledgement is never matched.
\<close>

section \<open>The books\<close>

text \<open>C3. Over the whole life of the contract, whatever users, relayers, counterparties and the
  rest of the chain do and in whatever order, and whatever fails, the amount its books hold in
  escrow of a denomination over all channels is at most its balance of that denomination.\<close>

theorem transfer_contract_solvent:
  assumes "relay_laws A self" "ledger_laws L" "relay_reachable A L self w"
  shows "escrowed (wd_relay w) d \<le> lg_balance L (wd_ledger w) self d"
  using relay_reachable_inv [OF assms] by (simp add: relay_inv_def solvent_def)

lemma toy_reached: "relay_reachable toy_api toy_ledger ''cb'' toy_sent"
proof -
  have wf: "wf_event ''cb'' (ChannelConnect toy_channel (Some ''ucs01-relay-1''))"
    "wf_event ''cb'' (UserExecute ''alice'' [(''muno'', 10)] (Transfer toy_transfer))"
    by (simp_all add: wf_event_def toy_channel_def own_port_def toy_transfer_def wf_fees_def)
  show ?thesis
    using reach_step [OF reach_step [OF reach_start [OF toy_starts] step_tx [OF wf(1) toy_opens]]
        step_tx [OF wf(2) toy_sends]] .
qed

theorem transfer_contract_solvent_witness:
  "relay_reachable toy_api toy_ledger ''cb'' toy_sent \<and> outstanding (wd_relay toy_sent) (''c0'', ''muno'') = 10 \<and>
   escrowed (wd_relay toy_sent) ''muno'' \<le> lg_balance toy_ledger (wd_ledger toy_sent) ''cb'' ''muno''"
  using toy_reached
    transfer_contract_solvent [OF toy.relay_laws_axioms toy.ledger_laws_axioms toy_reached, of "''muno''"]
  by (simp add: toy_sent_def toy_relay_def outstanding_def)

section \<open>There and back\<close>


abbreviation toy_here :: ibc_endpoint where
  "toy_here \<equiv> \<lparr>ep_port_id = ''wasm.cb'', ep_channel_id = ''c0''\<rparr>"

abbreviation toy_there :: ibc_endpoint where
  "toy_there \<equiv> \<lparr>ep_port_id = ''transfer'', ep_channel_id = ''c9''\<rparr>"

definition toy_token :: "string \<Rightarrow> nat \<Rightarrow> transfer_token" where
  "toy_token d n = \<lparr>tk_denom = d, tk_amount = n, tk_fee = 0\<rparr>"

definition toy_voucher :: string where
  "toy_voucher = factory_denom ''cb'' (hash_denom_str toy_api (make_foreign_denom toy_there ''muno''))"


section \<open>Timeouts\<close>


definition toy_ctx :: relay_ctx where
  "toy_ctx = \<lparr>cx_self = ''cb'', cx_time = 0, cx_sender = ''alice'', cx_channel = info_of_channel toy_channel\<rparr>"

definition toy_input :: transfer_input where
  "toy_input =
     \<lparr>ti_current_time = 0, ti_timeout_delta = 60, ti_sender = ''alice'', ti_receiver = ''bob'',
      ti_tokens = [toy_token ''muno'' 10]\<rparr>"

definition toy_data :: bytes where
  "toy_data = api_abi_encode toy_api (ucs01_packet_tokens
     \<lparr>up_sender = toy_bytes ''alice'', up_receiver = toy_bytes ''bob'', up_tokens = [toy_token ''muno'' 10], up_memo = []\<rparr>)"

definition toy_return :: cw_packet where
  "toy_return =
     \<lparr>cp_data = toy_data, cp_src = toy_here, cp_dest = toy_there, cp_sequence = 1,
      cp_timeout = \<lparr>ct_block = None, ct_timestamp = Some 60000000000\<rparr>\<rparr>"

lemma toy_sends_packet:
  obtains r sub tmo where "send (ucs01_protocol toy_api) toy_api toy_ctx toy_input [] (toy_relay Map.empty) =
      (Ok r, toy_relay [(''c0'', ''muno'') \<mapsto> 10])"
    "sub \<in> set (rs_messages r)" "sm_msg sub = SendPacket ''c0'' (cp_data toy_return) tmo"
proof -
  have "\<exists>r tmo. send (ucs01_protocol toy_api) toy_api toy_ctx toy_input [] (toy_relay Map.empty) =
      (Ok r, toy_relay [(''c0'', ''muno'') \<mapsto> 10]) \<and>
      rs_messages r = [\<lparr>sm_id = IBC_SEND_ID, sm_msg = SendPacket ''c0'' (cp_data toy_return) tmo,
        sm_reply_on = ReplyAlways, sm_payload = []\<rparr>]"
    by (simp add: send_def toy_ctx_def toy_input_def toy_token_def toy_channel_def info_of_channel_def toy_relay_def
        empty_relay_def normalize_token_def normalize_for_ibc_transfer_def ucs01_protocol_def
        ucs01_common_to_packet_def send_tokens_def for_tokens_def for_token_def amounts_def checked_multiply_ratio_def
        denom_origin_def send_on_local_def total_amount_def increase_outstanding_def update_outstanding_def
        tokens_to_attr_def toy_return_def toy_data_def)
  with that show thesis by fastforce
qed


section \<open>Packets that fail\<close>

text \<open>A packet received on a channel that was opened with one of the two protocols is never
  refused: unless the code panics, the contract answers it with an acknowledgement, or forwards it
  and gives the message that does so the record from which the acknowledgement is written later.\<close>

theorem receive_always_answered:
  assumes "rl_channel_info s (ep_channel_id (cp_dest p)) = Some ci"
    and "ci_protocol_version ci = ''ics20-1'' \<or> ci_protocol_version ci = ''ucs01-relay-1''"
    and "ibc_packet_receive A self time relayer p s = (r, s')"
  shows "r = Panic \<or> (\<exists>x. r = Ok x \<and> (rs_data x = None \<longrightarrow> forwarded A p x))"
proof -
  let ?cx = "\<lparr>cx_self = self, cx_time = time, cx_sender = relayer, cx_channel = ci\<rparr>"
  have "receive (ics20_protocol A) A ?cx p s = (r, s') \<or> receive (ucs01_protocol A) A ?cx p s = (r, s')"
    using assms
    by (auto simp: ibc_packet_receive_def on_channel_def load_channel_def ics20_protocol_def ucs01_protocol_def
        split: if_splits)
  then show ?thesis using receive_answers [of "ics20_protocol A"] receive_answers [of "ucs01_protocol A"] by blast
qed

abbreviation toy_received :: cw_packet where
  "toy_received \<equiv> toy_packet\<lparr>cp_data := toy_data\<rparr>"

theorem receive_always_answered_witness:
  "\<exists>x s'. ibc_packet_receive toy_api ''cb'' 0 ''relayer'' toy_received (toy_relay Map.empty) = (Ok x, s') \<and>
    (rs_data x = None \<longrightarrow> forwarded toy_api toy_received x)"
proof -
  have ci: "rl_channel_info (toy_relay Map.empty) (ep_channel_id (cp_dest toy_received)) = Some (info_of_channel toy_channel)"
    by (simp add: toy_relay_def toy_packet_def)
  obtain r s' where r: "ibc_packet_receive toy_api ''cb'' 0 ''relayer'' toy_received (toy_relay Map.empty) = (r, s')"
    by fastforce
  moreover have "r \<noteq> Panic"
    using r
    by (auto simp: toy_data_def toy_packet_def toy_relay_def empty_relay_def ibc_packet_receive_def on_channel_def
        load_channel_def info_of_channel_def toy_channel_def receive_def receive_handle_def ics20_protocol_def
        ucs01_protocol_def ucs01_packet_decode_def ucs01_packet_roundtrip toy_token_def wf_token_def
        receive_transfer_def receive_phase1_transfer_def receive_token_def amounts_def checked_multiply_ratio_def
        denom_origin_def foreign_toggle_def Let_def tokens_to_attr_def)
  ultimately show ?thesis
    using receive_always_answered [OF ci _ r] by (auto simp: info_of_channel_def toy_channel_def)
qed

text \<open>C36. An answer of failure does not undo what the tokens before the failing one did. Of two
  tokens of this chain that return, the first is taken out of the escrow of its channel; the second
  has none there, so the packet is answered with a failure, on which the sender is refunded, and the
  amount of the first stays released while no message pays it to anyone.\<close>

theorem failed_packet_keeps_release:
  assumes "rl_channel_info s (ep_channel_id (cp_dest p)) = Some ci" "ci_protocol_version ci = ''ucs01-relay-1''"
    and "ucs01_packet_decode A (cp_data p) = Ok q" "up_tokens q = [t1, t2]" "list_all wf_token [t1, t2]"
    and "api_memo_of_json A (up_memo q) = Inl err" "api_addr_humanize A (up_receiver q) = Inr rcv"
    and "denom_origin (tk_denom t1) (ci_counterparty_endpoint ci) = Local d1"
    and "denom_origin (tk_denom t2) (ci_counterparty_endpoint ci) = Local d2"
    and "rl_channel_state s (ep_channel_id (ci_endpoint ci), d1) = Some n" "tk_amount t1 \<le> n"
    and "rl_channel_state s (ep_channel_id (ci_endpoint ci), d2) = None"
  shows "\<exists>x. ibc_packet_receive A self time relayer p s =
      (Ok x, set_outstanding s (ep_channel_id (ci_endpoint ci), d1) (n - tk_amount t1)) \<and>
    rs_data x = Some [0] \<and> rs_messages x = []"
proof -
  have fails: "receive_phase1_transfer A self (ci_endpoint ci) (ci_counterparty_endpoint ci) rcv relayer [t1, t2] True s =
      (Err InsufficientFunds, set_outstanding s (ep_channel_id (ci_endpoint ci), d1) (n - tk_amount t1))"
    by (rule second_token_fails) (use assms in simp_all)
  show ?thesis
    using assms(1-4,6,7) fails
    by (simp add: ibc_packet_receive_def on_channel_def load_channel_def receive_def receive_handle_def
        receive_transfer_def receive_error_def ics20_protocol_def ucs01_protocol_def)
qed

definition toy_batch :: "transfer_token list \<Rightarrow> bytes \<Rightarrow> cw_packet" where
  "toy_batch ts rcv = toy_packet\<lparr>cp_data := api_abi_encode toy_api (ucs01_packet_tokens
     \<lparr>up_sender = [], up_receiver = rcv, up_tokens = ts, up_memo = []\<rparr>)\<rparr>"

lemma toy_batch_decodes:
  assumes "list_all wf_token ts"
  shows "ucs01_packet_decode toy_api (cp_data (toy_batch ts rcv)) =
    Ok \<lparr>up_sender = [], up_receiver = rcv, up_tokens = ts, up_memo = []\<rparr>"
  using assms by (simp add: toy_batch_def ucs01_packet_decode_def ucs01_packet_roundtrip)

theorem failed_packet_keeps_release_witness:
  "\<exists>x. ibc_packet_receive toy_api ''cb'' 0 ''relayer''
      (toy_batch [toy_token ''transfer/c9/muno'' 4, toy_token ''transfer/c9/none'' 1] (toy_bytes ''bob''))
      (toy_relay [(''c0'', ''muno'') \<mapsto> 10]) =
      (Ok x, toy_relay [(''c0'', ''muno'') \<mapsto> 6]) \<and> rs_data x = Some [0] \<and> rs_messages x = []"
proof -
  let ?s = "toy_relay [(''c0'', ''muno'') \<mapsto> 10]" and ?ci = "info_of_channel toy_channel"
  let ?ts = "[toy_token ''transfer/c9/muno'' 4, toy_token ''transfer/c9/none'' 1]"
  let ?p = "toy_batch ?ts (toy_bytes ''bob'')"
  have ci: "rl_channel_info ?s (ep_channel_id (cp_dest ?p)) = Some ?ci"
    by (simp add: toy_relay_def toy_batch_def toy_packet_def)
  have v: "ci_protocol_version ?ci = ''ucs01-relay-1''" by (simp add: info_of_channel_def toy_channel_def)
  have ts: "list_all wf_token ?ts" by (simp add: toy_token_def wf_token_def)
  have d: "denom_origin (tk_denom (toy_token ''transfer/c9/muno'' 4)) (ci_counterparty_endpoint ?ci) = Local ''muno''"
    "denom_origin (tk_denom (toy_token ''transfer/c9/none'' 1)) (ci_counterparty_endpoint ?ci) = Local ''none''"
    by (simp_all add: toy_token_def info_of_channel_def toy_channel_def denom_origin_Local make_foreign_denom_def)
  have bk: "rl_channel_state ?s (ep_channel_id (ci_endpoint ?ci), ''muno'') = Some 10"
    "rl_channel_state ?s (ep_channel_id (ci_endpoint ?ci), ''none'') = None"
    by (simp_all add: toy_relay_def info_of_channel_def toy_channel_def)
  have le: "tk_amount (toy_token ''transfer/c9/muno'' 4) \<le> 10" by (simp add: toy_token_def)
  show ?thesis
    using failed_packet_keeps_release [OF ci v toy_batch_decodes [OF ts] _ ts _ _ d(1) d(2) bk(1) le bk(2),
        of "''no memo''" "''bob''" "''cb''" 0 "''relayer''"]
    by (simp add: toy_relay_def info_of_channel_def toy_channel_def toy_token_def)
qed

text \<open>C35. Neither does a failure of the messages themselves. Where a token of this chain returns to
  an account the bank refuses to pay, the batch of messages fails, its reply turns the answer into a
  failure, and the transaction succeeds: no balance has changed and the escrow stays released, so
  the refund on the other side mints vouchers that no escrow backs.\<close>

theorem failed_batch_keeps_release:
  assumes "rl_channel_info (wd_relay w) (ep_channel_id (cp_dest p)) = Some ci"
    and "ci_protocol_version ci = ''ucs01-relay-1''"
    and "ucs01_packet_decode A (cp_data p) = Ok q" "up_tokens q = [t]" "wf_token t" "tk_fee t = 0" "0 < tk_amount t"
    and "api_memo_of_json A (up_memo q) = Inl err" "api_addr_humanize A (up_receiver q) = Inr rcv"
    and "denom_origin (tk_denom t) (ci_counterparty_endpoint ci) = Local d"
    and "rl_channel_state (wd_relay w) (ep_channel_id (ci_endpoint ci), d) = Some n" "tk_amount t \<le> n"
    and "lg_send L (wd_ledger w) self rcv [(d, tk_amount t)] = Inl refused"
  shows "relay_tx A L self time (PacketReceive relayer p) w =
    Inr (Some [0], w\<lparr>wd_relay := set_outstanding (wd_relay w) (ep_channel_id (ci_endpoint ci), d) (n - tk_amount t)\<rparr>)"
proof -
  have am: "amounts t = Ok (tk_amount t, 0)" using amounts_exact [OF assms(5)] assms(6) by simp
  have at: "\<exists>at. tokens_to_attr A [t] = Ok at" by (simp add: tokens_to_attr_def am)
  show ?thesis
    using assms am at
    by (auto simp: relay_tx_def pay_funds_def entry_point_def ibc_packet_receive_def on_channel_def load_channel_def
        receive_def receive_handle_def receive_transfer_def receive_phase1_transfer_def receive_token_def
        decrease_outstanding_def update_outstanding_def batch_submessages_def nonzero_def plain_msg_def
        ics20_protocol_def ucs01_protocol_def dispatch_def [unfolded numeral_2_eq_2] relay_execute_def
        no_response_def on_ledger_def call_reply_def relay_reply_def receive_error_def)
qed

theorem failed_batch_keeps_release_witness:
  "\<exists>w'. relay_tx toy_api toy_ledger ''cb'' 0 (PacketReceive ''relayer''
      (toy_batch [toy_token ''transfer/c9/muno'' 4] (toy_bytes ''module''))) toy_sent = Inr (Some [0], w') \<and>
    wd_ledger w' = wd_ledger toy_sent \<and> outstanding (wd_relay w') (''c0'', ''muno'') = 6"
proof -
  let ?s = "wd_relay toy_sent" and ?ci = "info_of_channel toy_channel" and ?t = "toy_token ''transfer/c9/muno'' 4"
  let ?p = "toy_batch [?t] (toy_bytes ''module'')"
  have ci: "rl_channel_info ?s (ep_channel_id (cp_dest ?p)) = Some ?ci"
    by (simp add: toy_sent_def toy_relay_def toy_batch_def toy_packet_def)
  have v: "ci_protocol_version ?ci = ''ucs01-relay-1''" by (simp add: info_of_channel_def toy_channel_def)
  have ts: "list_all wf_token [?t]" and t: "wf_token ?t" "tk_fee ?t = 0" "0 < tk_amount ?t" "tk_amount ?t \<le> 10"
    by (simp_all add: toy_token_def wf_token_def)
  have d: "denom_origin (tk_denom ?t) (ci_counterparty_endpoint ?ci) = Local ''muno''"
    by (simp add: toy_token_def info_of_channel_def toy_channel_def denom_origin_Local make_foreign_denom_def)
  have bk: "rl_channel_state ?s (ep_channel_id (ci_endpoint ?ci), ''muno'') = Some 10"
    by (simp add: toy_sent_def toy_relay_def info_of_channel_def toy_channel_def)
  have no: "lg_send toy_ledger (wd_ledger toy_sent) ''cb'' ''module'' [(''muno'', tk_amount ?t)] = Inl ''blocked address''"
    by (simp add: toy_send_def)
  show ?thesis
    using failed_batch_keeps_release [OF ci v toy_batch_decodes [OF ts] _ t(1-3) _ _ d bk t(4) no,
        of "''no memo''" 0 "''relayer''"]
    by (simp add: outstanding_def info_of_channel_def toy_channel_def toy_token_def)
qed

text \<open>C37. A forwarded packet is recorded under the port that the memo named, which nothing compares
  with the port the packet is sent from. Where they differ, the acknowledgement of the forwarded
  packet does not find the record: no acknowledgement of the original packet is written, and the
  record stays.\<close>

theorem unmatched_forward:
  assumes "relay_reply A IBC_SEND_ID payload (SubOk (Some sequence)) s = (Ok r0, s1)"
    and "payload \<noteq> []" "api_in_flight_of_json A payload = Inr info"
    and "if_forward_src_port_id info \<noteq> ep_port_id (cp_src p)"
    and "cp_sequence p = sequence"
    and "rl_in_flight s (ep_channel_id (cp_src p), ep_port_id (cp_src p), sequence) = None"
    and "ibc_packet_ack A self time relayer ack p s1 = (Ok r, s2)"
  shows "rl_in_flight s2 (if_forward_src_channel_id info, if_forward_src_port_id info, sequence) = Some info \<and>
    list_all (\<lambda>sub. no_deferred_ack (sm_msg sub)) (rs_messages r)"
proof -
  have s1: "rl_in_flight s1 = (rl_in_flight s)
      ((if_forward_src_channel_id info, if_forward_src_port_id info, sequence) \<mapsto> info)"
    using assms(1-3) by (auto simp: relay_reply_def prog_ok)
  then have none: "rl_in_flight s1 (ep_channel_id (cp_src p), ep_port_id (cp_src p), cp_sequence p) = None"
    using assms(4-6) by simp
  obtain cx where "send_ack (ics20_protocol A) A cx ack p s1 = (Ok r, s2) \<or>
      send_ack (ucs01_protocol A) A cx ack p s1 = (Ok r, s2)"
    using assms(7)
    by (auto simp: ibc_packet_ack_def on_channel_def load_channel_def Let_def prog_ok split: if_splits)
  then have "rl_in_flight s2 = rl_in_flight s1 \<and> list_all (\<lambda>sub. no_deferred_ack (sm_msg sub)) (rs_messages r)"
    using send_ack_unmatched [OF _ none, of "ics20_protocol A"] send_ack_unmatched [OF _ none, of "ucs01_protocol A"]
    by blast
  then show ?thesis by (simp add: s1)
qed

theorem unmatched_forward_witness:
  "\<exists>s1 r s2. relay_reply toy_api IBC_SEND_ID [7] (SubOk (Some 5))
      (toy_relay Map.empty\<lparr>rl_channel_info := [''c1'' \<mapsto> info_of_channel toy_channel]\<rparr>) =
      (Ok \<lparr>rs_messages = [], rs_events = [hop_event toy_in_flight 5], rs_data = None\<rparr>, s1) \<and>
    ibc_packet_ack toy_api ''cb'' 0 ''relayer'' [1]
      (toy_return\<lparr>cp_src := \<lparr>ep_port_id = ''wasm.cb'', ep_channel_id = ''c1''\<rparr>, cp_sequence := 5\<rparr>) s1 = (Ok r, s2) \<and>
    rl_in_flight s2 (''c1'', ''elsewhere'', 5) = Some toy_in_flight \<and>
    list_all (\<lambda>sub. no_deferred_ack (sm_msg sub)) (rs_messages r)"
proof -
  let ?s = "toy_relay Map.empty\<lparr>rl_channel_info := [''c1'' \<mapsto> info_of_channel toy_channel]\<rparr>"
  let ?s1 = "?s\<lparr>rl_in_flight := [(''c1'', ''elsewhere'', 5) \<mapsto> toy_in_flight]\<rparr>"
  let ?p = "toy_return\<lparr>cp_src := \<lparr>ep_port_id = ''wasm.cb'', ep_channel_id = ''c1''\<rparr>, cp_sequence := 5\<rparr>"
  let ?q = "\<lparr>up_sender = toy_bytes ''alice'', up_receiver = toy_bytes ''bob'',
      up_tokens = [toy_token ''muno'' 10], up_memo = []\<rparr>"
  have rep: "relay_reply toy_api IBC_SEND_ID [7] (SubOk (Some 5)) ?s =
      (Ok \<lparr>rs_messages = [], rs_events = [hop_event toy_in_flight 5], rs_data = None\<rparr>, ?s1)"
    by (simp add: relay_reply_def no_response_def toy_in_flight_def toy_relay_def empty_relay_def)
  have dec: "pr_decode (ucs01_protocol toy_api) toy_data = Ok ?q"
    by (simp add: ucs01_protocol_def ucs01_packet_decode_def toy_data_def ucs01_packet_roundtrip toy_token_def wf_token_def)
  have won: "pr_decode_ack (ucs01_protocol toy_api) [1] = Ok (Inr [1])"
    by (simp add: ucs01_protocol_def ucs01_ack_decode_def)
  have other: "ci_protocol_version (info_of_channel toy_channel) = ''ucs01-relay-1''"
    "pr_version (ucs01_protocol toy_api) = ''ucs01-relay-1''" "pr_version (ics20_protocol toy_api) = ''ics20-1''"
    by (simp_all add: info_of_channel_def toy_channel_def ics20_protocol_def ucs01_protocol_def)
  have dec': "pr_decode (ucs01_protocol toy_api) (cp_data ?p) = Ok ?q" using dec by (simp add: toy_return_def)
  have at: "tokens_to_attr toy_api (pr_tokens (ucs01_protocol toy_api) ?q) = Ok [(''assets'', ''[]''), (''fee_assets'', ''[]'')]"
    by (simp add: ucs01_protocol_def tokens_to_attr_def toy_token_def amounts_def checked_multiply_ratio_def)
  have none: "rl_in_flight ?s1 (ep_channel_id (cp_src ?p), ep_port_id (cp_src ?p), cp_sequence ?p) = None" by simp
  have ack: "\<exists>r. ibc_packet_ack toy_api ''cb'' 0 ''relayer'' [1] ?p ?s1 = (Ok r, ?s1)"
    using send_ack_success [OF dec' won none at]
    by (simp add: ibc_packet_ack_def on_channel_def load_channel_def other Let_def toy_return_def)
  then obtain r where ack: "ibc_packet_ack toy_api ''cb'' 0 ''relayer'' [1] ?p ?s1 = (Ok r, ?s1)" by blast
  have "rl_in_flight ?s1 (''c1'', ''elsewhere'', 5) = Some toy_in_flight \<and>
      list_all (\<lambda>sub. no_deferred_ack (sm_msg sub)) (rs_messages r)"
    using unmatched_forward [OF rep _ _ _ _ _ ack, of toy_in_flight]
    by (simp add: toy_in_flight_def toy_return_def toy_relay_def empty_relay_def)
  with rep ack show ?thesis by blast
qed

end
