(* ===== verification/Spec2Isabelle.thy ===== *)
theory Spec2Isabelle imports Near_Claims Vm_Claims Data_Claims Ics23_Claims Tm_Claims Cb_Claims Wasm_Example Ucs01_Claims begin

text \<open>
  This development models the IBC implementation that runs as a contract on NEAR: the host-independent
  state machine of \<^verbatim>\<open>lib/ibc-vm-rs\<close>, its host \<^verbatim>\<open>lib/near/near-ibc\<close>, and the part of \<^verbatim>\<open>lib/unionlabs\<close>
  that both are built on (identifiers, heights, store paths, channel and connection ends, packets,
  events and their protobuf forms); and what such a host asks about other chains: the Merkle proofs of
  \<^verbatim>\<open>lib/ics23\<close>, the header verifier \<^verbatim>\<open>lib/tendermint-verifier\<close> with the Tendermint light client contract
  built on the two, and the zero-knowledge verifier \<^verbatim>\<open>lib/cometbls-groth16-verifier\<close> with the CometBLS light
  client contract; and what such a host carries packets for: the token transfer contract
  \<^verbatim>\<open>cosmwasm/ucs01-relay\<close> with its library \<^verbatim>\<open>cosmwasm/ucs01-relay-api\<close>.

  \<^bold>\<open>How the program is put together.\<close> A message (create a client, open a connection, receive a packet
  and so on) is a small machine: an enum with one constructor per stage. \<^verbatim>\<open>IbcState::process\<close> takes
  the stage and the answers to the last action, works on the host's store through the trait
  \<^verbatim>\<open>IbcHost\<close>, and gives either the next stage with an action (queries to a light client, or a call of
  a light client or an application) or events and a result. The NEAR contract runs a stage, sends
  the action as a promise and keeps nothing of the message itself: the next stage travels in the
  arguments of the callback. Between a call and its callback any other call or callback may run.

  A light client answers those queries. The Tendermint client is a CosmWasm contract: the host sends it
  queries and sudo messages, which \<^verbatim>\<open>lib/ics-008-wasm-client\<close> decodes and dispatches; it keeps a client
  state, a consensus state per height and metadata to find neighbours in time. It verifies a header
  against a stored consensus state with \<^verbatim>\<open>tendermint-verifier\<close>, and a stored value of the other chain
  against the root of a consensus state with \<^verbatim>\<open>ics23\<close>. The CometBLS client does the same with a Groth16
  proof that the validators of the trusted state signed the header.

  The token transfer contract is called by users (\<^verbatim>\<open>execute\<close>) and by the chain's IBC module (a packet
  received, acknowledged or timed out). It answers with messages, which the chain runs after the
  handler: bank transfers, mints and burns of the token factory, a packet to send, calls of itself.
  Of a message that fails only the message is undone, and the contract's \<^verbatim>\<open>reply\<close> is called where it
  asked for that.

  \<^bold>\<open>Theories and code.\<close> Names of definitions follow the code; a constructor \<^verbatim>\<open>Enum::Variant\<close> is written
  \<^verbatim>\<open>Enum_Variant\<close>.

    \<^item> \<open>Prelude\<close>: results of Rust code as the type \<open>outcome\<close> (a value, an error, a panic) in a state
      passing style that keeps what was written before an error; the collection \<open>prog_ok\<close> that turns
      a run that returned into the facts of its steps; big-endian \<^verbatim>\<open>u64\<close>.
    \<^item> \<open>Text_Format\<close>, \<open>Ids\<close>, \<open>Heights\<close>, \<open>Ics24\<close>: decimal numbers and splitting; \<^verbatim>\<open>id.rs\<close>, \<^verbatim>\<open>validated.rs\<close>,
      \<^verbatim>\<open>bounded.rs\<close>; \<^verbatim>\<open>height.rs\<close>; \<^verbatim>\<open>ics24.rs\<close> with the macro \<^verbatim>\<open>ibc_path\<close> of \<^verbatim>\<open>lib/macros\<close> as an interpreter
      of its templates.
    \<^item> \<open>Ibc_Types\<close>: the types under \<^verbatim>\<open>unionlabs/src/ibc/core\<close> and their conversions to and from the
      generated protobuf structs; the wire format is the parameter \<open>prost\<close>, of which only
      \<open>prost_ok\<close> (decoding undoes encoding) is assumed.
    \<^item> \<open>Vm_Types\<close>: \<^verbatim>\<open>ibc-vm-rs/src/lib.rs\<close>, with the trait \<^verbatim>\<open>IbcHost\<close> as the record \<open>ibc_host\<close>.
      \<open>Vm_Client\<close>, \<open>Vm_Connection\<close>, \<open>Vm_Channel\<close>, \<open>Vm_Packet\<close>: one theory per file of
      \<^verbatim>\<open>ibc-vm-rs/src/states\<close>, one datatype and one \<open>_process\<close> function per machine. \<open>Vm\<close>: the union of
      the machines, \<^verbatim>\<open>IbcState::process\<close>, and a driver that feeds a machine its answers.
    \<^item> \<open>Host_Laws\<close>: the locale \<open>ibc_store\<close>, what a machine needs of a host (each operation acts on the
      key-value store at the text of its path), with what every message may write proved once inside
      it. \<open>Near_Contract\<close>: the contract's state, its \<^verbatim>\<open>impl IbcHost\<close> and the interpretation of the
      locale on it.
    \<^item> \<open>Near_Step\<close>: the entry points, the callbacks, \<^verbatim>\<open>init\<close> and \<^verbatim>\<open>step\<close> of \<^verbatim>\<open>near-ibc/src/contract.rs\<close> with
      the promises they make. \<open>Near_System\<close>: the contract together with its pending callbacks as a
      step relation, its reachable states and their invariants.
    \<^item> \<open>Peer\<close>: what it means for the answers to a message to be true of another contract's store.
      \<open>Connection_Handshake\<close>, \<open>Channel_Handshake\<close>, \<open>Packet_Flow\<close>: the properties that relate two
      chains. \<open>Example_Codec\<close>, \<open>Packet_Examples\<close>: a concrete wire format, concrete chains and runs on
      which the properties are applied. \<open>Near_Claims\<close>, \<open>Vm_Claims\<close>, \<open>Data_Claims\<close>: the remaining
      properties of the contract, the machines and the data.

    \<^item> \<open>Outcomes\<close>: results without a state, and the collections \<open>outcome_ok\<close> and \<open>no_panic\<close>.
    \<^item> \<open>Ics23_Types\<close>, \<open>Ics23_Proto\<close>: \<^verbatim>\<open>unionlabs/src/cosmos/ics23\<close> and the Merkle proof and root types.
      \<open>Ics23_Ops\<close>, \<open>Ics23_Verify\<close>, \<open>Ics23_Api\<close>: \<^verbatim>\<open>ics23/src\<close> (\<^verbatim>\<open>ops\<close>, \<^verbatim>\<open>existence_proof.rs\<close>, \<^verbatim>\<open>verify.rs\<close>,
      \<^verbatim>\<open>ibc_api.rs\<close>), one theory per layer. \<open>Ics23_Trees\<close>, \<open>Ics23_Multistore\<close>: the trees that the proofs
      are about, as the abstract specification; \<open>Ics23_Soundness\<close>: the proofs refine them.
    \<^item> \<open>Proto_Time\<close>: \<^verbatim>\<open>google/protobuf/timestamp.rs\<close> and \<^verbatim>\<open>duration.rs\<close>. \<open>Tm_Types\<close>, \<open>Tm_Proto\<close>:
      \<^verbatim>\<open>unionlabs/src/tendermint\<close> and the light-client header. \<open>Tm_Merkle\<close>, \<open>Tm_Verify\<close>: the files of
      \<^verbatim>\<open>tendermint-verifier/src\<close>; \<open>Tm_Soundness\<close>: what an accepted commit and header establish, with the
      locale \<open>signature_host\<close>, what the tally needs of the host's batch check.
    \<^item> \<open>Wasm_Storage\<close>: the contract's store as an ordered map (locale \<open>ordered_store\<close>, interpreted on
      association lists) and the keys. \<open>Wasm_Client\<close>: \<^verbatim>\<open>ics-008-wasm-client/src\<close>, the trait \<^verbatim>\<open>IbcClient\<close>
      as the record \<open>ibc_client\<close> and its dispatch, the locale \<open>wasm_laws\<close> of the encodings.
    \<^item> \<open>Tm_Client\<close>: \<^verbatim>\<open>tendermint-light-client/src\<close>. \<open>Tm_System\<close>: the stores the host can bring the client
      to, as a step relation, and their invariant (locale \<open>tm_client\<close>). \<open>Ics23_Example\<close>, \<open>Tm_Example\<close>:
      concrete hashes, encodings, signatures, a tree, a client and a header; \<open>Ics23_Claims\<close>, \<open>Tm_Claims\<close>:
      the properties.

    \<^item> \<open>Client_History\<close>: the search for neighbours in time and the locale \<open>client_history\<close> of a client
      that keeps its states ordered, shared by both clients. \<open>Wasm_Example\<close>: concrete bytes of heights and
      of the wrapped client state.
    \<^item> \<open>Cb_Types\<close>: the CometBLS states and headers with their protobuf forms. \<open>Cb_Groth16\<close>:
      \<^verbatim>\<open>cometbls-groth16-verifier\<close>, over the record \<open>bn254\<close> of the curve's operations. \<open>Cb_Client\<close>: the contract
      \<^verbatim>\<open>cometbls-light-client\<close>; \<open>Cb_System\<close>: the client under its host; \<open>Cb_Example\<close>, \<open>Cb_Claims\<close>: a concrete
      world and the properties.
    \<^item> \<open>Ucs01_Types\<close>: tokens, packets and denominations of the token transfer (\<^verbatim>\<open>types.rs\<close>). \<open>Ucs01_Relay\<close>: the
      contract's state and what it does with a token. \<open>Ucs01_Protocol\<close>: the trait \<^verbatim>\<open>TransferProtocol\<close> as the
      record \<open>protocol\<close>, its two implementations and its methods. \<open>Ucs01_Contract\<close>: forwarding and the
      entry points.
    \<^item> \<open>Ucs01_Chain\<close>: the chain around the contract, with the dispatch of messages and replies, the
      transactions \<open>relay_tx\<close> and the life of the contract \<open>relay_reachable\<close>; the locales \<open>ledger_laws\<close> (bank
      and token factory) and \<open>relay_laws\<close> (libraries).
    \<^item> \<open>Ucs01_Escrow\<close>, \<open>Ucs01_Moves\<close>, \<open>Ucs01_Transfer\<close>, \<open>Ucs01_Dispatch\<close>, \<open>Ucs01_Solvency\<close>, \<open>Ucs01_System\<close>: the
      invariant of the books from the bottom up: a change of one entry, the tokens of a packet, a
      protocol (locale \<open>transfer_protocol\<close>, which both protocols are shown to be), a dispatched
      response, an entry point, a reachable state. \<open>Ucs01_Refunds\<close>: refunds, the way of a token back,
      answers. \<open>Ucs01_Example\<close>, \<open>Ucs01_Claims\<close>: a concrete chain and the properties.

  \<^bold>\<open>What the theorems show.\<close>

    \<^item> Agreement: a step of a handshake, a received packet and an acknowledgement go on only when the
      proof they ask for, if true, says that the other chain stored the matching end, commitment or
      acknowledgement; and the honest run of each handshake and of a packet's way finishes.
    \<^item> The contract: in every reachable state, with calls and callbacks interleaved in any order,
      stored ends decode, identifiers of pending channels and clients are fresh, a client keeps its
      account, receipts and acknowledgements stay, and sending never overwrites a commitment.
    \<^item> Every message ends after at most three answers, whatever they are; each guard refuses with its
      error and leaves the store as it was; each message writes only at the paths that are its own.
    \<^item> Data: paths print without collision and read back, protobuf forms read back, the validators
      accept exactly the identifiers of ICS-024.
    \<^item> Merkle proofs: an accepted membership proof means that the value is in the tree with the root, and
      a stored value has a proof; absence at the edges of a tree is sound. With two neighbours the
      absent key is not looked at, so a value can be proved present and absent.
    \<^item> The Tendermint client: an accepted header is signed by more than two thirds of its validators and
      tied to a stored consensus state by the announced set or the trust level; the tally is exact on
      commits whose signatures verify, does not overflow and counts no validator twice; hashes are the
      RFC 6962 roots; in every store the host can reach the consensus states are ordered in time, and
      misbehaviour is found exactly where a header contradicts one that has metadata.
    \<^item> The CometBLS client: an accepted header comes with a proof whose public input binds the header
      and the trusted validators; its states are ordered in time and misbehaviour is found exactly
      where metadata shows it; the trusting period is not compared with the trusted state.
    \<^item> Token transfer: in every reachable state the escrow books are covered by the contract's balance,
      whatever fails and in whatever order; a token that goes to the other chain and back is paid out
      of its own escrow; a timeout gives back exactly what was given. An answer of failure keeps the
      releases made before it, and a forward under a foreign port is never acknowledged.
    \<^item> Behaviour that its callers should know: because the check of a receipt, a commitment or a
      channel's state is made when a message starts and the write when its last callback runs, a
      packet can be delivered twice, acknowledged twice, and an open channel re-pointed; a client
      whose initialisation failed is registered; one path does not parse; one error is misreported.

  \<^bold>\<open>Bounds.\<close> The driver \<open>vm_run\<close> takes the list of answers as its fuel; \<open>vm_rank\<close> decreases with every
  stage and is at most three, so three answers are enough. Counters are 64-bit words and wrap as in
  a release build; the invariants that need them not to wrap count the calls made and ask for fewer
  than \<open>2 ^ 64\<close> of them. Sequence numbers are words too, and \<^verbatim>\<open>SendPacket\<close> fails rather than wrap. The contract of the token
  transfer calls itself with a batch and in it with a registration, so \<open>dispatch\<close> runs its messages to
  depth two, and \<open>Ucs01_Dispatch\<close> treats every message the contract can make at that depth. Amounts
  are natural numbers with the checks of \<^verbatim>\<open>Uint128\<close> and \<^verbatim>\<open>Uint512\<close> written out.

  \<^bold>\<open>Parameters.\<close> The wire format of protobuf, SHA-256, hexadecimal printing, the validity of NEAR
  account names, the block height, the time and the caller are fields of \<open>prost\<close>, \<open>ibc_host\<close> and
  \<open>near_env\<close>. The light clients and the applications are the answers a callback is given, and so
  arbitrary; where a property needs them to be truthful it says so with \<open>query_true\<close> or \<open>peer\<close>. The hash
  functions and the varint coding of the proofs are the record \<open>crypto\<close>, the protobuf encoders of hashed
  fields \<open>tm_codec\<close>, the host's Ed25519 functions \<open>ed25519_api\<close>, the bytes of stored states \<open>wasm_codec\<close>;
  the curve operations of the Groth16 verifier \<open>bn254\<close>, the bytes, hashes, addresses and coins that the
  token transfer uses \<open>relay_api\<close>, and the bank with the token factory \<open>ledger\<close>; what is assumed of them
  is in the locales \<open>lawful_crypto\<close>, \<open>ed25519_host_laws\<close>, \<open>wasm_laws\<close>, \<open>tm_client\<close>, \<open>bn254_laws\<close>,
  \<open>cb_client\<close>, \<open>relay_laws\<close> and \<open>ledger_laws\<close>, each interpreted on a concrete world. Of the rest of
  the chain the life of the transfer contract assumes that it takes nothing from the contract's
  account and names no denomination as the contract does (\<open>others_act\<close>).

  \<^bold>\<open>Not modelled.\<close> JSON and Borsh encodings, logging, gas and storage costs, the Ethereum ABI forms,
  parsing of events from Tendermint attributes, text forms of timestamps, the light clients of the
  remaining chains with their cryptography, the arithmetic of the pairing curve, the queries of the
  transfer contract, the other CosmWasm contracts, and the relayer.
\<close>

end
